(* ===== verification/TS_Prelude.thy ===== *)
theory TS_Prelude
  imports Main "HOL-Library.Sublist"
begin

text \<open>
  Shared vocabulary of the development: how values of the TypeScript sources are represented,
  and the generic lemmas about lists, options, maps and decimal numerals that the component
  theories use.

  Representation. A JavaScript string is a \<^typ>\<open>string\<close> that holds its UTF-8 encoding, so a
  code point beyond ASCII is a short sequence of bytes. \<open>undefined\<close> and \<open>null\<close> are both
  \<^const>\<open>None\<close> where the code treats them alike (\<open>??\<close>, \<open>?.\<close>, \<open>!x\<close>). A number
  that the code only uses as an integer is an \<^typ>\<open>int\<close>. A \<open>Map\<close> or a \<open>Record\<close> that
  is only looked up by key is a partial function; where the iteration order matters it is an
  association list.
\<close>

named_theorems js_defs \<open>definitions unfolded by the component proofs\<close>

named_theorems request_defs \<open>definitions of the request builders\<close>

named_theorems frame_facts \<open>fields that an operation leaves alone\<close>

section \<open>Nullish and falsy values\<close>

definition nullish :: "'a option \<Rightarrow> 'a \<Rightarrow> 'a" where
  "nullish x d = (case x of None \<Rightarrow> d | Some v \<Rightarrow> v)"

lemma nullish_simps [simp]: "nullish None d = d" "nullish (Some v) d = v"
  by (simp_all add: nullish_def)

definition or_else :: "string \<Rightarrow> string \<Rightarrow> string" where
  "or_else s d = (if s = [] then d else s)"

lemma or_else_simps [simp]: "or_else [] d = d" "s \<noteq> [] \<Longrightarrow> or_else s d = s"
  by (simp_all add: or_else_def)

lemma or_else_nonempty: "d \<noteq> [] \<Longrightarrow> or_else s d \<noteq> []"
  by (simp add: or_else_def)

definition or_undefined :: "string \<Rightarrow> string option" where
  "or_undefined s = (if s = [] then None else Some s)"

definition truthy_str :: "string option \<Rightarrow> bool" where
  "truthy_str x = (case x of None \<Rightarrow> False | Some s \<Rightarrow> s \<noteq> [])"

lemma truthy_str_simps [simp]: "\<not> truthy_str None" "truthy_str (Some s) = (s \<noteq> [])"
  by (simp_all add: truthy_str_def)

section \<open>Decimal numerals\<close>

definition digit_chars :: string where
  "digit_chars = ''0123456789''"

definition digit_val :: "char \<Rightarrow> nat" where
  "digit_val c = (case map_of (zip digit_chars [0 ..< 10]) c of None \<Rightarrow> 0 | Some n \<Rightarrow> n)"

fun nat_str :: "nat \<Rightarrow> string" where
  "nat_str n = (if n < 10 then [digit_chars ! n] else nat_str (n div 10) @ [digit_chars ! (n mod 10)])"

declare nat_str.simps [simp del]

definition int_str :: "int \<Rightarrow> string" where
  "int_str i = (if i < 0 then ''-'' @ nat_str (nat (- i)) else nat_str (nat i))"

fun str_nat :: "string \<Rightarrow> nat" where
  "str_nat s = foldl (\<lambda>a c. 10 * a + digit_val c) 0 s"

lemma lt_ten_cases:
  fixes n :: nat
  assumes "n < 10"
  shows "n \<in> {0, 1, 2, 3, 4, 5, 6, 7, 8, 9}"
  using assms by auto

lemma digit_val_nth: "n < 10 \<Longrightarrow> digit_val (digit_chars ! n) = n"
proof -
  assume "n < 10"
  then have "n \<in> {0, 1, 2, 3, 4, 5, 6, 7, 8, 9}" by (rule lt_ten_cases)
  then show ?thesis by (elim insertE emptyE) (simp_all add: digit_val_def digit_chars_def upt_rec)
qed

lemma digit_chars_nth_mem: "n < 10 \<Longrightarrow> digit_chars ! n \<in> set digit_chars"
  by (rule nth_mem) (simp add: digit_chars_def)

lemma str_nat_nat_str [simp]: "str_nat (nat_str n) = n"
proof (induction n rule: nat_str.induct)
  case (1 n)
  show ?case
  proof (cases "n < 10")
    case True
    then show ?thesis by (simp add: nat_str.simps [of n] digit_val_nth)
  next
    case False
    with "1" have "foldl (\<lambda>a c. 10 * a + digit_val c) 0 (nat_str (n div 10)) = n div 10" by simp
    with False show ?thesis by (simp add: nat_str.simps [of n] digit_val_nth)
  qed
qed

lemma nat_str_inj [simp]: "nat_str m = nat_str n \<longleftrightarrow> m = n"
  by (metis str_nat_nat_str)

lemma nat_str_nonempty [simp]: "nat_str n \<noteq> []"
  by (subst nat_str.simps) simp

lemma nat_str_digits: "set (nat_str n) \<subseteq> set digit_chars"
proof (induction n rule: nat_str.induct)
  case (1 n)
  show ?case
  proof (cases "n < 10")
    case True
    then show ?thesis by (simp add: nat_str.simps [of n] digit_chars_nth_mem)
  next
    case False
    with "1" show ?thesis by (simp add: nat_str.simps [of n] digit_chars_nth_mem)
  qed
qed

lemma nat_str_no_char: "c \<notin> set digit_chars \<Longrightarrow> c \<notin> set (nat_str n)"
  using nat_str_digits by blast

lemma minus_not_digit: "CHR ''-'' \<notin> set digit_chars"
  by (simp add: digit_chars_def)

lemma int_str_nonempty [simp]: "int_str i \<noteq> []"
  by (simp add: int_str_def)

lemma int_str_inj [simp]: "int_str i = int_str j \<longleftrightarrow> i = j"
proof
  assume eq: "int_str i = int_str j"
  have hd_no: "\<And>n. hd (nat_str n) \<noteq> CHR ''-''"
    using nat_str_no_char [OF minus_not_digit] by (metis list.set_sel(1) nat_str_nonempty)
  show "i = j"
  proof (cases "i < 0"; cases "j < 0")
    assume "i < 0" "j < 0"
    with eq show ?thesis by (simp add: int_str_def)
  next
    assume "i < 0" "\<not> j < 0"
    with eq have "CHR ''-'' # nat_str (nat (- i)) = nat_str (nat j)" by (simp add: int_str_def)
    then show ?thesis using hd_no [of "nat j"] by (metis list.sel(1))
  next
    assume "\<not> i < 0" "j < 0"
    with eq have "nat_str (nat i) = CHR ''-'' # nat_str (nat (- j))" by (simp add: int_str_def)
    then show ?thesis using hd_no [of "nat i"] by (metis list.sel(1))
  next
    assume "\<not> i < 0" "\<not> j < 0"
    with eq show ?thesis by (simp add: int_str_def)
  qed
qed simp

lemma int_str_chars: "set (int_str i) \<subseteq> insert (CHR ''-'') (set digit_chars)"
  using nat_str_digits by (auto simp: int_str_def)

section \<open>Splitting at a separator\<close>

lemma append_sep_eq:
  assumes "a @ c # x = b @ c # y" and "c \<notin> set a" and "c \<notin> set b"
  shows "a = b \<and> x = y"
  using assms
proof (induction a arbitrary: b)
  case Nil
  then show ?case by (cases b) auto
next
  case (Cons u a)
  then show ?case by (cases b) auto
qed

fun join :: "string \<Rightarrow> string list \<Rightarrow> string" where
  "join sep [] = []"
| "join sep [x] = x"
| "join sep (x # y # ys) = x @ sep @ join sep (y # ys)"

lemma join_Cons: "xs \<noteq> [] \<Longrightarrow> join sep (x # xs) = x @ sep @ join sep xs"
  by (cases xs) simp_all

lemma join_inj_aux:
  assumes "join [c] xs = join [c] ys" and "xs \<noteq> []" and "ys \<noteq> []"
    and "\<forall>x \<in> set xs. c \<notin> set x" and "\<forall>y \<in> set ys. c \<notin> set y"
  shows "xs = ys"
  using assms
proof (induction xs arbitrary: ys)
  case Nil
  then show ?case by simp
next
  case (Cons x xs)
  from Cons.prems obtain y ys' where ys: "ys = y # ys'" by (cases ys) auto
  have cx: "c \<notin> set x" and cy: "c \<notin> set y" using Cons.prems ys by auto
  show ?case
  proof (cases "xs = []"; cases "ys' = []")
    assume "xs = []" "ys' = []"
    with Cons.prems ys show ?thesis by simp
  next
    assume "xs = []" "ys' \<noteq> []"
    with Cons.prems ys have "x = y @ [c] @ join [c] ys'" by (simp add: join_Cons)
    with cx show ?thesis by simp
  next
    assume "xs \<noteq> []" "ys' = []"
    with Cons.prems ys have "y = x @ [c] @ join [c] xs" by (simp add: join_Cons)
    with cy show ?thesis by simp
  next
    assume ne: "xs \<noteq> []" "ys' \<noteq> []"
    with Cons.prems ys have "x @ c # join [c] xs = y @ c # join [c] ys'" by (simp add: join_Cons)
    then have "x = y \<and> join [c] xs = join [c] ys'" using cx cy by (rule append_sep_eq)
    with Cons ne ys show ?thesis by simp
  qed
qed

section \<open>Stable sorting\<close>

text \<open>
  \<open>Array.prototype.sort\<close> is stable, so for a comparator that is a total preorder its result is
  the one of a stable insertion sort. The comparator is given as its "not greater" relation.
\<close>

fun insert_by :: "('a \<Rightarrow> 'a \<Rightarrow> bool) \<Rightarrow> 'a \<Rightarrow> 'a list \<Rightarrow> 'a list" where
  "insert_by le x [] = [x]"
| "insert_by le x (y # ys) = (if le x y then x # y # ys else y # insert_by le x ys)"

definition sort_by :: "('a \<Rightarrow> 'a \<Rightarrow> bool) \<Rightarrow> 'a list \<Rightarrow> 'a list" where
  "sort_by le xs = foldr (insert_by le) xs []"

lemma sort_by_simps [simp]: "sort_by le [] = []" "sort_by le (x # xs) = insert_by le x (sort_by le xs)"
  by (simp_all add: sort_by_def)

lemma set_insert_by [simp]: "set (insert_by le x ys) = insert x (set ys)"
  by (induction ys) auto

lemma set_sort_by [simp]: "set (sort_by le xs) = set xs"
  by (induction xs) auto

lemma length_insert_by [simp]: "length (insert_by le x ys) = Suc (length ys)"
  by (induction ys) auto

lemma length_sort_by [simp]: "length (sort_by le xs) = length xs"
  by (induction xs) auto

locale preorder_compare =
  fixes le :: "'a \<Rightarrow> 'a \<Rightarrow> bool"
  assumes le_total: "le x y \<or> le y x"
    and le_trans: "le x y \<Longrightarrow> le y z \<Longrightarrow> le x z"
begin

lemma insert_by_sorted: "sorted_wrt le ys \<Longrightarrow> sorted_wrt le (insert_by le x ys)"
proof (induction ys)
  case Nil
  then show ?case by simp
next
  case (Cons y ys)
  show ?case
  proof (cases "le x y")
    case True
    with Cons.prems show ?thesis by (auto intro: le_trans)
  next
    case False
    then have "le y x" using le_total by blast
    with False Cons show ?thesis by auto
  qed
qed

lemma sort_by_sorted: "sorted_wrt le (sort_by le xs)"
  by (induction xs) (auto intro: insert_by_sorted)

lemma sort_by_already_sorted: "sorted_wrt le xs \<Longrightarrow> sort_by le xs = xs"
proof (induction xs)
  case Nil
  then show ?case by simp
next
  case (Cons x xs)
  then have "sort_by le (x # xs) = insert_by le x xs" and "\<forall>y \<in> set xs. le x y" by auto
  then show ?case by (cases xs) auto
qed

end

text \<open>
  A comparator without ties between different values, such as \<open>localeCompare\<close> on the
  identifiers it is used for: its sorted order of a set is unique.
\<close>

definition linear_collation :: "('a \<Rightarrow> 'a \<Rightarrow> bool) \<Rightarrow> bool" where
  "linear_collation le \<longleftrightarrow> preorder_compare le \<and> (\<forall>x y. le x y \<and> le y x \<longrightarrow> x = y)"

definition tie_free :: "('a \<Rightarrow> 'a \<Rightarrow> bool) \<Rightarrow> 'a list \<Rightarrow> bool" where
  "tie_free le xs \<longleftrightarrow> (\<forall>x \<in> set xs. \<forall>y \<in> set xs. le x y \<and> le y x \<longrightarrow> x = y)"

lemma sorted_distinct_unique:
  "tie_free le xs \<Longrightarrow> sorted_wrt le xs \<Longrightarrow> sorted_wrt le ys \<Longrightarrow> distinct xs \<Longrightarrow> distinct ys \<Longrightarrow>
    set xs = set ys \<Longrightarrow> xs = ys"
proof (induction xs arbitrary: ys)
  case Nil
  then show ?case by simp
next
  case (Cons x xs)
  then obtain y ys' where ys: "ys = y # ys'" by (cases ys) auto
  have "x = y"
  proof (rule ccontr)
    assume ne: "x \<noteq> y"
    have "x \<in> set ys'" "y \<in> set xs" using Cons.prems ys ne by auto
    then have "le x y" "le y x" using Cons.prems ys by auto
    then show False using ne Cons.prems(1) \<open>y \<in> set xs\<close> by (auto simp: tie_free_def)
  qed
  moreover have "set xs = set ys'" using Cons.prems ys \<open>x = y\<close> by auto
  moreover have "tie_free le xs" using Cons.prems(1) by (auto simp: tie_free_def)
  ultimately show ?case using Cons.IH [of ys'] Cons.prems ys by auto
qed

lemma distinct_insert_by: "distinct (insert_by le x ys) = distinct (x # ys)"
  by (induction ys) auto

lemma distinct_sort_by [simp]: "distinct (sort_by le xs) = distinct xs"
  by (induction xs) (auto simp: distinct_insert_by)

lemma sort_by_set_eq:
  assumes "preorder_compare le" and "tie_free le xs" and "distinct xs" and "distinct ys" and "set xs = set ys"
  shows "sort_by le xs = sort_by le ys"
proof -
  have "sorted_wrt le (sort_by le xs)" "sorted_wrt le (sort_by le ys)"
    using assms(1) by (simp_all add: preorder_compare.sort_by_sorted)
  moreover have "tie_free le (sort_by le xs)" using assms(2) by (simp add: tie_free_def)
  ultimately show ?thesis using assms by (intro sorted_distinct_unique [of le]) auto
qed

section \<open>Lists\<close>

lemma take_Cons_le: "length (take n (x # xs)) \<le> n"
  by simp

lemma filter_map_concat: "concat (map (\<lambda>x. if P x then [f x] else []) xs) = map f (filter P xs)"
  by (induction xs) auto

lemma find_None_iff_list: "find P xs = None \<longleftrightarrow> (\<forall>x \<in> set xs. \<not> P x)"
  by (induction xs) auto

lemma find_SomeD: "find P xs = Some x \<Longrightarrow> x \<in> set xs \<and> P x"
  by (induction xs) (auto split: if_splits)

end
