(* ===== verification/Selector_Types.thy ===== *)
theory Selector_Types
  imports Complex_Main TS_Prelude
begin

text \<open>
  The data of the selector app (\<^verbatim>\<open>apps/selector-web/src/features/selection/types.ts\<close>). An optional
  property is an \<open>option\<close>. Record fields that several source types share carry a prefix.
\<close>

record price =
  amount_minor :: int
  price_currency :: string

record offer =
  offer_id :: string
  available_quantity :: "int option"
  offer_price :: price

datatype offer_kind = KReserved | KGa

text \<open>\<open>SelectableOffer\<close> is \<open>Offer & {...}\<close>: a record extension.\<close>

record selectable_offer = offer +
  so_kind :: offer_kind
  so_label :: string
  so_inventory_id :: string
  so_section_id :: "string option"
  so_section_name :: "string option"
  so_row :: "string option"
  so_table :: "string option"
  so_seat :: "string option"

record selection_line =
  line_offer :: selectable_offer
  line_quantity :: int

record geometry_object =
  go_object_key :: string
  go_type :: string
  go_label :: string
  go_x :: rat
  go_y :: rat
  go_width :: rat
  go_height :: rat
  go_rotation :: "rat option"

record layout_reserved_unit =
  lu_inventory_id :: string
  lu_section_id :: "string option"
  lu_section_name :: "string option"
  lu_section_object_key :: "string option"
  lu_row :: "string option"
  lu_table :: "string option"
  lu_seat :: string
  lu_display_label :: "string option"

record layout_ga_pool =
  lp_inventory_id :: string
  lp_section_id :: "string option"
  lp_section_name :: "string option"
  lp_section_object_key :: "string option"
  lp_name :: string
  lp_capacity :: int

record selection_layout =
  sl_event_id :: string
  sl_geometry :: "geometry_object list option option"  \<comment> \<open>\<open>geometry?.objects?\<close>\<close>
  sl_reserved_units :: "layout_reserved_unit list"
  sl_ga_pools :: "layout_ga_pool list"

record availability_unit =
  au_inventory_id :: string
  au_section_id :: "string option"
  au_row :: "string option"
  au_seat :: string
  au_sellability :: string
  au_offer :: "offer option"

record availability_pool =
  ap_inventory_id :: string
  ap_section_id :: "string option"
  ap_name :: string
  ap_offers :: "offer list"

record availability =
  av_reserved_units :: "availability_unit list"
  av_ga_pools :: "availability_pool list"
  av_server_time :: string

record selection_session =
  ss_id :: string
  ss_event_id :: string
  ss_return_url :: string
  ss_expires_at :: string

record event_view =
  ev_name :: string
  ev_state :: string
  ev_starts_at :: "string option"
  ev_ends_at :: "string option"
  ev_venue_name :: "string option"
  ev_address_text :: "string option"

record hold_item =
  hi_id :: string
  hi_inventory_id :: string
  hi_quantity :: int

record hold =
  hold_id :: string
  hold_status :: string
  hold_expires_at :: string
  reservation_token :: string
  hold_items :: "hold_item list"
  hold_total :: price
  hold_return_url :: string

end
