(* ===== verification/Js_Text.thy ===== *)
theory Js_Text
  imports TS_Prelude
begin

text \<open>
  The JavaScript string and regular-expression operations the sources use, on UTF-8 strings:
  white space and \<open>trim\<close>, ASCII case mapping, \<open>split\<close>, \<open>replaceAll\<close>, and a backtracking
  matcher for the class of patterns that occur (sequences of classes, greedy repetitions of a
  class, literals, \<open>\b\<close>, \<open>^\<close> and \<open>$\<close>, with alternatives at the top and in literal groups).

  Case mapping acts on the ASCII letters only; other letters are left as they are. A pattern
  with the \<open>i\<close> flag has both cases in its classes.
\<close>

section \<open>White space and trimming\<close>

definition ws_tokens :: "string list" where
  "ws_tokens =
    [[CHR 0x09], [CHR 0x0A], [CHR 0x0B], [CHR 0x0C], [CHR 0x0D], [CHR 0x20],
     [CHR 0xC2, CHR 0xA0], [CHR 0xE1, CHR 0x9A, CHR 0x80],
     [CHR 0xE2, CHR 0x80, CHR 0x80], [CHR 0xE2, CHR 0x80, CHR 0x81],
     [CHR 0xE2, CHR 0x80, CHR 0x82], [CHR 0xE2, CHR 0x80, CHR 0x83],
     [CHR 0xE2, CHR 0x80, CHR 0x84], [CHR 0xE2, CHR 0x80, CHR 0x85],
     [CHR 0xE2, CHR 0x80, CHR 0x86], [CHR 0xE2, CHR 0x80, CHR 0x87],
     [CHR 0xE2, CHR 0x80, CHR 0x88], [CHR 0xE2, CHR 0x80, CHR 0x89],
     [CHR 0xE2, CHR 0x80, CHR 0x8A], [CHR 0xE2, CHR 0x80, CHR 0xA8],
     [CHR 0xE2, CHR 0x80, CHR 0xA9], [CHR 0xE2, CHR 0x80, CHR 0xAF],
     [CHR 0xE2, CHR 0x81, CHR 0x9F], [CHR 0xE3, CHR 0x80, CHR 0x80],
     [CHR 0xEF, CHR 0xBB, CHR 0xBF]]"

definition tok_len :: "string list \<Rightarrow> string \<Rightarrow> nat" where
  "tok_len toks s = (case find (\<lambda>t. prefix t s) toks of None \<Rightarrow> 0 | Some t \<Rightarrow> length t)"

lemma tok_len_le: "tok_len toks s \<le> length s"
  by (auto simp: tok_len_def dest: find_SomeD prefix_length_le split: option.splits)

lemma tok_len_Nil [simp]: "tok_len toks [] = 0"
  using tok_len_le [of toks "[]"] by simp

function strip_start :: "string list \<Rightarrow> string \<Rightarrow> string" where
  "strip_start toks s = (let n = tok_len toks s in if n = 0 then s else strip_start toks (drop n s))"
  by pat_completeness auto
termination
proof (relation "measure (\<lambda>(toks, s). length s)", goal_cases)
  case (2 toks s x)
  then show ?case using tok_len_le [of toks s] by (cases s) auto
qed simp

declare strip_start.simps [simp del]

definition strip_end :: "string list \<Rightarrow> string \<Rightarrow> string" where
  "strip_end toks s = rev (strip_start (map rev toks) (rev s))"

definition trim_start :: "string \<Rightarrow> string" where
  "trim_start s = strip_start ws_tokens s"

definition trim_end :: "string \<Rightarrow> string" where
  "trim_end s = strip_end ws_tokens s"

definition trim :: "string \<Rightarrow> string" where
  "trim s = trim_end (trim_start s)"

lemma strip_start_unfold:
  "tok_len toks s \<noteq> 0 \<Longrightarrow> strip_start toks s = strip_start toks (drop (tok_len toks s) s)"
  by (simp add: strip_start.simps [of toks s])

lemma strip_start_id: "tok_len toks s = 0 \<Longrightarrow> strip_start toks s = s"
  by (simp add: strip_start.simps [of toks s])

lemma strip_start_suffix: "suffix (strip_start toks s) s"
proof (induction toks s rule: strip_start.induct)
  case (1 toks s)
  show ?case
  proof (cases "tok_len toks s = 0")
    case True
    then show ?thesis by (simp add: strip_start_id)
  next
    case False
    with "1" have "suffix (strip_start toks (drop (tok_len toks s) s)) (drop (tok_len toks s) s)"
      by simp
    then show ?thesis unfolding strip_start_unfold [OF False]
      by (rule suffix_order.trans) (rule suffix_drop)
  qed
qed

lemma strip_start_none: "tok_len toks (strip_start toks s) = 0"
proof (induction toks s rule: strip_start.induct)
  case (1 toks s)
  then show ?case by (cases "tok_len toks s = 0") (simp_all add: strip_start_id strip_start_unfold)
qed

lemma strip_end_prefix: "prefix (strip_end toks s) s"
  using strip_start_suffix [of "map rev toks" "rev s"]
  by (simp add: strip_end_def suffix_to_prefix)

lemma strip_end_idem: "strip_end toks (strip_end toks s) = strip_end toks s"
  by (simp add: strip_end_def strip_start_id strip_start_none)

lemma tok_len_0_iff: "[] \<notin> set toks \<Longrightarrow> tok_len toks s = 0 \<longleftrightarrow> (\<forall>t \<in> set toks. \<not> prefix t s)"
  by (auto simp: tok_len_def find_None_iff_list split: option.splits dest!: find_SomeD)

lemma ws_tokens_nonempty: "[] \<notin> set ws_tokens"
  by (simp add: ws_tokens_def)

lemma trim_idem: "trim (trim s) = trim s"
proof -
  have "tok_len ws_tokens (trim_start s) = 0"
    by (simp add: trim_start_def strip_start_none)
  moreover have "prefix (trim s) (trim_start s)"
    by (simp add: trim_def trim_end_def strip_end_prefix)
  ultimately have "tok_len ws_tokens (trim s) = 0"
    using ws_tokens_nonempty by (auto simp: tok_len_0_iff intro: prefix_order.trans)
  then have "trim_start (trim s) = trim s" by (simp add: trim_start_def strip_start_id)
  then show ?thesis by (simp add: trim_def [of "trim s"]) (simp add: trim_def trim_end_def strip_end_idem)
qed

lemma set_trim: "set (trim s) \<subseteq> set s"
  by (metis set_mono_prefix set_mono_suffix strip_end_prefix strip_start_suffix subset_trans
      trim_def trim_end_def trim_start_def)

section \<open>ASCII case mapping\<close>

definition upper_letters :: string where
  "upper_letters = ''ABCDEFGHIJKLMNOPQRSTUVWXYZ''"

definition lower_letters :: string where
  "lower_letters = ''abcdefghijklmnopqrstuvwxyz''"

definition lower_char :: "char \<Rightarrow> char" where
  "lower_char c = (case map_of (zip upper_letters lower_letters) c of None \<Rightarrow> c | Some d \<Rightarrow> d)"

definition upper_char :: "char \<Rightarrow> char" where
  "upper_char c = (case map_of (zip lower_letters upper_letters) c of None \<Rightarrow> c | Some d \<Rightarrow> d)"

definition to_lower :: "string \<Rightarrow> string" where
  "to_lower s = map lower_char s"

definition to_upper :: "string \<Rightarrow> string" where
  "to_upper s = map upper_char s"

definition alnum_chars :: string where
  "alnum_chars = digit_chars @ upper_letters @ lower_letters"

section \<open>Splitting and replacing\<close>

fun split_on :: "char \<Rightarrow> string \<Rightarrow> string list" where
  "split_on c [] = [[]]"
| "split_on c (x # xs) =
     (if x = c then [] # split_on c xs
      else (case split_on c xs of [] \<Rightarrow> [[x]] | w # ws \<Rightarrow> (x # w) # ws))"

lemma split_on_nonempty: "split_on c s \<noteq> []"
  by (induction s) (auto split: list.splits)

lemma split_on_plain: "c \<notin> set s \<Longrightarrow> split_on c s = [s]"
  by (induction s) auto

lemma split_on_append: "c \<notin> set a \<Longrightarrow> split_on c (a @ c # b) = a # split_on c b"
  by (induction a) auto

lemma split_join_plain: "xs \<noteq> [] \<Longrightarrow> \<forall>x \<in> set xs. c \<notin> set x \<Longrightarrow> split_on c (join [c] xs) = xs"
proof (induction xs rule: list_nonempty_induct)
  case (cons x xs)
  then show ?case by (cases xs) (simp_all add: split_on_append)
qed (simp add: split_on_plain)

lemma split_on_pieces: "w \<in> set (split_on c s) \<Longrightarrow> c \<notin> set w"
  by (induction s arbitrary: w) (auto split: if_splits list.splits)

lemma split_on_append_any: "split_on c (a @ c # b) = split_on c a @ split_on c b"
proof (induction a)
  case (Cons x a)
  have "split_on c a \<noteq> []" by (rule split_on_nonempty)
  with Cons show ?case by (auto split: list.splits)
qed simp

definition replace_char :: "char \<Rightarrow> char \<Rightarrow> string \<Rightarrow> string" where
  "replace_char c d s = map (\<lambda>x. if x = c then d else x) s"

fun replace_char_str :: "char \<Rightarrow> string \<Rightarrow> string \<Rightarrow> string" where
  "replace_char_str c r [] = []"
| "replace_char_str c r (x # xs) = (if x = c then r @ replace_char_str c r xs else x # replace_char_str c r xs)"

fun replace_first :: "string \<Rightarrow> string \<Rightarrow> string \<Rightarrow> string" where
  "replace_first pat r [] = (if pat = [] then r else [])"
| "replace_first pat r (x # xs) =
     (if prefix pat (x # xs) then r @ drop (length pat) (x # xs) else x # replace_first pat r xs)"

section \<open>Regular expressions\<close>

text \<open>
  A class is a function that says how many bytes of the input its element takes, 0 when the
  input does not start with an element. The character before the input decides \<open>\b\<close> and \<open>^\<close>.
\<close>

type_synonym cls = "string \<Rightarrow> nat"

definition one_of :: "string \<Rightarrow> cls" where
  "one_of cs s = (case s of [] \<Rightarrow> 0 | x # _ \<Rightarrow> if x \<in> set cs then 1 else 0)"

definition none_of :: "string \<Rightarrow> cls" where
  "none_of cs s = (case s of [] \<Rightarrow> 0 | x # _ \<Rightarrow> if x \<in> set cs then 0 else 1)"

definition alt_cls :: "cls \<Rightarrow> cls \<Rightarrow> cls" where
  "alt_cls c d s = (if c s = 0 then d s else c s)"

definition ws_cls :: cls where
  "ws_cls s = tok_len ws_tokens s"

definition word_chars :: string where
  "word_chars = digit_chars @ upper_letters @ lower_letters @ ''_''"

datatype atom =
    One cls
  | Many nat "nat option" cls  \<comment> \<open>greedy repetition, at least and at most so many\<close>
  | Lit "string list"          \<comment> \<open>a group of literals, tried in order, ASCII case ignored\<close>
  | WordB
  | AtStart
  | AtEnd

definition is_word :: "char option \<Rightarrow> bool" where
  "is_word c = (case c of None \<Rightarrow> False | Some x \<Rightarrow> x \<in> set word_chars)"

definition head_opt :: "string \<Rightarrow> char option" where
  "head_opt s = (case s of [] \<Rightarrow> None | x # _ \<Rightarrow> Some x)"

definition advance :: "nat \<Rightarrow> char option \<times> string \<Rightarrow> char option \<times> string" where
  "advance n ps = (if n = 0 then ps else (Some (snd ps ! (n - 1)), drop n (snd ps)))"

text \<open>The positions after 0, 1, 2, \<dots> elements of a class.\<close>

fun runs :: "cls \<Rightarrow> nat \<Rightarrow> char option \<times> string \<Rightarrow> (char option \<times> string) list" where
  "runs c 0 ps = [ps]"
| "runs c (Suc k) ps =
     (let n = c (snd ps) in if n = 0 then [ps] else ps # runs c k (advance n ps))"

definition first_some :: "'a option list \<Rightarrow> 'a option" where
  "first_some xs = (case find (\<lambda>x. x \<noteq> None) xs of None \<Rightarrow> None | Some y \<Rightarrow> y)"

definition ci_prefix :: "string \<Rightarrow> string \<Rightarrow> bool" where
  "ci_prefix w s = prefix (to_lower w) (to_lower s)"

text \<open>
  The rest of the input after the first match in backtracking order: a repetition tries its
  longest run first, a group its alternatives in order.
\<close>

primrec match_atoms :: "atom list \<Rightarrow> char option \<times> string \<Rightarrow> string option" where
  "match_atoms [] ps = Some (snd ps)"
| "match_atoms (a # r) ps =
     (case a of
        One c \<Rightarrow> (let n = c (snd ps) in if n = 0 then None else match_atoms r (advance n ps))
      | Many lo hi c \<Rightarrow>
          first_some (map (match_atoms r)
            (rev (drop lo (runs c (nullish hi (length (snd ps))) ps))))
      | Lit ws \<Rightarrow>
          first_some (map (\<lambda>w. match_atoms r (advance (length w) ps))
            (filter (\<lambda>w. ci_prefix w (snd ps)) ws))
      | WordB \<Rightarrow> if is_word (fst ps) \<noteq> is_word (head_opt (snd ps)) then match_atoms r ps else None
      | AtStart \<Rightarrow> if fst ps = None then match_atoms r ps else None
      | AtEnd \<Rightarrow> if snd ps = [] then match_atoms r ps else None)"

type_synonym regex = "atom list list"

definition match_regex :: "regex \<Rightarrow> char option \<times> string \<Rightarrow> string option" where
  "match_regex rx ps = first_some (map (\<lambda>as. match_atoms as ps) rx)"

text \<open>
  \<open>replace\<close> with the \<open>g\<close> flag: scan from the left, replace each match and go on after it. The
  fuel is the length of the input; every step takes at least one byte of it.
\<close>

fun replace_scan :: "nat \<Rightarrow> regex \<Rightarrow> string \<Rightarrow> char option \<Rightarrow> string \<Rightarrow> string" where
  "replace_scan 0 rx r p s = s"
| "replace_scan (Suc k) rx r p s =
     (case s of
        [] \<Rightarrow> []
      | x # xs \<Rightarrow>
          (case match_regex rx (p, s) of
             None \<Rightarrow> x # replace_scan k rx r (Some x) xs
           | Some t \<Rightarrow>
               if length t < length s
               then r @ replace_scan k rx r (Some (s ! (length s - length t - 1))) t
               else x # replace_scan k rx r (Some x) xs))"

definition replace_all :: "regex \<Rightarrow> string \<Rightarrow> string \<Rightarrow> string" where
  "replace_all rx r s = replace_scan (length s) rx r None s"

text \<open>\<open>pattern.test(s)\<close>: a match that starts at some position.\<close>

fun test_scan :: "regex \<Rightarrow> char option \<Rightarrow> string \<Rightarrow> bool" where
  "test_scan rx p [] = (match_regex rx (p, []) \<noteq> None)"
| "test_scan rx p (x # xs) = (match_regex rx (p, x # xs) \<noteq> None \<or> test_scan rx (Some x) xs)"

definition test_regex :: "regex \<Rightarrow> string \<Rightarrow> bool" where
  "test_regex rx s = test_scan rx None s"

definition hex_cls :: cls where
  "hex_cls = one_of (digit_chars @ ''abcdefABCDEF'')"

lemma replace_scan_fuel:
  "length s \<le> k \<Longrightarrow> length s \<le> m \<Longrightarrow> replace_scan k rx r p s = replace_scan m rx r p s"
proof (induction k arbitrary: m p s)
  case 0
  then show ?case by (cases m) auto
next
  case (Suc k)
  show ?case
  proof (cases s)
    case Nil
    then show ?thesis by (cases m) auto
  next
    case (Cons x xs)
    with Suc.prems obtain m' where m: "m = Suc m'" by (cases m) auto
    have shorter: "replace_scan k rx r q t = replace_scan m' rx r q t" if "length t < length s" for q t
      using that Suc.prems m by (intro Suc.IH) auto
    have tail: "replace_scan k rx r (Some x) xs = replace_scan m' rx r (Some x) xs"
      by (rule shorter) (simp add: Cons)
    show ?thesis
    proof (cases "match_regex rx (p, s)")
      case None
      then show ?thesis using tail by (simp add: m Cons)
    next
      case (Some t)
      then show ?thesis using tail shorter [of t] by (simp add: m Cons)
    qed
  qed
qed

section \<open>Length in UTF-16 units\<close>

definition utf16_units :: "char \<Rightarrow> nat" where
  "utf16_units c = (let n = (of_char c :: nat) in if n < 128 then 1 else if n < 192 then 0 else if n < 240 then 1 else 2)"

definition js_length :: "string \<Rightarrow> nat" where
  "js_length s = sum_list (map utf16_units s)"

section \<open>Searching\<close>

fun js_includes :: "string \<Rightarrow> string \<Rightarrow> bool" where
  "js_includes part [] \<longleftrightarrow> part = []"
| "js_includes part (c # s) \<longleftrightarrow> prefix part (c # s) \<or> js_includes part s"

lemma includes_iff: "js_includes part s \<longleftrightarrow> (\<exists>a b. s = a @ part @ b)"
proof (induction s)
  case (Cons c s)
  note IH = Cons.IH
  show ?case
  proof
    assume "js_includes part (c # s)"
    then consider b where "c # s = [] @ part @ b" | a b where "s = a @ part @ b"
      using Cons by (auto simp: prefix_def)
    then show "\<exists>a b. c # s = a @ part @ b" by cases (blast, metis append_Cons)
  next
    assume "\<exists>a b. c # s = a @ part @ b"
    then obtain a b where ab: "c # s = a @ part @ b" by blast
    show "js_includes part (c # s)"
    proof (cases a)
      case Nil
      then have "prefix part (c # s)" using ab by (simp add: prefix_def)
      then show ?thesis by simp
    next
      case (Cons x a')
      then have "s = a' @ part @ b" using ab by simp
      then show ?thesis using IH by auto
    qed
  qed
qed auto

section \<open>Percent encoding\<close>

text \<open>\<open>encodeURIComponent\<close> on UTF-8 bytes, and a decoder to state that it loses nothing.\<close>

definition uri_unreserved :: string where
  "uri_unreserved = word_chars @ ''-.!~*()'' @ [CHR 0x27]"

definition hex_digits :: string where
  "hex_digits = ''0123456789ABCDEF''"

definition encode_char :: "char \<Rightarrow> string" where
  "encode_char c =
     (if c \<in> set uri_unreserved then [c]
      else [CHR ''%'', hex_digits ! (of_char c div 16), hex_digits ! (of_char c mod 16)])"

definition encodeURIComponent :: "string \<Rightarrow> string" where
  "encodeURIComponent s = concat (map encode_char s)"

definition hex_val :: "char \<Rightarrow> nat option" where
  "hex_val c = find (\<lambda>n. hex_digits ! n = c) [0 ..< 16]"

fun uri_decode :: "string \<Rightarrow> string option" where
  "uri_decode [] = Some []"
| "uri_decode (c # s) =
     (if c = CHR ''%'' then
        (case s of
           a # b # t \<Rightarrow>
             (case (hex_val a, hex_val b) of
                (Some x, Some y) \<Rightarrow> map_option (\<lambda>r. char_of (16 * x + y) # r) (uri_decode t)
              | _ \<Rightarrow> None)
         | _ \<Rightarrow> None)
      else map_option (\<lambda>r. c # r) (uri_decode s))"

lemma hex_val_digit: "n < 16 \<Longrightarrow> hex_val (hex_digits ! n) = Some n"
proof -
  have "\<forall>n \<in> set [0 ..< 16]. hex_val (hex_digits ! n) = Some n" by code_simp
  then show "n < 16 \<Longrightarrow> hex_val (hex_digits ! n) = Some n" by auto
qed

lemma percent_reserved: "CHR ''%'' \<notin> set uri_unreserved"
  by code_simp

lemma uri_decode_encode_char:
  "uri_decode (encode_char c @ s) = map_option (\<lambda>r. c # r) (uri_decode s)"
proof (cases "c \<in> set uri_unreserved")
  case True
  then show ?thesis using percent_reserved by (auto simp: encode_char_def)
next
  case False
  have "(of_char c :: nat) < 256" by simp
  then have "(of_char c :: nat) div 16 < 16" by linarith
  then show ?thesis using False by (simp add: encode_char_def hex_val_digit)
qed

lemma uri_decode_encode [simp]: "uri_decode (encodeURIComponent s) = Some s"
proof (induction s)
  case Nil
  then show ?case by (simp add: encodeURIComponent_def)
next
  case (Cons c s)
  then show ?case using uri_decode_encode_char [of c "encodeURIComponent s"]
    by (simp add: encodeURIComponent_def)
qed

lemma encodeURIComponent_chars: "set (encodeURIComponent s) \<subseteq> insert (CHR ''%'') (set uri_unreserved)"
proof -
  have hexes: "\<forall>n \<in> set [0 ..< 16]. hex_digits ! n \<in> set uri_unreserved" by code_simp
  have "set (encode_char c) \<subseteq> insert (CHR ''%'') (set uri_unreserved)" for c
  proof -
    have "(of_char c :: nat) < 256" by simp
    then have "(of_char c :: nat) div 16 < 16" by linarith
    then show ?thesis using hexes by (auto simp: encode_char_def)
  qed
  then show ?thesis by (fastforce simp: encodeURIComponent_def)
qed

end
