(* ===== verification/Selector_Presentation.thy ===== *)
theory Selector_Presentation
  imports Selector_Types Js_Text
begin

text \<open>
  The pure helpers of the selector: the countdown \<open>remaining\<close> and the clock offset
  (\<^verbatim>\<open>selection/presentation.ts\<close>) and the selection capability in the URL fragment
  (\<^verbatim>\<open>selection/capability.ts\<close>). \<open>Date.parse\<close> is a parameter: its result is \<^const>\<open>None\<close> for a
  string that is no date (NaN in the code).
\<close>

type_synonym date_parser = "string \<Rightarrow> int option"

definition pad2 :: "string \<Rightarrow> string" where
  "pad2 s = replicate (2 - length s) (CHR ''0'') @ s"

text \<open>Times are in milliseconds.\<close>

definition remaining :: "date_parser \<Rightarrow> string option \<Rightarrow> int \<Rightarrow> string" where
  "remaining date_parse until now =
     (if \<not> truthy_str until then ''--:--''
      else (case date_parse (the until) of
              None \<Rightarrow> ''NaN:NaN''
            | Some t \<Rightarrow>
                let seconds = max 0 ((t - now) div 1000)
                in pad2 (int_str (seconds div 60)) @ '':'' @ pad2 (int_str (seconds mod 60))))"

definition serverOffset :: "date_parser \<Rightarrow> string option \<Rightarrow> int \<Rightarrow> int" where
  "serverOffset date_parse serverTime clientNow =
     (if \<not> truthy_str serverTime then 0
      else (case date_parse (the serverTime) of Some parsed \<Rightarrow> parsed - clientNow | None \<Rightarrow> 0))"

text \<open>
  \<open>consumeCapability\<close> reads the fragment (with its leading \<open>#\<close>) and, when there is one,
  replaces the visible address by the path and the query.
\<close>

record location =
  loc_hash :: string
  loc_pathname :: string
  loc_search :: string

definition consumeCapability :: "location \<Rightarrow> string \<times> string option" where
  "consumeCapability source =
     (let value = drop 1 (loc_hash source)
      in (value, if value \<noteq> [] then Some (loc_pathname source @ loc_search source) else None))"

text \<open>
  Reading the countdown back: minutes before the colon, seconds after it.
\<close>

definition countdown_seconds :: "string \<Rightarrow> nat" where
  "countdown_seconds s =
     (let m = takeWhile (\<lambda>c. c \<noteq> CHR '':'') s; r = drop 1 (dropWhile (\<lambda>c. c \<noteq> CHR '':'') s)
      in 60 * str_nat m + str_nat r)"

lemma digit_val_zero [simp]: "digit_val (CHR ''0'') = 0"
  by (simp add: digit_val_def digit_chars_def upt_rec)

lemma foldl_digits_zero [simp]:
  "foldl (\<lambda>a c. 10 * a + digit_val c) 0 (replicate k (CHR ''0'')) = 0"
  by (induction k) simp_all

lemma str_nat_pad2 [simp]: "str_nat (pad2 s) = str_nat s"
  by (simp add: pad2_def)

lemma colon_not_digit: "CHR '':'' \<notin> set digit_chars"
  by (simp add: digit_chars_def)

lemma pad2_no_colon: "CHR '':'' \<notin> set (pad2 (nat_str n))"
  using nat_str_no_char [OF colon_not_digit] by (auto simp: pad2_def)

lemma countdown_seconds_format:
  "countdown_seconds (pad2 (nat_str m) @ '':'' @ pad2 (nat_str s)) = 60 * m + s"
proof -
  let ?c = "\<lambda>c. c \<noteq> CHR '':''"
  have all: "\<forall>c \<in> set (pad2 (nat_str m)). ?c c" using pad2_no_colon by metis
  have "takeWhile ?c (pad2 (nat_str m) @ '':'' @ pad2 (nat_str s)) = pad2 (nat_str m)"
    using all by (subst takeWhile_append2) auto
  moreover have "dropWhile ?c (pad2 (nat_str m) @ '':'' @ pad2 (nat_str s)) = '':'' @ pad2 (nat_str s)"
    using all by (subst dropWhile_append2) auto
  ultimately show ?thesis
    using str_nat_pad2 [of "nat_str m"] str_nat_pad2 [of "nat_str s"]
    by (simp add: countdown_seconds_def Let_def del: str_nat.simps)
qed

end
