(* ===== verification/Intent_Keys.thy ===== *)
theory Intent_Keys
  imports TS_Prelude
begin

text \<open>
  Idempotency keys kept per intent. All three apps keep a map from an intent (a string that
  says what the user asked for) to the key of the request in flight or in doubt. The selector
  does it in \<^verbatim>\<open>selection/idempotency.ts\<close>; the scanner (\<^verbatim>\<open>useScanner.ts\<close>) and the admin app
  (\<^verbatim>\<open>useIntentMutation\<close> in \<^verbatim>\<open>admin/queries.ts\<close>) write it inline. The locale \<open>intent_store\<close> is the
  contract they share: the same key as long as the outcome is in doubt, a new one after a
  definite outcome, and no effect on other intents.
\<close>

type_synonym key_store = "string \<rightharpoonup> string"

section \<open>The selector's functions\<close>

text \<open>The argument \<open>created\<close> is what the key factory would return.\<close>

definition getIntentKey :: "key_store \<Rightarrow> string \<Rightarrow> string \<Rightarrow> string \<times> key_store" where
  "getIntentKey store intent created =
     (if truthy_str (store intent) then (the (store intent), store)
      else (created, store(intent \<mapsto> created)))"

definition clearIntentKey :: "key_store \<Rightarrow> string \<Rightarrow> key_store" where
  "clearIntentKey store intent = store(intent := None)"

section \<open>The inline variant\<close>

text \<open>\<open>map.get(intent) ?? crypto.randomUUID()\<close> followed by \<open>map.set(intent, key)\<close>.\<close>

definition take_or_create :: "key_store \<Rightarrow> string \<Rightarrow> string \<Rightarrow> string \<times> key_store" where
  "take_or_create store intent created =
     (let key = nullish (store intent) created in (key, store(intent \<mapsto> key)))"

section \<open>Retrying an intent\<close>

datatype certainty = Definite | Ambiguous

text \<open>
  One attempt takes the key, sends the request and, when the outcome is definite, forgets the
  key. Each attempt brings the key a factory call would create.
\<close>

definition attempt ::
  "('s \<Rightarrow> string \<Rightarrow> string \<Rightarrow> string \<times> 's) \<Rightarrow> ('s \<Rightarrow> string \<Rightarrow> 's) \<Rightarrow> string \<Rightarrow> string \<times> certainty \<Rightarrow> 's \<Rightarrow> string \<times> 's"
where
  "attempt acquire release intent fc s =
     (case acquire s intent (fst fc) of (key, s') \<Rightarrow>
        (key, case snd fc of Definite \<Rightarrow> release s' intent | Ambiguous \<Rightarrow> s'))"

fun attempts ::
  "('s \<Rightarrow> string \<Rightarrow> string \<Rightarrow> string \<times> 's) \<Rightarrow> ('s \<Rightarrow> string \<Rightarrow> 's) \<Rightarrow> string \<Rightarrow> (string \<times> certainty) list \<Rightarrow> 's \<Rightarrow> string list \<times> 's"
where
  "attempts acquire release intent [] s = ([], s)"
| "attempts acquire release intent (fc # fcs) s =
     (case attempt acquire release intent fc s of (key, s') \<Rightarrow>
        (case attempts acquire release intent fcs s' of (keys, s'') \<Rightarrow> (key # keys, s'')))"

locale intent_store =
  fixes acquire :: "'s \<Rightarrow> string \<Rightarrow> string \<Rightarrow> string \<times> 's"
    and release :: "'s \<Rightarrow> string \<Rightarrow> 's"
    and held :: "'s \<Rightarrow> string \<Rightarrow> string option"
  assumes acquire_again: "held s i = Some k \<Longrightarrow> k \<noteq> [] \<Longrightarrow> fst (acquire s i f) = k"
    and acquire_fresh: "held s i = None \<Longrightarrow> fst (acquire s i f) = f"
    and acquire_held: "held (snd (acquire s i f)) i = Some (fst (acquire s i f))"
    and acquire_other: "j \<noteq> i \<Longrightarrow> held (snd (acquire s i f)) j = held s j"
    and release_same: "held (release s i) i = None"
    and release_other: "j \<noteq> i \<Longrightarrow> held (release s i) j = held s j"
begin

lemma attempt_other: "j \<noteq> i \<Longrightarrow> held (snd (attempt acquire release i fc s)) j = held s j"
  by (cases "snd fc") (simp_all add: attempt_def acquire_other release_other split_beta)

lemma attempt_definite: "held (snd (attempt acquire release i (f, Definite) s)) i = None"
  by (simp add: attempt_def release_same split_beta)

lemma attempt_ambiguous:
  "held (snd (attempt acquire release i (f, Ambiguous) s)) i = Some (fst (attempt acquire release i (f, Ambiguous) s))"
  by (simp add: attempt_def acquire_held split_beta)

lemma attempt_key_held: "held s i = Some k \<Longrightarrow> k \<noteq> [] \<Longrightarrow> fst (attempt acquire release i fc s) = k"
  by (simp add: attempt_def acquire_again split_beta)

lemma attempt_key_fresh: "held s i = None \<Longrightarrow> fst (attempt acquire release i fc s) = fst fc"
  by (simp add: attempt_def acquire_fresh split_beta)

lemma attempts_from_held:
  "held s i = Some k \<Longrightarrow> k \<noteq> [] \<Longrightarrow> \<forall>fc \<in> set (butlast fcs). snd fc = Ambiguous \<Longrightarrow>
   fst (attempts acquire release i fcs s) = replicate (length fcs) k"
proof (induction fcs arbitrary: s)
  case Nil
  then show ?case by simp
next
  case (Cons fc fcs)
  let ?a = "attempt acquire release i fc s"
  have key: "fst ?a = k" using Cons.prems(1,2) by (rule attempt_key_held)
  show ?case
  proof (cases "fcs = []")
    case True
    then show ?thesis using key by (simp add: split_beta)
  next
    case False
    with Cons.prems(3) obtain f where fc: "fc = (f, Ambiguous)" by (cases fc) auto
    have "held (snd ?a) i = Some k" using attempt_ambiguous [of i f s] key by (simp add: fc)
    with Cons.IH [of "snd ?a"] Cons.prems False have "fst (attempts acquire release i fcs (snd ?a)) = replicate (length fcs) k"
      by simp
    with key show ?thesis by (simp add: split_beta)
  qed
qed

text \<open>Until an outcome is definite, all attempts of an intent carry the first attempt's key.\<close>

lemma attempts_same_key:
  assumes "held s i = None" and "f \<noteq> []" and "\<forall>fc \<in> set (butlast ((f, c) # fcs)). snd fc = Ambiguous"
  shows "fst (attempts acquire release i ((f, c) # fcs) s) = replicate (Suc (length fcs)) f"
proof -
  let ?a = "attempt acquire release i (f, c) s"
  have key: "fst ?a = f" using attempt_key_fresh [OF assms(1), of "(f, c)"] by simp
  have "fst (attempts acquire release i fcs (snd ?a)) = replicate (length fcs) f"
  proof (cases "fcs = []")
    case False
    then have c: "c = Ambiguous" using assms(3) by simp
    have "held (snd ?a) i = Some f" using attempt_ambiguous [of i f s] key by (simp add: c)
    then show ?thesis using attempts_from_held assms(2,3) False by auto
  qed simp
  with key show ?thesis by (simp add: split_beta)
qed

text \<open>After a definite outcome the next attempt uses the key its factory call creates.\<close>

lemma new_key_after_definite:
  "fst (attempt acquire release i (f', c) (snd (attempt acquire release i (f, Definite) s))) = f'"
  using attempt_key_fresh [OF attempt_definite] by simp

end

interpretation selector_keys: intent_store getIntentKey clearIntentKey "\<lambda>s i. s i"
  by unfold_locales (auto simp: getIntentKey_def clearIntentKey_def truthy_str_def split: option.splits)

interpretation inline_keys: intent_store take_or_create clearIntentKey "\<lambda>s i. s i"
  by unfold_locales (auto simp: take_or_create_def clearIntentKey_def Let_def)

end
