(* ===== verification/Selector_Session.thy ===== *)
theory Selector_Session
  imports Selector_Presentation Intent_Keys
begin

text \<open>
  The selection session (\<^verbatim>\<open>selection/useSelectionSession.ts\<close>): the bootstrap query, the offers
  derived from it, the buyer's selection, and the reserve, release and hand-off commands.

  The component's \<open>useState\<close> cells and its key store are one record. A command is split where
  the code awaits the server: \<open>_start\<close> builds the request from the state of that moment,
  \<open>_finish\<close> takes the answer and the state of a later moment, so that other handlers may run
  in between. \<open>localeCompare\<close>, \<open>Date.parse\<close> and the key factory are parameters.
\<close>

section \<open>The bootstrap query\<close>

record bootstrap_data =
  bd_session :: selection_session
  bd_event :: event_view
  bd_layout :: selection_layout
  bd_availability :: availability
  bd_received_at :: int

text \<open>One answer of the API client: the HTTP status and the data, or no data for an error.\<close>

type_synonym 'a answer = "int \<times> 'a option"

definition bootstrap_query ::
  "(selection_session answer \<times> event_view answer \<times> selection_layout answer \<times> availability answer) option
    \<Rightarrow> int \<Rightarrow> string + bootstrap_data" where
  "bootstrap_query answers now =
     (case answers of
        None \<Rightarrow> Inl ''network''
      | Some ((s1, session), (s2, event), (s3, layout), (s4, avail)) \<Rightarrow>
          (case (session, event, layout, avail) of
             (Some a, Some b, Some c, Some d) \<Rightarrow>
               Inr \<lparr>bd_session = a, bd_event = b, bd_layout = c, bd_availability = d, bd_received_at = now\<rparr>
           | _ \<Rightarrow>
               Inl (if list_ex (\<lambda>status. status \<in> {401, 403, 404, 410}) [s1, s2, s3, s4]
                    then ''invalid link'' else ''network'')))"

definition server_offset_of :: "date_parser \<Rightarrow> bootstrap_data option \<Rightarrow> int" where
  "server_offset_of date_parse bd =
     (case bd of None \<Rightarrow> 0
      | Some d \<Rightarrow> serverOffset date_parse (Some (av_server_time (bd_availability d))) (bd_received_at d))"

section \<open>Offers\<close>

datatype layout_item = LUnit layout_reserved_unit | LPool layout_ga_pool

fun item_inventory_id :: "layout_item \<Rightarrow> string" where
  "item_inventory_id (LUnit u) = lu_inventory_id u"
| "item_inventory_id (LPool p) = lp_inventory_id p"

fun item_section_name :: "layout_item \<Rightarrow> string option" where
  "item_section_name (LUnit u) = lu_section_name u"
| "item_section_name (LPool p) = lp_section_name p"

fun item_table :: "layout_item \<Rightarrow> string option" where
  "item_table (LUnit u) = lu_table u"
| "item_table (LPool p) = None"

text \<open>\<open>new Map(entries)\<close>: a later entry replaces an earlier one with the same key.\<close>

definition js_map_of :: "('k \<times> 'v) list \<Rightarrow> 'k \<Rightarrow> 'v option" where
  "js_map_of entries = map_of (rev entries)"

definition layoutByInventory :: "selection_layout option \<Rightarrow> string \<Rightarrow> layout_item option" where
  "layoutByInventory layout =
     (case layout of None \<Rightarrow> Map.empty
      | Some l \<Rightarrow> js_map_of (map (\<lambda>item. (item_inventory_id item, item))
          (map LUnit (sl_reserved_units l) @ map LPool (sl_ga_pools l))))"

definition reserved_offer :: "(string \<Rightarrow> layout_item option) \<Rightarrow> availability_unit \<Rightarrow> selectable_offer list" where
  "reserved_offer byInv item =
     (case au_offer item of None \<Rightarrow> []
      | Some off \<Rightarrow>
          let layoutItem = byInv (au_inventory_id item);
              sectionName = Option.bind layoutItem item_section_name
          in [\<lparr>offer_id = offer_id off, available_quantity = available_quantity off, offer_price = offer_price off,
               so_kind = KReserved, so_label = nullish sectionName ''Reserved seating'',
               so_inventory_id = au_inventory_id item, so_section_id = au_section_id item,
               so_section_name = sectionName, so_row = au_row item,
               so_table = Option.bind layoutItem item_table, so_seat = Some (au_seat item)\<rparr>])"

definition ga_offers :: "(string \<Rightarrow> layout_item option) \<Rightarrow> availability_pool \<Rightarrow> selectable_offer list" where
  "ga_offers byInv pool =
     (let layoutItem = byInv (ap_inventory_id pool) in
      map (\<lambda>off. \<lparr>offer_id = offer_id off, available_quantity = available_quantity off, offer_price = offer_price off,
               so_kind = KGa, so_label = ap_name pool, so_inventory_id = ap_inventory_id pool,
               so_section_id = ap_section_id pool,
               so_section_name = Option.bind layoutItem item_section_name,
               so_row = None, so_table = None, so_seat = None\<rparr>)
        (filter (\<lambda>off. nullish (available_quantity off) 0 > 0) (ap_offers pool)))"

definition offers_of :: "availability option \<Rightarrow> (string \<Rightarrow> layout_item option) \<Rightarrow> selectable_offer list" where
  "offers_of avail byInv =
     (case avail of None \<Rightarrow> []
      | Some a \<Rightarrow> concat (map (reserved_offer byInv) (av_reserved_units a)) @
                  concat (map (ga_offers byInv) (av_ga_pools a)))"

section \<open>State of the component\<close>

record selection_state =
  selectedOffers :: "selectable_offer list"
  gaQuantities :: "string \<rightharpoonup> int"
  held_hold :: "hold option"
  heldLines :: "selection_line list"
  mutationError :: string
  availabilityNotice :: string
  handoffPending :: bool
  now_ms :: int
  intentKeys :: key_store

definition initial_selection :: "int \<Rightarrow> selection_state" where
  "initial_selection t =
     \<lparr>selectedOffers = [], gaQuantities = Map.empty, held_hold = None, heldLines = [], mutationError = [],
      availabilityNotice = [], handoffPending = False, now_ms = t, intentKeys = Map.empty\<rparr>"

definition line_of :: "(string \<rightharpoonup> int) \<Rightarrow> selectable_offer \<Rightarrow> selection_line list" where
  "line_of ga off =
     (let quantity = (if so_kind off = KReserved then 1 else nullish (ga (offer_id off)) 0)
      in if quantity > 0 then [\<lparr>line_offer = off, line_quantity = quantity\<rparr>] else [])"

definition selectedLines :: "selection_state \<Rightarrow> selection_line list" where
  "selectedLines st = concat (map (line_of (gaQuantities st)) (selectedOffers st))"

section \<open>Editing the selection\<close>

definition notice_text :: string where
  "notice_text = ''That seat is no longer available. Choose another seat to continue.''"

definition clamp_ga :: "(string \<rightharpoonup> int) \<Rightarrow> selectable_offer \<Rightarrow> (string \<rightharpoonup> int)" where
  "clamp_ga m off =
     (if so_kind off \<noteq> KGa then m
      else m(offer_id off \<mapsto> min (nullish (m (offer_id off)) 1) (nullish (available_quantity off) 0)))"

text \<open>The effect that runs when the offers or the hold change.\<close>

definition reconcile :: "selectable_offer list \<Rightarrow> selection_state \<Rightarrow> selection_state" where
  "reconcile offers st =
     (if selectedOffers st = [] then st
      else
        let currentByID = js_map_of (map (\<lambda>off. (offer_id off, off)) offers);
            next = List.map_filter (\<lambda>off. currentByID (offer_id off)) (selectedOffers st);
            gone = list_ex (\<lambda>off. currentByID (offer_id off) = None) (selectedOffers st)
        in st\<lparr>selectedOffers := next, gaQuantities := foldl clamp_ga (gaQuantities st) next,
              availabilityNotice := (if gone \<and> held_hold st = None then notice_text else availabilityNotice st)\<rparr>)"

definition toggleReserved :: "selectable_offer \<Rightarrow> selection_state \<Rightarrow> selection_state" where
  "toggleReserved off st =
     (if so_kind off \<noteq> KReserved \<or> held_hold st \<noteq> None then st
      else st\<lparr>availabilityNotice := [],
              selectedOffers :=
                (if list_ex (\<lambda>item. offer_id item = offer_id off) (selectedOffers st)
                 then filter (\<lambda>item. offer_id item \<noteq> offer_id off) (selectedOffers st)
                 else selectedOffers st @ [off])\<rparr>)"

definition setGAQuantity :: "selectable_offer \<Rightarrow> int \<Rightarrow> selection_state \<Rightarrow> selection_state" where
  "setGAQuantity off requested st =
     (if so_kind off \<noteq> KGa \<or> held_hold st \<noteq> None then st
      else
        let next = min (max 0 requested) (nullish (available_quantity off) 0);
            without = filter (\<lambda>item. offer_id item \<noteq> offer_id off) (selectedOffers st)
        in st\<lparr>availabilityNotice := [], gaQuantities := (gaQuantities st)(offer_id off \<mapsto> next),
              selectedOffers := (if next > 0 then without @ [off] else without)\<rparr>)"

definition clearSelection :: "selection_state \<Rightarrow> selection_state" where
  "clearSelection st =
     st\<lparr>held_hold := None, heldLines := [], selectedOffers := [], gaQuantities := Map.empty,
        mutationError := [], availabilityNotice := []\<rparr>"

definition tick :: "int \<Rightarrow> selection_state \<Rightarrow> selection_state" where
  "tick t st = st\<lparr>now_ms := t\<rparr>"

section \<open>Reserving\<close>

record reservation_item =
  ri_offer_id :: string
  ri_quantity :: int

definition items_of :: "(string \<Rightarrow> string \<Rightarrow> bool) \<Rightarrow> selection_line list \<Rightarrow> reservation_item list" where
  "items_of le lines =
     sort_by (\<lambda>a b. le (ri_offer_id a) (ri_offer_id b))
       (map (\<lambda>l. \<lparr>ri_offer_id = offer_id (line_offer l), ri_quantity = line_quantity l\<rparr>) lines)"

definition reserve_intent :: "reservation_item list \<Rightarrow> string" where
  "reserve_intent items =
     ''reserve:'' @ join ''|'' (map (\<lambda>i. ri_offer_id i @ '':'' @ int_str (ri_quantity i)) items)"

record reserve_request =
  rq_intent :: string
  rq_key :: string
  rq_items :: "reservation_item list"
  rq_lines :: "selection_line list"

datatype reserve_outcome = Held hold | Refused "string option" | Unknown

datatype effect =
    Refetch
  | InvalidateBootstrap
  | SubmitForm string "(string \<times> string) list"

definition reserve_start ::
  "(string \<Rightarrow> string \<Rightarrow> bool) \<Rightarrow> string \<Rightarrow> selection_state \<Rightarrow> (reserve_request \<times> selection_state) option" where
  "reserve_start le created st =
     (let lines = selectedLines st in
      if lines = [] then None
      else
        let items = items_of le lines;
            intent = reserve_intent items;
            ks = getIntentKey (intentKeys st) intent created
        in Some (\<lparr>rq_intent = intent, rq_key = fst ks, rq_items = items, rq_lines = lines\<rparr>,
                 st\<lparr>intentKeys := snd ks, mutationError := []\<rparr>))"

definition refusal_message :: "string option \<Rightarrow> string" where
  "refusal_message code =
     (if code = Some ''EVENT_NOT_ON_SALE'' then ''Ticket sales have not opened yet. Please return when the sales window begins.''
      else if code = Some ''EVENT_SALES_CLOSED'' then ''Ticket sales for this event are closed.''
      else if code = Some ''EVENT_PAUSED'' then ''Ticket sales are temporarily paused.''
      else ''Those tickets could not be held. Please review the latest availability.'')"

definition reserve_finish ::
  "reserve_request \<Rightarrow> reserve_outcome \<Rightarrow> selection_state \<Rightarrow> selection_state \<times> effect list" where
  "reserve_finish rq outcome st =
     (case outcome of
        Refused code \<Rightarrow>
          (st\<lparr>intentKeys := clearIntentKey (intentKeys st) (rq_intent rq), mutationError := refusal_message code\<rparr>, [Refetch])
      | Held h \<Rightarrow>
          (st\<lparr>intentKeys := clearIntentKey (intentKeys st) (rq_intent rq), heldLines := rq_lines rq, held_hold := Some h\<rparr>,
           [InvalidateBootstrap])
      | Unknown \<Rightarrow>
          (st\<lparr>mutationError := ''We couldn't confirm your reservation. Try again to check its status.''\<rparr>, []))"

section \<open>The hold's clock\<close>

definition hold_deadline :: "date_parser \<Rightarrow> selection_state \<Rightarrow> int option" where
  "hold_deadline date_parse st =
     (case held_hold st of None \<Rightarrow> Some 0 | Some h \<Rightarrow> date_parse (hold_expires_at h))"

text \<open>A comparison with NaN is false.\<close>

definition holdExpired :: "date_parser \<Rightarrow> int \<Rightarrow> selection_state \<Rightarrow> bool" where
  "holdExpired date_parse offset st =
     (held_hold st \<noteq> None \<and>
      (case hold_deadline date_parse st of None \<Rightarrow> False | Some t \<Rightarrow> t \<le> now_ms st + offset))"

definition holdNearExpiry :: "date_parser \<Rightarrow> int \<Rightarrow> selection_state \<Rightarrow> bool" where
  "holdNearExpiry date_parse offset st =
     (held_hold st \<noteq> None \<and> \<not> holdExpired date_parse offset st \<and>
      (case hold_deadline date_parse st of None \<Rightarrow> False | Some t \<Rightarrow> t - (now_ms st + offset) \<le> 60000))"

section \<open>Releasing\<close>

record release_request =
  rl_intent :: string
  rl_key :: string
  rl_reservation_id :: string
  rl_token :: string

datatype release_outcome = Released | ReleaseRefused | ReleaseUnknown

definition release_start ::
  "date_parser \<Rightarrow> int \<Rightarrow> string \<Rightarrow> selection_state \<Rightarrow> release_request option \<times> selection_state \<times> effect list" where
  "release_start date_parse offset created st =
     (case held_hold st of
        None \<Rightarrow> (None, st, [])
      | Some h \<Rightarrow>
          if holdExpired date_parse offset st then (None, clearSelection st, [Refetch])
          else
            let intent = ''release:'' @ hold_id h;
                ks = getIntentKey (intentKeys st) intent created
            in (Some \<lparr>rl_intent = intent, rl_key = fst ks, rl_reservation_id = hold_id h, rl_token = reservation_token h\<rparr>,
                st\<lparr>intentKeys := snd ks, mutationError := []\<rparr>, []))"

definition release_finish ::
  "release_request \<Rightarrow> release_outcome \<Rightarrow> selection_state \<Rightarrow> selection_state \<times> effect list" where
  "release_finish rl outcome st =
     (case outcome of
        ReleaseRefused \<Rightarrow>
          (st\<lparr>intentKeys := clearIntentKey (intentKeys st) (rl_intent rl),
              mutationError := ''We couldn't change this reservation. Please try again.''\<rparr>, [])
      | Released \<Rightarrow>
          (clearSelection (st\<lparr>intentKeys := clearIntentKey (intentKeys st) (rl_intent rl)\<rparr>), [InvalidateBootstrap])
      | ReleaseUnknown \<Rightarrow>
          (st\<lparr>mutationError := ''We couldn't confirm the change. Try again to check its status.''\<rparr>, []))"

section \<open>Handing off to the seller\<close>

definition handoff ::
  "date_parser \<Rightarrow> int \<Rightarrow> selection_session option \<Rightarrow> selection_state \<Rightarrow> selection_state \<times> effect list" where
  "handoff date_parse offset session st =
     (case (held_hold st, session) of
        (Some h, Some s) \<Rightarrow>
          if holdExpired date_parse offset st then (st, [])
          else (st\<lparr>handoffPending := True\<rparr>,
                [SubmitForm (ss_return_url s)
                   [(''reservation_id'', hold_id h), (''reservation_token'', reservation_token h)]])
      | _ \<Rightarrow> (st, []))"

section \<open>What the hook returns\<close>

record selection_view =
  vw_error :: string
  vw_loading :: bool
  vw_refreshing :: bool
  vw_invalid_link :: bool
  vw_network_error :: bool
  vw_event_unavailable :: bool

definition selection_view_of ::
  "string \<Rightarrow> string option \<Rightarrow> event_view option \<Rightarrow> bool \<Rightarrow> bool \<Rightarrow> selection_state \<Rightarrow> selection_view" where
  "selection_view_of capability queryError event isPending isFetching st =
     (let loadError = nullish queryError [];
          invalidLink = (capability = [] \<or> loadError = ''invalid link'')
      in \<lparr>vw_error = (if invalidLink then ''This ticket selection link is no longer available.'' else mutationError st),
          vw_loading = (capability \<noteq> [] \<and> isPending),
          vw_refreshing = (isFetching \<and> \<not> isPending),
          vw_invalid_link = invalidLink,
          vw_network_error = (loadError = ''network''),
          vw_event_unavailable = (case event of None \<Rightarrow> False | Some e \<Rightarrow> ev_state e \<noteq> ''ON_SALE'')\<rparr>)"

end
