(* ===== verification/Selector_Invariants.thy ===== *)
theory Selector_Invariants
  imports Selector_Session
begin

text \<open>
  The selection session as a state machine. A step is one handler, one answer of the server or
  one refresh of the offers; React runs the reconciling effect after a step that changed the
  hold or the offers. Commands in flight are a list, so an answer may come after any number of
  other steps. The invariants say what every request that leaves the page satisfies.
\<close>

section \<open>Steps\<close>

datatype command = CReserve reserve_request | CRelease release_request

record selection_sys =
  sy_state :: selection_state
  sy_offers :: "selectable_offer list"
  sy_inflight :: "command list"

definition settle :: "selectable_offer list \<Rightarrow> selection_state \<Rightarrow> selection_state \<Rightarrow> selection_state" where
  "settle offers old new = (if held_hold old \<noteq> held_hold new then reconcile offers new else new)"

inductive selection_step ::
  "(string \<Rightarrow> string \<Rightarrow> bool) \<Rightarrow> date_parser \<Rightarrow> int \<Rightarrow> selection_session option \<Rightarrow>
   selection_sys \<Rightarrow> effect list \<Rightarrow> selection_sys \<Rightarrow> bool"
  for le date_parse offset session where
  refresh: "selection_step le date_parse offset session s []
     (s\<lparr>sy_offers := offers', sy_state := reconcile offers' (sy_state s)\<rparr>)"
| toggle: "off \<in> set (sy_offers s) \<Longrightarrow> selection_step le date_parse offset session s []
     (s\<lparr>sy_state := toggleReserved off (sy_state s)\<rparr>)"
| quantity: "off \<in> set (sy_offers s) \<Longrightarrow> selection_step le date_parse offset session s []
     (s\<lparr>sy_state := setGAQuantity off n (sy_state s)\<rparr>)"
| clock: "selection_step le date_parse offset session s [] (s\<lparr>sy_state := tick t (sy_state s)\<rparr>)"
| reserve: "reserve_start le created (sy_state s) = Some (rq, st') \<Longrightarrow>
     selection_step le date_parse offset session s []
       (s\<lparr>sy_state := st', sy_inflight := sy_inflight s @ [CReserve rq]\<rparr>)"
| reserve_answer: "CReserve rq \<in> set (sy_inflight s) \<Longrightarrow> reserve_finish rq out (sy_state s) = (st', eff) \<Longrightarrow>
     selection_step le date_parse offset session s eff
       (s\<lparr>sy_state := settle (sy_offers s) (sy_state s) st', sy_inflight := remove1 (CReserve rq) (sy_inflight s)\<rparr>)"
| release: "release_start date_parse offset created (sy_state s) = (rl, st', eff) \<Longrightarrow>
     selection_step le date_parse offset session s eff
       (s\<lparr>sy_state := settle (sy_offers s) (sy_state s) st',
          sy_inflight := sy_inflight s @ (case rl of None \<Rightarrow> [] | Some r \<Rightarrow> [CRelease r])\<rparr>)"
| release_answer: "CRelease r \<in> set (sy_inflight s) \<Longrightarrow> release_finish r out (sy_state s) = (st', eff) \<Longrightarrow>
     selection_step le date_parse offset session s eff
       (s\<lparr>sy_state := settle (sy_offers s) (sy_state s) st', sy_inflight := remove1 (CRelease r) (sy_inflight s)\<rparr>)"
| hand_off: "handoff date_parse offset session (sy_state s) = (st', eff) \<Longrightarrow>
     selection_step le date_parse offset session s eff (s\<lparr>sy_state := st'\<rparr>)"

inductive selection_reachable ::
  "(string \<Rightarrow> string \<Rightarrow> bool) \<Rightarrow> date_parser \<Rightarrow> int \<Rightarrow> selection_session option \<Rightarrow> selection_sys \<Rightarrow> bool"
  for le date_parse offset session where
  start: "selection_reachable le date_parse offset session
     \<lparr>sy_state = initial_selection t, sy_offers = [], sy_inflight = []\<rparr>"
| step: "selection_reachable le date_parse offset session s \<Longrightarrow>
     selection_step le date_parse offset session s eff s' \<Longrightarrow> selection_reachable le date_parse offset session s'"

section \<open>The invariant\<close>

definition quantity_ok :: "(string \<rightharpoonup> int) \<Rightarrow> selectable_offer \<Rightarrow> bool" where
  "quantity_ok ga off \<longleftrightarrow> so_kind off = KGa \<longrightarrow>
     (\<exists>q. ga (offer_id off) = Some q \<and> q \<le> nullish (available_quantity off) 0)"

definition selection_ok :: "selection_state \<Rightarrow> bool" where
  "selection_ok st \<longleftrightarrow> distinct (map offer_id (selectedOffers st)) \<and>
     (\<forall>off \<in> set (selectedOffers st). quantity_ok (gaQuantities st) off)"

definition line_ok :: "selection_line \<Rightarrow> bool" where
  "line_ok l \<longleftrightarrow> 0 < line_quantity l \<and>
     (so_kind (line_offer l) = KReserved \<longrightarrow> line_quantity l = 1) \<and>
     (so_kind (line_offer l) = KGa \<longrightarrow> line_quantity l \<le> nullish (available_quantity (line_offer l)) 0)"

definition lines_ok :: "selection_line list \<Rightarrow> bool" where
  "lines_ok ls \<longleftrightarrow> ls \<noteq> [] \<and> distinct (map (\<lambda>l. offer_id (line_offer l)) ls) \<and> (\<forall>l \<in> set ls. line_ok l)"

definition command_ok :: "(string \<Rightarrow> string \<Rightarrow> bool) \<Rightarrow> command \<Rightarrow> bool" where
  "command_ok le c = (case c of
     CReserve rq \<Rightarrow> lines_ok (rq_lines rq) \<and> rq_items rq = items_of le (rq_lines rq) \<and>
       rq_intent rq = reserve_intent (rq_items rq)
   | CRelease r \<Rightarrow> rl_intent r = ''release:'' @ rl_reservation_id r)"

definition sys_ok :: "(string \<Rightarrow> string \<Rightarrow> bool) \<Rightarrow> selection_sys \<Rightarrow> bool" where
  "sys_ok le s \<longleftrightarrow> selection_ok (sy_state s) \<and> (\<forall>c \<in> set (sy_inflight s). command_ok le c)"

lemma selected_line_cases:
  assumes "l \<in> set (line_of ga off)"
  shows "line_offer l = off \<and> 0 < line_quantity l \<and> (so_kind off = KReserved \<longrightarrow> line_quantity l = 1) \<and>
    (so_kind off = KGa \<longrightarrow> line_quantity l = nullish (ga (offer_id off)) 0)"
  using assms by (auto simp: line_of_def Let_def split: if_splits)

lemma line_of_ids: "map (\<lambda>l. offer_id (line_offer l)) (concat (map (line_of ga) offs)) =
    map offer_id (filter (\<lambda>off. line_of ga off \<noteq> []) offs)"
  by (induction offs) (auto simp: line_of_def Let_def)

lemma selectedLines_ok:
  assumes "selection_ok st" and "selectedLines st \<noteq> []"
  shows "lines_ok (selectedLines st)"
proof -
  have "distinct (map offer_id (filter P (selectedOffers st)))" for P
    using assms(1) by (simp add: selection_ok_def distinct_map_filter)
  moreover have "line_ok l" if "l \<in> set (selectedLines st)" for l
  proof -
    from that obtain off where off: "off \<in> set (selectedOffers st)" "l \<in> set (line_of (gaQuantities st) off)"
      by (auto simp: selectedLines_def)
    moreover have "quantity_ok (gaQuantities st) off" using assms(1) off by (simp add: selection_ok_def)
    ultimately show ?thesis using selected_line_cases [OF off(2)] by (auto simp: line_ok_def quantity_ok_def)
  qed
  ultimately show ?thesis using assms(2) by (simp add: lines_ok_def selectedLines_def line_of_ids)
qed

section \<open>Preservation\<close>

lemma clamp_ga_other: "offer_id o' \<noteq> i \<Longrightarrow> clamp_ga m o' i = m i"
  by (simp add: clamp_ga_def)

lemma foldl_clamp_other: "i \<notin> offer_id ` set offs \<Longrightarrow> foldl clamp_ga m offs i = m i"
  by (induction offs arbitrary: m) (auto simp: clamp_ga_other)

lemma foldl_clamp_ok:
  "distinct (map offer_id offs) \<Longrightarrow> off \<in> set offs \<Longrightarrow> quantity_ok (foldl clamp_ga m offs) off"
proof (induction offs arbitrary: m)
  case Nil
  then show ?case by simp
next
  case (Cons o' offs)
  show ?case
  proof (cases "off = o'")
    case True
    with Cons.prems have "offer_id o' \<notin> offer_id ` set offs" by simp
    then have "foldl clamp_ga (clamp_ga m o') offs (offer_id o') = clamp_ga m o' (offer_id o')"
      by (rule foldl_clamp_other)
    also have "\<dots> = (if so_kind o' = KGa
        then Some (min (nullish (m (offer_id o')) 1) (nullish (available_quantity o') 0)) else m (offer_id o'))"
      by (simp add: clamp_ga_def)
    finally show ?thesis using True by (simp add: quantity_ok_def)
  next
    case False
    with Cons show ?thesis by simp
  qed
qed

lemma js_map_of_key:
  assumes "js_map_of (map (\<lambda>off. (offer_id off, off)) offers) i = Some off"
  shows "offer_id off = i \<and> off \<in> set offers"
proof -
  from assms have "(i, off) \<in> set (rev (map (\<lambda>off. (offer_id off, off)) offers))"
    unfolding js_map_of_def by (rule map_of_SomeD)
  then show ?thesis by auto
qed

lemma map_filter_current_ids:
  "map offer_id (List.map_filter (\<lambda>off. js_map_of (map (\<lambda>off. (offer_id off, off)) offers) (offer_id off)) sel) =
   map offer_id (filter (\<lambda>off. js_map_of (map (\<lambda>off. (offer_id off, off)) offers) (offer_id off) \<noteq> None) sel)"
  by (induction sel) (auto simp: List.map_filter_simps dest: js_map_of_key split: option.splits)

lemma reconcile_ok:
  assumes "selection_ok st"
  shows "selection_ok (reconcile offers st)"
proof (cases "selectedOffers st = []")
  case True
  with assms show ?thesis by (simp add: reconcile_def)
next
  case False
  let ?next = "List.map_filter (\<lambda>off. js_map_of (map (\<lambda>off. (offer_id off, off)) offers) (offer_id off)) (selectedOffers st)"
  have "distinct (map offer_id ?next)"
    using assms by (simp add: map_filter_current_ids selection_ok_def distinct_map_filter)
  then show ?thesis using False by (simp add: reconcile_def Let_def selection_ok_def foldl_clamp_ok)
qed

lemma reconcile_subset: "set (selectedOffers (reconcile offers st)) \<subseteq> set offers"
  by (auto simp: reconcile_def Let_def List.map_filter_def dest: js_map_of_key)

lemma quantity_ok_upd_other:
  "quantity_ok ga off \<Longrightarrow> offer_id off \<noteq> i \<Longrightarrow> quantity_ok (ga(i \<mapsto> n)) off"
  by (simp add: quantity_ok_def)

lemma toggleReserved_ok: "selection_ok st \<Longrightarrow> selection_ok (toggleReserved off st)"
  by (auto simp: toggleReserved_def selection_ok_def list_ex_iff quantity_ok_def distinct_map_filter)

lemma setGAQuantity_ok:
  assumes "selection_ok st"
  shows "selection_ok (setGAQuantity off n st)"
proof (cases "so_kind off \<noteq> KGa \<or> held_hold st \<noteq> None")
  case True
  with assms show ?thesis by (simp add: setGAQuantity_def)
next
  case False
  let ?without = "filter (\<lambda>item. offer_id item \<noteq> offer_id off) (selectedOffers st)"
  let ?q = "min (max 0 n) (nullish (available_quantity off) 0)"
  have d: "distinct (map offer_id ?without)" using assms by (simp add: selection_ok_def distinct_map_filter)
  have q: "\<forall>x \<in> set ?without. quantity_ok ((gaQuantities st)(offer_id off \<mapsto> ?q)) x"
    using assms by (auto simp: selection_ok_def intro: quantity_ok_upd_other)
  have "quantity_ok ((gaQuantities st)(offer_id off \<mapsto> ?q)) off" by (simp add: quantity_ok_def)
  with d q False show ?thesis by (auto simp: setGAQuantity_def Let_def selection_ok_def)
qed

lemma selection_ok_cong:
  "selectedOffers st' = selectedOffers st \<Longrightarrow> gaQuantities st' = gaQuantities st \<Longrightarrow> selection_ok st \<Longrightarrow> selection_ok st'"
  by (simp add: selection_ok_def)

lemma clearSelection_ok [simp]: "selection_ok (clearSelection st)"
  by (simp add: clearSelection_def selection_ok_def)

lemma tick_ok: "selection_ok st \<Longrightarrow> selection_ok (tick t st)"
  by (rule selection_ok_cong) (simp_all add: tick_def)

lemma settle_ok: "selection_ok new \<Longrightarrow> selection_ok (settle offers old new)"
  by (simp add: settle_def reconcile_ok)

lemma reserve_start_ok: "reserve_start le k st = Some (rq, st') \<Longrightarrow> selection_ok st \<Longrightarrow> selection_ok st'"
  by (auto simp: reserve_start_def Let_def selection_ok_def split: if_splits)

lemma reserve_start_command:
  "reserve_start le k st = Some (rq, st') \<Longrightarrow> selection_ok st \<Longrightarrow> command_ok le (CReserve rq)"
  by (auto simp: reserve_start_def Let_def command_ok_def selectedLines_ok split: if_splits)

lemma reserve_finish_ok: "reserve_finish rq out st = (st', eff) \<Longrightarrow> selection_ok st \<Longrightarrow> selection_ok st'"
  by (auto simp: reserve_finish_def selection_ok_def split: reserve_outcome.splits)

lemma release_start_ok: "release_start dp off k st = (rl, st', eff) \<Longrightarrow> selection_ok st \<Longrightarrow> selection_ok st'"
  by (auto simp: release_start_def Let_def selection_ok_def clearSelection_def split: option.splits if_splits)

lemma release_start_command: "release_start dp off k st = (Some r, st', eff) \<Longrightarrow> command_ok le (CRelease r)"
  by (auto simp: release_start_def Let_def command_ok_def split: option.splits if_splits)

lemma release_finish_ok: "release_finish r out st = (st', eff) \<Longrightarrow> selection_ok st \<Longrightarrow> selection_ok st'"
  by (auto simp: release_finish_def selection_ok_def clearSelection_def split: release_outcome.splits)

lemma handoff_ok: "handoff dp off sess st = (st', eff) \<Longrightarrow> selection_ok st \<Longrightarrow> selection_ok st'"
  by (auto simp: handoff_def selection_ok_def split: option.splits if_splits)

lemma selection_step_ok:
  "selection_step le dp off sess s eff s' \<Longrightarrow> sys_ok le s \<Longrightarrow> sys_ok le s'"
proof (induction rule: selection_step.induct)
  case (release created s rl st' eff)
  then have "selection_ok st'" using release_start_ok by (auto simp: sys_ok_def)
  moreover have "\<forall>c \<in> set (case rl of None \<Rightarrow> [] | Some r \<Rightarrow> [CRelease r]). command_ok le c"
    using release release_start_command by (auto split: option.splits)
  ultimately show ?case using release by (auto simp: sys_ok_def settle_ok)
qed (auto simp: sys_ok_def settle_ok reconcile_ok toggleReserved_ok setGAQuantity_ok tick_ok
      dest: reserve_start_ok reserve_start_command reserve_finish_ok release_finish_ok handoff_ok notin_set_remove1
      set_remove1_subset [THEN subsetD])

lemma selection_reachable_ok: "selection_reachable le dp off sess s \<Longrightarrow> sys_ok le s"
proof (induction rule: selection_reachable.induct)
  case (start t)
  show ?case by (simp add: sys_ok_def selection_ok_def initial_selection_def)
next
  case (step s eff s')
  then show ?case by (blast intro: selection_step_ok)
qed

section \<open>The reserve intent\<close>

definition plain_id :: "string \<Rightarrow> bool" where
  "plain_id s \<longleftrightarrow> CHR '':'' \<notin> set s \<and> CHR ''|'' \<notin> set s"

lemma separators_not_in_int:
  "CHR '':'' \<notin> set (int_str i)" "CHR ''|'' \<notin> set (int_str i)"
  using int_str_chars [of i] by (auto simp: digit_chars_def)

lemma intent_part_inj:
  assumes "plain_id (ri_offer_id a)" and "plain_id (ri_offer_id b)"
    and "ri_offer_id a @ '':'' @ int_str (ri_quantity a) = ri_offer_id b @ '':'' @ int_str (ri_quantity b)"
  shows "a = (b :: reservation_item)"
proof -
  have "ri_offer_id a = ri_offer_id b \<and> int_str (ri_quantity a) = int_str (ri_quantity b)"
    using assms by (intro append_sep_eq) (auto simp: plain_id_def)
  then show ?thesis by simp
qed

lemma intent_parts_no_bar:
  assumes "plain_id (ri_offer_id a)"
  shows "CHR ''|'' \<notin> set (ri_offer_id a @ '':'' @ int_str (ri_quantity a))"
  using assms separators_not_in_int by (auto simp: plain_id_def)

lemma reserve_intent_inj:
  assumes "reserve_intent xs = reserve_intent ys" and "xs \<noteq> []" and "ys \<noteq> []"
    and "\<forall>i \<in> set xs. plain_id (ri_offer_id i)" and "\<forall>i \<in> set ys. plain_id (ri_offer_id i)"
  shows "xs = ys"
proof -
  let ?part = "\<lambda>i. ri_offer_id i @ '':'' @ int_str (ri_quantity i)"
  have "map ?part xs = map ?part ys"
    using assms intent_parts_no_bar
    by (intro join_inj_aux [where c = "CHR ''|''"]) (auto simp: reserve_intent_def)
  then show ?thesis
  proof (rule map_inj_on)
    show "inj_on ?part (set xs \<union> set ys)"
      using assms(4,5) by (intro inj_onI intent_part_inj) auto
  qed
qed

lemma items_of_order_independent:
  assumes "linear_collation le"
    and "distinct (map (\<lambda>l. offer_id (line_offer l)) ls)" and "distinct (map (\<lambda>l. offer_id (line_offer l)) ms)"
    and "set ls = set ms"
  shows "items_of le ls = items_of le ms"
proof -
  let ?item = "\<lambda>l. \<lparr>ri_offer_id = offer_id (line_offer l), ri_quantity = line_quantity l\<rparr>"
  let ?key = "\<lambda>a b :: reservation_item. le (ri_offer_id a) (ri_offer_id b)"
  have ids: "map ri_offer_id (map ?item xs) = map (\<lambda>l. offer_id (line_offer l)) xs" for xs by simp
  have pre: "preorder_compare ?key"
    using assms(1) unfolding linear_collation_def preorder_compare_def by blast
  have inj: "inj_on ri_offer_id (set (map ?item ls))"
    using assms(2) ids [of ls] by (metis distinct_map)
  have tf: "tie_free ?key (map ?item ls)"
    unfolding tie_free_def
  proof (intro ballI impI)
    fix a b
    assume "a \<in> set (map ?item ls)" "b \<in> set (map ?item ls)" and "?key a b \<and> ?key b a"
    moreover from this have "ri_offer_id a = ri_offer_id b"
      using assms(1) by (auto simp: linear_collation_def)
    ultimately show "a = b" using inj by (auto dest: inj_onD)
  qed
  have "distinct (map ?item xs)" if "distinct (map (\<lambda>l. offer_id (line_offer l)) xs)" for xs
    using that ids [of xs] by (metis distinct_map)
  then show ?thesis unfolding items_of_def
    using assms by (intro sort_by_set_eq [OF pre tf]) auto
qed

end
