(* ===== verification/Selector_Realtime.thy ===== *)
theory Selector_Realtime
  imports Js_Text
begin

text \<open>
  The selector's realtime client (\<^verbatim>\<open>selection/realtime.ts\<close>): the incremental parser of the
  \<^verbatim>\<open>text/event-stream\<close> body (\<open>consume\<close>) and the reconnect loop with its back-off
  (\<open>runSelectionRealtime\<close>). \<open>JSON.parse\<close> is a parameter (\<^const>\<open>None\<close> when it throws). Strings
  are UTF-8, so the streaming \<open>TextDecoder\<close> is the identity on the concatenated chunks.
\<close>

definition newline :: char where
  "newline = CHR 0x0A"

definition carriage_return :: char where
  "carriage_return = CHR 0x0D"

section \<open>The event-stream parser\<close>

datatype 'j payload = NoData | Parsed 'j | RawText string

type_synonym 'j call = "string \<times> 'j payload"  \<comment> \<open>\<open>onInvalidate(event, data)\<close>\<close>

text \<open>The local variables \<open>eventName\<close> and \<open>dataLines\<close>.\<close>

record line_state =
  eventName :: string
  dataLines :: "string list"

definition idle_line_state :: line_state where
  "idle_line_state = \<lparr>eventName = [], dataLines = []\<rparr>"

definition dispatch :: "(string \<Rightarrow> 'j option) \<Rightarrow> line_state \<Rightarrow> line_state \<times> 'j call list" where
  "dispatch json_parse ls =
     (if eventName ls \<noteq> ''invalidate'' \<and> eventName ls \<noteq> ''resync'' then (idle_line_state, [])
      else
        let raw = join [newline] (dataLines ls);
            data = (if raw = [] then NoData
                    else case json_parse raw of Some v \<Rightarrow> Parsed v | None \<Rightarrow> RawText raw)
        in (idle_line_state, [(eventName ls, data)]))"

definition strip_cr :: "string \<Rightarrow> string" where
  "strip_cr line = (if line \<noteq> [] \<and> last line = carriage_return then butlast line else line)"

definition process_line :: "(string \<Rightarrow> 'j option) \<Rightarrow> line_state \<Rightarrow> string \<Rightarrow> line_state \<times> 'j call list" where
  "process_line json_parse ls line0 =
     (let line = strip_cr line0 in
      if line = [] then dispatch json_parse ls
      else if prefix '':'' line then (ls, [])
      else if prefix ''event:'' line then (ls\<lparr>eventName := trim (drop 6 line)\<rparr>, [])
      else if prefix ''data:'' line then (ls\<lparr>dataLines := dataLines ls @ [trim_start (drop 5 line)]\<rparr>, [])
      else (ls, []))"

text \<open>The inner \<open>for\<close> loop: process every complete line, keep the rest in the buffer.\<close>

function drain ::
  "(string \<Rightarrow> 'j option) \<Rightarrow> line_state \<Rightarrow> string \<Rightarrow> (line_state \<times> string) \<times> 'j call list" where
  "drain json_parse ls buffer =
     (if newline \<in> set buffer then
        let line = takeWhile (\<lambda>c. c \<noteq> newline) buffer;
            rest = drop 1 (dropWhile (\<lambda>c. c \<noteq> newline) buffer);
            r = process_line json_parse ls line;
            d = drain json_parse (fst r) rest
        in (fst d, snd r @ snd d)
      else ((ls, buffer), []))"
  by pat_completeness auto
termination
proof (relation "measure (\<lambda>(jp, ls, buffer). length buffer)", goal_cases)
  case (2 jp ls buffer x xa xb)
  then have "dropWhile (\<lambda>c. c \<noteq> newline) buffer \<noteq> []" by (simp add: dropWhile_eq_Nil_conv)
  then have "length (drop 1 (dropWhile (\<lambda>c. c \<noteq> newline) buffer)) < length (dropWhile (\<lambda>c. c \<noteq> newline) buffer)"
    by (cases "dropWhile (\<lambda>c. c \<noteq> newline) buffer") auto
  also have "\<dots> \<le> length buffer" by (rule length_dropWhile_le)
  finally show ?case using 2 by simp
qed simp

declare drain.simps [simp del]

definition feed ::
  "(string \<Rightarrow> 'j option) \<Rightarrow> line_state \<times> string \<Rightarrow> string \<Rightarrow> (line_state \<times> string) \<times> 'j call list" where
  "feed json_parse st chunk = drain json_parse (fst st) (snd st @ chunk)"

datatype read_result = Chunk string | Done | SignalAborted

text \<open>The outer loop: it ends when the signal is aborted or the reader is done.\<close>

fun consume ::
  "(string \<Rightarrow> 'j option) \<Rightarrow> line_state \<times> string \<Rightarrow> read_result list \<Rightarrow> (line_state \<times> string) \<times> 'j call list" where
  "consume json_parse st [] = (st, [])"
| "consume json_parse st (Done # rs) = (st, [])"
| "consume json_parse st (SignalAborted # rs) = (st, [])"
| "consume json_parse st (Chunk c # rs) =
     (let a = feed json_parse st c; b = consume json_parse (fst a) rs in (fst b, snd a @ snd b))"

section \<open>Chunking does not matter\<close>

text \<open>Feeding a list of chunks one after the other.\<close>

fun feed_all :: "('s \<Rightarrow> 'c list \<Rightarrow> 's \<times> 'o list) \<Rightarrow> 's \<Rightarrow> 'c list list \<Rightarrow> 's \<times> 'o list" where
  "feed_all f s [] = (s, [])"
| "feed_all f s (c # cs) =
     (fst (feed_all f (fst (f s c)) cs), snd (f s c) @ snd (feed_all f (fst (f s c)) cs))"

locale chunk_consumer =
  fixes feed_chunk :: "'s \<Rightarrow> 'c list \<Rightarrow> 's \<times> 'o list"
    and drained :: "'s \<Rightarrow> bool"
  assumes feed_drained: "drained (fst (feed_chunk s c))"
    and feed_empty: "drained s \<Longrightarrow> feed_chunk s [] = (s, [])"
    and feed_append: "feed_chunk s (a @ b) =
      (fst (feed_chunk (fst (feed_chunk s a)) b), snd (feed_chunk s a) @ snd (feed_chunk (fst (feed_chunk s a)) b))"
begin

lemma feed_all_concat: "drained s \<Longrightarrow> feed_all feed_chunk s cs = feed_chunk s (concat cs)"
proof (induction cs arbitrary: s)
  case Nil
  then show ?case by (simp add: feed_empty)
next
  case (Cons c cs)
  then show ?case using feed_append [of s c "concat cs"] feed_drained by simp
qed

end

lemma drain_no_newline: "newline \<notin> set buffer \<Longrightarrow> drain jp ls buffer = ((ls, buffer), [])"
  by (simp add: drain.simps)

lemma drain_line:
  assumes "newline \<notin> set line"
  shows "drain jp ls (line @ newline # rest) =
    (fst (drain jp (fst (process_line jp ls line)) rest),
     snd (process_line jp ls line) @ snd (drain jp (fst (process_line jp ls line)) rest))"
proof -
  have ne: "\<forall>c \<in> set line. c \<noteq> newline" using assms by metis
  have "takeWhile (\<lambda>c. c \<noteq> newline) (line @ newline # rest) = line"
    and "dropWhile (\<lambda>c. c \<noteq> newline) (line @ newline # rest) = newline # rest"
    using ne by (simp_all add: takeWhile_append2 dropWhile_append2)
  then show ?thesis by (subst drain.simps) (simp add: Let_def)
qed

lemma split_first_line:
  assumes "newline \<in> set s"
  obtains line rest where "s = line @ newline # rest" and "newline \<notin> set line"
  using split_list_first [OF assms] by blast

lemma drain_buffer_no_newline: "newline \<notin> set (snd (fst (drain jp ls buffer)))"
proof (induction "length buffer" arbitrary: ls buffer rule: less_induct)
  case less
  show ?case
  proof (cases "newline \<in> set buffer")
    case True
    then obtain line rest where b: "buffer = line @ newline # rest" and "newline \<notin> set line"
      by (rule split_first_line)
    then show ?thesis using less.hyps [of rest] by (simp add: drain_line)
  next
    case False
    then show ?thesis by (simp add: drain_no_newline)
  qed
qed

lemma drain_append:
  "drain jp ls (x @ y) =
     (fst (feed jp (fst (drain jp ls x)) y), snd (drain jp ls x) @ snd (feed jp (fst (drain jp ls x)) y))"
proof (induction "length x" arbitrary: ls x rule: less_induct)
  case less
  show ?case
  proof (cases "newline \<in> set x")
    case True
    then obtain line rest where x: "x = line @ newline # rest" and "newline \<notin> set line"
      by (rule split_first_line)
    then show ?thesis using less.hyps [of rest] by (simp add: drain_line)
  next
    case False
    then show ?thesis by (simp add: drain_no_newline feed_def)
  qed
qed

interpretation sse: chunk_consumer "feed jp" "\<lambda>st. newline \<notin> set (snd st)" for jp :: "string \<Rightarrow> 'j option"
proof unfold_locales
  fix s :: "line_state \<times> string" and a b c :: string
  show "newline \<notin> set (snd (fst (feed jp s c)))"
    by (simp add: feed_def drain_buffer_no_newline)
  show "feed jp s [] = (s, [])" if "newline \<notin> set (snd s)"
    using that by (simp add: feed_def drain_no_newline)
  show "feed jp s (a @ b) =
      (fst (feed jp (fst (feed jp s a)) b), snd (feed jp s a) @ snd (feed jp (fst (feed jp s a)) b))"
    using drain_append [of jp "fst s" "snd s @ a" b] by (simp add: feed_def)
qed

lemma consume_chunks: "consume jp st (map Chunk cs) = feed_all (feed jp) st cs"
  by (induction cs arbitrary: st) (simp_all add: Let_def)

section \<open>What reaches the callback\<close>

lemma dispatch_calls: "c \<in> set (snd (dispatch jp ls)) \<Longrightarrow> fst c \<in> {''invalidate'', ''resync''}"
  by (auto simp: dispatch_def Let_def split: if_splits)

lemma process_line_calls: "c \<in> set (snd (process_line jp ls line)) \<Longrightarrow> fst c \<in> {''invalidate'', ''resync''}"
  using dispatch_calls [of c jp ls] by (auto simp: process_line_def Let_def split: if_splits)

lemma drain_calls: "c \<in> set (snd (drain jp ls buffer)) \<Longrightarrow> fst c \<in> {''invalidate'', ''resync''}"
proof (induction "length buffer" arbitrary: ls buffer rule: less_induct)
  case less
  show ?case
  proof (cases "newline \<in> set buffer")
    case True
    then obtain line rest where b: "buffer = line @ newline # rest" and "newline \<notin> set line"
      by (rule split_first_line)
    then show ?thesis
      using less.prems less.hyps [of rest] process_line_calls [of c jp ls line]
      by (auto simp: drain_line)
  next
    case False
    then show ?thesis using less.prems by (simp add: drain_no_newline)
  qed
qed

lemma consume_calls: "c \<in> set (snd (consume jp st rs)) \<Longrightarrow> fst c \<in> {''invalidate'', ''resync''}"
  by (induction jp st rs rule: consume.induct) (auto simp: Let_def feed_def dest: drain_calls)

section \<open>The server's frames\<close>

text \<open>
  What the realtime handler of the backend writes (\<^verbatim>\<open>realtimeapi/handler.go\<close>, \<open>writeSSE\<close> and the
  heartbeat): an event with its JSON text, or a comment that keeps the connection open.
\<close>

datatype server_item = Frame string string | Heartbeat

fun item_text :: "server_item \<Rightarrow> string" where
  "item_text (Frame event raw) =
     ''event: '' @ event @ [newline] @ ''data: '' @ raw @ [newline] @ [newline]"
| "item_text Heartbeat = '': heartbeat'' @ [newline] @ [newline]"

text \<open>The handler's events; the JSON text of an object is one line between braces.\<close>

fun item_ok :: "server_item \<Rightarrow> bool" where
  "item_ok (Frame event raw) \<longleftrightarrow>
     event \<in> {''invalidate'', ''resync''} \<and> newline \<notin> set raw \<and> prefix ''{'' raw \<and> last raw = CHR ''}''"
| "item_ok Heartbeat \<longleftrightarrow> True"

fun item_calls :: "(string \<Rightarrow> 'j option) \<Rightarrow> server_item \<Rightarrow> 'j call list" where
  "item_calls json_parse (Frame event raw) =
     [(event, case json_parse raw of Some v \<Rightarrow> Parsed v | None \<Rightarrow> RawText raw)]"
| "item_calls json_parse Heartbeat = []"

lemma drain_three:
  assumes "newline \<notin> set a" and "newline \<notin> set b" and "process_line jp ls a = (l1, [])"
    and "process_line jp l1 b = (l2, [])" and "process_line jp l2 [] = (l3, cs)"
  shows "drain jp ls (a @ newline # b @ newline # newline # rest) =
    (fst (drain jp l3 rest), cs @ snd (drain jp l3 rest))"
  using assms drain_line [of "[]" jp l2 rest] by (simp add: drain_line)

lemma trim_start_brace: "trim_start (CHR ''{'' # s) = CHR ''{'' # s"
  by (simp add: trim_start_def strip_start_id tok_len_def ws_tokens_def)

lemma trim_start_space: "trim_start (CHR '' '' # s) = trim_start s"
  unfolding trim_start_def
  by (subst strip_start_unfold) (simp_all add: tok_len_def ws_tokens_def)

lemma trim_event_names: "trim '' invalidate'' = ''invalidate''" "trim '' resync'' = ''resync''"
  by code_simp+

lemma drain_frame:
  assumes "item_ok (Frame event raw)"
  shows "drain jp idle_line_state (item_text (Frame event raw) @ rest) =
    (fst (drain jp idle_line_state rest), item_calls jp (Frame event raw) @ snd (drain jp idle_line_state rest))"
proof -
  obtain t where raw: "raw = CHR ''{'' # t" using assms by (auto simp: prefix_def)
  have ev: "event = ''invalidate'' \<or> event = ''resync''" and no_nl: "newline \<notin> set raw" and end_: "last raw = CHR ''}''"
    using assms by auto
  let ?a = "''event: '' @ event" and ?b = "''data: '' @ raw"
  let ?l1 = "\<lparr>eventName = event, dataLines = []\<rparr>" and ?l2 = "\<lparr>eventName = event, dataLines = [raw]\<rparr>"
  have a: "process_line jp idle_line_state ?a = (?l1, [])"
    using ev trim_event_names
    by (auto simp: process_line_def strip_cr_def carriage_return_def idle_line_state_def Let_def)
  have "strip_cr ?b = ?b" using end_ by (simp add: strip_cr_def carriage_return_def raw)
  then have b: "process_line jp ?l1 ?b = (?l2, [])"
    by (simp add: process_line_def raw trim_start_space trim_start_brace)
  have c: "process_line jp ?l2 [] = (idle_line_state, item_calls jp (Frame event raw))"
    using ev by (auto simp: process_line_def strip_cr_def dispatch_def raw Let_def)
  have nl: "newline \<notin> set ?a" "newline \<notin> set ?b" using ev no_nl by (auto simp: newline_def)
  have full: "item_text (Frame event raw) @ rest = ?a @ newline # ?b @ newline # newline # rest" by simp
  show ?thesis unfolding full by (rule drain_three [OF nl a b c])
qed

lemma drain_heartbeat:
  "drain jp idle_line_state (item_text Heartbeat @ rest) =
    (fst (drain jp idle_line_state rest), snd (drain jp idle_line_state rest))"
proof -
  let ?a = "'': heartbeat''"
  have a: "process_line jp idle_line_state ?a = (idle_line_state, [])"
    by (simp add: process_line_def strip_cr_def carriage_return_def)
  have b: "process_line jp idle_line_state [] = (idle_line_state, [])"
    by (simp add: process_line_def strip_cr_def dispatch_def idle_line_state_def)
  have "newline \<notin> set ?a" by (simp add: newline_def)
  from drain_line [OF this, of jp idle_line_state "[] @ newline # rest"] drain_line [of "[]" jp idle_line_state rest] a b
  have "drain jp idle_line_state (?a @ newline # [] @ newline # rest) =
      (fst (drain jp idle_line_state rest), snd (drain jp idle_line_state rest))" by simp
  then show ?thesis by simp
qed

lemma drain_items:
  "\<forall>it \<in> set items. item_ok it \<Longrightarrow>
   drain jp idle_line_state (concat (map item_text items)) = ((idle_line_state, []), concat (map (item_calls jp) items))"
proof (induction items)
  case Nil
  then show ?case by (simp add: drain_no_newline)
next
  case (Cons it items)
  then show ?case
    by (cases it) (simp_all add: drain_frame drain_heartbeat del: item_text.simps item_ok.simps)
qed

section \<open>Reconnecting\<close>

record stream_request =
  sr_path :: string
  sr_base :: string
  sr_search :: "(string \<times> string) list"
  sr_headers :: "(string \<times> string) list"

definition realtime_request :: "string \<Rightarrow> string \<Rightarrow> string \<Rightarrow> string \<Rightarrow> string \<Rightarrow> stream_request" where
  "realtime_request origin baseUrl eventID capability requestID =
     \<lparr>sr_path = ''/api/v1/realtime/stream'', sr_base = or_else baseUrl origin,
      sr_search = [(''audience'', ''selection''), (''event_id'', eventID)],
      sr_headers = [(''Accept'', ''text/event-stream''), (''Authorization'', ''Bearer '' @ capability),
        (''X-Request-ID'', requestID)]\<rparr>"

text \<open>
  One pass of the \<open>while\<close> loop after its guard. The response is \<^const>\<open>None\<close> when \<open>fetch\<close> throws;
  \<open>consumed\<close> says whether \<open>consume\<close> returned; \<open>aborted\<close> is \<open>signal.aborted\<close> in the
  \<open>catch\<close> block. The pass returns from the function or waits and goes on with the next delay.
\<close>

datatype round_end = Stop | Retry (wait_ms: int) (next_delay: int)

definition initial_retry_delay :: int where
  "initial_retry_delay = 500"

definition is_ok :: "int \<Rightarrow> bool" where
  "is_ok status \<longleftrightarrow> 200 \<le> status \<and> status \<le> 299"

definition realtime_round :: "int \<Rightarrow> int option \<Rightarrow> bool \<Rightarrow> bool \<Rightarrow> round_end" where
  "realtime_round retryDelay response consumed aborted =
     (let again = (\<lambda>delay. Retry delay (min (delay * 2) 10000));
          caught = (\<lambda>delay. if aborted then Stop else again delay)
      in case response of
           None \<Rightarrow> caught retryDelay
         | Some status \<Rightarrow>
             if status = 401 \<or> status = 403 then Stop
             else if \<not> is_ok status then caught retryDelay
             else if consumed then again initial_retry_delay
             else caught initial_retry_delay)"

text \<open>The delays of a sequence of passes, up to the pass that stops.\<close>

fun realtime_waits :: "int \<Rightarrow> (int option \<times> bool) list \<Rightarrow> int list" where
  "realtime_waits d [] = []"
| "realtime_waits d (x # xs) =
     (case realtime_round d (fst x) (snd x) False of
        Stop \<Rightarrow> []
      | Retry w d' \<Rightarrow> w # realtime_waits d' xs)"

lemma realtime_round_bounds:
  assumes "500 \<le> d" and "d \<le> 10000" and "realtime_round d resp cons ab = Retry w d'"
  shows "500 \<le> w \<and> w \<le> 10000 \<and> 500 \<le> d' \<and> d' \<le> 10000"
  using assms by (auto simp: realtime_round_def initial_retry_delay_def Let_def split: option.splits if_splits)

lemma realtime_waits_bounds:
  "500 \<le> d \<Longrightarrow> d \<le> 10000 \<Longrightarrow> w \<in> set (realtime_waits d xs) \<Longrightarrow> 500 \<le> w \<and> w \<le> 10000"
proof (induction xs arbitrary: d)
  case Nil
  then show ?case by simp
next
  case (Cons x xs)
  show ?case
  proof (cases "realtime_round d (fst x) (snd x) False")
    case Stop
    with Cons.prems show ?thesis by simp
  next
    case (Retry w' d')
    have "500 \<le> w' \<and> w' \<le> 10000 \<and> 500 \<le> d' \<and> d' \<le> 10000"
      using realtime_round_bounds [OF Cons.prems(1,2) Retry] .
    with Cons Retry show ?thesis by auto
  qed
qed

lemma realtime_waits_failures:
  "0 < d \<Longrightarrow> d \<le> 10000 \<Longrightarrow> realtime_waits d (replicate n (None, c)) = map (\<lambda>k. min (d * 2 ^ k) 10000) [0 ..< n]"
proof (induction n arbitrary: d)
  case 0
  then show ?case by simp
next
  case (Suc n)
  have step: "realtime_waits d (replicate (Suc n) (None, c)) =
      d # realtime_waits (min (d * 2) 10000) (replicate n (None, c))"
    by (simp add: realtime_round_def Let_def)
  have IH: "realtime_waits (min (d * 2) 10000) (replicate n (None, c)) =
      map (\<lambda>k. min (min (d * 2) 10000 * 2 ^ k) 10000) [0 ..< n]"
    using Suc.prems by (intro Suc.IH) auto
  have "min (min (d * 2) 10000 * 2 ^ k) 10000 = min (d * 2 ^ Suc k) (10000::int)" for k
  proof (cases "d * 2 \<le> 10000")
    case True
    then show ?thesis by (simp add: mult.assoc)
  next
    case False
    have one: "(1::int) \<le> 2 ^ k" by simp
    then have "10000 * 1 \<le> 10000 * (2::int) ^ k" by (intro mult_left_mono) auto
    then have "10000 \<le> 10000 * (2::int) ^ k" by simp
    moreover have "10000 * (2::int) ^ k \<le> d * 2 * 2 ^ k" using False by (intro mult_right_mono) auto
    ultimately have "(10000::int) \<le> d * 2 * 2 ^ k" by linarith
    then have ge: "(10000::int) \<le> d * 2 ^ Suc k" by (simp add: mult.assoc)
    have "min (d * 2) 10000 = 10000" using False by simp
    then have "min (min (d * 2) 10000 * 2 ^ k) 10000 = (10000::int)" using one by simp
    also have "\<dots> = min (d * 2 ^ Suc k) 10000" using ge by (simp only: min_absorb2)
    finally show ?thesis .
  qed
  then have "map (\<lambda>k. min (min (d * 2) 10000 * 2 ^ k) 10000) [0 ..< n] =
      map (\<lambda>k. min (d * 2 ^ k) 10000) (map Suc [0 ..< n])" by simp
  then show ?case using Suc.prems
    by (simp only: step IH) (simp only: map_Suc_upt upt_conv_Cons [of 0 "Suc n"] list.map, simp)
qed

end
