(* ===== verification/Labels.thy ===== *)
theory Labels
  imports Js_Text
begin

text \<open>
  Turning machine text into labels a person reads: \<open>humanLabel\<close> of the selector
  (\<^verbatim>\<open>selection/presentation.ts\<close>) and of the scanner (\<^verbatim>\<open>scanning/outcome.ts\<close>) and \<open>humanName\<close> of
  the admin app (\<^verbatim>\<open>lib/format.ts\<close>). All three blank out UUIDs, long hexadecimal tokens and
  prefixed public identifiers, collapse white space, cut trailing separators and fall back to
  a given word. The locale \<open>label_contract\<close> states what their callers rely on.
\<close>

section \<open>The patterns\<close>

definition uuid_pattern :: regex where
  "uuid_pattern =
    [[WordB, Many 8 (Some 8) hex_cls, Lit [''-''], Many 4 (Some 4) hex_cls, Lit [''-''],
      Many 4 (Some 4) hex_cls, Lit [''-''], Many 4 (Some 4) hex_cls, Lit [''-''],
      Many 12 (Some 12) hex_cls, WordB]]"

definition opaque_hex_pattern :: regex where
  "opaque_hex_pattern = [[WordB, Many 24 None hex_cls, WordB]]"

definition id_tail_cls :: cls where
  "id_tail_cls = one_of (digit_chars @ upper_letters @ lower_letters @ ''_-'')"

definition public_id_pattern :: "string list \<Rightarrow> regex" where
  "public_id_pattern ids = [[WordB, Lit ids, Lit [''_''], Many 1 None id_tail_cls, WordB]]"

definition ws_run_pattern :: regex where
  "ws_run_pattern = [[Many 1 None ws_cls]]"

text \<open>The class \<open>[\s\<middot>|:/\<dash>\<emdash>-]\<close>: white space, middle dot, bar, colon, slash and the three dashes.\<close>

definition separator_cls :: cls where
  "separator_cls =
    alt_cls ws_cls (alt_cls (one_of ''|:/-'')
      (tok_len [[CHR 0xC2, CHR 0xB7], [CHR 0xE2, CHR 0x80, CHR 0x93], [CHR 0xE2, CHR 0x80, CHR 0x94]]))"

definition trailing_separator_pattern :: regex where
  "trailing_separator_pattern = [[Many 1 None separator_cls, AtEnd]]"

definition empty_brackets_pattern :: regex where
  "empty_brackets_pattern =
    [[Lit [''(''], Many 0 None ws_cls, Lit ['')'']],
     [Lit [''[''], Many 0 None ws_cls, Lit ['']'']],
     [Lit [''{''], Many 0 None ws_cls, Lit [''}'']]]"

section \<open>The three functions\<close>

definition selector_id_prefixes :: "string list" where
  "selector_id_prefixes =
    [''evt'', ''tkt'', ''adm'', ''usr'', ''ven'', ''sec'', ''row'', ''seat'', ''cred'', ''inv'',
     ''ptr'', ''lay'', ''res'', ''sal'']"

definition selector_humanLabel :: "string option \<Rightarrow> string \<Rightarrow> string" where
  "selector_humanLabel v fallback =
    (let s0 = trim (nullish v []);
         s1 = replace_all uuid_pattern '' '' s0;
         s2 = replace_all opaque_hex_pattern '' '' s1;
         s3 = replace_all (public_id_pattern selector_id_prefixes) '' '' s2;
         s4 = replace_all ws_run_pattern '' '' s3;
         s5 = replace_all trailing_separator_pattern [] s4;
         readable = trim s5
     in or_else readable fallback)"

definition scanner_id_prefixes :: "string list" where
  "scanner_id_prefixes =
    [''evt'', ''event'', ''tkt'', ''ticket'', ''adm'', ''admission'', ''scan'', ''usr'', ''user'',
     ''ven'', ''venue'', ''sec'', ''section'', ''row'', ''seat'', ''dev'', ''device'', ''cred'',
     ''credential'', ''inv'', ''inventory'']"

definition scanner_humanLabel :: "string option \<Rightarrow> string \<Rightarrow> string" where
  "scanner_humanLabel v fallback =
    (let label = (case v of None \<Rightarrow> [] | Some s \<Rightarrow> trim s);
         s1 = replace_all uuid_pattern '' '' label;
         s2 = replace_all opaque_hex_pattern '' '' s1;
         s3 = replace_all (public_id_pattern scanner_id_prefixes) '' '' s2;
         s4 = replace_all empty_brackets_pattern '' '' s3;
         s5 = replace_all ws_run_pattern '' '' s4;
         s6 = replace_all trailing_separator_pattern [] s5;
         readable = trim s6
     in or_else readable fallback)"

definition admin_id_prefixes :: "string list" where
  "admin_id_prefixes =
    [''evt'', ''tkt'', ''adm'', ''scan'', ''usr'', ''ven'', ''sec'', ''row'', ''seat'', ''dev'',
     ''cred'', ''inv'', ''ptr'', ''lay'', ''res'', ''sal'', ''wh'']"

definition humanName :: "string option \<Rightarrow> string \<Rightarrow> string" where
  "humanName v fallback =
    (let s0 = trim (nullish v []);
         s1 = replace_all uuid_pattern '' '' s0;
         s2 = replace_all opaque_hex_pattern '' '' s1;
         s3 = replace_all (public_id_pattern admin_id_prefixes) '' '' s2;
         s4 = replace_all empty_brackets_pattern '' '' s3;
         s5 = replace_all ws_run_pattern '' '' s4;
         s6 = replace_all trailing_separator_pattern [] s5;
         readable = trim s6
     in or_else readable fallback)"

definition humanGateReference :: "string option \<Rightarrow> string" where
  "humanGateReference v = humanName v ''Scanner device''"

section \<open>What the callers rely on\<close>

lemma replace_all_Nil [simp]: "replace_all rx r [] = []"
  by (simp add: replace_all_def)

lemma trim_Nil [simp]: "trim [] = []"
  using set_trim [of "[]"] by simp

locale label_contract =
  fixes label :: "string option \<Rightarrow> string \<Rightarrow> string"
  assumes label_missing: "label None fb = fb"
    and label_trimmed: "label v fb = fb \<or> (label v fb \<noteq> [] \<and> trim (label v fb) = label v fb)"
begin

lemma label_nonempty: "fb \<noteq> [] \<Longrightarrow> label v fb \<noteq> []"
  using label_trimmed [of v fb] by auto

lemma label_empty_fallback: "trim (label v []) = label v []"
  using label_trimmed [of v "[]"] by auto

end

lemma or_else_trimmed:
  "or_else (trim s) fb = fb \<or> (or_else (trim s) fb \<noteq> [] \<and> trim (or_else (trim s) fb) = or_else (trim s) fb)"
  by (simp add: or_else_def trim_idem)

interpretation selector_label: label_contract selector_humanLabel
  by unfold_locales (simp_all only: selector_humanLabel_def Let_def or_else_trimmed nullish_simps
      replace_all_Nil trim_Nil or_else_simps)

interpretation scanner_label: label_contract scanner_humanLabel
  by unfold_locales (simp_all only: scanner_humanLabel_def Let_def or_else_trimmed option.case
      replace_all_Nil trim_Nil or_else_simps)

interpretation admin_label: label_contract humanName
  by unfold_locales (simp_all only: humanName_def Let_def or_else_trimmed nullish_simps
      replace_all_Nil trim_Nil or_else_simps)

end
