(* ===== verification/Selector_Properties.thy ===== *)
theory Selector_Properties
  imports Selector_Invariants Selector_Realtime Labels "HOL-Library.Char_ord" "HOL-Library.List_Lexorder"
begin

text \<open>
  The properties of the buyer's selection, with their witnesses: what a reservation request
  contains, how retries are keyed, what the hold's clock and the hand-off allow, and what the
  realtime stream can make the page do.
\<close>

section \<open>Lemmas and sample data\<close>

definition sample_offer :: selectable_offer where
  "sample_offer =
     \<lparr>offer_id = ''o1'', available_quantity = Some 2, offer_price = \<lparr>amount_minor = 5000, currency = ''NGN''\<rparr>,
      so_kind = KReserved, so_label = ''Stalls'', so_inventory_id = ''i1'', so_section_id = None,
      so_section_name = None, so_row = None, so_table = None, so_seat = Some ''1''\<rparr>"

definition sample_lines :: "selection_line list" where
  "sample_lines = [\<lparr>line_offer = sample_offer, line_quantity = 1\<rparr>]"

definition sample_hold :: hold where
  "sample_hold =
     \<lparr>hold_id = ''r1'', hold_status = ''HELD'', hold_expires_at = ''later'', reservation_token = ''t1'', hold_items = [],
      hold_total = \<lparr>amount_minor = 5000, currency = ''NGN''\<rparr>, hold_return_url = ''https://seller''\<rparr>"

definition any_order :: "string \<Rightarrow> string \<Rightarrow> bool" where
  "any_order a b \<longleftrightarrow> True"

lemma any_order_preorder: "preorder_compare any_order"
  by unfold_locales (simp_all add: any_order_def)

lemma string_collation: "linear_collation (\<lambda>a b :: string. a \<le> b)"
  unfolding linear_collation_def by (auto intro!: preorder_compare.intro)

lemma sorted_items: "preorder_compare le \<Longrightarrow> sorted_wrt (\<lambda>a b. le (ri_offer_id a) (ri_offer_id b)) (items_of le ls)"
  unfolding items_of_def
  by (rule preorder_compare.sort_by_sorted) (auto simp: preorder_compare_def)

lemma items_of_ids: "distinct (map (\<lambda>l. offer_id (line_offer l)) ls) \<Longrightarrow> distinct (map ri_offer_id (items_of le ls))"
proof -
  assume d: "distinct (map (\<lambda>l. offer_id (line_offer l)) ls)"
  let ?item = "\<lambda>l. \<lparr>ri_offer_id = offer_id (line_offer l), ri_quantity = line_quantity l\<rparr>"
  have ids: "map ri_offer_id (map ?item ls) = map (\<lambda>l. offer_id (line_offer l)) ls" by simp
  have "distinct (map ?item ls)" "inj_on ri_offer_id (set (map ?item ls))"
    using d ids by (metis distinct_map)+
  then show ?thesis by (simp add: items_of_def distinct_map del: set_map)
qed

text \<open>A reservation in flight, reached by loading one offer, choosing it and pressing reserve.\<close>

definition sample_request :: reserve_request where
  "sample_request =
     \<lparr>rq_intent = ''reserve:o1:1'', rq_key = ''k1'', rq_items = [\<lparr>ri_offer_id = ''o1'', ri_quantity = 1\<rparr>], rq_lines = sample_lines\<rparr>"

definition sample_chosen :: selection_state where
  "sample_chosen = toggleReserved sample_offer (initial_selection 0)"

lemma sample_reserve:
  "reserve_start any_order ''k1'' sample_chosen = Some (sample_request, sample_chosen\<lparr>intentKeys := [''reserve:o1:1'' \<mapsto> ''k1'']\<rparr>)"
  by (simp add: sample_chosen_def toggleReserved_def initial_selection_def sample_offer_def reserve_start_def
      selectedLines_def line_of_def items_of_def reserve_intent_def getIntentKey_def truthy_str_def int_str_def
      nat_str.simps digit_chars_def sample_request_def sample_lines_def Let_def)

lemma sample_reachable:
  "\<exists>s. selection_reachable any_order dp off sess s \<and> CReserve sample_request \<in> set (sy_inflight s)"
proof -
  let ?s0 = "\<lparr>sy_state = initial_selection 0, sy_offers = [], sy_inflight = []\<rparr>"
  have r0: "selection_reachable any_order dp off sess ?s0" by (rule selection_reachable.start)
  have "reconcile [sample_offer] (initial_selection 0) = initial_selection 0"
    by (simp add: reconcile_def initial_selection_def)
  then have r1: "selection_reachable any_order dp off sess
      \<lparr>sy_state = initial_selection 0, sy_offers = [sample_offer], sy_inflight = []\<rparr>"
    using selection_reachable.step [OF r0 selection_step.refresh [where offers' = "[sample_offer]"]] by simp
  from selection_reachable.step [OF r1 selection_step.toggle [where off = sample_offer]]
  have r2: "selection_reachable any_order dp off sess
      \<lparr>sy_state = sample_chosen, sy_offers = [sample_offer], sy_inflight = []\<rparr>" by (simp add: sample_chosen_def)
  from selection_reachable.step [OF r2 selection_step.reserve] sample_reserve show ?thesis
    by (intro exI [of _ "\<lparr>sy_state = sample_chosen\<lparr>intentKeys := [''reserve:o1:1'' \<mapsto> ''k1'']\<rparr>,
        sy_offers = [sample_offer], sy_inflight = [CReserve sample_request]\<rparr>"]) fastforce
qed

section \<open>Reservations\<close>

text \<open>
  C2: Whatever the buyer and the server did before, a reservation request in flight is well
  formed: it has items, no offer twice, its items are sorted by offer, and each item is a line of
  the selection at the time with a positive quantity: 1 for a seat, at most the offer's available
  quantity for standing places.
\<close>

theorem reservation_request_valid:
  assumes "selection_reachable le date_parse offset session s" and "preorder_compare le"
    and "CReserve rq \<in> set (sy_inflight s)"
  shows "rq_items rq \<noteq> [] \<and> distinct (map ri_offer_id (rq_items rq)) \<and>
    sorted_wrt (\<lambda>a b. le (ri_offer_id a) (ri_offer_id b)) (rq_items rq) \<and>
    rq_intent rq = reserve_intent (rq_items rq) \<and>
    (\<forall>i \<in> set (rq_items rq). \<exists>l \<in> set (rq_lines rq).
       ri_offer_id i = offer_id (line_offer l) \<and> ri_quantity i = line_quantity l \<and> line_ok l)"
proof -
  have "command_ok le (CReserve rq)" using selection_reachable_ok [OF assms(1)] assms(3) by (simp add: sys_ok_def)
  then have lines: "lines_ok (rq_lines rq)" and items: "rq_items rq = items_of le (rq_lines rq)"
    and intent: "rq_intent rq = reserve_intent (rq_items rq)" by (simp_all add: command_ok_def)
  have "length (rq_items rq) = length (rq_lines rq)" by (simp add: items items_of_def)
  then have ne: "rq_items rq \<noteq> []" using lines by (auto simp: lines_ok_def)
  have "distinct (map (\<lambda>l. offer_id (line_offer l)) (rq_lines rq))" using lines by (simp add: lines_ok_def)
  then have d: "distinct (map ri_offer_id (rq_items rq))" unfolding items by (rule items_of_ids)
  have "sorted_wrt (\<lambda>a b. le (ri_offer_id a) (ri_offer_id b)) (rq_items rq)"
    unfolding items by (rule sorted_items [OF assms(2)])
  moreover have "\<forall>i \<in> set (rq_items rq). \<exists>l \<in> set (rq_lines rq).
      ri_offer_id i = offer_id (line_offer l) \<and> ri_quantity i = line_quantity l \<and> line_ok l"
    using lines unfolding items lines_ok_def by (auto simp: items_of_def)
  ultimately show ?thesis using ne d intent by blast
qed

theorem reservation_request_valid_witness:
  "\<exists>s. selection_reachable any_order (\<lambda>_. None) 0 None s \<and> rq_items sample_request \<noteq> [] \<and>
     (\<forall>i \<in> set (rq_items sample_request). ri_quantity i = 1)"
proof -
  obtain s where s: "selection_reachable any_order (\<lambda>_. None) 0 None s" "CReserve sample_request \<in> set (sy_inflight s)"
    using sample_reachable by blast
  from reservation_request_valid [OF s(1) any_order_preorder s(2)] s(1) show ?thesis
    by (auto simp: sample_request_def)
qed

lemma reserve_start_key:
  assumes "reserve_start le k st = Some (rq, st')"
  shows "rq_items rq = items_of le (selectedLines st) \<and> rq_intent rq = reserve_intent (rq_items rq) \<and>
    (rq_key rq, intentKeys st') = getIntentKey (intentKeys st) (rq_intent rq) k"
  using assms by (auto simp: reserve_start_def Let_def split: if_splits)

text \<open>What becomes of the key when the same selection is tried again, after every outcome.\<close>

lemma retried_key:
  assumes first: "reserve_start le k1 st = Some (rq, st1)" and "k1 \<noteq> []"
    and answer: "intentKeys st2 (rq_intent rq) = intentKeys (fst (reserve_finish rq outcome st1)) (rq_intent rq)"
    and again: "reserve_start le k2 st2 = Some (rq', st3)"
    and same: "items_of le (selectedLines st2) = items_of le (selectedLines st)"
  shows "rq_items rq' = rq_items rq \<and> rq_key rq' = (if outcome = Unknown then rq_key rq else k2)"
proof -
  from reserve_start_key [OF first] reserve_start_key [OF again] same
  have items: "rq_items rq' = rq_items rq" "rq_intent rq' = rq_intent rq"
    and k1: "(rq_key rq, intentKeys st1) = getIntentKey (intentKeys st) (rq_intent rq) k1"
    and k2: "rq_key rq' = fst (getIntentKey (intentKeys st2) (rq_intent rq') k2)" by (auto simp: prod_eq_iff)
  have held: "intentKeys st1 (rq_intent rq) = Some (rq_key rq)"
    using selector_keys.acquire_held [of "intentKeys st" "rq_intent rq" k1] k1 by (metis fst_conv snd_conv)
  have ne: "rq_key rq \<noteq> []"
    using k1 \<open>k1 \<noteq> []\<close> by (auto simp: getIntentKey_def truthy_str_def split: option.splits if_splits)
  show ?thesis
  proof (cases outcome)
    case (Held h)
    then have "intentKeys st2 (rq_intent rq) = None"
      using answer by (simp add: reserve_finish_def clearIntentKey_def)
    then show ?thesis using items k2 Held selector_keys.acquire_fresh [of "intentKeys st2" "rq_intent rq" k2] by simp
  next
    case (Refused c)
    then have "intentKeys st2 (rq_intent rq) = None"
      using answer by (simp add: reserve_finish_def clearIntentKey_def)
    then show ?thesis using items k2 Refused selector_keys.acquire_fresh [of "intentKeys st2" "rq_intent rq" k2] by simp
  next
    case Unknown
    then have "intentKeys st2 (rq_intent rq) = Some (rq_key rq)"
      using answer held by (simp add: reserve_finish_def)
    then show ?thesis using items k2 Unknown ne selector_keys.acquire_again [of "intentKeys st2" "rq_intent rq"] by simp
  qed
qed

text \<open>
  The refusals after which \<^verbatim>\<open>docs/api-contract.md\<close> (section 73) lets the same intent be retried only under
  the same key, and the answers that settle an intent: a hold, or a refusal with any other code.
\<close>

definition retry_codes :: "string list" where
  "retry_codes = [''AUTHORITY_TEMPORARILY_UNAVAILABLE'', ''RATE_LIMITED'']"

definition settles :: "reserve_outcome \<Rightarrow> bool" where
  "settles outcome =
     (case outcome of Held h \<Rightarrow> True | Refused (Some c) \<Rightarrow> c \<notin> set retry_codes | _ \<Rightarrow> False)"

text \<open>
  C3: Trying the same selection again follows the retry rules of the API's contract wherever the last
  attempt was lost or settled: after an unknown outcome the new request has the key and the items of
  the old one, after a hold or a settling refusal it has the fresh key, whatever was done in between
  to other selections. (After the refusals that ask to be retried under the same key the selector does not
  follow the contract: lemma retry_codes_drop_key.)
\<close>

theorem reservation_retry_key:
  assumes "reserve_start le k1 st = Some (rq, st1)" and "k1 \<noteq> []"
    and "intentKeys st2 (rq_intent rq) = intentKeys (fst (reserve_finish rq outcome st1)) (rq_intent rq)"
    and "reserve_start le k2 st2 = Some (rq', st3)"
    and "items_of le (selectedLines st2) = items_of le (selectedLines st)"
    and "outcome = Unknown \<or> settles outcome"
  shows "rq_items rq' = rq_items rq \<and> rq_key rq' = (if settles outcome then k2 else rq_key rq)"
  using retried_key [OF assms(1-5)] assms(6) by (cases outcome) (auto simp: settles_def)

text \<open>
  The divergence: after the refusals that the contract wants retried under the same key, and after a
  refusal without a code, the selector's next attempt has a fresh key.
\<close>

lemma retry_codes_drop_key:
  assumes "reserve_start le k1 st = Some (rq, st1)" and "k1 \<noteq> []"
    and "c = None \<or> c \<in> Some ` set retry_codes"
    and "intentKeys st2 (rq_intent rq) = intentKeys (fst (reserve_finish rq (Refused c) st1)) (rq_intent rq)"
    and "reserve_start le k2 st2 = Some (rq', st3)"
    and "items_of le (selectedLines st2) = items_of le (selectedLines st)" and "k2 \<noteq> rq_key rq"
  shows "rq_items rq' = rq_items rq \<and> rq_key rq' \<noteq> rq_key rq"
  using retried_key [OF assms(1,2,4-6)] assms(7) by simp

definition sample_reserved :: selection_state where
  "sample_reserved = sample_chosen\<lparr>intentKeys := [''reserve:o1:1'' \<mapsto> ''k1'']\<rparr>"

lemma sample_reserve_again: "\<exists>rq st. reserve_start any_order ''k2'' sample_reserved = Some (rq, st)"
  by (simp add: sample_reserved_def sample_chosen_def toggleReserved_def initial_selection_def sample_offer_def
      reserve_start_def selectedLines_def line_of_def Let_def)

theorem reservation_retry_key_witness:
  "\<exists>rq st. reserve_start any_order ''k2'' sample_reserved = Some (rq, st) \<and> rq_key rq = ''k1''"
proof -
  obtain rq st where again: "reserve_start any_order ''k2'' sample_reserved = Some (rq, st)"
    using sample_reserve_again by blast
  have "selectedLines sample_reserved = selectedLines sample_chosen" by (simp add: sample_reserved_def selectedLines_def)
  moreover have "intentKeys sample_reserved (rq_intent sample_request) =
      intentKeys (fst (reserve_finish sample_request Unknown sample_reserved)) (rq_intent sample_request)"
    by (simp add: reserve_finish_def)
  ultimately have "rq_key rq = rq_key sample_request"
    using reservation_retry_key [OF sample_reserve [folded sample_reserved_def], of sample_reserved Unknown "''k2''" rq st] again
    by (simp add: settles_def)
  with again show ?thesis by (auto simp: sample_request_def)
qed

section \<open>The identity of a selection\<close>

definition line_item :: "selection_line \<Rightarrow> reservation_item" where
  "line_item l = \<lparr>ri_offer_id = offer_id (line_offer l), ri_quantity = line_quantity l\<rparr>"

lemma items_of_line_item: "items_of le ls = sort_by (\<lambda>a b. le (ri_offer_id a) (ri_offer_id b)) (map line_item ls)"
  by (simp add: items_of_def line_item_def [abs_def])

lemma distinct_line_items:
  assumes "distinct (map (\<lambda>l. offer_id (line_offer l)) ls)"
  shows "distinct (map line_item ls)" "inj_on ri_offer_id (set (map line_item ls))"
proof -
  have "map ri_offer_id (map line_item ls) = map (\<lambda>l. offer_id (line_offer l)) ls" by (simp add: line_item_def)
  then show "distinct (map line_item ls)" "inj_on ri_offer_id (set (map line_item ls))"
    using assms by (metis distinct_map)+
qed

lemma items_of_same_items:
  assumes le: "linear_collation le" and d: "distinct (map (\<lambda>l. offer_id (line_offer l)) ls)"
    "distinct (map (\<lambda>l. offer_id (line_offer l)) ms)" and same: "line_item ` set ls = line_item ` set ms"
  shows "items_of le ls = items_of le ms"
proof -
  let ?key = "\<lambda>a b :: reservation_item. le (ri_offer_id a) (ri_offer_id b)"
  have pre: "preorder_compare ?key" using le unfolding linear_collation_def preorder_compare_def by blast
  have "tie_free ?key (map line_item ls)"
    using le distinct_line_items(2) [OF d(1)] unfolding tie_free_def linear_collation_def inj_on_def by blast
  then show ?thesis unfolding items_of_line_item
    using distinct_line_items(1) [OF d(1)] distinct_line_items(1) [OF d(2)] same
    by (intro sort_by_set_eq [OF pre]) auto
qed

text \<open>
  The intent of a reservation names the selection and nothing else: two selections have the
  same intent exactly when they ask for the same quantities of the same offers, in whatever order
  the buyer chose them.
\<close>

theorem reservation_intent_names_selection:
  assumes "linear_collation le" and "ls \<noteq> []" and "ms \<noteq> []"
    and "distinct (map (\<lambda>l. offer_id (line_offer l)) ls)" and "distinct (map (\<lambda>l. offer_id (line_offer l)) ms)"
    and "\<forall>l \<in> set ls \<union> set ms. plain_id (offer_id (line_offer l))"
  shows "reserve_intent (items_of le ls) = reserve_intent (items_of le ms) \<longleftrightarrow> line_item ` set ls = line_item ` set ms"
proof
  assume "line_item ` set ls = line_item ` set ms"
  from items_of_same_items [OF assms(1,4,5) this]
  show "reserve_intent (items_of le ls) = reserve_intent (items_of le ms)" by simp
next
  assume eq: "reserve_intent (items_of le ls) = reserve_intent (items_of le ms)"
  have sets: "set (items_of le xs) = line_item ` set xs" for xs by (simp add: items_of_line_item)
  have "items_of le ls \<noteq> []" "items_of le ms \<noteq> []"
    using assms(2,3) sets [of ls] sets [of ms] by (metis empty_set image_is_empty set_empty)+
  then have "items_of le ls = items_of le ms"
    using assms(6) sets by (intro reserve_intent_inj [OF eq]) (auto simp: line_item_def)
  then show "line_item ` set ls = line_item ` set ms" using sets by metis
qed

theorem reservation_intent_names_selection_witness:
  "reserve_intent (items_of (\<lambda>a b. a \<le> b) sample_lines) \<noteq>
   reserve_intent (items_of (\<lambda>a b. a \<le> b) [\<lparr>line_offer = sample_offer, line_quantity = 2\<rparr>])"
  using reservation_intent_names_selection
    [OF string_collation, of sample_lines "[\<lparr>line_offer = sample_offer, line_quantity = 2\<rparr>]"]
  by (simp add: sample_lines_def sample_offer_def plain_id_def line_item_def)

section \<open>The hold\<close>

lemma handed_off_fields:
  assumes "selection_step le date_parse offset session s eff s'" and "SubmitForm url form_fields \<in> set eff"
  shows "\<exists>h sess. held_hold (sy_state s) = Some h \<and> session = Some sess \<and> url = ss_return_url sess \<and>
    form_fields = [(''reservation_id'', hold_id h), (''reservation_token'', reservation_token h)] \<and>
    \<not> holdExpired date_parse offset (sy_state s)"
  using assms
  by (cases rule: selection_step.cases)
    (auto simp: handoff_def reserve_finish_def release_start_def release_finish_def Let_def
      split: option.splits if_splits reserve_outcome.splits release_outcome.splits)

text \<open>
  C9: A hand-off leaves the page only with a hold that has not expired by the server's clock, only
  to the return URL of the session, and carries nothing but the hold's id and token.
\<close>

theorem hand_off_safe:
  assumes "selection_step le date_parse offset session s eff s'" and "SubmitForm url form_fields \<in> set eff"
  shows "\<exists>h sess. held_hold (sy_state s) = Some h \<and> session = Some sess \<and> url = ss_return_url sess \<and>
    form_fields = [(''reservation_id'', hold_id h), (''reservation_token'', reservation_token h)] \<and>
    \<not> holdExpired date_parse offset (sy_state s)"
  using assms by (rule handed_off_fields)

definition sample_session :: selection_session where
  "sample_session = \<lparr>ss_id = ''s1'', ss_event_id = ''e1'', ss_return_url = ''https://seller/back'', ss_expires_at = ''later''\<rparr>"

definition sample_held :: selection_sys where
  "sample_held = \<lparr>sy_state = (initial_selection 1000)\<lparr>held_hold := Some sample_hold\<rparr>, sy_offers = [], sy_inflight = []\<rparr>"

theorem hand_off_safe_witness:
  "\<not> holdExpired (\<lambda>_. Some 5000) 0 (sy_state sample_held)"
proof -
  have "handoff (\<lambda>_. Some 5000) 0 (Some sample_session) (sy_state sample_held) =
      ((sy_state sample_held)\<lparr>handoffPending := True\<rparr>,
       [SubmitForm ''https://seller/back'' [(''reservation_id'', ''r1''), (''reservation_token'', ''t1'')]])"
    by (simp add: handoff_def sample_held_def sample_session_def sample_hold_def initial_selection_def holdExpired_def hold_deadline_def)
  from hand_off_safe [OF selection_step.hand_off [where le = any_order, OF this]] show ?thesis by auto
qed

text \<open>
  Releasing an expired hold sends no request and clears the selection at once; releasing a live
  hold sends its id and token and keeps everything on the screen until the answer.
\<close>

theorem release_by_expiry:
  assumes "release_start date_parse offset created st = (rl, st', eff)" and "held_hold st = Some h"
  shows "if holdExpired date_parse offset st
    then rl = None \<and> held_hold st' = None \<and> selectedOffers st' = [] \<and> heldLines st' = [] \<and> eff = [Refetch]
    else (\<exists>r. rl = Some r \<and> rl_reservation_id r = hold_id h \<and> rl_token r = reservation_token h) \<and>
      held_hold st' = Some h \<and> heldLines st' = heldLines st \<and> selectedOffers st' = selectedOffers st \<and> eff = []"
  using assms by (auto simp: release_start_def clearSelection_def Let_def)

theorem release_by_expiry_witness:
  "\<exists>st' eff. release_start (\<lambda>_. Some 500) 0 ''k'' (sy_state sample_held) = (None, st', eff) \<and> held_hold st' = None"
proof -
  obtain rl st' eff where r: "release_start (\<lambda>_. Some 500) 0 ''k'' (sy_state sample_held) = (rl, st', eff)"
    by (cases "release_start (\<lambda>_. Some 500) 0 ''k'' (sy_state sample_held)") auto
  have "holdExpired (\<lambda>_. Some 500) 0 (sy_state sample_held)"
    by (simp add: sample_held_def initial_selection_def holdExpired_def hold_deadline_def)
  with release_by_expiry [OF r, of sample_hold] r show ?thesis by (simp add: sample_held_def)
qed

text \<open>
  C28: When new offers arrive, the selection keeps only offers that are still there, in their new
  version and with quantities that are still available, never gains one, and the buyer is told
  when one was lost while nothing is held.
\<close>

theorem reconcile_keeps_current_offers:
  assumes "selection_ok st"
  shows "selection_ok (reconcile offers st) \<and> set (selectedOffers (reconcile offers st)) \<subseteq> set offers \<and>
    offer_id ` set (selectedOffers (reconcile offers st)) = offer_id ` set (selectedOffers st) \<inter> offer_id ` set offers \<and>
    (held_hold st = None \<longrightarrow> (\<exists>off \<in> set (selectedOffers st). offer_id off \<notin> offer_id ` set offers) \<longrightarrow>
       availabilityNotice (reconcile offers st) = notice_text)"
proof -
  let ?cur = "\<lambda>i. js_map_of (map (\<lambda>off. (offer_id off, off)) offers) i"
  have some: "(\<exists>off. ?cur i = Some off) \<longleftrightarrow> i \<in> offer_id ` set offers" for i
  proof -
    have "?cur i = None \<longleftrightarrow> i \<notin> fst ` set (rev (map (\<lambda>off. (offer_id off, off)) offers))"
      unfolding js_map_of_def by (rule map_of_eq_None_iff)
    also have "\<dots> \<longleftrightarrow> i \<notin> offer_id ` set offers" by (force simp: image_iff)
    finally show ?thesis by auto
  qed
  have kept: "offer_id ` set (List.map_filter (\<lambda>off. ?cur (offer_id off)) sel) = offer_id ` set sel \<inter> offer_id ` set offers" for sel
  proof -
    have "set (map offer_id (List.map_filter (\<lambda>off. ?cur (offer_id off)) sel)) =
        set (map offer_id (filter (\<lambda>off. ?cur (offer_id off) \<noteq> None) sel))"
      unfolding map_filter_current_ids ..
    then show ?thesis using some by auto
  qed
  have ids: "offer_id ` set (selectedOffers (reconcile offers st)) = offer_id ` set (selectedOffers st) \<inter> offer_id ` set offers"
    using kept [of "selectedOffers st"] by (auto simp: reconcile_def Let_def)
  have notice: "availabilityNotice (reconcile offers st) = notice_text"
    if "held_hold st = None" "off \<in> set (selectedOffers st)" "offer_id off \<notin> offer_id ` set offers" for off
  proof -
    have "?cur (offer_id off) = None" using some [of "offer_id off"] that(3) by auto
    with that show ?thesis by (auto simp: reconcile_def Let_def list_ex_iff)
  qed
  show ?thesis using reconcile_ok [OF assms] reconcile_subset ids notice by blast
qed

theorem reconcile_keeps_current_offers_witness:
  "selectedOffers (reconcile [] sample_chosen) = [] \<and> availabilityNotice (reconcile [] sample_chosen) = notice_text"
proof -
  have "selection_ok sample_chosen" "sample_offer \<in> set (selectedOffers sample_chosen)" "held_hold sample_chosen = None"
    by (simp_all add: sample_chosen_def toggleReserved_def initial_selection_def selection_ok_def quantity_ok_def sample_offer_def)
  with reconcile_keeps_current_offers [of sample_chosen "[]"] show ?thesis by auto
qed

text \<open>
  The countdown shows the whole seconds left, never negative: reading the text back gives them.
\<close>

theorem countdown_shows_seconds_left:
  assumes "date_parse until = Some t" and "until \<noteq> []"
  shows "int (countdown_seconds (remaining date_parse (Some until) now)) = max 0 ((t - now) div 1000)"
proof -
  let ?s = "max 0 ((t - now) div 1000)"
  have shown: "remaining date_parse (Some until) now =
      pad2 (nat_str (nat (?s div 60))) @ '':'' @ pad2 (nat_str (nat (?s mod 60)))"
  proof -
    have nn: "0 \<le> ?s div 60" "0 \<le> ?s mod 60" by (simp_all add: pos_imp_zdiv_nonneg_iff)
    have "remaining date_parse (Some until) now = pad2 (int_str (?s div 60)) @ '':'' @ pad2 (int_str (?s mod 60))"
      using assms by (simp add: remaining_def truthy_str_def Let_def)
    also have "\<dots> = pad2 (nat_str (nat (?s div 60))) @ '':'' @ pad2 (nat_str (nat (?s mod 60)))"
      using nn unfolding int_str_def by (simp only: not_less [symmetric] if_False)
    finally show ?thesis .
  qed
  have "int (60 * nat (?s div 60) + nat (?s mod 60)) = ?s"
    by (simp add: pos_imp_zdiv_nonneg_iff)
  then show ?thesis unfolding shown countdown_seconds_format .
qed

theorem countdown_shows_seconds_left_witness:
  "countdown_seconds (remaining (\<lambda>_. Some 125500) (Some ''soon'') 500) = 125"
  using countdown_shows_seconds_left [of "\<lambda>_. Some 125500" "''soon''" 125500 500] by simp

section \<open>The realtime stream\<close>

text \<open>
  How the network cuts the stream into chunks does not matter: any two sequences of chunks with
  the same bytes produce the same callbacks and leave the parser in the same state.
\<close>

theorem chunking_irrelevant:
  assumes "concat cs = concat ds"
  shows "consume json_parse (idle_line_state, []) (map Chunk cs) = consume json_parse (idle_line_state, []) (map Chunk ds)"
  using assms sse.feed_all_concat [of "(idle_line_state, [])" json_parse] by (simp add: consume_chunks)

theorem chunking_irrelevant_witness:
  "snd (consume (\<lambda>_. None :: unit option) (idle_line_state, []) [Chunk ''event: inva'', Chunk (''lidate'' @ [newline, newline])]) =
   snd (consume (\<lambda>_. None) (idle_line_state, []) [Chunk (''event: invalidate'' @ [newline, newline])])"
  using chunking_irrelevant [of "[''event: inva'', ''lidate'' @ [newline, newline]]" "[''event: invalidate'' @ [newline, newline]]"
    "\<lambda>_. None :: unit option"] by simp

text \<open>
  C18: The selector reads what the backend writes: from any sequence of frames and heartbeats of the
  realtime handler, in any chunks, the callback is called once per frame, in order, with the
  frame's event name and parsed data, and nothing is left in the buffer.
\<close>

theorem server_frames_round_trip:
  assumes "\<forall>it \<in> set items. item_ok it" and "concat cs = concat (map item_text items)"
  shows "consume json_parse (idle_line_state, []) (map Chunk cs) =
    ((idle_line_state, []), concat (map (item_calls json_parse) items))"
proof -
  have "consume json_parse (idle_line_state, []) (map Chunk cs) = feed json_parse (idle_line_state, []) (concat cs)"
    using sse.feed_all_concat [of "(idle_line_state, [])" json_parse cs] by (simp add: consume_chunks)
  also have "\<dots> = ((idle_line_state, []), concat (map (item_calls json_parse) items))"
    using drain_items [OF assms(1), of json_parse] by (simp add: feed_def assms(2))
  finally show ?thesis .
qed

theorem server_frames_round_trip_witness:
  "snd (consume (\<lambda>s. Some s) (idle_line_state, []) [Chunk (item_text Heartbeat @ item_text (Frame ''resync'' ''{}''))]) =
   [(''resync'', Parsed ''{}'')]"
  using server_frames_round_trip [of "[Heartbeat, Frame ''resync'' ''{}'']"
    "[item_text Heartbeat @ item_text (Frame ''resync'' ''{}'')]" "\<lambda>s. Some s"]
  by (simp add: newline_def)

text \<open>
  Whatever arrives on the stream, valid or not, only the events "invalidate" and "resync" reach
  the page.
\<close>

theorem only_known_events_reach_page:
  "fst ` set (snd (consume json_parse st reads)) \<subseteq> {''invalidate'', ''resync''}"
  using consume_calls [of _ json_parse st reads] by auto

text \<open>
  Reconnecting backs off: every wait is between half a second and ten seconds, and while the
  connection keeps failing the k-th wait is half a second doubled k times, up to ten seconds.
\<close>

theorem reconnect_backs_off:
  "set (realtime_waits initial_retry_delay outcomes) \<subseteq> {500..10000} \<and>
   realtime_waits initial_retry_delay (replicate n (None, consumed)) = map (\<lambda>k. min (500 * 2 ^ k) 10000) [0 ..< n]"
  using realtime_waits_bounds [of initial_retry_delay _ outcomes] realtime_waits_failures [of initial_retry_delay n consumed]
  by (auto simp: initial_retry_delay_def)

end
