(* ===== verification/Selection_Page.thy ===== *)
theory Selection_Page
  imports Selector_Session Labels "HOL-Library.Multiset"
begin

text \<open>
  The selector's page (\<^verbatim>\<open>selection/SelectionPage.tsx\<close>): the summary, the grouping of seats into
  sections and rows, the size of the floor plan, the seat and quantity buttons and the choice of
  the screen. \<open>money\<close> formats an amount of minor units; \<open>cosine\<close> and \<open>sine\<close> take degrees, as
  rationals. The bytes of the middle dot and of the dash are written out.
\<close>

section \<open>Texts\<close>

definition mid_dot :: string where
  "mid_dot = [CHR '' '', CHR 0xC2, CHR 0xB7, CHR '' '']"

definition em_dash :: string where
  "em_dash = [CHR 0xE2, CHR 0x80, CHR 0x94]"

definition prefixed :: "string \<Rightarrow> string \<Rightarrow> string" where
  "prefixed word v = (if v = [] then [] else word @ '' '' @ v)"

definition dotted :: "string list \<Rightarrow> string" where
  "dotted parts = join mid_dot (filter (\<lambda>s. s \<noteq> []) parts)"

text \<open>A line of the selection: title, description, amount.\<close>

definition selection_line_text :: "(int \<Rightarrow> string \<Rightarrow> string) \<Rightarrow> selection_line \<Rightarrow> string \<times> string \<times> string" where
  "selection_line_text money l =
     (let off = line_offer l
      in (selector_humanLabel (Some (so_label off)) ''Ticket'',
          if so_kind off = KReserved
          then dotted [prefixed ''Row'' (selector_humanLabel (so_row off) []), selector_humanLabel (so_table off) [],
                       prefixed ''Seat'' (selector_humanLabel (so_seat off) [])]
          else ''Quantity '' @ int_str (line_quantity l),
          money (amount_minor (offer_price off) * line_quantity l) (price_currency (offer_price off))))"

definition summary_total :: "selection_line list \<Rightarrow> int" where
  "summary_total ls = foldl (\<lambda>sum l. sum + amount_minor (offer_price (line_offer l)) * line_quantity l) 0 ls"

definition summary_currency :: "selection_line list \<Rightarrow> string" where
  "summary_currency ls = (case ls of [] \<Rightarrow> ''NGN'' | l # _ \<Rightarrow> price_currency (offer_price (line_offer l)))"

definition summary_count :: "selection_line list \<Rightarrow> int" where
  "summary_count ls = foldl (\<lambda>sum l. sum + line_quantity l) 0 ls"

text \<open>The two buttons that reserve: on the summary, and on the sheet of small screens.\<close>

definition hold_button :: "bool \<Rightarrow> selection_line list \<Rightarrow> bool" where
  "hold_button busy ls \<longleftrightarrow> ls \<noteq> [] \<and> \<not> busy"

definition sheet_shown :: "bool \<Rightarrow> selection_line list \<Rightarrow> bool" where
  "sheet_shown review_open ls \<longleftrightarrow> ls \<noteq> [] \<and> review_open"

section \<open>Sections and rows\<close>

text \<open>\<open>map.set(k, f(map.get(k)))\<close> on a \<open>Map\<close>, which keeps the order of insertion.\<close>

fun map_update :: "'k \<Rightarrow> ('v option \<Rightarrow> 'v) \<Rightarrow> ('k \<times> 'v) list \<Rightarrow> ('k \<times> 'v) list" where
  "map_update k f [] = [(k, f None)]"
| "map_update k f ((k', v) # m) = (if k' = k then (k, f (Some v)) # m else (k', v) # map_update k f m)"

record seat_section =
  sc_name :: string
  sc_rows :: "(string \<times> layout_reserved_unit list) list"

definition section_key :: "layout_reserved_unit \<Rightarrow> string" where
  "section_key u = nullish (lu_section_object_key u) (nullish (lu_section_id u) (nullish (lu_section_name u) ''reserved''))"

definition row_label :: "layout_reserved_unit \<Rightarrow> string" where
  "row_label u = selector_humanLabel (if truthy_str (lu_row u) then lu_row u else lu_table u) em_dash"

definition add_seat :: "(string \<times> seat_section) list \<Rightarrow> layout_reserved_unit \<Rightarrow> (string \<times> seat_section) list" where
  "add_seat sections u =
     map_update (section_key u)
       (\<lambda>current.
          (let s = nullish current \<lparr>sc_name = selector_humanLabel (lu_section_name u) ''Reserved seating'', sc_rows = []\<rparr>
           in s\<lparr>sc_rows := map_update (row_label u) (\<lambda>us. nullish us [] @ [u]) (sc_rows s)\<rparr>))
       sections"

definition reservedSections :: "selection_layout option \<Rightarrow> (string \<times> seat_section) list" where
  "reservedSections layout = foldl add_seat [] (case layout of None \<Rightarrow> [] | Some l \<Rightarrow> sl_reserved_units l)"

definition seats_of :: "seat_section \<Rightarrow> layout_reserved_unit list" where
  "seats_of s = concat (map snd (sc_rows s))"

definition shown_seats :: "(string \<times> seat_section) list \<Rightarrow> layout_reserved_unit list" where
  "shown_seats sections = concat (map (seats_of \<circ> snd) sections)"

section \<open>The floor plan\<close>

definition layout_objects :: "selection_layout option \<Rightarrow> geometry_object list" where
  "layout_objects layout = (case layout of None \<Rightarrow> [] | Some l \<Rightarrow> nullish (nullish (sl_geometry l) None) [])"

definition is_fixture :: "geometry_object \<Rightarrow> bool" where
  "is_fixture g \<longleftrightarrow> go_type g \<in> {''STAGE'', ''RING'', ''FIELD''}"

definition has_ga_pool :: "selection_layout option \<Rightarrow> geometry_object \<Rightarrow> bool" where
  "has_ga_pool layout g \<longleftrightarrow>
     (case layout of None \<Rightarrow> False | Some l \<Rightarrow> list_ex (\<lambda>p. lp_section_object_key p = Some (go_object_key g)) (sl_ga_pools l))"

definition section_height :: "seat_section \<Rightarrow> rat" where
  "section_height s = max 190 (92 + of_nat (length (sc_rows s)) * 38)"

record box =
  bx_left :: rat
  bx_top :: rat
  bx_right :: rat
  bx_bottom :: rat

definition expanded_size :: "selection_layout option \<Rightarrow> geometry_object \<Rightarrow> rat \<times> rat" where
  "expanded_size layout g =
     (let sec = map_of (reservedSections layout) (go_object_key g); pool = has_ga_pool layout g
      in (max (go_width g) (if is_fixture g then 180 else if sec \<noteq> None \<or> pool then 270 else 0),
          max (go_height g)
            (if is_fixture g then 90
             else case sec of Some s \<Rightarrow> section_height s | None \<Rightarrow> if pool then 210 else 0)))"

definition expanded_box :: "(rat \<Rightarrow> rat) \<Rightarrow> (rat \<Rightarrow> rat) \<Rightarrow> selection_layout option \<Rightarrow> geometry_object \<Rightarrow> box" where
  "expanded_box cosine sine layout g =
     (case expanded_size layout g of (w, h) \<Rightarrow>
        let c = cosine (nullish (go_rotation g) 0); s = sine (nullish (go_rotation g) 0);
            rw = \<bar>w * c\<bar> + \<bar>h * s\<bar>; rh = \<bar>w * s\<bar> + \<bar>h * c\<bar>;
            cx = go_x g + w / 2; cy = go_y g + h / 2
        in \<lparr>bx_left = cx - rw / 2, bx_top = cy - rh / 2, bx_right = cx + rw / 2, bx_bottom = cy + rh / 2\<rparr>)"

record spatial_bounds =
  sb_offsetX :: rat
  sb_offsetY :: rat
  sb_width :: rat
  sb_height :: rat

definition spatialBounds :: "(rat \<Rightarrow> rat) \<Rightarrow> (rat \<Rightarrow> rat) \<Rightarrow> selection_layout option \<Rightarrow> spatial_bounds" where
  "spatialBounds cosine sine layout =
     (let boxes = map (expanded_box cosine sine layout) (layout_objects layout);
          left = foldr min (map bx_left boxes) 0; top = foldr min (map bx_top boxes) 0
      in \<lparr>sb_offsetX = 24 - left, sb_offsetY = 24 - top,
          sb_width = foldr max (map bx_right boxes) 1000 - left + 48,
          sb_height = foldr max (map bx_bottom boxes) 650 - top + 48\<rparr>)"

record spatial_style =
  st_left :: rat
  st_top :: rat
  st_width :: rat
  st_height :: rat
  st_rotate :: rat

definition spatialStyle :: "spatial_bounds \<Rightarrow> geometry_object \<Rightarrow> (rat \<times> rat) option \<Rightarrow> spatial_style" where
  "spatialStyle b g contentMinimum =
     \<lparr>st_left = go_x g + sb_offsetX b, st_top = go_y g + sb_offsetY b,
      st_width = max (go_width g) (case contentMinimum of Some (w, _) \<Rightarrow> w | None \<Rightarrow> if is_fixture g then 180 else 250),
      st_height = max (go_height g) (case contentMinimum of Some (_, h) \<Rightarrow> h | None \<Rightarrow> if is_fixture g then 90 else 160),
      st_rotate = nullish (go_rotation g) 0\<rparr>"

text \<open>What is drawn on the map: fixtures, sections of seats, general admission cards.\<close>

definition drawn_fixtures :: "selection_layout option \<Rightarrow> geometry_object list" where
  "drawn_fixtures layout = filter is_fixture (layout_objects layout)"

definition geometry_of :: "selection_layout option \<Rightarrow> string option \<Rightarrow> geometry_object option" where
  "geometry_of layout k = (case k of None \<Rightarrow> None | Some key \<Rightarrow> find (\<lambda>g. go_object_key g = key) (layout_objects layout))"

definition section_style :: "selection_layout option \<Rightarrow> spatial_bounds \<Rightarrow> string \<Rightarrow> seat_section \<Rightarrow> spatial_style option" where
  "section_style layout b key s =
     map_option (\<lambda>g. spatialStyle b g (Some (270, section_height s))) (geometry_of layout (Some key))"

definition ga_pool_of :: "selection_layout option \<Rightarrow> selectable_offer \<Rightarrow> layout_ga_pool option" where
  "ga_pool_of layout off =
     (case layout of None \<Rightarrow> None | Some l \<Rightarrow> find (\<lambda>p. lp_inventory_id p = so_inventory_id off) (sl_ga_pools l))"

definition ga_style :: "selection_layout option \<Rightarrow> spatial_bounds \<Rightarrow> selectable_offer \<Rightarrow> spatial_style option" where
  "ga_style layout b off =
     map_option (\<lambda>g. spatialStyle b g (Some (270, 210)))
       (geometry_of layout (Option.bind (ga_pool_of layout off) lp_section_object_key))"

section \<open>Buttons\<close>

record seat_button =
  sbt_label :: string
  sbt_text :: string
  sbt_selected :: bool
  sbt_available :: bool
  sbt_offer :: "selectable_offer option"

definition unit_offer :: "selectable_offer list \<Rightarrow> layout_reserved_unit \<Rightarrow> selectable_offer option" where
  "unit_offer offers u = js_map_of (map (\<lambda>off. (so_inventory_id off, off)) offers) (lu_inventory_id u)"

definition unit_availability :: "availability option \<Rightarrow> layout_reserved_unit \<Rightarrow> availability_unit option" where
  "unit_availability av u =
     js_map_of (map (\<lambda>a. (au_inventory_id a, a)) (case av of None \<Rightarrow> [] | Some a \<Rightarrow> av_reserved_units a)) (lu_inventory_id u)"

definition seat_button_of ::
    "(int \<Rightarrow> string \<Rightarrow> string) \<Rightarrow> availability option \<Rightarrow> selectable_offer list \<Rightarrow> selection_line list \<Rightarrow> string \<Rightarrow> layout_reserved_unit \<Rightarrow> seat_button"
where
  "seat_button_of money av offers ls section_name u =
     (let off = unit_offer offers u;
          seat = selector_humanLabel (Some (lu_seat u)) [];
          location = dotted [prefixed ''Row'' (selector_humanLabel (lu_row u) []),
                             (if truthy_str (lu_table u) then selector_humanLabel (lu_table u) [] else []), prefixed ''Seat'' seat]
      in \<lparr>sbt_label = section_name @ '', '' @ location @ '', '' @
            (case off of None \<Rightarrow> ''unavailable''
             | Some x \<Rightarrow> money (amount_minor (offer_price x)) (price_currency (offer_price x))),
          sbt_text = or_else seat em_dash,
          sbt_selected = (case off of None \<Rightarrow> False | Some x \<Rightarrow> list_ex (\<lambda>l. offer_id (line_offer l) = offer_id x) ls),
          sbt_available = (Option.bind (unit_availability av u) au_offer \<noteq> None \<and> off \<noteq> None),
          sbt_offer = off\<rparr>)"

definition press_seat :: "seat_button \<Rightarrow> selection_state \<Rightarrow> selection_state" where
  "press_seat b st =
     (if \<not> sbt_available b then st else case sbt_offer b of None \<Rightarrow> st | Some off \<Rightarrow> toggleReserved off st)"

definition ga_quantity :: "selection_line list \<Rightarrow> selectable_offer \<Rightarrow> int" where
  "ga_quantity ls off =
     (case find (\<lambda>l. offer_id (line_offer l) = offer_id off) ls of None \<Rightarrow> 0 | Some l \<Rightarrow> line_quantity l)"

definition ga_max :: "selectable_offer \<Rightarrow> int" where
  "ga_max off = nullish (available_quantity off) 0"

definition press_minus :: "selectable_offer \<Rightarrow> selection_state \<Rightarrow> selection_state" where
  "press_minus off st =
     (let q = ga_quantity (selectedLines st) off in if q = 0 then st else setGAQuantity off (q - 1) st)"

definition press_plus :: "selectable_offer \<Rightarrow> selection_state \<Rightarrow> selection_state" where
  "press_plus off st =
     (let q = ga_quantity (selectedLines st) off in if q \<ge> ga_max off then st else setGAQuantity off (q + 1) st)"

section \<open>Screens\<close>

datatype selection_screen =
    Loading_Screen | Invalid_Link_Screen | Network_Error_Screen | Unavailable_Screen
  | Hold_Screen bool  \<comment> \<open>expired\<close>
  | Empty_Screen | Map_Screen

definition selection_screen_of ::
    "date_parser \<Rightarrow> int \<Rightarrow> selection_view \<Rightarrow> selection_layout option \<Rightarrow> selectable_offer list \<Rightarrow> selection_state \<Rightarrow> selection_screen"
where
  "selection_screen_of date_parse offset v layout offers st =
     (if vw_loading v then Loading_Screen
      else if vw_invalid_link v then Invalid_Link_Screen
      else if vw_network_error v then Network_Error_Screen
      else if vw_event_unavailable v then Unavailable_Screen
      else if held_hold st \<noteq> None then Hold_Screen (holdExpired date_parse offset st)
      else if reservedSections layout = [] \<and> filter (\<lambda>off. so_kind off = KGa) offers = [] then Empty_Screen
      else Map_Screen)"

end
