(* ===== verification/Selection_Page_Properties.thy ===== *)
theory Selection_Page_Properties
  imports Selection_Page
begin

text \<open>
  Properties of the selector's page: no seat of the layout is lost or shown twice, everything on
  the floor plan is inside the map, and what the page adds to the session's state.
\<close>

section \<open>Maps in insertion order\<close>

lemma map_of_map_update: "map_of (map_update k f m) = (map_of m)(k \<mapsto> f (map_of m k))"
  by (induction k f m rule: map_update.induct) auto

lemma keys_map_update: "fst ` set (map_update k f m) = insert k (fst ` set m)"
  by (induction k f m rule: map_update.induct) auto

lemma distinct_map_update: "distinct (map fst m) \<Longrightarrow> distinct (map fst (map_update k f m))"
proof (induction k f m rule: map_update.induct)
  case (2 k f k' v m)
  then show ?case using keys_map_update [of k f m] by auto
qed simp

lemma mset_map_update:
  assumes "\<And>v. mset (g (f (Some v))) = mset (g v) + a" "mset (g (f None)) = a"
  shows "mset (concat (map (g \<circ> snd) (map_update k f m))) = mset (concat (map (g \<circ> snd) m)) + a"
proof (induction m)
  case (Cons kv m)
  then show ?case by (cases kv) (simp add: assms ac_simps)
qed (simp add: assms(2))

section \<open>Seats\<close>

definition nonempty :: "'a list \<Rightarrow> 'a list option" where
  "nonempty xs = (if xs = [] then None else Some xs)"

definition row_at :: "(string \<times> seat_section) list \<Rightarrow> string \<Rightarrow> string \<Rightarrow> layout_reserved_unit list option" where
  "row_at sections k r = Option.bind (map_of sections k) (\<lambda>s. map_of (sc_rows s) r)"

definition seats_in :: "layout_reserved_unit list \<Rightarrow> string \<Rightarrow> string \<Rightarrow> layout_reserved_unit list" where
  "seats_in units k r = filter (\<lambda>u. section_key u = k \<and> row_label u = r) units"

lemma row_at_add_seat:
  "row_at (add_seat sections u) k r =
     (if section_key u = k \<and> row_label u = r then Some (nullish (row_at sections k r) [] @ [u]) else row_at sections k r)"
  by (cases "map_of sections (section_key u)")
    (auto simp: row_at_def add_seat_def map_of_map_update Let_def)

lemma mset_add_seat: "mset (shown_seats (add_seat sections u)) = mset (shown_seats sections) + {#u#}"
proof -
  let ?row = "\<lambda>us. nullish us [] @ [u]"
  have row: "mset (concat (map (id \<circ> snd) (map_update (row_label u) ?row rows))) = mset (concat (map (id \<circ> snd) rows)) + {#u#}" for rows
    by (rule mset_map_update) simp_all
  show ?thesis
    unfolding shown_seats_def add_seat_def
    by (rule mset_map_update) (use row in \<open>simp_all add: seats_of_def Let_def\<close>)
qed

lemma distinct_add_seat: "distinct (map fst sections) \<Longrightarrow> distinct (map fst (add_seat sections u))"
  by (simp add: add_seat_def distinct_map_update)

lemma sections_of_units:
  "row_at (foldl add_seat [] units) k r = nonempty (seats_in units k r) \<and>
   mset (shown_seats (foldl add_seat [] units)) = mset units \<and> distinct (map fst (foldl add_seat [] units))"
proof (induction units rule: rev_induct)
  case Nil
  then show ?case by (simp add: row_at_def seats_in_def nonempty_def shown_seats_def)
next
  case (snoc u units)
  then show ?case
    by (simp add: row_at_add_seat mset_add_seat distinct_add_seat) (simp add: seats_in_def nonempty_def)
qed

text \<open>
  C26: the seat map shows every seat of the layout once. The seats on the page are those of the
  layout, whatever its keys and labels; a row holds the seats of its section and row label in
  the order of the layout, and no section is shown twice.
\<close>
theorem seat_map_complete:
  "mset (shown_seats (reservedSections (Some layout))) = mset (sl_reserved_units layout) \<and>
   row_at (reservedSections (Some layout)) k r =
     nonempty (filter (\<lambda>u. section_key u = k \<and> row_label u = r) (sl_reserved_units layout)) \<and>
   distinct (map fst (reservedSections (Some layout)))"
  using sections_of_units [of "sl_reserved_units layout" k r] by (simp add: reservedSections_def seats_in_def)

section \<open>The floor plan\<close>

lemma foldr_min_le: "foldr min xs (a :: rat) \<le> a" "x \<in> set xs \<Longrightarrow> foldr min xs a \<le> x"
  by (induction xs) (auto simp: min_le_iff_disj)

lemma foldr_max_ge: "(a :: rat) \<le> foldr max xs a" "x \<in> set xs \<Longrightarrow> x \<le> foldr max xs a"
  by (induction xs) (auto simp: le_max_iff_disj)

lemma box_inside:
  assumes "g \<in> set (layout_objects layout)"
  shows "24 \<le> bx_left (expanded_box cosine sine layout g) + sb_offsetX (spatialBounds cosine sine layout)"
    and "bx_right (expanded_box cosine sine layout g) + sb_offsetX (spatialBounds cosine sine layout) \<le>
      sb_width (spatialBounds cosine sine layout) - 24"
    and "24 \<le> bx_top (expanded_box cosine sine layout g) + sb_offsetY (spatialBounds cosine sine layout)"
    and "bx_bottom (expanded_box cosine sine layout g) + sb_offsetY (spatialBounds cosine sine layout) \<le>
      sb_height (spatialBounds cosine sine layout) - 24"
proof -
  let ?bs = "map (expanded_box cosine sine layout) (layout_objects layout)"
  have b: "expanded_box cosine sine layout g \<in> set ?bs" using assms by simp
  have "foldr min (map bx_left ?bs) 0 \<le> bx_left (expanded_box cosine sine layout g)"
    "foldr min (map bx_top ?bs) 0 \<le> bx_top (expanded_box cosine sine layout g)"
    by (rule foldr_min_le(2); use b in force)+
  then show "24 \<le> bx_left (expanded_box cosine sine layout g) + sb_offsetX (spatialBounds cosine sine layout)"
    "24 \<le> bx_top (expanded_box cosine sine layout g) + sb_offsetY (spatialBounds cosine sine layout)"
    by (simp_all add: spatialBounds_def Let_def)
  have "bx_right (expanded_box cosine sine layout g) \<le> foldr max (map bx_right ?bs) 1000"
    "bx_bottom (expanded_box cosine sine layout g) \<le> foldr max (map bx_bottom ?bs) 650"
    by (rule foldr_max_ge(2); use b in force)+
  then show "bx_right (expanded_box cosine sine layout g) + sb_offsetX (spatialBounds cosine sine layout) \<le>
      sb_width (spatialBounds cosine sine layout) - 24"
    "bx_bottom (expanded_box cosine sine layout g) + sb_offsetY (spatialBounds cosine sine layout) \<le>
      sb_height (spatialBounds cosine sine layout) - 24"
    by (simp_all add: spatialBounds_def Let_def)
qed

text \<open>A corner of a drawn element, after its rotation about its centre.\<close>

definition corner :: "(rat \<Rightarrow> rat) \<Rightarrow> (rat \<Rightarrow> rat) \<Rightarrow> spatial_style \<Rightarrow> rat \<times> rat \<Rightarrow> rat \<times> rat" where
  "corner cosine sine st ij =
     (let c = cosine (st_rotate st); s = sine (st_rotate st); dx = fst ij * st_width st / 2; dy = snd ij * st_height st / 2
      in (st_left st + st_width st / 2 + dx * c - dy * s, st_top st + st_height st / 2 + dx * s + dy * c))"

lemma half_sum_bound:
  fixes a b :: rat
  assumes "i \<in> {- 1, 1}" "j \<in> {- 1, 1}"
  shows "\<bar>i * a / 2 - j * b / 2\<bar> \<le> (\<bar>a\<bar> + \<bar>b\<bar>) / 2" "\<bar>i * a / 2 + j * b / 2\<bar> \<le> (\<bar>a\<bar> + \<bar>b\<bar>) / 2"
  using assms by (auto simp: abs_if)

lemma corner_in_box:
  assumes size: "(st_width st, st_height st) = expanded_size layout g"
    and place: "st_left st = go_x g + x" "st_top st = go_y g + y" "st_rotate st = nullish (go_rotation g) 0"
    and ij: "fst ij \<in> {- 1, 1}" "snd ij \<in> {- 1, 1}"
  shows "bx_left (expanded_box cosine sine layout g) + x \<le> fst (corner cosine sine st ij)"
    and "fst (corner cosine sine st ij) \<le> bx_right (expanded_box cosine sine layout g) + x"
    and "bx_top (expanded_box cosine sine layout g) + y \<le> snd (corner cosine sine st ij)"
    and "snd (corner cosine sine st ij) \<le> bx_bottom (expanded_box cosine sine layout g) + y"
proof -
  let ?w = "st_width st" and ?h = "st_height st"
  let ?c = "cosine (st_rotate st)" and ?s = "sine (st_rotate st)"
  have e: "expanded_size layout g = (?w, ?h)" using size by simp
  have fx: "fst (corner cosine sine st ij) =
      st_left st + ?w / 2 + (fst ij * (?w * ?c) / 2 - snd ij * (?h * ?s) / 2)"
    by (simp add: corner_def Let_def)
  have fy: "snd (corner cosine sine st ij) =
      st_top st + ?h / 2 + (fst ij * (?w * ?s) / 2 + snd ij * (?h * ?c) / 2)"
    by (simp add: corner_def Let_def)
  have bx: "bx_left (expanded_box cosine sine layout g) = go_x g + ?w / 2 - (\<bar>?w * ?c\<bar> + \<bar>?h * ?s\<bar>) / 2"
    "bx_right (expanded_box cosine sine layout g) = go_x g + ?w / 2 + (\<bar>?w * ?c\<bar> + \<bar>?h * ?s\<bar>) / 2"
    "bx_top (expanded_box cosine sine layout g) = go_y g + ?h / 2 - (\<bar>?w * ?s\<bar> + \<bar>?h * ?c\<bar>) / 2"
    "bx_bottom (expanded_box cosine sine layout g) = go_y g + ?h / 2 + (\<bar>?w * ?s\<bar> + \<bar>?h * ?c\<bar>) / 2"
    by (simp_all add: expanded_box_def e Let_def place(3))
  note x = half_sum_bound(1) [OF ij, of "?w * ?c" "?h * ?s"] and y = half_sum_bound(2) [OF ij, of "?w * ?s" "?h * ?c"]
  show "bx_left (expanded_box cosine sine layout g) + x \<le> fst (corner cosine sine st ij)"
    "fst (corner cosine sine st ij) \<le> bx_right (expanded_box cosine sine layout g) + x"
    using x [unfolded abs_le_iff] unfolding bx fx place(1) by linarith+
  show "bx_top (expanded_box cosine sine layout g) + y \<le> snd (corner cosine sine st ij)"
    "snd (corner cosine sine st ij) \<le> bx_bottom (expanded_box cosine sine layout g) + y"
    using y [unfolded abs_le_iff] unfolding bx fy place(2) by linarith+
qed

text \<open>
  An element that the floor plan places at an object of the layout, with the style it is drawn
  with: a fixture, the section of the object's seats, the card of a general admission offer.
\<close>

inductive drawn_on_map :: "selection_layout option \<Rightarrow> spatial_bounds \<Rightarrow> geometry_object \<Rightarrow> spatial_style \<Rightarrow> bool" for layout b where
  fixture: "g \<in> set (drawn_fixtures layout) \<Longrightarrow> drawn_on_map layout b g (spatialStyle b g None)"
| seats: "(k, s) \<in> set (reservedSections layout) \<Longrightarrow> geometry_of layout (Some k) = Some g \<Longrightarrow>
    section_style layout b k s = Some st \<Longrightarrow> drawn_on_map layout b g st"
| standing: "geometry_of layout (Option.bind (ga_pool_of layout off) lp_section_object_key) = Some g \<Longrightarrow>
    ga_style layout b off = Some st \<Longrightarrow> drawn_on_map layout b g st"

text \<open>Each object is one thing: a fixture, an area with seats, or an area of general admission.\<close>

definition one_kind :: "selection_layout option \<Rightarrow> bool" where
  "one_kind layout \<longleftrightarrow>
     (\<forall>g \<in> set (layout_objects layout).
        (is_fixture g \<or> has_ga_pool layout g \<longrightarrow> map_of (reservedSections layout) (go_object_key g) = None) \<and>
        (is_fixture g \<longrightarrow> \<not> has_ga_pool layout g))"

lemma geometry_ofD: "geometry_of layout (Some k) = Some g \<Longrightarrow> g \<in> set (layout_objects layout) \<and> go_object_key g = k"
  by (auto simp: geometry_of_def find_Some_iff)

lemma distinct_sections: "distinct (map fst (reservedSections layout))"
  using sections_of_units [of "case layout of None \<Rightarrow> [] | Some l \<Rightarrow> sl_reserved_units l" "[]" "[]"] by (simp add: reservedSections_def)

lemma pool_known:
  assumes "Option.bind (ga_pool_of layout off) lp_section_object_key = Some k" "go_object_key g = k"
  shows "has_ga_pool layout g"
proof -
  obtain l p where "layout = Some l" "find (\<lambda>p. lp_inventory_id p = so_inventory_id off) (sl_ga_pools l) = Some p"
    "lp_section_object_key p = Some k"
    using assms(1) by (auto simp: ga_pool_of_def bind_eq_Some_conv split: option.splits)
  moreover from this(2) have "p \<in> set (sl_ga_pools l)" by (auto simp: find_Some_iff)
  ultimately show ?thesis using assms(2) by (auto simp: has_ga_pool_def list_ex_iff)
qed

lemma drawn_size:
  assumes "one_kind layout" and "drawn_on_map layout b g st"
  shows "g \<in> set (layout_objects layout) \<and> (st_width st, st_height st) = expanded_size layout g \<and>
    st_left st = go_x g + sb_offsetX b \<and> st_top st = go_y g + sb_offsetY b \<and> st_rotate st = nullish (go_rotation g) 0"
  using assms(2)
proof cases
  case fixture
  then show ?thesis by (simp add: drawn_fixtures_def spatialStyle_def expanded_size_def)
next
  case (seats k s)
  then have sec: "map_of (reservedSections layout) k = Some s" by (simp add: distinct_sections)
  from geometry_ofD [OF seats(2)] have g: "g \<in> set (layout_objects layout)" "go_object_key g = k" by simp_all
  then have "\<not> is_fixture g" using assms(1) sec unfolding one_kind_def by fastforce
  with seats sec g show ?thesis by (auto simp: section_style_def spatialStyle_def expanded_size_def)
next
  case (standing off)
  then obtain k where k: "Option.bind (ga_pool_of layout off) lp_section_object_key = Some k"
    by (cases "Option.bind (ga_pool_of layout off) lp_section_object_key") (simp_all add: geometry_of_def)
  from geometry_ofD [of layout k g] standing(1) k have g: "g \<in> set (layout_objects layout)" "go_object_key g = k" by simp_all
  from pool_known [OF k g(2)] have pool: "has_ga_pool layout g" .
  with assms(1) g have "\<not> is_fixture g" "map_of (reservedSections layout) (go_object_key g) = None"
    unfolding one_kind_def by fastforce+
  with standing g pool show ?thesis by (auto simp: ga_style_def spatialStyle_def expanded_size_def)
qed

text \<open>
  C39: the floor plan fits its map. On a layout whose objects are each one thing (a fixture, an
  area with seats or a general admission area), every corner of every element that the page places
  at an object (fixture, section of seats, general admission card), after its rotation, is inside
  the map with a margin of 24 pixels, for any coordinates, sizes and rotations.
\<close>
theorem floor_plan_fits_map:
  assumes "one_kind layout" and "drawn_on_map layout (spatialBounds cosine sine layout) g st"
    and "fst ij \<in> {- 1, 1}" and "snd ij \<in> {- 1, 1}"
  shows "24 \<le> fst (corner cosine sine st ij) \<and>
    fst (corner cosine sine st ij) \<le> sb_width (spatialBounds cosine sine layout) - 24 \<and>
    24 \<le> snd (corner cosine sine st ij) \<and>
    snd (corner cosine sine st ij) \<le> sb_height (spatialBounds cosine sine layout) - 24"
proof -
  from drawn_size [OF assms(1,2)] have d: "g \<in> set (layout_objects layout)"
    "(st_width st, st_height st) = expanded_size layout g"
    "st_left st = go_x g + sb_offsetX (spatialBounds cosine sine layout)"
    "st_top st = go_y g + sb_offsetY (spatialBounds cosine sine layout)" "st_rotate st = nullish (go_rotation g) 0"
    by simp_all
  note inside = box_inside [OF d(1), of cosine sine] and corners = corner_in_box [OF d(2-5) assms(3,4), of cosine sine]
  show ?thesis
    using inside corners by (meson order_trans)
qed

definition plan_object :: "string \<Rightarrow> string \<Rightarrow> rat \<Rightarrow> geometry_object" where
  "plan_object key kind x = \<lparr>go_object_key = key, go_type = kind, go_label = key, go_x = x, go_y = 10, go_width = 40,
     go_height = 20, go_rotation = None\<rparr>"

definition plan_seat :: "string \<Rightarrow> layout_reserved_unit" where
  "plan_seat key = \<lparr>lu_inventory_id = ''i'', lu_section_id = None, lu_section_name = None, lu_section_object_key = Some key,
     lu_row = None, lu_table = None, lu_seat = ''1'', lu_display_label = None\<rparr>"

definition demo_plan :: "string \<Rightarrow> selection_layout option" where
  "demo_plan key = Some \<lparr>sl_event_id = ''e'',
     sl_geometry = Some (Some [plan_object ''stage'' ''STAGE'' 900, plan_object ''stalls'' ''SECTION'' (- 50)]),
     sl_reserved_units = [plan_seat key], sl_ga_pools = []\<rparr>"

lemma demo_plan_facts:
  "layout_objects (demo_plan key) = [plan_object ''stage'' ''STAGE'' 900, plan_object ''stalls'' ''SECTION'' (- 50)]"
  "\<not> has_ga_pool (demo_plan key) g"
  "\<exists>s. reservedSections (demo_plan key) = [(key, s)] \<and> section_height s = 190"
  by (simp_all add: demo_plan_def layout_objects_def has_ga_pool_def reservedSections_def add_seat_def section_key_def
      plan_seat_def Let_def section_height_def)

lemma demo_plan_drawn:
  assumes "key \<in> {''stage'', ''stalls''}"
  shows "\<exists>g \<in> set (layout_objects (demo_plan key)). go_object_key g = key \<and>
    drawn_on_map (demo_plan key) b g (spatialStyle b g (Some (270, 190)))"
proof -
  obtain s where s: "reservedSections (demo_plan key) = [(key, s)]" "section_height s = 190"
    using demo_plan_facts(3) by blast
  from assms obtain g where g: "geometry_of (demo_plan key) (Some key) = Some g"
    by (auto simp: geometry_of_def demo_plan_facts(1) plan_object_def)
  then have "drawn_on_map (demo_plan key) b g (spatialStyle b g (Some (270, 190)))"
    by (intro drawn_on_map.seats [of key s]) (simp_all add: s section_style_def)
  then show ?thesis using geometry_ofD [OF g] by blast
qed

theorem floor_plan_fits_map_witness:
  "\<exists>g st. drawn_on_map (demo_plan ''stalls'') (spatialBounds (\<lambda>_. 1) (\<lambda>_. 0) (demo_plan ''stalls'')) g st \<and>
     go_object_key g = ''stalls'' \<and> 24 \<le> fst (corner (\<lambda>_. 1) (\<lambda>_. 0) st (- 1, 1))"
proof -
  have "one_kind (demo_plan ''stalls'')"
    using demo_plan_facts(3) [of "''stalls''"]
    by (auto simp: one_kind_def demo_plan_facts(1,2) plan_object_def is_fixture_def)
  moreover obtain g where g: "go_object_key g = ''stalls''" "drawn_on_map (demo_plan ''stalls'')
      (spatialBounds (\<lambda>_. 1) (\<lambda>_. 0) (demo_plan ''stalls'')) g
      (spatialStyle (spatialBounds (\<lambda>_. 1) (\<lambda>_. 0) (demo_plan ''stalls'')) g (Some (270, 190)))"
    using demo_plan_drawn [of "''stalls''"] by blast
  ultimately show ?thesis using floor_plan_fits_map [OF _ g(2), of "(- 1, 1)"] by auto
qed

text \<open>
  Otherwise it need not fit: the size of the map counts a fixture with 180 by 90 pixels, and an
  area with seats by its rows, whatever else is drawn at the same object. The seats of a stage at
  the right end are drawn beyond the map.
\<close>

lemma stage_with_seats_overflows:
  "\<exists>g st. drawn_on_map (demo_plan ''stage'') (spatialBounds (\<lambda>_. 1) (\<lambda>_. 0) (demo_plan ''stage'')) g st \<and>
     sb_width (spatialBounds (\<lambda>_. 1) (\<lambda>_. 0) (demo_plan ''stage'')) < fst (corner (\<lambda>_. 1) (\<lambda>_. 0) st (1, 1))"
proof -
  let ?b = "spatialBounds (\<lambda>_. 1) (\<lambda>_. 0) (demo_plan ''stage'')"
  obtain g where g: "g \<in> set (layout_objects (demo_plan ''stage''))" "go_object_key g = ''stage''"
    "drawn_on_map (demo_plan ''stage'') ?b g (spatialStyle ?b g (Some (270, 190)))"
    using demo_plan_drawn [of "''stage''"] by blast
  then have "g = plan_object ''stage'' ''STAGE'' 900" by (auto simp: demo_plan_facts(1) plan_object_def)
  moreover obtain s where "reservedSections (demo_plan ''stage'') = [(''stage'', s)]" using demo_plan_facts(3) by blast
  then have "sb_width ?b < fst (corner (\<lambda>_. 1) (\<lambda>_. 0) (spatialStyle ?b (plan_object ''stage'' ''STAGE'' 900) (Some (270, 190))) (1, 1))"
    by (simp add: spatialBounds_def Let_def demo_plan_facts(1,2) expanded_box_def expanded_size_def plan_object_def is_fixture_def
        corner_def spatialStyle_def)
  ultimately show ?thesis using g(3) by blast
qed

section \<open>What the page does not do\<close>

text \<open>Amounts of different currencies are added and shown in the currency of the first line.\<close>

lemma mixed_currencies_added:
  "summary_total [l, l'] = amount_minor (offer_price (line_offer l)) * line_quantity l +
     amount_minor (offer_price (line_offer l')) * line_quantity l' \<and>
   summary_currency [l, l'] = price_currency (offer_price (line_offer l))"
  by (simp add: summary_total_def summary_currency_def)

text \<open>
  The sheet of small screens stays open while nothing is selected and while tickets are held, so
  the first ticket chosen afterwards shows it again.
\<close>

lemma sheet_shows_again: "\<not> sheet_shown True [] \<and> sheet_shown True [l]"
  by (simp add: sheet_shown_def)

end
