(* ===== verification/Scanner_Outcome.thy ===== *)
theory Scanner_Outcome
  imports Labels
begin

text \<open>
  The scanner's pure parts: its data (\<^verbatim>\<open>scanning/types.ts\<close>), the phone test and the gate label
  (\<^verbatim>\<open>scanning/device.ts\<close>), and what the gate operator is shown for an answer of the server
  (\<^verbatim>\<open>scanning/outcome.ts\<close>). The local time format of a timestamp is a parameter.
\<close>

section \<open>Data\<close>

record scanner_event =
  se_id :: string
  se_name :: string
  se_state :: string
  se_starts_at :: "string option"
  se_ends_at :: "string option"
  se_timezone_name :: "string option"
  se_venue_name :: string
  se_address_text :: "string option"

record ticket_display =
  td_section :: "string option"
  td_row :: "string option"
  td_seat :: "string option"

record scan_result =
  sr_result :: string
  sr_ticket :: "ticket_display option"   \<comment> \<open>\<open>ticket.display\<close>\<close>
  sr_admitted_at :: "string option"
  sr_previous_admitted_at :: "string option"  \<comment> \<open>\<open>previous_admission.admitted_at\<close>\<close>

datatype scan_tone = TSuccess | TWarning | TDanger

record recent_scan =
  rs_id :: string
  rs_title :: string
  rs_detail :: string
  rs_tone :: scan_tone
  rs_time :: string

section \<open>The device\<close>

record device_navigator =
  nav_userAgent :: "string option"
  nav_mobile :: "bool option"  \<comment> \<open>\<open>userAgentData?.mobile\<close>\<close>

text \<open>\<open>.\<close> stands for any character that does not end a line.\<close>

definition dot_cls :: cls where
  "dot_cls s = (if tok_len [[CHR 0x0A], [CHR 0x0D], [CHR 0xE2, CHR 0x80, CHR 0xA8], [CHR 0xE2, CHR 0x80, CHR 0xA9]] s = 0
     then (if s = [] then 0 else 1) else 0)"

definition phone_pattern :: regex where
  "phone_pattern =
    [[Lit [''iPhone'']], [Lit [''iPod'']], [Lit [''Windows Phone'']], [Lit [''BlackBerry'']],
     [Lit [''Opera Mini'']], [Lit [''Android''], Many 1 None dot_cls, Lit [''Mobile'']],
     [Lit [''Mobile''], Many 1 None dot_cls, Lit [''Safari'']]]"

definition isPhoneDevice :: "device_navigator \<Rightarrow> bool" where
  "isPhoneDevice nav =
     (if nav_mobile nav = Some True then True
      else test_regex phone_pattern (nullish (nav_userAgent nav) []))"

definition scannerGateLabel :: "bool \<Rightarrow> string" where
  "scannerGateLabel phoneDevice = (if phoneDevice then ''Phone scanner'' else ''Manual entry'')"

section \<open>Presenting an outcome\<close>

datatype presentation_tone = PReady | PSuccess | PWarning | PDanger

record outcome_presentation =
  op_tone :: presentation_tone
  op_title :: string
  op_description :: string

text \<open>The separator \<open>' \<middot> '\<close>.\<close>

definition dot_separator :: string where
  "dot_separator = [CHR '' '', CHR 0xC2, CHR 0xB7, CHR '' '']"

definition ticketLocation :: "scan_result option \<Rightarrow> string" where
  "ticketLocation result =
     (case Option.bind result sr_ticket of
        None \<Rightarrow> []
      | Some display \<Rightarrow>
          let section' = scanner_humanLabel (td_section display) [];
              seat = scanner_humanLabel (td_seat display) [];
              row = scanner_humanLabel (td_row display) []
          in join dot_separator
               (filter (\<lambda>s. s \<noteq> [])
                 [section', if row \<noteq> [] then ''Row '' @ row else [], if seat \<noteq> [] then ''Seat '' @ seat else []]))"

definition admitted_codes :: "string list" where
  "admitted_codes = [''ADMITTED'', ''MANUAL_OVERRIDE_ADMITTED'']"

definition invalid_codes :: "string list" where
  "invalid_codes = [''CREDENTIAL_REVOKED'', ''CREDENTIAL_SUPERSEDED'', ''TICKET_VOID'', ''TICKET_INVALID'']"

definition presentation :: "presentation_tone \<Rightarrow> string \<Rightarrow> string \<Rightarrow> outcome_presentation" where
  "presentation tone title description = \<lparr>op_tone = tone, op_title = title, op_description = description\<rparr>"

definition outcomePresentation ::
  "(string \<Rightarrow> string) \<Rightarrow> scan_result option \<Rightarrow> bool \<Rightarrow> string \<Rightarrow> outcome_presentation" where
  "outcomePresentation local_time result cannotVerify eventName =
     (if cannotVerify then
        presentation PDanger ''Can't verify ticket''
          ''Check your connection and try again. Do not admit this guest until the ticket can be verified.''
      else
        let code = map_option sr_result result in
        if code \<in> Some ` set admitted_codes then
          presentation PSuccess ''Admit guest'' (or_else (ticketLocation result) ''Ticket checked successfully.'')
        else if code = Some ''TICKET_ALREADY_ADMITTED'' then
          presentation PWarning ''Already checked in''
            (case Option.bind result sr_previous_admitted_at of
               Some t \<Rightarrow> if t \<noteq> [] then ''First admitted at '' @ local_time t else ticketLocation result
             | None \<Rightarrow> ticketLocation result)
        else if code = Some ''WRONG_EVENT'' then
          presentation PDanger ''Wrong event'' (''This ticket is not valid for '' @ eventName @ ''.'')
        else if code = Some ''EVENT_CANCELLED'' then
          presentation PDanger ''Ticket not valid'' ''This event is not accepting tickets.''
        else if code = Some ''ADMISSION_NOT_OPEN'' then
          presentation PDanger ''Ticket not valid'' ''Entry is not open for this event.''
        else if code \<in> Some ` set invalid_codes then
          presentation PDanger ''Ticket not valid'' ''Ask the guest to contact the ticket seller for help.''
        else
          presentation PReady ''Point the camera at the ticket QR code'' ''Hold the code steady inside the frame.'')"

lemma presentation_sel [simp]:
  "op_tone (presentation t a b) = t" "op_title (presentation t a b) = a" "op_description (presentation t a b) = b"
  by (simp_all add: presentation_def)

lemma success_iff:
  "op_tone (outcomePresentation lt result cv name) = PSuccess \<longleftrightarrow>
     \<not> cv \<and> (\<exists>r. result = Some r \<and> sr_result r \<in> set admitted_codes)"
  by (cases result) (auto simp: outcomePresentation_def Let_def admitted_codes_def)

lemma admit_title_iff:
  "op_title (outcomePresentation lt result cv name) = ''Admit guest'' \<longleftrightarrow>
     op_tone (outcomePresentation lt result cv name) = PSuccess"
  by (cases result) (auto simp: outcomePresentation_def Let_def)

end
