(* ===== verification/Scanner_Session.thy ===== *)
theory Scanner_Session
  imports Scanner_Outcome Intent_Keys
begin

text \<open>
  The scanner hook (\<^verbatim>\<open>scanning/useScanner.ts\<close>): checking a ticket online, the camera, the torch
  and the automatic detection loop. The hook's state cells and refs are one record; what is
  awaited is split into a start and a finish. Fresh identifiers and clock texts are arguments.
\<close>

section \<open>State\<close>

datatype camera_state =
  CIdle | CRequesting | CActive | CDenied | CUnsupported | CPhoneRequired | CRearCameraMissing

text \<open>
  A granted video track: the facing mode of its settings, and the torch capability;
  \<open>capabilities\<close> is \<^const>\<open>None\<close> where \<open>getCapabilities\<close> is missing and the call throws.
\<close>

record camera_track =
  facing_mode :: "string option"
  capabilities :: "bool option"

record scanner_state =
  phoneDevice :: bool
  manual :: string
  shown_result :: "scan_result option"
  cannotVerify :: bool
  cameraState :: camera_state
  cameraMessage :: string
  recentScans :: "recent_scan list"
  soundEnabled :: bool
  vibrationEnabled :: bool
  torchSupported :: bool
  torchEnabled :: bool
  stream :: "camera_track option option"  \<comment> \<open>no stream, or a stream and its first video track\<close>
  scanKeys :: key_store
  processing :: bool

definition initial_scanner :: "device_navigator \<Rightarrow> string option \<Rightarrow> string option \<Rightarrow> scanner_state" where
  "initial_scanner nav stored_sound stored_vibration =
     (let phone = isPhoneDevice nav in
      \<lparr>phoneDevice = phone, manual = [], shown_result = None, cannotVerify = False,
       cameraState = (if phone then CIdle else CPhoneRequired), cameraMessage = [], recentScans = [],
       soundEnabled = (stored_sound \<noteq> Some ''off''), vibrationEnabled = (stored_vibration \<noteq> Some ''off''),
       torchSupported = False, torchEnabled = False, stream = None, scanKeys = Map.empty, processing = False\<rparr>)"

section \<open>Checking a ticket\<close>

record scan_request =
  sq_key :: string
  sq_intent :: string
  sq_event_id :: string
  sq_credential :: string
  sq_gate_reference :: string
  sq_event_name :: string  \<comment> \<open>these three are captured by the callback for the answer\<close>
  sq_sound :: bool
  sq_vibration :: bool

datatype scan_outcome = Decided scan_result | ScanRefused | ScanLost

datatype feedback = Vibrate "int list" | Tone int

definition submit_start ::
  "string \<Rightarrow> scanner_event option \<Rightarrow> string \<Rightarrow> string \<Rightarrow> scanner_state \<Rightarrow> (scan_request \<times> scanner_state) option" where
  "submit_start token selectedEvent qr created st =
     (let value = trim qr in
      case selectedEvent of
        None \<Rightarrow> None
      | Some ev \<Rightarrow>
          if token = [] \<or> value = [] \<or> processing st then None
          else
            let intent = se_id ev @ '':'' @ value;
                ks = take_or_create (scanKeys st) intent created
            in Some (\<lparr>sq_key = fst ks, sq_intent = intent, sq_event_id = se_id ev, sq_credential = value,
                      sq_gate_reference = scannerGateLabel (phoneDevice st), sq_event_name = se_name ev,
                      sq_sound = soundEnabled st, sq_vibration = vibrationEnabled st\<rparr>,
                     st\<lparr>processing := True, cannotVerify := False, scanKeys := snd ks\<rparr>))"

definition push_recent :: "recent_scan \<Rightarrow> recent_scan list \<Rightarrow> recent_scan list" where
  "push_recent scan current = take 10 (scan # current)"

definition recent_tone :: "presentation_tone \<Rightarrow> scan_tone" where
  "recent_tone tone = (case tone of PSuccess \<Rightarrow> TSuccess | PWarning \<Rightarrow> TWarning | _ \<Rightarrow> TDanger)"

definition appendRecent ::
  "(string \<Rightarrow> string) \<Rightarrow> string \<Rightarrow> string \<Rightarrow> string \<Rightarrow> scan_result \<Rightarrow> recent_scan list \<Rightarrow> recent_scan list" where
  "appendRecent local_time event_name uuid time next current =
     (let p = outcomePresentation local_time (Some next) False (scanner_humanLabel (Some event_name) ''this event'')
      in push_recent \<lparr>rs_id = uuid, rs_title = op_title p,
           rs_detail = or_else (ticketLocation (Some next)) (op_description p),
           rs_tone = recent_tone (op_tone p), rs_time = time\<rparr> current)"

definition cannot_verify_scan :: "string \<Rightarrow> string \<Rightarrow> recent_scan" where
  "cannot_verify_scan uuid time =
     \<lparr>rs_id = uuid, rs_title = ''Can't verify ticket'', rs_detail = ''No admission decision was made.'',
      rs_tone = TDanger, rs_time = time\<rparr>"

text \<open>
  Vibration and sound for a decision, by the settings when the check was sent; \<open>vibrates\<close> says
  whether the browser can.
\<close>

definition feedback_of :: "bool \<Rightarrow> scan_request \<Rightarrow> scan_result \<Rightarrow> feedback list" where
  "feedback_of vibrates rq next =
     (let admitted = (sr_result next = ''ADMITTED'' \<or> sr_result next = ''MANUAL_OVERRIDE_ADMITTED'')
      in (if sq_vibration rq \<and> vibrates then [Vibrate (if admitted then [120] else [80, 60, 80])] else []) @
         (if sq_sound rq then [Tone (if admitted then 880 else 220)] else []))"

definition submit_finish ::
  "(string \<Rightarrow> string) \<Rightarrow> bool \<Rightarrow> string \<Rightarrow> string \<Rightarrow> scan_request \<Rightarrow> scan_outcome \<Rightarrow> scanner_state \<Rightarrow> scanner_state \<times> feedback list" where
  "submit_finish local_time vibrates uuid time rq outcome st =
     (case outcome of
        ScanRefused \<Rightarrow>
          (st\<lparr>scanKeys := clearIntentKey (scanKeys st) (sq_intent rq), shown_result := None, cannotVerify := True,
              recentScans := push_recent (cannot_verify_scan uuid time) (recentScans st), processing := False\<rparr>, [])
      | Decided next \<Rightarrow>
          (st\<lparr>scanKeys := clearIntentKey (scanKeys st) (sq_intent rq), shown_result := Some next, manual := [],
              recentScans := appendRecent local_time (sq_event_name rq) uuid time next (recentScans st),
              processing := False\<rparr>,
           feedback_of vibrates rq next)
      | ScanLost \<Rightarrow>
          (st\<lparr>shown_result := None, cannotVerify := True,
              recentScans := push_recent (cannot_verify_scan uuid time) (recentScans st), processing := False\<rparr>, []))"

definition reset :: "scanner_state \<Rightarrow> scanner_state" where
  "reset st = st\<lparr>shown_result := None, cannotVerify := False, manual := []\<rparr>"

section \<open>Camera and torch\<close>

text \<open>The second component says whether the browser is asked for a camera.\<close>

definition startCamera :: "bool \<Rightarrow> scanner_state \<Rightarrow> scanner_state \<times> bool" where
  "startCamera has_media_devices st =
     (if \<not> phoneDevice st then
        (st\<lparr>cameraState := CPhoneRequired,
            cameraMessage := ''Open TktSync Scanner on a phone with a rear camera. You can enter a manual admission code on this device.''\<rparr>, False)
      else if stream st \<noteq> None then (st\<lparr>cameraState := CActive\<rparr>, False)
      else if \<not> has_media_devices then
        (st\<lparr>cameraState := CUnsupported, cameraMessage := ''Camera scanning is not available in this browser.''\<rparr>, False)
      else (st\<lparr>cameraState := CRequesting, cameraMessage := []\<rparr>, True))"

definition denied_message :: string where
  "denied_message = ''Camera access is off. Allow access or enter the manual admission code.''"

text \<open>The answer: \<^const>\<open>None\<close> when the request throws, else the first video track, if there is one.\<close>

definition camera_answer :: "camera_track option option \<Rightarrow> scanner_state \<Rightarrow> scanner_state" where
  "camera_answer answer st =
     (case answer of
        None \<Rightarrow> st\<lparr>cameraState := CDenied, cameraMessage := denied_message\<rparr>
      | Some track \<Rightarrow>
          if Option.bind track facing_mode = Some ''user'' then
            st\<lparr>cameraState := CRearCameraMissing,
               cameraMessage := ''A rear camera was not found. Use a phone with a rear camera or enter the manual admission code.''\<rparr>
          else
            (case track of
               Some t \<Rightarrow>
                 (case capabilities t of
                    None \<Rightarrow> st\<lparr>stream := Some track, cameraState := CDenied, cameraMessage := denied_message\<rparr>
                  | Some torch \<Rightarrow> st\<lparr>stream := Some track, torchSupported := torch, cameraState := CActive\<rparr>)
             | None \<Rightarrow> st\<lparr>stream := Some track, torchSupported := False, cameraState := CActive\<rparr>))"

definition stopCamera :: "scanner_state \<Rightarrow> scanner_state" where
  "stopCamera st =
     st\<lparr>stream := None, cameraState := (if phoneDevice st then CIdle else CPhoneRequired),
        torchEnabled := False, torchSupported := False\<rparr>"

text \<open>The state the torch is asked to take, if it is asked at all.\<close>

definition toggleTorch_start :: "scanner_state \<Rightarrow> bool option" where
  "toggleTorch_start st =
     (case Option.bind (stream st) id of
        None \<Rightarrow> None
      | Some track \<Rightarrow> if \<not> torchSupported st then None else Some (\<not> torchEnabled st))"

definition toggleTorch_finish :: "bool \<Rightarrow> bool \<Rightarrow> scanner_state \<Rightarrow> scanner_state" where
  "toggleTorch_finish next applied st =
     (if applied then st\<lparr>torchEnabled := next\<rparr> else st\<lparr>torchSupported := False, torchEnabled := False\<rparr>)"

section \<open>Automatic detection\<close>

text \<open>
  The guard of the detection effect, the effect's first decision and one pass of its loop:
  whether it reads an image (\<open>detect_starts\<close>), and what it does with what was read: it yields the
  code to submit, or says that the loop goes on.
\<close>

definition detection_enabled :: "scanner_state \<Rightarrow> bool" where
  "detection_enabled st \<longleftrightarrow>
     cameraState st = CActive \<and> shown_result st = None \<and> \<not> cannotVerify st \<and> \<not> processing st"

definition detection_effect :: "bool \<Rightarrow> scanner_state \<Rightarrow> scanner_state \<times> bool" where
  "detection_effect has_detector st =
     (if \<not> detection_enabled st then (st, False)
      else if \<not> has_detector then
        (st\<lparr>cameraState := CUnsupported,
            cameraMessage := ''Automatic QR scanning is not available here. Enter the manual admission code.''\<rparr>, False)
      else (st, True))"

datatype detect_result = DetectFailed | Codes "string list"

datatype detect_next = SubmitCode string | Again

definition detect_starts :: "bool \<Rightarrow> bool \<Rightarrow> scanner_state \<Rightarrow> bool" where
  "detect_starts active has_video st \<longleftrightarrow> active \<and> has_video \<and> \<not> processing st"

definition detect_read :: "detect_result \<Rightarrow> scanner_state \<Rightarrow> scanner_state \<times> detect_next" where
  "detect_read res st =
     (case res of
        DetectFailed \<Rightarrow>
          (st\<lparr>cameraMessage := ''The camera image could not be read. Try again or enter the code manually.''\<rparr>, Again)
      | Codes (raw # _) \<Rightarrow> if raw \<noteq> [] then (st, SubmitCode raw) else (st, Again)
      | Codes [] \<Rightarrow> (st, Again))"

section \<open>The page around the hook\<close>

text \<open>
  \<^verbatim>\<open>scanning/ScannerPage.tsx\<close>: the chosen event, the one remembered in \<open>sessionStorage\<close>, and
  the handlers that change them. \<open>signOut\<close> is the part before \<open>auth.signOut()\<close>.
\<close>

record scanner_page =
  pg_scanner :: scanner_state
  pg_event :: "scanner_event option"
  pg_stored :: "string option"
  pg_settings_open :: bool

definition restoreEvent :: "scanner_event list option \<Rightarrow> scanner_page \<Rightarrow> scanner_page" where
  "restoreEvent events pg =
     (case events of
        None \<Rightarrow> pg
      | Some evs \<Rightarrow>
          if pg_event pg \<noteq> None then pg
          else (case find (\<lambda>ev. Some (se_id ev) = pg_stored pg) evs of
                  None \<Rightarrow> pg | Some ev \<Rightarrow> pg\<lparr>pg_event := Some ev\<rparr>))"

definition chooseEvent :: "scanner_event \<Rightarrow> scanner_page \<Rightarrow> scanner_page" where
  "chooseEvent ev pg = pg\<lparr>pg_stored := Some (se_id ev), pg_event := Some ev\<rparr>"

definition changeEvent :: "scanner_page \<Rightarrow> scanner_page" where
  "changeEvent pg =
     pg\<lparr>pg_scanner := reset (stopCamera (pg_scanner pg)), pg_stored := None, pg_settings_open := False, pg_event := None\<rparr>"

definition page_signOut :: "scanner_page \<Rightarrow> scanner_page" where
  "page_signOut pg =
     pg\<lparr>pg_scanner := stopCamera (pg_scanner pg), pg_stored := None, pg_event := None, pg_settings_open := False\<rparr>"

definition page_presentation :: "(string \<Rightarrow> string) \<Rightarrow> scanner_page \<Rightarrow> outcome_presentation" where
  "page_presentation local_time pg =
     outcomePresentation local_time (shown_result (pg_scanner pg)) (cannotVerify (pg_scanner pg))
       (scanner_humanLabel (map_option se_name (pg_event pg)) ''this event'')"

definition decisionVisible :: "scanner_page \<Rightarrow> bool" where
  "decisionVisible pg \<longleftrightarrow> shown_result (pg_scanner pg) \<noteq> None \<or> cannotVerify (pg_scanner pg)"

text \<open>The manual form submits the typed code, or the hook's field when it is empty.\<close>

definition manual_code :: "string \<Rightarrow> scanner_page \<Rightarrow> string option" where
  "manual_code field pg =
     (let code = or_else field (manual (pg_scanner pg)) in if trim code = [] then None else Some code)"

end
