(* ===== verification/Js_Json.thy ===== *)
theory Js_Json
  imports Complex_Main Js_Text
begin

text \<open>JSON values: request bodies, error bodies and opaque metadata.\<close>

datatype json =
    JNull
  | JBool bool
  | JNum rat
  | JStr string
  | JArr "json list"
  | JObj "(string \<times> json) list"

text \<open>\<open>v?.field\<close>: undefined on a missing value, on a value that is no object and on a missing field.\<close>

definition js_get :: "string \<Rightarrow> json option \<Rightarrow> json option" where
  "js_get field v = (case v of Some (JObj kvs) \<Rightarrow> map_of kvs field | _ \<Rightarrow> None)"

text \<open>\<open>a ?? b\<close> on JSON values: \<open>null\<close> counts as missing.\<close>

definition js_nullish :: "json option \<Rightarrow> json option \<Rightarrow> json option" where
  "js_nullish a b = (if a = None \<or> a = Some JNull then b else a)"

definition j_int :: "int \<Rightarrow> json" where
  "j_int i = JNum (of_int i)"

text \<open>A property whose value is \<open>undefined\<close> is left out when the body is serialised.\<close>

definition j_opt :: "string \<Rightarrow> json option \<Rightarrow> (string \<times> json) list" where
  "j_opt field v = (case v of None \<Rightarrow> [] | Some x \<Rightarrow> [(field, x)])"

section \<open>\<open>JSON.stringify\<close>\<close>

text \<open>
  Used to name an intent by the data it is about. The text of a number is a parameter: the
  format of a double is not modelled, only that different numbers differ in it.
\<close>

definition number_chars :: string where
  "number_chars = digit_chars @ ''-+.e''"

definition number_format :: "(rat \<Rightarrow> string) \<Rightarrow> bool" where
  "number_format f \<longleftrightarrow> inj f \<and> (\<forall>r. f r \<noteq> [] \<and> set (f r) \<subseteq> set number_chars)"

definition short_escapes :: "(char \<times> char) list" where
  "short_escapes =
     [(CHR 0x22, CHR 0x22), (CHR 0x5C, CHR 0x5C), (CHR 0x08, CHR ''b''), (CHR 0x0C, CHR ''f''),
      (CHR 0x0A, CHR ''n''), (CHR 0x0D, CHR ''r''), (CHR 0x09, CHR ''t'')]"

definition hex_lower :: string where
  "hex_lower = ''0123456789abcdef''"

definition escape_char :: "char \<Rightarrow> string" where
  "escape_char c =
     (case map_of short_escapes c of
        Some e \<Rightarrow> [CHR 0x5C, e]
      | None \<Rightarrow>
          if (of_char c :: nat) < 32
          then CHR 0x5C # ''u00'' @ [hex_lower ! (of_char c div 16), hex_lower ! (of_char c mod 16)]
          else [c])"

definition quote :: "string \<Rightarrow> string" where
  "quote s = CHR 0x22 # concat (map escape_char s) @ [CHR 0x22]"

primrec stringify :: "(rat \<Rightarrow> string) \<Rightarrow> json \<Rightarrow> string" where
  "stringify f JNull = ''null''"
| "stringify f (JBool b) = (if b then ''true'' else ''false'')"
| "stringify f (JNum r) = f r"
| "stringify f (JStr s) = quote s"
| "stringify f (JArr vs) = ''['' @ join '','' (map (stringify f) vs) @ '']''"
| "stringify f (JObj kvs) =
     ''{'' @ join '','' (map (\<lambda>(k, s). quote k @ '':'' @ s) (map (map_prod id (stringify f)) kvs)) @ ''}''"

end
