(* ===== verification/Operator_Session.thy ===== *)
theory Operator_Session
  imports Js_Json
begin

text \<open>
  Who is signed in. The session hooks of the organiser application and of the scanner
  (\<^verbatim>\<open>auth/useOperatorSession.ts\<close> of each), the sign-in, recovery and password pages
  (\<^verbatim>\<open>admin-web/src/features/auth\<close>), the account page and the routes that only an operator with a
  session sees (\<^verbatim>\<open>app/App.tsx\<close>, \<^verbatim>\<open>layouts/AdminLayout.tsx\<close>).

  The authentication client is a third-party library: its calls are values of \<open>auth_call\<close>, its
  answers and its news events of the step relation \<open>auth_step\<close>. The router's match of a path is
  the parameter \<open>matching\<close>.
\<close>

section \<open>The hook's state\<close>

record auth_user =
  au_id :: string
  au_email :: "string option"
  au_metadata :: json

record auth_session =
  as_access_token :: string
  as_user :: auth_user

record operator_session =
  os_client :: bool      \<comment> \<open>\<open>createClient\<close> was called\<close>
  os_mounted :: bool
  os_session :: "auth_session option"
  os_loading :: bool
  os_error :: string

definition auth_configured :: "string option \<Rightarrow> string option \<Rightarrow> bool" where
  "auth_configured url anonKey \<longleftrightarrow> trim (nullish url []) \<noteq> [] \<and> trim (nullish anonKey []) \<noteq> []"

definition admin_unconfigured :: string where
  "admin_unconfigured = ''Operator authentication is not configured for this deployment.''"

definition scanner_unconfigured :: string where
  "scanner_unconfigured = ''Sign-in isn't available right now. Ask your supervisor for help.''"

text \<open>The first render and, without a client, the effect that ends the loading.\<close>

definition initial_operator :: "string \<Rightarrow> bool \<Rightarrow> operator_session" where
  "initial_operator unconfigured client =
     \<lparr>os_client = client, os_mounted = True, os_session = None, os_loading = client,
      os_error = (if client then [] else unconfigured)\<rparr>"

section \<open>News from the authentication client\<close>

definition admin_session_restored :: "operator_session \<Rightarrow> auth_session option \<Rightarrow> string option \<Rightarrow> operator_session" where
  "admin_session_restored st session err =
     (if \<not> os_mounted st then st
      else st\<lparr>os_error := (case err of None \<Rightarrow> os_error st | Some msg \<Rightarrow> msg),
              os_session := session, os_loading := False\<rparr>)"

definition scanner_session_restored :: "operator_session \<Rightarrow> auth_session option \<Rightarrow> string option \<Rightarrow> operator_session" where
  "scanner_session_restored st session err =
     (if \<not> os_mounted st then st
      else st\<lparr>os_error := (case err of None \<Rightarrow> os_error st
                          | Some _ \<Rightarrow> ''We couldn't restore your sign-in. Please sign in again.''),
              os_session := session, os_loading := False\<rparr>)"

definition auth_state_changed :: "operator_session \<Rightarrow> auth_session option \<Rightarrow> operator_session" where
  "auth_state_changed st nextSession =
     (if \<not> os_mounted st then st else st\<lparr>os_session := nextSession, os_loading := False\<rparr>)"

definition operator_unmounted :: "operator_session \<Rightarrow> operator_session" where
  "operator_unmounted st = (if os_client st then st\<lparr>os_mounted := False\<rparr> else st)"

section \<open>Calls\<close>

datatype auth_call =
    Sign_In_With_Password string string
  | Sign_Out
  | Reset_Password_For_Email string string  \<comment> \<open>the email and the link's target\<close>
  | Update_User string                       \<comment> \<open>the password; the set-up flag is cleared with it\<close>

text \<open>
  Each operation up to its \<open>await\<close>: the state while waiting, and the call, or none when the
  operation has returned.
\<close>

definition unconfigured_call :: "string \<Rightarrow> operator_session \<Rightarrow> operator_session \<times> auth_call option" where
  "unconfigured_call unconfigured st = (st\<lparr>os_error := unconfigured\<rparr>, None)"

definition begin_call :: "auth_call \<Rightarrow> operator_session \<Rightarrow> operator_session \<times> auth_call option" where
  "begin_call c st = (st\<lparr>os_error := [], os_loading := True\<rparr>, Some c)"

definition admin_signIn :: "operator_session \<Rightarrow> string \<Rightarrow> string \<Rightarrow> operator_session \<times> auth_call option" where
  "admin_signIn st email password =
     (if \<not> os_client st then unconfigured_call admin_unconfigured st
      else begin_call (Sign_In_With_Password (trim email) password) st)"

definition scanner_signIn :: "operator_session \<Rightarrow> string \<Rightarrow> string \<Rightarrow> operator_session \<times> auth_call option" where
  "scanner_signIn st email password =
     (if \<not> os_client st then unconfigured_call scanner_unconfigured st
      else begin_call (Sign_In_With_Password (trim email) password) st)"

definition signOut :: "operator_session \<Rightarrow> operator_session \<times> auth_call option" where
  "signOut st = (if \<not> os_client st then (st, None) else (st\<lparr>os_error := []\<rparr>, Some Sign_Out))"

definition sendPasswordReset :: "string \<Rightarrow> operator_session \<Rightarrow> string \<Rightarrow> operator_session \<times> auth_call option" where
  "sendPasswordReset origin st email =
     (if \<not> os_client st then unconfigured_call admin_unconfigured st
      else begin_call (Reset_Password_For_Email (trim email) (origin @ ''/set-password'')) st)"

definition updatePassword :: "operator_session \<Rightarrow> string \<Rightarrow> operator_session \<times> auth_call option" where
  "updatePassword st password =
     (if \<not> os_client st then unconfigured_call admin_unconfigured st else begin_call (Update_User password) st)"

text \<open>After the answer: the new state and what the operation returns.\<close>

definition end_call :: "operator_session \<Rightarrow> string option \<Rightarrow> operator_session \<times> bool" where
  "end_call st err =
     (case err of None \<Rightarrow> (st\<lparr>os_loading := False\<rparr>, True)
      | Some msg \<Rightarrow> (st\<lparr>os_loading := False, os_error := msg\<rparr>, False))"

definition line_char_cls :: cls where
  "line_char_cls s =
     (if tok_len [[CHR 10], [CHR 13], [CHR 0xE2, CHR 0x80, CHR 0xA8], [CHR 0xE2, CHR 0x80, CHR 0xA9]] s = 0 \<and> s \<noteq> []
      then 1 else 0)"

text \<open>\<open>/invalid.*credential|email.*password/i\<close>\<close>

definition credential_pattern :: regex where
  "credential_pattern =
     [[Lit [''invalid''], Many 0 None line_char_cls, Lit [''credential'']],
      [Lit [''email''], Many 0 None line_char_cls, Lit [''password'']]]"

definition scanner_sign_in_error :: "string \<Rightarrow> string" where
  "scanner_sign_in_error msg =
     (if test_regex credential_pattern msg then ''Email or password is incorrect.''
      else ''We couldn't sign you in. Check your connection and try again.'')"

definition scanner_signIn_answered :: "operator_session \<Rightarrow> string option \<Rightarrow> operator_session \<times> bool" where
  "scanner_signIn_answered st err = end_call st (map_option scanner_sign_in_error err)"

definition admin_signOut_answered :: "operator_session \<Rightarrow> string option \<Rightarrow> operator_session \<times> bool" where
  "admin_signOut_answered st err =
     (case err of None \<Rightarrow> (st\<lparr>os_session := None\<rparr>, True) | Some msg \<Rightarrow> (st\<lparr>os_error := msg\<rparr>, False))"

definition scanner_signOut_answered :: "operator_session \<Rightarrow> string option \<Rightarrow> operator_session" where
  "scanner_signOut_answered st err = st\<lparr>os_session := None\<rparr>"

section \<open>What the hook returns\<close>

text \<open>\<open>text.split(/[._-]+/).filter(Boolean)\<close>\<close>

fun email_words :: "string \<Rightarrow> string \<Rightarrow> string list" where
  "email_words w [] = (if w = [] then [] else [w])"
| "email_words w (c # s) =
     (if c \<in> set ''._-'' then (if w = [] then email_words [] s else w # email_words [] s)
      else email_words (w @ [c]) s)"

definition capitalised :: "string \<Rightarrow> string" where
  "capitalised w = to_upper (take 1 w) @ to_lower (drop 1 w)"

definition nameFromEmail :: "string option \<Rightarrow> string" where
  "nameFromEmail email =
     (let part = hd (split_on (CHR ''@'') (nullish email []));
          local = rev (dropWhile (\<lambda>c. c \<in> set digit_chars) (rev part))
      in or_else (join '' '' (map capitalised (email_words [] local))) ''Operator'')"

record operator_user =
  ou_id :: string
  ou_email :: string
  ou_displayName :: string

record operator_view =
  ov_token :: string
  ov_authenticated :: bool
  ov_requiresPasswordSetup :: bool
  ov_userLabel :: string
  ov_user :: "operator_user option"
  ov_loading :: bool
  ov_error :: string

definition session_metadata :: "operator_session \<Rightarrow> json" where
  "session_metadata st =
     (case os_session st of None \<Rightarrow> JObj []
      | Some s \<Rightarrow> if au_metadata (as_user s) = JNull then JObj [] else au_metadata (as_user s))"

definition metadata_name :: "json \<Rightarrow> json option" where
  "metadata_name md =
     js_nullish (js_get ''full_name'' (Some md))
       (js_nullish (js_get ''name'' (Some md)) (js_nullish (js_get ''display_name'' (Some md)) None))"

text \<open>\<open>to_text\<close> is \<open>String(value)\<close> on a name that is no string.\<close>

definition display_name :: "(json \<Rightarrow> string) \<Rightarrow> operator_session \<Rightarrow> string" where
  "display_name to_text st =
     trim (case metadata_name (session_metadata st) of
             None \<Rightarrow> nameFromEmail (Option.bind (os_session st) (au_email \<circ> as_user))
           | Some (JStr s) \<Rightarrow> s
           | Some v \<Rightarrow> to_text v)"

definition session_token :: "operator_session \<Rightarrow> string" where
  "session_token st = (case os_session st of None \<Rightarrow> [] | Some s \<Rightarrow> as_access_token s)"

definition admin_operator :: "(json \<Rightarrow> string) \<Rightarrow> operator_session \<Rightarrow> operator_view" where
  "admin_operator to_text st =
     \<lparr>ov_token = session_token st,
      ov_authenticated = (session_token st \<noteq> []),
      ov_requiresPasswordSetup =
        (js_get ''tktsync_password_setup_required'' (Some (session_metadata st)) = Some (JBool True)),
      ov_userLabel = (case os_session st of None \<Rightarrow> ''Operator''
                      | Some s \<Rightarrow> nullish (au_email (as_user s)) (au_id (as_user s))),
      ov_user = map_option (\<lambda>s. \<lparr>ou_id = au_id (as_user s), ou_email = nullish (au_email (as_user s)) [],
                                 ou_displayName = display_name to_text st\<rparr>) (os_session st),
      ov_loading = os_loading st, ov_error = os_error st\<rparr>"

definition scanner_userLabel :: "operator_session \<Rightarrow> string" where
  "scanner_userLabel st = nullish (Option.bind (os_session st) (au_email \<circ> as_user)) ''Gate operator''"

section \<open>Runs\<close>

datatype auth_op =
    Op_SignIn string string
  | Op_SignOut
  | Op_SendReset string
  | Op_UpdatePassword string

datatype auth_event =
    Session_Restored "auth_session option" "string option"  \<comment> \<open>\<open>getSession\<close> resolved\<close>
  | Restore_Rejected                                         \<comment> \<open>\<open>getSession\<close> was rejected: nobody handles it\<close>
  | State_Changed "auth_session option"
  | Left
  | Started auth_op
  | Answered auth_call "string option"
  | Rejected auth_call                                       \<comment> \<open>the code after the \<open>await\<close> does not run\<close>

definition admin_start :: "string \<Rightarrow> operator_session \<Rightarrow> auth_op \<Rightarrow> operator_session \<times> auth_call option" where
  "admin_start origin st op =
     (case op of
        Op_SignIn email password \<Rightarrow> admin_signIn st email password
      | Op_SignOut \<Rightarrow> signOut st
      | Op_SendReset email \<Rightarrow> sendPasswordReset origin st email
      | Op_UpdatePassword password \<Rightarrow> updatePassword st password)"

text \<open>The scanner's hook has no password operations: they do nothing.\<close>

definition scanner_start :: "operator_session \<Rightarrow> auth_op \<Rightarrow> operator_session \<times> auth_call option" where
  "scanner_start st op =
     (case op of
        Op_SignIn email password \<Rightarrow> scanner_signIn st email password
      | Op_SignOut \<Rightarrow> signOut st
      | _ \<Rightarrow> (st, None))"

definition admin_answer :: "operator_session \<Rightarrow> auth_call \<Rightarrow> string option \<Rightarrow> operator_session" where
  "admin_answer st c err = fst (if c = Sign_Out then admin_signOut_answered st err else end_call st err)"

definition scanner_answer :: "operator_session \<Rightarrow> auth_call \<Rightarrow> string option \<Rightarrow> operator_session" where
  "scanner_answer st c err =
     (if c = Sign_Out then scanner_signOut_answered st err else fst (scanner_signIn_answered st err))"

record auth_hook =
  ah_restored :: "operator_session \<Rightarrow> auth_session option \<Rightarrow> string option \<Rightarrow> operator_session"
  ah_start :: "operator_session \<Rightarrow> auth_op \<Rightarrow> operator_session \<times> auth_call option"
  ah_answer :: "operator_session \<Rightarrow> auth_call \<Rightarrow> string option \<Rightarrow> operator_session"

definition admin_hook :: "string \<Rightarrow> auth_hook" where
  "admin_hook origin =
     \<lparr>ah_restored = admin_session_restored, ah_start = admin_start origin, ah_answer = admin_answer\<rparr>"

definition scanner_hook :: auth_hook where
  "scanner_hook =
     \<lparr>ah_restored = scanner_session_restored, ah_start = scanner_start, ah_answer = scanner_answer\<rparr>"

text \<open>The hook with what is in flight: \<open>getSession\<close> and the calls.\<close>

record auth_world =
  aw_hook :: operator_session
  aw_restoring :: bool
  aw_calls :: "auth_call list"

definition initial_world :: "string \<Rightarrow> bool \<Rightarrow> auth_world" where
  "initial_world unconfigured client =
     \<lparr>aw_hook = initial_operator unconfigured client, aw_restoring = client, aw_calls = []\<rparr>"

inductive auth_step :: "auth_hook \<Rightarrow> auth_world \<Rightarrow> auth_event \<Rightarrow> auth_world \<Rightarrow> bool" for h where
  restored: "aw_restoring w \<Longrightarrow>
    auth_step h w (Session_Restored session err) (w\<lparr>aw_hook := ah_restored h (aw_hook w) session err, aw_restoring := False\<rparr>)"
| restore_rejected: "aw_restoring w \<Longrightarrow> auth_step h w Restore_Rejected (w\<lparr>aw_restoring := False\<rparr>)"
| changed: "os_client (aw_hook w) \<Longrightarrow>
    auth_step h w (State_Changed session) (w\<lparr>aw_hook := auth_state_changed (aw_hook w) session\<rparr>)"
| left: "auth_step h w Left (w\<lparr>aw_hook := operator_unmounted (aw_hook w)\<rparr>)"
| started: "ah_start h (aw_hook w) op = (st, c) \<Longrightarrow>
    auth_step h w (Started op) (w\<lparr>aw_hook := st, aw_calls := aw_calls w @ (case c of None \<Rightarrow> [] | Some x \<Rightarrow> [x])\<rparr>)"
| answered: "c \<in> set (aw_calls w) \<Longrightarrow>
    auth_step h w (Answered c err) (w\<lparr>aw_hook := ah_answer h (aw_hook w) c err, aw_calls := remove1 c (aw_calls w)\<rparr>)"
| rejected: "c \<in> set (aw_calls w) \<Longrightarrow>
    auth_step h w (Rejected c) (w\<lparr>aw_calls := remove1 c (aw_calls w)\<rparr>)"

inductive_cases auth_stepE: "auth_step h w e w'"

inductive auth_run :: "auth_hook \<Rightarrow> auth_world \<Rightarrow> auth_event list \<Rightarrow> auth_world \<Rightarrow> bool" for h w where
  no_events: "auth_run h w [] w"
| one_more: "auth_run h w es w' \<Longrightarrow> auth_step h w' e w'' \<Longrightarrow> auth_run h w (es @ [e]) w''"

section \<open>The contract of the two hooks\<close>

text \<open>
  What the session is after some events, as the authentication client would tell it:
  \<open>drops\<close> says whether a refused sign-out counts. News after the hook was left is not heard.
\<close>

fun told :: "bool \<Rightarrow> bool \<times> auth_session option \<Rightarrow> auth_event list \<Rightarrow> bool \<times> auth_session option" where
  "told drops m [] = m"
| "told drops (heard, s) (e # es) =
     told drops
       (case e of
          Session_Restored session _ \<Rightarrow> (heard, if heard then session else s)
        | State_Changed session \<Rightarrow> (heard, if heard then session else s)
        | Left \<Rightarrow> (False, s)
        | Answered c err \<Rightarrow> (heard, if c = Sign_Out \<and> (err = None \<or> drops) then None else s)
        | _ \<Rightarrow> (heard, s)) es"

lemma told_append: "told drops m (es @ fs) = told drops (told drops m es) fs"
  by (induction drops m es rule: told.induct) simp_all

text \<open>Whether the hook still hears news, and its session.\<close>

definition abs_session :: "auth_world \<Rightarrow> bool \<times> auth_session option" where
  "abs_session w = (os_mounted (aw_hook w), os_session (aw_hook w))"

text \<open>A request that ends the loading is under way; events after which none may be.\<close>

definition waits_for :: "auth_world \<Rightarrow> bool" where
  "waits_for w \<longleftrightarrow> aw_restoring w \<or> list_ex (\<lambda>c. c \<noteq> Sign_Out) (aw_calls w)"

definition interrupted :: "auth_event \<Rightarrow> bool" where
  "interrupted e = (case e of Restore_Rejected \<Rightarrow> True | Rejected _ \<Rightarrow> True | Left \<Rightarrow> True | _ \<Rightarrow> False)"

locale session_hook =
  fixes h :: auth_hook and drops :: bool
  assumes restored_law:
      "ah_restored h st session err =
         (if os_mounted st then (ah_restored h st session err)\<lparr>os_session := session, os_loading := False\<rparr> else st)"
    and restored_keeps: "os_client (ah_restored h st session err) = os_client st"
      "os_mounted (ah_restored h st session err) = os_mounted st"
    and start_keeps: "os_client (fst (ah_start h st op)) = os_client st"
      "os_mounted (fst (ah_start h st op)) = os_mounted st"
      "os_session (fst (ah_start h st op)) = os_session st"
    and start_loading: "os_loading (fst (ah_start h st op)) \<Longrightarrow>
      os_loading st \<or> (\<exists>c. snd (ah_start h st op) = Some c \<and> c \<noteq> Sign_Out)"
    and start_unconfigured: "\<not> os_client st \<Longrightarrow> snd (ah_start h st op) = None"
    and answer_keeps: "os_client (ah_answer h st c err) = os_client st"
      "os_mounted (ah_answer h st c err) = os_mounted st"
    and answer_session: "os_session (ah_answer h st c err) =
      (if c = Sign_Out \<and> (err = None \<or> drops) then None else os_session st)"
    and answer_loading: "os_loading (ah_answer h st c err) = (os_loading st \<and> c = Sign_Out)"
begin

lemma restored_session:
  "os_session (ah_restored h st session err) = (if os_mounted st then session else os_session st)"
proof (cases "os_mounted st")
  case True
  with restored_law [of st session err]
  have "ah_restored h st session err = (ah_restored h st session err)\<lparr>os_session := session, os_loading := False\<rparr>" by simp
  from this [THEN arg_cong, of os_session] True show ?thesis by simp
next
  case False
  then show ?thesis by (subst restored_law) simp
qed

lemma restored_loading:
  "os_loading (ah_restored h st session err) = (\<not> os_mounted st \<and> os_loading st)"
proof (cases "os_mounted st")
  case True
  with restored_law [of st session err]
  have "ah_restored h st session err = (ah_restored h st session err)\<lparr>os_session := session, os_loading := False\<rparr>" by simp
  from this [THEN arg_cong, of os_loading] True show ?thesis by simp
next
  case False
  then show ?thesis by (subst restored_law) simp
qed

lemma step_told:
  assumes "auth_step h w e w'" "os_client (aw_hook w)"
  shows "abs_session w' = told drops (abs_session w) [e] \<and> os_client (aw_hook w')"
  using assms
proof cases
  case (started op st c)
  with start_keeps [of "aw_hook w" op] assms(2) show ?thesis by (simp add: abs_session_def)
qed (auto simp: abs_session_def restored_session restored_keeps answer_keeps answer_session auth_state_changed_def
       operator_unmounted_def)

lemma run_told:
  assumes "auth_run h w es w'" "os_client (aw_hook w)"
  shows "abs_session w' = told drops (abs_session w) es \<and> os_client (aw_hook w')"
  using assms
proof (induction rule: auth_run.induct)
  case (one_more es w' e w'')
  with step_told [of w' e w''] show ?case by (simp add: told_append)
qed (simp add: abs_session_def)

text \<open>A hook that shows a call in progress waits for one, or one was rejected.\<close>

lemma step_loading:
  assumes "auth_step h w e w'" "\<not> interrupted e" "os_mounted (aw_hook w)"
    "os_loading (aw_hook w) \<longrightarrow> waits_for w"
  shows "os_mounted (aw_hook w') \<and> (os_loading (aw_hook w') \<longrightarrow> waits_for w')"
  using assms
proof cases
  case (started op st c)
  with start_keeps(2) [of "aw_hook w" op] start_loading [of "aw_hook w" op] assms show ?thesis
    by (auto simp: waits_for_def)
next
  case (answered c err)
  have "c = Sign_Out \<Longrightarrow> list_ex (\<lambda>c. c \<noteq> Sign_Out) (aw_calls w) \<Longrightarrow> list_ex (\<lambda>c. c \<noteq> Sign_Out) (remove1 c (aw_calls w))"
    by (auto simp: list_ex_iff)
  with answered assms show ?thesis by (auto simp: waits_for_def answer_keeps answer_loading)
qed (auto simp: waits_for_def interrupted_def restored_loading restored_keeps auth_state_changed_def)

lemma run_loading:
  assumes "auth_run h w es w'" "list_all (\<lambda>e. \<not> interrupted e) es" "os_mounted (aw_hook w)"
    "os_loading (aw_hook w) \<longrightarrow> waits_for w"
  shows "os_mounted (aw_hook w') \<and> (os_loading (aw_hook w') \<longrightarrow> waits_for w')"
  using assms
proof (induction rule: auth_run.induct)
  case (one_more es w' e w'')
  with step_loading [of w' e w''] show ?case by simp
qed simp

text \<open>Without a client nobody signs in.\<close>

lemma step_unconfigured:
  assumes "auth_step h w e w'" "\<not> os_client (aw_hook w)" "\<not> aw_restoring w" "aw_calls w = []" "os_session (aw_hook w) = None"
  shows "\<not> os_client (aw_hook w') \<and> \<not> aw_restoring w' \<and> aw_calls w' = [] \<and> os_session (aw_hook w') = None"
  using assms
proof cases
  case (started op st c)
  with start_keeps [of "aw_hook w" op] start_unconfigured [of "aw_hook w" op] assms show ?thesis by simp
qed (auto simp: operator_unmounted_def)

lemma run_unconfigured:
  assumes "auth_run h w es w'" "\<not> os_client (aw_hook w)" "\<not> aw_restoring w" "aw_calls w = []" "os_session (aw_hook w) = None"
  shows "\<not> os_client (aw_hook w') \<and> \<not> aw_restoring w' \<and> aw_calls w' = [] \<and> os_session (aw_hook w') = None"
  using assms
proof (induction rule: auth_run.induct)
  case (one_more es w' e w'')
  with step_unconfigured [of w' e w''] show ?case by simp
qed simp

end

lemmas hook_calls = admin_signIn_def scanner_signIn_def signOut_def sendPasswordReset_def updatePassword_def
  unconfigured_call_def begin_call_def

lemmas hook_answers = admin_signOut_answered_def scanner_signOut_answered_def scanner_signIn_answered_def end_call_def

interpretation admin_auth: session_hook "admin_hook origin" False for origin
  by unfold_locales
    (auto simp: admin_hook_def admin_session_restored_def admin_start_def admin_answer_def hook_calls hook_answers
      split: option.splits auth_op.splits if_splits)

interpretation scanner_auth: session_hook scanner_hook True
  by unfold_locales
    (auto simp: scanner_hook_def scanner_session_restored_def scanner_start_def scanner_answer_def hook_calls hook_answers
      split: option.splits auth_op.splits if_splits)

end
