(* ===== verification/Scanner_Page.thy ===== *)
theory Scanner_Page
  imports Scanner_Session Operator_Session
begin

text \<open>
  The scanner's page (\<^verbatim>\<open>scanning/ScannerPage.tsx\<close>) around its two hooks: which screen is shown,
  the list of events, the parts of the scan stage, and the sheets with their forms. The formats of
  dates are parameters; \<open>scanner.busy\<close> is \<^const>\<open>processing\<close>.
\<close>

section \<open>The list of events\<close>

definition formatEventTime :: "(string \<Rightarrow> string) \<Rightarrow> string option \<Rightarrow> string" where
  "formatEventTime date_format v = (if truthy_str v then date_format (nullish v []) else ''Date to be announced'')"

definition scanner_eventReference :: "string \<Rightarrow> string" where
  "scanner_eventReference i =
     (let readable = filter (\<lambda>c. c \<in> set alnum_chars) (if ci_prefix ''evt_'' i then drop 4 i else i)
      in to_upper (or_else (drop (length readable - 8) readable) ''EVENT''))"

record date_parts =
  da_month :: string
  da_day :: string
  da_timing :: string

record date_formats =
  df_month :: "string \<Rightarrow> string"
  df_day :: "string \<Rightarrow> string"
  df_timing :: "string \<Rightarrow> string"

definition eventDateParts :: "date_formats \<Rightarrow> string option \<Rightarrow> date_parts" where
  "eventDateParts fmt v =
     (if \<not> truthy_str v then
        \<lparr>da_month = ''TBA'', da_day = [CHR 0xE2, CHR 0x80, CHR 0x94], da_timing = ''Date to be announced''\<rparr>
      else let date = nullish v [] in
        \<lparr>da_month = to_upper (df_month fmt date), da_day = df_day fmt date, da_timing = df_timing fmt date\<rparr>)"

record event_card =
  ec_event :: scanner_event
  ec_name :: string
  ec_venue :: string
  ec_address :: string
  ec_date :: date_parts
  ec_reference :: string
  ec_duplicate :: bool

definition readable_event :: "date_formats \<Rightarrow> scanner_event \<Rightarrow> event_card" where
  "readable_event fmt ev =
     \<lparr>ec_event = ev, ec_name = scanner_humanLabel (Some (se_name ev)) ''Untitled event'',
      ec_venue = scanner_humanLabel (Some (se_venue_name ev)) ''Venue to be announced'',
      ec_address = scanner_humanLabel (se_address_text ev) [], ec_date = eventDateParts fmt (se_starts_at ev),
      ec_reference = scanner_eventReference (se_id ev), ec_duplicate = False\<rparr>"

definition name_totals :: "event_card list \<Rightarrow> string \<rightharpoonup> nat" where
  "name_totals readable =
     foldl (\<lambda>counts item. counts(ec_name item \<mapsto> nullish (counts (ec_name item)) 0 + 1)) Map.empty readable"

definition displayEvents :: "date_formats \<Rightarrow> scanner_event list \<Rightarrow> event_card list" where
  "displayEvents fmt events =
     (let readable = map (readable_event fmt) events; totals = name_totals readable
      in map (\<lambda>item. item\<lparr>ec_duplicate := nullish (totals (ec_name item)) 1 > 1\<rparr>) readable)"

text \<open>What a card shows, and what a screen reader reads.\<close>

definition card_reference :: "event_card \<Rightarrow> string option" where
  "card_reference item = (if ec_duplicate item then Some (''Event reference '' @ ec_reference item) else None)"

definition card_address :: "event_card \<Rightarrow> string option" where
  "card_address item =
     (if ec_address item \<noteq> [] \<and> ec_address item \<noteq> ec_venue item then Some (ec_address item) else None)"

definition card_label :: "(string \<Rightarrow> string) \<Rightarrow> event_card \<Rightarrow> string" where
  "card_label date_format item =
     ''Select '' @ ec_name item @ '', Event reference '' @ ec_reference item @ '', '' @
     formatEventTime date_format (se_starts_at (ec_event item)) @ '', '' @ ec_venue item"

datatype picker_part =
  Device_Notice | Loading_Events | Load_Failed | No_Events | Event_Cards string "event_card list"

definition picker_parts :: "date_formats \<Rightarrow> bool \<Rightarrow> bool \<Rightarrow> bool \<Rightarrow> scanner_event list \<Rightarrow> picker_part list" where
  "picker_parts fmt phone loading err events =
     (let cards = displayEvents fmt events in
      (if \<not> phone then [Device_Notice] else []) @
      (if loading then [Loading_Events] else []) @
      (if err then [Load_Failed] else []) @
      (if \<not> loading \<and> \<not> err \<and> events = [] then [No_Events] else []) @
      (if \<not> loading \<and> \<not> err \<and> cards \<noteq> [] then
         [Event_Cards (nat_str (length cards) @ '' '' @ (if length cards = 1 then ''event'' else ''events'') @ '' assigned to you'') cards]
       else []))"

definition operator_initial :: "string \<Rightarrow> string" where
  "operator_initial userLabel = to_upper (take 1 userLabel)"

section \<open>The screens\<close>

definition scanner_authenticated :: "operator_session \<Rightarrow> bool" where
  "scanner_authenticated st \<longleftrightarrow> session_token st \<noteq> []"

datatype gate_screen = Opening | Sign_In_Form | Choose_Event | Scan_Screen scanner_event

definition gate_screen_of :: "operator_session \<Rightarrow> scanner_page \<Rightarrow> gate_screen" where
  "gate_screen_of auth pg =
     (if os_loading auth \<and> \<not> scanner_authenticated auth then Opening
      else if \<not> scanner_authenticated auth then Sign_In_Form
      else case pg_event pg of None \<Rightarrow> Choose_Event | Some ev \<Rightarrow> Scan_Screen ev)"

text \<open>The form of the sign-in screen sends its fields, or the page's cells where a field is empty.\<close>

definition sign_in_fields :: "string option \<Rightarrow> string option \<Rightarrow> string \<Rightarrow> string \<Rightarrow> string \<times> string" where
  "sign_in_fields form_email form_password email password =
     (or_else (nullish form_email []) email, or_else (nullish form_password []) password)"

section \<open>The scan stage\<close>

datatype stage_button = Enter_Code | Starting | Open_Camera

record camera_placeholder =
  cp_title :: string
  cp_text :: string
  cp_button :: stage_button
  cp_disabled :: bool

definition camera_placeholder_of :: "scanner_state \<Rightarrow> camera_placeholder" where
  "camera_placeholder_of st =
     \<lparr>cp_title =
        (if \<not> phoneDevice st then ''Use a phone to scan tickets''
         else if cameraState st = CRequesting then ''Starting camera'' @ [CHR 0xE2, CHR 0x80, CHR 0xA6]
         else if cameraState st = CDenied then ''Camera access is off''
         else if cameraState st = CRearCameraMissing then ''Rear camera not found''
         else if cameraState st = CUnsupported then ''Camera scanning isn't available''
         else ''Point the camera at the ticket QR code''),
      cp_text =
        (if \<not> phoneDevice st then
           ''Open TktSync Scanner on a phone with a rear camera. You can enter a manual admission code on this device.''
         else or_else (cameraMessage st) ''Open the rear camera, then hold the code steady inside the frame.''),
      cp_button =
        (if \<not> phoneDevice st then Enter_Code else if cameraState st = CRequesting then Starting else Open_Camera),
      cp_disabled = (cameraState st = CRequesting)\<rparr>"

record decision_card =
  dc_icon :: presentation_tone
  dc_title :: string
  dc_text :: "string option"
  dc_time :: "string option"

text \<open>The icon is a check, a clock or a cross; every other tone has the cross.\<close>

definition decision_card_of :: "(string \<Rightarrow> string) \<Rightarrow> outcome_presentation \<Rightarrow> scan_result option \<Rightarrow> decision_card" where
  "decision_card_of local_time p result =
     (let shown = (if op_tone p = PSuccess then or_else (ticketLocation result) (op_description p) else op_description p)
      in \<lparr>dc_icon = (if op_tone p = PSuccess then PSuccess else if op_tone p = PWarning then PWarning else PDanger),
          dc_title = op_title p, dc_text = (if shown = [] then None else Some shown),
          dc_time = (case Option.bind result sr_admitted_at of
                       Some t \<Rightarrow> if t \<noteq> [] \<and> op_tone p = PSuccess then Some (local_time t) else None
                     | None \<Rightarrow> None)\<rparr>)"

datatype stage_part =
  Camera_Placeholder camera_placeholder | Guidance | Checking_Overlay | Decision_Overlay decision_card

definition stage_parts :: "(string \<Rightarrow> string) \<Rightarrow> scanner_page \<Rightarrow> stage_part list" where
  "stage_parts local_time pg =
     (let st = pg_scanner pg; active = (cameraState st = CActive) in
      (if \<not> active \<and> \<not> decisionVisible pg then [Camera_Placeholder (camera_placeholder_of st)] else []) @
      (if active \<and> \<not> decisionVisible pg \<and> \<not> processing st then [Guidance] else []) @
      (if processing st then [Checking_Overlay] else []) @
      (if decisionVisible pg then
         [Decision_Overlay (decision_card_of local_time (page_presentation local_time pg) (shown_result st))]
       else []))"

definition stage_tone :: "(string \<Rightarrow> string) \<Rightarrow> scanner_page \<Rightarrow> presentation_tone option" where
  "stage_tone local_time pg =
     (if decisionVisible pg then Some (op_tone (page_presentation local_time pg)) else None)"

section \<open>Sheets\<close>

definition sheet_id :: "string \<Rightarrow> string" where
  "sheet_id title = ''sheet-'' @ to_lower (map (\<lambda>c. if c = CHR '' '' then CHR ''-'' else c) title)"

datatype sheet_event = Key_Down string | Backdrop_Pressed | Panel_Pressed | Close_Pressed

text \<open>Whether an open sheet asks to be closed: a press inside the panel does not reach the backdrop.\<close>

definition sheet_closes :: "bool \<Rightarrow> sheet_event \<Rightarrow> bool" where
  "sheet_closes open_sheet e \<longleftrightarrow>
     open_sheet \<and> (case e of Key_Down k \<Rightarrow> k = ''Escape'' | Backdrop_Pressed \<Rightarrow> True | Panel_Pressed \<Rightarrow> False | Close_Pressed \<Rightarrow> True)"

text \<open>The form of the manual sheet: its button is disabled while a ticket is checked.\<close>

definition manual_form :: "string option \<Rightarrow> scanner_page \<Rightarrow> string option" where
  "manual_form field pg = (if processing (pg_scanner pg) then None else manual_code (nullish field []) pg)"

datatype settings_row = Sound_Row bool | Vibration_Row bool | Torch_Row string

definition settings_rows :: "bool \<Rightarrow> scanner_state \<Rightarrow> settings_row list" where
  "settings_rows vibrates st =
     [Sound_Row (soundEnabled st)] @
     (if vibrates then [Vibration_Row (vibrationEnabled st)] else []) @
     (if torchSupported st then [Torch_Row (if torchEnabled st then ''On'' else ''Off'')] else [])"

definition settings_device :: "bool \<Rightarrow> string \<times> string" where
  "settings_device phone =
     (if phone then (''Phone ready'', ''The rear camera will be used for ticket scanning.'')
      else (''Use a phone to scan tickets'', ''Manual ticket entry is available on this device.''))"

section \<open>What the page shows\<close>

lemma name_totals_eq: "name_totals xs n = (let k = length (filter (\<lambda>x. ec_name x = n) xs) in if k = 0 then None else Some k)"
proof (induction xs arbitrary: n rule: rev_induct)
  case (snoc x xs)
  have "name_totals (xs @ [x]) = (name_totals xs)(ec_name x \<mapsto> nullish (name_totals xs (ec_name x)) 0 + 1)"
    by (simp add: name_totals_def)
  with snoc show ?case by (simp add: Let_def)
qed (simp add: name_totals_def)

lemma two_in_filter:
  assumes "i < length xs" "P (xs ! i)"
  shows "1 < length (filter P xs) \<longleftrightarrow> (\<exists>j < length xs. j \<noteq> i \<and> P (xs ! j))"
proof -
  have "length (filter P xs) = card {j. j < length xs \<and> P (xs ! j)}" by (rule length_filter_conv_card)
  also have "{j. j < length xs \<and> P (xs ! j)} = insert i {j. j < length xs \<and> j \<noteq> i \<and> P (xs ! j)}"
    using assms by auto
  also have "card \<dots> = Suc (card {j. j < length xs \<and> j \<noteq> i \<and> P (xs ! j)})" by simp
  finally show ?thesis by (auto simp: card_gt_0_iff)
qed

lemma displayEvents_length [simp]: "length (displayEvents fmt events) = length events"
  by (simp add: displayEvents_def Let_def)

lemma displayEvents_nth:
  assumes "i < length events"
  shows "displayEvents fmt events ! i = (readable_event fmt (events ! i))\<lparr>ec_duplicate :=
    \<exists>j < length events. j \<noteq> i \<and> ec_name (readable_event fmt (events ! j)) = ec_name (readable_event fmt (events ! i))\<rparr>"
proof -
  let ?r = "map (readable_event fmt) events" and ?n = "ec_name (readable_event fmt (events ! i))"
  have "?r ! i \<in> set (filter (\<lambda>x. ec_name x = ?n) ?r)" using assms by simp
  then have "filter (\<lambda>x. ec_name x = ?n) ?r \<noteq> []" by (metis empty_iff empty_set)
  then have "nullish (name_totals ?r ?n) 1 = length (filter (\<lambda>x. ec_name x = ?n) ?r)"
    by (simp only: name_totals_eq Let_def length_0_conv if_False nullish_simps)
  moreover have "1 < length (filter (\<lambda>x. ec_name x = ?n) ?r) \<longleftrightarrow> (\<exists>j < length ?r. j \<noteq> i \<and> ec_name (?r ! j) = ?n)"
    using assms by (intro two_in_filter) simp_all
  moreover have "(\<exists>j < length ?r. j \<noteq> i \<and> ec_name (?r ! j) = ?n) \<longleftrightarrow>
      (\<exists>j < length events. j \<noteq> i \<and> ec_name (readable_event fmt (events ! j)) = ?n)" by auto
  moreover have "displayEvents fmt events ! i = (readable_event fmt (events ! i))\<lparr>ec_duplicate := nullish (name_totals ?r ?n) 1 > 1\<rparr>"
    using assms by (simp add: displayEvents_def Let_def)
  ultimately show ?thesis by (simp only:)
qed


end
