(* ===== verification/Scanner_Invariants.thy ===== *)
theory Scanner_Invariants
  imports Scanner_Session
begin

text \<open>
  The scanner as a state machine: every handler, effect and answer is a step, a request waits in
  a list until its answer comes, and the answers received are recorded (newest first). The
  invariants: one check at a time, a decision on the screen is the server's latest answer, the
  camera is used on phones only, the list of recent scans is bounded.
\<close>

section \<open>Steps\<close>

record scan_sys =
  sc_state :: scanner_state
  sc_inflight :: "scan_request list"
  sc_camera_requests :: nat
  sc_answers :: "scan_outcome list"

inductive scan_step :: "(string \<Rightarrow> string) \<Rightarrow> bool \<Rightarrow> scan_sys \<Rightarrow> scan_sys \<Rightarrow> bool"
  for local_time vibrates where
  submit: "submit_start token ev qr created (sc_state s) = Some (rq, st') \<Longrightarrow>
     scan_step local_time vibrates s (s\<lparr>sc_state := st', sc_inflight := sc_inflight s @ [rq]\<rparr>)"
| answer: "rq \<in> set (sc_inflight s) \<Longrightarrow>
     submit_finish local_time vibrates uuid time rq out (sc_state s) = (st', fb) \<Longrightarrow>
     scan_step local_time vibrates s
       (s\<lparr>sc_state := st', sc_inflight := remove1 rq (sc_inflight s), sc_answers := out # sc_answers s\<rparr>)"
| next_ticket: "scan_step local_time vibrates s (s\<lparr>sc_state := reset (sc_state s)\<rparr>)"
| typing: "scan_step local_time vibrates s (s\<lparr>sc_state := (sc_state s)\<lparr>manual := text\<rparr>\<rparr>)"
| settings: "scan_step local_time vibrates s
     (s\<lparr>sc_state := (sc_state s)\<lparr>soundEnabled := a, vibrationEnabled := b\<rparr>\<rparr>)"
| camera_start: "startCamera media (sc_state s) = (st', asks) \<Longrightarrow>
     scan_step local_time vibrates s
       (s\<lparr>sc_state := st', sc_camera_requests := sc_camera_requests s + (if asks then 1 else 0)\<rparr>)"
| camera_granted_or_not: "0 < sc_camera_requests s \<Longrightarrow>
     scan_step local_time vibrates s
       (s\<lparr>sc_state := camera_answer ans (sc_state s), sc_camera_requests := sc_camera_requests s - 1\<rparr>)"
| camera_stop: "scan_step local_time vibrates s (s\<lparr>sc_state := stopCamera (sc_state s)\<rparr>)"
| torch: "toggleTorch_start (sc_state s) = Some next \<Longrightarrow>
     scan_step local_time vibrates s (s\<lparr>sc_state := toggleTorch_finish next applied (sc_state s)\<rparr>)"
| detection: "detection_effect has_detector (sc_state s) = (st', loops) \<Longrightarrow>
     scan_step local_time vibrates s (s\<lparr>sc_state := st'\<rparr>)"
| detect: "detect_read res (sc_state s) = (st', next') \<Longrightarrow>
     scan_step local_time vibrates s (s\<lparr>sc_state := st'\<rparr>)"

inductive scan_reachable :: "(string \<Rightarrow> string) \<Rightarrow> bool \<Rightarrow> scan_sys \<Rightarrow> bool"
  for local_time vibrates where
  start: "scan_reachable local_time vibrates
     \<lparr>sc_state = initial_scanner nav snd_set vib_set, sc_inflight = [], sc_camera_requests = 0, sc_answers = []\<rparr>"
| step: "scan_reachable local_time vibrates s \<Longrightarrow> scan_step local_time vibrates s s' \<Longrightarrow>
     scan_reachable local_time vibrates s'"

section \<open>The invariants\<close>

text \<open>The fields a check of a ticket reads and writes, and those of the camera.\<close>

definition check_ok :: "scan_sys \<Rightarrow> bool" where
  "check_ok s \<longleftrightarrow>
     length (sc_inflight s) \<le> 1 \<and>
     (processing (sc_state s) \<longleftrightarrow> sc_inflight s \<noteq> []) \<and>
     (processing (sc_state s) \<longrightarrow> \<not> cannotVerify (sc_state s)) \<and>
     (cannotVerify (sc_state s) \<longrightarrow> shown_result (sc_state s) = None) \<and>
     (\<forall>r. shown_result (sc_state s) = Some r \<longrightarrow> (\<exists>as. sc_answers s = Decided r # as)) \<and>
     length (recentScans (sc_state s)) \<le> 10"

definition camera_ok :: "scan_sys \<Rightarrow> bool" where
  "camera_ok s \<longleftrightarrow>
     (cameraState (sc_state s) = CActive \<longrightarrow> stream (sc_state s) \<noteq> None) \<and>
     (\<not> phoneDevice (sc_state s) \<longrightarrow>
        stream (sc_state s) = None \<and> sc_camera_requests s = 0 \<and> cameraState (sc_state s) = CPhoneRequired)"

definition same_check :: "scanner_state \<Rightarrow> scanner_state \<Rightarrow> bool" where
  "same_check st st' \<longleftrightarrow>
     processing st' = processing st \<and> cannotVerify st' = cannotVerify st \<and> shown_result st' = shown_result st \<and>
     recentScans st' = recentScans st"

definition same_camera :: "scanner_state \<Rightarrow> scanner_state \<Rightarrow> bool" where
  "same_camera st st' \<longleftrightarrow> cameraState st' = cameraState st \<and> stream st' = stream st \<and> phoneDevice st' = phoneDevice st"

lemma same_check_camera_ops:
  "same_check st (camera_answer ans st)" "same_check st (stopCamera st)" "same_check st (toggleTorch_finish n a st)"
  "startCamera media st = (st', asks) \<Longrightarrow> same_check st st'"
  "detection_effect d st = (st', r) \<Longrightarrow> same_check st st'"
  "detect_read res st = (st', n') \<Longrightarrow> same_check st st'"
  by (auto simp: same_check_def camera_answer_def stopCamera_def toggleTorch_finish_def startCamera_def
      detection_effect_def detect_read_def split: option.splits if_splits detect_result.splits list.splits)

lemma same_fields:
  "same_check st (st\<lparr>manual := t\<rparr>)" "same_check st (st\<lparr>soundEnabled := a, vibrationEnabled := b\<rparr>)"
  "same_camera st (st\<lparr>manual := t\<rparr>)" "same_camera st (st\<lparr>soundEnabled := a, vibrationEnabled := b\<rparr>)"
  by (simp_all add: same_check_def same_camera_def)

lemma check_ok_same:
  "check_ok s \<Longrightarrow> same_check (sc_state s) (sc_state s') \<Longrightarrow> sc_inflight s' = sc_inflight s \<Longrightarrow>
   sc_answers s' = sc_answers s \<Longrightarrow> check_ok s'"
  by (simp add: check_ok_def same_check_def)

lemma push_recent_length: "length (push_recent x xs) \<le> 10"
  by (simp add: push_recent_def)

lemma appendRecent_length: "length (appendRecent lt nm u t n xs) \<le> 10"
  by (simp add: appendRecent_def Let_def push_recent_length)

lemma submit_check_ok:
  assumes "submit_start token ev qr k (sc_state s) = Some (rq, st')" and "check_ok s"
  shows "check_ok (s\<lparr>sc_state := st', sc_inflight := sc_inflight s @ [rq]\<rparr>)"
  using assms by (auto simp: submit_start_def Let_def check_ok_def split: option.splits if_splits)

lemma answer_check_ok:
  assumes "rq \<in> set (sc_inflight s)" and "submit_finish lt vib u t rq out (sc_state s) = (st', fb)" and "check_ok s"
  shows "check_ok (s\<lparr>sc_state := st', sc_inflight := remove1 rq (sc_inflight s), sc_answers := out # sc_answers s\<rparr>)"
proof -
  have one: "sc_inflight s = [rq]"
    using assms(1,3) by (cases "sc_inflight s") (auto simp: check_ok_def)
  then have "processing (sc_state s)" using assms(3) by (simp add: check_ok_def)
  with assms(2,3) one show ?thesis
    by (cases out) (auto simp: submit_finish_def check_ok_def push_recent_length appendRecent_length)
qed

lemma scan_step_check_ok: "scan_step lt vib s s' \<Longrightarrow> check_ok s \<Longrightarrow> check_ok s'"
proof (induction rule: scan_step.induct)
  case (submit token ev qr created s rq st')
  then show ?case by (blast intro: submit_check_ok)
next
  case (answer rq s uuid time out st' fb)
  then show ?case by (blast intro: answer_check_ok)
next
  case (next_ticket s)
  then show ?case by (simp add: check_ok_def reset_def)
qed (auto elim!: check_ok_same simp: same_check_camera_ops same_fields)

lemma camera_ok_same:
  "camera_ok s \<Longrightarrow> same_camera (sc_state s) (sc_state s') \<Longrightarrow> sc_camera_requests s' = sc_camera_requests s \<Longrightarrow> camera_ok s'"
  by (simp add: camera_ok_def same_camera_def)

lemma same_camera_ops:
  "submit_start token ev qr k st = Some (rq, st') \<Longrightarrow> same_camera st st'"
  "submit_finish lt vib u t rq out st = (st', fb) \<Longrightarrow> same_camera st st'"
  "same_camera st (reset st)" "same_camera st (toggleTorch_finish n a st)"
  "detect_read res st = (st', n') \<Longrightarrow> same_camera st st'"
  by (auto simp: same_camera_def submit_start_def Let_def submit_finish_def reset_def toggleTorch_finish_def
      detect_read_def split: option.splits if_splits scan_outcome.splits detect_result.splits list.splits)

lemma startCamera_ok:
  "startCamera media (sc_state s) = (st', asks) \<Longrightarrow> camera_ok s \<Longrightarrow>
   camera_ok (s\<lparr>sc_state := st', sc_camera_requests := sc_camera_requests s + (if asks then 1 else 0)\<rparr>)"
  by (auto simp: startCamera_def camera_ok_def split: if_splits)

lemma camera_answer_ok:
  "0 < sc_camera_requests s \<Longrightarrow> camera_ok s \<Longrightarrow>
   camera_ok (s\<lparr>sc_state := camera_answer ans (sc_state s), sc_camera_requests := sc_camera_requests s - 1\<rparr>)"
  by (auto simp: camera_answer_def camera_ok_def split: option.splits)

lemma detection_effect_ok:
  "detection_effect d (sc_state s) = (st', r) \<Longrightarrow> camera_ok s \<Longrightarrow> camera_ok (s\<lparr>sc_state := st'\<rparr>)"
  by (auto simp: detection_effect_def detection_enabled_def camera_ok_def split: if_splits)

lemma scan_step_camera_ok: "scan_step lt vib s s' \<Longrightarrow> camera_ok s \<Longrightarrow> camera_ok s'"
proof (induction rule: scan_step.induct)
  case (camera_start media s st' asks)
  then show ?case by (rule startCamera_ok)
next
  case (camera_granted_or_not s ans)
  then show ?case by (rule camera_answer_ok)
next
  case (camera_stop s)
  then show ?case by (auto simp: camera_ok_def stopCamera_def)
next
  case (detection has_detector s st' loops)
  then show ?case by (rule detection_effect_ok)
qed (auto elim!: camera_ok_same simp: same_camera_ops same_fields)

lemma scan_reachable_ok: "scan_reachable lt vib s \<Longrightarrow> check_ok s \<and> camera_ok s"
proof (induction rule: scan_reachable.induct)
  case (start nav snd_set vib_set)
  show ?case by (simp add: check_ok_def camera_ok_def initial_scanner_def Let_def)
next
  case (step s s')
  then show ?case by (blast intro: scan_step_check_ok scan_step_camera_ok)
qed

end
