(* ===== verification/Scanner_Gate.thy ===== *)
theory Scanner_Gate
  imports Scanner_Page Scanner_Invariants
begin

text \<open>
  The scanner as a whole: the session hook, the page and the scanner hook in one state, and every
  event, handler, effect and answer as a step. A check captures the token and the event of the
  moment it is started; so does a camera image that is being read (\<open>detect\<close> does not look again
  after its \<open>await\<close>). The gate that this implements is an automaton of three phases
  (\<open>gate_next\<close>); the refinement is proved for runs that do not leave an event while something
  of it is pending.
\<close>

section \<open>The application\<close>

record gate_app =
  ga_auth :: auth_world
  ga_page :: scanner_page
  ga_events :: "scanner_event list option"   \<comment> \<open>the answer of the events query\<close>
  ga_inflight :: "scan_request list"
  ga_reading :: "(string \<times> scanner_event) list"  \<comment> \<open>images being read, with the captured token and event\<close>
  ga_asking :: nat                            \<comment> \<open>requests for the camera\<close>
  ga_answers :: "(scan_request \<times> scan_outcome) list"  \<comment> \<open>newest first\<close>

abbreviation ga_scanner :: "gate_app \<Rightarrow> scanner_state" where
  "ga_scanner s \<equiv> pg_scanner (ga_page s)"

abbreviation ga_token :: "gate_app \<Rightarrow> string" where
  "ga_token s \<equiv> session_token (aw_hook (ga_auth s))"

definition ga_screen :: "gate_app \<Rightarrow> gate_screen" where
  "ga_screen s = gate_screen_of (aw_hook (ga_auth s)) (ga_page s)"

definition put_scanner :: "scanner_state \<Rightarrow> gate_app \<Rightarrow> gate_app" where
  "put_scanner st s = s\<lparr>ga_page := (ga_page s)\<lparr>pg_scanner := st\<rparr>\<rparr>"

definition initial_page :: "device_navigator \<Rightarrow> string option \<Rightarrow> string option \<Rightarrow> string option \<Rightarrow> scanner_page" where
  "initial_page nav sound vibration stored =
     \<lparr>pg_scanner = initial_scanner nav sound vibration, pg_event = None, pg_stored = stored, pg_settings_open = False\<rparr>"

definition initial_gate :: "bool \<Rightarrow> device_navigator \<Rightarrow> string option \<Rightarrow> string option \<Rightarrow> string option \<Rightarrow> gate_app" where
  "initial_gate client nav sound vibration stored =
     \<lparr>ga_auth = initial_world scanner_unconfigured client, ga_page = initial_page nav sound vibration stored,
      ga_events = None, ga_inflight = [], ga_reading = [], ga_asking = 0, ga_answers = []\<rparr>"

datatype gate_action =
    Auth auth_event
  | Events_Loaded "scanner_event list"
  | Event_Restored
  | Event_Chosen scanner_event
  | Event_Left
  | Signed_Out
  | Code_Typed scan_request
  | Reading_Started
  | Reading_Ended "(string \<times> scanner_event) \<times> scan_request option"
  | Scan_Answered scan_request scan_outcome
  | Next_Pressed
  | Other_Change

text \<open>The steps that touch only the camera, the torch, the settings and the text of the manual field.\<close>

inductive device_step :: "gate_app \<Rightarrow> gate_app \<Rightarrow> bool" where
  typing: "device_step s (put_scanner ((ga_scanner s)\<lparr>manual := t\<rparr>) s)"
| settings: "device_step s (put_scanner ((ga_scanner s)\<lparr>soundEnabled := a, vibrationEnabled := b\<rparr>) s)"
| camera_start: "startCamera media (ga_scanner s) = (st', asks) \<Longrightarrow>
    device_step s ((put_scanner st' s)\<lparr>ga_asking := ga_asking s + (if asks then 1 else 0)\<rparr>)"
| camera_granted_or_not: "0 < ga_asking s \<Longrightarrow>
    device_step s ((put_scanner (camera_answer ans (ga_scanner s)) s)\<lparr>ga_asking := ga_asking s - 1\<rparr>)"
| torch: "toggleTorch_start (ga_scanner s) = Some next \<Longrightarrow>
    device_step s (put_scanner (toggleTorch_finish next applied (ga_scanner s)) s)"
| detection: "detection_effect has_detector (ga_scanner s) = (st', loops) \<Longrightarrow> device_step s (put_scanner st' s)"

inductive gate_step :: "(string \<Rightarrow> string) \<Rightarrow> bool \<Rightarrow> gate_app \<Rightarrow> gate_action \<Rightarrow> gate_app \<Rightarrow> bool"
  for local_time vibrates where
  auth: "auth_step scanner_hook (ga_auth s) e w \<Longrightarrow> e \<noteq> Started Op_SignOut \<Longrightarrow>
    gate_step local_time vibrates s (Auth e) (s\<lparr>ga_auth := w\<rparr>)"
| events_loaded: "gate_step local_time vibrates s (Events_Loaded evs) (s\<lparr>ga_events := Some evs\<rparr>)"
| event_restored: "gate_step local_time vibrates s Event_Restored (s\<lparr>ga_page := restoreEvent (ga_events s) (ga_page s)\<rparr>)"
| event_chosen: "ga_screen s = Choose_Event \<Longrightarrow> ev \<in> set (nullish (ga_events s) []) \<Longrightarrow>
    gate_step local_time vibrates s (Event_Chosen ev) (s\<lparr>ga_page := chooseEvent ev (ga_page s)\<rparr>)"
| event_left: "ga_screen s = Scan_Screen ev \<Longrightarrow>
    gate_step local_time vibrates s Event_Left (s\<lparr>ga_page := changeEvent (ga_page s)\<rparr>)"
| signed_out: "ga_screen s \<notin> {Opening, Sign_In_Form} \<Longrightarrow> auth_step scanner_hook (ga_auth s) (Started Op_SignOut) w \<Longrightarrow>
    gate_step local_time vibrates s Signed_Out (s\<lparr>ga_page := page_signOut (ga_page s), ga_auth := w\<rparr>)"
| code_typed: "ga_screen s = Scan_Screen ev \<Longrightarrow> manual_form field (ga_page s) = Some code \<Longrightarrow>
    submit_start (ga_token s) (pg_event (ga_page s)) code created (ga_scanner s) = Some (rq, st') \<Longrightarrow>
    gate_step local_time vibrates s (Code_Typed rq) ((put_scanner st' s)\<lparr>ga_inflight := ga_inflight s @ [rq]\<rparr>)"
| reading_started: "ga_screen s = Scan_Screen ev \<Longrightarrow> detection_enabled (ga_scanner s) \<Longrightarrow>
    detect_starts True True (ga_scanner s) \<Longrightarrow>
    gate_step local_time vibrates s Reading_Started (s\<lparr>ga_reading := ga_reading s @ [(ga_token s, ev)]\<rparr>)"
| reading_ended: "c \<in> set (ga_reading s) \<Longrightarrow> detect_read res (ga_scanner s) = (st', next) \<Longrightarrow>
    (case next of
       SubmitCode raw \<Rightarrow> submit_start (fst c) (Some (snd c)) raw created (ga_scanner s) = Some (rq, st'') \<and>
         s' = (put_scanner st'' s)\<lparr>ga_inflight := ga_inflight s @ [rq]\<rparr> \<and> sent = Some rq
     | _ \<Rightarrow> s' = put_scanner st' s \<and> sent = None) \<Longrightarrow>
    gate_step local_time vibrates s (Reading_Ended (c, sent)) (s'\<lparr>ga_reading := remove1 c (ga_reading s)\<rparr>)"
| reading_dropped: "c \<in> set (ga_reading s) \<Longrightarrow>
    gate_step local_time vibrates s (Reading_Ended (c, None)) (s\<lparr>ga_reading := remove1 c (ga_reading s)\<rparr>)"
| scan_answered: "rq \<in> set (ga_inflight s) \<Longrightarrow>
    submit_finish local_time vibrates uuid time rq out (ga_scanner s) = (st', fb) \<Longrightarrow>
    gate_step local_time vibrates s (Scan_Answered rq out)
      ((put_scanner st' s)\<lparr>ga_inflight := remove1 rq (ga_inflight s), ga_answers := (rq, out) # ga_answers s\<rparr>)"
| next_pressed: "ga_screen s = Scan_Screen ev \<Longrightarrow>
    gate_step local_time vibrates s Next_Pressed (put_scanner (reset (ga_scanner s)) s)"
| other_change: "device_step s s' \<Longrightarrow> gate_step local_time vibrates s Other_Change s'"

inductive_cases gate_stepE: "gate_step local_time vibrates s a s'"

inductive gate_run :: "(string \<Rightarrow> string) \<Rightarrow> bool \<Rightarrow> gate_app \<Rightarrow> gate_action list \<Rightarrow> gate_app \<Rightarrow> bool"
  for local_time vibrates s where
  no_actions: "gate_run local_time vibrates s [] s"
| one_action: "gate_run local_time vibrates s as s' \<Longrightarrow> gate_step local_time vibrates s' a s'' \<Longrightarrow>
    gate_run local_time vibrates s (as @ [a]) s''"

section \<open>The scanner hook in the application\<close>

definition scan_part :: "gate_app \<Rightarrow> scan_sys" where
  "scan_part s = \<lparr>sc_state = ga_scanner s, sc_inflight = ga_inflight s, sc_camera_requests = ga_asking s,
     sc_answers = map snd (ga_answers s)\<rparr>"

lemma put_scanner_sel [simp]:
  "ga_scanner (put_scanner st s) = st" "pg_event (ga_page (put_scanner st s)) = pg_event (ga_page s)"
  "ga_auth (put_scanner st s) = ga_auth s" "ga_inflight (put_scanner st s) = ga_inflight s"
  "ga_reading (put_scanner st s) = ga_reading s" "ga_asking (put_scanner st s) = ga_asking s"
  "ga_answers (put_scanner st s) = ga_answers s" "ga_events (put_scanner st s) = ga_events s"
  by (simp_all add: put_scanner_def)

lemma screen_sel [simp]:
  "ga_screen (put_scanner st s) = ga_screen s" "ga_screen (s\<lparr>ga_answers := as\<rparr>) = ga_screen s"
  "ga_screen (s\<lparr>ga_inflight := rqs\<rparr>) = ga_screen s"
  by (simp_all add: ga_screen_def gate_screen_of_def put_scanner_def)

lemma page_ops_scanner [simp]:
  "pg_scanner (restoreEvent evs pg) = pg_scanner pg" "pg_scanner (chooseEvent ev pg) = pg_scanner pg"
  "pg_scanner (changeEvent pg) = reset (stopCamera (pg_scanner pg))" "pg_scanner (page_signOut pg) = stopCamera (pg_scanner pg)"
  by (simp_all add: restoreEvent_def chooseEvent_def changeEvent_def page_signOut_def split: option.splits)

lemma device_step_scan:
  assumes "device_step s s'"
  shows "scan_step lt vib (scan_part s) (scan_part s')"
  using assms
proof (induction rule: device_step.induct)
  case (typing s t)
  then show ?case using scan_step.typing [of lt vib "scan_part s" t] by (simp add: scan_part_def)
next
  case (settings s a b)
  then show ?case using scan_step.settings [of lt vib "scan_part s" a b] by (simp add: scan_part_def)
next
  case (camera_start media s st' asks)
  then show ?case using scan_step.camera_start [of media "scan_part s" st' asks lt vib] by (simp add: scan_part_def)
next
  case (camera_granted_or_not s ans)
  then show ?case using scan_step.camera_granted_or_not [of "scan_part s" lt vib ans] by (simp add: scan_part_def)
next
  case (torch s nxt applied)
  then show ?case using scan_step.torch [of "scan_part s" nxt lt vib applied] by (simp add: scan_part_def)
next
  case (detection d s st' loops)
  then show ?case using scan_step.detection [of d "scan_part s" st' loops lt vib] by (simp add: scan_part_def)
qed

lemma gate_step_scan:
  assumes "gate_step lt vib s a s'"
  shows "(scan_step lt vib)\<^sup>*\<^sup>* (scan_part s) (scan_part s')"
  using assms
proof (induction rule: gate_step.induct)
  case (event_left s ev)
  let ?m = "(scan_part s)\<lparr>sc_state := stopCamera (ga_scanner s)\<rparr>"
  have "scan_step lt vib (scan_part s) ?m"
    using scan_step.camera_stop [of lt vib "scan_part s"] by (simp add: scan_part_def)
  moreover have "scan_step lt vib ?m ((scan_part s)\<lparr>sc_state := reset (stopCamera (ga_scanner s))\<rparr>)"
    using scan_step.next_ticket [of lt vib ?m] by simp
  ultimately show ?case by (simp add: scan_part_def)
next
  case (signed_out s w)
  then show ?case using scan_step.camera_stop [of lt vib "scan_part s"] by (auto simp: scan_part_def)
next
  case (code_typed s ev field code created rq st')
  then show ?case
    using scan_step.submit [of "ga_token s" "pg_event (ga_page s)" code created "scan_part s" rq st' lt vib]
    by (auto simp: scan_part_def)
next
  case (reading_ended c s res st' nxt created rq st'' s1 sent)
  show ?case
  proof (cases nxt)
    case (SubmitCode raw)
    with reading_ended show ?thesis
      using scan_step.submit [of "fst c" "Some (snd c)" raw created "scan_part s" rq st'' lt vib]
      by (auto simp: scan_part_def)
  next
    case Again
    with reading_ended show ?thesis
      using scan_step.detect [of res "scan_part s" st' nxt lt vib] by (auto simp: scan_part_def)
  qed
next
  case (scan_answered rq s uuid time out st' fb)
  then show ?case
    using scan_step.answer [of rq "scan_part s" lt vib uuid time out st' fb] by (auto simp: scan_part_def)
next
  case (next_pressed s ev)
  then show ?case using scan_step.next_ticket [of lt vib "scan_part s"] by (auto simp: scan_part_def)
next
  case (other_change s s1)
  then show ?case using device_step_scan by blast
qed (simp_all add: scan_part_def)

lemma scan_reachable_steps: "(scan_step lt vib)\<^sup>*\<^sup>* s s' \<Longrightarrow> scan_reachable lt vib s \<Longrightarrow> scan_reachable lt vib s'"
  by (induction rule: rtranclp_induct) (auto intro: scan_reachable.step)

lemma gate_run_scan:
  "gate_run lt vib s as s' \<Longrightarrow> scan_reachable lt vib (scan_part s) \<Longrightarrow> scan_reachable lt vib (scan_part s')"
  by (induction rule: gate_run.induct) (auto intro: scan_reachable_steps gate_step_scan)

lemma initial_gate_scan: "scan_reachable lt vib (scan_part (initial_gate client nav snd_set vib_set stored))"
  by (simp add: scan_part_def initial_gate_def initial_page_def scan_reachable.start)

text \<open>So the invariants of the scanner hook hold in the application.\<close>

lemma gate_run_ok:
  assumes "gate_run lt vib (initial_gate client nav snd_set vib_set stored) as s"
  shows "check_ok (scan_part s)" "camera_ok (scan_part s)"
  using scan_reachable_ok [OF gate_run_scan [OF assms initial_gate_scan]] by simp_all

end
