(* ===== verification/Scanner_Refinement.thy ===== *)
theory Scanner_Refinement
  imports Scanner_Gate
begin

text \<open>
  What the scanner promises to the gate, as an automaton: a gate is opened for one event, checks
  one ticket at a time for that event, tells a verdict, and is ready again when the next guest
  comes. The application refines it on runs that do not leave an event while a check or an image
  is pending or, by signing out, while a decision is shown.
\<close>

section \<open>The gate\<close>

datatype verdict = Admit_Guest | Turn_Away | Cannot_Verify

datatype gate_phase = Ready | Checking_Ticket string | Told verdict

datatype gate = Gate_Closed | Gate_Open string gate_phase

datatype gate_event =
  Open_Gate string | Close_Gate | Check_Ticket string string | Hear verdict | Next_Guest

definition is_checking :: "gate_phase \<Rightarrow> bool" where
  "is_checking p = (case p of Checking_Ticket _ \<Rightarrow> True | _ \<Rightarrow> False)"

definition gate_next :: "gate \<Rightarrow> gate_event \<Rightarrow> gate option" where
  "gate_next g e =
     (case g of
        Gate_Closed \<Rightarrow> (case e of Open_Gate ev \<Rightarrow> Some (Gate_Open ev Ready) | _ \<Rightarrow> None)
      | Gate_Open ev p \<Rightarrow>
          (case e of
             Open_Gate _ \<Rightarrow> None
           | Close_Gate \<Rightarrow> if is_checking p then None else Some Gate_Closed
           | Check_Ticket ev' t \<Rightarrow> if is_checking p \<or> ev' \<noteq> ev then None else Some (Gate_Open ev (Checking_Ticket t))
           | Hear v \<Rightarrow> if is_checking p then Some (Gate_Open ev (Told v)) else None
           | Next_Guest \<Rightarrow> Some (if is_checking p then g else Gate_Open ev Ready)))"

fun gate_runs :: "gate \<Rightarrow> gate_event list \<Rightarrow> gate option" where
  "gate_runs g [] = Some g"
| "gate_runs g (e # es) = Option.bind (gate_next g e) (\<lambda>g'. gate_runs g' es)"

lemma gate_runs_append: "gate_runs g (es @ fs) = Option.bind (gate_runs g es) (\<lambda>g'. gate_runs g' fs)"
  by (induction g es rule: gate_runs.induct) (simp_all split: bind_split)

section \<open>What the application does to the gate\<close>

definition verdict_of :: "scan_outcome \<Rightarrow> verdict" where
  "verdict_of out =
     (case out of
        Decided r \<Rightarrow> if sr_result r \<in> set admitted_codes then Admit_Guest else Turn_Away
      | _ \<Rightarrow> Cannot_Verify)"

definition abs_phase :: "gate_app \<Rightarrow> gate_phase" where
  "abs_phase s =
     (case ga_inflight s of
        rq # _ \<Rightarrow> Checking_Ticket (sq_credential rq)
      | [] \<Rightarrow> if cannotVerify (ga_scanner s) then Told Cannot_Verify
             else (case shown_result (ga_scanner s) of None \<Rightarrow> Ready | Some r \<Rightarrow> Told (verdict_of (Decided r))))"

definition abs_gate :: "gate_app \<Rightarrow> gate" where
  "abs_gate s =
     (case pg_event (ga_page s) of None \<Rightarrow> Gate_Closed | Some ev \<Rightarrow> Gate_Open (se_id ev) (abs_phase s))"

definition gate_events :: "gate_app \<Rightarrow> gate_action \<Rightarrow> gate_event list" where
  "gate_events s a =
     (case a of
        Event_Restored \<Rightarrow>
          (case (pg_event (ga_page s), pg_event (restoreEvent (ga_events s) (ga_page s))) of
             (None, Some ev) \<Rightarrow> [Open_Gate (se_id ev)] | _ \<Rightarrow> [])
      | Event_Chosen ev \<Rightarrow> [Open_Gate (se_id ev)]
      | Event_Left \<Rightarrow> [Close_Gate]
      | Signed_Out \<Rightarrow> if pg_event (ga_page s) = None then [] else [Close_Gate]
      | Code_Typed rq \<Rightarrow> [Check_Ticket (sq_event_id rq) (sq_credential rq)]
      | Reading_Ended (c, Some rq) \<Rightarrow> [Check_Ticket (sq_event_id rq) (sq_credential rq)]
      | Scan_Answered rq out \<Rightarrow> [Hear (verdict_of out)]
      | Next_Pressed \<Rightarrow> [Next_Guest]
      | _ \<Rightarrow> [])"

text \<open>An operator who does not leave while something is pending.\<close>

definition careful :: "gate_app \<Rightarrow> gate_action \<Rightarrow> bool" where
  "careful s a \<longleftrightarrow>
     (a = Event_Left \<or> a = Signed_Out \<longrightarrow> ga_inflight s = [] \<and> ga_reading s = []) \<and>
     (a = Signed_Out \<longrightarrow> \<not> decisionVisible (ga_page s))"

inductive careful_run :: "(string \<Rightarrow> string) \<Rightarrow> bool \<Rightarrow> gate_app \<Rightarrow> gate_event list \<Rightarrow> gate_app \<Rightarrow> bool"
  for local_time vibrates s where
  nothing: "careful_run local_time vibrates s [] s"
| something: "careful_run local_time vibrates s es s' \<Longrightarrow> gate_step local_time vibrates s' a s'' \<Longrightarrow> careful s' a \<Longrightarrow>
    careful_run local_time vibrates s (es @ gate_events s' a) s''"

text \<open>The phase that the operator reads from the page while no ticket is checked.\<close>

definition told_phase :: "(string \<Rightarrow> string) \<Rightarrow> scanner_page \<Rightarrow> gate_phase" where
  "told_phase local_time pg =
     (if \<not> decisionVisible pg then Ready
      else Told (let title = op_title (page_presentation local_time pg) in
        if title = ''Can't verify ticket'' then Cannot_Verify
        else if title = ''Admit guest'' then Admit_Guest else Turn_Away))"

section \<open>The refinement\<close>

text \<open>What is pending belongs to the chosen event, and so does the decision on the page.\<close>

definition of_chosen :: "gate_app \<Rightarrow> scan_request \<Rightarrow> bool" where
  "of_chosen s rq \<longleftrightarrow> map_option se_id (pg_event (ga_page s)) = Some (sq_event_id rq)"

definition gate_ok :: "gate_app \<Rightarrow> bool" where
  "gate_ok s \<longleftrightarrow>
     list_all (of_chosen s) (ga_inflight s) \<and>
     list_all (\<lambda>c. pg_event (ga_page s) = Some (snd c)) (ga_reading s) \<and>
     (pg_event (ga_page s) = None \<longrightarrow> \<not> decisionVisible (ga_page s)) \<and>
     (shown_result (ga_scanner s) \<noteq> None \<longrightarrow> of_chosen s (fst (hd (ga_answers s))))"

lemma gate_okD:
  assumes "gate_ok s"
  shows "rq \<in> set (ga_inflight s) \<Longrightarrow> of_chosen s rq"
    and "c \<in> set (ga_reading s) \<Longrightarrow> pg_event (ga_page s) = Some (snd c)"
    and "pg_event (ga_page s) = None \<Longrightarrow> ga_inflight s = [] \<and> ga_reading s = [] \<and> \<not> decisionVisible (ga_page s)"
    and "shown_result (ga_scanner s) \<noteq> None \<Longrightarrow> of_chosen s (fst (hd (ga_answers s)))"
  using assms by (auto simp: gate_ok_def list_all_iff of_chosen_def) (cases "ga_reading s"; auto)+

lemma gate_ok_same:
  assumes "gate_ok s" "same_check (ga_scanner s) (ga_scanner s')" "pg_event (ga_page s') = pg_event (ga_page s)"
    "ga_inflight s' = ga_inflight s" "set (ga_reading s') \<subseteq> set (ga_reading s)" "ga_answers s' = ga_answers s"
  shows "gate_ok s' \<and> abs_gate s' = abs_gate s"
  using assms by (auto simp: gate_ok_def same_check_def of_chosen_def list_all_iff decisionVisible_def abs_gate_def
      abs_phase_def split: option.splits)

lemma gate_ok_reading:
  assumes "gate_ok s" "pg_event (ga_page s) = Some ev"
  shows "gate_ok (s\<lparr>ga_reading := ga_reading s @ [(t, ev)]\<rparr>) \<and>
    abs_gate (s\<lparr>ga_reading := ga_reading s @ [(t, ev)]\<rparr>) = abs_gate s"
proof -
  have "of_chosen (s\<lparr>ga_reading := rs\<rparr>) = of_chosen s" for rs by (simp add: of_chosen_def fun_eq_iff)
  moreover have "abs_phase (s\<lparr>ga_reading := rs\<rparr>) = abs_phase s" for rs
    by (simp add: abs_phase_def split: list.split option.split)
  ultimately show ?thesis using assms by (simp add: gate_ok_def abs_gate_def)
qed

lemma device_step_same:
  assumes "device_step s s'"
  shows "same_check (ga_scanner s) (ga_scanner s') \<and> pg_event (ga_page s') = pg_event (ga_page s) \<and>
    ga_inflight s' = ga_inflight s \<and> ga_reading s' = ga_reading s \<and> ga_answers s' = ga_answers s"
  using assms by induction (auto simp: same_check_camera_ops same_fields)

lemma screen_event:
  "ga_screen s = Scan_Screen ev \<Longrightarrow> pg_event (ga_page s) = Some ev"
  "ga_screen s = Choose_Event \<Longrightarrow> pg_event (ga_page s) = None"
  by (auto simp: ga_screen_def gate_screen_of_def split: if_splits option.splits)

lemma submit_request:
  assumes "submit_start token ev code created st = Some (rq, st')"
  shows "map_option se_id ev = Some (sq_event_id rq)" "\<not> processing st" "processing st'"
    "shown_result st' = shown_result st" "\<not> cannotVerify st'"
  using assms by (auto simp: submit_start_def Let_def split: option.splits if_splits)

lemma told_phase_phase:
  assumes "check_ok (scan_part s)" "ga_inflight s = []"
  shows "told_phase lt (ga_page s) = abs_phase s"
proof -
  have "op_title (page_presentation lt (ga_page s)) = ''Can't verify ticket'' \<longleftrightarrow> cannotVerify (ga_scanner s)"
    by (cases "shown_result (ga_scanner s)") (simp_all add: page_presentation_def outcomePresentation_def Let_def)
  moreover have "op_title (page_presentation lt (ga_page s)) = ''Admit guest'' \<longleftrightarrow>
      \<not> cannotVerify (ga_scanner s) \<and> (\<exists>r. shown_result (ga_scanner s) = Some r \<and> sr_result r \<in> set admitted_codes)"
    by (simp add: page_presentation_def admit_title_iff success_iff)
  ultimately show ?thesis
    using assms by (auto simp: told_phase_def abs_phase_def decisionVisible_def verdict_of_def split: option.splits)
qed

lemma no_checking_phase:
  assumes "check_ok (scan_part s)"
  shows "processing (ga_scanner s) \<longleftrightarrow> ga_inflight s \<noteq> []" "is_checking (abs_phase s) \<longleftrightarrow> ga_inflight s \<noteq> []"
  using assms by (auto simp: check_ok_def scan_part_def abs_phase_def is_checking_def neq_Nil_conv split: list.splits option.splits)

lemma sent_refines:
  assumes "submit_start token ev code created (ga_scanner s) = Some (rq, st')" "ev = pg_event (ga_page s)"
    and "s' = (put_scanner st' s)\<lparr>ga_inflight := ga_inflight s @ [rq], ga_reading := rs\<rparr>" "set rs \<subseteq> set (ga_reading s)"
    and "gate_ok s" "check_ok (scan_part s)"
  shows "gate_ok s' \<and> gate_next (abs_gate s) (Check_Ticket (sq_event_id rq) (sq_credential rq)) = Some (abs_gate s')"
proof -
  note rq = submit_request [OF assms(1)]
  have idle: "ga_inflight s = []" using no_checking_phase(1) [OF assms(6)] rq(2) by simp
  obtain e where e: "pg_event (ga_page s) = Some e" "se_id e = sq_event_id rq" using rq(1) assms(2) by auto
  have "gate_ok s'"
    using assms(3-5) idle e rq(4) by (auto simp: gate_ok_def of_chosen_def list_all_iff)
  moreover have "abs_gate s = Gate_Open (sq_event_id rq) (abs_phase s)" "\<not> is_checking (abs_phase s)"
    using e no_checking_phase(2) [OF assms(6)] idle by (simp_all add: abs_gate_def)
  moreover have "abs_gate s' = Gate_Open (sq_event_id rq) (Checking_Ticket (sq_credential rq))"
    using assms(3) idle e by (simp add: abs_gate_def abs_phase_def)
  ultimately show ?thesis by (simp add: gate_next_def)
qed

lemma answer_refines:
  assumes "rq \<in> set (ga_inflight s)" "submit_finish lt vib uuid time rq out (ga_scanner s) = (st', fb)"
    and "s' = (put_scanner st' s)\<lparr>ga_inflight := remove1 rq (ga_inflight s), ga_answers := (rq, out) # ga_answers s\<rparr>"
    and "check_ok (scan_part s)"
  shows "ga_inflight s = [rq]" "ga_inflight s' = []" "abs_phase s' = Told (verdict_of out)" "decisionVisible (ga_page s')"
proof -
  show one: "ga_inflight s = [rq]"
    using assms(1,4) by (cases "ga_inflight s") (auto simp: check_ok_def scan_part_def)
  then show none: "ga_inflight s' = []" using assms(3) by simp
  have "\<not> cannotVerify (ga_scanner s)" using assms(4) one by (simp add: check_ok_def scan_part_def)
  with assms(2) have "(case out of Decided r \<Rightarrow> shown_result st' = Some r \<and> \<not> cannotVerify st' | _ \<Rightarrow> cannotVerify st')"
    by (cases out) (auto simp: submit_finish_def)
  moreover have "ga_scanner s' = st'" using assms(3) by simp
  ultimately show "abs_phase s' = Told (verdict_of out)" "decisionVisible (ga_page s')"
    using none by (auto simp: abs_phase_def verdict_of_def decisionVisible_def split: scan_outcome.splits)
qed

lemma answer_gate_ok:
  assumes "rq \<in> set (ga_inflight s)" "ga_inflight s' = []" "pg_event (ga_page s') = pg_event (ga_page s)"
    "ga_reading s' = ga_reading s" "ga_answers s' = (rq, out) # ga_answers s" "gate_ok s"
  shows "gate_ok s'"
  using assms gate_okD(1) [OF assms(6,1)] by (auto simp: gate_ok_def of_chosen_def list_all_iff)

lemma event_opened:
  assumes "gate_ok s" "pg_event (ga_page s) = None" "s' = s\<lparr>ga_page := pg\<rparr>" "pg_event pg = Some ev" "pg_scanner pg = ga_scanner s"
  shows "gate_ok s' \<and> gate_next (abs_gate s) (Open_Gate (se_id ev)) = Some (abs_gate s')"
proof -
  have "ga_inflight s = []" "ga_reading s = []" "shown_result (ga_scanner s) = None" "\<not> cannotVerify (ga_scanner s)"
    using gate_okD(3) [OF assms(1,2)] by (auto simp: decisionVisible_def)
  then show ?thesis using assms by (simp add: gate_ok_def abs_gate_def abs_phase_def gate_next_def)
qed

lemma event_closed:
  assumes "gate_ok s" "check_ok (scan_part s)" "pg_event (ga_page s) = Some ev" "ga_inflight s = []" "ga_reading s = []"
    and "ga_inflight s' = []" "ga_reading s' = []" "pg_event (ga_page s') = None" "\<not> decisionVisible (ga_page s')"
  shows "gate_ok s' \<and> gate_next (abs_gate s) Close_Gate = Some (abs_gate s')"
  using assms no_checking_phase(2) [OF assms(2)]
  by (simp add: gate_ok_def abs_gate_def gate_next_def decisionVisible_def)

lemma next_refines:
  assumes "gate_ok s" "check_ok (scan_part s)" "pg_event (ga_page s) = Some ev" "s' = put_scanner (reset (ga_scanner s)) s"
  shows "gate_ok s' \<and> gate_next (abs_gate s) Next_Guest = Some (abs_gate s')"
proof -
  have "gate_ok s'" using assms by (auto simp: gate_ok_def reset_def of_chosen_def list_all_iff)
  moreover have "abs_phase s' = (if ga_inflight s = [] then Ready else abs_phase s)"
    using assms(4) by (simp add: abs_phase_def reset_def split: list.splits)
  ultimately show ?thesis
    using assms no_checking_phase(2) [OF assms(2)] by (simp add: abs_gate_def gate_next_def)
qed

lemma careful_step_refines:
  assumes "gate_step lt vib s a s'" "careful s a" "gate_ok s" "check_ok (scan_part s)"
  shows "gate_ok s' \<and> gate_runs (abs_gate s) (gate_events s a) = Some (abs_gate s')"
  using assms
proof (induction rule: gate_step.induct)
  case (auth s e w)
  then show ?case using gate_ok_same [of s "s\<lparr>ga_auth := w\<rparr>"] by (simp add: gate_events_def same_check_def)
next
  case (events_loaded s evs)
  then show ?case using gate_ok_same [of s "s\<lparr>ga_events := Some evs\<rparr>"] by (simp add: gate_events_def same_check_def)
next
  case (event_restored s)
  let ?s = "s\<lparr>ga_page := restoreEvent (ga_events s) (ga_page s)\<rparr>"
  show ?case
  proof (cases "\<exists>ev. pg_event (ga_page s) = None \<and> pg_event (ga_page ?s) = Some ev")
    case True
    then obtain ev where "pg_event (ga_page s) = None" "pg_event (restoreEvent (ga_events s) (ga_page s)) = Some ev" by auto
    with event_opened [OF event_restored(2) this(1) refl this(2)] show ?thesis by (simp add: gate_events_def)
  next
    case False
    then have "pg_event (ga_page ?s) = pg_event (ga_page s)"
      by (auto simp: restoreEvent_def split: option.splits)
    with False gate_ok_same [OF event_restored(2), of ?s] show ?thesis
      by (auto simp: gate_events_def same_check_def split: option.splits)
  qed
next
  case (event_chosen s ev)
  then have "pg_event (ga_page s) = None" by (blast dest: screen_event)
  with event_opened [of s _ "chooseEvent ev (ga_page s)" ev] event_chosen show ?case
    by (simp add: gate_events_def chooseEvent_def)
next
  case (event_left s ev)
  then have "pg_event (ga_page s) = Some ev" by (blast dest: screen_event)
  with event_closed [of s ev "s\<lparr>ga_page := changeEvent (ga_page s)\<rparr>"] event_left show ?case
    by (simp add: gate_events_def changeEvent_def careful_def decisionVisible_def reset_def)
next
  case (signed_out s w)
  let ?s = "s\<lparr>ga_page := page_signOut (ga_page s), ga_auth := w\<rparr>"
  have shown: "\<not> decisionVisible (ga_page ?s)" "ga_inflight s = []" "ga_reading s = []" "pg_event (ga_page ?s) = None"
    using signed_out by (simp_all add: careful_def decisionVisible_def page_signOut_def stopCamera_def)
  show ?case
  proof (cases "pg_event (ga_page s)")
    case None
    then show ?thesis using shown signed_out
      by (simp add: gate_events_def gate_ok_def abs_gate_def decisionVisible_def)
  next
    case (Some ev)
    with event_closed [of s ev ?s] shown signed_out show ?thesis by (simp add: gate_events_def)
  qed
next
  case (code_typed s ev field code created rq st')
  then show ?case
    using sent_refines [OF code_typed(3) refl, of "(put_scanner st' s)\<lparr>ga_inflight := ga_inflight s @ [rq]\<rparr>" "ga_reading s"]
    by (simp add: gate_events_def)
next
  case (reading_started s ev)
  then have "pg_event (ga_page s) = Some ev" by (blast dest: screen_event)
  with gate_ok_reading [of s ev "ga_token s"] reading_started show ?case by (simp add: gate_events_def)
next
  case (reading_ended c s res st' nxt created rq st'' s1 sent)
  have chosen: "pg_event (ga_page s) = Some (snd c)" using gate_okD(2) reading_ended by blast
  show ?case
  proof (cases nxt)
    case (SubmitCode raw)
    with reading_ended(3) have sent: "submit_start (fst c) (Some (snd c)) raw created (ga_scanner s) = Some (rq, st'')"
      and s1: "s1 = (put_scanner st'' s)\<lparr>ga_inflight := ga_inflight s @ [rq]\<rparr>" and rq: "sent = Some rq" by simp_all
    have "s1\<lparr>ga_reading := remove1 c (ga_reading s)\<rparr> =
        (put_scanner st'' s)\<lparr>ga_inflight := ga_inflight s @ [rq], ga_reading := remove1 c (ga_reading s)\<rparr>"
      by (simp add: s1)
    from sent_refines [OF sent chosen [symmetric] this set_remove1_subset] reading_ended(5,6) rq
    show ?thesis by (simp add: gate_events_def)
  next
    case Again
    with reading_ended(3) have s1: "s1 = put_scanner st' s" and none: "sent = None" by simp_all
    have "same_check (ga_scanner s) st'" using reading_ended(2) by (rule same_check_camera_ops)
    with gate_ok_same [OF reading_ended(5), of "s1\<lparr>ga_reading := remove1 c (ga_reading s)\<rparr>"] s1 none
    show ?thesis by (simp add: gate_events_def set_remove1_subset)
  qed
next
  case (reading_dropped c s)
  then show ?case using gate_ok_same [of s "s\<lparr>ga_reading := remove1 c (ga_reading s)\<rparr>"]
    by (simp add: gate_events_def same_check_def set_remove1_subset)
next
  case (scan_answered rq s uuid time out st' fb)
  let ?s = "(put_scanner st' s)\<lparr>ga_inflight := remove1 rq (ga_inflight s), ga_answers := (rq, out) # ga_answers s\<rparr>"
  note answered = answer_refines [OF scan_answered(1,2) refl scan_answered(5)]
  obtain ev where ev: "pg_event (ga_page s) = Some ev"
    using gate_okD(1) [OF scan_answered(4,1)] by (auto simp: of_chosen_def)
  have "gate_ok ?s" using answer_gate_ok [OF scan_answered(1) answered(2) _ _ _ scan_answered(4)] by simp
  with ev answered show ?case
    using no_checking_phase(2) [OF scan_answered(5)] by (simp add: gate_events_def abs_gate_def gate_next_def)
next
  case (next_pressed s ev)
  then have "pg_event (ga_page s) = Some ev" by (blast dest: screen_event)
  with next_refines next_pressed show ?case by (simp add: gate_events_def)
next
  case (other_change s s1)
  with device_step_same [OF other_change(1)] gate_ok_same [of s s1] show ?case by (simp add: gate_events_def)
qed

lemma careful_run_gate_run: "careful_run lt vib s es s' \<Longrightarrow> \<exists>as. gate_run lt vib s as s'"
  by (induction rule: careful_run.induct) (blast intro: gate_run.intros)+

lemma initial_gate_sel [simp]:
  "gate_ok (initial_gate client nav snd_set vib_set stored)" "abs_gate (initial_gate client nav snd_set vib_set stored) = Gate_Closed"
  by (simp_all add: initial_gate_def initial_page_def gate_ok_def abs_gate_def decisionVisible_def initial_scanner_def Let_def)

lemma careful_run_ok:
  assumes "careful_run lt vib (initial_gate client nav snd_set vib_set stored) es s"
  shows "gate_ok s \<and> gate_runs Gate_Closed es = Some (abs_gate s)"
  using assms
proof (induction rule: careful_run.induct)
  case (something es s' a s'')
  have "check_ok (scan_part s')" using careful_run_gate_run [OF something(1)] gate_run_ok(1) by blast
  with careful_step_refines [OF something(2,3)] something.IH show ?case by (simp add: gate_runs_append)
qed simp

end
