(* ===== verification/Scanner_Properties.thy ===== *)
theory Scanner_Properties
  imports Scanner_Invariants
begin

text \<open>
  The properties of the scanner, with their witnesses: what the gate operator sees and hears, how
  a check is retried, and when the camera is used. The last section records behaviour of the
  scanner that looks unintended.
\<close>

section \<open>Sample data\<close>

definition admitted_result :: scan_result where
  "admitted_result = \<lparr>sr_result = ''ADMITTED'', sr_ticket = None, sr_admitted_at = None, sr_previous_admitted_at = None\<rparr>"

definition sample_event :: scanner_event where
  "sample_event = \<lparr>se_id = ''e1'', se_name = ''Concert'', se_state = ''ON_SALE'', se_starts_at = None, se_ends_at = None,
     se_timezone_name = None, se_venue_name = ''Hall'', se_address_text = None\<rparr>"

definition phone_navigator :: device_navigator where
  "phone_navigator = \<lparr>nav_userAgent = None, nav_mobile = Some True\<rparr>"

definition phone_scanner :: scanner_state where
  "phone_scanner = initial_scanner phone_navigator None None"

definition sample_check :: scan_request where
  "sample_check = \<lparr>sq_key = ''k1'', sq_intent = ''e1:abc'', sq_event_id = ''e1'', sq_credential = ''abc'',
     sq_gate_reference = ''Phone scanner'', sq_event_name = ''Concert'',
     sq_sound = True, sq_vibration = True\<rparr>"

definition checking_scanner :: scanner_state where
  "checking_scanner = phone_scanner\<lparr>processing := True, scanKeys := [''e1:abc'' \<mapsto> ''k1'']\<rparr>"

lemma phone_scanner_sel [simp]:
  "phoneDevice phone_scanner" "processing phone_scanner = False" "scanKeys phone_scanner = Map.empty"
  "soundEnabled phone_scanner" "vibrationEnabled phone_scanner" "cannotVerify phone_scanner = False" "shown_result phone_scanner = None" "recentScans phone_scanner = []"
  by (simp_all add: phone_scanner_def initial_scanner_def phone_navigator_def isPhoneDevice_def Let_def)

lemma trim_abc: "trim ''abc'' = ''abc''"
  by code_simp

lemma sample_submit: "submit_start ''token'' (Some sample_event) ''abc'' ''k1'' phone_scanner = Some (sample_check, checking_scanner)"
  by (simp add: submit_start_def trim_abc sample_event_def take_or_create_def sample_check_def checking_scanner_def
      scannerGateLabel_def Let_def)

text \<open>An answered check, reached by submitting a code and receiving the answer.\<close>

definition answered_system :: "scan_outcome \<Rightarrow> scan_sys" where
  "answered_system out =
     \<lparr>sc_state = fst (submit_finish (\<lambda>t. t) True ''u1'' ''noon'' sample_check out checking_scanner),
      sc_inflight = [], sc_camera_requests = 0, sc_answers = [out]\<rparr>"

lemma checking_reachable:
  "scan_reachable (\<lambda>t. t) True
     \<lparr>sc_state = checking_scanner, sc_inflight = [sample_check], sc_camera_requests = 0, sc_answers = []\<rparr>"
proof -
  have "scan_reachable (\<lambda>t. t) True \<lparr>sc_state = phone_scanner, sc_inflight = [], sc_camera_requests = 0, sc_answers = []\<rparr>"
    unfolding phone_scanner_def by (rule scan_reachable.start)
  from scan_reachable.step [OF this scan_step.submit] sample_submit show ?thesis by fastforce
qed

lemma answered_reachable: "scan_reachable (\<lambda>t. t) True (answered_system out)"
proof -
  let ?s = "\<lparr>sc_state = checking_scanner, sc_inflight = [sample_check], sc_camera_requests = 0, sc_answers = []\<rparr>"
  have "sample_check \<in> set (sc_inflight ?s)" by simp
  moreover have "submit_finish (\<lambda>t. t) True ''u1'' ''noon'' sample_check out (sc_state ?s) =
      (sc_state (answered_system out), snd (submit_finish (\<lambda>t. t) True ''u1'' ''noon'' sample_check out checking_scanner))"
    by (simp add: answered_system_def)
  ultimately have "scan_step (\<lambda>t. t) True ?s (?s\<lparr>sc_state := sc_state (answered_system out),
      sc_inflight := remove1 sample_check (sc_inflight ?s), sc_answers := out # sc_answers ?s\<rparr>)"
    by (rule scan_step.answer)
  from scan_reachable.step [OF checking_reachable this] show ?thesis by (simp add: answered_system_def)
qed

definition gate_page :: "scanner_state \<Rightarrow> scanner_page" where
  "gate_page st = \<lparr>pg_scanner = st, pg_event = Some sample_event, pg_stored = Some ''e1'', pg_settings_open = False\<rparr>"

section \<open>What the gate operator sees\<close>

text \<open>
  C4: The gate is told to admit a guest only when the server's latest answer to this scanner
  admitted one, whatever was typed, scanned, lost or refused before.
\<close>

theorem admits_only_on_servers_word:
  assumes "scan_reachable local_time vibrates s" and "pg_scanner pg = sc_state s"
    and "op_title (page_presentation local_time pg) = ''Admit guest''"
  shows "\<exists>r as. sc_answers s = Decided r # as \<and> sr_result r \<in> {''ADMITTED'', ''MANUAL_OVERRIDE_ADMITTED''}"
proof -
  from assms(3) have "op_tone (page_presentation local_time pg) = PSuccess"
    by (simp add: page_presentation_def admit_title_iff)
  then obtain r where r: "shown_result (sc_state s) = Some r" "sr_result r \<in> set admitted_codes"
    using assms(2) by (auto simp: page_presentation_def success_iff)
  then show ?thesis using scan_reachable_ok [OF assms(1)] by (auto simp: check_ok_def admitted_codes_def)
qed

theorem admits_only_on_servers_word_witness:
  "op_title (page_presentation (\<lambda>t. t) (gate_page (sc_state (answered_system (Decided admitted_result))))) = ''Admit guest'' \<and>
   (\<exists>r as. sc_answers (answered_system (Decided admitted_result)) = Decided r # as)"
proof -
  have shown: "op_title (page_presentation (\<lambda>t. t) (gate_page (sc_state (answered_system (Decided admitted_result))))) = ''Admit guest''"
    by (simp add: admit_title_iff page_presentation_def success_iff gate_page_def answered_system_def submit_finish_def
        checking_scanner_def admitted_result_def admitted_codes_def)
  have "pg_scanner (gate_page st) = st" for st by (simp add: gate_page_def)
  from admits_only_on_servers_word [OF answered_reachable this shown] shown show ?thesis by blast
qed

text \<open>
  C8: The scanner fails closed: when a check gets no decision, lost or refused, the page shows that
  the ticket cannot be verified, the guest is not admitted, no sign of an earlier decision is
  left, and the list of recent scans starts with the failure.
\<close>

theorem fails_closed:
  assumes "submit_finish local_time vibrates uuid time rq out st = (st', fb)" and "\<nexists>r. out = Decided r"
    and "pg_scanner pg = st'"
  shows "page_presentation local_time pg = presentation PDanger ''Can't verify ticket''
      ''Check your connection and try again. Do not admit this guest until the ticket can be verified.'' \<and>
    decisionVisible pg \<and> shown_result st' = None \<and> fb = [] \<and>
    recentScans st' = take 10 (cannot_verify_scan uuid time # recentScans st) \<and> \<not> processing st'"
proof -
  have "shown_result st' = None" "cannotVerify st'" "fb = []" "\<not> processing st'"
    "recentScans st' = take 10 (cannot_verify_scan uuid time # recentScans st)"
    using assms(1,2) by (cases out; auto simp: submit_finish_def push_recent_def)+
  then show ?thesis using assms(3) by (simp add: page_presentation_def outcomePresentation_def decisionVisible_def)
qed

theorem fails_closed_witness:
  "shown_result (fst (submit_finish (\<lambda>t. t) True ''u1'' ''noon'' sample_check ScanLost checking_scanner)) = None"
  using fails_closed [of "\<lambda>t. t" True "''u1''" "''noon''" sample_check ScanLost checking_scanner
    "fst (submit_finish (\<lambda>t. t) True ''u1'' ''noon'' sample_check ScanLost checking_scanner)"
    "snd (submit_finish (\<lambda>t. t) True ''u1'' ''noon'' sample_check ScanLost checking_scanner)"
    "gate_page (fst (submit_finish (\<lambda>t. t) True ''u1'' ''noon'' sample_check ScanLost checking_scanner))"]
  by (simp add: gate_page_def)

text \<open>
  Sight and sound agree: for a decision, the high tone and the single vibration mean that the
  page tells the gate to admit the guest, the low tone and the double vibration that it does not.
\<close>

theorem feedback_agrees_with_page:
  assumes "submit_finish local_time vibrates uuid time rq (Decided r) st = (st', fb)" and "pg_scanner pg = st'"
    and "cannotVerify st = False"
  shows "(\<forall>f \<in> set fb. f = Tone (if op_tone (page_presentation local_time pg) = PSuccess then 880 else 220) \<or>
      f = Vibrate (if op_tone (page_presentation local_time pg) = PSuccess then [120] else [80, 60, 80])) \<and>
    (sq_sound rq \<longrightarrow> (\<exists>hz. Tone hz \<in> set fb)) \<and> (sq_vibration rq \<and> vibrates \<longrightarrow> (\<exists>p. Vibrate p \<in> set fb)) \<and>
    length fb \<le> 2"
proof -
  have "shown_result st' = Some r" "\<not> cannotVerify st'"
    using assms(1,3) by (auto simp: submit_finish_def)
  then have "op_tone (page_presentation local_time pg) = PSuccess \<longleftrightarrow>
      sr_result r = ''ADMITTED'' \<or> sr_result r = ''MANUAL_OVERRIDE_ADMITTED''"
    using assms(2) by (simp add: page_presentation_def success_iff admitted_codes_def)
  with assms(1) show ?thesis by (auto simp: submit_finish_def feedback_of_def Let_def)
qed

theorem feedback_agrees_with_page_witness:
  "\<exists>hz. Tone hz \<in> set (snd (submit_finish (\<lambda>t. t) False ''u1'' ''noon'' sample_check (Decided admitted_result) checking_scanner))"
proof -
  let ?f = "submit_finish (\<lambda>t. t) False ''u1'' ''noon'' sample_check (Decided admitted_result) checking_scanner"
  have "pg_scanner (gate_page (fst ?f)) = fst ?f" "cannotVerify checking_scanner = False" "sq_sound sample_check"
    by (simp_all add: gate_page_def checking_scanner_def sample_check_def)
  with feedback_agrees_with_page [of "\<lambda>t. t" False "''u1''" "''noon''" sample_check admitted_result checking_scanner
      "fst ?f" "snd ?f" "gate_page (fst ?f)", OF surjective_pairing]
  show ?thesis by blast
qed

section \<open>Checking and retrying\<close>

text \<open>
  Scanning the same ticket again repeats the idempotency key and the request exactly when the
  last outcome is unknown: a lost check can be repeated without admitting twice, and after an
  answer a new scan is a new check.
\<close>

theorem scan_retry_key:
  assumes first: "submit_start token (Some ev) qr k1 st = Some (rq, st1)"
    and answer: "scanKeys st2 (sq_intent rq) = scanKeys (fst (submit_finish lt vib u t rq out st1)) (sq_intent rq)"
    and again: "submit_start token' (Some ev') qr' k2 st2 = Some (rq', st3)"
    and same: "se_id ev' = se_id ev" "trim qr' = trim qr"
  shows "sq_event_id rq' = sq_event_id rq \<and> sq_credential rq' = sq_credential rq \<and>
    sq_key rq' = (if out = ScanLost then sq_key rq else k2)"
proof -
  from first have k1: "(sq_key rq, scanKeys st1) = take_or_create (scanKeys st) (sq_intent rq) k1"
    and i1: "sq_intent rq = se_id ev @ '':'' @ trim qr" "sq_event_id rq = se_id ev" "sq_credential rq = trim qr"
    by (auto simp: submit_start_def Let_def split: if_splits)
  from again have k2: "sq_key rq' = fst (take_or_create (scanKeys st2) (sq_intent rq') k2)"
    and i2: "sq_intent rq' = se_id ev' @ '':'' @ trim qr'" "sq_event_id rq' = se_id ev'" "sq_credential rq' = trim qr'"
    by (auto simp: submit_start_def Let_def split: if_splits)
  from i1 i2 same have "sq_intent rq' = sq_intent rq" by simp
  then have key: "sq_key rq' = nullish (scanKeys st2 (sq_intent rq)) k2" using k2 by (simp add: take_or_create_def Let_def)
  have "scanKeys st1 (sq_intent rq) = Some (sq_key rq)" using k1 by (simp add: take_or_create_def Let_def)
  then have "scanKeys st2 (sq_intent rq) = (if out = ScanLost then Some (sq_key rq) else None)"
    using answer by (cases out) (simp_all add: submit_finish_def clearIntentKey_def)
  then show ?thesis using key i1 i2 same by simp
qed

theorem scan_retry_key_witness:
  "\<exists>rq st. submit_start ''token'' (Some sample_event) ''abc'' ''k2''
      (fst (submit_finish (\<lambda>t. t) True ''u1'' ''noon'' sample_check ScanLost checking_scanner)) = Some (rq, st) \<and> sq_key rq = ''k1''"
proof -
  let ?st = "fst (submit_finish (\<lambda>t. t) True ''u1'' ''noon'' sample_check ScanLost checking_scanner)"
  obtain rq st where again: "submit_start ''token'' (Some sample_event) ''abc'' ''k2'' ?st = Some (rq, st)"
    by (simp add: submit_start_def trim_abc submit_finish_def Let_def)
  with scan_retry_key [OF sample_submit _ again] show ?thesis by (simp add: sample_check_def)
qed

text \<open>
  The key of a check stands for one ticket at one event: checks of the same intent are for the
  same event and the same code, provided that event ids contain no colon.
\<close>

theorem scan_intent_names_check:
  assumes "submit_start token (Some ev) qr k st = Some (rq, st1)" and "submit_start token' (Some ev') qr' k' st' = Some (rq', st1')"
    and "CHR '':'' \<notin> set (se_id ev)" and "CHR '':'' \<notin> set (se_id ev')"
  shows "sq_intent rq = sq_intent rq' \<longleftrightarrow> sq_event_id rq = sq_event_id rq' \<and> sq_credential rq = sq_credential rq'"
proof -
  have "sq_intent rq = se_id ev @ CHR '':'' # trim qr \<and> sq_event_id rq = se_id ev \<and> sq_credential rq = trim qr"
    "sq_intent rq' = se_id ev' @ CHR '':'' # trim qr' \<and> sq_event_id rq' = se_id ev' \<and> sq_credential rq' = trim qr'"
    using assms(1,2) by (auto simp: submit_start_def Let_def split: if_splits)
  then show ?thesis using append_sep_eq [of "se_id ev" "CHR '':''" "trim qr" "se_id ev'" "trim qr'"] assms(3,4) by auto
qed

theorem scan_intent_names_check_witness:
  "\<exists>rq st. submit_start ''token'' (Some sample_event) ''xyz'' ''k2'' phone_scanner = Some (rq, st) \<and>
     sq_intent rq \<noteq> sq_intent sample_check"
proof -
  have xyz: "trim ''xyz'' = ''xyz''" by code_simp
  obtain rq st where other: "submit_start ''token'' (Some sample_event) ''xyz'' ''k2'' phone_scanner = Some (rq, st)"
    and cred: "sq_credential rq = ''xyz''"
    by (simp add: submit_start_def xyz Let_def)
  from scan_intent_names_check [OF other sample_submit] cred have "sq_intent rq \<noteq> sq_intent sample_check"
    by (simp add: sample_event_def sample_check_def)
  with other show ?thesis by blast
qed

text \<open>
  In every state the scanner can reach, at most one check is in flight and only while it is
  marked as processing, at most ten recent scans are kept, a device that is no phone has no
  camera stream and has asked for none, and an active camera has a stream.
\<close>

theorem scanner_stays_within_bounds:
  assumes "scan_reachable local_time vibrates s"
  shows "length (sc_inflight s) \<le> 1 \<and> (processing (sc_state s) \<longleftrightarrow> sc_inflight s \<noteq> []) \<and>
    length (recentScans (sc_state s)) \<le> 10 \<and>
    (\<not> phoneDevice (sc_state s) \<longrightarrow> stream (sc_state s) = None \<and> sc_camera_requests s = 0) \<and>
    (cameraState (sc_state s) = CActive \<longrightarrow> stream (sc_state s) \<noteq> None)"
  using scan_reachable_ok [OF assms] by (simp add: check_ok_def camera_ok_def)

theorem scanner_stays_within_bounds_witness:
  "processing (sc_state (answered_system ScanLost)) \<longleftrightarrow> sc_inflight (answered_system ScanLost) \<noteq> []"
  using scanner_stays_within_bounds [OF answered_reachable] by blast

section \<open>Recorded divergences\<close>

text \<open>
  A browser that grants a rear camera but has no \<open>getCapabilities\<close>: the stream is live, and the
  operator is told that camera access is off.
\<close>

lemma granted_camera_shown_denied:
  assumes "facing_mode track \<noteq> Some ''user''" and "capabilities track = None"
  shows "stream (camera_answer (Some (Some track)) st) \<noteq> None \<and>
    cameraState (camera_answer (Some (Some track)) st) = CDenied"
  using assms by (simp add: camera_answer_def)

text \<open>Changing the event clears the last decision; signing out keeps it for the next operator.\<close>

lemma sign_out_keeps_decision:
  "decisionVisible (page_signOut pg) = decisionVisible pg" "\<not> decisionVisible (changeEvent pg)"
  by (simp_all add: decisionVisible_def page_signOut_def changeEvent_def stopCamera_def reset_def)

text \<open>While a code typed by hand is checked, the last decision stays on the screen.\<close>

lemma manual_check_keeps_decision:
  "submit_start token ev code k st = Some (rq, st') \<Longrightarrow> shown_result st' = shown_result st"
  by (auto simp: submit_start_def Let_def split: option.splits if_splits)

end
