(* ===== verification/Scanner_Gate_Properties.thy ===== *)
theory Scanner_Gate_Properties
  imports Scanner_Refinement Scanner_Properties
begin

text \<open>
  The properties of the scanner as a whole, with their witnesses: it refines the gate, tells the
  gate to admit only for the event that was chosen, concludes every check, and lists the
  operator's events so that equal names can be told apart. The last section records what goes
  wrong when an event is left while something of it is pending.
\<close>

section \<open>A sample run\<close>

definition gate_user :: auth_session where
  "gate_user = \<lparr>as_access_token = ''token'', as_user = \<lparr>au_id = ''u1'', au_email = None, au_metadata = JNull\<rparr>\<rparr>"

definition signed_in_world :: auth_world where
  "signed_in_world =
     \<lparr>aw_hook = \<lparr>os_client = True, os_mounted = True, os_session = Some gate_user, os_loading = False, os_error = []\<rparr>,
      aw_restoring = False, aw_calls = []\<rparr>"

definition fresh_gate :: gate_app where
  "fresh_gate = initial_gate True phone_navigator None None None"

definition listed_gate :: gate_app where
  "listed_gate = fresh_gate\<lparr>ga_auth := signed_in_world, ga_events := Some [sample_event]\<rparr>"

definition open_gate :: gate_app where
  "open_gate = listed_gate\<lparr>ga_page := gate_page phone_scanner\<rparr>"

definition checking_gate :: gate_app where
  "checking_gate = (put_scanner checking_scanner open_gate)\<lparr>ga_inflight := [sample_check]\<rparr>"

definition answered_gate :: "scan_outcome \<Rightarrow> gate_app" where
  "answered_gate out =
     (put_scanner (fst (submit_finish (\<lambda>t. t) True ''u1'' ''noon'' sample_check out checking_scanner)) open_gate)
       \<lparr>ga_inflight := [], ga_answers := [(sample_check, out)]\<rparr>"

definition signed_in_gate :: gate_app where
  "signed_in_gate = fresh_gate\<lparr>ga_auth := signed_in_world\<rparr>"

lemma signed_in_step: "gate_step (\<lambda>t. t) True fresh_gate (Auth (Session_Restored (Some gate_user) None)) signed_in_gate"
proof -
  let ?w = "initial_world scanner_unconfigured True"
  have "auth_step scanner_hook (ga_auth fresh_gate) (Session_Restored (Some gate_user) None)
      (?w\<lparr>aw_hook := ah_restored scanner_hook (aw_hook ?w) (Some gate_user) None, aw_restoring := False\<rparr>)"
    using auth_step.restored [of ?w] by (simp add: fresh_gate_def initial_gate_def initial_world_def)
  also have "?w\<lparr>aw_hook := ah_restored scanner_hook (aw_hook ?w) (Some gate_user) None, aw_restoring := False\<rparr> = signed_in_world"
    by (simp add: initial_world_def initial_operator_def scanner_hook_def scanner_session_restored_def signed_in_world_def)
  finally show ?thesis unfolding signed_in_gate_def by (rule gate_step.auth) simp
qed

lemma listed_step: "gate_step (\<lambda>t. t) True signed_in_gate (Events_Loaded [sample_event]) listed_gate"
  using gate_step.events_loaded [of _ _ signed_in_gate "[sample_event]"] by (simp add: signed_in_gate_def listed_gate_def)

lemma listed_screen: "ga_screen listed_gate = Choose_Event" "ga_screen open_gate = Scan_Screen sample_event"
  by (simp_all add: ga_screen_def gate_screen_of_def listed_gate_def open_gate_def signed_in_world_def fresh_gate_def
      initial_gate_def initial_page_def scanner_authenticated_def session_token_def gate_user_def gate_page_def)

lemma open_step: "gate_step (\<lambda>t. t) True listed_gate (Event_Chosen sample_event) open_gate"
proof -
  have "sample_event \<in> set (nullish (ga_events listed_gate) [])" by (simp add: listed_gate_def)
  from gate_step.event_chosen [OF listed_screen(1) this, of "\<lambda>t. t" True] show ?thesis
    by (simp add: open_gate_def listed_gate_def fresh_gate_def initial_gate_def initial_page_def chooseEvent_def
        gate_page_def sample_event_def phone_scanner_def)
qed

lemma open_gate_sel [simp]:
  "ga_scanner open_gate = phone_scanner" "pg_event (ga_page open_gate) = Some sample_event" "ga_inflight open_gate = []"
  "ga_answers open_gate = []" "ga_token open_gate = ''token''"
  by (simp_all add: open_gate_def listed_gate_def fresh_gate_def initial_gate_def gate_page_def signed_in_world_def
      session_token_def gate_user_def)

lemma checking_step: "gate_step (\<lambda>t. t) True open_gate (Code_Typed sample_check) checking_gate"
proof -
  have code: "manual_form (Some ''abc'') (ga_page open_gate) = Some ''abc''"
    by (simp add: manual_form_def manual_code_def trim_abc)
  have sub: "submit_start (ga_token open_gate) (pg_event (ga_page open_gate)) ''abc'' ''k1'' (ga_scanner open_gate) = Some (sample_check, checking_scanner)"
    by (simp add: sample_submit)
  show ?thesis using gate_step.code_typed [OF listed_screen(2) code sub, of "\<lambda>t. t" True] by (simp add: checking_gate_def)
qed

lemma answered_gate_step:
  "gate_step (\<lambda>t. t) True checking_gate (Scan_Answered sample_check out) (answered_gate out)"
proof -
  let ?f = "submit_finish (\<lambda>t. t) True ''u1'' ''noon'' sample_check out (ga_scanner checking_gate)"
  have "sample_check \<in> set (ga_inflight checking_gate)" by (simp add: checking_gate_def)
  moreover have "?f = (fst ?f, snd ?f)" by simp
  ultimately have "gate_step (\<lambda>t. t) True checking_gate (Scan_Answered sample_check out)
      ((put_scanner (fst ?f) checking_gate)\<lparr>ga_inflight := remove1 sample_check (ga_inflight checking_gate),
        ga_answers := (sample_check, out) # ga_answers checking_gate\<rparr>)"
    by (rule gate_step.scan_answered)
  then show ?thesis by (simp add: checking_gate_def answered_gate_def put_scanner_def)
qed

text \<open>Typing what is in the manual field already changes nothing.\<close>

lemma idle_step: "gate_step lt vib s Other_Change s"
  using gate_step.other_change [OF device_step.typing [of s "manual (ga_scanner s)"]] by (simp add: put_scanner_def)

lemma answered_gate_run:
  "careful_run (\<lambda>t. t) True fresh_gate [Open_Gate ''e1'', Check_Ticket ''e1'' ''abc'', Hear (verdict_of out)] (answered_gate out)"
proof -
  have "careful_run (\<lambda>t. t) True fresh_gate [] listed_gate"
    using careful_run.something [OF careful_run.something [OF careful_run.nothing signed_in_step] listed_step]
    by (simp add: careful_def gate_events_def)
  from careful_run.something [OF this open_step]
  have "careful_run (\<lambda>t. t) True fresh_gate [Open_Gate ''e1''] open_gate"
    by (simp add: careful_def gate_events_def sample_event_def)
  from careful_run.something [OF this checking_step]
  have "careful_run (\<lambda>t. t) True fresh_gate [Open_Gate ''e1'', Check_Ticket ''e1'' ''abc''] checking_gate"
    by (simp add: careful_def gate_events_def sample_check_def)
  from careful_run.something [OF this answered_gate_step [of out]] show ?thesis
    by (simp add: careful_def gate_events_def)
qed

section \<open>The gate\<close>

text \<open>
  C5: The scanner refines the gate: every run of the application in which the operator leaves
  nothing pending performs a sequence of events that the gate allows and ends in the gate's
  state, and while no ticket is checked the page reads as the phase of the gate: ready, the
  guest may enter, the guest may not enter, or the ticket cannot be verified.
\<close>

theorem scanner_refines_gate:
  assumes "careful_run local_time vibrates (initial_gate client nav sound vibration stored) es s"
  shows "gate_runs Gate_Closed es = Some (abs_gate s) \<and>
    (\<forall>ev. ga_screen s = Scan_Screen ev \<and> \<not> processing (ga_scanner s) \<longrightarrow>
       abs_gate s = Gate_Open (se_id ev) (told_phase local_time (ga_page s)))"
proof -
  have ok: "check_ok (scan_part s)" using careful_run_gate_run [OF assms] gate_run_ok(1) by blast
  have "abs_gate s = Gate_Open (se_id ev) (told_phase local_time (ga_page s))"
    if "ga_screen s = Scan_Screen ev" "\<not> processing (ga_scanner s)" for ev
    using that no_checking_phase(1) [OF ok] told_phase_phase [OF ok, of local_time]
    by (simp add: abs_gate_def screen_event(1))
  with careful_run_ok [OF assms] show ?thesis by blast
qed

theorem scanner_refines_gate_witness:
  "gate_runs Gate_Closed [Open_Gate ''e1'', Check_Ticket ''e1'' ''abc'', Hear Admit_Guest] =
     Some (abs_gate (answered_gate (Decided admitted_result)))"
  using scanner_refines_gate [OF answered_gate_run [of "Decided admitted_result", unfolded fresh_gate_def]]
  by (simp add: verdict_of_def admitted_result_def admitted_codes_def)

text \<open>
  C6: The guest is told to enter only the chosen event: when the scan screen of an event says to
  admit, and the operator never left anything pending, the latest answer of the server was given
  to a check at that very event, and it admitted the ticket.
\<close>

theorem admission_is_for_chosen_event:
  assumes "careful_run local_time vibrates (initial_gate client nav sound vibration stored) es s"
    and "ga_screen s = Scan_Screen ev" and "op_title (page_presentation local_time (ga_page s)) = ''Admit guest''"
  shows "\<exists>rq r as. ga_answers s = (rq, Decided r) # as \<and> sq_event_id rq = se_id ev \<and>
    sr_result r \<in> {''ADMITTED'', ''MANUAL_OVERRIDE_ADMITTED''}"
proof -
  have ok: "check_ok (scan_part s)" "gate_ok s"
    using careful_run_gate_run [OF assms(1)] gate_run_ok(1) careful_run_ok [OF assms(1)] by blast+
  obtain r where r: "shown_result (ga_scanner s) = Some r" "sr_result r \<in> set admitted_codes"
    using assms(3) by (auto simp: page_presentation_def admit_title_iff success_iff)
  then obtain as where "map snd (ga_answers s) = Decided r # as" using ok(1) by (auto simp: check_ok_def scan_part_def)
  then obtain rq as' where "ga_answers s = (rq, Decided r) # as'" by (cases "ga_answers s") auto
  moreover have "of_chosen s (fst (hd (ga_answers s)))" using gate_okD(4) [OF ok(2)] r(1) by simp
  ultimately show ?thesis using r(2) screen_event(1) [OF assms(2)] by (auto simp: of_chosen_def admitted_codes_def)
qed

theorem admission_is_for_chosen_event_witness:
  "ga_screen (answered_gate (Decided admitted_result)) = Scan_Screen sample_event \<and>
   (\<exists>rq r as. ga_answers (answered_gate (Decided admitted_result)) = (rq, Decided r) # as \<and> sq_event_id rq = se_id sample_event)"
proof -
  let ?s = "answered_gate (Decided admitted_result)"
  have screen: "ga_screen ?s = Scan_Screen sample_event"
    using listed_screen(2) by (simp add: answered_gate_def)
  have "op_title (page_presentation (\<lambda>t. t) (ga_page ?s)) = ''Admit guest''"
    by (simp add: admit_title_iff page_presentation_def success_iff answered_gate_def submit_finish_def
        checking_scanner_def admitted_result_def admitted_codes_def)
  from admission_is_for_chosen_event [OF answered_gate_run [unfolded fresh_gate_def] screen this] screen show ?thesis by blast
qed

section \<open>Every check is concluded\<close>

text \<open>
  An endless execution, and a network that is weakly fair: a check that stays in flight forever is
  answered, refused or lost at some time.
\<close>

definition execution :: "(string \<Rightarrow> string) \<Rightarrow> bool \<Rightarrow> (nat \<Rightarrow> gate_app) \<Rightarrow> (nat \<Rightarrow> gate_action) \<Rightarrow> bool" where
  "execution local_time vibrates states actions \<longleftrightarrow>
     (\<forall>i. gate_step local_time vibrates (states i) (actions i) (states (Suc i)))"

definition fair_network :: "(nat \<Rightarrow> gate_app) \<Rightarrow> (nat \<Rightarrow> gate_action) \<Rightarrow> bool" where
  "fair_network states actions \<longleftrightarrow>
     (\<forall>i rq. (\<forall>j \<ge> i. rq \<in> set (ga_inflight (states j))) \<longrightarrow> (\<exists>j \<ge> i. \<exists>out. actions j = Scan_Answered rq out))"

text \<open>An operator who leaves nothing pending and stays signed in.\<close>

definition attentive :: "(nat \<Rightarrow> gate_app) \<Rightarrow> (nat \<Rightarrow> gate_action) \<Rightarrow> nat \<Rightarrow> bool" where
  "attentive states actions i \<longleftrightarrow>
     (\<forall>k. careful (states k) (actions k)) \<and> (\<forall>k \<ge> i. scanner_authenticated (aw_hook (ga_auth (states k))))"

lemma execution_run: "execution lt vib states actions \<Longrightarrow> gate_run lt vib (states 0) (map actions [0 ..< i]) (states i)"
  by (induction i) (auto simp: execution_def intro: gate_run.intros)

lemma answered_step:
  assumes "gate_step lt vib s (Scan_Answered rq out) s'" "check_ok (scan_part s)"
  shows "ga_inflight s' = [] \<and> abs_phase s' = Told (verdict_of out) \<and> decisionVisible (ga_page s') \<and>
    hd (ga_answers s') = (rq, out)"
  using assms(1)
proof cases
  case (scan_answered uuid time st' fb)
  with answer_refines [OF scan_answered(2,3) _ assms(2), of s'] show ?thesis by simp
qed

text \<open>A check in flight stays in flight until it is answered itself.\<close>

lemma inflight_until_answered:
  assumes "gate_step lt vib s a s'" and "rq \<in> set (ga_inflight s)" and "\<And>out. a \<noteq> Scan_Answered rq out"
  shows "rq \<in> set (ga_inflight s')"
  using assms
proof cases
  case (reading_ended c res st' nxt created rq' st'' s1 sent)
  then show ?thesis using assms(2) by (cases nxt) auto
next
  case (scan_answered rq' uuid time st' fb out)
  then have "rq \<noteq> rq'" using assms(3) by blast
  then show ?thesis using scan_answered(2) assms(2) by (simp add: in_set_remove1)
next
  case other_change
  then show ?thesis using assms(2) device_step_same by simp
qed (use assms(2) in auto)

lemma answered_at_some_time:
  assumes "execution lt vib states actions" and "fair_network states actions" and "rq \<in> set (ga_inflight (states i))"
  obtains j out where "i \<le> j" "actions j = Scan_Answered rq out"
proof -
  have "\<exists>j \<ge> i. \<exists>out. actions j = Scan_Answered rq out"
  proof (rule ccontr)
    assume none: "\<not> (\<exists>j \<ge> i. \<exists>out. actions j = Scan_Answered rq out)"
    have "rq \<in> set (ga_inflight (states (i + n)))" for n
    proof (induction n)
      case (Suc n)
      have "gate_step lt vib (states (i + n)) (actions (i + n)) (states (Suc (i + n)))" using assms(1) by (simp add: execution_def)
      from inflight_until_answered [OF this Suc] none show ?case by auto
    qed (simp add: assms(3))
    then have "\<forall>j \<ge> i. rq \<in> set (ga_inflight (states j))" by (metis le_add_diff_inverse)
    then show False using assms(2) none unfolding fair_network_def by blast
  qed
  then show ?thesis using that by blast
qed

lemma execution_gate_ok:
  assumes "states 0 = initial_gate client nav sound vibration stored" and "execution lt vib states actions"
    and "\<forall>k. careful (states k) (actions k)"
  shows "check_ok (scan_part (states k)) \<and> gate_ok (states k)"
proof (induction k)
  case 0
  have "gate_ok (states 0)" by (simp add: assms(1))
  moreover have "check_ok (scan_part (states 0))" using execution_run [OF assms(2), of 0] assms(1) gate_run_ok(1) by metis
  ultimately show ?case by blast
next
  case (Suc k)
  have "gate_step lt vib (states k) (actions k) (states (Suc k))" using assms(2) by (simp add: execution_def)
  from careful_step_refines [OF this] Suc assms(3) have "gate_ok (states (Suc k))" by blast
  then show ?case using execution_run [OF assms(2), of "Suc k"] assms(1) gate_run_ok(1) by metis
qed

text \<open>The card of a concluded check, for an operator who is signed in.\<close>

lemma decision_card_tells:
  assumes "check_ok (scan_part s)" and "gate_ok s" and "scanner_authenticated (aw_hook (ga_auth s))"
    and "ga_inflight s = []" and "decisionVisible (ga_page s)" and "abs_phase s = Told v" and "of_chosen s rq"
  shows "\<exists>ev card. ga_screen s = Scan_Screen ev \<and> se_id ev = sq_event_id rq \<and>
    Decision_Overlay card \<in> set (stage_parts lt (ga_page s)) \<and> Checking_Overlay \<notin> set (stage_parts lt (ga_page s)) \<and>
    (dc_title card = ''Admit guest'' \<longleftrightarrow> v = Admit_Guest) \<and> (dc_title card = ''Can't verify ticket'' \<longleftrightarrow> v = Cannot_Verify)"
proof -
  obtain ev where ev: "pg_event (ga_page s) = Some ev" "se_id ev = sq_event_id rq" using assms(7) by (auto simp: of_chosen_def)
  then have screen: "ga_screen s = Scan_Screen ev" using assms(3) by (simp add: ga_screen_def gate_screen_of_def)
  let ?card = "decision_card_of lt (page_presentation lt (ga_page s)) (shown_result (ga_scanner s))"
  have "dc_title ?card = op_title (page_presentation lt (ga_page s))" by (simp add: decision_card_of_def Let_def)
  moreover have "told_phase lt (ga_page s) = Told v" using told_phase_phase [OF assms(1,4)] assms(6) by simp
  ultimately have title: "dc_title ?card = ''Admit guest'' \<longleftrightarrow> v = Admit_Guest" "dc_title ?card = ''Can't verify ticket'' \<longleftrightarrow> v = Cannot_Verify"
    using assms(5) by (auto simp: told_phase_def Let_def split: if_splits)
  have "\<not> processing (ga_scanner s)" using no_checking_phase(1) [OF assms(1)] assms(4) by simp
  then have "Decision_Overlay ?card \<in> set (stage_parts lt (ga_page s))" "Checking_Overlay \<notin> set (stage_parts lt (ga_page s))"
    using assms(5) by (simp_all add: stage_parts_def Let_def)
  with screen ev(2) title show ?thesis by blast
qed

text \<open>
  C7: Every check is concluded on the operator's screen: in an endless execution over a weakly fair
  network, with an operator who leaves nothing pending and stays signed in, a check in flight is
  followed by a moment at which it has been answered, refused or lost, nothing is checked any more,
  and the scan screen of the event it was made for shows the card of this very verdict.
\<close>

theorem every_check_concludes:
  assumes "states 0 = initial_gate client nav sound vibration stored" and "execution local_time vibrates states actions"
    and "fair_network states actions" and "attentive states actions i" and "rq \<in> set (ga_inflight (states i))"
  shows "\<exists>j > i. \<exists>out ev card. hd (ga_answers (states j)) = (rq, out) \<and> \<not> processing (ga_scanner (states j)) \<and>
    ga_screen (states j) = Scan_Screen ev \<and> se_id ev = sq_event_id rq \<and>
    Decision_Overlay card \<in> set (stage_parts local_time (ga_page (states j))) \<and>
    Checking_Overlay \<notin> set (stage_parts local_time (ga_page (states j))) \<and>
    (dc_title card = ''Admit guest'' \<longleftrightarrow> verdict_of out = Admit_Guest) \<and>
    (dc_title card = ''Can't verify ticket'' \<longleftrightarrow> verdict_of out = Cannot_Verify)"
proof -
  obtain j out where j: "i \<le> j" "actions j = Scan_Answered rq out" using answered_at_some_time [OF assms(2,3,5)] .
  have ok: "check_ok (scan_part (states k)) \<and> gate_ok (states k)" for k
    using execution_gate_ok [OF assms(1,2)] assms(4) by (simp add: attentive_def)
  have step: "gate_step local_time vibrates (states j) (Scan_Answered rq out) (states (Suc j))"
    using assms(2) j(2) by (metis execution_def)
  from ok have "check_ok (scan_part (states j))" by blast
  note end_of_check = answered_step [OF step this]
  have "rq \<in> set (ga_inflight (states j))" "pg_event (ga_page (states (Suc j))) = pg_event (ga_page (states j))"
    using step by (cases; simp)+
  then have chosen: "of_chosen (states (Suc j)) rq" using ok gate_okD(1) by (metis of_chosen_def)
  have signed_in: "scanner_authenticated (aw_hook (ga_auth (states (Suc j))))" using assms(4) j(1) by (simp add: attentive_def)
  have "\<not> processing (ga_scanner (states (Suc j)))" using no_checking_phase(1) ok end_of_check by blast
  then obtain ev card where "ga_screen (states (Suc j)) = Scan_Screen ev" "se_id ev = sq_event_id rq"
    "Decision_Overlay card \<in> set (stage_parts local_time (ga_page (states (Suc j))))"
    "Checking_Overlay \<notin> set (stage_parts local_time (ga_page (states (Suc j))))"
    "dc_title card = ''Admit guest'' \<longleftrightarrow> verdict_of out = Admit_Guest"
    "dc_title card = ''Can't verify ticket'' \<longleftrightarrow> verdict_of out = Cannot_Verify"
    using decision_card_tells [of "states (Suc j)" "verdict_of out" rq local_time] ok end_of_check signed_in chosen by blast
  moreover have "i < Suc j" using j(1) by simp
  ultimately show ?thesis using end_of_check \<open>\<not> processing (ga_scanner (states (Suc j)))\<close> by blast
qed

definition sample_states :: "nat \<Rightarrow> gate_app" where
  "sample_states i =
     (let first = [fresh_gate, signed_in_gate, listed_gate, open_gate, checking_gate]
      in if i < length first then first ! i else answered_gate ScanLost)"

definition sample_actions :: "nat \<Rightarrow> gate_action" where
  "sample_actions i =
     (let first = [Auth (Session_Restored (Some gate_user) None), Events_Loaded [sample_event], Event_Chosen sample_event,
        Code_Typed sample_check, Scan_Answered sample_check ScanLost]
      in if i < length first then first ! i else Other_Change)"

lemma sample_execution: "execution (\<lambda>t. t) True sample_states sample_actions"
  unfolding execution_def
proof
  fix i :: nat
  have "i = 0 \<or> i = 1 \<or> i = 2 \<or> i = 3 \<or> i = 4 \<or> 5 \<le> i" by linarith
  then show "gate_step (\<lambda>t. t) True (sample_states i) (sample_actions i) (sample_states (Suc i))"
    by (elim disjE)
      (simp_all add: sample_states_def sample_actions_def signed_in_step listed_step open_step checking_step
        answered_gate_step idle_step)
qed

lemma sample_inflight: "rq \<in> set (ga_inflight (sample_states i)) \<Longrightarrow> i = 4 \<and> rq = sample_check"
proof -
  assume rq: "rq \<in> set (ga_inflight (sample_states i))"
  have "i = 0 \<or> i = 1 \<or> i = 2 \<or> i = 3 \<or> i = 4 \<or> 5 \<le> i" by linarith
  then show ?thesis using rq
    by (elim disjE) (simp_all add: sample_states_def fresh_gate_def initial_gate_def signed_in_gate_def listed_gate_def
        checking_gate_def answered_gate_def)
qed

lemma sample_attentive: "attentive sample_states sample_actions 4"
proof -
  have "careful (sample_states k) (sample_actions k)" for k
  proof -
    have "k = 0 \<or> k = 1 \<or> k = 2 \<or> k = 3 \<or> k = 4 \<or> 5 \<le> k" by linarith
    then show ?thesis by (elim disjE) (simp_all add: careful_def sample_actions_def)
  qed
  moreover have "scanner_authenticated (aw_hook (ga_auth (sample_states k)))" if "4 \<le> k" for k
  proof -
    have "k = 4 \<or> 5 \<le> k" using that by linarith
    then show ?thesis
      by (elim disjE) (simp_all add: sample_states_def checking_gate_def answered_gate_def open_gate_def listed_gate_def
          signed_in_world_def scanner_authenticated_def session_token_def gate_user_def)
  qed
  ultimately show ?thesis by (simp add: attentive_def)
qed

theorem every_check_concludes_witness:
  "\<exists>j > 4. \<exists>out ev card. hd (ga_answers (sample_states j)) = (sample_check, out) \<and> ga_screen (sample_states j) = Scan_Screen ev \<and>
     Decision_Overlay card \<in> set (stage_parts (\<lambda>t. t) (ga_page (sample_states j)))"
proof -
  have "sample_actions 4 = Scan_Answered sample_check ScanLost" by (simp add: sample_actions_def)
  then have fair: "fair_network sample_states sample_actions"
    unfolding fair_network_def using sample_inflight by blast
  have start: "sample_states 0 = initial_gate True phone_navigator None None None"
    by (simp add: sample_states_def fresh_gate_def)
  have "sample_check \<in> set (ga_inflight (sample_states 4))" by (simp add: sample_states_def checking_gate_def)
  from every_check_concludes [OF start sample_execution fair sample_attentive this] show ?thesis by blast
qed

section \<open>The list of events\<close>

text \<open>
  The list of events shows every event of the operator exactly once and in the server's order,
  and marks a card with its reference exactly when another event is shown under the same name.
\<close>

theorem event_cards_tell_events_apart:
  "map ec_event (displayEvents fmt events) = events \<and>
   (\<forall>i < length events. (card_reference (displayEvents fmt events ! i) \<noteq> None) =
      (\<exists>j < length events. j \<noteq> i \<and> ec_name (displayEvents fmt events ! j) = ec_name (displayEvents fmt events ! i)))"
proof -
  have "map ec_event (displayEvents fmt events) = events"
    by (rule nth_equalityI) (simp_all add: displayEvents_nth readable_event_def)
  then show ?thesis by (auto simp: displayEvents_nth card_reference_def)
qed

theorem event_cards_tell_events_apart_witness:
  "length (displayEvents fmt [sample_event, sample_event]) = 2 \<and>
   card_reference (displayEvents fmt [sample_event, sample_event] ! 0) \<noteq> None"
proof -
  let ?d = "displayEvents fmt [sample_event, sample_event]"
  have "ec_name (?d ! 1) = ec_name (?d ! 0)" by (simp add: displayEvents_nth)
  then have "\<exists>j < length [sample_event, sample_event]. j \<noteq> 0 \<and> ec_name (?d ! j) = ec_name (?d ! 0)"
    by (intro exI [of _ 1]) simp
  with event_cards_tell_events_apart [of fmt "[sample_event, sample_event]"] show ?thesis by force
qed

section \<open>Recorded divergences\<close>

text \<open>
  Leaving an event does not stop its check: the answer is shown on the page of the event that was
  chosen meanwhile, and the guest of the other event is let in.
\<close>

lemma admission_of_other_event:
  assumes "ga_screen s = Scan_Screen ev" "ev' \<in> set (nullish (ga_events s) [])" "rq \<in> set (ga_inflight s)"
    and "sr_result r \<in> set admitted_codes"
  shows "\<exists>s'. gate_run lt vib s [Event_Left, Event_Chosen ev', Scan_Answered rq (Decided r)] s' \<and>
    ga_screen s' = Scan_Screen ev' \<and> op_title (page_presentation lt (ga_page s')) = ''Admit guest''"
proof -
  let ?s1 = "s\<lparr>ga_page := changeEvent (ga_page s)\<rparr>"
  let ?s2 = "?s1\<lparr>ga_page := chooseEvent ev' (ga_page ?s1)\<rparr>"
  let ?f = "submit_finish lt vib [] [] rq (Decided r) (ga_scanner ?s2)"
  let ?s3 = "(put_scanner (fst ?f) ?s2)\<lparr>ga_inflight := remove1 rq (ga_inflight ?s2), ga_answers := (rq, Decided r) # ga_answers ?s2\<rparr>"
  have signed_in: "scanner_authenticated (aw_hook (ga_auth s))"
    using assms(1) by (auto simp: ga_screen_def gate_screen_of_def split: if_splits)
  then have choose: "ga_screen ?s1 = Choose_Event" by (simp add: ga_screen_def gate_screen_of_def changeEvent_def)
  have screen: "ga_screen ?s3 = Scan_Screen ev'"
    using signed_in by (simp add: ga_screen_def gate_screen_of_def chooseEvent_def)
  have left: "gate_step lt vib s Event_Left ?s1" using assms(1) by (rule gate_step.event_left)
  have chosen: "gate_step lt vib ?s1 (Event_Chosen ev') ?s2"
    using choose assms(2) by (intro gate_step.event_chosen) simp_all
  have answered: "gate_step lt vib ?s2 (Scan_Answered rq (Decided r)) ?s3"
    using assms(3) by (intro gate_step.scan_answered [OF _ surjective_pairing]) simp
  note run = gate_run.one_action [OF gate_run.one_action [OF gate_run.one_action [OF gate_run.no_actions left] chosen] answered]
  have "gate_run lt vib s [Event_Left, Event_Chosen ev', Scan_Answered rq (Decided r)] ?s3"
    using run by (simp only: append.simps)
  moreover have "op_title (page_presentation lt (ga_page ?s3)) = ''Admit guest''"
    using assms(4) by (simp add: admit_title_iff page_presentation_def success_iff submit_finish_def reset_def)
  ultimately show ?thesis using screen by blast
qed

text \<open>
  A camera that is granted after the event was left runs behind the list of events, and a code
  read for the event that was left is still checked.
\<close>

lemma camera_behind_event_list:
  fixes track :: camera_track
  assumes "0 < ga_asking s" "facing_mode track \<noteq> Some ''user''"
  shows "\<exists>s'. gate_step lt vib s Other_Change s' \<and> pg_event (ga_page s') = pg_event (ga_page s) \<and> stream (ga_scanner s') \<noteq> None"
proof -
  have "stream (camera_answer (Some (Some track)) (ga_scanner s)) \<noteq> None"
    using assms(2) by (simp add: camera_answer_def split: option.split)
  then show ?thesis
    using gate_step.other_change [OF device_step.camera_granted_or_not [OF assms(1), of "Some (Some track)"]] by fastforce
qed

end
