(* ===== verification/Layout_Model.thy ===== *)
theory Layout_Model
  imports Js_Json Js_Text
begin

text \<open>
  The floor-plan builder's model (\<^verbatim>\<open>venues/layout-builder/model.ts\<close>): translating a stored venue
  layout into editable objects (\<open>fromLayout\<close>) and back into the body of the save request
  (\<open>toLayout\<close>), with the generators for seats and keys.

  Coordinates are rationals; the counts (rows, seats, capacities) are integers. \<open>Number(text)\<close>
  is the parameter \<open>to_number\<close>, \<^const>\<open>None\<close> for NaN and the infinities.
\<close>

section \<open>Data\<close>

datatype object_type = RESERVED | GA | TABLE | MIXED_VISUAL | STAGE | RING | FIELD

fun type_name :: "object_type \<Rightarrow> string" where
  "type_name RESERVED = ''RESERVED''"
| "type_name GA = ''GA''"
| "type_name TABLE = ''TABLE''"
| "type_name MIXED_VISUAL = ''MIXED_VISUAL''"
| "type_name STAGE = ''STAGE''"
| "type_name RING = ''RING''"
| "type_name FIELD = ''FIELD''"

record geometry_item =
  gi_object_key :: string
  gi_type :: string
  gi_label :: string
  gi_x :: rat
  gi_y :: rat
  gi_width :: rat
  gi_height :: rat
  gi_rotation :: "rat option"
  gi_shape :: "string option"
  gi_orientation :: "string option"

record layout_section =
  sec_object_key :: string
  sec_name :: string
  sec_kind :: object_type
  sec_sort_order :: int
  sec_metadata :: "json option"

record layout_row =
  row_object_key :: string
  row_section_key :: string
  row_label :: string
  row_sort_order :: int
  row_metadata :: "json option"

record layout_table =
  table_object_key :: string
  table_section_key :: string
  table_label :: string
  table_metadata :: "json option"

record layout_seat =
  seat_object_key :: string
  seat_section_key :: string
  seat_row_key :: "string option"
  seat_table_key :: "string option"
  seat_label :: string
  seat_sort_order :: int
  seat_metadata :: "json option"

record layout_zone =
  zone_object_key :: string
  zone_section_key :: string
  zone_name :: string
  zone_default_capacity :: int
  zone_metadata :: "json option"

record seating =
  st_rows :: "layout_row list"
  st_tables :: "layout_table list"
  st_seats :: "layout_seat list"
  st_ga_zones :: "layout_zone list"

text \<open>\<open>ReplaceLayoutBody\<close>; the canvas is its width and height.\<close>

record layout_body = seating +
  lb_canvas :: "(int \<times> int) option"
  lb_objects :: "geometry_item list option"
  lb_sections :: "layout_section list"

text \<open>\<open>VenueLayoutDetail\<close>: the body and the fields of \<open>LayoutVersion\<close>.\<close>

record layout_detail = layout_body +
  ld_id :: string
  ld_version_number :: int
  ld_state :: string
  ld_published_at :: "string option"
  ld_retired_at :: "string option"
  ld_created_at :: string
  ld_venue_id :: string

datatype generator_mode = Generated | Preserved

record builder_object =
  bo_object_key :: string
  bo_type :: object_type
  bo_label :: string
  bo_sourceLabel :: "string option"
  bo_x :: rat
  bo_y :: rat
  bo_width :: rat
  bo_height :: rat
  bo_rotation :: "rat option"
  bo_rows :: "int option"
  bo_seatsPerRow :: "int option"
  bo_startSeat :: "int option"
  bo_capacity :: "int option"
  bo_tables :: "int option"
  bo_seatsPerTable :: "int option"
  bo_generatorMode :: "generator_mode option"
  bo_sourceSection :: "layout_section option"
  bo_structural :: "seating option"

section \<open>Recognising generated seating\<close>

definition seat_order :: "layout_seat \<Rightarrow> layout_seat \<Rightarrow> bool" where
  "seat_order left right \<longleftrightarrow> seat_sort_order left \<le> seat_sort_order right"

definition row_sequence :: "(string \<Rightarrow> rat option) \<Rightarrow> layout_seat list \<Rightarrow> layout_row \<Rightarrow> rat option list" where
  "row_sequence to_number seats row =
     map (\<lambda>seat. to_number (seat_label seat))
       (sort_by seat_order (filter (\<lambda>seat. seat_row_key seat = Some (row_object_key row)) seats))"

definition is_sequence :: "int \<Rightarrow> rat option list \<Rightarrow> bool" where
  "is_sequence start ns \<longleftrightarrow> ns = map (\<lambda>i. Some (of_int (start + int i))) [0 ..< length ns]"

definition as_integer :: "rat option \<Rightarrow> int option" where
  "as_integer r = (case r of None \<Rightarrow> None | Some q \<Rightarrow> if of_int \<lfloor>q\<rfloor> = q then Some \<lfloor>q\<rfloor> else None)"

text \<open>Rows, seats per row and first number, when every row is the same run of numbers.\<close>

definition inferReservedGenerator ::
  "(string \<Rightarrow> rat option) \<Rightarrow> layout_row list \<Rightarrow> layout_seat list \<Rightarrow> (int \<times> int \<times> int) option" where
  "inferReservedGenerator to_number rows seats =
     (case map (row_sequence to_number seats) rows of
        [] \<Rightarrow> None
      | first # others \<Rightarrow>
          (case first of
             [] \<Rightarrow> None
           | n # _ \<Rightarrow>
               (case as_integer n of
                  None \<Rightarrow> None
                | Some startSeat \<Rightarrow>
                    if list_ex (\<lambda>s. length s \<noteq> length first \<or> \<not> is_sequence startSeat s) (first # others)
                    then None
                    else Some (int (length rows), int (length first), startSeat))))"

section \<open>Keys\<close>

definition slug_junk_pattern :: regex where
  "slug_junk_pattern = [[Many 1 None (none_of (lower_letters @ digit_chars))]]"

definition slug_edge_pattern :: regex where
  "slug_edge_pattern = [[AtStart, Lit [''-'']], [Lit [''-''], AtEnd]]"

definition slug :: "string \<Rightarrow> string" where
  "slug label =
     or_else (replace_all slug_edge_pattern [] (replace_all slug_junk_pattern ''-'' (trim (to_lower label)))) ''area''"

definition numbered :: "string \<Rightarrow> nat \<Rightarrow> string" where
  "numbered base n = base @ ''-'' @ nat_str n"

lemma numbered_inj: "numbered base m = numbered base n \<longleftrightarrow> m = n"
  by (simp add: numbered_def)

lemma finite_numbered: "finite {n. k \<le> n \<and> numbered base n \<in> set keys}"
proof -
  have "finite (numbered base -` set keys)"
    by (rule finite_vimageI) (auto simp: inj_on_def numbered_inj)
  then show ?thesis by (rule finite_subset [rotated]) auto
qed

lemma numbered_step:
  "card {n. k \<le> n \<and> numbered base n \<in> set keys} =
   card {n. Suc k \<le> n \<and> numbered base n \<in> set keys} + (if numbered base k \<in> set keys then 1 else 0)"
proof (cases "numbered base k \<in> set keys")
  case True
  then have "{n. k \<le> n \<and> numbered base n \<in> set keys} = insert k {n. Suc k \<le> n \<and> numbered base n \<in> set keys}"
    by (auto simp: not_less_eq_eq)
  then show ?thesis using True finite_numbered [of "Suc k" base keys] by simp
next
  case False
  then have "{n. k \<le> n \<and> numbered base n \<in> set keys} = {n. Suc k \<le> n \<and> numbered base n \<in> set keys}"
    by (auto simp: not_less_eq_eq) (metis Suc_leI le_neq_implies_less)
  then show ?thesis using False by simp
qed

text \<open>The \<open>while\<close> loop of \<open>stableKey\<close>: the next numbered key until one is free.\<close>

function free_key :: "string \<Rightarrow> string list \<Rightarrow> nat \<Rightarrow> string \<Rightarrow> string" where
  "free_key base keys sfx key =
     (if key \<in> set keys then free_key base keys (Suc sfx) (numbered base sfx) else key)"
  by pat_completeness auto
termination
proof (relation "measure (\<lambda>(base, keys, sfx, key).
      card {n. sfx \<le> n \<and> numbered base n \<in> set keys} + (if key \<in> set keys then 1 else 0))", goal_cases)
  case (2 base keys sfx key)
  then show ?case using numbered_step [of sfx base keys] by simp
qed simp

declare free_key.simps [simp del]

definition stableKey :: "string \<Rightarrow> builder_object list \<Rightarrow> string" where
  "stableKey label existing = free_key (slug label) (map bo_object_key existing) 2 (slug label)"

text \<open>Row letters: A, \<dots>, Z, AA, AB, \<dots>\<close>

fun row_label_loop :: "nat \<Rightarrow> string \<Rightarrow> string" where
  "row_label_loop number value' =
     (if number = 0 then value'
      else row_label_loop ((number - 1) div 26) (upper_letters ! ((number - 1) mod 26) # value'))"

declare row_label_loop.simps [simp del]

definition rowLabel :: "nat \<Rightarrow> string" where
  "rowLabel index = row_label_loop (index + 1) []"

section \<open>From the stored layout\<close>

definition section_object ::
  "(string \<Rightarrow> rat option) \<Rightarrow> layout_detail \<Rightarrow> nat \<Rightarrow> layout_section \<Rightarrow> builder_object" where
  "section_object to_number layout index sec =
     (let key = sec_object_key sec;
          visual = map_of (rev (map (\<lambda>item. (gi_object_key item, item)) (nullish (lb_objects layout) []))) key;
          rows = filter (\<lambda>r. row_section_key r = key) (st_rows layout);
          tables = filter (\<lambda>t. table_section_key t = key) (st_tables layout);
          seats = filter (\<lambda>s. seat_section_key s = key) (st_seats layout);
          zones = filter (\<lambda>z. zone_section_key z = key) (st_ga_zones layout);
          generator = (if sec_kind sec = RESERVED then inferReservedGenerator to_number rows seats else None)
      in \<lparr>bo_object_key = key, bo_type = sec_kind sec, bo_label = sec_name sec, bo_sourceLabel = Some (sec_name sec),
          bo_x = nullish (map_option gi_x visual) (70 + of_nat (index mod 3) * 230),
          bo_y = nullish (map_option gi_y visual) (80 + of_nat (index div 3) * 180),
          bo_width = nullish (map_option gi_width visual) 190,
          bo_height = nullish (map_option gi_height visual) 140,
          bo_rotation = Some (nullish (Option.bind visual gi_rotation) 0),
          bo_rows = map_option fst generator, bo_seatsPerRow = map_option (fst \<circ> snd) generator,
          bo_startSeat = map_option (snd \<circ> snd) generator,
          bo_capacity = (case zones of [z] \<Rightarrow> Some (zone_default_capacity z) | _ \<Rightarrow> None),
          bo_tables = Some (if tables = [] then 4 else int (length tables)),
          bo_seatsPerTable =
            Some (if tables = [] then 6
                  else Max (set (map (\<lambda>t. int (length (filter (\<lambda>s. seat_table_key s = Some (table_object_key t)) seats))) tables))),
          bo_generatorMode = Some (if sec_kind sec = RESERVED \<and> generator = None then Preserved else Generated),
          bo_sourceSection = Some sec,
          bo_structural = Some \<lparr>st_rows = rows, st_tables = tables, st_seats = seats, st_ga_zones = zones\<rparr>\<rparr>)"

definition orientation_type :: "string \<Rightarrow> object_type option" where
  "orientation_type t =
     (if t = ''STAGE'' then Some STAGE else if t = ''RING'' then Some RING else if t = ''FIELD'' then Some FIELD else None)"

definition orientation_object :: "geometry_item \<Rightarrow> builder_object list" where
  "orientation_object item =
     (case orientation_type (gi_type item) of
        None \<Rightarrow> []
      | Some t \<Rightarrow>
          [\<lparr>bo_object_key = gi_object_key item, bo_type = t, bo_label = gi_label item, bo_sourceLabel = None,
            bo_x = gi_x item, bo_y = gi_y item, bo_width = gi_width item, bo_height = gi_height item,
            bo_rotation = gi_rotation item, bo_rows = None, bo_seatsPerRow = None, bo_startSeat = None,
            bo_capacity = None, bo_tables = None, bo_seatsPerTable = None, bo_generatorMode = None,
            bo_sourceSection = None, bo_structural = None\<rparr>])"

definition fromLayout :: "(string \<Rightarrow> rat option) \<Rightarrow> layout_detail \<Rightarrow> builder_object list" where
  "fromLayout to_number layout =
     map (\<lambda>(index, sec). section_object to_number layout index sec)
       (zip [0 ..< length (lb_sections layout)] (lb_sections layout)) @
     concat (map orientation_object (nullish (lb_objects layout) []))"

section \<open>To the save request\<close>

definition is_inventory :: "builder_object \<Rightarrow> bool" where
  "is_inventory item \<longleftrightarrow> bo_type item \<in> {RESERVED, GA, TABLE, MIXED_VISUAL}"

definition empty_seating :: seating where
  "empty_seating = \<lparr>st_rows = [], st_tables = [], st_seats = [], st_ga_zones = []\<rparr>"

definition zone_out :: "builder_object \<Rightarrow> seating \<Rightarrow> layout_zone \<Rightarrow> layout_zone" where
  "zone_out item s zone =
     (if bo_type item = GA then
        zone\<lparr>zone_name := (if Some (bo_label item) \<noteq> bo_sourceLabel item then bo_label item else zone_name zone),
             zone_default_capacity :=
               (if length (st_ga_zones s) = 1 then nullish (bo_capacity item) (zone_default_capacity zone)
                else zone_default_capacity zone)\<rparr>
      else zone)"

definition generated_row :: "builder_object \<Rightarrow> nat \<Rightarrow> layout_row" where
  "generated_row item rowIndex =
     (let label = rowLabel rowIndex in
      \<lparr>row_object_key = bo_object_key item @ ''-row-'' @ to_lower label, row_section_key = bo_object_key item,
       row_label = label, row_sort_order = int rowIndex, row_metadata = None\<rparr>)"

definition generated_seat :: "builder_object \<Rightarrow> nat \<Rightarrow> nat \<Rightarrow> layout_seat" where
  "generated_seat item rowIndex seatIndex =
     (let label = rowLabel rowIndex; number = nullish (bo_startSeat item) 1 + int seatIndex in
      \<lparr>seat_object_key = bo_object_key item @ ''-'' @ to_lower label @ ''-'' @ int_str number,
       seat_section_key = bo_object_key item,
       seat_row_key = Some (bo_object_key item @ ''-row-'' @ to_lower label), seat_table_key = Some [],
       seat_label = int_str number, seat_sort_order = int seatIndex, seat_metadata = None\<rparr>)"

definition generated_table :: "builder_object \<Rightarrow> nat \<Rightarrow> layout_table" where
  "generated_table item tableIndex =
     \<lparr>table_object_key = bo_object_key item @ ''-table-'' @ nat_str (tableIndex + 1),
      table_section_key = bo_object_key item, table_label = ''Table '' @ nat_str (tableIndex + 1), table_metadata = None\<rparr>"

definition generated_table_seat :: "builder_object \<Rightarrow> nat \<Rightarrow> nat \<Rightarrow> layout_seat" where
  "generated_table_seat item tableIndex seatIndex =
     (let tableKey = bo_object_key item @ ''-table-'' @ nat_str (tableIndex + 1) in
      \<lparr>seat_object_key = tableKey @ ''-seat-'' @ nat_str (seatIndex + 1), seat_section_key = bo_object_key item,
       seat_row_key = Some [], seat_table_key = Some tableKey, seat_label = nat_str (seatIndex + 1),
       seat_sort_order = int seatIndex, seat_metadata = None\<rparr>)"

definition upto_count :: "int option \<Rightarrow> nat list" where
  "upto_count n = [0 ..< nat (nullish n 1)]"

definition item_structure :: "builder_object \<Rightarrow> seating" where
  "item_structure item =
     (case bo_structural item of
        Some s \<Rightarrow> s\<lparr>st_ga_zones := map (zone_out item s) (st_ga_zones s)\<rparr>
      | None \<Rightarrow>
          if bo_type item = RESERVED then
            empty_seating\<lparr>st_rows := map (generated_row item) (upto_count (bo_rows item)),
              st_seats := concat (map (\<lambda>r. map (generated_seat item r) (upto_count (bo_seatsPerRow item)))
                (upto_count (bo_rows item)))\<rparr>
          else if bo_type item = TABLE then
            empty_seating\<lparr>st_tables := map (generated_table item) (upto_count (bo_tables item)),
              st_seats := concat (map (\<lambda>t. map (generated_table_seat item t) (upto_count (bo_seatsPerTable item)))
                (upto_count (bo_tables item)))\<rparr>
          else if bo_type item = GA then
            empty_seating\<lparr>st_ga_zones :=
              [\<lparr>zone_object_key = bo_object_key item @ ''-zone'', zone_section_key = bo_object_key item,
                zone_name = bo_label item, zone_default_capacity = nullish (bo_capacity item) 1, zone_metadata = None\<rparr>]\<rparr>
          else empty_seating)"

definition geometry_out :: "builder_object \<Rightarrow> geometry_item" where
  "geometry_out item =
     \<lparr>gi_object_key = bo_object_key item, gi_type = type_name (bo_type item), gi_label = bo_label item,
      gi_x = bo_x item, gi_y = bo_y item, gi_width = bo_width item, gi_height = bo_height item,
      gi_rotation = bo_rotation item, gi_shape = None, gi_orientation = None\<rparr>"

definition section_out :: "nat \<Rightarrow> builder_object \<Rightarrow> layout_section" where
  "section_out index item =
     \<lparr>sec_object_key = bo_object_key item, sec_name = bo_label item, sec_kind = bo_type item,
      sec_sort_order = nullish (map_option sec_sort_order (bo_sourceSection item)) (int index),
      sec_metadata = Option.bind (bo_sourceSection item) sec_metadata\<rparr>"

definition toLayout :: "builder_object list \<Rightarrow> layout_body" where
  "toLayout objects =
     (let inventory = filter is_inventory objects; parts = map item_structure inventory in
      \<lparr>st_rows = concat (map st_rows parts), st_tables = concat (map st_tables parts),
       st_seats = concat (map st_seats parts), st_ga_zones = concat (map st_ga_zones parts),
       lb_canvas = Some (1000, 650), lb_objects = Some (map geometry_out objects),
       lb_sections = map (\<lambda>(index, item). section_out index item) (zip [0 ..< length inventory] inventory)\<rparr>)"

end
