(* ===== verification/Layout_Laws.thy ===== *)
theory Layout_Laws
  imports Layout_Model "HOL-Library.Multiset"
begin

text \<open>
  Laws of the floor-plan model: fresh keys, distinct row letters, well-formed generated seating,
  and the round trip through the builder.
\<close>

section \<open>Keys\<close>

lemma free_key_fresh: "free_key base keys sfx key \<notin> set keys"
proof (induction base keys sfx key rule: free_key.induct)
  case (1 base keys sfx key)
  then show ?case by (cases "key \<in> set keys") (simp_all add: free_key.simps [of base keys sfx key])
qed

lemma free_key_shape:
  "free_key base keys sfx key = key \<or> (\<exists>n \<ge> sfx. free_key base keys sfx key = numbered base n)"
proof (induction base keys sfx key rule: free_key.induct)
  case (1 base keys sfx key)
  show ?case
  proof (cases "key \<in> set keys")
    case True
    with "1" have "free_key base keys (Suc sfx) (numbered base sfx) = numbered base sfx \<or>
        (\<exists>n \<ge> Suc sfx. free_key base keys (Suc sfx) (numbered base sfx) = numbered base n)" by simp
    then have "\<exists>n \<ge> sfx. free_key base keys (Suc sfx) (numbered base sfx) = numbered base n"
      using Suc_leD by blast
    then show ?thesis using True by (simp add: free_key.simps [of base keys sfx key])
  next
    case False
    then show ?thesis by (simp add: free_key.simps [of base keys sfx key])
  qed
qed

section \<open>Row letters\<close>

definition letter_val :: "char \<Rightarrow> nat" where
  "letter_val c = (case map_of (zip upper_letters [1 ..< 27]) c of None \<Rightarrow> 0 | Some n \<Rightarrow> n)"

definition row_number :: "string \<Rightarrow> nat" where
  "row_number s = foldl (\<lambda>a c. 26 * a + letter_val c) 0 s"

lemma letter_val_nth: "n < 26 \<Longrightarrow> letter_val (upper_letters ! n) = n + 1"
proof -
  have "list_all (\<lambda>n. letter_val (upper_letters ! n) = n + 1) [0 ..< 26]"
    by (simp add: letter_val_def upper_letters_def upt_rec)
  then show "n < 26 \<Longrightarrow> letter_val (upper_letters ! n) = n + 1" by (simp add: list_all_iff)
qed

lemma row_label_loop_value:
  "foldl (\<lambda>a c. 26 * a + letter_val c) 0 (row_label_loop number v) =
   foldl (\<lambda>a c. 26 * a + letter_val c) number v"
proof (induction number v rule: row_label_loop.induct)
  case (1 number v)
  show ?case
  proof (cases "number = 0")
    case True
    then show ?thesis by (simp add: row_label_loop.simps)
  next
    case False
    then have "26 * ((number - 1) div 26) + letter_val (upper_letters ! ((number - 1) mod 26)) = number"
      by (simp add: letter_val_nth)
    with False "1" show ?thesis by (simp add: row_label_loop.simps [of number v])
  qed
qed

lemma row_number_rowLabel [simp]: "row_number (rowLabel i) = i + 1"
  by (simp add: row_number_def rowLabel_def row_label_loop_value)

lemma rowLabel_inj [simp]: "rowLabel i = rowLabel j \<longleftrightarrow> i = j"
  by (metis add_right_cancel row_number_rowLabel)

lemma row_label_loop_upper: "set v \<subseteq> set upper_letters \<Longrightarrow> set (row_label_loop number v) \<subseteq> set upper_letters"
proof (induction number v rule: row_label_loop.induct)
  case (1 number v)
  have "upper_letters ! ((number - 1) mod 26) \<in> set upper_letters"
    by (rule nth_mem) (simp add: upper_letters_def)
  with "1" show ?case
    by (cases "number = 0") (simp_all add: row_label_loop.simps [of number v] row_label_loop.simps [of 0 v])
qed

lemma rowLabel_upper: "set (rowLabel i) \<subseteq> set upper_letters"
  by (simp add: rowLabel_def row_label_loop_upper)

lemma lower_char_upper:
  "list_all (\<lambda>c. upper_char (lower_char c) = c \<and> lower_char c \<noteq> CHR ''-'') upper_letters"
  by (simp add: upper_letters_def lower_letters_def upper_char_def lower_char_def)

lemma upper_lower_inverse: "set s \<subseteq> set upper_letters \<Longrightarrow> to_upper (to_lower s) = s"
  using lower_char_upper by (induction s) (auto simp: to_upper_def to_lower_def list_all_iff)

lemma lower_rowLabel_inj [simp]: "to_lower (rowLabel i) = to_lower (rowLabel j) \<longleftrightarrow> i = j"
  using upper_lower_inverse [OF rowLabel_upper] by (metis rowLabel_inj)

lemma lower_rowLabel_no_dash: "CHR ''-'' \<notin> set (to_lower (rowLabel i))"
  using rowLabel_upper [of i] lower_char_upper by (auto simp: to_lower_def list_all_iff)

section \<open>Generated seating\<close>

text \<open>
  A part of a layout is well formed when its keys are distinct and every seat stands either in one
  of its rows or at one of its tables (an empty or missing key means none).
\<close>

definition refers_to :: "string option \<Rightarrow> string set \<Rightarrow> bool" where
  "refers_to k keys \<longleftrightarrow> truthy_str k \<and> nullish k [] \<in> keys"

definition seat_refs_ok :: "seating \<Rightarrow> layout_seat \<Rightarrow> bool" where
  "seat_refs_ok s seat \<longleftrightarrow>
     refers_to (seat_row_key seat) (row_object_key ` set (st_rows s)) \<and> \<not> truthy_str (seat_table_key seat) \<or>
     refers_to (seat_table_key seat) (table_object_key ` set (st_tables s)) \<and> \<not> truthy_str (seat_row_key seat)"

definition seating_ok :: "string \<Rightarrow> seating \<Rightarrow> bool" where
  "seating_ok key s \<longleftrightarrow>
     distinct (map row_object_key (st_rows s)) \<and> distinct (map table_object_key (st_tables s)) \<and>
     distinct (map seat_object_key (st_seats s)) \<and>
     (\<forall>seat \<in> set (st_seats s). seat_refs_ok s seat \<and> seat_section_key seat = key) \<and>
     (\<forall>r \<in> set (st_rows s). row_section_key r = key) \<and> (\<forall>t \<in> set (st_tables s). table_section_key t = key)"

lemma distinct_concat_grid:
  assumes "\<And>a b c d. f a b = f c d \<Longrightarrow> a = c \<and> b = d"
  shows "distinct (concat (map (\<lambda>a. map (f a) [0 ..< m]) [0 ..< n]))"
proof -
  have inj: "inj_on (\<lambda>(a, b). f a b) (set (List.product [0 ..< n] [0 ..< m]))"
    using assms by (auto simp: inj_on_def)
  have "concat (map (\<lambda>a. map (f a) [0 ..< m]) xs) = map (\<lambda>(a, b). f a b) (List.product xs [0 ..< m])" for xs
    by (induction xs) auto
  then show ?thesis using inj by (simp add: distinct_map distinct_product)
qed

lemma map_concat_grid: "map g (concat (map (\<lambda>a. map (f a) ys) xs)) = concat (map (\<lambda>a. map (\<lambda>b. g (f a b)) ys) xs)"
  by (induction xs) auto

lemma length_concat_grid: "length (concat (map (\<lambda>a. map (f a) ys) xs)) = length xs * length ys"
  by (induction xs) auto

lemma generated_seat_key_inj:
  assumes "seat_object_key (generated_seat item r s) = seat_object_key (generated_seat item r' s')"
  shows "r = r' \<and> s = s'"
proof -
  from assms have "to_lower (rowLabel r) @ CHR ''-'' # int_str (nullish (bo_startSeat item) 1 + int s) =
      to_lower (rowLabel r') @ CHR ''-'' # int_str (nullish (bo_startSeat item) 1 + int s')"
    by (simp add: generated_seat_def Let_def)
  then have "to_lower (rowLabel r) = to_lower (rowLabel r') \<and>
      int_str (nullish (bo_startSeat item) 1 + int s) = int_str (nullish (bo_startSeat item) 1 + int s')"
    by (rule append_sep_eq [OF _ lower_rowLabel_no_dash lower_rowLabel_no_dash])
  then show ?thesis by simp
qed

lemma generated_table_seat_key_inj:
  assumes "seat_object_key (generated_table_seat item t s) = seat_object_key (generated_table_seat item t' s')"
  shows "t = t' \<and> s = s'"
proof -
  from assms have "nat_str (t + 1) @ CHR ''-'' # (''seat-'' @ nat_str (s + 1)) =
      nat_str (t' + 1) @ CHR ''-'' # (''seat-'' @ nat_str (s' + 1))"
    by (simp add: generated_table_seat_def Let_def)
  then have "nat_str (t + 1) = nat_str (t' + 1) \<and> ''seat-'' @ nat_str (s + 1) = ''seat-'' @ nat_str (s' + 1)"
    by (rule append_sep_eq [OF _ nat_str_no_char [OF minus_not_digit] nat_str_no_char [OF minus_not_digit]])
  then show ?thesis by simp
qed

lemma generated_sel [simp]:
  "seat_row_key (generated_seat item r s) = Some (row_object_key (generated_row item r))"
  "seat_table_key (generated_seat item r s) = Some []"
  "seat_section_key (generated_seat item r s) = bo_object_key item"
  "row_section_key (generated_row item r) = bo_object_key item"
  "seat_row_key (generated_table_seat item t s) = Some []"
  "seat_table_key (generated_table_seat item t s) = Some (table_object_key (generated_table item t))"
  "seat_section_key (generated_table_seat item t s) = bo_object_key item"
  "table_section_key (generated_table item t) = bo_object_key item"
  by (simp_all add: generated_seat_def generated_row_def generated_table_seat_def generated_table_def Let_def)

lemma filter_grid:
  assumes "\<And>a b. P (f a b) \<longleftrightarrow> a = r"
  shows "distinct xs \<Longrightarrow> filter P (concat (map (\<lambda>a. map (f a) ys) xs)) = (if r \<in> set xs then map (f r) ys else [])"
proof (induction xs)
  case Nil
  then show ?case by simp
next
  case (Cons x xs)
  have "filter P (map (f x) ys) = (if x = r then map (f x) ys else [])"
    using assms by (auto simp: filter_map comp_def)
  then show ?case using Cons by auto
qed

lemma generated_row_key_inj [simp]:
  "row_object_key (generated_row item a) = row_object_key (generated_row item b) \<longleftrightarrow> a = b"
  by (simp add: generated_row_def Let_def)

lemma generated_table_key_inj [simp]:
  "table_object_key (generated_table item a) = table_object_key (generated_table item b) \<longleftrightarrow> a = b"
  by (simp add: generated_table_def)

lemma generated_keys_truthy [simp]:
  "row_object_key (generated_row item r) \<noteq> []" "table_object_key (generated_table item t) \<noteq> []"
  by (simp_all add: generated_row_def generated_table_def Let_def)

lemma reserved_seating_ok:
  assumes "bo_structural item = None" and "bo_type item = RESERVED"
  shows "seating_ok (bo_object_key item) (item_structure item)"
proof -
  have rows: "distinct (map row_object_key (map (generated_row item) (upto_count (bo_rows item))))"
    by (auto simp: distinct_map inj_on_def generated_row_def upto_count_def Let_def)
  have seats: "distinct (map seat_object_key
      (concat (map (\<lambda>r. map (generated_seat item r) (upto_count (bo_seatsPerRow item))) (upto_count (bo_rows item)))))"
    unfolding map_concat_grid upto_count_def
    by (rule distinct_concat_grid) (rule generated_seat_key_inj)
  show ?thesis using assms rows seats
    by (auto simp: seating_ok_def item_structure_def empty_seating_def seat_refs_ok_def refers_to_def nullish_def)
qed

lemma table_seating_ok:
  assumes "bo_structural item = None" and "bo_type item = TABLE"
  shows "seating_ok (bo_object_key item) (item_structure item)"
proof -
  have tables: "distinct (map table_object_key (map (generated_table item) (upto_count (bo_tables item))))"
    by (auto simp: distinct_map inj_on_def generated_table_def upto_count_def Let_def)
  have seats: "distinct (map seat_object_key
      (concat (map (\<lambda>t. map (generated_table_seat item t) (upto_count (bo_seatsPerTable item))) (upto_count (bo_tables item)))))"
    unfolding map_concat_grid upto_count_def
    by (rule distinct_concat_grid) (rule generated_table_seat_key_inj)
  show ?thesis using assms tables seats
    by (auto simp: seating_ok_def item_structure_def empty_seating_def seat_refs_ok_def refers_to_def nullish_def)
qed

lemma length_upto_count [simp]: "length (upto_count n) = nat (nullish n 1)"
  by (simp add: upto_count_def)

section \<open>The order of seats\<close>

interpretation seat_order: preorder_compare seat_order
  by unfold_locales (auto simp: seat_order_def)

section \<open>Round trip\<close>

definition layout_kinds_ok :: "layout_detail \<Rightarrow> bool" where
  "layout_kinds_ok l \<longleftrightarrow> (\<forall>sec \<in> set (lb_sections l). sec_kind sec \<in> {RESERVED, GA, TABLE, MIXED_VISUAL})"

lemma orientation_not_inventory: "item \<in> set (orientation_object g) \<Longrightarrow> \<not> is_inventory item"
  by (auto simp: orientation_object_def is_inventory_def orientation_type_def split: option.splits if_splits)

lemma filter_orientation: "filter is_inventory (concat (map orientation_object gs)) = []"
  using orientation_not_inventory by (auto simp: filter_empty_conv)

lemma section_object_sel [simp]:
  "bo_type (section_object tn l i sec) = sec_kind sec" "bo_object_key (section_object tn l i sec) = sec_object_key sec"
  "bo_label (section_object tn l i sec) = sec_name sec" "bo_sourceSection (section_object tn l i sec) = Some sec"
  "bo_sourceLabel (section_object tn l i sec) = Some (sec_name sec)"
  by (simp_all add: section_object_def Let_def)

lemma inventory_of_fromLayout:
  assumes "layout_kinds_ok l"
  shows "filter is_inventory (fromLayout tn l) =
    map (\<lambda>(i, sec). section_object tn l i sec) (zip [0 ..< length (lb_sections l)] (lb_sections l))"
proof -
  have "filter is_inventory (map (\<lambda>(i, sec). section_object tn l i sec) (zip [0 ..< length (lb_sections l)] (lb_sections l))) =
      map (\<lambda>(i, sec). section_object tn l i sec) (zip [0 ..< length (lb_sections l)] (lb_sections l))"
    using assms by (auto simp: filter_id_conv is_inventory_def layout_kinds_ok_def dest!: set_zip_rightD)
  then show ?thesis by (simp add: fromLayout_def filter_orientation)
qed

lemma zone_out_same:
  assumes "bo_label item = nullish (bo_sourceLabel item) []" and "bo_sourceLabel item \<noteq> None"
    and "bo_capacity item = (case st_ga_zones s of [z] \<Rightarrow> Some (zone_default_capacity z) | _ \<Rightarrow> None)"
    and "zone \<in> set (st_ga_zones s)"
  shows "zone_out item s zone = zone"
proof -
  have "length (st_ga_zones s) = 1 \<Longrightarrow> bo_capacity item = Some (zone_default_capacity zone)"
    using assms(3,4) by (cases "st_ga_zones s") auto
  then show ?thesis using assms(1,2) by (auto simp: zone_out_def)
qed

lemma section_object_structure:
  "item_structure (section_object tn l i sec) =
     \<lparr>st_rows = filter (\<lambda>r. row_section_key r = sec_object_key sec) (st_rows l),
      st_tables = filter (\<lambda>t. table_section_key t = sec_object_key sec) (st_tables l),
      st_seats = filter (\<lambda>s. seat_section_key s = sec_object_key sec) (st_seats l),
      st_ga_zones = filter (\<lambda>z. zone_section_key z = sec_object_key sec) (st_ga_zones l)\<rparr>"
proof -
  let ?o = "section_object tn l i sec"
  obtain s where s: "bo_structural ?o = Some s"
    and z: "st_ga_zones s = filter (\<lambda>z. zone_section_key z = sec_object_key sec) (st_ga_zones l)"
    and rest: "s = \<lparr>st_rows = filter (\<lambda>r. row_section_key r = sec_object_key sec) (st_rows l),
      st_tables = filter (\<lambda>t. table_section_key t = sec_object_key sec) (st_tables l),
      st_seats = filter (\<lambda>s. seat_section_key s = sec_object_key sec) (st_seats l),
      st_ga_zones = filter (\<lambda>z. zone_section_key z = sec_object_key sec) (st_ga_zones l)\<rparr>"
    by (simp add: section_object_def Let_def)
  have cap: "bo_capacity ?o = (case st_ga_zones s of [z] \<Rightarrow> Some (zone_default_capacity z) | _ \<Rightarrow> None)"
    by (simp add: z) (simp add: section_object_def Let_def)
  have "map (zone_out ?o s) (st_ga_zones s) = st_ga_zones s"
    using cap by (intro map_idI zone_out_same) simp_all
  then show ?thesis using s rest by (simp add: item_structure_def)
qed

lemma mset_filter_insert:
  assumes "k \<notin> K"
  shows "mset (filter (\<lambda>x. f x \<in> insert k K) xs) = mset (filter (\<lambda>x. f x = k) xs) + mset (filter (\<lambda>x. f x \<in> K) xs)"
  using assms by (induction xs) auto

lemma concat_by_key:
  "distinct ks \<Longrightarrow> mset (concat (map (\<lambda>k. filter (\<lambda>x. f x = k) xs) ks)) = mset (filter (\<lambda>x. f x \<in> set ks) xs)"
proof (induction ks)
  case Nil
  then show ?case by simp
next
  case (Cons k ks)
  then show ?case using mset_filter_insert [of k "set ks" f xs] by simp
qed

lemma map_section_objects:
  assumes "\<And>i sec. f (section_object tn l i sec) = h sec"
  shows "map f (filter is_inventory (fromLayout tn l)) = (if layout_kinds_ok l then map h (lb_sections l)
    else map f (filter is_inventory (fromLayout tn l)))"
proof (cases "layout_kinds_ok l")
  case True
  have "map f (map (\<lambda>(i, sec). section_object tn l i sec) (zip [0 ..< length (lb_sections l)] (lb_sections l))) =
      map h (lb_sections l)"
    by (rule nth_equalityI) (simp_all add: assms)
  with True show ?thesis by (simp only: inventory_of_fromLayout if_True)
qed simp

text \<open>What the body holds of one kind: the sections' parts, one after the other.\<close>

lemma toLayout_fromLayout_parts:
  assumes "layout_kinds_ok l"
  shows "st_rows (toLayout (fromLayout tn l)) =
      concat (map (\<lambda>k. filter (\<lambda>r. row_section_key r = k) (st_rows l)) (map sec_object_key (lb_sections l)))"
    and "st_tables (toLayout (fromLayout tn l)) =
      concat (map (\<lambda>k. filter (\<lambda>r. table_section_key r = k) (st_tables l)) (map sec_object_key (lb_sections l)))"
    and "st_seats (toLayout (fromLayout tn l)) =
      concat (map (\<lambda>k. filter (\<lambda>r. seat_section_key r = k) (st_seats l)) (map sec_object_key (lb_sections l)))"
    and "st_ga_zones (toLayout (fromLayout tn l)) =
      concat (map (\<lambda>k. filter (\<lambda>r. zone_section_key r = k) (st_ga_zones l)) (map sec_object_key (lb_sections l)))"
proof -
  let ?inv = "filter is_inventory (fromLayout tn l)"
  have parts: "map item_structure ?inv = map (\<lambda>sec. item_structure (section_object tn l 0 sec)) (lb_sections l)"
    using map_section_objects [where f = item_structure and tn = tn and l = l
        and h = "\<lambda>sec. item_structure (section_object tn l 0 sec)"] assms
    by (simp add: section_object_structure)
  show "st_rows (toLayout (fromLayout tn l)) =
      concat (map (\<lambda>k. filter (\<lambda>r. row_section_key r = k) (st_rows l)) (map sec_object_key (lb_sections l)))"
    "st_tables (toLayout (fromLayout tn l)) =
      concat (map (\<lambda>k. filter (\<lambda>r. table_section_key r = k) (st_tables l)) (map sec_object_key (lb_sections l)))"
    "st_seats (toLayout (fromLayout tn l)) =
      concat (map (\<lambda>k. filter (\<lambda>r. seat_section_key r = k) (st_seats l)) (map sec_object_key (lb_sections l)))"
    "st_ga_zones (toLayout (fromLayout tn l)) =
      concat (map (\<lambda>k. filter (\<lambda>r. zone_section_key r = k) (st_ga_zones l)) (map sec_object_key (lb_sections l)))"
    unfolding toLayout_def Let_def parts by (simp_all add: section_object_structure comp_def)
qed

lemma toLayout_fromLayout_sections:
  assumes "layout_kinds_ok l"
  shows "lb_sections (toLayout (fromLayout tn l)) = lb_sections l"
proof -
  have same: "section_out i (section_object tn l j sec) = sec" for i j sec
    by (simp add: section_out_def)
  let ?inv = "map (\<lambda>(i, sec). section_object tn l i sec) (zip [0 ..< length (lb_sections l)] (lb_sections l))"
  have "map (\<lambda>(index, item). section_out index item) (zip [0 ..< length ?inv] ?inv) = lb_sections l"
    by (rule nth_equalityI) (simp_all add: same)
  then show ?thesis by (simp only: toLayout_def Let_def inventory_of_fromLayout [OF assms] layout_body.simps)
qed

end
