(* ===== verification/Layout_Builder.thy ===== *)
theory Layout_Builder
  imports Layout_Laws
begin

text \<open>
  The visual builder (\<^verbatim>\<open>layout-builder/LayoutBuilder.tsx\<close>) and its canvas
  (\<^verbatim>\<open>layout-builder/LayoutCanvas.tsx\<close>): the editor's state, the handlers of the palette, the
  property panel, the canvas and the tool bar, and the guard against losing changes. A
  \<open>Partial<BuilderObject>\<close> is a list of field changes; \<open>Number(input.value)\<close> is the argument of
  a handler.
\<close>

section \<open>Field changes\<close>

datatype change =
    CLabel string | CX rat | CY rat | CWidth rat | CHeight rat | CRotation rat
  | CRows int | CSeatsPerRow int | CStartSeat int | CCapacity int | CTables int | CSeatsPerTable int
  | CGeneratorMode generator_mode

fun apply_change :: "change \<Rightarrow> builder_object \<Rightarrow> builder_object" where
  "apply_change (CLabel v) item = item\<lparr>bo_label := v\<rparr>"
| "apply_change (CX v) item = item\<lparr>bo_x := v\<rparr>"
| "apply_change (CY v) item = item\<lparr>bo_y := v\<rparr>"
| "apply_change (CWidth v) item = item\<lparr>bo_width := v\<rparr>"
| "apply_change (CHeight v) item = item\<lparr>bo_height := v\<rparr>"
| "apply_change (CRotation v) item = item\<lparr>bo_rotation := Some v\<rparr>"
| "apply_change (CRows v) item = item\<lparr>bo_rows := Some v\<rparr>"
| "apply_change (CSeatsPerRow v) item = item\<lparr>bo_seatsPerRow := Some v\<rparr>"
| "apply_change (CStartSeat v) item = item\<lparr>bo_startSeat := Some v\<rparr>"
| "apply_change (CCapacity v) item = item\<lparr>bo_capacity := Some v\<rparr>"
| "apply_change (CTables v) item = item\<lparr>bo_tables := Some v\<rparr>"
| "apply_change (CSeatsPerTable v) item = item\<lparr>bo_seatsPerTable := Some v\<rparr>"
| "apply_change (CGeneratorMode v) item = item\<lparr>bo_generatorMode := Some v\<rparr>"

text \<open>The fields whose change makes the builder generate the seating anew.\<close>

fun regenerates :: "change \<Rightarrow> bool" where
  "regenerates (CRows _) = True"
| "regenerates (CSeatsPerRow _) = True"
| "regenerates (CStartSeat _) = True"
| "regenerates (CTables _) = True"
| "regenerates (CSeatsPerTable _) = True"
| "regenerates _ = False"

definition change_item :: "change list \<Rightarrow> builder_object \<Rightarrow> builder_object" where
  "change_item changes item =
     (let changed = fold apply_change changes item
      in changed\<lparr>bo_structural := (if list_ex regenerates changes then None else bo_structural item)\<rparr>)"

section \<open>The editor\<close>

datatype confirmation = ConfirmPublish | ConfirmDiscard

record builder_state =
  objects :: "builder_object list"
  selectedKey :: string
  preview :: bool
  dirty :: bool
  confirmation :: "confirmation option"

definition initial_builder :: "(string \<Rightarrow> rat option) \<Rightarrow> layout_detail \<Rightarrow> builder_state" where
  "initial_builder to_number layout =
     (let objs = fromLayout to_number layout in
      \<lparr>objects = objs, selectedKey = (case objs of [] \<Rightarrow> [] | b # _ \<Rightarrow> bo_object_key b),
       preview = False, dirty = False, confirmation = None\<rparr>)"

definition update :: "string \<Rightarrow> change list \<Rightarrow> builder_state \<Rightarrow> builder_state" where
  "update key changes st =
     st\<lparr>objects := map (\<lambda>item. if bo_object_key item = key then change_item changes item else item) (objects st),
        dirty := True\<rparr>"

definition is_orientation :: "object_type \<Rightarrow> bool" where
  "is_orientation t \<longleftrightarrow> t \<in> {STAGE, RING, FIELD}"

definition new_object :: "object_type \<Rightarrow> string \<Rightarrow> builder_object list \<Rightarrow> builder_object" where
  "new_object t label objs =
     (let orientation = is_orientation t;
          inventoryIndex = length (filter (\<lambda>item. bo_type item \<in> {RESERVED, GA, TABLE}) objs)
      in \<lparr>bo_object_key = stableKey label objs, bo_type = t, bo_label = label, bo_sourceLabel = None,
          bo_x = (if orientation then 350 else 40 + of_nat (inventoryIndex mod 3) * 310),
          bo_y = (if orientation then 25 else 130 + of_nat (inventoryIndex div 3) * 230),
          bo_width = (if orientation then 300 else 270), bo_height = (if orientation then 75 else 180),
          bo_rotation = None, bo_rows = Some 4, bo_seatsPerRow = Some 10, bo_startSeat = Some 1,
          bo_capacity = Some 250, bo_tables = Some 4, bo_seatsPerTable = Some 6, bo_generatorMode = None,
          bo_sourceSection = None, bo_structural = None\<rparr>)"

definition add :: "object_type \<Rightarrow> string \<Rightarrow> builder_state \<Rightarrow> builder_state" where
  "add t label st =
     (let next = new_object t label (objects st)
      in st\<lparr>objects := objects st @ [next], selectedKey := bo_object_key next, dirty := True\<rparr>)"

definition selected :: "builder_state \<Rightarrow> builder_object option" where
  "selected st = find (\<lambda>item. bo_object_key item = selectedKey st) (objects st)"

definition delete_selected :: "builder_state \<Rightarrow> builder_state" where
  "delete_selected st =
     (case selected st of
        None \<Rightarrow> st
      | Some sel \<Rightarrow> st\<lparr>objects := filter (\<lambda>item. bo_object_key item \<noteq> bo_object_key sel) (objects st),
                        selectedKey := [], dirty := True\<rparr>)"

text \<open>The button that turns preserved numbering into a generated one.\<close>

definition regenerate_seating :: "builder_state \<Rightarrow> builder_state" where
  "regenerate_seating st =
     (case selected st of
        None \<Rightarrow> st
      | Some sel \<Rightarrow>
          update (bo_object_key sel)
            [CRows (max 1 (nullish (map_option (\<lambda>s. int (length (st_rows s))) (bo_structural sel)) 1)),
             CSeatsPerRow 1, CStartSeat 1, CGeneratorMode Generated] st)"

definition totals :: "builder_state \<Rightarrow> layout_body" where
  "totals st = toLayout (objects st)"

text \<open>Closing: \<^const>\<open>True\<close> says that the builder closes at once.\<close>

definition close :: "builder_state \<Rightarrow> builder_state \<times> bool" where
  "close st = (if dirty st then (st\<lparr>confirmation := Some ConfirmDiscard\<rparr>, False) else (st, True))"

text \<open>The body the save button sends, when it is enabled; \<open>saved\<close> runs when the request is done.\<close>

definition save_request :: "builder_state \<Rightarrow> layout_body option" where
  "save_request st = (if \<not> dirty st \<or> lb_sections (totals st) = [] then None else Some (totals st))"

definition saved :: "builder_state \<Rightarrow> builder_state" where
  "saved st = st\<lparr>dirty := False\<rparr>"

definition ask_publish :: "builder_state \<Rightarrow> builder_state" where
  "ask_publish st = (if lb_sections (totals st) = [] then st else st\<lparr>confirmation := Some ConfirmPublish\<rparr>)"

definition publish_request :: "builder_state \<Rightarrow> layout_body option" where
  "publish_request st = (if confirmation st = Some ConfirmPublish then Some (totals st) else None)"

definition cancel_confirmation :: "builder_state \<Rightarrow> builder_state" where
  "cancel_confirmation st = st\<lparr>confirmation := None\<rparr>"

definition toggle_preview :: "builder_state \<Rightarrow> builder_state" where
  "toggle_preview st = st\<lparr>preview := \<not> preview st\<rparr>"

text \<open>The counts under the canvas: areas, rows, seats and standing capacity.\<close>

definition legend :: "layout_body \<Rightarrow> nat \<times> nat \<times> nat \<times> int" where
  "legend body = (length (lb_sections body), length (st_rows body), length (st_seats body),
     sum_list (map zone_default_capacity (st_ga_zones body)))"

section \<open>The canvas\<close>

datatype arrow = ArrowRight | ArrowLeft | ArrowDown | ArrowUp

text \<open>Dragging: the pointer's start, the item's start, the pointer now.\<close>

definition drag_move :: "rat \<times> rat \<Rightarrow> builder_object \<Rightarrow> rat \<times> rat \<Rightarrow> rat \<times> rat" where
  "drag_move origin item next =
     (max 0 (bo_x item + fst next - fst origin), max 0 (bo_y item + snd next - snd origin))"

definition key_move :: "bool \<Rightarrow> arrow \<Rightarrow> builder_object \<Rightarrow> rat \<times> rat" where
  "key_move shift arrow item =
     (let step = (if shift then 20 else 5);
          x = bo_x item + (if arrow = ArrowRight then step else if arrow = ArrowLeft then - step else 0);
          y = bo_y item + (if arrow = ArrowDown then step else if arrow = ArrowUp then - step else 0)
      in (max 0 x, max 0 y))"

definition move :: "string \<Rightarrow> rat \<times> rat \<Rightarrow> builder_state \<Rightarrow> builder_state" where
  "move key p st = update key [CX (fst p), CY (snd p)] st"

definition canvas_drag :: "rat \<times> rat \<Rightarrow> builder_object \<Rightarrow> rat \<times> rat \<Rightarrow> builder_state \<Rightarrow> builder_state" where
  "canvas_drag origin item next st =
     (if preview st then st else move (bo_object_key item) (drag_move origin item next) st)"

definition canvas_key :: "bool \<Rightarrow> arrow \<Rightarrow> builder_object \<Rightarrow> builder_state \<Rightarrow> builder_state" where
  "canvas_key shift arrow item st =
     (if preview st then st
      else move (bo_object_key item) (key_move shift arrow item) (st\<lparr>selectedKey := bo_object_key item\<rparr>))"

definition seatCount :: "builder_object \<Rightarrow> int option" where
  "seatCount item =
     (if bo_type item = RESERVED then Some (nullish (bo_rows item) 0 * nullish (bo_seatsPerRow item) 0)
      else if bo_type item = TABLE then Some (nullish (bo_tables item) 0 * nullish (bo_seatsPerTable item) 0)
      else bo_capacity item)"

definition canvas_caption :: "builder_object \<Rightarrow> string" where
  "canvas_caption item =
     (if is_orientation (bo_type item) then
        (if bo_type item = STAGE then ''Audience faces this way'' else type_name (bo_type item))
      else int_str (nullish (seatCount item) 0) @ '' '' @ (if bo_type item = GA then ''capacity'' else ''seats''))"

section \<open>Editing\<close>

inductive edit :: "builder_state \<Rightarrow> builder_state \<Rightarrow> bool" where
  edit_update: "edit st (update key changes st)"
| edit_add: "edit st (add t label st)"
| edit_delete: "edit st (delete_selected st)"
| edit_regenerate: "edit st (regenerate_seating st)"
| edit_drag: "item \<in> set (objects st) \<Longrightarrow> edit st (canvas_drag origin item next st)"
| edit_key: "item \<in> set (objects st) \<Longrightarrow> edit st (canvas_key shift arrow item st)"
| edit_select: "edit st (st\<lparr>selectedKey := key\<rparr>)"
| edit_preview: "edit st (toggle_preview st)"
| edit_confirm: "edit st (fst (close st))"
| edit_publish: "edit st (ask_publish st)"
| edit_cancel: "edit st (cancel_confirmation st)"
| edit_saved: "edit st (saved st)"

definition distinct_keys :: "builder_state \<Rightarrow> bool" where
  "distinct_keys st \<longleftrightarrow> distinct (map bo_object_key (objects st))"

lemma apply_change_key [simp]: "bo_object_key (apply_change c item) = bo_object_key item"
  by (cases c) simp_all

lemma fold_apply_change_key [simp]: "bo_object_key (fold apply_change cs item) = bo_object_key item"
  by (induction cs arbitrary: item) simp_all

lemma change_item_key [simp]: "bo_object_key (change_item cs item) = bo_object_key item"
  by (simp add: change_item_def Let_def)

lemma update_keys: "map bo_object_key (objects (update key cs st)) = map bo_object_key (objects st)"
  by (simp add: update_def)

lemma stableKey_fresh: "stableKey label objs \<notin> bo_object_key ` set objs"
  using free_key_fresh [of "slug label" "map bo_object_key objs" 2 "slug label"] by (simp add: stableKey_def)

lemma new_object_key [simp]: "bo_object_key (new_object t label objs) = stableKey label objs"
  by (simp add: new_object_def Let_def)

lemma update_distinct: "distinct_keys st \<Longrightarrow> distinct_keys (update key cs st)"
  by (simp add: distinct_keys_def update_keys)

lemma add_distinct: "distinct_keys st \<Longrightarrow> distinct_keys (add t label st)"
  using stableKey_fresh [of label "objects st"] by (simp add: distinct_keys_def add_def Let_def)

lemma delete_distinct: "distinct_keys st \<Longrightarrow> distinct_keys (delete_selected st)"
  by (simp add: distinct_keys_def delete_selected_def distinct_map_filter split: option.split)

lemma same_objects_distinct:
  "distinct_keys (st\<lparr>selectedKey := k\<rparr>) = distinct_keys st" "distinct_keys (toggle_preview st) = distinct_keys st"
  "distinct_keys (fst (close st)) = distinct_keys st" "distinct_keys (ask_publish st) = distinct_keys st"
  "distinct_keys (cancel_confirmation st) = distinct_keys st" "distinct_keys (saved st) = distinct_keys st"
  by (simp_all add: distinct_keys_def toggle_preview_def close_def ask_publish_def cancel_confirmation_def saved_def)

lemma edit_distinct: "edit st st' \<Longrightarrow> distinct_keys st \<Longrightarrow> distinct_keys st'"
proof (induction rule: edit.induct)
  case (edit_regenerate st)
  then show ?case by (simp add: regenerate_seating_def update_distinct split: option.split)
next
  case (edit_drag item st origin next')
  then show ?case by (simp add: canvas_drag_def move_def update_distinct)
next
  case (edit_key item st shift arrow)
  then have "distinct_keys (st\<lparr>selectedKey := bo_object_key item\<rparr>)" by (simp add: distinct_keys_def)
  with edit_key show ?case by (simp add: canvas_key_def move_def update_distinct)
qed (simp_all add: update_distinct add_distinct delete_distinct same_objects_distinct)

section \<open>Moving objects\<close>

lemma position_parts:
  "zone_out (item\<lparr>bo_x := x, bo_y := y\<rparr>) = zone_out item"
  "generated_row (item\<lparr>bo_x := x, bo_y := y\<rparr>) = generated_row item"
  "generated_seat (item\<lparr>bo_x := x, bo_y := y\<rparr>) = generated_seat item"
  "generated_table (item\<lparr>bo_x := x, bo_y := y\<rparr>) = generated_table item"
  "generated_table_seat (item\<lparr>bo_x := x, bo_y := y\<rparr>) = generated_table_seat item"
  by (simp_all add: fun_eq_iff zone_out_def generated_row_def generated_seat_def generated_table_def
      generated_table_seat_def Let_def)

lemma change_item_position:
  "item_structure (change_item [CX x, CY y] item) = item_structure item"
  "is_inventory (change_item [CX x, CY y] item) = is_inventory item"
  "section_out i (change_item [CX x, CY y] item) = section_out i item"
proof -
  have moved: "change_item [CX x, CY y] item = item\<lparr>bo_x := x, bo_y := y\<rparr>"
    by (simp add: change_item_def Let_def)
  show "item_structure (change_item [CX x, CY y] item) = item_structure item"
    by (cases "bo_structural item"; cases "bo_type item") (simp_all add: moved item_structure_def position_parts)
  show "is_inventory (change_item [CX x, CY y] item) = is_inventory item"
    "section_out i (change_item [CX x, CY y] item) = section_out i item"
    by (simp_all add: moved is_inventory_def section_out_def)
qed

lemma filter_map_same: "(\<And>x. P (f x) = P x) \<Longrightarrow> filter P (map f xs) = map f (filter P xs)"
  by (induction xs) auto

lemma move_structure:
  "seating.truncate (toLayout (objects (move key p st))) = seating.truncate (toLayout (objects st)) \<and>
   lb_sections (toLayout (objects (move key p st))) = lb_sections (toLayout (objects st))"
proof -
  let ?f = "\<lambda>item. if bo_object_key item = key then change_item [CX (fst p), CY (snd p)] item else item"
  have inv: "filter is_inventory (map ?f (objects st)) = map ?f (filter is_inventory (objects st))"
    by (rule filter_map_same) (simp add: change_item_position)
  have parts: "map item_structure (map ?f xs) = map item_structure xs" for xs
    by (simp add: change_item_position)
  have secs: "map (\<lambda>(i, item). section_out i item) (zip ns (map ?f xs)) = map (\<lambda>(i, item). section_out i item) (zip ns xs)" for ns xs
    by (rule nth_equalityI) (simp_all add: change_item_position)
  have objs: "objects (move key p st) = map ?f (objects st)" by (simp add: move_def update_def)
  show ?thesis
    unfolding toLayout_def Let_def objs inv parts secs length_map by (simp add: seating.truncate_def)
qed

end
