(* ===== verification/Layout_Properties.thy ===== *)
theory Layout_Properties
  imports Layout_Builder
begin

text \<open>
  The properties of the floor-plan builder, with their witnesses: the keys of areas, the generated
  seating and its recognition after a reload, the round trip of a stored layout, and what the
  editor's handlers keep. The last section records behaviour that looks unintended.
\<close>

section \<open>Sample data\<close>

definition sample_area :: builder_object where
  "sample_area =
     \<lparr>bo_object_key = ''stalls'', bo_type = RESERVED, bo_label = ''Stalls'', bo_sourceLabel = None, bo_x = 0, bo_y = 0,
      bo_width = 270, bo_height = 180, bo_rotation = None, bo_rows = Some 2, bo_seatsPerRow = Some 2,
      bo_startSeat = Some 1, bo_capacity = None, bo_tables = None, bo_seatsPerTable = None,
      bo_generatorMode = Some Generated, bo_sourceSection = None, bo_structural = None\<rparr>"

definition sample_builder :: builder_state where
  "sample_builder = \<lparr>objects = [sample_area], selectedKey = ''stalls'', preview = False, dirty = False, confirmation = None\<rparr>"

definition sample_layout :: layout_detail where
  "sample_layout =
     \<lparr>st_rows = [\<lparr>row_object_key = ''r'', row_section_key = ''floor'', row_label = ''A'', row_sort_order = 0, row_metadata = None\<rparr>],
      st_tables = [],
      st_seats = [\<lparr>seat_object_key = ''s'', seat_section_key = ''floor'', seat_row_key = Some ''r'', seat_table_key = None,
        seat_label = ''VIP'', seat_sort_order = 0, seat_metadata = None\<rparr>],
      st_ga_zones = [], lb_canvas = None, lb_objects = None,
      lb_sections = [\<lparr>sec_object_key = ''floor'', sec_name = ''Floor'', sec_kind = RESERVED, sec_sort_order = 0, sec_metadata = None\<rparr>],
      ld_id = ''l1'', ld_version_number = 1, ld_state = ''DRAFT'', ld_published_at = None, ld_retired_at = None,
      ld_created_at = ''now'', ld_venue_id = ''v1''\<rparr>"

section \<open>Generated seating\<close>

text \<open>
  C24: The seating the builder generates is well formed: rows, tables and seats have distinct keys,
  every seat stands in exactly one row or at exactly one table of its area, and there are exactly as
  many rows or tables, and as many seats in each of them, as the property panel says.
\<close>

theorem generated_seating_well_formed:
  assumes "bo_structural item = None" and "bo_type item = RESERVED \<or> bo_type item = TABLE"
  shows "seating_ok (bo_object_key item) (item_structure item) \<and>
    (if bo_type item = RESERVED
     then length (st_rows (item_structure item)) = nat (nullish (bo_rows item) 1) \<and>
       length (st_seats (item_structure item)) = nat (nullish (bo_rows item) 1) * nat (nullish (bo_seatsPerRow item) 1) \<and>
       (\<forall>r \<in> set (st_rows (item_structure item)).
          length (filter (\<lambda>s. seat_row_key s = Some (row_object_key r)) (st_seats (item_structure item))) =
          nat (nullish (bo_seatsPerRow item) 1))
     else length (st_tables (item_structure item)) = nat (nullish (bo_tables item) 1) \<and>
       length (st_seats (item_structure item)) = nat (nullish (bo_tables item) 1) * nat (nullish (bo_seatsPerTable item) 1) \<and>
       (\<forall>t \<in> set (st_tables (item_structure item)).
          length (filter (\<lambda>s. seat_table_key s = Some (table_object_key t)) (st_seats (item_structure item))) =
          nat (nullish (bo_seatsPerTable item) 1)))"
  using assms(2)
proof
  assume "bo_type item = RESERVED"
  then show ?thesis using reserved_seating_ok [OF assms(1)] assms(1)
    by (auto simp: item_structure_def empty_seating_def length_concat_grid filter_grid upto_count_def)
next
  assume "bo_type item = TABLE"
  then show ?thesis using table_seating_ok [OF assms(1)] assms(1)
    by (auto simp: item_structure_def empty_seating_def length_concat_grid filter_grid upto_count_def)
qed

theorem generated_seating_well_formed_witness:
  "length (st_seats (item_structure sample_area)) = 4"
  using generated_seating_well_formed [of sample_area] by (simp add: sample_area_def)

lemma generated_row_sequence:
  assumes "r < n" and "\<forall>i < m. to_number (int_str (nullish (bo_startSeat item) 1 + int i)) =
    Some (of_int (nullish (bo_startSeat item) 1 + int i))"
  shows "row_sequence to_number (concat (map (\<lambda>r. map (generated_seat item r) [0 ..< m]) [0 ..< n])) (generated_row item r) =
    map (\<lambda>i. Some (of_int (nullish (bo_startSeat item) 1 + int i))) [0 ..< m]"
proof -
  have "sorted_wrt seat_order (map (generated_seat item r) [0 ..< m])"
    unfolding sorted_wrt_map by (auto simp: sorted_wrt_iff_nth_less seat_order_def generated_seat_def Let_def)
  then have "sort_by seat_order (map (generated_seat item r) [0 ..< m]) = map (generated_seat item r) [0 ..< m]"
    by (rule seat_order.sort_by_already_sorted)
  moreover have "filter (\<lambda>seat. seat_row_key seat = Some (row_object_key (generated_row item r)))
      (concat (map (\<lambda>r. map (generated_seat item r) [0 ..< m]) [0 ..< n])) = map (generated_seat item r) [0 ..< m]"
    using \<open>r < n\<close> by (subst filter_grid [where r = r]) auto
  ultimately show ?thesis using assms(2) by (simp add: row_sequence_def generated_seat_def Let_def)
qed

lemma infer_same_rows:
  assumes "map (row_sequence to_number seats) rows = (Some (of_int s) # q) # replicate k (Some (of_int s) # q)"
    and "is_sequence s (Some (of_int s) # q)"
  shows "inferReservedGenerator to_number rows seats = Some (int (length rows), int (Suc (length q)), s)"
  using assms(2) by (simp add: inferReservedGenerator_def assms(1) as_integer_def list_ex_iff)

text \<open>
  C25: What the builder generates it recognises: reading generated rows and seats back yields the
  numbers of the property panel, provided that reading a number's text gives the number.
\<close>

theorem generator_recognised:
  assumes "bo_structural item = None" and "bo_type item = RESERVED"
    and "bo_rows item = Some r" and "bo_seatsPerRow item = Some m" and "bo_startSeat item = Some s" and "0 < r" and "0 < m"
    and "\<forall>i < nat m. to_number (int_str (s + int i)) = Some (of_int (s + int i))"
  shows "inferReservedGenerator to_number (st_rows (item_structure item)) (st_seats (item_structure item)) = Some (r, m, s)"
proof -
  let ?seq = "map (\<lambda>i. Some (of_int (s + int i))) [0 ..< nat m]"
  let ?rows = "st_rows (item_structure item)" and ?seats = "st_seats (item_structure item)"
  have rows: "?rows = map (generated_row item) [0 ..< nat r]"
    and seats: "?seats = concat (map (\<lambda>r. map (generated_seat item r) [0 ..< nat m]) [0 ..< nat r])"
    using assms by (simp_all add: item_structure_def empty_seating_def upto_count_def)
  have "map (row_sequence to_number ?seats) ?rows = map (\<lambda>_. ?seq) [0 ..< nat r]"
    unfolding rows seats using assms generated_row_sequence [of _ "nat r" "nat m" to_number item] by simp
  also have "\<dots> = ?seq # replicate (nat r - 1) ?seq"
    using \<open>0 < r\<close> by (cases "nat r") (simp_all add: map_replicate_const)
  finally have seqs: "map (row_sequence to_number ?seats) ?rows = ?seq # replicate (nat r - 1) ?seq" .
  have first: "?seq = Some (of_int s) # map (\<lambda>i. Some (of_int (s + int i))) [Suc 0 ..< nat m]"
    using \<open>0 < m\<close> by (simp add: upt_conv_Cons)
  have "is_sequence s ?seq" by (simp add: is_sequence_def)
  from infer_same_rows [OF seqs [unfolded first] this [unfolded first]] \<open>0 < r\<close> \<open>0 < m\<close>
  show ?thesis by (simp add: rows)
qed

theorem generator_recognised_witness:
  "inferReservedGenerator (\<lambda>t. if t = ''1'' then Some 1 else if t = ''2'' then Some 2 else None)
     (st_rows (item_structure sample_area)) (st_seats (item_structure sample_area)) = Some (2, 2, 1)"
proof -
  have "int_str 1 = ''1''" "int_str 2 = ''2''" by (simp_all add: int_str_def nat_str.simps digit_chars_def)
  then have "\<forall>i < nat 2. (if int_str (1 + int i) = ''1'' then Some 1 else if int_str (1 + int i) = ''2'' then Some 2 else None) =
      Some (of_int (1 + int i) :: rat)" by (auto simp: less_2_cases_iff)
  then show ?thesis by (intro generator_recognised) (simp_all add: sample_area_def)
qed

section \<open>Opening and saving\<close>

text \<open>
  C19: Opening a stored layout and saving it without a change loses nothing: the request has the
  same sections, and the same rows, tables, seats and standing zones, provided that section keys
  are distinct, the kinds are inventory kinds and every part belongs to a section.
\<close>

theorem layout_round_trip:
  assumes "layout_kinds_ok l" and d: "distinct (map sec_object_key (lb_sections l))"
    and "row_section_key ` set (st_rows l) \<subseteq> sec_object_key ` set (lb_sections l)"
    and "table_section_key ` set (st_tables l) \<subseteq> sec_object_key ` set (lb_sections l)"
    and "seat_section_key ` set (st_seats l) \<subseteq> sec_object_key ` set (lb_sections l)"
    and "zone_section_key ` set (st_ga_zones l) \<subseteq> sec_object_key ` set (lb_sections l)"
  shows "lb_sections (toLayout (fromLayout to_number l)) = lb_sections l \<and>
    mset (st_rows (toLayout (fromLayout to_number l))) = mset (st_rows l) \<and>
    mset (st_tables (toLayout (fromLayout to_number l))) = mset (st_tables l) \<and>
    mset (st_seats (toLayout (fromLayout to_number l))) = mset (st_seats l) \<and>
    mset (st_ga_zones (toLayout (fromLayout to_number l))) = mset (st_ga_zones l)"
proof -
  have all: "mset (concat (map (\<lambda>k. filter (\<lambda>x. f x = k) xs) (map sec_object_key (lb_sections l)))) = mset xs"
    if "f ` set xs \<subseteq> sec_object_key ` set (lb_sections l)" for f :: "'x \<Rightarrow> string" and xs
  proof -
    have "filter (\<lambda>x. f x \<in> set (map sec_object_key (lb_sections l))) xs = xs"
      using that by (auto simp: filter_id_conv)
    then show ?thesis unfolding concat_by_key [OF d] by simp
  qed
  show ?thesis
    unfolding toLayout_fromLayout_sections [OF assms(1)] toLayout_fromLayout_parts [OF assms(1)]
    using assms(3-6) by (intro conjI refl all)
qed

theorem layout_round_trip_witness:
  "mset (st_seats (toLayout (fromLayout (\<lambda>_. None) sample_layout))) = mset (st_seats sample_layout)"
  using layout_round_trip [of sample_layout "\<lambda>_. None"] by (simp add: sample_layout_def layout_kinds_ok_def)

section \<open>Editing\<close>

lemma edit_reachable_distinct: "edit\<^sup>*\<^sup>* st st' \<Longrightarrow> distinct_keys st \<Longrightarrow> distinct_keys st'"
  by (induction rule: rtranclp_induct) (blast intro: edit_distinct)+

lemma section_keys_out: "map sec_object_key (lb_sections (toLayout objs)) = map bo_object_key (filter is_inventory objs)"
  by (rule nth_equalityI) (simp_all add: toLayout_def Let_def section_out_def)

lemma geometry_keys_out: "map gi_object_key (nullish (lb_objects (toLayout objs)) []) = map bo_object_key objs"
  by (simp add: toLayout_def Let_def geometry_out_def comp_def)

text \<open>
  C20: Whatever is added, deleted, renamed, dragged or regenerated, the request the builder saves
  names every object once, when the stored layout did.
\<close>

theorem edited_layout_keys_distinct:
  assumes "distinct (map bo_object_key (fromLayout to_number layout))" and "edit\<^sup>*\<^sup>* (initial_builder to_number layout) st"
  shows "distinct (map gi_object_key (nullish (lb_objects (totals st)) [])) \<and>
    distinct (map sec_object_key (lb_sections (totals st)))"
proof -
  have "distinct_keys st"
    using edit_reachable_distinct [OF assms(2)] assms(1) by (simp add: distinct_keys_def initial_builder_def Let_def)
  then show ?thesis
    unfolding totals_def section_keys_out geometry_keys_out distinct_keys_def by (simp add: distinct_map_filter)
qed

theorem edited_layout_keys_distinct_witness:
  "distinct (map sec_object_key (lb_sections (totals (add RESERVED ''Floor'' (initial_builder (\<lambda>_. None) sample_layout)))))"
proof -
  have "distinct (map bo_object_key (fromLayout (\<lambda>_. None) sample_layout))" by (simp add: fromLayout_def sample_layout_def)
  from edited_layout_keys_distinct [OF this] edit_add [of "initial_builder (\<lambda>_. None) sample_layout" RESERVED "''Floor''"]
  show ?thesis by blast
qed

text \<open>
  Dragging an object, or moving it with the arrow keys, changes no inventory: sections, rows,
  tables, seats and zones of the request stay as they are, and objects never leave the canvas at
  the top or at the left.
\<close>

theorem moving_keeps_inventory:
  assumes "st' = canvas_drag origin item p st \<or> st' = canvas_key shift arrow item st"
  shows "seating.truncate (totals st') = seating.truncate (totals st) \<and> lb_sections (totals st') = lb_sections (totals st) \<and>
    (\<forall>obj \<in> set (objects st'). obj \<in> set (objects st) \<or> 0 \<le> bo_x obj \<and> 0 \<le> bo_y obj)"
proof -
  have moved: "seating.truncate (totals (move key q s)) = seating.truncate (totals s) \<and>
      lb_sections (totals (move key q s)) = lb_sections (totals s)" for key q s
    unfolding totals_def by (rule move_structure)
  have placed: "\<forall>obj \<in> set (objects (move key (max 0 x, max 0 y) s)). obj \<in> set (objects s) \<or> 0 \<le> bo_x obj \<and> 0 \<le> bo_y obj"
    for key x y s by (auto simp: move_def update_def change_item_def Let_def)
  have "\<exists>s key x y. objects s = objects st \<and> (st' = s \<or> st' = move key (max 0 x, max 0 y) s)"
    using assms
  proof
    assume "st' = canvas_drag origin item p st"
    then show ?thesis unfolding canvas_drag_def drag_move_def by metis
  next
    assume key: "st' = canvas_key shift arrow item st"
    have "objects (st\<lparr>selectedKey := bo_object_key item\<rparr>) = objects st" by simp
    with key show ?thesis unfolding canvas_key_def key_move_def Let_def by metis
  qed
  then obtain s key x y where s: "objects s = objects st" "st' = s \<or> st' = move key (max 0 x, max 0 y) s" by blast
  then have "totals s = totals st" by (simp add: totals_def)
  with s moved [of key "(max 0 x, max 0 y)" s] placed [where s = s and key = key and x = x and y = y] show ?thesis by auto
qed

theorem moving_keeps_inventory_witness:
  "st_seats (totals (canvas_key True ArrowLeft sample_area sample_builder)) = st_seats (totals sample_builder)"
proof -
  have "seating.truncate (totals (canvas_key True ArrowLeft sample_area sample_builder)) = seating.truncate (totals sample_builder)"
    using moving_keeps_inventory [of "canvas_key True ArrowLeft sample_area sample_builder"] by blast
  then show ?thesis by (simp add: seating.truncate_def)
qed

definition kept_edit :: "builder_state \<Rightarrow> builder_state \<Rightarrow> bool" where
  "kept_edit st st' \<longleftrightarrow> edit st st' \<and> (dirty st \<longrightarrow> dirty st')"

lemma edit_dirty: "edit st st' \<Longrightarrow> dirty st' \<or> objects st' = objects st"
  by (induction rule: edit.induct)
    (auto simp: update_def add_def Let_def delete_selected_def regenerate_seating_def canvas_drag_def canvas_key_def
      move_def toggle_preview_def close_def ask_publish_def cancel_confirmation_def saved_def split: option.split)

text \<open>
  Closing never drops work silently: as long as no save has completed, the builder closes
  without asking only if the floor plan is the one it was opened with.
\<close>

theorem closing_keeps_work:
  assumes "kept_edit\<^sup>*\<^sup>* (initial_builder to_number layout) st" and "snd (close st)"
  shows "objects st = fromLayout to_number layout"
proof -
  have "\<not> dirty st \<Longrightarrow> objects st = fromLayout to_number layout"
    using assms(1)
  proof (induction rule: rtranclp_induct)
    case base
    show ?case by (simp add: initial_builder_def Let_def)
  next
    case (step a b)
    then show ?case using edit_dirty [of a b] by (auto simp: kept_edit_def)
  qed
  then show ?thesis using assms(2) by (simp add: close_def split: if_splits)
qed

theorem closing_keeps_work_witness:
  "objects (toggle_preview (initial_builder (\<lambda>_. None) sample_layout)) = fromLayout (\<lambda>_. None) sample_layout"
proof -
  let ?st = "initial_builder (\<lambda>_. None) sample_layout"
  have "kept_edit\<^sup>*\<^sup>* ?st (toggle_preview ?st)"
    by (intro r_into_rtranclp) (simp add: kept_edit_def edit_preview, simp add: toggle_preview_def)
  moreover have "snd (close (toggle_preview ?st))" by (simp add: close_def toggle_preview_def initial_builder_def Let_def)
  ultimately show ?thesis by (rule closing_keeps_work)
qed

section \<open>Recorded divergences\<close>

text \<open>
  When a save completes, the dirty flag is cleared whatever was edited since the request was
  built: the later edit is not saved and closing drops it without asking.
\<close>

lemma saved_forgets_later_edits:
  "save_request (saved st) = None \<and> snd (close (saved st)) \<and> objects (saved st) = objects st"
  by (simp add: save_request_def saved_def close_def)

end
