(* ===== verification/Json_Laws.thy ===== *)
theory Json_Laws
  imports Js_Json
begin

text \<open>
  \<open>JSON.stringify\<close> is injective: every value's text can be recognised at the front of a longer
  text that goes on with a delimiter, so two bodies with the same text are the same body. The
  applications rely on it wherever an intent contains the text of the selected targets.
\<close>

definition unescape :: "string \<Rightarrow> (char \<times> string) option" where
  "unescape s =
     (case s of
        [] \<Rightarrow> None
      | c # t \<Rightarrow>
          if c \<noteq> CHR 0x5C then Some (c, t)
          else case t of
              e # r \<Rightarrow>
                if e = CHR ''u'' then
                  Some (char_of (16 * the (find (\<lambda>n. hex_lower ! n = r ! 2) [0 ..< 16])
                                 + the (find (\<lambda>n. hex_lower ! n = r ! 3) [0 ..< 16])), drop 4 r)
                else map_option (\<lambda>p. (fst p, r)) (find (\<lambda>p. snd p = e) short_escapes)
            | [] \<Rightarrow> None)"

lemma find_hex_lower: "n < 16 \<Longrightarrow> find (\<lambda>m. hex_lower ! m = hex_lower ! n) [0 ..< 16] = Some n"
proof -
  have "\<forall>n \<in> set [0 ..< 16]. find (\<lambda>m. hex_lower ! m = hex_lower ! n) [0 ..< 16] = Some n" by code_simp
  then show "n < 16 \<Longrightarrow> ?thesis" by auto
qed

lemma short_escapes_back:
  "map_of short_escapes c = Some e \<Longrightarrow>
   e \<noteq> CHR ''u'' \<and> find (\<lambda>p. snd p = e) short_escapes = Some (c, e)"
proof -
  have "\<forall>p \<in> set short_escapes. snd p \<noteq> CHR ''u'' \<and> find (\<lambda>q. snd q = snd p) short_escapes = Some p" by code_simp
  then show "map_of short_escapes c = Some e \<Longrightarrow> ?thesis" by (fastforce dest: map_of_SomeD)
qed

lemma unescape_escape: "unescape (escape_char c @ s) = Some (c, s)"
proof (cases "map_of short_escapes c")
  case (Some e)
  then show ?thesis using short_escapes_back [OF Some] by (simp add: escape_char_def unescape_def)
next
  case None
  have "map_of short_escapes (CHR 0x5C) \<noteq> None" by code_simp
  with None have c: "c \<noteq> CHR 0x5C" by auto
  have "(of_char c :: nat) < 256" by simp
  then have "(of_char c :: nat) div 16 < 16" by linarith
  with None c show ?thesis by (simp add: escape_char_def unescape_def find_hex_lower)
qed

lemma escape_unique: "escape_char c @ s = escape_char d @ t \<Longrightarrow> c = d \<and> s = t"
  by (metis unescape_escape option.inject prod.inject)

lemma escape_start: "\<exists>x y. escape_char c = x # y \<and> x \<noteq> CHR 0x22"
proof -
  have "map_of short_escapes (CHR 0x22) \<noteq> None" by code_simp
  then show ?thesis by (auto simp: escape_char_def split: option.splits)
qed

lemma escaped_unique:
  "concat (map escape_char a) @ CHR 0x22 # s = concat (map escape_char b) @ CHR 0x22 # t \<Longrightarrow> a = b \<and> s = t"
proof (induction a arbitrary: b)
  case Nil
  then show ?case using escape_start [of "hd b"] by (cases b) auto
next
  case (Cons c a)
  then obtain d b' where b: "b = d # b'" using escape_start [of c] by (cases b) auto
  with Cons.prems have
    "escape_char c @ concat (map escape_char a) @ CHR 0x22 # s = escape_char d @ concat (map escape_char b') @ CHR 0x22 # t"
    by simp
  from escape_unique [OF this] Cons.IH [of b'] show ?case by (simp add: b)
qed

lemma quote_unique: "quote a @ s = quote b @ t \<Longrightarrow> a = b \<and> s = t"
  using escaped_unique [of a s b t] by (simp add: quote_def)

text \<open>A delimiter, or the end of the text, follows every value.\<close>

definition delimited :: "string \<Rightarrow> bool" where
  "delimited s \<longleftrightarrow> s = [] \<or> hd s \<in> set '',]}''"

definition recognised :: "('a \<Rightarrow> string) \<Rightarrow> 'a \<Rightarrow> bool" where
  "recognised g x \<longleftrightarrow>
     (\<forall>y s t. g x @ s = g y @ t \<longrightarrow> delimited s \<longrightarrow> delimited t \<longrightarrow> x = y \<and> s = t)"

lemma recognisedD:
  "recognised g x \<Longrightarrow> g x @ s = g y @ t \<Longrightarrow> delimited s \<Longrightarrow> delimited t \<Longrightarrow> x = y \<and> s = t"
  by (simp add: recognised_def)

lemma recognised_list:
  assumes elems: "\<forall>x \<in> set xs. recognised g x"
    and start: "\<And>y. g y \<noteq> [] \<and> hd (g y) \<notin> set '',]}''"
    and close: "c \<in> set '']}''"
  shows "join '','' (map g xs) @ c # s = join '','' (map g ys) @ c # t \<Longrightarrow> xs = ys \<and> s = t"
  using elems
proof (induction xs arbitrary: ys)
  case Nil
  show ?case
  proof (cases ys)
    case Nil': (Cons y zs)
    have "join '','' (map g ys) = g y @ (if zs = [] then [] else '','' @ join '','' (map g zs))"
      by (simp add: Nil' join_Cons)
    then have "hd (join '','' (map g ys) @ c # t) = hd (g y)" using start [of y] by simp
    moreover have "hd (join '','' (map g ys) @ c # t) = c" using Nil.prems(1) by (metis append_Nil join.simps(1) list.map(1) list.sel(1))
    ultimately show ?thesis using close start [of y] by auto
  qed (use Nil.prems in simp)
next
  case (Cons x xs)
  define tail where "tail zs u = (if zs = [] then c # u else CHR '','' # join '','' (map g zs) @ c # u)" for zs u
  have unfold: "join '','' (map g (z # zs)) @ c # u = g z @ tail zs u" for z zs u
    by (cases zs) (simp_all add: tail_def)
  have delim: "delimited (tail zs u)" for zs u
    using close by (auto simp: tail_def delimited_def)
  show ?case
  proof (cases ys)
    case Nil
    have "hd (g x @ tail xs s) = hd (g x)" using start [of x] by simp
    moreover have "g x @ tail xs s = c # t" using Cons.prems(1) unfolding unfold by (simp add: Nil)
    ultimately show ?thesis using close start [of x] by auto
  next
    case ys: (Cons y ys')
    have "g x @ tail xs s = g y @ tail ys' t" using Cons.prems(1) unfolding ys unfold .
    then have eq: "x = y" "tail xs s = tail ys' t"
      using recognisedD [of g x "tail xs s" y "tail ys' t"] Cons.prems(2) delim by auto
    have "xs = ys' \<and> s = t"
    proof (cases "xs = [] \<or> ys' = []")
      case True
      then show ?thesis using eq(2) close by (auto simp: tail_def split: if_splits)
    next
      case False
      with eq(2) have "join '','' (map g xs) @ c # s = join '','' (map g ys') @ c # t" by (simp add: tail_def)
      then show ?thesis using Cons.IH Cons.prems(2) by simp
    qed
    with eq(1) show ?thesis by (simp add: ys)
  qed
qed

lemma number_unique:
  assumes f: "number_format f" and eq: "f a @ s = f b @ t" and s: "delimited s" and t: "delimited t"
  shows "a = b \<and> s = t"
proof -
  let ?n = "\<lambda>c. c \<in> set number_chars"
  have none: "\<forall>c \<in> set '',]}''. \<not> ?n c" by code_simp
  have take: "takeWhile ?n (f r @ u) = f r" if "delimited u" for r u
  proof -
    have "\<forall>c \<in> set (f r). ?n c" using f by (auto simp: number_format_def)
    moreover have "takeWhile ?n u = []" using that none by (cases u) (auto simp: delimited_def)
    ultimately show ?thesis by (simp add: takeWhile_append2)
  qed
  have "f a = f b" using take [OF s, of a] take [OF t, of b] eq by simp
  with f eq show ?thesis by (auto simp: number_format_def dest: injD)
qed

fun json_start :: "json \<Rightarrow> string" where
  "json_start JNull = ''n''"
| "json_start (JBool b) = (if b then ''t'' else ''f'')"
| "json_start (JNum r) = number_chars"
| "json_start (JStr s) = [CHR 0x22]"
| "json_start (JArr vs) = ''[''"
| "json_start (JObj kvs) = ''{''"

lemma stringify_start:
  "number_format f \<Longrightarrow> stringify f v \<noteq> [] \<and> hd (stringify f v) \<in> set (json_start v)"
  by (cases v) (auto simp: quote_def number_format_def dest: hd_in_set)

lemma json_start_safe: "set (json_start v) \<inter> set '',]}'' = {}"
  by (cases v) (auto simp: number_chars_def digit_chars_def)

lemma json_start_disjoint:
  "x \<in> set (json_start v) \<Longrightarrow> x \<in> set (json_start w) \<Longrightarrow>
   (case (v, w) of (JNull, JNull) \<Rightarrow> True | (JBool a, JBool b) \<Rightarrow> a = b | (JNum _, JNum _) \<Rightarrow> True
      | (JStr _, JStr _) \<Rightarrow> True | (JArr _, JArr _) \<Rightarrow> True | (JObj _, JObj _) \<Rightarrow> True | _ \<Rightarrow> False)"
  by (cases v; cases w) (auto simp: number_chars_def digit_chars_def split: if_splits)

definition entry_text :: "(rat \<Rightarrow> string) \<Rightarrow> string \<times> json \<Rightarrow> string" where
  "entry_text f = (\<lambda>(k, v). quote k @ '':'' @ stringify f v)"

lemma stringify_object:
  "stringify f (JObj kvs) = ''{'' @ join '','' (map (entry_text f) kvs) @ ''}''"
  by (simp add: entry_text_def comp_def case_prod_unfold)

lemma recognised_entry: "recognised (stringify f) (snd kv) \<Longrightarrow> recognised (entry_text f) kv"
proof -
  assume val: "recognised (stringify f) (snd kv)"
  show "recognised (entry_text f) kv"
    unfolding recognised_def
  proof (intro allI impI)
    fix kv' s t
    assume eq: "entry_text f kv @ s = entry_text f kv' @ t" and d: "delimited s" "delimited t"
    from eq have "quote (fst kv) @ CHR '':'' # stringify f (snd kv) @ s = quote (fst kv') @ CHR '':'' # stringify f (snd kv') @ t"
      by (simp add: entry_text_def split_beta)
    from quote_unique [OF this] have "fst kv = fst kv'" "stringify f (snd kv) @ s = stringify f (snd kv') @ t" by auto
    with recognisedD [OF val this(2) d] show "kv = kv' \<and> s = t" by (auto simp: prod_eq_iff)
  qed
qed

lemma recognisedI:
  assumes f: "number_format f"
    and same: "\<And>w s t. json_start v = json_start w \<Longrightarrow> stringify f v @ s = stringify f w @ t \<Longrightarrow>
      delimited s \<Longrightarrow> delimited t \<Longrightarrow> v = w \<and> s = t"
  shows "recognised (stringify f) v"
  unfolding recognised_def
proof (intro allI impI)
  fix w s t
  assume eq: "stringify f v @ s = stringify f w @ t" and d: "delimited s" "delimited t"
  have "hd (stringify f v) = hd (stringify f w)"
    using eq stringify_start [OF f, of v] stringify_start [OF f, of w] by (metis hd_append2)
  then have "json_start v = json_start w"
    using json_start_disjoint [of "hd (stringify f v)" v w] stringify_start [OF f, of v] stringify_start [OF f, of w]
    by (cases v; cases w) auto
  from same [OF this eq d] show "v = w \<and> s = t" .
qed

lemma stringify_recognised:
  assumes f: "number_format f"
  shows "recognised (stringify f) v"
proof (induction v)
  case JNull
  show ?case
  proof (rule recognisedI [OF f])
    fix w s t
    assume "json_start JNull = json_start w" "stringify f JNull @ s = stringify f w @ t"
    then show "JNull = w \<and> s = t" by (cases w) (auto simp: number_chars_def digit_chars_def split: if_splits)
  qed
next
  case (JBool b)
  show ?case
  proof (rule recognisedI [OF f])
    fix w s t
    assume "json_start (JBool b) = json_start w" "stringify f (JBool b) @ s = stringify f w @ t"
    then show "JBool b = w \<and> s = t" by (cases w) (auto simp: number_chars_def digit_chars_def split: if_splits)
  qed
next
  case (JNum r)
  show ?case
  proof (rule recognisedI [OF f])
    fix w s t
    assume "json_start (JNum r) = json_start w" "stringify f (JNum r) @ s = stringify f w @ t"
      "delimited s" "delimited t"
    then show "JNum r = w \<and> s = t"
      using number_unique [OF f, of r s _ t]
      by (cases w) (auto simp: number_chars_def digit_chars_def split: if_splits)
  qed
next
  case (JStr x)
  show ?case
  proof (rule recognisedI [OF f])
    fix w s t
    assume "json_start (JStr x) = json_start w" "stringify f (JStr x) @ s = stringify f w @ t"
    then show "JStr x = w \<and> s = t"
      using quote_unique [of x s _ t]
      by (cases w) (auto simp: number_chars_def digit_chars_def split: if_splits)
  qed
next
  case (JArr vs)
  show ?case
  proof (rule recognisedI [OF f])
    fix w s t
    assume start: "json_start (JArr vs) = json_start w" and eq: "stringify f (JArr vs) @ s = stringify f w @ t"
    from start obtain ws where w: "w = JArr ws"
      by (cases w) (auto simp: number_chars_def digit_chars_def split: if_splits)
    have safe: "stringify f y \<noteq> [] \<and> hd (stringify f y) \<notin> set '',]}''" for y
      using stringify_start [OF f, of y] json_start_safe [of y] by blast
    have "\<forall>v \<in> set vs. recognised (stringify f) v" using JArr by blast
    from recognised_list [OF this safe, of "CHR '']''" s ws t] eq
    show "JArr vs = w \<and> s = t" by (simp add: w)
  qed
next
  case (JObj kvs)
  show ?case
  proof (rule recognisedI [OF f])
    fix w s t
    assume start: "json_start (JObj kvs) = json_start w" and eq: "stringify f (JObj kvs) @ s = stringify f w @ t"
    from start obtain ws where w: "w = JObj ws"
      by (cases w) (auto simp: number_chars_def digit_chars_def split: if_splits)
    have safe: "entry_text f y \<noteq> [] \<and> hd (entry_text f y) \<notin> set '',]}''" for y
      by (simp add: entry_text_def quote_def split_beta)
    have "\<forall>kv \<in> set kvs. recognised (entry_text f) kv"
      using JObj by (auto intro!: recognised_entry)
    from recognised_list [OF this safe, of "CHR ''}''" s ws t] eq
    show "JObj kvs = w \<and> s = t" unfolding w stringify_object by simp
  qed
qed

lemma stringify_inj: "number_format f \<Longrightarrow> stringify f v = stringify f w \<Longrightarrow> v = w"
  using recognisedD [OF stringify_recognised, of f v "[]" w "[]"] by (simp add: delimited_def)

text \<open>A number format exists: numerator and denominator.\<close>

definition ratio_text :: "rat \<Rightarrow> string" where
  "ratio_text r = int_str (fst (quotient_of r)) @ ''e'' @ int_str (snd (quotient_of r))"

lemma ratio_text_format: "number_format ratio_text"
proof -
  have no_e: "CHR ''e'' \<notin> set (int_str i)" for i
    using int_str_chars [of i] by (auto simp: digit_chars_def)
  have "inj ratio_text"
  proof (rule injI)
    fix a b
    assume "ratio_text a = ratio_text b"
    then have "int_str (fst (quotient_of a)) @ CHR ''e'' # int_str (snd (quotient_of a)) =
        int_str (fst (quotient_of b)) @ CHR ''e'' # int_str (snd (quotient_of b))"
      by (simp add: ratio_text_def)
    from append_sep_eq [OF this no_e no_e] have "quotient_of a = quotient_of b" by (simp add: prod_eq_iff)
    then show "a = b" by (metis quotient_of_div surjective_pairing)
  qed
  moreover have "ratio_text r \<noteq> [] \<and> set (ratio_text r) \<subseteq> set number_chars" for r
    using int_str_chars [of "fst (quotient_of r)"] int_str_chars [of "snd (quotient_of r)"]
    by (auto simp: ratio_text_def number_chars_def)
  ultimately show ?thesis by (simp add: number_format_def)
qed

end
