(* ===== verification/Admin_Api.thy ===== *)
theory Admin_Api
  imports Layout_Model Json_Laws
begin

text \<open>
  The organiser application's API module (\<^verbatim>\<open>features/admin/api.ts\<close>): every operation of
  \<open>adminApi\<close> as the HTTP request it hands to the generated client, and the classification of
  the answers. The generated client fills the path template, so a request keeps the template
  and its parameters apart; \<open>fetch\<close> is given a finished path. Queries drop \<^const>\<open>None\<close>
  parameters.
\<close>

section \<open>Requests\<close>

datatype http_method = GET | POST | PUT | PATCH

record api_request =
  req_method :: http_method
  req_path :: string
  req_path_params :: "(string \<times> string) list"
  req_query :: "(string \<times> string option) list"
  req_header_params :: "(string \<times> string) list"
  req_headers :: "(string \<times> string) list"
  req_body :: "json option"

definition auth_headers :: "string \<Rightarrow> string option \<Rightarrow> (string \<times> string) list" where
  "auth_headers token key =
     (''Authorization'', ''Bearer '' @ token) #
     (case key of Some k \<Rightarrow> if k \<noteq> [] then [(''Idempotency-Key'', k)] else [] | None \<Rightarrow> [])"

definition get_request ::
    "string \<Rightarrow> string \<Rightarrow> (string \<times> string) list \<Rightarrow> (string \<times> string option) list \<Rightarrow> api_request" where
  "get_request token path params q =
     \<lparr>req_method = GET, req_path = path, req_path_params = params, req_query = q,
      req_header_params = [], req_headers = auth_headers token None, req_body = None\<rparr>"

definition key_request ::
    "http_method \<Rightarrow> string \<Rightarrow> string \<Rightarrow> string \<Rightarrow> (string \<times> string) list \<Rightarrow> json option \<Rightarrow> api_request" where
  "key_request m token key path params body =
     \<lparr>req_method = m, req_path = path, req_path_params = params, req_query = [],
      req_header_params = [(''Idempotency-Key'', key)], req_headers = auth_headers token (Some key),
      req_body = body\<rparr>"

text \<open>The two downloads that call \<open>fetch\<close> themselves; \<open>apiBase\<close> is a constant prefix, left out.\<close>

definition raw_get :: "string \<Rightarrow> string \<Rightarrow> string \<Rightarrow> api_request" where
  "raw_get token eventId resource =
     get_request token (''/api/v1/admin/events/'' @ encodeURIComponent eventId @ ''/'' @ resource) [] []"

section \<open>Bodies\<close>

record create_event_body =
  ce_venue_id :: string
  ce_name :: string
  ce_starts_at :: "string option"
  ce_ends_at :: "string option"
  ce_sales_open_at :: "string option"
  ce_sales_close_at :: "string option"
  ce_admission_open_at :: "string option"
  ce_admission_close_at :: "string option"
  ce_timezone_name :: "string option"

definition create_event_json :: "create_event_body \<Rightarrow> json" where
  "create_event_json b =
     JObj ([(''venue_id'', JStr (ce_venue_id b)), (''name'', JStr (ce_name b))]
       @ j_opt ''starts_at'' (map_option JStr (ce_starts_at b))
       @ j_opt ''ends_at'' (map_option JStr (ce_ends_at b))
       @ j_opt ''sales_open_at'' (map_option JStr (ce_sales_open_at b))
       @ j_opt ''sales_close_at'' (map_option JStr (ce_sales_close_at b))
       @ j_opt ''admission_open_at'' (map_option JStr (ce_admission_open_at b))
       @ j_opt ''admission_close_at'' (map_option JStr (ce_admission_close_at b))
       @ j_opt ''timezone_name'' (map_option JStr (ce_timezone_name b)))"

datatype lifecycle_action = Open_Sales | Pause_Sales | Resume_Sales | Close_Sales | Complete

fun action_path :: "lifecycle_action \<Rightarrow> string" where
  "action_path Open_Sales = ''open-sales''"
| "action_path Pause_Sales = ''pause-sales''"
| "action_path Resume_Sales = ''resume-sales''"
| "action_path Close_Sales = ''close-sales''"
| "action_path Complete = ''complete''"

definition default_policy_json :: json where
  "default_policy_json =
     JObj [(''hold_duration_seconds'', j_int 600), (''checkout_protection_seconds'', j_int 120),
           (''payment_retry_seconds'', j_int 300), (''reconciliation_seconds'', j_int 600),
           (''max_reservation_lifetime_seconds'', j_int 1800), (''max_hold_quantity'', j_int 12),
           (''max_active_reservations_per_partner'', j_int 500),
           (''max_active_reservations_per_buyer_session'', j_int 3),
           (''allow_voided_inventory_rerelease'', JBool False)]"

definition geometry_item_json :: "geometry_item \<Rightarrow> json" where
  "geometry_item_json g =
     JObj ([(''object_key'', JStr (gi_object_key g)), (''type'', JStr (gi_type g)),
            (''label'', JStr (gi_label g)), (''x'', JNum (gi_x g)), (''y'', JNum (gi_y g)),
            (''width'', JNum (gi_width g)), (''height'', JNum (gi_height g))]
       @ j_opt ''rotation'' (map_option JNum (gi_rotation g))
       @ j_opt ''shape'' (map_option JStr (gi_shape g)) @ j_opt ''orientation'' (map_option JStr (gi_orientation g)))"

definition section_json :: "layout_section \<Rightarrow> json" where
  "section_json s =
     JObj ([(''object_key'', JStr (sec_object_key s)), (''name'', JStr (sec_name s)),
            (''kind'', JStr (type_name (sec_kind s))), (''sort_order'', j_int (sec_sort_order s))]
       @ j_opt ''metadata'' (sec_metadata s))"

definition row_json :: "layout_row \<Rightarrow> json" where
  "row_json r =
     JObj ([(''object_key'', JStr (row_object_key r)), (''section_key'', JStr (row_section_key r)),
            (''label'', JStr (row_label r)), (''sort_order'', j_int (row_sort_order r))]
       @ j_opt ''metadata'' (row_metadata r))"

definition table_json :: "layout_table \<Rightarrow> json" where
  "table_json t =
     JObj ([(''object_key'', JStr (table_object_key t)), (''section_key'', JStr (table_section_key t)),
            (''label'', JStr (table_label t))]
       @ j_opt ''metadata'' (table_metadata t))"

definition seat_json :: "layout_seat \<Rightarrow> json" where
  "seat_json s =
     JObj ([(''object_key'', JStr (seat_object_key s)), (''section_key'', JStr (seat_section_key s))]
       @ j_opt ''row_key'' (map_option JStr (seat_row_key s))
       @ j_opt ''table_key'' (map_option JStr (seat_table_key s))
       @ [(''seat_label'', JStr (seat_label s)), (''sort_order'', j_int (seat_sort_order s))]
       @ j_opt ''metadata'' (seat_metadata s))"

definition zone_json :: "layout_zone \<Rightarrow> json" where
  "zone_json z =
     JObj ([(''object_key'', JStr (zone_object_key z)), (''section_key'', JStr (zone_section_key z)),
            (''name'', JStr (zone_name z)), (''default_capacity'', j_int (zone_default_capacity z))]
       @ j_opt ''metadata'' (zone_metadata z))"

definition canvas_json :: "int \<times> int \<Rightarrow> json" where
  "canvas_json = (\<lambda>(w, h). JObj [(''width'', j_int w), (''height'', j_int h)])"

definition objects_json :: "geometry_item list \<Rightarrow> json" where
  "objects_json gs = JArr (map geometry_item_json gs)"

definition layout_body_json :: "layout_body \<Rightarrow> json" where
  "layout_body_json b =
     JObj [(''geometry'', JObj (j_opt ''canvas'' (map_option canvas_json (lb_canvas b))
              @ j_opt ''objects'' (map_option objects_json (lb_objects b)))),
           (''sections'', JArr (map section_json (lb_sections b))),
           (''rows'', JArr (map row_json (st_rows b))),
           (''tables'', JArr (map table_json (st_tables b))),
           (''seats'', JArr (map seat_json (st_seats b))),
           (''ga_zones'', JArr (map zone_json (st_ga_zones b)))]"

datatype allocation_mode = Channel | Non_Public

fun mode_name :: "allocation_mode \<Rightarrow> string" where
  "mode_name Channel = ''CHANNEL''"
| "mode_name Non_Public = ''NON_PUBLIC''"

text \<open>A standing-area target: the inventory id and the number of places, as the number input gave it.\<close>

definition ga_target_json :: "string \<times> rat \<Rightarrow> json" where
  "ga_target_json = (\<lambda>(inventory_id, quantity). JObj [(''inventory_id'', JStr inventory_id), (''quantity'', JNum quantity)])"

section \<open>The operations\<close>

definition api_dashboard :: "string \<Rightarrow> api_request" where
  "api_dashboard token =
     get_request token ''/api/v1/admin/dashboard'' [] []"

definition api_users :: "string \<Rightarrow> string \<Rightarrow> string \<Rightarrow> api_request" where
  "api_users token q st =
     get_request token ''/api/v1/admin/users'' [] [(''query'', or_undefined q), (''state'', or_undefined st), (''limit'', Some ''100'')]"

definition api_events :: "string \<Rightarrow> string \<Rightarrow> string \<Rightarrow> api_request" where
  "api_events token q st =
     get_request token ''/api/v1/admin/events'' [] [(''query'', or_undefined q), (''state'', or_undefined st), (''limit'', Some ''100'')]"

definition api_event :: "string \<Rightarrow> string \<Rightarrow> api_request" where
  "api_event token eventId =
     get_request token ''/api/v1/admin/events/{event_id}'' [(''event_id'', eventId)] []"

definition api_eventConfiguration :: "string \<Rightarrow> string \<Rightarrow> api_request" where
  "api_eventConfiguration token eventId =
     get_request token ''/api/v1/admin/events/{event_id}/configuration'' [(''event_id'', eventId)] []"

definition api_eventInventory :: "string \<Rightarrow> string \<Rightarrow> api_request" where
  "api_eventInventory token eventId =
     get_request token ''/api/v1/admin/events/{event_id}/inventory'' [(''event_id'', eventId)] []"

definition api_restrictions :: "string \<Rightarrow> string \<Rightarrow> api_request" where
  "api_restrictions token eventId =
     raw_get token eventId ''restrictions''"

definition api_accreditationCSV :: "string \<Rightarrow> string \<Rightarrow> api_request" where
  "api_accreditationCSV token eventId =
     raw_get token eventId ''accreditation-export''"

definition api_inventoryReport :: "string \<Rightarrow> string \<Rightarrow> api_request" where
  "api_inventoryReport token eventId =
     get_request token ''/api/v1/admin/events/{event_id}/reports/inventory'' [(''event_id'', eventId)] []"

definition api_salesReport :: "string \<Rightarrow> string \<Rightarrow> api_request" where
  "api_salesReport token eventId =
     get_request token ''/api/v1/admin/events/{event_id}/reports/sales'' [(''event_id'', eventId)] []"

definition api_admissionReport :: "string \<Rightarrow> string \<Rightarrow> api_request" where
  "api_admissionReport token eventId =
     get_request token ''/api/v1/admin/events/{event_id}/reports/admission'' [(''event_id'', eventId)] []"

definition api_audit :: "string \<Rightarrow> string \<Rightarrow> api_request" where
  "api_audit token eventId =
     get_request token ''/api/v1/admin/events/{event_id}/audit'' [(''event_id'', eventId)] [(''limit'', Some ''20'')]"

definition api_venues :: "string \<Rightarrow> api_request" where
  "api_venues token =
     get_request token ''/api/v1/admin/venues'' [] []"

definition api_venue :: "string \<Rightarrow> string \<Rightarrow> api_request" where
  "api_venue token venueId =
     get_request token ''/api/v1/admin/venues/{venue_id}'' [(''venue_id'', venueId)] []"

definition api_layouts :: "string \<Rightarrow> string \<Rightarrow> api_request" where
  "api_layouts token venueId =
     get_request token ''/api/v1/admin/venues/{venue_id}/layout-versions'' [(''venue_id'', venueId)] []"

definition api_layout :: "string \<Rightarrow> string \<Rightarrow> api_request" where
  "api_layout token layoutId =
     get_request token ''/api/v1/admin/venue-layouts/{layout_id}'' [(''layout_id'', layoutId)] []"

definition api_partners :: "string \<Rightarrow> string \<Rightarrow> string \<Rightarrow> api_request" where
  "api_partners token q st =
     get_request token ''/api/v1/admin/partners'' [] [(''query'', or_undefined q), (''state'', or_undefined st), (''limit'', Some ''100'')]"

definition api_partner :: "string \<Rightarrow> string \<Rightarrow> api_request" where
  "api_partner token partnerId =
     get_request token ''/api/v1/admin/partners/{partner_id}'' [(''partner_id'', partnerId)] []"

definition api_tickets :: "string \<Rightarrow> string \<Rightarrow> string \<Rightarrow> string \<Rightarrow> api_request" where
  "api_tickets token q eventId st =
     get_request token ''/api/v1/admin/tickets'' [] [(''query'', or_undefined q), (''event_id'', or_undefined eventId), (''state'', or_undefined st), (''limit'', Some ''100'')]"

definition api_ticket :: "string \<Rightarrow> string \<Rightarrow> api_request" where
  "api_ticket token ticketId =
     get_request token ''/api/v1/admin/tickets/{ticket_id}'' [(''ticket_id'', ticketId)] []"

definition api_admissions :: "string \<Rightarrow> string \<Rightarrow> api_request" where
  "api_admissions token eventId =
     get_request token ''/api/v1/admin/admissions'' [] [(''event_id'', or_undefined eventId), (''limit'', Some ''100'')]"

definition api_webhooks :: "string \<Rightarrow> api_request" where
  "api_webhooks token =
     get_request token ''/api/v1/admin/webhook-endpoints'' [] [(''limit'', Some ''100'')]"

definition api_createEvent :: "string \<Rightarrow> string \<Rightarrow> create_event_body \<Rightarrow> api_request" where
  "api_createEvent token key b =
     key_request POST token key ''/api/v1/admin/events'' [] (Some (create_event_json b))"

definition api_lifecycle :: "string \<Rightarrow> string \<Rightarrow> string \<Rightarrow> lifecycle_action \<Rightarrow> api_request" where
  "api_lifecycle token key eventId action =
     key_request POST token key (''/api/v1/admin/events/{event_id}/'' @ action_path action) [(''event_id'', eventId)] None"

definition api_cancelEvent :: "string \<Rightarrow> string \<Rightarrow> string \<Rightarrow> string \<Rightarrow> api_request" where
  "api_cancelEvent token key eventId reason =
     key_request POST token key ''/api/v1/admin/events/{event_id}/cancel'' [(''event_id'', eventId)] (Some (JObj [(''reason'', JStr reason)]))"

definition api_configurePolicy :: "string \<Rightarrow> string \<Rightarrow> string \<Rightarrow> api_request" where
  "api_configurePolicy token key eventId =
     key_request PUT token key ''/api/v1/admin/events/{event_id}/transaction-policy'' [(''event_id'', eventId)] (Some (default_policy_json))"

definition api_createPriceTier :: "string \<Rightarrow> string \<Rightarrow> string \<Rightarrow> string \<Rightarrow> string \<Rightarrow> int \<Rightarrow> string \<Rightarrow> api_request" where
  "api_createPriceTier token key eventId code name amount cur =
     key_request POST token key ''/api/v1/admin/events/{event_id}/price-tiers'' [(''event_id'', eventId)] (Some (JObj [(''code'', JStr code), (''name'', JStr name), (''amount_minor'', j_int amount), (''currency'', JStr cur)]))"

definition api_assignPricing :: "string \<Rightarrow> string \<Rightarrow> string \<Rightarrow> string \<Rightarrow> string list \<Rightarrow> string list \<Rightarrow> string list \<Rightarrow> api_request" where
  "api_assignPricing token key eventId tierId sectionKeys reservedKeys gaKeys =
     key_request POST token key ''/api/v1/admin/events/{event_id}/pricing/assignments'' [(''event_id'', eventId)] (Some (JObj [(''price_tier_id'', JStr tierId), (''section_object_keys'', JArr (map JStr sectionKeys)), (''reserved_object_keys'', JArr (map JStr reservedKeys)), (''ga_pool_object_keys'', JArr (map JStr gaKeys))]))"

definition api_materializeLayout :: "string \<Rightarrow> string \<Rightarrow> string \<Rightarrow> string \<Rightarrow> api_request" where
  "api_materializeLayout token key eventId layoutId =
     key_request POST token key ''/api/v1/admin/events/{event_id}/materialize-layout'' [(''event_id'', eventId)] (Some (JObj [(''layout_id'', JStr layoutId)]))"

definition api_createVenue :: "string \<Rightarrow> string \<Rightarrow> string \<Rightarrow> string option \<Rightarrow> api_request" where
  "api_createVenue token key name address =
     key_request POST token key ''/api/v1/admin/venues'' [] (Some (JObj ((''name'', JStr name) # j_opt ''address_text'' (map_option JStr address))))"

definition api_createLayout :: "string \<Rightarrow> string \<Rightarrow> string \<Rightarrow> api_request" where
  "api_createLayout token key venueId =
     key_request POST token key ''/api/v1/admin/venues/{venue_id}/layout-versions'' [(''venue_id'', venueId)] None"

definition api_replaceLayout :: "string \<Rightarrow> string \<Rightarrow> string \<Rightarrow> layout_body \<Rightarrow> api_request" where
  "api_replaceLayout token key layoutId b =
     key_request PATCH token key ''/api/v1/admin/venue-layouts/{layout_id}'' [(''layout_id'', layoutId)] (Some (layout_body_json b))"

definition api_publishLayout :: "string \<Rightarrow> string \<Rightarrow> string \<Rightarrow> api_request" where
  "api_publishLayout token key layoutId =
     key_request POST token key ''/api/v1/admin/venue-layouts/{layout_id}/publish'' [(''layout_id'', layoutId)] None"

definition api_createPartner :: "string \<Rightarrow> string \<Rightarrow> string \<Rightarrow> api_request" where
  "api_createPartner token key name =
     key_request POST token key ''/api/v1/admin/partners'' [] (Some (JObj [(''name'', JStr name)]))"

definition api_createPlatformAdmin :: "string \<Rightarrow> string \<Rightarrow> string \<Rightarrow> string \<Rightarrow> api_request" where
  "api_createPlatformAdmin token key email displayName =
     key_request POST token key ''/api/v1/admin/users'' [] (Some (JObj [(''email'', JStr email), (''display_name'', JStr displayName)]))"

definition api_setPlatformAdminState :: "string \<Rightarrow> string \<Rightarrow> string \<Rightarrow> bool \<Rightarrow> string \<Rightarrow> api_request" where
  "api_setPlatformAdminState token key userId enabled reason =
     key_request POST token key (if enabled then ''/api/v1/admin/users/{user_id}/enable'' else ''/api/v1/admin/users/{user_id}/disable'') [(''user_id'', userId)] (Some (JObj [(''reason'', JStr reason)]))"

definition api_setPartnerState :: "string \<Rightarrow> string \<Rightarrow> string \<Rightarrow> bool \<Rightarrow> api_request" where
  "api_setPartnerState token key partnerId enabled =
     key_request POST token key (if enabled then ''/api/v1/admin/partners/{partner_id}/enable'' else ''/api/v1/admin/partners/{partner_id}/disable'') [(''partner_id'', partnerId)] None"

definition api_setPartnerAllowedReturnURLs :: "string \<Rightarrow> string \<Rightarrow> string \<Rightarrow> string list \<Rightarrow> api_request" where
  "api_setPartnerAllowedReturnURLs token key partnerId urls =
     key_request PUT token key ''/api/v1/admin/partners/{partner_id}/allowed-return-urls'' [(''partner_id'', partnerId)] (Some (JObj [(''urls'', JArr (map JStr urls))]))"

definition api_issuePartnerCredential :: "string \<Rightarrow> string \<Rightarrow> string \<Rightarrow> api_request" where
  "api_issuePartnerCredential token key partnerId =
     key_request POST token key ''/api/v1/admin/partners/{partner_id}/credentials'' [(''partner_id'', partnerId)] None"

definition api_revokePartnerCredential :: "string \<Rightarrow> string \<Rightarrow> string \<Rightarrow> api_request" where
  "api_revokePartnerCredential token key credentialId =
     key_request POST token key ''/api/v1/admin/partner-credentials/{credential_id}/revoke'' [(''credential_id'', credentialId)] None"

definition api_setEventAccess :: "string \<Rightarrow> string \<Rightarrow> string \<Rightarrow> string \<Rightarrow> bool \<Rightarrow> api_request" where
  "api_setEventAccess token key eventId partnerId enabled =
     key_request POST token key (if enabled then ''/api/v1/admin/events/{event_id}/partners/{partner_id}/access'' else ''/api/v1/admin/events/{event_id}/partners/{partner_id}/access/disable'') [(''event_id'', eventId), (''partner_id'', partnerId)] None"

definition api_voidTicket :: "string \<Rightarrow> string \<Rightarrow> string \<Rightarrow> string \<Rightarrow> api_request" where
  "api_voidTicket token key ticketId reason =
     key_request POST token key ''/api/v1/admin/tickets/{ticket_id}/void'' [(''ticket_id'', ticketId)] (Some (JObj [(''reason'', JStr reason)]))"

definition api_reissueTicket :: "string \<Rightarrow> string \<Rightarrow> string \<Rightarrow> api_request" where
  "api_reissueTicket token key ticketId =
     key_request POST token key ''/api/v1/admin/tickets/{ticket_id}/credentials/reissue'' [(''ticket_id'', ticketId)] (Some (JObj []))"

definition api_rereleaseTicket :: "string \<Rightarrow> string \<Rightarrow> string \<Rightarrow> string \<Rightarrow> api_request" where
  "api_rereleaseTicket token key ticketId reason =
     key_request POST token key ''/api/v1/admin/tickets/{ticket_id}/inventory/re-release'' [(''ticket_id'', ticketId)] (Some (JObj [(''destination_kind'', JStr ''SHARED''), (''reason'', JStr reason)]))"

definition api_reverseAdmission :: "string \<Rightarrow> string \<Rightarrow> string \<Rightarrow> string \<Rightarrow> api_request" where
  "api_reverseAdmission token key admissionId reason =
     key_request POST token key ''/api/v1/admin/admissions/{admission_id}/reverse'' [(''admission_id'', admissionId)] (Some (JObj [(''reason'', JStr reason)]))"

definition api_manualAdmission :: "string \<Rightarrow> string \<Rightarrow> string \<Rightarrow> string \<Rightarrow> string option \<Rightarrow> string \<Rightarrow> api_request" where
  "api_manualAdmission token key eventId ticketId gate reason =
     key_request POST token key ''/api/v1/admin/admissions/manual-override'' [] (Some (JObj ((''event_id'', JStr eventId) # (''ticket_id'', JStr ticketId) # j_opt ''gate_reference'' (map_option JStr gate) @ [(''reason'', JStr reason)])))"

definition api_createBlock :: "string \<Rightarrow> string \<Rightarrow> string \<Rightarrow> string \<Rightarrow> string \<Rightarrow> string list \<Rightarrow> (string \<times> rat) list \<Rightarrow> api_request" where
  "api_createBlock token key eventId purpose reason ids ga =
     key_request POST token key ''/api/v1/admin/events/{event_id}/blocks'' [(''event_id'', eventId)] (Some (JObj [(''purpose'', JStr purpose), (''reason'', JStr reason), (''reserved_inventory_ids'', JArr (map JStr ids)), (''ga_targets'', JArr (map ga_target_json ga))]))"

definition api_releaseBlock :: "string \<Rightarrow> string \<Rightarrow> string \<Rightarrow> api_request" where
  "api_releaseBlock token key blockId =
     key_request POST token key ''/api/v1/admin/blocks/{block_id}/release'' [(''block_id'', blockId)] None"

definition api_createAllocation :: "string \<Rightarrow> string \<Rightarrow> string \<Rightarrow> allocation_mode \<Rightarrow> string option \<Rightarrow> string \<Rightarrow> string \<Rightarrow> string list \<Rightarrow> (string \<times> rat) list \<Rightarrow> api_request" where
  "api_createAllocation token key eventId mode partner purpose reason ids ga =
     key_request POST token key ''/api/v1/admin/events/{event_id}/allocations'' [(''event_id'', eventId)] (Some (JObj ((''mode'', JStr (mode_name mode)) # j_opt ''partner_id'' (map_option JStr partner) @ [(''purpose'', JStr purpose), (''reason'', JStr reason),
      (''release_destination'', JObj [(''kind'', JStr ''SHARED'')]), (''reserved_inventory_ids'', JArr (map JStr ids)), (''ga_targets'', JArr (map ga_target_json ga))])))"

definition api_releaseAllocation :: "string \<Rightarrow> string \<Rightarrow> string \<Rightarrow> api_request" where
  "api_releaseAllocation token key allocationId =
     key_request POST token key ''/api/v1/admin/allocations/{allocation_id}/release'' [(''allocation_id'', allocationId)] None"

definition api_reclassifyAllocation :: "string \<Rightarrow> string \<Rightarrow> string \<Rightarrow> allocation_mode \<Rightarrow> string option \<Rightarrow> api_request" where
  "api_reclassifyAllocation token key allocationId mode partner =
     key_request POST token key ''/api/v1/admin/allocations/{allocation_id}/reclassify'' [(''allocation_id'', allocationId)] (Some (JObj ((''mode'', JStr (mode_name mode)) # j_opt ''partner_id'' (map_option JStr partner))))"

definition api_createWebhook :: "string \<Rightarrow> string \<Rightarrow> string \<Rightarrow> string \<Rightarrow> string list \<Rightarrow> api_request" where
  "api_createWebhook token key partnerId url subscriptions =
     key_request POST token key ''/api/v1/admin/partners/{partner_id}/webhook-endpoints'' [(''partner_id'', partnerId)] (Some (JObj [(''url'', JStr url), (''subscriptions'', JArr (map JStr subscriptions))]))"

definition api_disableWebhook :: "string \<Rightarrow> string \<Rightarrow> string \<Rightarrow> string \<Rightarrow> api_request" where
  "api_disableWebhook token key endpointId reason =
     key_request POST token key ''/api/v1/admin/webhook-endpoints/{endpoint_id}/disable'' [(''endpoint_id'', endpointId)] (Some (JObj [(''reason'', JStr reason)]))"

definition api_rotateWebhook :: "string \<Rightarrow> string \<Rightarrow> string \<Rightarrow> api_request" where
  "api_rotateWebhook token key endpointId =
     key_request POST token key ''/api/v1/admin/webhook-endpoints/{endpoint_id}/secret/rotate'' [(''endpoint_id'', endpointId)] (Some (JObj []))"

text \<open>One value per call of the module, and the request it makes: the queries, then the commands, which take an idempotency key.\<close>

datatype admin_query =
    Q_dashboard
  | Q_users string string
  | Q_events string string
  | Q_event string
  | Q_eventConfiguration string
  | Q_eventInventory string
  | Q_restrictions string
  | Q_accreditationCSV string
  | Q_inventoryReport string
  | Q_salesReport string
  | Q_admissionReport string
  | Q_audit string
  | Q_venues
  | Q_venue string
  | Q_layouts string
  | Q_layout string
  | Q_partners string string
  | Q_partner string
  | Q_tickets string string string
  | Q_ticket string
  | Q_admissions string
  | Q_webhooks

datatype admin_command =
    C_createEvent create_event_body
  | C_lifecycle string lifecycle_action
  | C_cancelEvent string string
  | C_configurePolicy string
  | C_createPriceTier string string string int string
  | C_assignPricing string string "string list" "string list" "string list"
  | C_materializeLayout string string
  | C_createVenue string "string option"
  | C_createLayout string
  | C_replaceLayout string layout_body
  | C_publishLayout string
  | C_createPartner string
  | C_createPlatformAdmin string string
  | C_setPlatformAdminState string bool string
  | C_setPartnerState string bool
  | C_setPartnerAllowedReturnURLs string "string list"
  | C_issuePartnerCredential string
  | C_revokePartnerCredential string
  | C_setEventAccess string string bool
  | C_voidTicket string string
  | C_reissueTicket string
  | C_rereleaseTicket string string
  | C_reverseAdmission string string
  | C_manualAdmission string string "string option" string
  | C_createBlock string string string "string list" "(string \<times> rat) list"
  | C_releaseBlock string
  | C_createAllocation string allocation_mode "string option" string string "string list" "(string \<times> rat) list"
  | C_releaseAllocation string
  | C_reclassifyAllocation string allocation_mode "string option"
  | C_createWebhook string string "string list"
  | C_disableWebhook string string
  | C_rotateWebhook string

primrec query_request :: "string \<Rightarrow> admin_query \<Rightarrow> api_request" where
  "query_request token Q_dashboard = api_dashboard token"
| "query_request token (Q_users q st) = api_users token q st"
| "query_request token (Q_events q st) = api_events token q st"
| "query_request token (Q_event eventId) = api_event token eventId"
| "query_request token (Q_eventConfiguration eventId) = api_eventConfiguration token eventId"
| "query_request token (Q_eventInventory eventId) = api_eventInventory token eventId"
| "query_request token (Q_restrictions eventId) = api_restrictions token eventId"
| "query_request token (Q_accreditationCSV eventId) = api_accreditationCSV token eventId"
| "query_request token (Q_inventoryReport eventId) = api_inventoryReport token eventId"
| "query_request token (Q_salesReport eventId) = api_salesReport token eventId"
| "query_request token (Q_admissionReport eventId) = api_admissionReport token eventId"
| "query_request token (Q_audit eventId) = api_audit token eventId"
| "query_request token Q_venues = api_venues token"
| "query_request token (Q_venue venueId) = api_venue token venueId"
| "query_request token (Q_layouts venueId) = api_layouts token venueId"
| "query_request token (Q_layout layoutId) = api_layout token layoutId"
| "query_request token (Q_partners q st) = api_partners token q st"
| "query_request token (Q_partner partnerId) = api_partner token partnerId"
| "query_request token (Q_tickets q eventId st) = api_tickets token q eventId st"
| "query_request token (Q_ticket ticketId) = api_ticket token ticketId"
| "query_request token (Q_admissions eventId) = api_admissions token eventId"
| "query_request token Q_webhooks = api_webhooks token"

primrec command_request :: "string \<Rightarrow> string \<Rightarrow> admin_command \<Rightarrow> api_request" where
  "command_request token key (C_createEvent b) = api_createEvent token key b"
| "command_request token key (C_lifecycle eventId action) = api_lifecycle token key eventId action"
| "command_request token key (C_cancelEvent eventId reason) = api_cancelEvent token key eventId reason"
| "command_request token key (C_configurePolicy eventId) = api_configurePolicy token key eventId"
| "command_request token key (C_createPriceTier eventId code name amount cur) = api_createPriceTier token key eventId code name amount cur"
| "command_request token key (C_assignPricing eventId tierId sectionKeys reservedKeys gaKeys) = api_assignPricing token key eventId tierId sectionKeys reservedKeys gaKeys"
| "command_request token key (C_materializeLayout eventId layoutId) = api_materializeLayout token key eventId layoutId"
| "command_request token key (C_createVenue name address) = api_createVenue token key name address"
| "command_request token key (C_createLayout venueId) = api_createLayout token key venueId"
| "command_request token key (C_replaceLayout layoutId b) = api_replaceLayout token key layoutId b"
| "command_request token key (C_publishLayout layoutId) = api_publishLayout token key layoutId"
| "command_request token key (C_createPartner name) = api_createPartner token key name"
| "command_request token key (C_createPlatformAdmin email displayName) = api_createPlatformAdmin token key email displayName"
| "command_request token key (C_setPlatformAdminState userId enabled reason) = api_setPlatformAdminState token key userId enabled reason"
| "command_request token key (C_setPartnerState partnerId enabled) = api_setPartnerState token key partnerId enabled"
| "command_request token key (C_setPartnerAllowedReturnURLs partnerId urls) = api_setPartnerAllowedReturnURLs token key partnerId urls"
| "command_request token key (C_issuePartnerCredential partnerId) = api_issuePartnerCredential token key partnerId"
| "command_request token key (C_revokePartnerCredential credentialId) = api_revokePartnerCredential token key credentialId"
| "command_request token key (C_setEventAccess eventId partnerId enabled) = api_setEventAccess token key eventId partnerId enabled"
| "command_request token key (C_voidTicket ticketId reason) = api_voidTicket token key ticketId reason"
| "command_request token key (C_reissueTicket ticketId) = api_reissueTicket token key ticketId"
| "command_request token key (C_rereleaseTicket ticketId reason) = api_rereleaseTicket token key ticketId reason"
| "command_request token key (C_reverseAdmission admissionId reason) = api_reverseAdmission token key admissionId reason"
| "command_request token key (C_manualAdmission eventId ticketId gate reason) = api_manualAdmission token key eventId ticketId gate reason"
| "command_request token key (C_createBlock eventId purpose reason ids ga) = api_createBlock token key eventId purpose reason ids ga"
| "command_request token key (C_releaseBlock blockId) = api_releaseBlock token key blockId"
| "command_request token key (C_createAllocation eventId mode partner purpose reason ids ga) = api_createAllocation token key eventId mode partner purpose reason ids ga"
| "command_request token key (C_releaseAllocation allocationId) = api_releaseAllocation token key allocationId"
| "command_request token key (C_reclassifyAllocation allocationId mode partner) = api_reclassifyAllocation token key allocationId mode partner"
| "command_request token key (C_createWebhook partnerId url subscriptions) = api_createWebhook token key partnerId url subscriptions"
| "command_request token key (C_disableWebhook endpointId reason) = api_disableWebhook token key endpointId reason"
| "command_request token key (C_rotateWebhook endpointId) = api_rotateWebhook token key endpointId"

lemmas api_defs = api_dashboard_def api_users_def api_events_def api_event_def api_eventConfiguration_def api_eventInventory_def api_restrictions_def api_accreditationCSV_def api_inventoryReport_def api_salesReport_def api_admissionReport_def api_audit_def api_venues_def api_venue_def api_layouts_def api_layout_def api_partners_def api_partner_def api_tickets_def api_ticket_def api_admissions_def api_webhooks_def api_createEvent_def api_lifecycle_def api_cancelEvent_def api_configurePolicy_def api_createPriceTier_def api_assignPricing_def api_materializeLayout_def api_createVenue_def api_createLayout_def api_replaceLayout_def api_publishLayout_def api_createPartner_def api_createPlatformAdmin_def api_setPlatformAdminState_def api_setPartnerState_def api_setPartnerAllowedReturnURLs_def api_issuePartnerCredential_def api_revokePartnerCredential_def api_setEventAccess_def api_voidTicket_def api_reissueTicket_def api_rereleaseTicket_def api_reverseAdmission_def api_manualAdmission_def api_createBlock_def api_releaseBlock_def api_createAllocation_def api_releaseAllocation_def api_reclassifyAllocation_def api_createWebhook_def api_disableWebhook_def api_rotateWebhook_def

section \<open>Answers\<close>

text \<open>
  What awaiting a call gives: the client's data or error with the response, or a rejected promise
  (the network failed, the body was cut off). \<open>to_text\<close> is \<open>String(value)\<close> on a message that is
  no string.
\<close>

record http_response =
  hr_status :: int
  hr_request_id :: "string option"

definition response_ok :: "http_response \<Rightarrow> bool" where
  "response_ok r \<longleftrightarrow> 200 \<le> hr_status r \<and> hr_status r \<le> 299"

record client_answer =
  ca_data :: "json option"
  ca_error :: "json option"
  ca_response :: http_response

record admin_error =
  ae_message :: string
  ae_code :: "json option"
  ae_request_id :: "string option"
  ae_ambiguous :: bool

definition error_text :: "(json \<Rightarrow> string) \<Rightarrow> json \<Rightarrow> string" where
  "error_text to_text v = (case v of JStr s \<Rightarrow> s | _ \<Rightarrow> to_text v)"

definition parseError :: "(json \<Rightarrow> string) \<Rightarrow> json option \<Rightarrow> http_response \<Rightarrow> admin_error" where
  "parseError to_text candidate response =
     (let nested = js_get ''error'' candidate;
          fallback = ''Request failed ('' @ int_str (hr_status response) @ '')'';
          message = (case js_nullish (js_get ''message'' nested) (js_nullish (js_get ''message'' candidate) None) of
                       Some v \<Rightarrow> error_text to_text v | None \<Rightarrow> fallback)
      in \<lparr>ae_message = message,
          ae_code = js_nullish (js_get ''code'' nested) (js_get ''code'' candidate),
          ae_request_id = hr_request_id response, ae_ambiguous = False\<rparr>)"

definition unconfirmed :: admin_error where
  "unconfirmed =
     \<lparr>ae_message = ''The result could not be confirmed. Check the latest state before retrying.'',
      ae_code = None, ae_request_id = None, ae_ambiguous = True\<rparr>"

definition api_result ::
    "(json \<Rightarrow> string) \<Rightarrow> client_answer option \<Rightarrow> admin_error + json option" where
  "api_result to_text awaited =
     (case awaited of
        None \<Rightarrow> Inl unconfirmed
      | Some a \<Rightarrow>
          if ca_error a \<noteq> None \<or> \<not> response_ok (ca_response a)
          then Inl (parseError to_text (ca_error a) (ca_response a))
          else Inr (ca_data a))"

section \<open>Every request is well formed\<close>

text \<open>The placeholders \<open>{name}\<close> of a path template.\<close>

primrec scan_template :: "string \<Rightarrow> string option \<Rightarrow> string list" where
  "scan_template [] m = []"
| "scan_template (c # s) m =
     (case m of
        None \<Rightarrow> scan_template s (if c = CHR ''{'' then Some [] else None)
      | Some name \<Rightarrow>
          if c = CHR ''}'' then name # scan_template s None else scan_template s (Some (name @ [c])))"

definition placeholders :: "string \<Rightarrow> string list" where
  "placeholders path = scan_template path None"

definition keyed :: "string \<Rightarrow> string \<Rightarrow> api_request \<Rightarrow> bool" where
  "keyed token key r \<longleftrightarrow>
     req_method r \<noteq> GET \<and> req_headers r = auth_headers token (Some key) \<and>
     req_header_params r = [(''Idempotency-Key'', key)] \<and> req_query r = [] \<and>
     placeholders (req_path r) = map fst (req_path_params r)"

definition read_only :: "string \<Rightarrow> api_request \<Rightarrow> bool" where
  "read_only token r \<longleftrightarrow>
     req_method r = GET \<and> req_headers r = auth_headers token None \<and> req_header_params r = [] \<and>
     req_body r = None"

lemma keyed_key_request:
  "m \<noteq> GET \<Longrightarrow> placeholders path = map fst params \<Longrightarrow> keyed token key (key_request m token key path params body)"
  by (simp add: keyed_def key_request_def)

lemma action_path_plain: "scan_template (action_path a) None = []"
  by (cases a) simp_all

lemma command_request_keyed: "keyed token key (command_request token key c)"
  by (cases c) (auto simp: api_defs placeholders_def action_path_plain intro!: keyed_key_request)

lemma query_request_read_only: "read_only token (query_request token q)"
  by (cases q) (simp_all add: api_defs read_only_def get_request_def raw_get_def)

lemma query_request_template: "(\<forall>e. q \<noteq> Q_restrictions e) \<Longrightarrow> (\<forall>e. q \<noteq> Q_accreditationCSV e) \<Longrightarrow>
   placeholders (req_path (query_request token q)) = map fst (req_path_params (query_request token q))"
  by (cases q) (simp_all add: api_defs get_request_def placeholders_def)

lemma api_result_error_iff:
  "(\<exists>e. api_result to_text awaited = Inl e \<and> ae_ambiguous e) \<longleftrightarrow> awaited = None"
  by (auto simp: api_result_def unconfirmed_def parseError_def Let_def split: option.splits if_splits)

lemma api_result_ok_iff:
  "api_result to_text awaited = Inr d \<longleftrightarrow>
   (\<exists>a. awaited = Some a \<and> ca_error a = None \<and> response_ok (ca_response a) \<and> ca_data a = d)"
  by (auto simp: api_result_def split: option.splits)

end
