(* ===== verification/Admin_Queries.thy ===== *)
theory Admin_Queries
  imports Admin_Api Intent_Keys
begin

text \<open>
  The query and mutation hooks of the organiser application (\<^verbatim>\<open>features/admin/queries.ts\<close>):
  the cache keys (\<open>adminKeys\<close>), the options each hook hands to the query library, and
  \<open>useIntentMutation\<close>, which sends a command under the key of its intent. The query library is
  not modelled: a hook is its cache key, its call and whether it is enabled.
\<close>

section \<open>Cache keys\<close>

definition keys_dashboard :: "string list" where
  "keys_dashboard = [''admin'', ''dashboard'']"

definition keys_usersRoot :: "string list" where
  "keys_usersRoot = [''admin'', ''users'']"

definition keys_users :: "string \<Rightarrow> string \<Rightarrow> string list" where
  "keys_users query state = [''admin'', ''users'', query, state]"

definition keys_events :: "string \<Rightarrow> string \<Rightarrow> string list" where
  "keys_events query state = [''admin'', ''events'', query, state]"

definition keys_event :: "string \<Rightarrow> string list" where
  "keys_event i = [''admin'', ''event'', i]"

definition keys_configuration :: "string \<Rightarrow> string list" where
  "keys_configuration i = [''admin'', ''event'', i, ''configuration'']"

definition keys_inventory :: "string \<Rightarrow> string list" where
  "keys_inventory i = [''admin'', ''event'', i, ''inventory'']"

definition keys_restrictions :: "string \<Rightarrow> string list" where
  "keys_restrictions i = [''admin'', ''event'', i, ''restrictions'']"

definition keys_inventoryReport :: "string \<Rightarrow> string list" where
  "keys_inventoryReport i = [''admin'', ''event'', i, ''report'', ''inventory'']"

definition keys_salesReport :: "string \<Rightarrow> string list" where
  "keys_salesReport i = [''admin'', ''event'', i, ''report'', ''sales'']"

definition keys_admissionReport :: "string \<Rightarrow> string list" where
  "keys_admissionReport i = [''admin'', ''event'', i, ''report'', ''admission'']"

definition keys_audit :: "string \<Rightarrow> string list" where
  "keys_audit i = [''admin'', ''event'', i, ''audit'']"

definition keys_venues :: "string list" where
  "keys_venues = [''admin'', ''venues'']"

definition keys_venue :: "string \<Rightarrow> string list" where
  "keys_venue i = [''admin'', ''venue'', i]"

definition keys_layouts :: "string \<Rightarrow> string list" where
  "keys_layouts i = [''admin'', ''venue'', i, ''layouts'']"

definition keys_partners :: "string \<Rightarrow> string \<Rightarrow> string list" where
  "keys_partners query state = [''admin'', ''partners'', query, state]"

definition keys_partner :: "string \<Rightarrow> string list" where
  "keys_partner i = [''admin'', ''partner'', i]"

definition keys_tickets :: "string \<Rightarrow> string \<Rightarrow> string \<Rightarrow> string list" where
  "keys_tickets query eventId state = [''admin'', ''tickets'', query, eventId, state]"

definition keys_admissions :: "string \<Rightarrow> string list" where
  "keys_admissions eventId = [''admin'', ''admissions'', eventId]"

definition keys_webhooks :: "string list" where
  "keys_webhooks = [''admin'', ''webhooks'']"

lemmas keys_defs =
  keys_dashboard_def keys_usersRoot_def keys_users_def keys_events_def keys_event_def keys_configuration_def keys_inventory_def keys_restrictions_def keys_inventoryReport_def keys_salesReport_def keys_admissionReport_def keys_audit_def keys_venues_def keys_venue_def keys_layouts_def keys_partners_def keys_partner_def keys_tickets_def keys_admissions_def keys_webhooks_def

section \<open>Queries\<close>

record query_options =
  qo_key :: "string list"
  qo_call :: admin_query
  qo_enabled :: bool

definition useDashboard :: "query_options" where
  "useDashboard = \<lparr>qo_key = keys_dashboard, qo_call = Q_dashboard, qo_enabled = True\<rparr>"

definition usePlatformAdmins :: "string \<Rightarrow> string \<Rightarrow> query_options" where
  "usePlatformAdmins query state = \<lparr>qo_key = keys_users query state, qo_call = Q_users query state, qo_enabled = True\<rparr>"

definition useEvents :: "string \<Rightarrow> string \<Rightarrow> query_options" where
  "useEvents query state = \<lparr>qo_key = keys_events query state, qo_call = Q_events query state, qo_enabled = True\<rparr>"

definition useVenues :: "query_options" where
  "useVenues = \<lparr>qo_key = keys_venues, qo_call = Q_venues, qo_enabled = True\<rparr>"

definition usePartners :: "string \<Rightarrow> string \<Rightarrow> query_options" where
  "usePartners query state = \<lparr>qo_key = keys_partners query state, qo_call = Q_partners query state, qo_enabled = True\<rparr>"

definition useTickets :: "string \<Rightarrow> string \<Rightarrow> string \<Rightarrow> query_options" where
  "useTickets query eventId state = \<lparr>qo_key = keys_tickets query eventId state, qo_call = Q_tickets query eventId state, qo_enabled = True\<rparr>"

definition useAdmissions :: "string \<Rightarrow> query_options" where
  "useAdmissions eventId = \<lparr>qo_key = keys_admissions eventId, qo_call = Q_admissions eventId, qo_enabled = True\<rparr>"

definition useWebhooks :: "query_options" where
  "useWebhooks = \<lparr>qo_key = keys_webhooks, qo_call = Q_webhooks, qo_enabled = True\<rparr>"

definition useEvent :: "string \<Rightarrow> query_options" where
  "useEvent i = \<lparr>qo_key = keys_event i, qo_call = Q_event i, qo_enabled = (i \<noteq> [])\<rparr>"

definition usePartner :: "string \<Rightarrow> query_options" where
  "usePartner i = \<lparr>qo_key = keys_partner i, qo_call = Q_partner i, qo_enabled = (i \<noteq> [])\<rparr>"

definition useAdmissionReport :: "string \<Rightarrow> query_options" where
  "useAdmissionReport i = \<lparr>qo_key = keys_admissionReport i, qo_call = Q_admissionReport i, qo_enabled = (i \<noteq> [])\<rparr>"

definition useEventWorkspace :: "string \<Rightarrow> query_options list" where
  "useEventWorkspace i =
     [\<lparr>qo_key = keys_configuration i, qo_call = Q_eventConfiguration i, qo_enabled = (i \<noteq> [])\<rparr>,
      \<lparr>qo_key = keys_inventory i, qo_call = Q_eventInventory i, qo_enabled = (i \<noteq> [])\<rparr>,
      \<lparr>qo_key = keys_restrictions i, qo_call = Q_restrictions i, qo_enabled = (i \<noteq> [])\<rparr>,
      \<lparr>qo_key = keys_inventoryReport i, qo_call = Q_inventoryReport i, qo_enabled = (i \<noteq> [])\<rparr>,
      \<lparr>qo_key = keys_salesReport i, qo_call = Q_salesReport i, qo_enabled = (i \<noteq> [])\<rparr>,
      \<lparr>qo_key = keys_admissionReport i, qo_call = Q_admissionReport i, qo_enabled = (i \<noteq> [])\<rparr>,
      \<lparr>qo_key = keys_audit i, qo_call = Q_audit i, qo_enabled = (i \<noteq> [])\<rparr>]"

definition useEventReports :: "string \<Rightarrow> query_options list" where
  "useEventReports i =
     [\<lparr>qo_key = keys_inventoryReport i, qo_call = Q_inventoryReport i, qo_enabled = (i \<noteq> [])\<rparr>,
      \<lparr>qo_key = keys_salesReport i, qo_call = Q_salesReport i, qo_enabled = (i \<noteq> [])\<rparr>,
      \<lparr>qo_key = keys_admissionReport i, qo_call = Q_admissionReport i, qo_enabled = (i \<noteq> [])\<rparr>]"

definition useVenue :: "string \<Rightarrow> query_options list" where
  "useVenue i =
     [\<lparr>qo_key = keys_venue i, qo_call = Q_venue i, qo_enabled = (i \<noteq> [])\<rparr>,
      \<lparr>qo_key = keys_layouts i, qo_call = Q_layouts i, qo_enabled = (i \<noteq> [])\<rparr>]"

lemmas hook_defs =
  useDashboard_def usePlatformAdmins_def useEvents_def useVenues_def usePartners_def useTickets_def useAdmissions_def useWebhooks_def useEvent_def usePartner_def useAdmissionReport_def useEventWorkspace_def useEventReports_def useVenue_def

text \<open>Every option record the hooks produce.\<close>

inductive issued :: "query_options \<Rightarrow> bool" where
  issued_dashboard: "issued useDashboard"
| issued_users: "issued (usePlatformAdmins query state)"
| issued_events: "issued (useEvents query state)"
| issued_venues: "issued useVenues"
| issued_partners: "issued (usePartners query state)"
| issued_tickets: "issued (useTickets query eventId state)"
| issued_admissions: "issued (useAdmissions eventId)"
| issued_webhooks: "issued useWebhooks"
| issued_useEvent: "issued (useEvent i)"
| issued_usePartner: "issued (usePartner i)"
| issued_useAdmissionReport: "issued (useAdmissionReport i)"
| issued_useEventWorkspace: "qo \<in> set (useEventWorkspace i) \<Longrightarrow> issued qo"
| issued_useEventReports: "qo \<in> set (useEventReports i) \<Longrightarrow> issued qo"
| issued_useVenue: "qo \<in> set (useVenue i) \<Longrightarrow> issued qo"

text \<open>Reading a cache key back: the call it stands for.\<close>

definition call_of_key :: "string list \<Rightarrow> admin_query option" where
  "call_of_key key =
     (case drop 1 key of
        [a] \<Rightarrow>
          if a = ''dashboard'' then Some Q_dashboard
          else if a = ''venues'' then Some Q_venues
          else if a = ''webhooks'' then Some Q_webhooks
          else None
      | [a, b] \<Rightarrow>
          if a = ''event'' then Some (Q_event b)
          else if a = ''venue'' then Some (Q_venue b)
          else if a = ''partner'' then Some (Q_partner b)
          else if a = ''admissions'' then Some (Q_admissions b)
          else None
      | [a, b, c] \<Rightarrow>
          if a = ''users'' then Some (Q_users b c)
          else if a = ''events'' then Some (Q_events b c)
          else if a = ''partners'' then Some (Q_partners b c)
          else if a = ''venue'' then Some (Q_layouts b)
          else if c = ''configuration'' then Some (Q_eventConfiguration b)
          else if c = ''inventory'' then Some (Q_eventInventory b)
          else if c = ''restrictions'' then Some (Q_restrictions b)
          else Some (Q_audit b)
      | [a, b, c, d] \<Rightarrow>
          if a = ''tickets'' then Some (Q_tickets b c d)
          else if d = ''inventory'' then Some (Q_inventoryReport b)
          else if d = ''sales'' then Some (Q_salesReport b)
          else Some (Q_admissionReport b)
      | _ \<Rightarrow> None)"

lemma call_of_issued: "issued qo \<Longrightarrow> call_of_key (qo_key qo) = Some (qo_call qo)"
  by (induction rule: issued.induct) (auto simp: hook_defs keys_defs call_of_key_def)

lemma key_determines_call: "issued a \<Longrightarrow> issued b \<Longrightarrow> qo_key a = qo_key b \<Longrightarrow> qo_call a = qo_call b"
  using call_of_issued [of a] call_of_issued [of b] by simp

section \<open>Mutations under the key of their intent\<close>

text \<open>
  A use of \<open>useIntentMutation\<close>: the intent and the command of its variables, and the cache keys it
  invalidates on success. What the component's closures read is part of the variables.
\<close>

record 'v intent_mutation =
  im_intent :: "'v \<Rightarrow> string"
  im_call :: "'v \<Rightarrow> admin_command"
  im_invalidate :: "string list list"

definition mutation_start ::
    "'v intent_mutation \<Rightarrow> string \<Rightarrow> key_store \<Rightarrow> string \<Rightarrow> 'v \<Rightarrow> api_request \<times> key_store" where
  "mutation_start m token store created v =
     (case take_or_create store (im_intent m v) created of
        (key, store') \<Rightarrow> (command_request token key (im_call m v), store'))"

text \<open>\<^const>\<open>None\<close> as the failure is an exception that is no \<open>AdminApiError\<close>.\<close>

definition mutation_finish ::
    "'v intent_mutation \<Rightarrow> key_store \<Rightarrow> 'v \<Rightarrow> admin_error option + json option \<Rightarrow> key_store" where
  "mutation_finish m store v outcome =
     (case outcome of
        Inr d \<Rightarrow> clearIntentKey store (im_intent m v)
      | Inl (Some e) \<Rightarrow> if ae_ambiguous e then store else clearIntentKey store (im_intent m v)
      | Inl None \<Rightarrow> clearIntentKey store (im_intent m v))"

definition mutation_invalidates :: "'v intent_mutation \<Rightarrow> admin_error option + json option \<Rightarrow> string list list" where
  "mutation_invalidates m outcome = (case outcome of Inr d \<Rightarrow> im_invalidate m | Inl e \<Rightarrow> [])"

text \<open>One \<open>mutateAsync\<close>: the request, and the keys kept after the answer.\<close>

definition mutate ::
    "(json \<Rightarrow> string) \<Rightarrow> 'v intent_mutation \<Rightarrow> string \<Rightarrow> 'v \<Rightarrow> string \<times> client_answer option \<Rightarrow> key_store
     \<Rightarrow> api_request \<times> key_store" where
  "mutate to_text m token v event store =
     (case mutation_start m token store (fst event) v of
        (request, store') \<Rightarrow>
          (request, mutation_finish m store' v
             (case api_result to_text (snd event) of Inl e \<Rightarrow> Inl (Some e) | Inr d \<Rightarrow> Inr d)))"

fun mutate_all ::
    "(json \<Rightarrow> string) \<Rightarrow> 'v intent_mutation \<Rightarrow> string \<Rightarrow> 'v \<Rightarrow> (string \<times> client_answer option) list \<Rightarrow> key_store
     \<Rightarrow> api_request list" where
  "mutate_all to_text m token v [] store = []"
| "mutate_all to_text m token v (e # es) store =
     (case mutate to_text m token v e store of
        (request, store') \<Rightarrow> request # mutate_all to_text m token v es store')"

definition certainty_of :: "client_answer option \<Rightarrow> certainty" where
  "certainty_of awaited = (if awaited = None then Ambiguous else Definite)"

lemma mutate_attempt:
  "mutate to_text m token v (created, awaited) store =
   (case attempt take_or_create clearIntentKey (im_intent m v) (created, certainty_of awaited) store of
      (key, store') \<Rightarrow> (command_request token key (im_call m v), store'))"
proof (cases awaited)
  case None
  then show ?thesis
    by (simp add: mutate_def mutation_start_def mutation_finish_def attempt_def certainty_of_def
        api_result_def unconfirmed_def split_beta)
next
  case (Some a)
  have "\<not> ae_ambiguous e" if "api_result to_text (Some a) = Inl e" for e
    using api_result_error_iff [of to_text "Some a"] that by auto
  then show ?thesis
    by (cases "api_result to_text (Some a)")
      (simp_all add: Some mutate_def mutation_start_def mutation_finish_def attempt_def certainty_of_def split_beta)
qed

lemma mutate_all_attempts:
  "mutate_all to_text m token v es store =
   map (\<lambda>key. command_request token key (im_call m v))
     (fst (attempts take_or_create clearIntentKey (im_intent m v)
        (map (\<lambda>(created, awaited). (created, certainty_of awaited)) es) store))"
proof (induction es arbitrary: store)
  case (Cons e es)
  then show ?case by (cases e) (simp add: mutate_attempt split_beta)
qed simp

text \<open>Until an answer comes, every attempt is the same request.\<close>

lemma unanswered_same_request:
  assumes "store (im_intent m v) = None" and "created \<noteq> []" and "\<forall>e \<in> set (butlast ((created, awaited) # es)). snd e = None"
  shows "mutate_all to_text m token v ((created, awaited) # es) store =
         replicate (Suc (length es)) (command_request token created (im_call m v))"
proof -
  let ?f = "\<lambda>(c, awaited). (c, certainty_of awaited)"
  have "\<forall>fc \<in> set (butlast (map ?f ((created, awaited) # es))). snd fc = Ambiguous"
    unfolding map_butlast [symmetric] using assms(3) unfolding certainty_of_def by fastforce
  then have "\<forall>fc \<in> set (butlast ((created, certainty_of awaited) # map ?f es)). snd fc = Ambiguous" by simp
  from inline_keys.attempts_same_key [of store, OF assms(1,2) this] show ?thesis
    unfolding mutate_all_attempts by simp
qed

text \<open>Two values of the variables with the same intent stand for the same command, among those in use.\<close>

definition sound_on :: "('v \<Rightarrow> bool) \<Rightarrow> 'v intent_mutation \<Rightarrow> bool" where
  "sound_on P m \<longleftrightarrow> (\<forall>v w. P v \<longrightarrow> P w \<longrightarrow> im_intent m v = im_intent m w \<longrightarrow> im_call m v = im_call m w)"

lemma sound_onI:
  "(\<And>v w. P v \<Longrightarrow> P w \<Longrightarrow> im_intent m v = im_intent m w \<Longrightarrow> im_call m v = im_call m w) \<Longrightarrow> sound_on P m"
  unfolding sound_on_def by blast

text \<open>Identifiers contain no separator.\<close>

definition plain :: "string \<Rightarrow> bool" where
  "plain s \<longleftrightarrow> CHR '':'' \<notin> set s"

lemma plain_sep: "a @ CHR '':'' # x = b @ CHR '':'' # y \<Longrightarrow> plain a \<Longrightarrow> plain b \<Longrightarrow> a = b \<and> x = y"
  by (rule append_sep_eq) (simp_all add: plain_def)

definition bool_text :: "bool \<Rightarrow> string" where
  "bool_text b = (if b then ''true'' else ''false'')"

lemma bool_text_simps [simp]: "bool_text a = bool_text b \<longleftrightarrow> a = b" "plain (bool_text b)"
  by (auto simp: bool_text_def plain_def)

end
