(* ===== verification/Admin_Forms.thy ===== *)
theory Admin_Forms
  imports Admin_Queries
begin

text \<open>
  The forms of the organiser application's list pages: administrators (\<^verbatim>\<open>UsersPage.tsx\<close>),
  partners (\<^verbatim>\<open>PartnersListPage.tsx\<close>), venues (\<^verbatim>\<open>VenuesListPage.tsx\<close>, \<^verbatim>\<open>VenueDetailPage.tsx\<close>), webhooks
  (\<^verbatim>\<open>IntegrationsPage.tsx\<close>), tickets (\<^verbatim>\<open>TicketsPage.tsx\<close>) and admissions (\<^verbatim>\<open>AdmissionsPage.tsx\<close>).
  Each has its commands with their intents, and its submit handler, which checks and trims what
  was typed and gives the variables of the command or nothing. What a command's closure reads
  from the page is part of its variables.
\<close>

text \<open>\<open>String(form.get(field) || state)\<close>.\<close>

definition form_or :: "string option \<Rightarrow> string \<Rightarrow> string" where
  "form_or field st = or_else (nullish field []) st"

section \<open>Administrators\<close>

definition email_cls :: cls where
  "email_cls s = (if ws_cls s = 0 then none_of ''@'' s else 0)"

definition emailPattern :: regex where
  "emailPattern = [[AtStart, Many 1 None email_cls, One (one_of ''@''), Many 1 None email_cls, AtEnd]]"

definition isEmailAddress :: "string \<Rightarrow> bool" where
  "isEmailAddress v \<longleftrightarrow> js_length v \<le> 254 \<and> test_regex emailPattern (trim v)"

definition users_create :: "(string \<times> string) intent_mutation" where
  "users_create =
     \<lparr>im_intent = (\<lambda>(email, display_name). ''platform-admin:create:'' @ email),
      im_call = (\<lambda>(email, display_name). C_createPlatformAdmin email display_name),
      im_invalidate = [keys_usersRoot]\<rparr>"

definition users_changeState :: "(string \<times> bool \<times> string) intent_mutation" where
  "users_changeState =
     \<lparr>im_intent = (\<lambda>(user, enabled, reason). ''platform-admin:'' @ user @ '':'' @ bool_text enabled @ '':'' @ reason),
      im_call = (\<lambda>(user, enabled, reason). C_setPlatformAdminState user enabled reason),
      im_invalidate = [keys_usersRoot]\<rparr>"

definition users_submitAdd :: "string option \<Rightarrow> string option \<Rightarrow> string \<Rightarrow> string \<Rightarrow> (string \<times> string) option" where
  "users_submitAdd formEmail formName email displayName =
     (let e = to_lower (trim (form_or formEmail email)); n = trim (form_or formName displayName)
      in if n = [] \<or> \<not> isEmailAddress e then None else Some (e, n))"

text \<open>The selected user is its id and whether it is disabled.\<close>

definition users_submitState :: "(string \<times> bool) option \<Rightarrow> string option \<Rightarrow> string \<Rightarrow> (string \<times> bool \<times> string) option" where
  "users_submitState selected formReason reason =
     (let r = trim (form_or formReason reason)
      in case selected of
           None \<Rightarrow> None
         | Some (user, disabled) \<Rightarrow> if r = [] then None else Some (user, disabled, r))"

section \<open>Partners\<close>

definition partners_create :: "string intent_mutation" where
  "partners_create =
     \<lparr>im_intent = (\<lambda>v. ''partner:'' @ trim v), im_call = (\<lambda>v. C_createPartner (trim v)),
      im_invalidate = [keys_partners [] []]\<rparr>"

definition partners_filter :: "string \<Rightarrow> string list \<Rightarrow> string list" where
  "partners_filter q names = filter (\<lambda>name. js_includes (to_lower (trim q)) (to_lower name)) names"

definition partners_submit :: "string option \<Rightarrow> string \<Rightarrow> string option" where
  "partners_submit formName name =
     (let v = form_or formName name in if trim v = [] then None else Some v)"

section \<open>Venues\<close>

definition venues_create :: "(string \<times> string) intent_mutation" where
  "venues_create =
     \<lparr>im_intent = (\<lambda>(name, address). ''venue:'' @ trim name @ '':'' @ trim address),
      im_call = (\<lambda>(name, address). C_createVenue (trim name) (or_undefined (trim address))),
      im_invalidate = [keys_venues]\<rparr>"

definition venues_filter :: "string \<Rightarrow> (string \<times> string option) list \<Rightarrow> (string \<times> string option) list" where
  "venues_filter q vs =
     filter (\<lambda>(name, address). js_includes (to_lower (trim q)) (to_lower (name @ '' '' @ nullish address []))) vs"

definition venues_submit :: "string option \<Rightarrow> string option \<Rightarrow> string \<Rightarrow> string \<Rightarrow> (string \<times> string) option" where
  "venues_submit formName formAddress name address =
     (let n = form_or formName name; a = form_or formAddress address in if trim n = [] then None else Some (n, a))"

definition venue_invalidate :: "string \<Rightarrow> string list list" where
  "venue_invalidate venueId = [keys_layouts venueId, keys_venue venueId, keys_venues]"

definition venue_create_layout :: "string \<Rightarrow> string intent_mutation" where
  "venue_create_layout here =
     \<lparr>im_intent = (\<lambda>venueId. venueId @ '':new-layout''), im_call = (\<lambda>venueId. C_createLayout venueId),
      im_invalidate = venue_invalidate here\<rparr>"

text \<open>The variables are the layout being edited (its id) and the body.\<close>

definition venue_replace :: "(rat \<Rightarrow> string) \<Rightarrow> string \<Rightarrow> (string option \<times> layout_body) intent_mutation" where
  "venue_replace f here =
     \<lparr>im_intent = (\<lambda>(editing, body). nullish editing ''undefined'' @ '':replace:'' @ stringify f (layout_body_json body)),
      im_call = (\<lambda>(editing, body). C_replaceLayout (nullish editing []) body),
      im_invalidate = venue_invalidate here\<rparr>"

definition venue_publish :: "string \<Rightarrow> string intent_mutation" where
  "venue_publish here =
     \<lparr>im_intent = (\<lambda>layoutId. layoutId @ '':publish''), im_call = (\<lambda>layoutId. C_publishLayout layoutId),
      im_invalidate = venue_invalidate here\<rparr>"

text \<open>
  Saving and publishing from the builder: the commands sent and whether the editor closes, for
  the results of the two calls.
\<close>

definition venue_onPublish :: "string \<Rightarrow> layout_body \<Rightarrow> bool \<Rightarrow> bool \<Rightarrow> admin_command list \<times> bool" where
  "venue_onPublish layoutId body saved published =
     (if saved then ([C_replaceLayout layoutId body, C_publishLayout layoutId], published)
      else ([C_replaceLayout layoutId body], False))"

section \<open>Webhooks\<close>

definition availableSubscriptions :: "string list" where
  "availableSubscriptions =
     [''reservation.confirmed'', ''ticket.voided'', ''ticket.credential_reissued'', ''admission.admitted'',
      ''admission.reversed'', ''event.opened_for_sale'', ''event.sales_closed'']"

definition webhook_invalidate :: "string list list" where
  "webhook_invalidate = [keys_webhooks, keys_partners [] []]"

definition webhook_create :: "(string \<times> string \<times> string list) intent_mutation" where
  "webhook_create =
     \<lparr>im_intent = (\<lambda>(partnerId, url, subs). partnerId @ '':webhook:'' @ url @ '':'' @ join '','' subs),
      im_call = (\<lambda>(partnerId, url, subs). C_createWebhook partnerId (trim url) subs),
      im_invalidate = webhook_invalidate\<rparr>"

definition webhook_disable :: "string intent_mutation" where
  "webhook_disable =
     \<lparr>im_intent = (\<lambda>disableId. disableId @ '':disable''),
      im_call = (\<lambda>disableId. C_disableWebhook disableId ''Disabled by Admin operator''),
      im_invalidate = webhook_invalidate\<rparr>"

definition webhook_rotate :: "string intent_mutation" where
  "webhook_rotate =
     \<lparr>im_intent = (\<lambda>endpointId. endpointId @ '':rotate''), im_call = (\<lambda>endpointId. C_rotateWebhook endpointId),
      im_invalidate = webhook_invalidate\<rparr>"

definition webhook_submit ::
    "string option \<Rightarrow> string option \<Rightarrow> string list \<Rightarrow> string \<Rightarrow> string \<Rightarrow> (string \<times> string \<times> string list) option" where
  "webhook_submit formPartner formUrl subs partnerId url =
     (let p = form_or formPartner partnerId; u = form_or formUrl url
      in if p = [] \<or> \<not> prefix ''https://'' u \<or> subs = [] then None else Some (p, u, subs))"

section \<open>Tickets\<close>

datatype ticket_action = Void | Reissue | Rerelease

fun ticket_action_text :: "ticket_action \<Rightarrow> string" where
  "ticket_action_text Void = ''void''"
| "ticket_action_text Reissue = ''reissue''"
| "ticket_action_text Rerelease = ''rerelease''"

definition tickets_mutate :: "string \<Rightarrow> string \<Rightarrow> string \<Rightarrow> (string \<times> ticket_action \<times> string) intent_mutation" where
  "tickets_mutate q eventId stateFilter =
     \<lparr>im_intent = (\<lambda>(ticketId, action, reason). ticketId @ '':'' @ ticket_action_text action @ '':'' @ reason),
      im_call = (\<lambda>(ticketId, action, reason).
        if action = Void then C_voidTicket ticketId reason
        else if action = Rerelease then C_rereleaseTicket ticketId reason
        else C_reissueTicket ticketId),
      im_invalidate = [keys_tickets q eventId stateFilter, keys_dashboard]\<rparr>"

definition tickets_runAction ::
    "string option \<Rightarrow> ticket_action option \<Rightarrow> string option \<Rightarrow> string \<Rightarrow> (string \<times> ticket_action \<times> string) option" where
  "tickets_runAction selected action formReason reason =
     (let r = trim (form_or formReason reason)
      in case (selected, action) of
           (Some ticketId, Some a) \<Rightarrow>
             if (a = Void \<or> a = Rerelease) \<and> r = [] then None else Some (ticketId, a, r)
         | _ \<Rightarrow> None)"

section \<open>Admissions\<close>

record manual_values =
  mv_ticketId :: string
  mv_gate :: string
  mv_reason :: string

definition admissions_manual :: "string \<Rightarrow> (string \<times> manual_values) intent_mutation" where
  "admissions_manual here =
     \<lparr>im_intent = (\<lambda>(eventId, v). eventId @ '':manual:'' @ mv_ticketId v @ '':'' @ mv_reason v),
      im_call = (\<lambda>(eventId, v).
        C_manualAdmission eventId (trim (mv_ticketId v)) (or_undefined (trim (mv_gate v))) (trim (mv_reason v))),
      im_invalidate = [keys_admissions here, keys_admissionReport here, keys_dashboard]\<rparr>"

text \<open>The variables are the admission being reversed (its id, if any) and the reason.\<close>

definition admissions_reversal :: "string \<Rightarrow> (string option \<times> string) intent_mutation" where
  "admissions_reversal here =
     \<lparr>im_intent = (\<lambda>(admission, reason). nullish admission ''undefined'' @ '':reverse:'' @ reason),
      im_call = (\<lambda>(admission, reason). C_reverseAdmission (nullish admission []) (trim reason)),
      im_invalidate = [keys_admissions here, keys_admissionReport here, keys_dashboard]\<rparr>"

definition admissions_submitManual ::
    "string \<Rightarrow> manual_values option \<Rightarrow> manual_values \<Rightarrow> (string \<times> manual_values) option" where
  "admissions_submitManual eventId form st =
     (let v = (case form of None \<Rightarrow> st | Some f \<Rightarrow>
            \<lparr>mv_ticketId = or_else (mv_ticketId f) (mv_ticketId st), mv_gate = or_else (mv_gate f) (mv_gate st),
             mv_reason = or_else (mv_reason f) (mv_reason st)\<rparr>)
      in if eventId = [] \<or> trim (mv_ticketId v) = [] \<or> trim (mv_reason v) = [] then None else Some (eventId, v))"

definition admissions_submitReverse :: "string option \<Rightarrow> string option \<Rightarrow> string \<Rightarrow> (string option \<times> string) option" where
  "admissions_submitReverse admission formReason reason =
     (let r = form_or formReason reason
      in if \<not> truthy_str admission \<or> trim r = [] then None else Some (admission, r))"

text \<open>The event chosen when none is: the first that is neither a draft nor cancelled, else the first.\<close>

definition admissions_defaultEvent :: "string \<Rightarrow> (string \<times> string) list \<Rightarrow> string" where
  "admissions_defaultEvent eventId events =
     (if eventId = [] \<and> events \<noteq> []
      then (case find (\<lambda>(i, st). st \<noteq> ''DRAFT'' \<and> st \<noteq> ''CANCELLED'') events of
              Some (i, st) \<Rightarrow> i | None \<Rightarrow> fst (hd events))
      else eventId)"

end
