(* ===== verification/Inventory_Targets.thy ===== *)
theory Inventory_Targets
  imports Labels Js_Json
begin

text \<open>
  Choosing inventory for a price or a restriction: \<^verbatim>\<open>events/inventory/inventoryTargets.ts\<close> and the
  picker \<^verbatim>\<open>InventoryTargetPicker.tsx\<close>, whose state is the scope, the search text and the targets
  its parent holds. A number input gives a number (the empty text counts as 0).
\<close>

section \<open>Data\<close>

datatype inventory_kind = Reserved_Seat | Standing

record inventory_item =
  ii_kind :: inventory_kind
  ii_id :: string
  ii_snapshot_object_key :: string
  ii_section_object_key :: string
  ii_section_name :: string
  ii_row_label :: "string option"
  ii_table_label :: "string option"
  ii_seat_label :: "string option"
  ii_area_name :: string
  ii_display_label :: string
  ii_label :: string
  ii_quantity :: int
  ii_price_tier_id :: "string option"

record ga_target =
  gt_id :: string
  gt_key :: string
  gt_quantity :: rat

record inventory_targets =
  it_reservedIds :: "string list"
  it_reservedKeys :: "string list"
  it_ga :: "ga_target list"
  it_sectionKeys :: "string list"

datatype picker_mode = For_Pricing | For_Restriction

definition emptyTargets :: inventory_targets where
  "emptyTargets = \<lparr>it_reservedIds = [], it_reservedKeys = [], it_ga = [], it_sectionKeys = []\<rparr>"

text \<open>The targets as \<open>JSON.stringify\<close> sees them.\<close>

definition ga_json :: "ga_target \<Rightarrow> json" where
  "ga_json t = JObj [(''id'', JStr (gt_id t)), (''key'', JStr (gt_key t)), (''quantity'', JNum (gt_quantity t))]"

definition targets_json :: "inventory_targets \<Rightarrow> json" where
  "targets_json t =
     JObj [(''reservedIds'', JArr (map JStr (it_reservedIds t))),
           (''reservedKeys'', JArr (map JStr (it_reservedKeys t))),
           (''ga'', JArr (map ga_json (it_ga t))),
           (''sectionKeys'', JArr (map JStr (it_sectionKeys t)))]"

section \<open>Whole event and whole section\<close>

text \<open>\<open>Array.from(new Set(xs))\<close>: each value once, in the order of first occurrence.\<close>

definition js_unique :: "'a list \<Rightarrow> 'a list" where
  "js_unique xs = foldl (\<lambda>seen x. if x \<in> set seen then seen else seen @ [x]) [] xs"

definition is_reserved :: "inventory_item \<Rightarrow> bool" where
  "is_reserved item \<longleftrightarrow> ii_kind item = Reserved_Seat"

definition is_standing :: "inventory_item \<Rightarrow> bool" where
  "is_standing item \<longleftrightarrow> ii_kind item = Standing"

definition whole_area :: "inventory_item \<Rightarrow> ga_target" where
  "whole_area item =
     \<lparr>gt_id = ii_id item, gt_key = ii_snapshot_object_key item, gt_quantity = of_int (ii_quantity item)\<rparr>"

definition targetsForEntireEvent :: "inventory_item list \<Rightarrow> picker_mode \<Rightarrow> inventory_targets" where
  "targetsForEntireEvent inventory m =
     \<lparr>it_reservedIds = (if m = For_Restriction then map ii_id (filter is_reserved inventory) else []),
      it_reservedKeys = [],
      it_ga = map whole_area (filter is_standing inventory),
      it_sectionKeys =
        (if m = For_Pricing then js_unique (map ii_section_object_key (filter is_reserved inventory)) else [])\<rparr>"

definition targetsForSection :: "inventory_item list \<Rightarrow> string \<Rightarrow> picker_mode \<Rightarrow> inventory_targets" where
  "targetsForSection inventory sectionKey m =
     (let items = filter (\<lambda>item. ii_section_object_key item = sectionKey) inventory;
          hasReserved = list_ex is_reserved items
      in \<lparr>it_reservedIds = (if m = For_Restriction then map ii_id (filter is_reserved items) else []),
          it_reservedKeys = [],
          it_ga = map whole_area (filter is_standing items),
          it_sectionKeys = (if m = For_Pricing \<and> hasReserved then [sectionKey] else [])\<rparr>)"

section \<open>The picker\<close>

text \<open>A JavaScript \<open>Map\<close> filled in order: the first position of a key, its last value.\<close>

definition map_set :: "('k \<times> 'v) list \<Rightarrow> 'k \<times> 'v \<Rightarrow> ('k \<times> 'v) list" where
  "map_set kvs kv =
     (if fst kv \<in> fst ` set kvs then map (\<lambda>e. if fst e = fst kv then kv else e) kvs else kvs @ [kv])"

definition sections :: "inventory_item list \<Rightarrow> (string \<times> string) list" where
  "sections inventory =
     foldl (\<lambda>byKey item. map_set byKey (ii_section_object_key item, ii_section_name item)) [] inventory"

definition labelled :: "string \<Rightarrow> string option \<Rightarrow> string option" where
  "labelled before v = (if truthy_str v then Some (before @ the v) else None)"

definition displayLabel :: "inventory_item \<Rightarrow> string" where
  "displayLabel item =
     (if is_standing item
      then humanName (Some (or_else (ii_area_name item) (ii_section_name item))) ''General admission''
      else join ('' '' @ [CHR 0xC2, CHR 0xB7] @ '' '')
             (map the (filter truthy_str
                [Some (ii_section_name item), labelled ''Row '' (ii_row_label item),
                 ii_table_label item, labelled ''Seat '' (ii_seat_label item)])))"

datatype picker_scope = Scope_All | Scope_Section | Scope_Seats

record picker =
  pk_scope :: picker_scope
  pk_search :: string
  pk_value :: inventory_targets

definition initial_picker :: "inventory_targets \<Rightarrow> picker" where
  "initial_picker v = \<lparr>pk_scope = Scope_Section, pk_search = [], pk_value = v\<rparr>"

definition shown_items :: "inventory_item list \<Rightarrow> picker \<Rightarrow> inventory_item list" where
  "shown_items inventory p =
     filter (\<lambda>item. js_includes (to_lower (pk_search p)) (to_lower (displayLabel item))) inventory"

definition change_scope :: "inventory_item list \<Rightarrow> picker_mode \<Rightarrow> picker_scope \<Rightarrow> picker \<Rightarrow> picker" where
  "change_scope inventory m next' p =
     p\<lparr>pk_scope := next',
       pk_value := (if next' = Scope_All then targetsForEntireEvent inventory m else emptyTargets)\<rparr>"

definition chooseSection :: "inventory_item list \<Rightarrow> picker_mode \<Rightarrow> string \<Rightarrow> picker \<Rightarrow> picker" where
  "chooseSection inventory m sectionKey p = p\<lparr>pk_value := targetsForSection inventory sectionKey m\<rparr>"

definition checked :: "inventory_targets \<Rightarrow> inventory_item \<Rightarrow> bool" where
  "checked v item \<longleftrightarrow>
     (if is_reserved item then ii_id item \<in> set (it_reservedIds v)
      else list_ex (\<lambda>t. gt_id t = ii_id item) (it_ga v))"

definition toggle_item :: "inventory_item \<Rightarrow> inventory_targets \<Rightarrow> inventory_targets" where
  "toggle_item item v =
     (if is_reserved item then
        (let incl = \<not> checked v item in
         v\<lparr>it_reservedIds :=
             (if incl then it_reservedIds v @ [ii_id item] else filter (\<lambda>i. i \<noteq> ii_id item) (it_reservedIds v)),
           it_reservedKeys :=
             (if incl then it_reservedKeys v @ [ii_snapshot_object_key item]
              else filter (\<lambda>k. k \<noteq> ii_snapshot_object_key item) (it_reservedKeys v))\<rparr>)
      else
        v\<lparr>it_ga :=
            (if checked v item then filter (\<lambda>t. gt_id t \<noteq> ii_id item) (it_ga v)
             else it_ga v @ [\<lparr>gt_id = ii_id item, gt_key = ii_snapshot_object_key item, gt_quantity = 1\<rparr>])\<rparr>)"

definition change_quantity :: "inventory_item \<Rightarrow> rat \<Rightarrow> inventory_targets \<Rightarrow> inventory_targets" where
  "change_quantity item n v =
     v\<lparr>it_ga := map (\<lambda>t. if gt_id t = ii_id item
                       then t\<lparr>gt_quantity := max 1 (min (of_int (ii_quantity item)) n)\<rparr> else t) (it_ga v)\<rparr>"

definition targets_caption :: "inventory_targets \<Rightarrow> string" where
  "targets_caption v =
     (if it_sectionKeys v \<noteq> []
      then nat_str (length (it_sectionKeys v)) @ '' area'' @ (if length (it_sectionKeys v) = 1 then '''' else ''s'') @ '' selected''
      else nat_str (if it_reservedIds v \<noteq> [] then length (it_reservedIds v) else length (it_reservedKeys v))
        @ '' reserved seats '' @ [CHR 0xC2, CHR 0xB7] @ '' '' @ nat_str (length (it_ga v)) @ '' general-admission area''
        @ (if length (it_ga v) = 1 then '''' else ''s'') @ '' selected'')"

section \<open>What the targets promise\<close>

definition inventory_ok :: "inventory_item list \<Rightarrow> bool" where
  "inventory_ok inventory \<longleftrightarrow>
     distinct (map ii_id inventory) \<and> distinct (map ii_snapshot_object_key inventory) \<and>
     (\<forall>item \<in> set inventory. 1 \<le> ii_quantity item)"

definition ga_target_ok :: "inventory_item list \<Rightarrow> ga_target \<Rightarrow> bool" where
  "ga_target_ok inventory t \<longleftrightarrow>
     (\<exists>item \<in> set inventory. is_standing item \<and> gt_id t = ii_id item \<and>
        gt_key t = ii_snapshot_object_key item \<and> 1 \<le> gt_quantity t \<and> gt_quantity t \<le> of_int (ii_quantity item))"

definition targets_ok :: "inventory_item list \<Rightarrow> inventory_targets \<Rightarrow> bool" where
  "targets_ok inventory v \<longleftrightarrow>
     distinct (it_reservedIds v) \<and> set (it_reservedIds v) \<subseteq> ii_id ` set (filter is_reserved inventory) \<and>
     distinct (map gt_id (it_ga v)) \<and> (\<forall>t \<in> set (it_ga v). ga_target_ok inventory t) \<and>
     distinct (it_sectionKeys v) \<and> set (it_sectionKeys v) \<subseteq> ii_section_object_key ` set (filter is_reserved inventory)"

text \<open>The key of the item with an id, and the seat-by-seat choice: ids and keys go together.\<close>

definition key_of :: "inventory_item list \<Rightarrow> string \<Rightarrow> string" where
  "key_of inventory i = the (map_of (map (\<lambda>item. (ii_id item, ii_snapshot_object_key item)) inventory) i)"

definition keys_match :: "inventory_item list \<Rightarrow> inventory_targets \<Rightarrow> bool" where
  "keys_match inventory v \<longleftrightarrow> it_reservedKeys v = map (key_of inventory) (it_reservedIds v)"

definition picker_ok :: "inventory_item list \<Rightarrow> picker \<Rightarrow> bool" where
  "picker_ok inventory p \<longleftrightarrow>
     targets_ok inventory (pk_value p) \<and>
     (pk_scope p = Scope_Seats \<longrightarrow> keys_match inventory (pk_value p) \<and> it_sectionKeys (pk_value p) = [])"

lemma js_unique_aux:
  "distinct seen \<Longrightarrow>
   distinct (foldl (\<lambda>seen x. if x \<in> set seen then seen else seen @ [x]) seen xs) \<and>
   set (foldl (\<lambda>seen x. if x \<in> set seen then seen else seen @ [x]) seen xs) = set seen \<union> set xs"
proof (induction xs arbitrary: seen)
  case (Cons x xs)
  then show ?case by (cases "x \<in> set seen") auto
qed simp

lemma js_unique_props [simp]: "distinct (js_unique xs)" "set (js_unique xs) = set xs"
  using js_unique_aux [of "[]" xs] by (simp_all add: js_unique_def)

lemma emptyTargets_ok [simp]: "targets_ok inventory emptyTargets" "keys_match inventory emptyTargets"
  by (simp_all add: targets_ok_def keys_match_def emptyTargets_def)

lemma whole_area_id [simp]: "gt_id (whole_area item) = ii_id item"
  by (simp add: whole_area_def)

lemma whole_area_ok:
  "inventory_ok inventory \<Longrightarrow> item \<in> set inventory \<Longrightarrow> is_standing item \<Longrightarrow> ga_target_ok inventory (whole_area item)"
  by (force simp: ga_target_ok_def inventory_ok_def whole_area_def)

lemma distinct_ids: "inventory_ok inventory \<Longrightarrow> distinct (map ii_id (filter P inventory))"
  by (simp add: inventory_ok_def distinct_map_filter)

lemma targetsForEntireEvent_ok:
  assumes "inventory_ok inventory"
  shows "targets_ok inventory (targetsForEntireEvent inventory m)"
proof -
  have "map gt_id (map whole_area (filter is_standing inventory)) = map ii_id (filter is_standing inventory)"
    by (simp add: comp_def)
  then show ?thesis
    using distinct_ids [OF assms] whole_area_ok [OF assms]
    by (auto simp: targets_ok_def targetsForEntireEvent_def simp del: map_map)
qed

lemma targetsForSection_ok:
  assumes "inventory_ok inventory"
  shows "targets_ok inventory (targetsForSection inventory sectionKey m)"
proof -
  let ?here = "\<lambda>item. ii_section_object_key item = sectionKey"
  have "map gt_id (map whole_area (filter is_standing (filter ?here inventory))) =
      map ii_id (filter is_standing (filter ?here inventory))"
    by (simp add: comp_def)
  then show ?thesis
    using distinct_ids [OF assms] whole_area_ok [OF assms]
    by (auto simp: targets_ok_def targetsForSection_def Let_def list_ex_iff simp del: map_map)
qed

text \<open>Choosing the whole event covers every seat (by id or by section) and every standing area in full.\<close>

lemma targetsForEntireEvent_covers:
  "item \<in> set inventory \<Longrightarrow> is_reserved item \<Longrightarrow>
     (if m = For_Restriction then ii_id item \<in> set (it_reservedIds (targetsForEntireEvent inventory m))
      else ii_section_object_key item \<in> set (it_sectionKeys (targetsForEntireEvent inventory m)))"
  "item \<in> set inventory \<Longrightarrow> is_standing item \<Longrightarrow> whole_area item \<in> set (it_ga (targetsForEntireEvent inventory m))"
  by (cases m; auto simp: targetsForEntireEvent_def)+

lemma map_of_ids:
  "inventory_ok inventory \<Longrightarrow> item \<in> set inventory \<Longrightarrow> key_of inventory (ii_id item) = ii_snapshot_object_key item"
proof -
  assume ok: "inventory_ok inventory" and item: "item \<in> set inventory"
  let ?m = "map (\<lambda>item. (ii_id item, ii_snapshot_object_key item)) inventory"
  have "distinct (map fst ?m)" using ok by (simp add: inventory_ok_def comp_def)
  moreover have "(ii_id item, ii_snapshot_object_key item) \<in> set ?m" using item by auto
  ultimately have "map_of ?m (ii_id item) = Some (ii_snapshot_object_key item)" by (simp add: map_of_is_SomeI)
  then show ?thesis by (simp add: key_of_def)
qed

lemma key_of_inj:
  assumes ok: "inventory_ok inventory" and "a \<in> set inventory" "b \<in> set inventory"
  shows "ii_snapshot_object_key a = ii_snapshot_object_key b \<longleftrightarrow> ii_id a = ii_id b"
  using assms by (auto simp: inventory_ok_def distinct_map inj_on_def)

lemma toggle_matching_keys:
  assumes ok: "inventory_ok inventory" and item: "item \<in> set inventory" and v: "targets_ok inventory v"
    and match: "keys_match inventory v"
  shows "keys_match inventory (toggle_item item v)"
proof -
  have "filter (\<lambda>k. k \<noteq> ii_snapshot_object_key item) (map (key_of inventory) ids) =
      map (key_of inventory) (filter (\<lambda>i. i \<noteq> ii_id item) ids)"
    if "set ids \<subseteq> ii_id ` set inventory" for ids
    using that
  proof (induction ids)
    case (Cons i ids)
    then obtain other where "other \<in> set inventory" "i = ii_id other" by auto
    with Cons show ?case using key_of_inj [OF ok _ item, of other] map_of_ids [OF ok, of other] by auto
  qed simp
  moreover have "set (it_reservedIds v) \<subseteq> ii_id ` set inventory" using v by (auto simp: targets_ok_def)
  ultimately show ?thesis using match map_of_ids [OF ok item]
    by (simp add: keys_match_def toggle_item_def Let_def)
qed

lemma toggle_item_ok:
  assumes ok: "inventory_ok inventory" and item: "item \<in> set inventory" and v: "targets_ok inventory v"
  shows "targets_ok inventory (toggle_item item v)"
proof (cases "is_reserved item")
  case True
  then show ?thesis using v item
    by (auto simp: toggle_item_def targets_ok_def checked_def Let_def)
next
  case False
  then have standing: "is_standing item" by (cases "ii_kind item") (simp_all add: is_reserved_def is_standing_def)
  have "ga_target_ok inventory \<lparr>gt_id = ii_id item, gt_key = ii_snapshot_object_key item, gt_quantity = 1\<rparr>"
    using ok item standing by (force simp: ga_target_ok_def inventory_ok_def)
  then show ?thesis using v False
    by (auto simp: toggle_item_def targets_ok_def checked_def list_ex_iff distinct_map_filter)
qed

lemma change_quantity_ok:
  assumes ok: "inventory_ok inventory" and item: "item \<in> set inventory" and v: "targets_ok inventory v"
  shows "targets_ok inventory (change_quantity item n v)"
proof -
  have ids: "map gt_id (it_ga (change_quantity item n v)) = map gt_id (it_ga v)"
    by (simp add: change_quantity_def)
  have "ga_target_ok inventory t'" if t': "t' \<in> set (it_ga (change_quantity item n v))" for t'
  proof -
    from t' obtain t where t: "t \<in> set (it_ga v)" and
      eq: "t' = (if gt_id t = ii_id item then t\<lparr>gt_quantity := max 1 (min (of_int (ii_quantity item)) n)\<rparr> else t)"
      by (auto simp: change_quantity_def)
    then obtain other where other: "other \<in> set inventory" "is_standing other" "gt_id t = ii_id other"
      "gt_key t = ii_snapshot_object_key other" "1 \<le> gt_quantity t" "gt_quantity t \<le> of_int (ii_quantity other)"
      using v by (auto simp: targets_ok_def ga_target_ok_def)
    show ?thesis
    proof (cases "gt_id t = ii_id item")
      case True
      then have "other = item" using ok other item by (auto simp: inventory_ok_def distinct_map inj_on_def)
      moreover have "1 \<le> ii_quantity item" using ok item by (simp add: inventory_ok_def)
      ultimately show ?thesis using other True eq by (auto simp: ga_target_ok_def intro!: bexI [of _ item])
    qed (use v t eq in \<open>simp add: targets_ok_def\<close>)
  qed
  with v ids show ?thesis by (simp add: targets_ok_def) (simp add: change_quantity_def)
qed

text \<open>The handlers of the picker, on items that are shown; the parent keeps the targets across a remount.\<close>

inductive picker_reachable :: "inventory_item list \<Rightarrow> picker_mode \<Rightarrow> picker \<Rightarrow> bool"
  for inventory m where
  picker_start: "picker_reachable inventory m (initial_picker emptyTargets)"
| picker_remount: "picker_reachable inventory m p \<Longrightarrow> picker_reachable inventory m (initial_picker (pk_value p))"
| picker_scope: "picker_reachable inventory m p \<Longrightarrow> picker_reachable inventory m (change_scope inventory m next' p)"
| picker_section: "picker_reachable inventory m p \<Longrightarrow> pk_scope p = Scope_Section \<Longrightarrow>
    picker_reachable inventory m (chooseSection inventory m sectionKey p)"
| picker_search: "picker_reachable inventory m p \<Longrightarrow> picker_reachable inventory m (p\<lparr>pk_search := text'\<rparr>)"
| picker_toggle: "picker_reachable inventory m p \<Longrightarrow> pk_scope p = Scope_Seats \<Longrightarrow> item \<in> set (shown_items inventory p) \<Longrightarrow>
    picker_reachable inventory m (p\<lparr>pk_value := toggle_item item (pk_value p)\<rparr>)"
| picker_quantity: "picker_reachable inventory m p \<Longrightarrow> pk_scope p = Scope_Seats \<Longrightarrow> item \<in> set (shown_items inventory p) \<Longrightarrow>
    is_standing item \<Longrightarrow> m = For_Restriction \<Longrightarrow> checked (pk_value p) item \<Longrightarrow>
    picker_reachable inventory m (p\<lparr>pk_value := change_quantity item n (pk_value p)\<rparr>)"

lemma toggle_keeps_sections [simp]: "it_sectionKeys (toggle_item item v) = it_sectionKeys v"
  by (simp add: toggle_item_def Let_def)

lemma quantity_keeps [simp]:
  "it_sectionKeys (change_quantity item n v) = it_sectionKeys v"
  "keys_match inventory (change_quantity item n v) = keys_match inventory v"
  by (simp_all add: change_quantity_def keys_match_def)

lemma picker_reachable_ok:
  assumes "picker_reachable inventory m p" and ok: "inventory_ok inventory"
  shows "picker_ok inventory p"
  using assms(1)
proof induction
  case picker_start
  then show ?case by (simp add: picker_ok_def initial_picker_def)
next
  case (picker_remount p)
  then show ?case by (simp add: picker_ok_def initial_picker_def)
next
  case (picker_scope p next')
  then show ?case using targetsForEntireEvent_ok [OF ok]
    by (cases next') (simp_all add: picker_ok_def change_scope_def, simp add: emptyTargets_def)
next
  case (picker_section p sectionKey)
  then show ?case using targetsForSection_ok [OF ok] by (simp add: picker_ok_def chooseSection_def)
next
  case (picker_search p text')
  then show ?case by (simp add: picker_ok_def)
next
  case (picker_toggle p item)
  then have "item \<in> set inventory" by (simp add: shown_items_def)
  with picker_toggle show ?case using toggle_item_ok [OF ok] toggle_matching_keys [OF ok] by (simp add: picker_ok_def)
next
  case (picker_quantity p item n)
  then have "item \<in> set inventory" by (simp add: shown_items_def)
  with picker_quantity show ?case using change_quantity_ok [OF ok] by (simp add: picker_ok_def)
qed

lemma filter_notin: "x \<notin> set xs \<Longrightarrow> filter (\<lambda>y. y \<noteq> x) xs = xs"
  by (induction xs) auto

text \<open>Ticking and unticking an item leaves the targets as they were.\<close>

lemma toggle_twice:
  assumes "\<not> checked v item" and "is_reserved item \<Longrightarrow> ii_snapshot_object_key item \<notin> set (it_reservedKeys v)"
  shows "toggle_item item (toggle_item item v) = v"
proof -
  show ?thesis using assms
    by (cases "is_reserved item")
      (auto simp: toggle_item_def checked_def Let_def list_ex_iff filter_id_conv filter_notin)
qed

end
