(* ===== verification/Event_Detail.thy ===== *)
theory Event_Detail
  imports Admin_Forms Inventory_Targets
begin

text \<open>
  The event page (\<^verbatim>\<open>events/EventDetailPage.tsx\<close>): its five commands, the primary action, the setup
  check, and the handlers that submit a price, a pricing assignment and a confirmed lifecycle
  action. \<open>server_transition\<close> is the transition table of the backend's event service
  (\<^verbatim>\<open>backend/internal/event/lifecycle.go\<close>), to compare the offered actions with.

  Parameters: \<open>to_number\<close> is \<open>Number(text)\<close> (\<^const>\<open>None\<close> when it is not finite), \<open>to_millis\<close> is
  \<open>new Date(text).getTime()\<close> (\<^const>\<open>None\<close> for NaN). Amounts are exact rationals.
\<close>

section \<open>Lifecycle\<close>

datatype event_state = Ev_Draft | Ev_On_Sale | Ev_Paused | Ev_Sales_Closed | Ev_Completed | Ev_Cancelled

datatype page_action = Act lifecycle_action | Cancel_Event

fun page_action_text :: "page_action \<Rightarrow> string" where
  "page_action_text (Act a) = action_path a"
| "page_action_text Cancel_Event = ''cancel''"

record primary_action =
  pa_action :: lifecycle_action
  pa_label :: string
  pa_description :: string

definition primaryAction :: "(string \<Rightarrow> int option) \<Rightarrow> int \<Rightarrow> event_state \<Rightarrow> string option \<Rightarrow> primary_action option" where
  "primaryAction to_millis now st salesOpenAt =
     (case st of
        Ev_Draft \<Rightarrow>
          (let scheduled = (if truthy_str salesOpenAt
                            then (case to_millis (the salesOpenAt) of Some t \<Rightarrow> now < t | None \<Rightarrow> False) else False)
           in Some \<lparr>pa_action = Open_Sales,
                pa_label = (if scheduled then ''Schedule sales'' else ''Open sales''),
                pa_description =
                  (if scheduled then ''Publish this event now; ticket holds begin at the configured sales opening time.''
                   else ''Open this event for ticket acquisition.'')\<rparr>)
      | Ev_On_Sale \<Rightarrow> Some \<lparr>pa_action = Pause_Sales, pa_label = ''Pause sales'',
          pa_description = ''Temporarily stop ticket acquisition.''\<rparr>
      | Ev_Paused \<Rightarrow> Some \<lparr>pa_action = Resume_Sales, pa_label = ''Resume sales'',
          pa_description = ''Resume ticket acquisition.''\<rparr>
      | Ev_Sales_Closed \<Rightarrow> Some \<lparr>pa_action = Complete, pa_label = ''Complete event'',
          pa_description = ''Mark event operations complete.''\<rparr>
      | _ \<Rightarrow> None)"

text \<open>The options of the "More actions" menu.\<close>

definition moreActions :: "event_state \<Rightarrow> page_action list" where
  "moreActions st =
     (if st = Ev_On_Sale \<or> st = Ev_Paused then [Act Close_Sales] else [])
     @ (if st \<noteq> Ev_Cancelled \<and> st \<noteq> Ev_Completed then [Cancel_Event] else [])
     @ (if st = Ev_Sales_Closed then [Act Complete] else [])"

definition salesScheduled :: "(string \<Rightarrow> int option) \<Rightarrow> int \<Rightarrow> event_state \<Rightarrow> string option \<Rightarrow> bool" where
  "salesScheduled to_millis now st salesOpenAt \<longleftrightarrow>
     st = Ev_On_Sale \<and>
     (if truthy_str salesOpenAt then (case to_millis (the salesOpenAt) of Some t \<Rightarrow> now < t | None \<Rightarrow> False)
      else now < 0)"

text \<open>
  The backend's table: the state after a command, where the event's state allows it. Opening sales
  has a function of its own, whose checks of the event's setup are not part of the table.
\<close>

definition sales_opening :: "event_state \<Rightarrow> event_state option" where
  "sales_opening st = (if st \<noteq> Ev_Draft then None else Some Ev_On_Sale)"

fun server_transition :: "page_action \<Rightarrow> event_state \<Rightarrow> event_state option" where
  "server_transition (Act Open_Sales) st = sales_opening st"
| "server_transition (Act Pause_Sales) st = (if st = Ev_On_Sale then Some Ev_Paused else None)"
| "server_transition (Act Resume_Sales) st = (if st = Ev_Paused then Some Ev_On_Sale else None)"
| "server_transition (Act Close_Sales) st = (if st \<in> {Ev_On_Sale, Ev_Paused} then Some Ev_Sales_Closed else None)"
| "server_transition (Act Complete) st = (if st = Ev_Sales_Closed then Some Ev_Completed else None)"
| "server_transition Cancel_Event st =
     (if st \<in> {Ev_Draft, Ev_On_Sale, Ev_Paused, Ev_Sales_Closed} then Some Ev_Cancelled else None)"

section \<open>Commands\<close>

definition event_invalidate :: "string \<Rightarrow> string list list" where
  "event_invalidate eventId =
     [keys_event eventId, keys_configuration eventId, keys_inventory eventId, keys_inventoryReport eventId,
      keys_salesReport eventId, keys_admissionReport eventId, keys_audit eventId, keys_events [] [], keys_dashboard]"

definition event_lifecycle :: "string \<Rightarrow> (string \<times> page_action \<times> string option) intent_mutation" where
  "event_lifecycle here =
     \<lparr>im_intent = (\<lambda>(eventId, action, reason). eventId @ '':'' @ page_action_text action @ '':'' @ nullish reason []),
      im_call = (\<lambda>(eventId, action, reason).
        case action of Cancel_Event \<Rightarrow> C_cancelEvent eventId (nullish reason []) | Act a \<Rightarrow> C_lifecycle eventId a),
      im_invalidate = event_invalidate here\<rparr>"

record price_values =
  pv_name :: string
  pv_code :: string
  pv_amount :: string
  pv_currency :: string

text \<open>\<open>Math.round(Number(amount) * 100)\<close>; the form lets finite amounts only through.\<close>

definition minor_units :: "(string \<Rightarrow> rat option) \<Rightarrow> string \<Rightarrow> int" where
  "minor_units to_number amount =
     (case to_number amount of Some r \<Rightarrow> \<lfloor>r * 100 + 1 / 2\<rfloor> | None \<Rightarrow> 0)"

definition event_price :: "(string \<Rightarrow> rat option) \<Rightarrow> string \<Rightarrow> (string \<times> price_values) intent_mutation" where
  "event_price to_number here =
     \<lparr>im_intent = (\<lambda>(eventId, v). eventId @ '':price:'' @ pv_code v @ '':'' @ pv_amount v @ '':'' @ pv_currency v),
      im_call = (\<lambda>(eventId, v). C_createPriceTier eventId (to_upper (trim (pv_code v))) (trim (pv_name v))
        (minor_units to_number (pv_amount v)) (to_upper (trim (pv_currency v)))),
      im_invalidate = event_invalidate here\<rparr>"

definition event_materialize :: "string \<Rightarrow> (string \<times> string) intent_mutation" where
  "event_materialize here =
     \<lparr>im_intent = (\<lambda>(eventId, layoutId). eventId @ '':layout:'' @ layoutId),
      im_call = (\<lambda>(eventId, layoutId). C_materializeLayout eventId layoutId),
      im_invalidate = event_invalidate here\<rparr>"

definition event_access :: "string \<Rightarrow> (string \<times> string \<times> bool) intent_mutation" where
  "event_access here =
     \<lparr>im_intent = (\<lambda>(eventId, partnerId, enabled). eventId @ '':access:'' @ partnerId @ '':'' @ bool_text enabled),
      im_call = (\<lambda>(eventId, partnerId, enabled). C_setEventAccess eventId partnerId enabled),
      im_invalidate = event_invalidate here\<rparr>"

definition event_assign :: "(rat \<Rightarrow> string) \<Rightarrow> string \<Rightarrow> (string \<times> string \<times> inventory_targets) intent_mutation" where
  "event_assign f here =
     \<lparr>im_intent = (\<lambda>(eventId, tier, targets). eventId @ '':assign:'' @ tier @ '':'' @ stringify f (targets_json targets)),
      im_call = (\<lambda>(eventId, tier, targets). C_assignPricing eventId tier (it_sectionKeys targets)
        (it_reservedKeys targets) (map gt_key (it_ga targets))),
      im_invalidate = event_invalidate here\<rparr>"

section \<open>Setup\<close>

record event_setup =
  es_policy :: bool
  es_layout :: bool
  es_pricing :: bool
  es_inventory :: bool

text \<open>
  The configuration as loaded: the policy, when the layout was finalised, whether each tier is
  active; and the number of inventory items, if loaded.
\<close>

record event_configuration =
  ec_policy :: "json option"
  ec_layout_finalized_at :: "string option"
  ec_tiers_active :: "bool list"

definition setup_of :: "event_configuration option \<Rightarrow> nat option \<Rightarrow> event_setup" where
  "setup_of configuration inventory =
     \<lparr>es_policy = (case configuration of None \<Rightarrow> False | Some c \<Rightarrow> ec_policy c \<noteq> None \<and> ec_policy c \<noteq> Some JNull),
      es_layout = (case configuration of None \<Rightarrow> False | Some c \<Rightarrow> truthy_str (ec_layout_finalized_at c)),
      es_pricing = (case configuration of None \<Rightarrow> False | Some c \<Rightarrow> list_ex id (ec_tiers_active c)),
      es_inventory = (0 < nullish inventory 0)\<rparr>"

definition missingSetup :: "event_setup \<Rightarrow> string list" where
  "missingSetup s =
     map fst (filter (\<lambda>(label, complete). \<not> complete)
       [(''Sales policy'', es_policy s), (''Layout & seats'', es_layout s), (''Pricing'', es_pricing s),
        (''Inventory'', es_inventory s)])"

section \<open>Handlers\<close>

record event_page =
  ep_setupPrompt :: bool
  ep_confirm :: "(page_action \<times> string \<times> string) option"
  ep_reason :: string

definition initial_event_page :: event_page where
  "initial_event_page = \<lparr>ep_setupPrompt = False, ep_confirm = None, ep_reason = []\<rparr>"

text \<open>The page and the variables of the lifecycle command, where one is sent.\<close>

definition runPrimary ::
    "string \<Rightarrow> primary_action option \<Rightarrow> string list \<Rightarrow> event_page \<Rightarrow> event_page \<times> (string \<times> page_action \<times> string option) option" where
  "runPrimary eventId primary missing p =
     (case primary of
        None \<Rightarrow> (p, None)
      | Some a \<Rightarrow>
          if pa_action a = Open_Sales \<and> missing \<noteq> [] then (p\<lparr>ep_setupPrompt := True\<rparr>, None)
          else if pa_action a \<in> {Open_Sales, Pause_Sales, Resume_Sales}
          then (p, Some (eventId, Act (pa_action a), None))
          else (p\<lparr>ep_confirm := Some (Act (pa_action a), pa_label a, pa_description a)\<rparr>, None))"

definition chooseAction :: "page_action \<Rightarrow> event_page \<Rightarrow> event_page" where
  "chooseAction action p =
     p\<lparr>ep_confirm := Some (case action of
         Cancel_Event \<Rightarrow> (action, ''Cancel event'', ''Cancelling stops all event activity and cannot be undone.'')
       | Act Close_Sales \<Rightarrow> (action, ''Close sales'', ''Closing sales ends new ticket acquisition for this event.'')
       | _ \<Rightarrow> (action, ''Complete event'', ''Complete only after event operations have finished.''))\<rparr>"

definition runConfirmed ::
    "string \<Rightarrow> string option \<Rightarrow> event_page \<Rightarrow> (string \<times> page_action \<times> string option) option" where
  "runConfirmed eventId formReason p =
     (case ep_confirm p of
        None \<Rightarrow> None
      | Some (action, title, description) \<Rightarrow>
          (let r = trim (form_or formReason (ep_reason p))
           in if action = Cancel_Event \<and> r = [] then None else Some (eventId, action, Some r)))"

definition close_confirm :: "event_page \<Rightarrow> event_page" where
  "close_confirm p = p\<lparr>ep_confirm := None, ep_reason := []\<rparr>"

definition submitPrice ::
    "(string \<Rightarrow> rat option) \<Rightarrow> string \<Rightarrow> price_values option \<Rightarrow> price_values \<Rightarrow> (string \<times> price_values) option" where
  "submitPrice to_number eventId form st =
     (let v = (case form of None \<Rightarrow> st | Some f \<Rightarrow>
            \<lparr>pv_name = or_else (pv_name f) (pv_name st), pv_code = or_else (pv_code f) (pv_code st),
             pv_amount = or_else (pv_amount f) (pv_amount st), pv_currency = or_else (pv_currency f) (pv_currency st)\<rparr>)
      in if trim (pv_name v) = [] \<or> trim (pv_code v) = [] \<or>
            (case to_number (pv_amount v) of None \<Rightarrow> True | Some r \<Rightarrow> r < 0) \<or>
            js_length (trim (pv_currency v)) \<noteq> 3
         then None else Some (eventId, v))"

definition can_review_pricing :: "string \<Rightarrow> inventory_targets \<Rightarrow> bool" where
  "can_review_pricing tier targets \<longleftrightarrow>
     \<not> (tier = [] \<or> (it_reservedKeys targets = [] \<and> it_ga targets = [] \<and> it_sectionKeys targets = []))"

definition pricingTargetDescription :: "inventory_item list \<Rightarrow> inventory_targets \<Rightarrow> string" where
  "pricingTargetDescription inventory t =
     (case it_sectionKeys t of
        [key] \<Rightarrow> humanName (map_option ii_section_name (find (\<lambda>i. ii_section_object_key i = key) inventory)) ''the selected area''
      | _ # _ \<Rightarrow> ''the entire event''
      | [] \<Rightarrow>
          if it_reservedKeys t \<noteq> []
          then nat_str (length (it_reservedKeys t)) @ '' selected seat'' @ (if length (it_reservedKeys t) = 1 then '''' else ''s'')
          else (case it_ga t of
                  [g] \<Rightarrow> humanName (map_option ii_area_name (find (\<lambda>i. ii_snapshot_object_key i = gt_key g) inventory))
                          ''the selected general-admission area''
                | _ \<Rightarrow> ''the selected inventory''))"

definition rejectedTotal :: "(string \<times> int) list option \<Rightarrow> int" where
  "rejectedTotal outcomes =
     (case outcomes of None \<Rightarrow> 0 | Some kvs \<Rightarrow>
        sum_list (map snd (filter (\<lambda>(k, n). k \<notin> {''ADMITTED'', ''MANUAL_OVERRIDE_ADMITTED'', ''ALREADY_ADMITTED''}) kvs)))"

section \<open>What the page offers and sends\<close>

definition offered :: "(string \<Rightarrow> int option) \<Rightarrow> int \<Rightarrow> event_state \<Rightarrow> string option \<Rightarrow> page_action set" where
  "offered to_millis now st salesOpenAt =
     set (moreActions st) \<union> (case primaryAction to_millis now st salesOpenAt of None \<Rightarrow> {} | Some a \<Rightarrow> {Act (pa_action a)})"

lemma offered_iff_legal: "a \<in> offered to_millis now st salesOpenAt \<longleftrightarrow> server_transition a st \<noteq> None"
proof (cases a)
  case (Act x)
  then show ?thesis
    by (cases x; cases st) (simp_all add: offered_def moreActions_def primaryAction_def sales_opening_def Let_def)
next
  case Cancel_Event
  then show ?thesis
    by (cases st) (simp_all add: offered_def moreActions_def primaryAction_def sales_opening_def Let_def)
qed

lemma missingSetup_Nil: "missingSetup s = [] \<longleftrightarrow> es_policy s \<and> es_layout s \<and> es_pricing s \<and> es_inventory s"
  by (auto simp: missingSetup_def)

lemma runPrimary_sends:
  assumes "snd (runPrimary eventId (primaryAction to_millis now st salesOpenAt) (missingSetup s) p) = Some (i, a, r)"
  shows "i = eventId \<and> r = None \<and> server_transition a st \<noteq> None \<and>
    (a = Act Open_Sales \<longrightarrow> es_policy s \<and> es_layout s \<and> es_pricing s \<and> es_inventory s)"
  using assms
  by (cases st) (auto simp: runPrimary_def primaryAction_def sales_opening_def Let_def missingSetup_Nil split: if_splits)

lemma runConfirmed_sends:
  assumes "runConfirmed eventId form p = Some (i, a, r)"
  shows "i = eventId \<and> (\<exists>t d. ep_confirm p = Some (a, t, d)) \<and> (a = Cancel_Event \<longrightarrow> (\<exists>x. r = Some x \<and> x \<noteq> [] \<and> trim x = x))"
  using assms by (auto simp: runConfirmed_def Let_def trim_idem split: option.splits if_splits)

lemma submitPrice_sends:
  assumes "submitPrice to_number eventId form st = Some (i, v)"
  shows "\<exists>code name cur amount r.
    im_call (event_price to_number eventId) (i, v) = C_createPriceTier eventId code name amount cur \<and>
    code \<noteq> [] \<and> name \<noteq> [] \<and> js_length (trim (pv_currency v)) = 3 \<and> cur = to_upper (trim (pv_currency v)) \<and> 0 \<le> amount \<and>
    to_number (pv_amount v) = Some r \<and> \<bar>of_int amount - r * 100\<bar> \<le> 1 / 2"
proof -
  from assms obtain r where i: "i = eventId" and r: "to_number (pv_amount v) = Some r" "0 \<le> r"
    and v: "trim (pv_name v) \<noteq> []" "trim (pv_code v) \<noteq> []" "js_length (trim (pv_currency v)) = 3"
    by (fastforce simp: submitPrice_def Let_def split: if_splits option.splits)
  have "to_upper (trim (pv_code v)) \<noteq> []" using v(2) by (simp add: to_upper_def)
  moreover have "0 \<le> \<lfloor>r * 100 + 1 / 2\<rfloor>" using r(2) by (simp add: zero_le_floor)
  moreover have "\<bar>of_int \<lfloor>r * 100 + 1 / 2\<rfloor> - r * 100\<bar> \<le> 1 / 2" by linarith
  ultimately show ?thesis using i r v by (simp add: event_price_def minor_units_def)
qed

end
