(* ===== verification/Event_Create.thy ===== *)
theory Event_Create
  imports Admin_Forms
begin

text \<open>
  The "create event" wizard (\<^verbatim>\<open>events/CreateEventPage.tsx\<close>): its fields, the Continue handler with
  its checks, and the command it sends. Parameters: \<open>to_iso\<close> is \<open>new Date(v).toISOString()\<close> on the
  value of a date input, \<open>earlier a b\<close> is \<open>new Date(a) < new Date(b)\<close>.
\<close>

record schedule =
  sc_startsAt :: string
  sc_endsAt :: string
  sc_salesOpenAt :: string
  sc_salesCloseAt :: string
  sc_admissionOpenAt :: string
  sc_admissionCloseAt :: string
  sc_timeZone :: string

record event_form =
  ef_step :: int
  ef_name :: string
  ef_venueId :: string
  ef_schedule :: schedule
  ef_error :: string

definition initial_form :: "string \<Rightarrow> event_form" where
  "initial_form local_zone =
     \<lparr>ef_step = 1, ef_name = [], ef_venueId = [],
      ef_schedule = \<lparr>sc_startsAt = [], sc_endsAt = [], sc_salesOpenAt = [], sc_salesCloseAt = [],
        sc_admissionOpenAt = [], sc_admissionCloseAt = [], sc_timeZone = or_else local_zone ''Africa/Lagos''\<rparr>,
      ef_error = []\<rparr>"

definition optionalISO :: "(string \<Rightarrow> string) \<Rightarrow> string \<Rightarrow> string option" where
  "optionalISO to_iso v = (if v \<noteq> [] then Some (to_iso v) else None)"

definition create_event_values :: "(string \<Rightarrow> string) \<Rightarrow> event_form \<Rightarrow> create_event_body" where
  "create_event_values to_iso f =
     (let s = ef_schedule f in
      \<lparr>ce_venue_id = ef_venueId f, ce_name = trim (ef_name f),
       ce_starts_at = optionalISO to_iso (sc_startsAt s), ce_ends_at = optionalISO to_iso (sc_endsAt s),
       ce_sales_open_at = optionalISO to_iso (sc_salesOpenAt s), ce_sales_close_at = optionalISO to_iso (sc_salesCloseAt s),
       ce_admission_open_at = optionalISO to_iso (sc_admissionOpenAt s),
       ce_admission_close_at = optionalISO to_iso (sc_admissionCloseAt s),
       ce_timezone_name = or_undefined (trim (sc_timeZone s))\<rparr>)"

definition create_event :: "(string \<Rightarrow> string) \<Rightarrow> event_form intent_mutation" where
  "create_event to_iso =
     \<lparr>im_intent = (\<lambda>f. ''create-event:'' @ trim (ef_name f) @ '':'' @ ef_venueId f @ '':'' @ sc_startsAt (ef_schedule f)),
      im_call = (\<lambda>f. C_createEvent (create_event_values to_iso f)),
      im_invalidate = [keys_dashboard, keys_events [] []]\<rparr>"

section \<open>Continue\<close>

text \<open>The schedule read from the form, where there is one, else from the state.\<close>

definition captured :: "schedule option \<Rightarrow> schedule \<Rightarrow> schedule" where
  "captured form st =
     (case form of None \<Rightarrow> st | Some f \<Rightarrow>
        \<lparr>sc_startsAt = or_else (sc_startsAt f) (sc_startsAt st), sc_endsAt = or_else (sc_endsAt f) (sc_endsAt st),
         sc_salesOpenAt = or_else (sc_salesOpenAt f) (sc_salesOpenAt st),
         sc_salesCloseAt = or_else (sc_salesCloseAt f) (sc_salesCloseAt st),
         sc_admissionOpenAt = or_else (sc_admissionOpenAt f) (sc_admissionOpenAt st),
         sc_admissionCloseAt = or_else (sc_admissionCloseAt f) (sc_admissionCloseAt st),
         sc_timeZone = or_else (sc_timeZone f) (sc_timeZone st)\<rparr>)"

definition schedule_pairs :: "schedule \<Rightarrow> (string \<times> string \<times> string) list" where
  "schedule_pairs c =
     [(sc_startsAt c, sc_endsAt c, ''Event end time must be after the event starts.''),
      (sc_salesOpenAt c, sc_salesCloseAt c, ''Sales close time must be after sales open.''),
      (sc_admissionOpenAt c, sc_admissionCloseAt c, ''Admission close time must be after admission opens.'')]"

definition invalidPair :: "(string \<Rightarrow> string \<Rightarrow> bool) \<Rightarrow> schedule \<Rightarrow> (string \<times> string \<times> string) option" where
  "invalidPair earlier c =
     find (\<lambda>(opens, closes, message). opens \<noteq> [] \<and> closes \<noteq> [] \<and> earlier closes opens) (schedule_pairs c)"

definition wizard_next :: "(string \<Rightarrow> string \<Rightarrow> bool) \<Rightarrow> schedule option \<Rightarrow> event_form \<Rightarrow> event_form" where
  "wizard_next earlier form f =
     (if ef_step f = 1 \<and> (trim (ef_name f) = [] \<or> ef_venueId f = [])
      then f\<lparr>ef_error := ''Add an event name and choose a venue to continue.''\<rparr>
      else if ef_step f = 2 then
        (let c = captured form (ef_schedule f); f' = f\<lparr>ef_schedule := c\<rparr>
         in case invalidPair earlier c of
              Some (opens, closes, message) \<Rightarrow> f'\<lparr>ef_error := message\<rparr>
            | None \<Rightarrow> f'\<lparr>ef_error := [], ef_step := min 3 (ef_step f + 1)\<rparr>)
      else f\<lparr>ef_error := [], ef_step := min 3 (ef_step f + 1)\<rparr>)"

definition wizard_back :: "event_form \<Rightarrow> event_form" where
  "wizard_back f = (if 1 < ef_step f then f\<lparr>ef_step := ef_step f - 1\<rparr> else f)"

text \<open>The form's submit handler sends the command whatever the step is.\<close>

definition wizard_submit :: "(string \<Rightarrow> string) \<Rightarrow> event_form \<Rightarrow> admin_command" where
  "wizard_submit to_iso f = im_call (create_event to_iso) f"

definition schedule_warning :: "event_form \<Rightarrow> bool" where
  "schedule_warning f =
     (let s = ef_schedule f in
      list_ex (\<lambda>v. v = []) [sc_startsAt s, sc_endsAt s, sc_salesOpenAt s, sc_salesCloseAt s,
        sc_admissionOpenAt s, sc_admissionCloseAt s])"

section \<open>Reaching the review step\<close>

text \<open>The name and the venue are edited in step 1, the schedule in step 2.\<close>

inductive wizard_reachable :: "(string \<Rightarrow> string \<Rightarrow> bool) \<Rightarrow> string \<Rightarrow> event_form \<Rightarrow> bool"
  for earlier zone where
  wizard_start: "wizard_reachable earlier zone (initial_form zone)"
| wizard_name: "wizard_reachable earlier zone f \<Longrightarrow> ef_step f = 1 \<Longrightarrow> wizard_reachable earlier zone (f\<lparr>ef_name := v\<rparr>)"
| wizard_venue: "wizard_reachable earlier zone f \<Longrightarrow> ef_step f = 1 \<Longrightarrow> wizard_reachable earlier zone (f\<lparr>ef_venueId := v\<rparr>)"
| wizard_schedule: "wizard_reachable earlier zone f \<Longrightarrow> ef_step f = 2 \<Longrightarrow> wizard_reachable earlier zone (f\<lparr>ef_schedule := s\<rparr>)"
| wizard_continue: "wizard_reachable earlier zone f \<Longrightarrow> ef_step f < 3 \<Longrightarrow> wizard_reachable earlier zone (wizard_next earlier form f)"
| wizard_return: "wizard_reachable earlier zone f \<Longrightarrow> wizard_reachable earlier zone (wizard_back f)"

definition schedule_ok :: "(string \<Rightarrow> string \<Rightarrow> bool) \<Rightarrow> schedule \<Rightarrow> bool" where
  "schedule_ok earlier s \<longleftrightarrow>
     (\<forall>(opens, closes, message) \<in> set (schedule_pairs s). opens = [] \<or> closes = [] \<or> \<not> earlier closes opens)"

definition wizard_ok :: "(string \<Rightarrow> string \<Rightarrow> bool) \<Rightarrow> event_form \<Rightarrow> bool" where
  "wizard_ok earlier f \<longleftrightarrow>
     ef_step f \<in> {1, 2, 3} \<and>
     (2 \<le> ef_step f \<longrightarrow> trim (ef_name f) \<noteq> [] \<and> ef_venueId f \<noteq> []) \<and>
     (ef_step f = 3 \<longrightarrow> schedule_ok earlier (ef_schedule f))"

lemma invalidPair_None: "invalidPair earlier c = None \<longleftrightarrow> schedule_ok earlier c"
  by (auto simp: invalidPair_def schedule_ok_def find_None_iff_list)

lemma wizard_reachable_ok: "wizard_reachable earlier zone f \<Longrightarrow> wizard_ok earlier f"
proof (induction rule: wizard_reachable.induct)
  case (wizard_continue f form)
  then show ?case
    by (auto simp: wizard_ok_def wizard_next_def Let_def invalidPair_None [symmetric] split: option.split)
qed (auto simp: wizard_ok_def initial_form_def wizard_back_def)

end
