(* ===== verification/Partner_Detail.thy ===== *)
theory Partner_Detail
  imports Admin_Forms
begin

text \<open>
  The partner page (\<^verbatim>\<open>partners/PartnerDetailPage.tsx\<close>): its five commands and the checks on the
  allowed return URLs. The URL parser of the browser is a parameter: \<^const>\<open>None\<close> when
  \<open>new URL(text)\<close> throws.
\<close>

definition partner_invalidate :: "string \<Rightarrow> string list list" where
  "partner_invalidate partnerId = [keys_partner partnerId, keys_partners [] [], keys_webhooks]"

definition partner_issue :: "string \<Rightarrow> string intent_mutation" where
  "partner_issue here =
     \<lparr>im_intent = (\<lambda>partnerId. partnerId @ '':credential''), im_call = (\<lambda>partnerId. C_issuePartnerCredential partnerId),
      im_invalidate = partner_invalidate here\<rparr>"

definition partner_revoke :: "string \<Rightarrow> (string \<times> string) intent_mutation" where
  "partner_revoke here =
     \<lparr>im_intent = (\<lambda>(partnerId, revokeId). partnerId @ '':revoke:'' @ revokeId),
      im_call = (\<lambda>(partnerId, revokeId). C_revokePartnerCredential revokeId),
      im_invalidate = partner_invalidate here\<rparr>"

definition partner_state :: "string \<Rightarrow> (string \<times> bool) intent_mutation" where
  "partner_state here =
     \<lparr>im_intent = (\<lambda>(partnerId, enabled). partnerId @ '':enabled:'' @ bool_text enabled),
      im_call = (\<lambda>(partnerId, enabled). C_setPartnerState partnerId enabled),
      im_invalidate = partner_invalidate here\<rparr>"

definition partner_access :: "string \<Rightarrow> (string \<times> string \<times> bool) intent_mutation" where
  "partner_access here =
     \<lparr>im_intent = (\<lambda>(partnerId, eventId, enabled). partnerId @ '':access:'' @ eventId @ '':'' @ bool_text enabled),
      im_call = (\<lambda>(partnerId, eventId, enabled). C_setEventAccess eventId partnerId enabled),
      im_invalidate = partner_invalidate here\<rparr>"

definition partner_checkoutURLs :: "string \<Rightarrow> (string \<times> string list) intent_mutation" where
  "partner_checkoutURLs here =
     \<lparr>im_intent = (\<lambda>(partnerId, urls). partnerId @ '':allowed-return-urls:'' @ join ''|'' urls),
      im_call = (\<lambda>(partnerId, urls). C_setPartnerAllowedReturnURLs partnerId urls),
      im_invalidate = partner_invalidate here\<rparr>"

section \<open>Return URLs\<close>

record parsed_url =
  url_protocol :: string
  url_username :: string
  url_password :: string
  url_hash :: string

text \<open>\<open>text.split(/\r?\n/)\<close>.\<close>

definition drop_return :: "string \<Rightarrow> string" where
  "drop_return s = (if s \<noteq> [] \<and> last s = CHR 0x0D then butlast s else s)"

definition split_lines :: "string \<Rightarrow> string list" where
  "split_lines s = (let parts = split_on (CHR 0x0A) s in map drop_return (butlast parts) @ [last parts])"

definition parse_return_urls :: "string \<Rightarrow> string list" where
  "parse_return_urls v = filter (\<lambda>u. u \<noteq> []) (map trim (split_lines v))"

definition bad_return_url :: "(string \<Rightarrow> parsed_url option) \<Rightarrow> string \<Rightarrow> bool" where
  "bad_return_url new_url v \<longleftrightarrow>
     (case new_url v of
        None \<Rightarrow> True
      | Some u \<Rightarrow> url_protocol u \<noteq> ''https:'' \<or> url_username u \<noteq> [] \<or> url_password u \<noteq> [] \<or> url_hash u \<noteq> [])"

definition invalidReturnURL :: "(string \<Rightarrow> parsed_url option) \<Rightarrow> string \<Rightarrow> string option" where
  "invalidReturnURL new_url returnURLs = find (bad_return_url new_url) (parse_return_urls returnURLs)"

definition saveReturnURLs ::
    "(string \<Rightarrow> parsed_url option) \<Rightarrow> string \<Rightarrow> string option \<Rightarrow> string \<Rightarrow> (string \<times> string list) option" where
  "saveReturnURLs new_url partnerId formURLs returnURLs =
     (let urls = parse_return_urls (form_or formURLs returnURLs)
      in if list_ex (bad_return_url new_url) urls then None else Some (partnerId, urls))"

section \<open>Granting access\<close>

text \<open>An event's id; an access record is the event's id and whether it is active.\<close>

definition availableEvents :: "(string \<times> bool) list \<Rightarrow> string list \<Rightarrow> string list" where
  "availableEvents event_access events =
     filter (\<lambda>e. \<not> list_ex (\<lambda>(i, active). i = e \<and> active) event_access) events"

definition partner_grant :: "string \<Rightarrow> string \<Rightarrow> (string \<times> string \<times> bool) option" where
  "partner_grant partnerId grantEventId = (if grantEventId = [] then None else Some (partnerId, grantEventId, True))"

definition partner_changeState :: "string \<Rightarrow> bool \<Rightarrow> string \<times> bool" where
  "partner_changeState partnerId active = (partnerId, \<not> active)"

lemma good_return_url:
  "\<not> bad_return_url new_url u \<longleftrightarrow>
   (\<exists>p. new_url u = Some p \<and> url_protocol p = ''https:'' \<and> url_username p = [] \<and> url_password p = [] \<and> url_hash p = [])"
  by (auto simp: bad_return_url_def split: option.splits)

lemma parsed_urls_trimmed: "u \<in> set (parse_return_urls v) \<Longrightarrow> u \<noteq> [] \<and> trim u = u"
  by (auto simp: parse_return_urls_def trim_idem)

lemma saved_urls_ok:
  assumes "saveReturnURLs new_url partnerId form st = Some (i, urls)" and "u \<in> set urls"
  shows "i = partnerId \<and> u \<noteq> [] \<and> trim u = u \<and> \<not> bad_return_url new_url u"
  using assms parsed_urls_trimmed by (auto simp: saveReturnURLs_def Let_def list_ex_iff split: if_splits)

end
