(* ===== verification/Restrictions.thy ===== *)
theory Restrictions
  imports Admin_Queries Inventory_Targets
begin

text \<open>
  Blocks and allocations (\<^verbatim>\<open>events/inventory/RestrictionsPanel.tsx\<close>): the panel's state and
  handlers, when its buttons are enabled, and the three commands with the intents they are sent
  under. The variables of a command carry what its closure reads: the event and the panel.
\<close>

section \<open>State\<close>

datatype restriction_kind = Block | Allocation

fun kind_text :: "restriction_kind option \<Rightarrow> string" where
  "kind_text None = ''null''"
| "kind_text (Some Block) = ''BLOCK''"
| "kind_text (Some Allocation) = ''ALLOCATION''"

datatype restriction_state = Restriction_Active | Restriction_Released | Restriction_Closed

record inventory_restriction =
  ir_id :: string
  ir_kind :: restriction_kind
  ir_state :: restriction_state
  ir_purpose :: string
  ir_reason :: "string option"
  ir_mode :: "allocation_mode option"
  ir_partner_id :: "string option"
  ir_partner_name :: "string option"
  ir_reserved_quantity :: int
  ir_ga_quantity :: int
  ir_inventory_labels :: "string list"
  ir_created_at :: string
  ir_released_at :: "string option"

record restrictions_panel =
  rp_kind :: "restriction_kind option"
  rp_purpose :: string
  rp_reason :: string
  rp_mode :: allocation_mode
  rp_partner :: string
  rp_targets :: inventory_targets
  rp_reclassify :: "inventory_restriction option"
  rp_releaseTarget :: "inventory_restriction option"

definition initial_panel :: restrictions_panel where
  "initial_panel =
     \<lparr>rp_kind = None, rp_purpose = ''VIP'', rp_reason = [], rp_mode = Non_Public, rp_partner = [],
      rp_targets = emptyTargets, rp_reclassify = None, rp_releaseTarget = None\<rparr>"

section \<open>Commands\<close>

definition ga_body :: "inventory_targets \<Rightarrow> (string \<times> rat) list" where
  "ga_body v = map (\<lambda>t. (gt_id t, gt_quantity t)) (it_ga v)"

definition panel_partner :: "restrictions_panel \<Rightarrow> string option" where
  "panel_partner p = (if rp_mode p = Channel then Some (rp_partner p) else None)"

definition restriction_invalidate :: "string \<Rightarrow> string list list" where
  "restriction_invalidate eventId =
     [keys_restrictions eventId, keys_inventory eventId, keys_inventoryReport eventId, keys_audit eventId]"

definition create_restriction :: "(rat \<Rightarrow> string) \<Rightarrow> string \<Rightarrow> (string \<times> restrictions_panel) intent_mutation" where
  "create_restriction f eventId' =
     \<lparr>im_intent = (\<lambda>(eventId, p). eventId @ '':'' @ kind_text (rp_kind p) @ '':'' @ rp_purpose p @ '':''
          @ stringify f (targets_json (rp_targets p))),
      im_call = (\<lambda>(eventId, p).
        if rp_kind p = Some Block
        then C_createBlock eventId (rp_purpose p) (rp_reason p)
               (it_reservedIds (rp_targets p)) (ga_body (rp_targets p))
        else C_createAllocation eventId (rp_mode p) (panel_partner p) (rp_purpose p) (rp_reason p)
               (it_reservedIds (rp_targets p)) (ga_body (rp_targets p))),
      im_invalidate = restriction_invalidate eventId'\<rparr>"

definition release_restriction :: "string \<Rightarrow> inventory_restriction intent_mutation" where
  "release_restriction eventId =
     \<lparr>im_intent = (\<lambda>item. ir_id item @ '':release''),
      im_call = (\<lambda>item. if ir_kind item = Block then C_releaseBlock (ir_id item) else C_releaseAllocation (ir_id item)),
      im_invalidate = restriction_invalidate eventId\<rparr>"

definition change_restriction :: "string \<Rightarrow> (restrictions_panel \<times> inventory_restriction) intent_mutation" where
  "change_restriction eventId =
     \<lparr>im_intent = (\<lambda>(p, item). ir_id item @ '':reclassify:'' @ mode_name (rp_mode p) @ '':'' @ rp_partner p),
      im_call = (\<lambda>(p, item). C_reclassifyAllocation (ir_id item) (rp_mode p) (panel_partner p)),
      im_invalidate = restriction_invalidate eventId\<rparr>"

section \<open>Handlers\<close>

definition open_dialog :: "restriction_kind \<Rightarrow> restrictions_panel \<Rightarrow> restrictions_panel" where
  "open_dialog k p = p\<lparr>rp_kind := Some k\<rparr>"

definition panel_reset :: "restrictions_panel \<Rightarrow> restrictions_panel" where
  "panel_reset p = p\<lparr>rp_kind := None, rp_targets := emptyTargets, rp_reason := []\<rparr>"

definition open_reclassify :: "inventory_restriction \<Rightarrow> restrictions_panel \<Rightarrow> restrictions_panel" where
  "open_reclassify item p =
     p\<lparr>rp_reclassify := Some item, rp_mode := nullish (ir_mode item) Non_Public,
       rp_partner := nullish (ir_partner_id item) []\<rparr>"

definition can_create :: "restrictions_panel \<Rightarrow> bool" where
  "can_create p \<longleftrightarrow>
     \<not> (trim (rp_purpose p) = [] \<or> (it_reservedIds (rp_targets p) = [] \<and> it_ga (rp_targets p) = []) \<or>
        (rp_mode p = Channel \<and> rp_partner p = []))"

definition can_apply :: "restrictions_panel \<Rightarrow> bool" where
  "can_apply p \<longleftrightarrow> \<not> (rp_mode p = Channel \<and> rp_partner p = [])"

text \<open>Pressing a dialog's button: the variables handed to the mutation.\<close>

definition press_create :: "string \<Rightarrow> restrictions_panel \<Rightarrow> (string \<times> restrictions_panel) option" where
  "press_create eventId p = (if rp_kind p \<noteq> None \<and> can_create p then Some (eventId, p) else None)"

definition press_apply :: "restrictions_panel \<Rightarrow> (restrictions_panel \<times> inventory_restriction) option" where
  "press_apply p = (if can_apply p then map_option (\<lambda>item. (p, item)) (rp_reclassify p) else None)"

definition press_release :: "restrictions_panel \<Rightarrow> inventory_restriction option" where
  "press_release p = rp_releaseTarget p"

text \<open>What the panel shows about one restriction.\<close>

definition release_caption :: "inventory_restriction \<Rightarrow> string" where
  "release_caption item =
     int_str (ir_reserved_quantity item) @ '' reserved and '' @ int_str (ir_ga_quantity item) @ '' standing ticket''
     @ (if ir_reserved_quantity item + ir_ga_quantity item = 1 then '''' else ''s'')
     @ '' will no longer be protected by this restriction.''"

definition can_reclassify :: "inventory_restriction \<Rightarrow> bool" where
  "can_reclassify item \<longleftrightarrow> ir_state item = Restriction_Active \<and> ir_kind item = Allocation"

inductive panel_reachable :: "inventory_item list \<Rightarrow> inventory_restriction list \<Rightarrow> restrictions_panel \<Rightarrow> bool"
  for inventory restrictions where
  panel_start: "panel_reachable inventory restrictions initial_panel"
| panel_open: "panel_reachable inventory restrictions p \<Longrightarrow> panel_reachable inventory restrictions (open_dialog k p)"
| panel_purpose: "panel_reachable inventory restrictions p \<Longrightarrow> panel_reachable inventory restrictions (p\<lparr>rp_purpose := v\<rparr>)"
| panel_reason: "panel_reachable inventory restrictions p \<Longrightarrow> panel_reachable inventory restrictions (p\<lparr>rp_reason := v\<rparr>)"
| panel_mode: "panel_reachable inventory restrictions p \<Longrightarrow> rp_kind p = Some Allocation \<or> rp_reclassify p \<noteq> None \<Longrightarrow>
    panel_reachable inventory restrictions (p\<lparr>rp_mode := v\<rparr>)"
| panel_partner: "panel_reachable inventory restrictions p \<Longrightarrow> rp_kind p = Some Allocation \<or> rp_reclassify p \<noteq> None \<Longrightarrow>
    rp_mode p = Channel \<Longrightarrow> panel_reachable inventory restrictions (p\<lparr>rp_partner := v\<rparr>)"
| panel_targets: "panel_reachable inventory restrictions p \<Longrightarrow> rp_kind p \<noteq> None \<Longrightarrow>
    picker_reachable inventory For_Restriction picker \<Longrightarrow>
    panel_reachable inventory restrictions (p\<lparr>rp_targets := pk_value picker\<rparr>)"
| panel_cancel: "panel_reachable inventory restrictions p \<Longrightarrow> panel_reachable inventory restrictions (panel_reset p)"
| panel_reclassify: "panel_reachable inventory restrictions p \<Longrightarrow> item \<in> set restrictions \<Longrightarrow> can_reclassify item \<Longrightarrow>
    panel_reachable inventory restrictions (open_reclassify item p)"
| panel_reclassified: "panel_reachable inventory restrictions p \<Longrightarrow>
    panel_reachable inventory restrictions (p\<lparr>rp_reclassify := None\<rparr>)"
| panel_release: "panel_reachable inventory restrictions p \<Longrightarrow> item \<in> set restrictions \<Longrightarrow>
    ir_state item = Restriction_Active \<Longrightarrow> panel_reachable inventory restrictions (p\<lparr>rp_releaseTarget := Some item\<rparr>)"
| panel_released: "panel_reachable inventory restrictions p \<Longrightarrow>
    panel_reachable inventory restrictions (p\<lparr>rp_releaseTarget := None\<rparr>)"

definition panel_ok :: "inventory_item list \<Rightarrow> restrictions_panel \<Rightarrow> bool" where
  "panel_ok inventory p \<longleftrightarrow>
     targets_ok inventory (rp_targets p) \<and> it_sectionKeys (rp_targets p) = [] \<and>
     (case rp_reclassify p of None \<Rightarrow> True | Some item \<Rightarrow> can_reclassify item)"

lemma restriction_sections:
  "picker_reachable inventory m p \<Longrightarrow> m = For_Restriction \<Longrightarrow> it_sectionKeys (pk_value p) = []"
  by (induction rule: picker_reachable.induct)
    (simp_all add: initial_picker_def emptyTargets_def change_scope_def targetsForEntireEvent_def
      chooseSection_def targetsForSection_def Let_def)

lemma panel_reachable_ok:
  assumes "panel_reachable inventory restrictions p" and ok: "inventory_ok inventory"
  shows "panel_ok inventory p"
  using assms(1)
proof induction
  case panel_start
  then show ?case by (simp add: panel_ok_def initial_panel_def) (simp add: emptyTargets_def)
next
  case (panel_targets p picker)
  then show ?case
    using picker_reachable_ok [OF _ ok, of For_Restriction picker] restriction_sections [of inventory For_Restriction picker]
    by (simp add: panel_ok_def picker_ok_def)
next
  case (panel_cancel p)
  then show ?case by (simp add: panel_ok_def panel_reset_def) (simp add: emptyTargets_def)
qed (auto simp: panel_ok_def open_dialog_def open_reclassify_def split: option.splits)

text \<open>What a create command asks the server for.\<close>

definition restriction_command_ok :: "inventory_item list \<Rightarrow> restriction_kind \<Rightarrow> admin_command \<Rightarrow> bool" where
  "restriction_command_ok inventory k c =
     (case c of
        C_createBlock eventId purpose reason ids ga \<Rightarrow>
          k = Block \<and> trim purpose \<noteq> [] \<and> (ids \<noteq> [] \<or> ga \<noteq> []) \<and>
          distinct ids \<and> set ids \<subseteq> ii_id ` set (filter is_reserved inventory) \<and> distinct (map fst ga) \<and>
          (\<forall>(i, n) \<in> set ga. \<exists>item \<in> set inventory. ii_id item = i \<and> is_standing item \<and> 1 \<le> n \<and> n \<le> of_int (ii_quantity item))
      | C_createAllocation eventId mode partner purpose reason ids ga \<Rightarrow>
          k = Allocation \<and> trim purpose \<noteq> [] \<and> (ids \<noteq> [] \<or> ga \<noteq> []) \<and>
          (case partner of None \<Rightarrow> mode = Non_Public | Some i \<Rightarrow> mode = Channel \<and> i \<noteq> []) \<and>
          distinct ids \<and> set ids \<subseteq> ii_id ` set (filter is_reserved inventory) \<and> distinct (map fst ga) \<and>
          (\<forall>(i, n) \<in> set ga. \<exists>item \<in> set inventory. ii_id item = i \<and> is_standing item \<and> 1 \<le> n \<and> n \<le> of_int (ii_quantity item))
      | _ \<Rightarrow> False)"

lemma ga_body_ok:
  assumes "targets_ok inventory v"
  shows "distinct (map fst (ga_body v))"
    "\<forall>(i, n) \<in> set (ga_body v). \<exists>item \<in> set inventory. ii_id item = i \<and> is_standing item \<and> 1 \<le> n \<and> n \<le> of_int (ii_quantity item)"
proof -
  show "distinct (map fst (ga_body v))" using assms by (simp add: ga_body_def targets_ok_def comp_def)
  show "\<forall>(i, n) \<in> set (ga_body v). \<exists>item \<in> set inventory. ii_id item = i \<and> is_standing item \<and> 1 \<le> n \<and> n \<le> of_int (ii_quantity item)"
    using assms by (fastforce simp: ga_body_def targets_ok_def ga_target_ok_def)
qed

lemma pressed_create_ok:
  assumes "panel_reachable inventory restrictions p" and "inventory_ok inventory"
    and "press_create eventId p = Some vars"
  shows "\<exists>k. rp_kind p = Some k \<and> restriction_command_ok inventory k (im_call (create_restriction f eventId) vars)"
proof -
  have v: "targets_ok inventory (rp_targets p)" using panel_reachable_ok [OF assms(1,2)] by (simp add: panel_ok_def)
  from assms(3) obtain k where k: "rp_kind p = Some k" and vars: "vars = (eventId, p)" and can: "can_create p"
    by (auto simp: press_create_def split: if_splits)
  have some: "it_reservedIds (rp_targets p) \<noteq> [] \<or> ga_body (rp_targets p) \<noteq> []"
    using can by (auto simp: can_create_def ga_body_def)
  have ids: "distinct (it_reservedIds (rp_targets p))"
    "set (it_reservedIds (rp_targets p)) \<subseteq> ii_id ` set (filter is_reserved inventory)"
    using v by (simp_all add: targets_ok_def)
  show ?thesis using k can some ids ga_body_ok [OF v]
    by (cases k; cases "rp_mode p")
      (simp_all add: vars create_restriction_def restriction_command_ok_def can_create_def panel_partner_def)
qed

section \<open>Which intents determine their command\<close>

lemma reclassify_intent_sound:
  assumes "CHR '':'' \<notin> set (ir_id item)" and "CHR '':'' \<notin> set (ir_id item')"
    and eq: "im_intent (change_restriction e) (p, item) = im_intent (change_restriction e) (p', item')"
  shows "im_call (change_restriction e) (p, item) = im_call (change_restriction e) (p', item')"
proof -
  let ?rest = "\<lambda>p. ''reclassify:'' @ mode_name (rp_mode p) @ '':'' @ rp_partner p"
  have "ir_id item @ CHR '':'' # ?rest p = ir_id item' @ CHR '':'' # ?rest p'"
    using eq by (simp add: change_restriction_def)
  from append_sep_eq [OF this assms(1,2)] have same: "ir_id item = ir_id item'" "?rest p = ?rest p'" by auto
  from same(2) have "mode_name (rp_mode p) @ CHR '':'' # rp_partner p = mode_name (rp_mode p') @ CHR '':'' # rp_partner p'"
    by simp
  moreover have "CHR '':'' \<notin> set (mode_name m)" for m by (cases m) auto
  ultimately have "mode_name (rp_mode p) = mode_name (rp_mode p') \<and> rp_partner p = rp_partner p'"
    by (auto dest: append_sep_eq)
  then have "rp_mode p = rp_mode p'" "rp_partner p = rp_partner p'"
    by (cases "rp_mode p"; cases "rp_mode p'"; simp)+
  with same(1) show ?thesis by (simp add: change_restriction_def panel_partner_def)
qed

lemma kind_text_plain: "CHR '':'' \<notin> set (kind_text k)"
  by (cases k rule: kind_text.cases) auto

lemma kind_text_inj: "kind_text k = kind_text k' \<longleftrightarrow> k = k'"
  by (cases k rule: kind_text.cases; cases k' rule: kind_text.cases) auto

lemma targets_json_inj: "targets_json v = targets_json w \<longleftrightarrow> v = w"
proof
  assume eq: "targets_json v = targets_json w"
  have inj_ga: "inj ga_json" by (rule injI) (auto simp: ga_json_def)
  have inj_str: "inj JStr" by (rule injI) simp
  from eq have "it_reservedIds v = it_reservedIds w" "it_reservedKeys v = it_reservedKeys w"
    "it_ga v = it_ga w" "it_sectionKeys v = it_sectionKeys w"
    using inj_map_eq_map [OF inj_ga] inj_map_eq_map [OF inj_str] by (auto simp: targets_json_def)
  then show "v = w" by simp
qed simp

text \<open>
  The create intent names the event, the kind, the purpose and the targets. It does not name the
  reason, the mode or the partner, so the command is determined only when these agree as well.
\<close>

lemma create_intent_determines:
  assumes f: "number_format f" and plain: "CHR '':'' \<notin> set e" "CHR '':'' \<notin> set e'"
    "CHR '':'' \<notin> set (rp_purpose p)" "CHR '':'' \<notin> set (rp_purpose p')"
    and eq: "im_intent (create_restriction f x) (e, p) = im_intent (create_restriction f x) (e', p')"
  shows "e = e' \<and> rp_kind p = rp_kind p' \<and> rp_purpose p = rp_purpose p' \<and> rp_targets p = rp_targets p'"
proof -
  let ?tail = "\<lambda>p. rp_purpose p @ CHR '':'' # stringify f (targets_json (rp_targets p))"
  have "e @ CHR '':'' # kind_text (rp_kind p) @ CHR '':'' # ?tail p =
      e' @ CHR '':'' # kind_text (rp_kind p') @ CHR '':'' # ?tail p'"
    using eq by (simp add: create_restriction_def)
  from append_sep_eq [OF this plain(1,2)] have e: "e = e'"
    and rest: "kind_text (rp_kind p) @ CHR '':'' # ?tail p = kind_text (rp_kind p') @ CHR '':'' # ?tail p'" by auto
  from append_sep_eq [OF rest kind_text_plain kind_text_plain] have k: "rp_kind p = rp_kind p'" and tail: "?tail p = ?tail p'"
    by (auto simp: kind_text_inj)
  from append_sep_eq [OF tail plain(3,4)] have "rp_purpose p = rp_purpose p'"
    and "stringify f (targets_json (rp_targets p)) = stringify f (targets_json (rp_targets p'))" by auto
  then have "rp_purpose p = rp_purpose p'" "rp_targets p = rp_targets p'"
    using stringify_inj [OF f] targets_json_inj by blast+
  with e k show ?thesis by simp
qed

end
