(* ===== verification/Admin_Intents.thy ===== *)
theory Admin_Intents
  imports Event_Detail Event_Create Partner_Detail Restrictions
begin

text \<open>
  Whether an intent determines its command. A key is kept while the outcome of its request is in
  doubt, so a later command under the same intent repeats that key: it must be the same request,
  or the server refuses it (or answers for the other one). The intents of most commands determine
  them, given identifiers without the separator; those of five commands do not.
\<close>

lemma plain_append_eq:
  "plain a \<Longrightarrow> plain b \<Longrightarrow> a @ CHR '':'' # x = b @ CHR '':'' # y \<longleftrightarrow> a = b \<and> x = y"
  using plain_sep by blast

lemma append_last_sep:
  assumes "a @ c # x = b @ c # y" and "c \<notin> set x" and "c \<notin> set y"
  shows "a = b \<and> x = y"
proof -
  have "rev x @ c # rev a = rev y @ c # rev b" using arg_cong [OF assms(1), of rev] by simp
  from append_sep_eq [OF this] assms(2,3) show ?thesis by simp
qed

section \<open>Sound intents\<close>

lemma users_changeState_sound: "sound_on (\<lambda>(user, enabled, reason). plain user) users_changeState"
  by (rule sound_onI) (auto simp: users_changeState_def plain_append_eq)

lemma partners_create_sound: "sound_on (\<lambda>_. True) partners_create"
  by (rule sound_onI) (simp add: partners_create_def)

lemma venues_create_sound: "sound_on (\<lambda>(name, address). plain (trim name)) venues_create"
  by (rule sound_onI) (auto simp: venues_create_def plain_append_eq)

lemma venue_layout_sound:
  "sound_on (\<lambda>_. True) (venue_create_layout here)" "sound_on (\<lambda>_. True) (venue_publish here)"
  by (rule sound_onI; simp add: venue_create_layout_def venue_publish_def)+

lemma webhook_sound: "sound_on (\<lambda>_. True) webhook_disable" "sound_on (\<lambda>_. True) webhook_rotate"
  by (rule sound_onI; simp add: webhook_disable_def webhook_rotate_def)+

lemma available_plain: "s \<in> set availableSubscriptions \<Longrightarrow> plain s \<and> CHR '','' \<notin> set s"
  by (auto simp: availableSubscriptions_def plain_def)

lemma join_plain: "(\<forall>x \<in> set xs. c \<notin> set x) \<Longrightarrow> c \<notin> set sep \<Longrightarrow> c \<notin> set (join sep xs)"
  by (induction sep xs rule: join.induct) auto

lemma subscriptions_no_colon: "set s \<subseteq> set availableSubscriptions \<Longrightarrow> CHR '':'' \<notin> set (join '','' s)"
  using available_plain by (intro join_plain) (auto simp: plain_def)

lemma webhook_create_sound:
  "sound_on (\<lambda>(partnerId, url, subs). plain partnerId \<and> subs \<noteq> [] \<and> set subs \<subseteq> set availableSubscriptions) webhook_create"
proof (rule sound_onI)
  fix v w
  let ?P = "\<lambda>(partnerId, url, subs). plain partnerId \<and> subs \<noteq> [] \<and> set subs \<subseteq> set availableSubscriptions"
  assume P: "?P v" "?P w" and eq: "im_intent webhook_create v = im_intent webhook_create w"
  obtain p u s where v: "v = (p, u, s)" by (cases v) auto
  obtain p' u' s' where w: "w = (p', u', s')" by (cases w) auto
  let ?rest = "\<lambda>u s. ''webhook:'' @ u @ '':'' @ join '','' s"
  have "p @ CHR '':'' # ?rest u s = p' @ CHR '':'' # ?rest u' s'" using eq by (simp add: v w webhook_create_def)
  moreover have "plain p" "plain p'" using P by (simp_all add: v w)
  ultimately have both: "p = p' \<and> ?rest u s = ?rest u' s'" by (rule plain_sep)
  then have p: "p = p'" and r: "?rest u s = ?rest u' s'" by blast+
  have no_colon: "CHR '':'' \<notin> set (join '','' s)" "CHR '':'' \<notin> set (join '','' s')"
    using P subscriptions_no_colon by (simp_all add: v w)
  have "u @ CHR '':'' # join '','' s = u' @ CHR '':'' # join '','' s'" using r by simp
  from append_last_sep [OF this no_colon] have u: "u = u'" and j: "join '','' s = join '','' s'" by auto
  have "s = s'" using P available_plain by (intro join_inj_aux [OF j]) (auto simp: v w)
  with p u show "im_call webhook_create v = im_call webhook_create w" by (simp add: v w)
qed

lemma ticket_action_text_plain [simp]: "plain (ticket_action_text a)" "ticket_action_text a = ticket_action_text b \<longleftrightarrow> a = b"
  by (cases a; simp add: plain_def) (cases a; cases b; simp)

lemma tickets_mutate_sound: "sound_on (\<lambda>(ticketId, action, reason). plain ticketId) (tickets_mutate q e s)"
  by (rule sound_onI) (auto simp: tickets_mutate_def plain_append_eq)

lemma admissions_reversal_sound:
  "sound_on (\<lambda>(admission, reason). \<exists>i. admission = Some i \<and> plain i) (admissions_reversal here)"
  by (rule sound_onI) (auto simp: admissions_reversal_def plain_append_eq)

lemma page_action_text_plain [simp]:
  "plain (page_action_text a)" "page_action_text a = page_action_text b \<longleftrightarrow> a = b"
proof -
  have acts: "plain (action_path x)" "action_path x \<noteq> ''cancel''" for x
    by (cases x; simp add: plain_def)+
  have inj: "action_path x = action_path y \<longleftrightarrow> x = y" for x y
    by (cases x; cases y; simp)
  show "plain (page_action_text a)" using acts by (cases a) (simp_all add: plain_def)
  show "page_action_text a = page_action_text b \<longleftrightarrow> a = b" using acts(2) acts(2) [symmetric] inj by (cases a; cases b) simp_all
qed

lemma event_lifecycle_sound: "sound_on (\<lambda>(eventId, action, reason). plain eventId) (event_lifecycle here)"
  by (rule sound_onI) (auto simp: event_lifecycle_def plain_append_eq split: page_action.split)

lemma event_materialize_sound: "sound_on (\<lambda>(eventId, layoutId). plain eventId) (event_materialize here)"
  by (rule sound_onI) (auto simp: event_materialize_def plain_append_eq)

lemma event_access_sound: "sound_on (\<lambda>(eventId, partnerId, enabled). plain eventId \<and> plain partnerId) (event_access here)"
  by (rule sound_onI) (auto simp: event_access_def plain_append_eq)

lemma event_assign_sound:
  assumes "number_format f"
  shows "sound_on (\<lambda>(eventId, tier, targets). plain eventId \<and> plain tier) (event_assign f here)"
proof (rule sound_onI)
  fix v w
  assume P: "(\<lambda>(eventId, tier, targets). plain eventId \<and> plain tier) v" "(\<lambda>(eventId, tier, targets). plain eventId \<and> plain tier) w"
    and eq: "im_intent (event_assign f here) v = im_intent (event_assign f here) w"
  obtain e t x where v: "v = (e, t, x)" by (cases v) auto
  obtain e' t' x' where w: "w = (e', t', x')" by (cases w) auto
  have "e = e'" "t = t'" "stringify f (targets_json x) = stringify f (targets_json x')"
    using P eq by (simp_all add: v w event_assign_def plain_append_eq)
  moreover from stringify_inj [OF assms this(3)] have "x = x'" by (simp add: targets_json_inj)
  ultimately show "im_call (event_assign f here) v = im_call (event_assign f here) w" by (simp add: v w)
qed

lemma partner_sound:
  "sound_on (\<lambda>_. True) (partner_issue here)"
  "sound_on (\<lambda>(partnerId, revokeId). plain partnerId) (partner_revoke here)"
  "sound_on (\<lambda>(partnerId, enabled). plain partnerId) (partner_state here)"
  "sound_on (\<lambda>(partnerId, eventId, enabled). plain partnerId \<and> plain eventId) (partner_access here)"
  by (rule sound_onI; auto simp: partner_issue_def partner_revoke_def partner_state_def partner_access_def plain_append_eq)+

lemma partner_checkoutURLs_sound:
  "sound_on (\<lambda>(partnerId, urls). plain partnerId \<and> (\<forall>u \<in> set urls. u \<noteq> [] \<and> CHR ''|'' \<notin> set u)) (partner_checkoutURLs here)"
proof (rule sound_onI)
  fix v w
  let ?P = "\<lambda>(partnerId, urls). plain partnerId \<and> (\<forall>u \<in> set urls. u \<noteq> [] \<and> CHR ''|'' \<notin> set u)"
  assume P: "?P v" "?P w" and eq: "im_intent (partner_checkoutURLs here) v = im_intent (partner_checkoutURLs here) w"
  obtain p u where v: "v = (p, u)" by (cases v) auto
  obtain p' u' where w: "w = (p', u')" by (cases w) auto
  have p: "p = p'" and j: "join ''|'' u = join ''|'' u'"
    using P eq by (simp_all add: v w partner_checkoutURLs_def plain_append_eq)
  have ne: "join ''|'' x = [] \<longleftrightarrow> x = []" if "\<forall>y \<in> set x. y \<noteq> []" for x
  proof (cases x)
    case (Cons y ys)
    then show ?thesis using that by (cases "ys = []") (simp_all add: join_Cons)
  qed simp
  have "u = u'"
  proof (cases "u = [] \<or> u' = []")
    case True
    then show ?thesis using j ne [of u] ne [of u'] P by (auto simp: v w)
  next
    case False
    then show ?thesis using P by (intro join_inj_aux [OF j]) (auto simp: v w)
  qed
  with p show "im_call (partner_checkoutURLs here) v = im_call (partner_checkoutURLs here) w" by (simp add: v w)
qed

section \<open>The layout in the replace intent\<close>

lemma j_int_inj: "j_int a = j_int b \<longleftrightarrow> a = b"
  by (simp add: j_int_def)

lemma j_opt_append:
  "field \<notin> fst ` set x \<Longrightarrow> field \<notin> fst ` set y \<Longrightarrow>
   j_opt field a @ x = j_opt field b @ y \<longleftrightarrow> a = b \<and> x = y"
  by (cases a; cases b) (auto simp: j_opt_def)

lemma j_opt_inj: "j_opt field a = j_opt field b \<longleftrightarrow> a = b"
  using j_opt_append [of field "[]" "[]"] by simp

lemma type_name_inj: "type_name a = type_name b \<longleftrightarrow> a = b"
  by (cases a; cases b) simp_all

lemma map_option_inj: "inj f \<Longrightarrow> map_option f a = map_option f b \<longleftrightarrow> a = b"
  by (cases a; cases b) (auto dest: injD)

lemma inj_JStr: "inj JStr" and inj_JNum: "inj JNum"
  by (simp_all add: inj_def)

lemma j_opt_fields: "fst ` set (j_opt field a) \<subseteq> {field}"
  by (cases a) (auto simp: j_opt_def)

lemma j_opt_append3:
  "distinct [a, b, c] \<Longrightarrow> j_opt a x @ j_opt b y @ j_opt c z = j_opt a x' @ j_opt b y' @ j_opt c z' \<longleftrightarrow> x = x' \<and> y = y' \<and> z = z'"
  by (cases x; cases x'; cases y; cases y'; cases z; cases z') (auto simp: j_opt_def)

lemma inj_geometry_item_json: "inj geometry_item_json"
  by (rule injI)
    (simp add: geometry_item_json_def j_opt_append3 map_option_inj [OF inj_JNum] map_option_inj [OF inj_JStr])

lemma inj_section_json: "inj section_json"
  by (rule injI) (auto simp: section_json_def j_opt_inj j_int_inj type_name_inj)

lemma inj_row_json: "inj row_json"
  by (rule injI) (auto simp: row_json_def j_opt_inj j_int_inj)

lemma inj_table_json: "inj table_json"
  by (rule injI) (auto simp: table_json_def j_opt_inj)

lemma inj_zone_json: "inj zone_json"
  by (rule injI) (auto simp: zone_json_def j_opt_inj j_int_inj)

lemma inj_seat_json: "inj seat_json"
proof (rule injI)
  fix s t
  assume eq: "seat_json s = seat_json t"
  let ?final = "\<lambda>s. (''seat_label'', JStr (seat_label s)) # (''sort_order'', j_int (seat_sort_order s)) # j_opt ''metadata'' (seat_metadata s)"
  let ?table = "\<lambda>s. j_opt ''table_key'' (map_option JStr (seat_table_key s)) @ ?final s"
  have fields: "''row_key'' \<notin> fst ` set (?table s)" "''table_key'' \<notin> fst ` set (?final s)" for s
    using j_opt_fields [of "''table_key''" "map_option JStr (seat_table_key s)"] j_opt_fields [of "''metadata''" "seat_metadata s"]
    by (auto simp: image_Un)
  have keys: "seat_object_key s = seat_object_key t" "seat_section_key s = seat_section_key t"
    and rest: "j_opt ''row_key'' (map_option JStr (seat_row_key s)) @ ?table s = j_opt ''row_key'' (map_option JStr (seat_row_key t)) @ ?table t"
    using eq by (simp_all add: seat_json_def)
  from rest have row: "seat_row_key s = seat_row_key t" and t: "?table s = ?table t"
    using j_opt_append [OF fields(1) fields(1)] map_option_inj [OF inj_JStr] by blast+
  from t have tab: "seat_table_key s = seat_table_key t" and e: "?final s = ?final t"
    using j_opt_append [OF fields(2) fields(2)] map_option_inj [OF inj_JStr] by blast+
  from e have "seat_label s = seat_label t" "seat_sort_order s = seat_sort_order t" "seat_metadata s = seat_metadata t"
    by (simp_all add: j_int_inj j_opt_inj)
  with keys row tab show "s = t" by simp
qed

lemma layout_body_json_inj:
  assumes "layout_body_json a = layout_body_json b"
  shows "a = (b :: layout_body)"
proof -
  have inj_canvas: "inj canvas_json" by (rule injI) (auto simp: canvas_json_def j_int_inj)
  have inj_objects: "inj objects_json"
    by (rule injI) (simp add: objects_json_def inj_map_eq_map [OF inj_geometry_item_json])
  have obj: "''canvas'' \<notin> fst ` set (j_opt ''objects'' x)" for x
    using j_opt_fields [of "''objects''" x] by auto
  from assms have parts: "lb_sections a = lb_sections b" "st_rows a = st_rows b" "st_tables a = st_tables b"
      "st_seats a = st_seats b" "st_ga_zones a = st_ga_zones b"
    and geo: "j_opt ''canvas'' (map_option canvas_json (lb_canvas a)) @ j_opt ''objects'' (map_option objects_json (lb_objects a)) =
      j_opt ''canvas'' (map_option canvas_json (lb_canvas b)) @ j_opt ''objects'' (map_option objects_json (lb_objects b))"
    by (simp_all add: layout_body_json_def inj_map_eq_map [OF inj_section_json] inj_map_eq_map [OF inj_row_json]
        inj_map_eq_map [OF inj_table_json] inj_map_eq_map [OF inj_seat_json] inj_map_eq_map [OF inj_zone_json])
  from geo have "lb_canvas a = lb_canvas b" "lb_objects a = lb_objects b"
    unfolding j_opt_append [OF obj obj] by (simp_all add: map_option_inj [OF inj_canvas] map_option_inj [OF inj_objects] j_opt_inj)
  with parts show ?thesis by simp
qed

lemma venue_replace_sound:
  assumes "number_format f"
  shows "sound_on (\<lambda>(editing, body). \<exists>i. editing = Some i \<and> plain i) (venue_replace f here)"
proof (rule sound_onI)
  fix v w
  let ?P = "\<lambda>(editing, body). \<exists>i. editing = Some i \<and> plain i"
  assume P: "?P v" "?P w" and eq: "im_intent (venue_replace f here) v = im_intent (venue_replace f here) w"
  obtain i b where v: "v = (Some i, b)" "plain i" using P by (cases v) auto
  obtain j c where w: "w = (Some j, c)" "plain j" using P by (cases w) auto
  from eq have "i @ CHR '':'' # ''replace:'' @ stringify f (layout_body_json b) = j @ CHR '':'' # ''replace:'' @ stringify f (layout_body_json c)"
    by (simp add: v w venue_replace_def)
  from plain_sep [OF this v(2) w(2)] have "i = j" "stringify f (layout_body_json b) = stringify f (layout_body_json c)" by auto
  moreover from stringify_inj [OF assms this(2)] have "b = c" by (rule layout_body_json_inj)
  ultimately show "im_call (venue_replace f here) v = im_call (venue_replace f here) w" by (simp add: v w)
qed

section \<open>Intents that leave out part of their command\<close>

lemma unsoundI: "im_intent m v = im_intent m w \<Longrightarrow> im_call m v \<noteq> im_call m w \<Longrightarrow> P v \<Longrightarrow> P w \<Longrightarrow> \<not> sound_on P m"
  unfolding sound_on_def by blast

lemma restriction_command_differs:
  "im_intent (create_restriction f h) (e, p) = im_intent (create_restriction f h) (e, p\<lparr>rp_reason := r\<rparr>) \<and>
   (rp_reason p \<noteq> r \<longrightarrow> im_call (create_restriction f h) (e, p) \<noteq> im_call (create_restriction f h) (e, p\<lparr>rp_reason := r\<rparr>))"
  by (simp add: create_restriction_def panel_partner_def)

lemma price_command_differs:
  "im_intent (event_price to_number h) (e, v) = im_intent (event_price to_number h) (e, v\<lparr>pv_name := n\<rparr>) \<and>
   (trim (pv_name v) \<noteq> trim n \<longrightarrow>
     im_call (event_price to_number h) (e, v) \<noteq> im_call (event_price to_number h) (e, v\<lparr>pv_name := n\<rparr>))"
  by (simp add: event_price_def)

lemma manual_command_differs:
  "im_intent (admissions_manual h) (e, v) = im_intent (admissions_manual h) (e, v\<lparr>mv_gate := g\<rparr>) \<and>
   (trim (mv_gate v) \<noteq> trim g \<longrightarrow>
     im_call (admissions_manual h) (e, v) \<noteq> im_call (admissions_manual h) (e, v\<lparr>mv_gate := g\<rparr>))"
  by (auto simp: admissions_manual_def or_undefined_def)

lemma admin_command_differs:
  "im_intent users_create (email, n) = im_intent users_create (email, n') \<and>
   (n \<noteq> n' \<longrightarrow> im_call users_create (email, n) \<noteq> im_call users_create (email, n'))"
  by (simp add: users_create_def)

lemma create_event_command_differs:
  "im_intent (create_event to_iso) f = im_intent (create_event to_iso) (f\<lparr>ef_schedule := (ef_schedule f)\<lparr>sc_timeZone := z\<rparr>\<rparr>) \<and>
   (trim (sc_timeZone (ef_schedule f)) \<noteq> trim z \<longrightarrow>
     im_call (create_event to_iso) f \<noteq> im_call (create_event to_iso) (f\<lparr>ef_schedule := (ef_schedule f)\<lparr>sc_timeZone := z\<rparr>\<rparr>))"
  by (auto simp: create_event_def create_event_values_def Let_def or_undefined_def)

end
