(* ===== verification/Admin_Properties.thy ===== *)
theory Admin_Properties
  imports Admin_Intents
begin

text \<open>
  The properties of the organiser application, with their witnesses: the requests of its client,
  the cache of its queries, the commands sent under the key of an intent, and what its forms and
  dialogs let through. The last section records behaviour that looks unintended.
\<close>

section \<open>The client\<close>

text \<open>
  Every command of the client carries the idempotency key it is given, as a header and as
  the request's header parameter, never as a GET, and every query is a GET without a key and
  without a body; the parameters of a command fill exactly the placeholders of its path.
\<close>

theorem commands_keyed_queries_read_only:
  "keyed token key (command_request token key c) \<and> read_only token (query_request token q)"
  using command_request_keyed query_request_read_only by blast

section \<open>The cache\<close>

text \<open>
  A cache key stands for one call: two queries of any of the hooks share cached data only if
  they are the same call with the same arguments.
\<close>

theorem cache_key_determines_call:
  assumes "issued a" and "issued b" and "qo_key a = qo_key b"
  shows "qo_call a = qo_call b"
  using assms by (rule key_determines_call)

theorem cache_key_determines_call_witness:
  "qo_key (usePartner ''x'') \<noteq> qo_key (useEvent ''x'')"
  using cache_key_determines_call [OF issued_usePartner issued_useEvent, of "''x''" "''x''"]
  by (auto simp: usePartner_def useEvent_def)

text \<open>
  After a successful command of the event page no data of that event stays cached as fresh:
  every query of the event's workspace, its reports and the event itself has a cache key that
  extends an invalidated one; a failed command invalidates nothing.
\<close>

theorem event_commands_refresh_workspace:
  assumes "invalidated \<in> {mutation_invalidates (event_lifecycle e) (Inr d), mutation_invalidates (event_price to_number e) (Inr d),
      mutation_invalidates (event_materialize e) (Inr d), mutation_invalidates (event_access e) (Inr d),
      mutation_invalidates (event_assign f e) (Inr d)}"
    and "qo \<in> set (useEvent e # useEventWorkspace e @ useEventReports e)"
  shows "(\<exists>k \<in> set invalidated. prefix k (qo_key qo)) \<and> mutation_invalidates (event_lifecycle e) (Inl err) = []"
proof -
  have "prefix (keys_event e) (qo_key qo)" using assms(2) by (auto simp: hook_defs keys_defs)
  moreover have "keys_event e \<in> set invalidated"
    using assms(1) by (auto simp: mutation_invalidates_def event_lifecycle_def event_price_def event_materialize_def
        event_access_def event_assign_def event_invalidate_def)
  ultimately show ?thesis by (auto simp: mutation_invalidates_def)
qed

theorem event_commands_refresh_workspace_witness:
  "\<exists>k \<in> set (mutation_invalidates (event_lifecycle ''e'') (Inr None)). prefix k (qo_key (useEvent ''e''))"
  using event_commands_refresh_workspace [of "mutation_invalidates (event_lifecycle ''e'') (Inr None)" "''e''" None _ _ "useEvent ''e''"]
  by simp

section \<open>Intents\<close>

text \<open>
  C15: For the commands with a sound intent, a key stands for one command: two uses of the command
  with the same intent send the same request, provided that identifiers contain no separator and
  numbers are written injectively.
\<close>

theorem intents_determine_commands:
  assumes "number_format f"
  shows "sound_on (\<lambda>(eventId, action, reason). plain eventId) (event_lifecycle here) \<and>
    sound_on (\<lambda>(eventId, tier, targets). plain eventId \<and> plain tier) (event_assign f here) \<and>
    sound_on (\<lambda>(eventId, layoutId). plain eventId) (event_materialize here) \<and>
    sound_on (\<lambda>(eventId, partnerId, enabled). plain eventId \<and> plain partnerId) (event_access here) \<and>
    sound_on (\<lambda>(editing, body). \<exists>i. editing = Some i \<and> plain i) (venue_replace f here) \<and>
    sound_on (\<lambda>(p, item). plain (ir_id item)) (change_restriction here) \<and>
    sound_on (\<lambda>(ticketId, action, reason). plain ticketId) (tickets_mutate q e s) \<and>
    sound_on (\<lambda>(admission, reason). \<exists>i. admission = Some i \<and> plain i) (admissions_reversal here) \<and>
    sound_on (\<lambda>(user, enabled, reason). plain user) users_changeState \<and>
    sound_on (\<lambda>(partnerId, url, subs). plain partnerId \<and> subs \<noteq> [] \<and> set subs \<subseteq> set availableSubscriptions) webhook_create"
proof -
  have "sound_on (\<lambda>(p, item). plain (ir_id item)) (change_restriction here)"
    by (rule sound_onI) (auto simp: plain_def intro: reclassify_intent_sound)
  then show ?thesis
    by (intro conjI event_lifecycle_sound event_assign_sound event_materialize_sound event_access_sound venue_replace_sound
        tickets_mutate_sound admissions_reversal_sound users_changeState_sound webhook_create_sound assms)
qed

theorem intents_determine_commands_witness:
  "im_intent (event_assign ratio_text ''e'') (''e'', ''t1'', emptyTargets) \<noteq>
   im_intent (event_assign ratio_text ''e'') (''e'', ''t2'', emptyTargets)"
proof -
  from intents_determine_commands [OF ratio_text_format]
  have "sound_on (\<lambda>(eventId, tier, targets). plain eventId \<and> plain tier) (event_assign ratio_text ''e'')" by blast
  then have "im_intent (event_assign ratio_text ''e'') (''e'', ''t1'', emptyTargets) =
      im_intent (event_assign ratio_text ''e'') (''e'', ''t2'', emptyTargets) \<longrightarrow>
    im_call (event_assign ratio_text ''e'') (''e'', ''t1'', emptyTargets) =
      im_call (event_assign ratio_text ''e'') (''e'', ''t2'', emptyTargets)"
    unfolding sound_on_def by (auto simp: plain_def)
  then show ?thesis by (auto simp: event_assign_def)
qed

lemma differing_pair:
  "im_intent m v = im_intent m w \<Longrightarrow> im_call m v \<noteq> im_call m w \<Longrightarrow>
   \<exists>v w. im_intent m v = im_intent m w \<and> im_call m v \<noteq> im_call m w"
  by blast

lemma trim_differs: "trim ''x'' \<noteq> []" "[] \<noteq> trim ''x''"
  by code_simp+

text \<open>
  Five intents leave out part of their command: a changed reason of a block, a changed name of
  a price, another gate of a manual admission, another name of an administrator or another time
  zone of an event are sent under the key of the command whose outcome is still in doubt.
\<close>

theorem intents_that_omit_fields:
  "(\<exists>v w. im_intent (create_restriction f e) v = im_intent (create_restriction f e) w \<and>
      im_call (create_restriction f e) v \<noteq> im_call (create_restriction f e) w) \<and>
   (\<exists>v w. im_intent (event_price to_number e) v = im_intent (event_price to_number e) w \<and>
      im_call (event_price to_number e) v \<noteq> im_call (event_price to_number e) w) \<and>
   (\<exists>v w. im_intent (admissions_manual e) v = im_intent (admissions_manual e) w \<and>
      im_call (admissions_manual e) v \<noteq> im_call (admissions_manual e) w) \<and>
   (\<exists>v w. im_intent users_create v = im_intent users_create w \<and> im_call users_create v \<noteq> im_call users_create w) \<and>
   (\<exists>v w. im_intent (create_event to_iso) v = im_intent (create_event to_iso) w \<and>
      im_call (create_event to_iso) v \<noteq> im_call (create_event to_iso) w)"
proof (intro conjI)
  note r = restriction_command_differs [of f e e initial_panel "''x''"]
  show "\<exists>v w. im_intent (create_restriction f e) v = im_intent (create_restriction f e) w \<and>
      im_call (create_restriction f e) v \<noteq> im_call (create_restriction f e) w"
    by (rule differing_pair [OF r [THEN conjunct1] r [THEN conjunct2, THEN mp]]) (simp add: initial_panel_def)
  note p = price_command_differs [of to_number e e "\<lparr>pv_name = [], pv_code = [], pv_amount = [], pv_currency = []\<rparr>" "''x''"]
  show "\<exists>v w. im_intent (event_price to_number e) v = im_intent (event_price to_number e) w \<and>
      im_call (event_price to_number e) v \<noteq> im_call (event_price to_number e) w"
    by (rule differing_pair [OF p [THEN conjunct1] p [THEN conjunct2, THEN mp]]) (simp add: trim_differs)
  note a = manual_command_differs [of e e "\<lparr>mv_ticketId = [], mv_gate = [], mv_reason = []\<rparr>" "''x''"]
  show "\<exists>v w. im_intent (admissions_manual e) v = im_intent (admissions_manual e) w \<and>
      im_call (admissions_manual e) v \<noteq> im_call (admissions_manual e) w"
    by (rule differing_pair [OF a [THEN conjunct1] a [THEN conjunct2, THEN mp]]) (simp add: trim_differs)
  note u = admin_command_differs [of "[]" "[]" "''x''"]
  show "\<exists>v w. im_intent users_create v = im_intent users_create w \<and> im_call users_create v \<noteq> im_call users_create w"
    by (rule differing_pair [OF u [THEN conjunct1] u [THEN conjunct2, THEN mp]]) simp
  note c = create_event_command_differs [of to_iso "(initial_form [])\<lparr>ef_schedule := (ef_schedule (initial_form []))\<lparr>sc_timeZone := []\<rparr>\<rparr>" "''x''"]
  show "\<exists>v w. im_intent (create_event to_iso) v = im_intent (create_event to_iso) w \<and>
      im_call (create_event to_iso) v \<noteq> im_call (create_event to_iso) w"
    by (rule differing_pair [OF c [THEN conjunct1] c [THEN conjunct2, THEN mp]]) (simp add: trim_differs)
qed

section \<open>Blocks and allocations\<close>

definition sample_seat :: inventory_item where
  "sample_seat = \<lparr>ii_kind = Reserved_Seat, ii_id = ''i1'', ii_snapshot_object_key = ''k1'', ii_section_object_key = ''floor'',
     ii_section_name = ''Floor'', ii_row_label = None, ii_table_label = None, ii_seat_label = None, ii_area_name = [],
     ii_display_label = ''Floor'', ii_label = ''1'', ii_quantity = 1, ii_price_tier_id = None\<rparr>"

definition sample_picker :: picker where
  "sample_picker = change_scope [sample_seat] For_Restriction Scope_All (initial_picker emptyTargets)"

definition sample_panel :: restrictions_panel where
  "sample_panel = (open_dialog Block initial_panel)\<lparr>rp_targets := pk_value sample_picker\<rparr>"

lemma sample_inventory_ok: "inventory_ok [sample_seat]"
  by (simp add: inventory_ok_def sample_seat_def)

lemma sample_picker_reachable: "picker_reachable [sample_seat] For_Restriction sample_picker"
  unfolding sample_picker_def by (intro picker_reachable.picker_scope picker_reachable.picker_start)

lemma sample_panel_reachable: "panel_reachable [sample_seat] [] sample_panel"
proof -
  have "panel_reachable [sample_seat] [] (open_dialog Block initial_panel)"
    by (intro panel_reachable.panel_open panel_reachable.panel_start)
  then show ?thesis unfolding sample_panel_def
    by (rule panel_reachable.panel_targets [OF _ _ sample_picker_reachable]) (simp add: open_dialog_def)
qed

lemma trim_VIP: "trim ''VIP'' \<noteq> []"
  by code_simp

text \<open>
  C21: Whatever is clicked in the restrictions panel and its picker, the command its dialog sends
  is well formed: a block or an allocation as the dialog says, with a purpose, at least one
  target, seats and standing areas of the event, no target twice, quantities between 1 and what
  the area has, and a partner exactly for a channel allocation.
\<close>

theorem restriction_commands_well_formed:
  assumes "panel_reachable inventory restrictions p" and "inventory_ok inventory" and "press_create eventId p = Some vars"
  shows "\<exists>k. rp_kind p = Some k \<and> restriction_command_ok inventory k (im_call (create_restriction f eventId) vars)"
  using assms by (rule pressed_create_ok)

theorem restriction_commands_well_formed_witness:
  "restriction_command_ok [sample_seat] Block (im_call (create_restriction ratio_text ''e'') (''e'', sample_panel))"
proof -
  have "press_create ''e'' sample_panel = Some (''e'', sample_panel)"
    using trim_VIP by (simp add: press_create_def can_create_def sample_panel_def open_dialog_def initial_panel_def
        sample_picker_def change_scope_def targetsForEntireEvent_def is_reserved_def sample_seat_def)
  from restriction_commands_well_formed [OF sample_panel_reachable sample_inventory_ok this, of ratio_text]
  show ?thesis by (simp add: sample_panel_def open_dialog_def)
qed

text \<open>
  The inventory picker always holds valid targets: seats by id without repetition, standing
  areas with quantities from 1 to what they have, sections that exist, and, choosing seat by seat,
  ids and snapshot keys of the same seats; the whole event means every seat and every area in full.
\<close>

theorem picker_targets_valid:
  assumes "picker_reachable inventory m p" and "inventory_ok inventory"
  shows "targets_ok inventory (pk_value p) \<and>
    (pk_scope p = Scope_Seats \<longrightarrow> keys_match inventory (pk_value p) \<and> it_sectionKeys (pk_value p) = []) \<and>
    (\<forall>item \<in> set inventory. is_standing item \<longrightarrow> whole_area item \<in> set (it_ga (pk_value (change_scope inventory m Scope_All p)))) \<and>
    (\<forall>item \<in> set inventory. is_reserved item \<longrightarrow>
       ii_id item \<in> set (it_reservedIds (pk_value (change_scope inventory m Scope_All p))) \<or>
       ii_section_object_key item \<in> set (it_sectionKeys (pk_value (change_scope inventory m Scope_All p))))"
proof -
  have "picker_ok inventory p" using assms by (rule picker_reachable_ok)
  moreover have "pk_value (change_scope inventory m Scope_All p) = targetsForEntireEvent inventory m"
    by (simp add: change_scope_def)
  moreover have "ii_id item \<in> set (it_reservedIds (targetsForEntireEvent inventory m)) \<or>
      ii_section_object_key item \<in> set (it_sectionKeys (targetsForEntireEvent inventory m))"
    if "item \<in> set inventory" "is_reserved item" for item
    using targetsForEntireEvent_covers(1) [OF that, of m] by (cases "m = For_Restriction") simp_all
  ultimately show ?thesis
    using targetsForEntireEvent_covers(2) [of _ inventory m] by (simp add: picker_ok_def)
qed

theorem picker_targets_valid_witness:
  "targets_ok [sample_seat] (pk_value sample_picker) \<and> ii_id sample_seat \<in> set (it_reservedIds (pk_value sample_picker))"
  using picker_targets_valid [OF sample_picker_reachable sample_inventory_ok]
  by (simp add: sample_picker_def change_scope_def targetsForEntireEvent_def is_reserved_def sample_seat_def)

section \<open>The event page\<close>

text \<open>
  C29: The event page offers exactly the lifecycle actions that the backend's transition table
  allows in the event's state.
\<close>

theorem offered_actions_are_legal:
  "a \<in> offered to_millis now st salesOpenAt \<longleftrightarrow> server_transition a st \<noteq> None"
  by (rule offered_iff_legal)

text \<open>
  The primary button sends only an action that is legal in the event's state, and opens sales
  only when policy, layout, pricing and inventory are all set up; a confirmed action is the one
  that was confirmed, and a cancellation carries a trimmed, non-empty reason.
\<close>

theorem lifecycle_commands_guarded:
  assumes "runPrimary e (primaryAction to_millis now st salesOpenAt) (missingSetup s) p = (p', Some (i, a, r))"
    and "runConfirmed e form q = Some (j, b, t)"
  shows "i = e \<and> server_transition a st \<noteq> None \<and>
    (a = Act Open_Sales \<longrightarrow> es_policy s \<and> es_layout s \<and> es_pricing s \<and> es_inventory s) \<and>
    j = e \<and> (\<exists>title text'. ep_confirm q = Some (b, title, text')) \<and>
    (b = Cancel_Event \<longrightarrow> (\<exists>x. t = Some x \<and> x \<noteq> [] \<and> trim x = x))"
  using runPrimary_sends [of e to_millis now st salesOpenAt s p i a r] runConfirmed_sends [OF assms(2)] assms(1) by auto

theorem lifecycle_commands_guarded_witness:
  "\<exists>x. runConfirmed ''e'' (Some '' rain '') (chooseAction Cancel_Event initial_event_page) = Some (''e'', Cancel_Event, Some x) \<and>
     x \<noteq> [] \<and> trim x = x"
proof -
  have rain: "trim (form_or (Some '' rain '') []) \<noteq> []" by code_simp
  obtain x where confirmed: "runConfirmed ''e'' (Some '' rain '') (chooseAction Cancel_Event initial_event_page) = Some (''e'', Cancel_Event, Some x)"
    using rain by (simp add: runConfirmed_def chooseAction_def initial_event_page_def Let_def)
  have "runPrimary ''e'' (primaryAction (\<lambda>_. None) 0 Ev_On_Sale None) (missingSetup (setup_of None None)) initial_event_page =
      (initial_event_page, Some (''e'', Act Pause_Sales, None))"
    by (simp add: runPrimary_def primaryAction_def)
  from lifecycle_commands_guarded [OF this confirmed] confirmed show ?thesis by auto
qed

text \<open>
  A price tier is sent only with a code, a name, a currency of three characters and an amount
  that is not negative, and the amount in minor units is the entered one times 100, rounded to
  the nearest integer.
\<close>

theorem price_commands_valid:
  assumes "submitPrice to_number eventId form st = Some (i, v)"
  shows "\<exists>code name cur amount r.
    im_call (event_price to_number eventId) (i, v) = C_createPriceTier eventId code name amount cur \<and>
    code \<noteq> [] \<and> name \<noteq> [] \<and> js_length (trim (pv_currency v)) = 3 \<and> cur = to_upper (trim (pv_currency v)) \<and>
    0 \<le> amount \<and> to_number (pv_amount v) = Some r \<and> \<bar>of_int amount - r * 100\<bar> \<le> 1 / 2"
  using assms by (rule submitPrice_sends)

definition sample_price :: price_values where
  "sample_price = \<lparr>pv_name = ''Standard'', pv_code = ''std'', pv_amount = ''12.50'', pv_currency = ''ngn''\<rparr>"

theorem price_commands_valid_witness:
  "\<exists>v. submitPrice (\<lambda>_. Some (25 / 2)) ''e'' None sample_price = Some (''e'', v) \<and>
     (\<exists>code name cur amount. im_call (event_price (\<lambda>_. Some (25 / 2)) ''e'') (''e'', v) = C_createPriceTier ''e'' code name amount cur \<and> 0 \<le> amount)"
proof -
  have "trim ''Standard'' \<noteq> []" "trim ''std'' \<noteq> []" "js_length (trim ''ngn'') = 3" by code_simp+
  then have "submitPrice (\<lambda>_. Some (25 / 2)) ''e'' None sample_price = Some (''e'', sample_price)"
    by (simp add: submitPrice_def sample_price_def Let_def)
  with price_commands_valid [OF this] show ?thesis by blast
qed

section \<open>The other forms\<close>

text \<open>
  The wizard reaches its review step only with an event name, a venue and a schedule in which
  no end lies before its beginning.
\<close>

theorem wizard_review_complete:
  assumes "wizard_reachable earlier zone f" and "ef_step f = 3"
  shows "trim (ef_name f) \<noteq> [] \<and> ef_venueId f \<noteq> [] \<and> schedule_ok earlier (ef_schedule f)"
  using wizard_reachable_ok [OF assms(1)] assms(2) by (simp add: wizard_ok_def)

definition sample_wizard :: event_form where
  "sample_wizard = wizard_next (\<lambda>_ _. False) None
     (wizard_next (\<lambda>_ _. False) None ((initial_form ''UTC'')\<lparr>ef_name := ''VIP'', ef_venueId := ''v''\<rparr>))"

theorem wizard_review_complete_witness:
  "ef_step sample_wizard = 3 \<and> schedule_ok (\<lambda>_ _. False) (ef_schedule sample_wizard)"
proof -
  let ?f = "(initial_form ''UTC'')\<lparr>ef_name := ''VIP'', ef_venueId := ''v''\<rparr>"
  have "wizard_reachable (\<lambda>_ _. False) ''UTC'' ((initial_form ''UTC'')\<lparr>ef_name := ''VIP''\<rparr>)"
    by (intro wizard_reachable.wizard_name wizard_reachable.wizard_start) (simp add: initial_form_def)
  from wizard_reachable.wizard_venue [OF this, of "''v''"] have r: "wizard_reachable (\<lambda>_ _. False) ''UTC'' ?f"
    by (simp add: initial_form_def)
  have two: "wizard_next (\<lambda>_ _. False) None ?f = ?f\<lparr>ef_step := 2, ef_error := []\<rparr>"
    using trim_VIP by (simp add: wizard_next_def initial_form_def)
  have three: "ef_step sample_wizard = 3"
    unfolding sample_wizard_def two
    by (simp add: wizard_next_def captured_def invalidPair_def schedule_pairs_def initial_form_def Let_def)
  have "wizard_reachable (\<lambda>_ _. False) ''UTC'' (wizard_next (\<lambda>_ _. False) None ?f)"
    using r by (rule wizard_reachable.wizard_continue) (simp add: initial_form_def)
  then have "wizard_reachable (\<lambda>_ _. False) ''UTC'' sample_wizard"
    unfolding sample_wizard_def by (rule wizard_reachable.wizard_continue) (simp add: two)
  from wizard_review_complete [OF this three] three show ?thesis by simp
qed

text \<open>
  The return URLs saved for a partner are trimmed and not empty, and each parses as an https
  URL without credentials and without a fragment.
\<close>

theorem saved_return_urls_valid:
  assumes "saveReturnURLs new_url partnerId form st = Some (i, urls)"
  shows "i = partnerId \<and> (\<forall>u \<in> set urls. u \<noteq> [] \<and> trim u = u \<and>
    (\<exists>p. new_url u = Some p \<and> url_protocol p = ''https:'' \<and> url_username p = [] \<and> url_password p = [] \<and> url_hash p = []))"
proof -
  have "i = partnerId" using assms by (simp add: saveReturnURLs_def Let_def split: if_splits)
  then show ?thesis using saved_urls_ok [OF assms] good_return_url [of new_url] by metis
qed

theorem saved_return_urls_valid_witness:
  "\<exists>urls. saveReturnURLs (\<lambda>_. Some \<lparr>url_protocol = ''https:'', url_username = [], url_password = [], url_hash = []\<rparr>)
      ''p'' None ''https://shop/back'' = Some (''p'', urls) \<and> (\<forall>u \<in> set urls. trim u = u)"
proof -
  let ?parse = "\<lambda>_ :: string. Some \<lparr>url_protocol = ''https:'', url_username = [], url_password = [], url_hash = []\<rparr>"
  obtain urls where saved: "saveReturnURLs ?parse ''p'' None ''https://shop/back'' = Some (''p'', urls)"
    by (simp add: saveReturnURLs_def bad_return_url_def list_ex_iff Let_def)
  from saved_return_urls_valid [OF saved] saved show ?thesis by blast
qed

section \<open>Recorded divergences\<close>

text \<open>
  The mode of an allocation stays when its dialog is cancelled: the dialog of a block, which shows
  neither mode nor partner, is then disabled however it is filled in.
\<close>

lemma block_needs_hidden_partner:
  assumes "panel_reachable inventory restrictions p" and "rp_kind p = Some Allocation" and "rp_partner p = []"
  shows "\<exists>q. panel_reachable inventory restrictions q \<and> rp_kind q = Some Block \<and>
    (\<forall>purpose targets. \<not> can_create (q\<lparr>rp_purpose := purpose, rp_targets := targets\<rparr>))"
proof -
  let ?q = "open_dialog Block (panel_reset (p\<lparr>rp_mode := Channel\<rparr>))"
  have "panel_reachable inventory restrictions (p\<lparr>rp_mode := Channel\<rparr>)"
    using assms(1,2) by (intro panel_reachable.panel_mode) simp_all
  then have "panel_reachable inventory restrictions ?q"
    by (intro panel_reachable.panel_open panel_reachable.panel_cancel)
  moreover have "rp_kind ?q = Some Block" "\<not> can_create (?q\<lparr>rp_purpose := purpose, rp_targets := targets\<rparr>)" for purpose targets
    using assms(3) by (simp_all add: open_dialog_def panel_reset_def can_create_def)
  ultimately show ?thesis by blast
qed

text \<open>The form of the wizard submits in every step: with the enter key an unnamed event is sent.\<close>

lemma wizard_submits_unreviewed:
  "\<exists>f. wizard_reachable earlier zone f \<and> (\<exists>b. wizard_submit to_iso f = C_createEvent b \<and> ce_name b = [])"
proof -
  have "wizard_submit to_iso (initial_form zone) = C_createEvent (create_event_values to_iso (initial_form zone))"
    by (simp add: wizard_submit_def create_event_def)
  moreover have "ce_name (create_event_values to_iso (initial_form zone)) = []"
    by (simp add: create_event_values_def initial_form_def Let_def)
  ultimately show ?thesis using wizard_reachable.wizard_start by blast
qed

text \<open>
  The keys of unfiltered lists are not prefixes of those of filtered lists: after a command of the
  event page, a filtered list of events stays cached as fresh.
\<close>

lemma filtered_lists_stay_cached:
  assumes "query \<noteq> [] \<or> state \<noteq> []"
  shows "\<forall>k \<in> set (event_invalidate e). \<not> prefix k (qo_key (useEvents query state))"
  using assms by (auto simp: event_invalidate_def useEvents_def keys_defs)

end
