(* ===== verification/Admin_Display.thy ===== *)
theory Admin_Display
  imports Event_Detail Labels
begin

text \<open>
  What the organiser application shows besides its commands: the texts of \<^verbatim>\<open>lib/format.ts\<close>, the
  searches of its lists, the choice of an event on the admissions and report pages, the texts of
  the dashboard, and the behaviour of the shared dialogs (\<^verbatim>\<open>components/ui.tsx\<close>). The formats of
  dates, numbers and money are parameters; letters outside ASCII keep their case.
\<close>

section \<open>Texts\<close>

datatype tone = Neutral | Positive | Warning | Critical | Info

primrec event_state_label :: "event_state \<Rightarrow> string" where
  "event_state_label Ev_Draft = ''Draft''"
| "event_state_label Ev_On_Sale = ''On sale''"
| "event_state_label Ev_Paused = ''Paused''"
| "event_state_label Ev_Sales_Closed = ''Sales closed''"
| "event_state_label Ev_Completed = ''Completed''"
| "event_state_label Ev_Cancelled = ''Cancelled''"

primrec event_state_tone :: "event_state \<Rightarrow> tone" where
  "event_state_tone Ev_Draft = Neutral"
| "event_state_tone Ev_On_Sale = Positive"
| "event_state_tone Ev_Paused = Warning"
| "event_state_tone Ev_Sales_Closed = Info"
| "event_state_tone Ev_Completed = Neutral"
| "event_state_tone Ev_Cancelled = Critical"

definition formatNumber :: "(int \<Rightarrow> string) \<Rightarrow> int option \<Rightarrow> string" where
  "formatNumber show_number v = show_number (nullish v 0)"

definition formatDate :: "(string \<Rightarrow> string) \<Rightarrow> string option \<Rightarrow> string" where
  "formatDate date_format v = (if truthy_str v then date_format (nullish v []) else ''Not scheduled'')"

text \<open>\<open>Math.round(a / b)\<close> of integers: halves go up.\<close>

definition round_div :: "int \<Rightarrow> int \<Rightarrow> int" where
  "round_div a b = (2 * a + b) div (2 * b)"

text \<open>\<open>parse\<close> is \<open>new Date(v).getTime()\<close> of a date.\<close>

definition timeAgo :: "(string \<Rightarrow> int) \<Rightarrow> (string \<Rightarrow> string) \<Rightarrow> int \<Rightarrow> string option \<Rightarrow> string" where
  "timeAgo parse date_format now v =
     (if \<not> truthy_str v then ''Never''
      else let minutes = max 0 (round_div (now - parse (nullish v [])) 60000);
               hours = round_div minutes 60;
               days = round_div hours 24
           in if minutes < 1 then ''just now''
              else if minutes < 60 then int_str minutes @ ''m ago''
              else if hours < 24 then int_str hours @ ''h ago''
              else if days < 30 then int_str days @ ''d ago''
              else formatDate date_format v)"

definition ws_words :: "string \<Rightarrow> string list" where
  "ws_words s = split_on (CHR '' '') (replace_all ws_run_pattern '' '' s)"

text \<open>\<open>part[0]\<close>: the bytes of the first character (a code point beyond 16 bits as a whole).\<close>

definition first_char :: "string \<Rightarrow> string" where
  "first_char s =
     (case s of [] \<Rightarrow> []
      | c # _ \<Rightarrow> let n = (of_char c :: nat) in take (if n < 128 then 1 else if n < 224 then 2 else if n < 240 then 3 else 4) s)"

definition initials :: "string \<Rightarrow> string" where
  "initials name = concat (map (to_upper \<circ> first_char) (take 2 (filter (\<lambda>w. w \<noteq> []) (ws_words name))))"

definition domainLabels :: "(string \<times> string) list" where
  "domainLabels =
     [(''APP_USER'', ''Administrator''), (''EVENT'', ''Event''), (''PARTNER'', ''Partner''), (''RESERVATION'', ''Reservation''),
      (''SALE'', ''Sale''), (''TICKET_ENTITLEMENT'', ''Ticket''), (''ADMISSION'', ''Admission''),
      (''WEBHOOK_ENDPOINT'', ''Webhook endpoint''), (''MANUAL_OVERRIDE_ADMITTED'', ''Admitted by manual override'')]"

definition humanDomainLabel :: "string option \<Rightarrow> string \<Rightarrow> string" where
  "humanDomainLabel v fallback =
     (if \<not> truthy_str v then fallback
      else let s = nullish v []
           in case map_of domainLabels s of Some l \<Rightarrow> l
              | None \<Rightarrow> (let w = to_lower (map (\<lambda>c. if c \<in> set ''_-.'' then CHR '' '' else c) s) in to_upper (take 1 w) @ drop 1 w))"

definition friendlyOperation :: "string \<Rightarrow> string" where
  "friendlyOperation operation =
     (let w = to_lower (replace_char (CHR ''_'') (CHR '' '')
                (if prefix ''ADMIN_'' operation then drop 6 operation else operation))
      in to_upper (take 1 w) @ drop 1 w)"

definition admission_labels :: "(string \<times> string) list" where
  "admission_labels =
     [(''ADMITTED'', ''Admitted''), (''MANUAL_OVERRIDE_ADMITTED'', ''Admitted''), (''ALREADY_ADMITTED'', ''Already admitted''),
      (''TICKET_ALREADY_ADMITTED'', ''Already admitted''), (''INVALID_CREDENTIAL'', ''Invalid''), (''TICKET_INVALID'', ''Invalid''),
      (''NOT_AUTHORIZED'', ''Rejected''), (''WRONG_EVENT'', ''Rejected''), (''EVENT_CANCELLED'', ''Rejected''),
      (''ADMISSION_NOT_OPEN'', ''Rejected''), (''TICKET_VOID'', ''Rejected''), (''CREDENTIAL_REVOKED'', ''Rejected''),
      (''CREDENTIAL_SUPERSEDED'', ''Rejected'')]"

definition admissionLabel :: "string \<Rightarrow> string" where
  "admissionLabel result = nullish (map_of admission_labels result) ''Rejected''"

section \<open>Lists\<close>

text \<open>A search text matches when, without outer blanks and in lower case, it occurs in what is searched.\<close>

definition needle_of :: "string \<Rightarrow> string" where
  "needle_of query = to_lower (trim query)"

record event_row =
  er_id :: string
  er_name :: string
  er_venue_name :: string
  er_state :: string

definition events_filtered :: "string \<Rightarrow> string \<Rightarrow> event_row list \<Rightarrow> event_row list" where
  "events_filtered query state items =
     filter (\<lambda>e. (needle_of query = [] \<or> js_includes (needle_of query) (to_lower (er_name e @ '' '' @ er_venue_name e))) \<and>
                 (state = [] \<or> er_state e = state)) items"

definition venues_filtered :: "string \<Rightarrow> (string \<times> string) list \<Rightarrow> (string \<times> string) list" where
  "venues_filtered query items =
     filter (\<lambda>(name, address). js_includes (to_lower (trim query)) (to_lower (name @ '' '' @ address))) items"

definition partners_filtered :: "string \<Rightarrow> string list \<Rightarrow> string list" where
  "partners_filtered query names = filter (\<lambda>name. js_includes (to_lower (trim query)) (to_lower name)) names"

definition empty_events_title :: "event_row list \<Rightarrow> string" where
  "empty_events_title items = (if items \<noteq> [] then ''No events match your filters'' else ''No events yet'')"

text \<open>The event chosen when none is: the first one with gate activity, or the first one.\<close>

definition admissions_default :: "string \<Rightarrow> event_row list \<Rightarrow> string" where
  "admissions_default eventId items =
     (if eventId = [] \<and> items \<noteq> []
      then (case find (\<lambda>e. er_state e \<notin> {''DRAFT'', ''CANCELLED''}) items of Some e \<Rightarrow> er_id e | None \<Rightarrow> er_id (hd items))
      else eventId)"

definition reports_default :: "string \<Rightarrow> event_row list \<Rightarrow> string" where
  "reports_default eventId items = (if eventId = [] \<and> items \<noteq> [] then er_id (hd items) else eventId)"

record admission_counts =
  ac_admitted :: nat
  ac_duplicate :: nat
  ac_rejected :: nat

definition admission_counts_of :: "string list \<Rightarrow> admission_counts" where
  "admission_counts_of results =
     \<lparr>ac_admitted = length (filter (\<lambda>r. admissionLabel r = ''Admitted'') results),
      ac_duplicate = length (filter (\<lambda>r. admissionLabel r = ''Already admitted'') results),
      ac_rejected = length (filter (\<lambda>r. admissionLabel r \<in> {''Invalid'', ''Rejected''}) results)\<rparr>"

section \<open>The dashboard\<close>

definition greeting :: "nat \<Rightarrow> string" where
  "greeting hour = (if hour < 12 then ''Good morning'' else if hour < 18 then ''Good afternoon'' else ''Good evening'')"

definition first_name :: "string option \<Rightarrow> string" where
  "first_name displayName = (case displayName of None \<Rightarrow> ''there'' | Some n \<Rightarrow> hd (ws_words n))"

definition missing_setup :: "bool \<Rightarrow> bool \<Rightarrow> bool \<Rightarrow> string" where
  "missing_setup layout_ready pricing_ready policy_ready =
     join '', '' ((if layout_ready then [] else [''layout'']) @ (if pricing_ready then [] else [''pricing'']) @
                  (if policy_ready then [] else [''sales policy'']))"

definition activity_subject :: "string option \<Rightarrow> string option \<Rightarrow> string option \<Rightarrow> string" where
  "activity_subject event_name partner_name entity_type =
     (if truthy_str event_name then humanName event_name ''Event''
      else if truthy_str partner_name then humanName partner_name ''Partner''
      else humanDomainLabel entity_type ''Activity'')"

definition progress_bar_percent :: "int \<Rightarrow> int \<Rightarrow> int" where
  "progress_bar_percent v whole = (if whole = 0 then 0 else min 100 (round_div (100 * v) whole))"

section \<open>Dialogs\<close>

text \<open>
  The keys of an open dialog. The focusable elements are those inside it, in the order of the
  page; \<open>active\<close> is the focused element, \<^const>\<open>None\<close> when it is none of them (the dialog itself).
\<close>

datatype dialog_key = Escape | Tab bool \<comment> \<open>with shift\<close> | Other_Key

datatype key_effect = Close_Dialog | Focus_Dialog | Focus_Element string | Browser_Default

definition dialog_handle_key :: "string list \<Rightarrow> string option \<Rightarrow> dialog_key \<Rightarrow> key_effect" where
  "dialog_handle_key focusable active key =
     (case key of
        Escape \<Rightarrow> Close_Dialog
      | Other_Key \<Rightarrow> Browser_Default
      | Tab shift \<Rightarrow>
          if focusable = [] then Focus_Dialog
          else if shift \<and> active = Some (hd focusable) then Focus_Element (last focusable)
          else if \<not> shift \<and> active = Some (last focusable) then Focus_Element (hd focusable)
          else Browser_Default)"

text \<open>What opening a dialog focuses: the preferred element, the first one, or the dialog.\<close>

definition dialog_first_focus :: "string option \<Rightarrow> string list \<Rightarrow> string option" where
  "dialog_first_focus preferred focusable =
     (case preferred of Some p \<Rightarrow> Some p | None \<Rightarrow> (case focusable of [] \<Rightarrow> None | f # _ \<Rightarrow> Some f))"

text \<open>The browser's own tab key on a page with the given order of focusable elements.\<close>

fun tab_after :: "'a \<Rightarrow> 'a list \<Rightarrow> 'a option" where
  "tab_after x (y # z # ys) = (if x = y then Some z else tab_after x (z # ys))"
| "tab_after x _ = None"

definition browser_tab :: "'a list \<Rightarrow> bool \<Rightarrow> 'a \<Rightarrow> 'a option" where
  "browser_tab order shift x = (if shift then tab_after x (rev order) else tab_after x order)"

text \<open>
  The tab key with the dialog's handler, on a page whose elements are before, in and after the
  dialog. The dialog itself, which the tab order skips, is \<^const>\<open>None\<close>; from it the browser goes
  to the first element in it, or backwards to the last one before it.
\<close>

definition tab_pressed :: "string list \<Rightarrow> string list \<Rightarrow> string list \<Rightarrow> bool \<Rightarrow> string option \<Rightarrow> string option" where
  "tab_pressed before inside after shift active =
     (case dialog_handle_key inside active (Tab shift) of
        Focus_Element e \<Rightarrow> Some e
      | Focus_Dialog \<Rightarrow> None
      | _ \<Rightarrow> (case active of
               Some x \<Rightarrow> browser_tab (before @ inside @ after) shift x
             | None \<Rightarrow> if shift then (if before = [] then None else Some (last before))
                       else (if inside = [] then None else Some (hd inside))))"

lemma tab_after_append:
  "distinct (xs @ y # z # ys) \<Longrightarrow> tab_after y (xs @ y # z # ys) = Some z"
proof (induction xs)
  case (Cons a xs)
  then show ?case by (cases xs) auto
qed simp

lemma tab_after_inside:
  assumes "distinct (before @ inside @ after)" "x \<in> set inside" "x \<noteq> last inside"
  shows "\<exists>y \<in> set inside. tab_after x (before @ inside @ after) = Some y"
proof -
  from assms(2) obtain l r where lr: "inside = l @ x # r" by (metis split_list)
  with assms(3) obtain y r' where r: "r = y # r'" by (cases r) auto
  have "tab_after x ((before @ l) @ x # y # (r' @ after)) = Some y"
    using assms(1) lr r by (intro tab_after_append) simp
  with lr r show ?thesis by auto
qed

lemma tab_stays_inside:
  assumes "distinct (before @ inside @ after)" "x \<in> set inside"
  shows "\<exists>y \<in> set inside. tab_pressed before inside after shift (Some x) = Some y"
proof -
  from assms(2) have ne: "inside \<noteq> []" by auto
  show ?thesis
  proof (cases shift)
    case True
    have rev: "rev (before @ inside @ after) = rev after @ rev inside @ rev before" by simp
    have "x \<noteq> hd inside \<Longrightarrow> \<exists>y \<in> set inside. tab_after x (rev after @ rev inside @ rev before) = Some y"
      using tab_after_inside [of "rev after" "rev inside" "rev before" x] assms ne by (auto simp: last_rev)
    with True ne show ?thesis by (auto simp: tab_pressed_def dialog_handle_key_def browser_tab_def rev simp del: rev_append)
  next
    case False
    with tab_after_inside [OF assms] ne show ?thesis
      by (auto simp: tab_pressed_def dialog_handle_key_def browser_tab_def)
  qed
qed

text \<open>Clicking on the text of a dialog focuses the dialog itself, from where shift and tab lead out of it.\<close>

lemma shift_tab_leaves_dialog:
  "before \<noteq> [] \<Longrightarrow> inside \<noteq> [] \<Longrightarrow> tab_pressed before inside after True None = Some (last before)"
  by (simp add: tab_pressed_def dialog_handle_key_def)

text \<open>The confirmation dialog cannot be closed while it is busy.\<close>

definition confirmation_close :: "bool \<Rightarrow> 'a \<Rightarrow> 'a \<Rightarrow> 'a" where
  "confirmation_close busy stay leave = (if busy then stay else leave)"

text \<open>The dialog with a secret: the button says that the secret was copied, whatever the clipboard answers.\<close>

record secret_dialog =
  sd_open :: bool
  sd_copied :: bool
  sd_clipboard :: "string option"

definition copy_secret :: "secret_dialog \<Rightarrow> string \<Rightarrow> bool \<Rightarrow> secret_dialog" where
  "copy_secret d secret allowed =
     d\<lparr>sd_copied := True, sd_clipboard := (if allowed then Some secret else sd_clipboard d)\<rparr>"

definition secret_opened :: "secret_dialog \<Rightarrow> bool \<Rightarrow> secret_dialog" where
  "secret_opened d is_open = (if is_open = sd_open d then d else d\<lparr>sd_open := is_open, sd_copied := False\<rparr>)"

lemma copied_without_copy: "sd_copied (copy_secret d secret False) \<and> sd_clipboard (copy_secret d secret False) = sd_clipboard d"
  by (simp add: copy_secret_def)

section \<open>Laws\<close>

lemma admission_counts_partition:
  "ac_admitted (admission_counts_of rs) + ac_duplicate (admission_counts_of rs) + ac_rejected (admission_counts_of rs) = length rs"
proof -
  have "admissionLabel r \<in> {''Admitted'', ''Already admitted'', ''Invalid'', ''Rejected''}" for r
  proof -
    have "snd ` set admission_labels \<subseteq> {''Admitted'', ''Already admitted'', ''Invalid'', ''Rejected''}" by code_simp
    then show ?thesis
      by (cases "map_of admission_labels r") (auto simp: admissionLabel_def dest!: map_of_SomeD)
  qed
  then have label: "admissionLabel r = ''Admitted'' \<or> admissionLabel r = ''Already admitted'' \<or>
      admissionLabel r = ''Invalid'' \<or> admissionLabel r = ''Rejected''" for r by blast
  show ?thesis
  proof (induction rs)
    case (Cons r rs)
    with label [of r] show ?case by (auto simp: admission_counts_of_def)
  qed (simp add: admission_counts_of_def)
qed

lemma progress_bounds:
  assumes "0 \<le> v" "0 \<le> whole"
  shows "0 \<le> progress_bar_percent v whole \<and> progress_bar_percent v whole \<le> 100"
  using assms by (auto simp: progress_bar_percent_def round_div_def intro: pos_imp_zdiv_nonneg_iff [THEN iffD2])

text \<open>An event chosen by default exists.\<close>

lemma admissions_default_exists:
  "admissions_default [] items \<in> er_id ` set items \<or> items = []"
  by (auto simp: admissions_default_def find_Some_iff split: option.split)

end
