(* ===== verification/Operator_Pages.thy ===== *)
theory Operator_Pages
  imports Operator_Session
begin

text \<open>
  The pages around the operator's session: sign-in, password recovery and password
  (\<^verbatim>\<open>admin-web/src/features/auth\<close>), signing out (\<^verbatim>\<open>AccountPage.tsx\<close>, \<^verbatim>\<open>AdminLayout.tsx\<close>), and which
  screen a path shows (\<^verbatim>\<open>app/App.tsx\<close>). A screen that is a \<open>Navigate\<close> is a redirect; the router
  follows redirects until a screen is shown, which \<open>follow_redirects\<close> models as a partial function.
\<close>

section \<open>Forms\<close>

definition minimumPasswordLength :: nat where
  "minimumPasswordLength = 12"

definition passwordValidation :: "string \<Rightarrow> string \<Rightarrow> string" where
  "passwordValidation password confirmation =
     (if js_length password < minimumPasswordLength
      then ''Use at least '' @ nat_str minimumPasswordLength @ '' characters.''
      else if js_length password > 128 then ''Use no more than 128 characters.''
      else if password \<noteq> confirmation then ''The passwords do not match.''
      else [])"

record sign_in_page =
  si_email :: string
  si_password :: string
  si_email_error :: "string option"
  si_password_error :: "string option"

definition sign_in_submit :: "sign_in_page \<Rightarrow> sign_in_page \<times> auth_op option" where
  "sign_in_submit pg =
     (let e = (if js_includes ''@'' (si_email pg) then None else Some ''Enter a valid email address.'');
          p = (if si_password pg = [] then Some ''Enter your password to continue.'' else None)
      in (pg\<lparr>si_email_error := e, si_password_error := p\<rparr>,
          if e \<noteq> None \<or> p \<noteq> None then None else Some (Op_SignIn (si_email pg) (si_password pg))))"

text \<open>Where the page goes when \<open>signIn\<close> returns.\<close>

definition sign_in_returned :: "bool \<Rightarrow> string option" where
  "sign_in_returned ok = (if ok then Some ''/'' else None)"

record forgot_page =
  fp_email :: string
  fp_validation :: string
  fp_sent :: bool

definition forgot_submit :: "forgot_page \<Rightarrow> forgot_page \<times> auth_op option" where
  "forgot_submit pg =
     (if \<not> js_includes ''@'' (fp_email pg) then (pg\<lparr>fp_validation := ''Enter a valid email address.''\<rparr>, None)
      else (pg\<lparr>fp_validation := []\<rparr>, Some (Op_SendReset (fp_email pg))))"

definition forgot_returned :: "forgot_page \<Rightarrow> bool \<Rightarrow> forgot_page" where
  "forgot_returned pg ok = (if ok then pg\<lparr>fp_sent := True\<rparr> else pg)"

record password_page =
  sp_password :: string
  sp_confirmation :: string
  sp_validation :: string
  sp_saved :: bool

definition password_submit :: "password_page \<Rightarrow> password_page \<times> auth_op option" where
  "password_submit pg =
     (let error = passwordValidation (sp_password pg) (sp_confirmation pg)
      in (pg\<lparr>sp_validation := error\<rparr>, if error \<noteq> [] then None else Some (Op_UpdatePassword (sp_password pg))))"

definition password_returned :: "password_page \<Rightarrow> bool \<Rightarrow> password_page" where
  "password_returned pg ok = (if ok then pg\<lparr>sp_saved := True\<rparr> else pg)"

lemma passwordValidation_ok:
  "passwordValidation p c = [] \<longleftrightarrow> 12 \<le> js_length p \<and> js_length p \<le> 128 \<and> p = c"
  by (auto simp: passwordValidation_def minimumPasswordLength_def)

section \<open>Routes\<close>

datatype admin_page =
    DashboardPage | EventsListPage | CreateEventPage | EventDetailPage | VenuesListPage | VenueDetailPage
  | PartnersListPage | PartnerDetailPage | TicketsPage | AdmissionsPage | ReportsPage | IntegrationsPage
  | UsersPage | AccountPage

datatype admin_route = SignIn_Route | ForgotPassword_Route | SetPassword_Route | Admin_Route admin_page | Other_Route

datatype admin_screen =
    SignIn_Form
  | Forgot_Form
  | Password_Loading | Link_Expired | Password_Saved | Password_Form
  | Full_Loading
  | Admin_Screen admin_page

definition set_password_screen :: "operator_view \<Rightarrow> bool \<Rightarrow> admin_screen" where
  "set_password_screen v saved =
     (if ov_loading v \<and> \<not> ov_authenticated v then Password_Loading
      else if \<not> ov_authenticated v then Link_Expired
      else if saved then Password_Saved
      else Password_Form)"

definition sign_in_screen :: "operator_view \<Rightarrow> admin_screen + string" where
  "sign_in_screen v =
     (if \<not> ov_loading v \<and> ov_authenticated v
      then Inr (if ov_requiresPasswordSetup v then ''/set-password'' else ''/'')
      else Inl SignIn_Form)"

definition protected_admin :: "operator_view \<Rightarrow> admin_page \<Rightarrow> admin_screen + string" where
  "protected_admin v p =
     (if ov_loading v then Inl Full_Loading
      else if \<not> ov_authenticated v then Inr ''/sign-in''
      else if ov_requiresPasswordSetup v then Inr ''/set-password''
      else Inl (Admin_Screen p))"

text \<open>The element of a route just entered, a screen or a redirect.\<close>

definition route_element :: "operator_view \<Rightarrow> admin_route \<Rightarrow> admin_screen + string" where
  "route_element v r =
     (case r of
        SignIn_Route \<Rightarrow> sign_in_screen v
      | ForgotPassword_Route \<Rightarrow> Inl Forgot_Form
      | SetPassword_Route \<Rightarrow> Inl (set_password_screen v False)
      | Admin_Route p \<Rightarrow> protected_admin v p
      | Other_Route \<Rightarrow> Inr ''/'')"

partial_function (option) follow_redirects :: "(string \<Rightarrow> admin_route) \<Rightarrow> operator_view \<Rightarrow> string \<Rightarrow> admin_screen option" where
  "follow_redirects matching v path =
     (case route_element v (matching path) of Inl screen \<Rightarrow> Some screen | Inr next_path \<Rightarrow> follow_redirects matching v next_path)"

text \<open>The three paths that the code redirects to, as \<open>App\<close> declares their routes.\<close>

definition routes_declared :: "(string \<Rightarrow> admin_route) \<Rightarrow> bool" where
  "routes_declared matching \<longleftrightarrow>
     matching ''/'' = Admin_Route DashboardPage \<and> matching ''/sign-in'' = SignIn_Route \<and>
     matching ''/set-password'' = SetPassword_Route"

text \<open>The same without redirects.\<close>

definition admin_screen_of :: "operator_view \<Rightarrow> admin_page \<Rightarrow> admin_screen" where
  "admin_screen_of v p =
     (if ov_loading v then Full_Loading
      else if \<not> ov_authenticated v then SignIn_Form
      else if ov_requiresPasswordSetup v then Password_Form
      else Admin_Screen p)"

definition expected_screen :: "operator_view \<Rightarrow> admin_route \<Rightarrow> admin_screen" where
  "expected_screen v r =
     (case r of
        SignIn_Route \<Rightarrow> if ov_loading v then SignIn_Form else admin_screen_of v DashboardPage
      | ForgotPassword_Route \<Rightarrow> Forgot_Form
      | SetPassword_Route \<Rightarrow> set_password_screen v False
      | Admin_Route p \<Rightarrow> admin_screen_of v p
      | Other_Route \<Rightarrow> admin_screen_of v DashboardPage)"

lemmas route_defs = route_element_def sign_in_screen_def protected_admin_def set_password_screen_def
  expected_screen_def admin_screen_of_def

lemma follow_redirects_cases:
  assumes "routes_declared matching"
  shows "follow_redirects matching v path = Some (expected_screen v (matching path))"
proof -
  note unfold = follow_redirects.simps [of matching v]
  have m: "matching ''/'' = Admin_Route DashboardPage" "matching ''/sign-in'' = SignIn_Route"
    "matching ''/set-password'' = SetPassword_Route"
    using assms by (simp_all add: routes_declared_def)
  have set: "follow_redirects matching v ''/set-password'' = Some (set_password_screen v False)"
    by (simp add: unfold [of "''/set-password''"] m route_element_def)
  have root: "ov_authenticated v \<or> ov_loading v \<Longrightarrow> follow_redirects matching v ''/'' = Some (admin_screen_of v DashboardPage)"
    by (auto simp: unfold [of "''/''"] m set route_defs)
  have sign_in: "follow_redirects matching v ''/sign-in'' =
      Some (if ov_loading v then SignIn_Form else admin_screen_of v DashboardPage)"
    by (auto simp: unfold [of "''/sign-in''"] m root set) (auto simp: route_defs root set)
  have root': "follow_redirects matching v ''/'' = Some (admin_screen_of v DashboardPage)"
    using root by (auto simp: unfold [of "''/''"] m set route_defs sign_in)
  show ?thesis
    by (subst unfold) (auto simp: route_defs set sign_in root' split: admin_route.splits)
qed

section \<open>Signing out\<close>

text \<open>\<open>logout\<close> of the account page, the side bar and the account menu: whatever \<open>signOut\<close> returns.\<close>

definition logout_path :: "bool \<Rightarrow> string" where
  "logout_path returned = ''/sign-in''"

text \<open>The session error that a screen shows.\<close>

definition shown_error :: "operator_view \<Rightarrow> admin_screen \<Rightarrow> string" where
  "shown_error v s = (if s \<in> {SignIn_Form, Forgot_Form, Password_Form} then ov_error v else [])"

section \<open>The top bar\<close>

record route_meta =
  rm_title :: string
  rm_parent :: "(string \<times> string) option"
  rm_group :: "string option"

definition child_meta :: "string \<Rightarrow> string \<Rightarrow> string \<Rightarrow> route_meta" where
  "child_meta title label path = \<lparr>rm_title = title, rm_parent = Some (label, path), rm_group = None\<rparr>"

definition group_meta :: "string \<Rightarrow> string \<Rightarrow> route_meta" where
  "group_meta title section_name = \<lparr>rm_title = title, rm_parent = None, rm_group = Some section_name\<rparr>"

definition routeMeta :: "string \<Rightarrow> route_meta" where
  "routeMeta pathname =
     (if pathname = ''/'' then \<lparr>rm_title = ''Dashboard'', rm_parent = None, rm_group = None\<rparr>
      else if pathname = ''/events/new'' then child_meta ''Create event'' ''Events'' ''/events''
      else if prefix ''/events/'' pathname then child_meta ''Event'' ''Events'' ''/events''
      else if pathname = ''/events'' then group_meta ''Events'' ''Operations''
      else if prefix ''/venues/'' pathname then child_meta ''Venue'' ''Venues'' ''/venues''
      else if pathname = ''/venues'' then group_meta ''Venues'' ''Operations''
      else if prefix ''/partners/'' pathname then child_meta ''Partner'' ''Partners'' ''/partners''
      else if pathname = ''/partners'' then group_meta ''Partners'' ''Partners''
      else if pathname = ''/tickets'' then group_meta ''Tickets'' ''Operations''
      else if pathname = ''/admissions'' then group_meta ''Admissions'' ''Operations''
      else if pathname = ''/integrations'' then group_meta ''Integrations'' ''Partners''
      else if pathname = ''/reports'' then group_meta ''Reports'' ''Insights''
      else if pathname = ''/users'' then group_meta ''Administrators'' ''Administration''
      else group_meta ''Account'' ''Account'')"

end
