(* ===== verification/Operator_Properties.thy ===== *)
theory Operator_Properties
  imports Operator_Pages
begin

text \<open>
  Properties of the operator's session: the pages shown follow what the authentication client
  told the application, redirects end, and what a refused sign-out does.
\<close>

section \<open>Sessions and screens\<close>

lemma initial_admin_told:
  assumes "auth_run (admin_hook origin) (initial_world admin_unconfigured True) es w"
  shows "(os_mounted (aw_hook w), os_session (aw_hook w)) = told False (True, None) es"
  using admin_auth.run_told [OF assms] by (simp add: initial_world_def initial_operator_def abs_session_def)

lemma unconfigured_signed_out:
  assumes "auth_run (admin_hook origin) (initial_world admin_unconfigured False) es w"
  shows "os_session (aw_hook w) = None"
  using admin_auth.run_unconfigured [OF assms] by (simp add: initial_world_def initial_operator_def)

lemma expected_admin_screen:
  assumes "expected_screen v r = Admin_Screen p"
  shows "ov_authenticated v \<and> \<not> ov_loading v \<and> \<not> ov_requiresPasswordSetup v"
  using assms by (auto simp: expected_screen_def admin_screen_of_def set_password_screen_def
      split: admin_route.splits if_splits)

lemma admin_operator_simps [simp]:
  "ov_loading (admin_operator to_text st) = os_loading st"
  "ov_error (admin_operator to_text st) = os_error st"
  "ov_authenticated (admin_operator to_text st) = (session_token st \<noteq> [])"
  by (simp_all add: admin_operator_def)

definition password_pending :: "auth_session \<Rightarrow> bool" where
  "password_pending s \<longleftrightarrow>
     js_get ''tktsync_password_setup_required'' (Some (au_metadata (as_user s))) = Some (JBool True)"

text \<open>
  C23: an organiser page is shown, whatever path is opened, only with a configured client whose
  latest word (restored session, session change or accepted sign-out) is a session with a token,
  whose user need not set a password first.
\<close>
theorem organiser_pages_need_session:
  assumes "auth_run (admin_hook origin) (initial_world admin_unconfigured client) es w"
    and "routes_declared matching"
    and "follow_redirects matching (admin_operator to_text (aw_hook w)) path = Some (Admin_Screen p)"
  shows "client \<and> (\<exists>s. snd (told False (True, None) es) = Some s \<and> as_access_token s \<noteq> [] \<and> \<not> password_pending s)"
proof -
  let ?v = "admin_operator to_text (aw_hook w)"
  have "expected_screen ?v (matching path) = Admin_Screen p"
    using follow_redirects_cases [OF assms(2), of ?v path] assms(3) by simp
  then have v: "ov_authenticated ?v" "\<not> ov_requiresPasswordSetup ?v"
    using expected_admin_screen by blast+
  then obtain s where s: "os_session (aw_hook w) = Some s" "as_access_token s \<noteq> []"
    by (cases "os_session (aw_hook w)") (auto simp: session_token_def)
  from s(1) v(2) have "\<not> password_pending s"
    by (cases "au_metadata (as_user s)") (auto simp: admin_operator_def session_metadata_def password_pending_def js_get_def)
  moreover have client using s(1) unconfigured_signed_out [of origin es w] assms(1) by (cases client) auto
  moreover from this s(1) have "snd (told False (True, None) es) = Some s"
    using initial_admin_told [of origin es w] assms(1) by (metis snd_conv)
  ultimately show ?thesis using s(2) by blast
qed

definition demo_user :: auth_session where
  "demo_user = \<lparr>as_access_token = ''token'',
     as_user = \<lparr>au_id = ''u1'', au_email = Some ''ada.lovelace1@example.com'', au_metadata = JObj []\<rparr>\<rparr>"

definition demo_routes :: "string \<Rightarrow> admin_route" where
  "demo_routes path =
     (if path = ''/'' then Admin_Route DashboardPage else if path = ''/sign-in'' then SignIn_Route
      else if path = ''/set-password'' then SetPassword_Route else if path = ''/users'' then Admin_Route UsersPage
      else Other_Route)"

lemma demo_routes_declared: "routes_declared demo_routes"
  by (simp add: routes_declared_def demo_routes_def)

definition demo_restored :: auth_world where
  "demo_restored = \<lparr>aw_hook = \<lparr>os_client = True, os_mounted = True, os_session = Some demo_user, os_loading = False, os_error = []\<rparr>,
     aw_restoring = False, aw_calls = []\<rparr>"

lemma demo_restored_run:
  "auth_run (admin_hook []) (initial_world admin_unconfigured True) [Session_Restored (Some demo_user) None] demo_restored"
proof -
  let ?w = "initial_world admin_unconfigured True"
  have "auth_step (admin_hook []) ?w (Session_Restored (Some demo_user) None)
      (?w\<lparr>aw_hook := ah_restored (admin_hook []) (aw_hook ?w) (Some demo_user) None, aw_restoring := False\<rparr>)"
    by (rule auth_step.restored) (simp add: initial_world_def)
  also have "?w\<lparr>aw_hook := ah_restored (admin_hook []) (aw_hook ?w) (Some demo_user) None, aw_restoring := False\<rparr> = demo_restored"
    by (simp add: initial_world_def initial_operator_def demo_restored_def admin_hook_def admin_session_restored_def)
  finally show ?thesis using auth_run.intros(2) [OF auth_run.intros(1)] by fastforce
qed

lemma demo_users_screen:
  "follow_redirects demo_routes (admin_operator (\<lambda>_. []) (aw_hook demo_restored)) ''/users'' = Some (Admin_Screen UsersPage)"
  by (subst follow_redirects_cases [OF demo_routes_declared])
    (simp add: demo_routes_def expected_screen_def admin_screen_of_def demo_restored_def session_token_def demo_user_def
      admin_operator_def session_metadata_def js_get_def)

theorem organiser_pages_need_session_witness:
  "\<exists>s. snd (told False (True, None) [Session_Restored (Some demo_user) None]) = Some s \<and>
       as_access_token s \<noteq> [] \<and> \<not> password_pending s"
  using organiser_pages_need_session [OF demo_restored_run demo_routes_declared demo_users_screen] by blast

text \<open>
  C40: redirects end. From every path and in every state of the session the router comes to a
  screen, the one that a table of the routes without redirects gives.
\<close>
theorem redirects_end:
  assumes "routes_declared matching"
  shows "follow_redirects matching v path = Some (expected_screen v (matching path))"
  by (rule follow_redirects_cases [OF assms])

theorem redirects_end_witness:
  "follow_redirects demo_routes (admin_operator (\<lambda>_. []) (initial_operator admin_unconfigured False)) ''/nowhere'' = Some SignIn_Form"
  by (subst redirects_end [OF demo_routes_declared])
    (simp add: demo_routes_def expected_screen_def admin_screen_of_def initial_operator_def session_token_def)

text \<open>
  The session hooks show progress only while something is under way. As long as no request of
  the hook was rejected and its page is not left, \<open>loading\<close> means that the session is being
  restored or a call other than a sign-out is in flight, in both applications.
\<close>
theorem progress_has_a_cause:
  assumes "list_all (\<lambda>e. \<not> interrupted e) es"
    and "auth_run (admin_hook origin) (initial_world admin_unconfigured client) es w \<or>
         auth_run scanner_hook (initial_world scanner_unconfigured client) es w"
    and "os_loading (aw_hook w)"
  shows "aw_restoring w \<or> (\<exists>c \<in> set (aw_calls w). c \<noteq> Sign_Out)"
proof -
  have start: "os_mounted (aw_hook (initial_world u client))"
    "os_loading (aw_hook (initial_world u client)) \<longrightarrow> waits_for (initial_world u client)" for u
    by (simp_all add: initial_world_def initial_operator_def waits_for_def)
  have "waits_for w"
    using assms(2)
  proof
    assume "auth_run (admin_hook origin) (initial_world admin_unconfigured client) es w"
    from admin_auth.run_loading [OF this assms(1) start] assms(3) show ?thesis by simp
  next
    assume "auth_run scanner_hook (initial_world scanner_unconfigured client) es w"
    from scanner_auth.run_loading [OF this assms(1) start] assms(3) show ?thesis by simp
  qed
  then show ?thesis by (auto simp: waits_for_def list_ex_iff)
qed

theorem progress_has_a_cause_witness:
  "aw_restoring (initial_world scanner_unconfigured True)"
  using progress_has_a_cause [of "[]" "[]" True "initial_world scanner_unconfigured True"]
  by (auto simp: initial_world_def initial_operator_def intro: auth_run.intros)

section \<open>A refused sign-out\<close>

text \<open>
  A sign-out that the client refuses keeps the operator signed in, and tells nobody: the
  page goes to the sign-in path, which the session turns into the dashboard (or the password
  page), and the dashboard does not show the error that the hook keeps.
\<close>
theorem refused_sign_out_unseen:
  assumes "routes_declared matching" and "session_token st \<noteq> []" and "\<not> os_loading st"
    and "admin_signOut_answered st (Some msg) = (st', returned)"
    and "\<not> ov_requiresPasswordSetup (admin_operator to_text st)"
  shows "\<not> returned \<and> os_error st' = msg \<and> os_session st' = os_session st \<and>
    (\<exists>screen. follow_redirects matching (admin_operator to_text st') (logout_path returned) = Some screen \<and>
       screen = Admin_Screen DashboardPage \<and> shown_error (admin_operator to_text st') screen = [])"
proof -
  have st': "st' = st\<lparr>os_error := msg\<rparr>" "\<not> returned"
    using assms(4) by (auto simp: admin_signOut_answered_def)
  then have v: "ov_authenticated (admin_operator to_text st')" "\<not> ov_loading (admin_operator to_text st')"
    "\<not> ov_requiresPasswordSetup (admin_operator to_text st')"
    using assms(2,3,5) by (simp_all add: admin_operator_def session_token_def session_metadata_def)
  have "matching (logout_path returned) = SignIn_Route"
    using assms(1) by (simp add: routes_declared_def logout_path_def)
  then have "follow_redirects matching (admin_operator to_text st') (logout_path returned) = Some (Admin_Screen DashboardPage)"
    using v by (simp only: follow_redirects_cases [OF assms(1)]) (simp add: expected_screen_def admin_screen_of_def)
  then show ?thesis using st' by (simp add: shown_error_def)
qed

theorem refused_sign_out_unseen_witness:
  "follow_redirects demo_routes (admin_operator (\<lambda>_. []) ((aw_hook demo_restored)\<lparr>os_error := ''Network''\<rparr>)) (logout_path False) =
     Some (Admin_Screen DashboardPage)"
  using refused_sign_out_unseen [OF demo_routes_declared, of "aw_hook demo_restored" "''Network''"
      "(aw_hook demo_restored)\<lparr>os_error := ''Network''\<rparr>" False "\<lambda>_. []"]
  by (simp add: demo_restored_def session_token_def demo_user_def admin_signOut_answered_def admin_operator_def
      session_metadata_def js_get_def)

text \<open>
  The scanner drops the session of its page although the sign-out was refused, so the client may
  still hold it and restore it when the page is opened again.
\<close>

lemma scanner_drops_refused_session:
  "os_session (scanner_signOut_answered st (Some msg)) = None \<and> os_error (scanner_signOut_answered st (Some msg)) = os_error st"
  by (simp add: scanner_signOut_answered_def)

text \<open>A password is saved only when it is typed twice alike, with 12 to 128 characters.\<close>

lemma saved_passwords_valid:
  assumes "password_submit pg = (pg', Some (Op_UpdatePassword p))"
  shows "12 \<le> js_length p \<and> js_length p \<le> 128 \<and> sp_confirmation pg = p"
  using assms by (auto simp: password_submit_def passwordValidation_ok Let_def split: if_splits)

end
