(* ===== verification/Browser_Telemetry.thy ===== *)
theory Browser_Telemetry
  imports Admin_Api
begin

text \<open>
  Telemetry of the browser applications: the shared API client reports each call
  (\<^verbatim>\<open>packages/api-client/src/client.ts\<close>), and a listener checks the report, reduces it to known
  fields and sends it (\<^verbatim>\<open>packages/api-client/src/browserTelemetry.ts\<close>). The clock is an argument;
  the URL parser of the browser is a parameter, \<^const>\<open>None\<close> when it throws.
\<close>

section \<open>Reports of the client\<close>

fun method_name :: "http_method \<Rightarrow> string" where
  "method_name GET = ''GET''"
| "method_name POST = ''POST''"
| "method_name PUT = ''PUT''"
| "method_name PATCH = ''PATCH''"

text \<open>The start times of the calls in flight, by the id of the call.\<close>

type_synonym started_calls = "string \<rightharpoonup> rat"

definition elapsed :: "started_calls \<Rightarrow> string \<Rightarrow> rat \<Rightarrow> rat \<times> started_calls" where
  "elapsed started i now =
     (case started i of None \<Rightarrow> (0, started(i := None)) | Some v \<Rightarrow> (max 0 (now - v), started(i := None)))"

text \<open>\<open>onRequest\<close>: the call is timed, and gets a request id where it has none.\<close>

definition on_request ::
    "started_calls \<Rightarrow> string \<Rightarrow> rat \<Rightarrow> string \<Rightarrow> (string \<times> string) list \<Rightarrow> (string \<times> string) list \<times> started_calls" where
  "on_request started i now created headers' =
     (if list_ex (\<lambda>(h, v). to_lower h = ''x-request-id'') headers' then headers' else headers' @ [(''X-Request-ID'', created)],
      started(i \<mapsto> now))"

definition on_response :: "started_calls \<Rightarrow> string \<Rightarrow> rat \<Rightarrow> http_method \<Rightarrow> string \<Rightarrow> int \<Rightarrow> json \<times> started_calls" where
  "on_response started i now m schemaPath status =
     (case elapsed started i now of (d, started') \<Rightarrow>
        (JObj [(''kind'', JStr ''api''), (''operation'', JStr (method_name m @ '' '' @ schemaPath)),
               (''status'', j_int status), (''duration_ms'', JNum d)], started'))"

text \<open>The name of the error, \<^const>\<open>None\<close> for what is no \<open>Error\<close>.\<close>

definition on_error :: "started_calls \<Rightarrow> string \<Rightarrow> rat \<Rightarrow> http_method \<Rightarrow> string \<Rightarrow> string option \<Rightarrow> json \<times> started_calls" where
  "on_error started i now m schemaPath name =
     (case elapsed started i now of (d, started') \<Rightarrow>
        (JObj [(''kind'', JStr ''api-error''), (''operation'', JStr (method_name m @ '' '' @ schemaPath)),
               (''duration_ms'', JNum d), (''error_name'', JStr (nullish name ''NetworkError''))], started'))"

section \<open>Checking a report\<close>

record client_telemetry =
  ct_kind :: string
  ct_operation :: string
  ct_status :: "int option"
  ct_duration_ms :: rat
  ct_error_name :: "string option"

definition telemetry_methods :: "string list" where
  "telemetry_methods = [''GET'', ''POST'', ''PUT'', ''PATCH'', ''DELETE'']"

definition operation_chars :: string where
  "operation_chars = upper_letters @ lower_letters @ digit_chars @ ''_/{}-''"

text \<open>\<open>/^(GET|POST|PUT|PATCH|DELETE) \/api\/v1\/[A-Za-z0-9_/{}/-]+$/\<close>\<close>

definition operation_shape :: "string \<Rightarrow> bool" where
  "operation_shape s =
     list_ex (\<lambda>m. let p = m @ '' /api/v1/''; rest = drop (length p) s
                  in take (length p) s = p \<and> rest \<noteq> [] \<and> list_all (\<lambda>c. c \<in> set operation_chars) rest) telemetry_methods"

text \<open>\<open>/^[A-Za-z][A-Za-z0-9_.-]{0,63}$/\<close>\<close>

definition error_name_shape :: "string \<Rightarrow> bool" where
  "error_name_shape s =
     (case s of [] \<Rightarrow> False
      | c # rest \<Rightarrow> c \<in> set (upper_letters @ lower_letters) \<and> length rest \<le> 63 \<and>
          list_all (\<lambda>c. c \<in> set (upper_letters @ lower_letters @ digit_chars @ ''_.-'')) rest)"

definition is_str :: "json option \<Rightarrow> string option" where
  "is_str v = (case v of Some (JStr s) \<Rightarrow> Some s | _ \<Rightarrow> None)"

definition is_num :: "json option \<Rightarrow> rat option" where
  "is_num v = (case v of Some (JNum r) \<Rightarrow> Some r | _ \<Rightarrow> None)"

text \<open>The numbers of a JSON value are finite; a report with another number is one without it.\<close>

definition sanitizeClientTelemetry :: "json option \<Rightarrow> client_telemetry option" where
  "sanitizeClientTelemetry v =
     (case (is_str (js_get ''kind'' v), is_str (js_get ''operation'' v), is_num (js_get ''duration_ms'' v)) of
        (Some kind, Some operation, Some duration) \<Rightarrow>
          if kind \<noteq> ''api'' \<and> kind \<noteq> ''api-error'' then None
          else if js_length operation > 160 \<or> \<not> operation_shape operation then None
          else Some
            \<lparr>ct_kind = kind, ct_operation = operation,
             ct_status = (case is_num (js_get ''status'' v) of
                            Some r \<Rightarrow> if of_int \<lfloor>r\<rfloor> = r then Some (min 599 (max 100 \<lfloor>r\<rfloor>)) else None
                          | None \<Rightarrow> None),
             ct_duration_ms = min 300000 (max 0 duration),
             ct_error_name = (case is_str (js_get ''error_name'' v) of
                                Some s \<Rightarrow> if error_name_shape s then Some s else None | None \<Rightarrow> None)\<rparr>
      | _ \<Rightarrow> None)"

section \<open>Sending a report\<close>

record endpoint_url =
  eu_protocol :: string
  eu_hostname :: string
  eu_username :: string
  eu_password :: string
  eu_search :: string
  eu_hash :: string

definition isLocalHost :: "string \<Rightarrow> bool" where
  "isLocalHost host \<longleftrightarrow> host = ''localhost'' \<or> host = ''127.0.0.1'' \<or> host = ''::1''"

definition safeEndpoint :: "(string \<Rightarrow> endpoint_url option) \<Rightarrow> string option \<Rightarrow> string option" where
  "safeEndpoint new_url raw =
     (let v = map_option trim raw in
      if \<not> truthy_str v then None
      else (case new_url (the v) of
              None \<Rightarrow> None
            | Some u \<Rightarrow>
                if eu_protocol u \<noteq> ''https:'' \<and> \<not> (eu_protocol u = ''http:'' \<and> isLocalHost (eu_hostname u)) then None
                else if eu_username u \<noteq> [] \<or> eu_password u \<noteq> [] \<or> eu_search u \<noteq> [] \<or> eu_hash u \<noteq> [] then None
                else v))"

definition telemetry_body :: "string \<Rightarrow> string \<Rightarrow> client_telemetry \<Rightarrow> json" where
  "telemetry_body application sent_at d =
     JObj ([(''schema_version'', j_int 1), (''application'', JStr application), (''sent_at'', JStr sent_at),
            (''kind'', JStr (ct_kind d)), (''operation'', JStr (ct_operation d)), (''duration_ms'', JNum (ct_duration_ms d))]
       @ j_opt ''status'' (map_option j_int (ct_status d)) @ j_opt ''error_name'' (map_option JStr (ct_error_name d)))"

datatype transmission = Beacon string json | Post string json

text \<open>
  What an event makes the listener send: a beacon, and a request where there is no beacon or it is
  not accepted (\<open>accepts\<close> is its answer, \<^const>\<open>None\<close> where the browser has none).
\<close>

definition telemetry_listener ::
    "(string \<Rightarrow> endpoint_url option) \<Rightarrow> string option \<Rightarrow> string \<Rightarrow> bool option \<Rightarrow> string \<Rightarrow> json option \<Rightarrow> transmission list" where
  "telemetry_listener new_url raw_endpoint application accepts sent_at detail =
     (case safeEndpoint new_url raw_endpoint of
        None \<Rightarrow> []
      | Some endpoint \<Rightarrow>
          (case sanitizeClientTelemetry detail of
             None \<Rightarrow> []
           | Some d \<Rightarrow>
               let body = telemetry_body application sent_at d in
               (if accepts = None then [] else [Beacon endpoint body]) @
               (if accepts = Some True then [] else [Post endpoint body])))"

section \<open>What a report can contain\<close>

definition telemetry_ok :: "client_telemetry \<Rightarrow> bool" where
  "telemetry_ok d \<longleftrightarrow>
     ct_kind d \<in> {''api'', ''api-error''} \<and> operation_shape (ct_operation d) \<and> js_length (ct_operation d) \<le> 160 \<and>
     0 \<le> ct_duration_ms d \<and> ct_duration_ms d \<le> 300000 \<and>
     (\<forall>s. ct_status d = Some s \<longrightarrow> 100 \<le> s \<and> s \<le> 599) \<and>
     (\<forall>e. ct_error_name d = Some e \<longrightarrow> error_name_shape e)"

lemma sanitize_ok: "sanitizeClientTelemetry v = Some d \<Longrightarrow> telemetry_ok d"
  by (auto simp: sanitizeClientTelemetry_def telemetry_ok_def split: option.splits if_splits)

lemma operation_shape_parts:
  assumes "operation_shape s"
  shows "\<exists>m rest. s = m @ '' /api/v1/'' @ rest \<and> m \<in> set telemetry_methods \<and> rest \<noteq> [] \<and> set rest \<subseteq> set operation_chars"
proof -
  from assms obtain m where m: "m \<in> set telemetry_methods"
    and p: "take (length (m @ '' /api/v1/'')) s = m @ '' /api/v1/''"
    and rest: "drop (length (m @ '' /api/v1/'')) s \<noteq> []"
      "list_all (\<lambda>c. c \<in> set operation_chars) (drop (length (m @ '' /api/v1/'')) s)"
    unfolding operation_shape_def Let_def list_ex_iff by blast
  have "s = (m @ '' /api/v1/'') @ drop (length (m @ '' /api/v1/'')) s" using p by (metis append_take_drop_id)
  moreover have "set (drop (length (m @ '' /api/v1/'')) s) \<subseteq> set operation_chars" using rest(2) by (auto simp: list_all_iff)
  ultimately show ?thesis using m rest(1) by (metis append_assoc)
qed

section \<open>The reports of the organiser application\<close>

text \<open>The calls of \<^verbatim>\<open>adminApi\<close> that go through the client.\<close>

definition client_calls :: "(http_method \<times> string) list" where
  "client_calls =
     [(GET, ''/api/v1/admin/dashboard''),
      (GET, ''/api/v1/admin/users''),
      (GET, ''/api/v1/admin/events''),
      (GET, ''/api/v1/admin/events/{event_id}''),
      (GET, ''/api/v1/admin/events/{event_id}/configuration''),
      (GET, ''/api/v1/admin/events/{event_id}/inventory''),
      (GET, ''/api/v1/admin/events/{event_id}/reports/inventory''),
      (GET, ''/api/v1/admin/events/{event_id}/reports/sales''),
      (GET, ''/api/v1/admin/events/{event_id}/reports/admission''),
      (GET, ''/api/v1/admin/events/{event_id}/audit''),
      (GET, ''/api/v1/admin/venues''),
      (GET, ''/api/v1/admin/venues/{venue_id}''),
      (GET, ''/api/v1/admin/venues/{venue_id}/layout-versions''),
      (GET, ''/api/v1/admin/venue-layouts/{layout_id}''),
      (GET, ''/api/v1/admin/partners''),
      (GET, ''/api/v1/admin/partners/{partner_id}''),
      (GET, ''/api/v1/admin/tickets''),
      (GET, ''/api/v1/admin/tickets/{ticket_id}''),
      (GET, ''/api/v1/admin/admissions''),
      (GET, ''/api/v1/admin/webhook-endpoints''),
      (POST, ''/api/v1/admin/events''),
      (POST, ''/api/v1/admin/events/{event_id}/cancel''),
      (PUT, ''/api/v1/admin/events/{event_id}/transaction-policy''),
      (POST, ''/api/v1/admin/events/{event_id}/price-tiers''),
      (POST, ''/api/v1/admin/events/{event_id}/pricing/assignments''),
      (POST, ''/api/v1/admin/events/{event_id}/materialize-layout''),
      (POST, ''/api/v1/admin/venues''),
      (POST, ''/api/v1/admin/venues/{venue_id}/layout-versions''),
      (PATCH, ''/api/v1/admin/venue-layouts/{layout_id}''),
      (POST, ''/api/v1/admin/venue-layouts/{layout_id}/publish''),
      (POST, ''/api/v1/admin/partners''),
      (POST, ''/api/v1/admin/users''),
      (POST, ''/api/v1/admin/users/{user_id}/enable''),
      (POST, ''/api/v1/admin/users/{user_id}/disable''),
      (POST, ''/api/v1/admin/partners/{partner_id}/enable''),
      (POST, ''/api/v1/admin/partners/{partner_id}/disable''),
      (PUT, ''/api/v1/admin/partners/{partner_id}/allowed-return-urls''),
      (POST, ''/api/v1/admin/partners/{partner_id}/credentials''),
      (POST, ''/api/v1/admin/partner-credentials/{credential_id}/revoke''),
      (POST, ''/api/v1/admin/events/{event_id}/partners/{partner_id}/access''),
      (POST, ''/api/v1/admin/events/{event_id}/partners/{partner_id}/access/disable''),
      (POST, ''/api/v1/admin/tickets/{ticket_id}/void''),
      (POST, ''/api/v1/admin/tickets/{ticket_id}/credentials/reissue''),
      (POST, ''/api/v1/admin/tickets/{ticket_id}/inventory/re-release''),
      (POST, ''/api/v1/admin/admissions/{admission_id}/reverse''),
      (POST, ''/api/v1/admin/admissions/manual-override''),
      (POST, ''/api/v1/admin/events/{event_id}/blocks''),
      (POST, ''/api/v1/admin/blocks/{block_id}/release''),
      (POST, ''/api/v1/admin/events/{event_id}/allocations''),
      (POST, ''/api/v1/admin/allocations/{allocation_id}/release''),
      (POST, ''/api/v1/admin/allocations/{allocation_id}/reclassify''),
      (POST, ''/api/v1/admin/partners/{partner_id}/webhook-endpoints''),
      (POST, ''/api/v1/admin/webhook-endpoints/{endpoint_id}/disable''),
      (POST, ''/api/v1/admin/webhook-endpoints/{endpoint_id}/secret/rotate''),
      (POST, ''/api/v1/admin/events/{event_id}/open-sales''),
      (POST, ''/api/v1/admin/events/{event_id}/pause-sales''),
      (POST, ''/api/v1/admin/events/{event_id}/resume-sales''),
      (POST, ''/api/v1/admin/events/{event_id}/close-sales''),
      (POST, ''/api/v1/admin/events/{event_id}/complete'')]"

definition call_operation :: "http_method \<times> string \<Rightarrow> string" where
  "call_operation c = method_name (fst c) @ '' '' @ snd c"

lemma operation_char_mem:
  "CHR ''a'' \<in> set operation_chars" "CHR ''b'' \<in> set operation_chars" "CHR ''c'' \<in> set operation_chars"
  "CHR ''d'' \<in> set operation_chars" "CHR ''e'' \<in> set operation_chars" "CHR ''f'' \<in> set operation_chars"
  "CHR ''g'' \<in> set operation_chars" "CHR ''h'' \<in> set operation_chars" "CHR ''i'' \<in> set operation_chars"
  "CHR ''j'' \<in> set operation_chars" "CHR ''k'' \<in> set operation_chars" "CHR ''l'' \<in> set operation_chars"
  "CHR ''m'' \<in> set operation_chars" "CHR ''n'' \<in> set operation_chars" "CHR ''o'' \<in> set operation_chars"
  "CHR ''p'' \<in> set operation_chars" "CHR ''q'' \<in> set operation_chars" "CHR ''r'' \<in> set operation_chars"
  "CHR ''s'' \<in> set operation_chars" "CHR ''t'' \<in> set operation_chars" "CHR ''u'' \<in> set operation_chars"
  "CHR ''v'' \<in> set operation_chars" "CHR ''w'' \<in> set operation_chars" "CHR ''x'' \<in> set operation_chars"
  "CHR ''y'' \<in> set operation_chars" "CHR ''z'' \<in> set operation_chars" "CHR ''_'' \<in> set operation_chars"
  "CHR ''/'' \<in> set operation_chars" "CHR ''{'' \<in> set operation_chars" "CHR ''}'' \<in> set operation_chars"
  "CHR ''-'' \<in> set operation_chars"
  by (simp_all add: operation_chars_def lower_letters_def)

definition path_ok :: "string \<Rightarrow> bool" where
  "path_ok path \<longleftrightarrow> take 8 path = ''/api/v1/'' \<and> drop 8 path \<noteq> [] \<and> list_all (\<lambda>c. c \<in> set operation_chars) (drop 8 path) \<and> length path \<le> 150"

lemma client_call_paths: "list_all (\<lambda>c. path_ok (snd c)) client_calls"
  by (simp add: client_calls_def path_ok_def operation_char_mem)

lemma operation_units: "\<forall>c \<in> set operation_chars. utf16_units c = 1"
  by code_simp

lemma operation_prefix_length: "js_length (method_name m @ '' /api/v1/'') \<le> 14 \<and> method_name m \<in> set telemetry_methods"
proof -
  have "\<forall>n \<in> set [''GET'', ''POST'', ''PUT'', ''PATCH'']. js_length (n @ '' /api/v1/'') \<le> 14" by code_simp
  moreover have "method_name m \<in> set [''GET'', ''POST'', ''PUT'', ''PATCH'']" by (cases m) simp_all
  ultimately show ?thesis by (auto simp: telemetry_methods_def)
qed

lemma js_length_units: "\<forall>c \<in> set s. utf16_units c = 1 \<Longrightarrow> js_length s = length s"
  by (induction s) (simp_all add: js_length_def)

lemma path_ok_operation:
  assumes "path_ok path"
  shows "operation_shape (call_operation (m, path)) \<and> js_length (call_operation (m, path)) \<le> 160"
proof -
  let ?rest = "drop 8 path" and ?p = "method_name m @ '' /api/v1/''"
  have "path = ''/api/v1/'' @ ?rest" using assms by (metis append_take_drop_id path_ok_def)
  then have op: "call_operation (m, path) = ?p @ ?rest" by (simp add: call_operation_def)
  have rest: "?rest \<noteq> []" "list_all (\<lambda>c. c \<in> set operation_chars) ?rest" "length ?rest \<le> 142"
    using assms by (auto simp: path_ok_def)
  have "\<forall>c \<in> set ?rest. utf16_units c = 1" using rest(2) operation_units by (auto simp: list_all_iff)
  then have "js_length ?rest = length ?rest" by (rule js_length_units)
  then have "js_length (?p @ ?rest) \<le> 160"
    using rest(3) operation_prefix_length [of m] by (simp add: js_length_def)
  moreover have "operation_shape (?p @ ?rest)"
    using rest operation_prefix_length [of m] unfolding operation_shape_def list_ex_iff Let_def
    by (intro bexI [of _ "method_name m"]) simp_all
  ultimately show ?thesis by (simp only: op)
qed

lemma command_in_calls: "(req_method (command_request token key c), req_path (command_request token key c)) \<in> set client_calls"
proof (cases c)
  case (C_lifecycle e a)
  then show ?thesis by (cases a) (simp_all add: api_defs key_request_def client_calls_def)
qed (auto simp: api_defs key_request_def client_calls_def)

lemma query_in_calls:
  assumes "\<forall>e. q \<noteq> Q_restrictions e" and "\<forall>e. q \<noteq> Q_accreditationCSV e"
  shows "(req_method (query_request token q), req_path (query_request token q)) \<in> set client_calls"
  using assms by (cases q) (simp_all add: api_defs get_request_def client_calls_def)

text \<open>
  The requests of the organiser application that go through the client: every command, and every
  query but the two that \<^verbatim>\<open>adminApi\<close> fetches on its own.
\<close>

definition client_request :: "string \<Rightarrow> api_request \<Rightarrow> bool" where
  "client_request token r \<longleftrightarrow>
     (\<exists>key c. r = command_request token key c) \<or>
     (\<exists>q. (\<forall>e. q \<noteq> Q_restrictions e) \<and> (\<forall>e. q \<noteq> Q_accreditationCSV e) \<and> r = query_request token q)"

lemma client_request_in_calls: "client_request token r \<Longrightarrow> (req_method r, req_path r) \<in> set client_calls"
  by (auto simp: client_request_def command_in_calls query_in_calls)

text \<open>The two reports of a request: of its answer, with any status, and of its failure, with any name or none.\<close>

definition call_reports :: "started_calls \<Rightarrow> string \<Rightarrow> rat \<Rightarrow> api_request \<Rightarrow> int \<Rightarrow> string option \<Rightarrow> json set" where
  "call_reports started i now r status name =
     {fst (on_response started i now (req_method r) (req_path r) status),
      fst (on_error started i now (req_method r) (req_path r) name)}"

lemma call_report_operation:
  assumes "client_request token r" and "report \<in> call_reports started i now r status name"
    and "sanitizeClientTelemetry (Some report) = Some d"
  shows "ct_operation d \<in> call_operation ` set client_calls"
proof -
  obtain e started' where el: "elapsed started i now = (e, started')" by (cases "elapsed started i now") auto
  have "ct_operation d = call_operation (req_method r, req_path r)"
    using assms(2,3) by (auto simp: call_reports_def on_response_def on_error_def el sanitizeClientTelemetry_def js_get_def
        is_str_def is_num_def call_operation_def split: if_splits)
  then show ?thesis using client_request_in_calls [OF assms(1)] by blast
qed

lemma safe_endpoint_ok:
  assumes "safeEndpoint new_url raw = Some endpoint"
  shows "\<exists>u. new_url endpoint = Some u \<and> (eu_protocol u = ''https:'' \<or> eu_protocol u = ''http:'' \<and> isLocalHost (eu_hostname u)) \<and>
    eu_username u = [] \<and> eu_password u = [] \<and> eu_search u = [] \<and> eu_hash u = []"
  using assms by (auto simp: safeEndpoint_def Let_def truthy_str_def split: option.splits if_splits)

text \<open>The host of the URL standard's parser has brackets around an IPv6 address: such a local endpoint is refused.\<close>

lemma ipv6_localhost_refused:
  assumes "new_url v = Some u" and "eu_protocol u = ''http:''" and "eu_hostname u = ''[::1]''" and "trim v = v" and "v \<noteq> []"
  shows "safeEndpoint new_url (Some v) = None"
  using assms by (simp add: safeEndpoint_def isLocalHost_def truthy_str_def)

section \<open>Properties\<close>

text \<open>
  For an event of anyone, only the shape of what the listener sends is sure: the operation is a
  method with a path under /api/v1, which may be any word.
\<close>

lemma listener_sends:
  assumes "t \<in> set (telemetry_listener new_url raw application accepts sent_at detail)"
  shows "\<exists>endpoint d. safeEndpoint new_url raw = Some endpoint \<and> sanitizeClientTelemetry detail = Some d \<and>
    t \<in> {Beacon endpoint (telemetry_body application sent_at d), Post endpoint (telemetry_body application sent_at d)}"
  using assms by (cases "safeEndpoint new_url raw"; cases "sanitizeClientTelemetry detail")
    (auto simp: telemetry_listener_def Let_def split: if_splits)

text \<open>
  C22: What the listener sends of a call that the organiser application makes through the client,
  whatever the identifiers, the parameters and the body of the call, its answer or the name of its
  failure, is a report whose operation is one of the 59 path templates of a fixed list, so without
  an identifier, with a duration up to five minutes, an HTTP status and a short error name. It goes
  to the endpoint of the configuration only, which is an https address, or an http address of the
  local host, without user, password, query or fragment.
\<close>

theorem telemetry_sends_reports_only:
  assumes "client_request token r" and "report \<in> call_reports started i now r status name"
    and "t \<in> set (telemetry_listener new_url raw application accepts sent_at (Some report))"
  shows "\<exists>endpoint u d. safeEndpoint new_url raw = Some endpoint \<and> new_url endpoint = Some u \<and>
    (eu_protocol u = ''https:'' \<or> eu_protocol u = ''http:'' \<and> isLocalHost (eu_hostname u)) \<and>
    eu_username u = [] \<and> eu_password u = [] \<and> eu_search u = [] \<and> eu_hash u = [] \<and>
    telemetry_ok d \<and> ct_operation d \<in> call_operation ` set client_calls \<and>
    t \<in> {Beacon endpoint (telemetry_body application sent_at d), Post endpoint (telemetry_body application sent_at d)}"
proof -
  from listener_sends [OF assms(3)] obtain endpoint d where e: "safeEndpoint new_url raw = Some endpoint"
    and d: "sanitizeClientTelemetry (Some report) = Some d"
    and t: "t \<in> {Beacon endpoint (telemetry_body application sent_at d), Post endpoint (telemetry_body application sent_at d)}"
    by blast
  show ?thesis using e safe_endpoint_ok [OF e] sanitize_ok [OF d] call_report_operation [OF assms(1,2) d] t by blast
qed

definition sample_ticket :: api_request where
  "sample_ticket = query_request ''t'' (Q_ticket ''tkt_123'')"

definition plain_url :: "string \<Rightarrow> endpoint_url option" where
  "plain_url s = Some \<lparr>eu_protocol = ''https:'', eu_hostname = ''t'', eu_username = [], eu_password = [], eu_search = [], eu_hash = []\<rparr>"

theorem telemetry_sends_reports_only_witness:
  "\<exists>t d. telemetry_listener plain_url (Some ''https://t'') ''admin-web'' (Some True) ''now''
       (Some (fst (on_response Map.empty ''1'' 7 (req_method sample_ticket) (req_path sample_ticket) 200))) = [t] \<and>
     t = Beacon ''https://t'' (telemetry_body ''admin-web'' ''now'' d) \<and> ct_operation d \<in> call_operation ` set client_calls"
proof -
  let ?report = "fst (on_response Map.empty ''1'' 7 (req_method sample_ticket) (req_path sample_ticket) 200)"
  have trim: "trim ''https://t'' = ''https://t''" by code_simp
  have "operation_shape ''GET /api/v1/admin/tickets/{ticket_id}''" "js_length ''GET /api/v1/admin/tickets/{ticket_id}'' \<le> 160"
    by code_simp+
  then obtain t where sent: "telemetry_listener plain_url (Some ''https://t'') ''admin-web'' (Some True) ''now'' (Some ?report) = [t]"
    and t: "\<exists>b. t = Beacon ''https://t'' b"
    by (simp add: telemetry_listener_def safeEndpoint_def plain_url_def trim truthy_str_def sanitizeClientTelemetry_def
        sample_ticket_def api_defs get_request_def on_response_def elapsed_def js_get_def is_str_def is_num_def j_int_def Let_def)
  have "\<exists>q. (\<forall>e. q \<noteq> Q_restrictions e) \<and> (\<forall>e. q \<noteq> Q_accreditationCSV e) \<and> sample_ticket = query_request ''t'' q"
    unfolding sample_ticket_def by (rule exI [of _ "Q_ticket ''tkt_123''"]) simp
  then have made: "client_request ''t'' sample_ticket" unfolding client_request_def by (rule disjI2)
  have report: "?report \<in> call_reports Map.empty ''1'' 7 sample_ticket 200 None" by (simp add: call_reports_def)
  have "t \<in> set (telemetry_listener plain_url (Some ''https://t'') ''admin-web'' (Some True) ''now'' (Some ?report))"
    unfolding sent by simp
  from telemetry_sends_reports_only [OF made report this] obtain endpoint d where d: "ct_operation d \<in> call_operation ` set client_calls"
    and "t \<in> {Beacon endpoint (telemetry_body ''admin-web'' ''now'' d), Post endpoint (telemetry_body ''admin-web'' ''now'' d)}"
    by (elim exE conjE)
  with t have "t = Beacon ''https://t'' (telemetry_body ''admin-web'' ''now'' d)" by auto
  with sent d show ?thesis by (intro exI conjI)
qed

text \<open>
  The report of every command of the organiser application is accepted and names the path
  template, one of a fixed list, never the identifiers of the call; the status of the answer is
  reported as it is.
\<close>

theorem command_reports_accepted:
  "\<exists>d. sanitizeClientTelemetry (Some (fst (on_response started i now
        (req_method (command_request token key c)) (req_path (command_request token key c)) status))) = Some d \<and>
     ct_operation d \<in> call_operation ` set client_calls \<and> ct_kind d = ''api'' \<and>
     ct_status d = Some (min 599 (max 100 status))"
proof -
  let ?m = "req_method (command_request token key c)" and ?p = "req_path (command_request token key c)"
  have call: "(?m, ?p) \<in> set client_calls" by (rule command_in_calls)
  then have "path_ok ?p" using client_call_paths by (auto simp: list_all_iff)
  from path_ok_operation [OF this, of ?m] have ok: "operation_shape (call_operation (?m, ?p))"
    "js_length (call_operation (?m, ?p)) \<le> 160" by simp_all
  have op: "method_name ?m @ CHR '' '' # ?p = call_operation (?m, ?p)" by (simp add: call_operation_def)
  obtain e started' where el: "elapsed started i now = (e, started')" by (cases "elapsed started i now") auto
  show ?thesis using ok call
    by (simp add: on_response_def el op sanitizeClientTelemetry_def js_get_def is_str_def is_num_def j_int_def)
qed

end
