(* ===== verification/Docs_Request.thy ===== *)
theory Docs_Request
  imports Json_Laws
begin

text \<open>
  Requests of the documentation site (\<^verbatim>\<open>docs-web/src/request.ts\<close>): the state of the request
  console, the request built from it, and the code samples. \<open>num\<close> is the text of a number. A
  fresh identifier of \<open>crypto.randomUUID\<close> is an argument. The last part is a reading of shell
  command lines, to say what the curl sample means.
\<close>

section \<open>Data\<close>

record request_parameter =
  rp_name :: string
  rp_in :: string
  rp_required :: bool
  rp_example :: json

record request_operation =
  ro_method :: string
  ro_path :: string
  ro_successMediaType :: "string option"
  ro_parameters :: "request_parameter list"
  ro_body :: "json option"    \<comment> \<open>the example, when the operation has a body\<close>

record request_state =
  rs_values :: "(string \<times> string) list"
  rs_body :: "json option"
  rs_idempotencyKey :: string
  rs_idempotencyEdited :: bool
  rs_idempotencyIntentChanged :: bool

text \<open>Assignment to a property of a record: a new name comes last.\<close>

fun rec_set :: "string \<Rightarrow> 'a \<Rightarrow> (string \<times> 'a) list \<Rightarrow> (string \<times> 'a) list" where
  "rec_set k v [] = [(k, v)]"
| "rec_set k v ((k', v') # kvs) = (if k' = k then (k, v) # kvs else (k', v') # rec_set k v kvs)"

lemma map_of_rec_set: "map_of (rec_set k v kvs) = (map_of kvs)(k \<mapsto> v)"
  by (induction k v kvs rule: rec_set.induct) auto

lemma keys_rec_set: "fst ` set (rec_set k v kvs) = insert k (fst ` set kvs)"
  by (induction k v kvs rule: rec_set.induct) auto

definition scalar :: "(rat \<Rightarrow> string) \<Rightarrow> json \<Rightarrow> string" where
  "scalar num v = (case v of JStr s \<Rightarrow> s | _ \<Rightarrow> stringify num v)"

definition initialRequest :: "(rat \<Rightarrow> string) \<Rightarrow> string \<Rightarrow> request_operation \<Rightarrow> request_state" where
  "initialRequest num fresh op =
     \<lparr>rs_values = foldl (\<lambda>kvs p. rec_set (rp_name p) (if rp_required p then scalar num (rp_example p) else []) kvs) []
                    (ro_parameters op),
      rs_body = ro_body op, rs_idempotencyKey = fresh, rs_idempotencyEdited = False,
      rs_idempotencyIntentChanged = False\<rparr>"

text \<open>The edit gives new values or a new body; the other stays.\<close>

datatype material = Edit_Values "(string \<times> string) list" | Edit_Body json

definition materialEdit :: "string \<Rightarrow> request_state \<Rightarrow> material \<Rightarrow> request_state" where
  "materialEdit fresh st e =
     (let st' = (case e of Edit_Values kvs \<Rightarrow> st\<lparr>rs_values := kvs\<rparr> | Edit_Body b \<Rightarrow> st\<lparr>rs_body := Some b\<rparr>)
      in st'\<lparr>rs_idempotencyKey := (if rs_idempotencyEdited st then rs_idempotencyKey st else fresh),
             rs_idempotencyIntentChanged := rs_idempotencyEdited st\<rparr>)"

section \<open>Building a request\<close>

text \<open>The text of a \<open>URLSearchParams\<close>: bytes outside \<open>[A-Za-z0-9*._-]\<close> in percent form, a space as a plus.\<close>

definition form_plain :: string where
  "form_plain = word_chars @ ''*-.''"

definition form_char :: "char \<Rightarrow> string" where
  "form_char c =
     (if c = CHR '' '' then ''+''
      else if c \<in> set form_plain then [c]
      else [CHR ''%'', hex_digits ! (of_char c div 16), hex_digits ! (of_char c mod 16)])"

definition form_text :: "(string \<times> string) list \<Rightarrow> string" where
  "form_text q = join ''&'' (map (\<lambda>(k, v). concat (map form_char k) @ ''='' @ concat (map form_char v)) q)"

record built_request =
  br_path :: string
  br_query :: "(string \<times> string) list"
  br_headers :: "(string \<times> string) list"

text \<open>One turn of the loop over the parameters.\<close>

definition add_parameter :: "request_state \<Rightarrow> built_request \<Rightarrow> request_parameter \<Rightarrow> built_request" where
  "add_parameter st b p =
     (let v = nullish (map_of (rs_values st) (rp_name p)) []
      in if v = [] then b
         else if rp_in p = ''path''
         then b\<lparr>br_path := replace_first (''{'' @ rp_name p @ ''}'') (encodeURIComponent v) (br_path b)\<rparr>
         else if rp_in p = ''query'' then b\<lparr>br_query := rec_set (rp_name p) v (br_query b)\<rparr>
         else if rp_in p = ''header''
         then b\<lparr>br_headers := rec_set (rp_name p) (if rp_name p = ''Idempotency-Key'' then rs_idempotencyKey st else v)
                                (br_headers b)\<rparr>
         else b)"

record docs_request =
  dr_url :: string
  dr_displayUrl :: string
  dr_headers :: "(string \<times> string) list"
  dr_body :: "string option"

definition start_headers :: "request_operation \<Rightarrow> string \<Rightarrow> (string \<times> string) list" where
  "start_headers op credential =
     [(''Accept'', or_else (nullish (ro_successMediaType op) []) ''application/json'')] @
     (if credential \<noteq> [] then [(''Authorization'', ''Bearer '' @ credential)] else [])"

definition buildRequest ::
    "(rat \<Rightarrow> string) \<Rightarrow> request_operation \<Rightarrow> request_state \<Rightarrow> string \<Rightarrow> string \<Rightarrow> docs_request" where
  "buildRequest num op st credential basePath =
     (let b = foldl (add_parameter st) \<lparr>br_path = ro_path op, br_query = [], br_headers = start_headers op credential\<rparr>
                (ro_parameters op);
          headers' = (if ro_body op \<noteq> None then rec_set ''Content-Type'' ''application/json'' (br_headers b) else br_headers b);
          tail = (if br_query b \<noteq> [] then ''?'' @ form_text (br_query b) else [])
      in \<lparr>dr_url = basePath @ br_path b @ tail, dr_displayUrl = br_path b @ tail, dr_headers = headers',
          dr_body = (if ro_body op \<noteq> None then map_option (stringify num) (rs_body st) else None)\<rparr>)"

section \<open>Code samples\<close>

text \<open>\<open>'\<close> closes the quotation, an escaped one stands for itself, and the next opens it again.\<close>

definition shell :: "string \<Rightarrow> string" where
  "shell v = [CHR 0x27] @ replace_char_str (CHR 0x27) [CHR 0x27, CHR 0x5C, CHR 0x27, CHR 0x27] v @ [CHR 0x27]"

datatype reader = Reader_json | Reader_text | Reader_arrayBuffer

primrec reader_name :: "reader \<Rightarrow> string" where
  "reader_name Reader_json = ''json''"
| "reader_name Reader_text = ''text''"
| "reader_name Reader_arrayBuffer = ''arrayBuffer''"

definition responseReader :: "string option \<Rightarrow> reader" where
  "responseReader mediaType =
     (let normalized = trim (hd (split_on (CHR '';'') (to_lower (nullish mediaType ''application/json''))))
      in if normalized = ''application/json'' \<or> suffix ''+json'' normalized then Reader_json
         else if prefix ''text/'' normalized \<or> normalized = ''application/xml'' \<or> normalized = ''image/svg+xml'' \<or>
                 suffix ''+xml'' normalized then Reader_text
         else Reader_arrayBuffer)"

text \<open>\<open>JSON.stringify(headers, null, 2)\<close> of an object of strings.\<close>

definition pretty_strings :: "(string \<times> string) list \<Rightarrow> string" where
  "pretty_strings kvs =
     (if kvs = [] then ''{}''
      else ''{'' @ [CHR 10] @ join ([CHR '',''] @ [CHR 10]) (map (\<lambda>(k, v). ''  '' @ quote k @ '': '' @ quote v) kvs) @
           [CHR 10] @ ''}'')"

definition javascript_sample :: "request_operation \<Rightarrow> docs_request \<Rightarrow> string" where
  "javascript_sample op r =
     ''const response = await fetch('' @ quote (dr_url r) @ '', {'' @ [CHR 10] @
     ''  method: '' @ quote (ro_method op) @ '','' @ [CHR 10] @
     ''  headers: '' @ replace_char_str (CHR 10) (CHR 10 # ''  '') (pretty_strings (dr_headers r)) @ '','' @
     (case dr_body r of None \<Rightarrow> [] | Some b \<Rightarrow> if b = [] then [] else [CHR 10] @ ''  body: '' @ quote b @ '','') @
     [CHR 10] @ ''});'' @ [CHR 10, CHR 10] @ ''const data = await response.'' @
     reader_name (responseReader (ro_successMediaType op)) @ ''();''"

definition go_header :: "string \<times> string \<Rightarrow> string" where
  "go_header kv = ''req.Header.Set('' @ quote (fst kv) @ '', '' @ quote (snd kv) @ '')''"

definition go_sample :: "request_operation \<Rightarrow> docs_request \<Rightarrow> string" where
  "go_sample op r =
     join [CHR 10]
       ([''payload := strings.NewReader('' @ quote (nullish (dr_body r) []) @ '')'',
         ''req, err := http.NewRequest('' @ quote (ro_method op) @ '', '' @ quote (dr_url r) @ '', payload)'',
         ''if err != nil { log.Fatal(err) }'',
         join [CHR 10] (map go_header (dr_headers r)),
         ''resp, err := http.DefaultClient.Do(req)'',
         ''if err != nil { log.Fatal(err) }'',
         ''defer resp.Body.Close()'',
         ''body, err := io.ReadAll(resp.Body)''])"

definition header_option :: "string \<times> string \<Rightarrow> string" where
  "header_option kv = ''  --header '' @ shell (fst kv @ '': '' @ snd kv)"

definition curl_lines :: "request_operation \<Rightarrow> docs_request \<Rightarrow> string list" where
  "curl_lines op r =
     [''curl --request '' @ ro_method op @ '' '' @ shell (dr_url r)] @ map header_option (dr_headers r) @
     (case dr_body r of None \<Rightarrow> [] | Some b \<Rightarrow> if b = [] then [] else [''  --data '' @ shell b])"

definition curl_sample :: "request_operation \<Rightarrow> docs_request \<Rightarrow> string" where
  "curl_sample op r = join ('' '' @ [CHR 0x5C, CHR 10]) (curl_lines op r)"

definition sample_credential :: string where
  "sample_credential = ''<PARTNER_API_KEY>''"

definition codeSample ::
    "(rat \<Rightarrow> string) \<Rightarrow> string \<Rightarrow> request_operation \<Rightarrow> request_state \<Rightarrow> string \<Rightarrow> string" where
  "codeSample num language op st baseUrl =
     (let r = buildRequest num op st sample_credential baseUrl
      in if language = ''javascript'' then javascript_sample op r
         else if language = ''go'' then go_sample op r
         else curl_sample op r)"

section \<open>Reading a command line\<close>

text \<open>
  A simple command of the POSIX shell, as words: blanks separate words, single quotes take
  everything literally up to the next one, a backslash takes the next character literally and a
  backslash before a line end continues the line. Any other character with a meaning of its own
  makes it something else than a simple command of literal words, for which the reading is
  undefined. The word being read is \<open>None\<close> between words.
\<close>

definition shell_plain :: string where
  "shell_plain = word_chars @ ''-./:,+@%''"

definition flush_word :: "string option \<Rightarrow> string list \<Rightarrow> string list" where
  "flush_word w ws = (case w of None \<Rightarrow> ws | Some x \<Rightarrow> x # ws)"

fun sh_words :: "bool \<Rightarrow> string option \<Rightarrow> string \<Rightarrow> string list option" where
  "sh_words True w [] = None"
| "sh_words False w [] = Some (flush_word w [])"
| "sh_words True w (c # s) =
     (if c = CHR 0x27 then sh_words False w s else sh_words True (Some (nullish w [] @ [c])) s)"
| "sh_words False w (c # s) =
     (if c = CHR 0x27 then sh_words True (Some (nullish w [])) s
      else if c = CHR '' '' \<or> c = CHR 9 then map_option (flush_word w) (sh_words False None s)
      else if c = CHR 0x5C then
        (case s of [] \<Rightarrow> None
         | d # t \<Rightarrow> if d = CHR 10 then sh_words False w t else sh_words False (Some (nullish w [] @ [d])) t)
      else if c \<in> set shell_plain then sh_words False (Some (nullish w [] @ [c])) s
      else None)"

lemma sh_quoted:
  "sh_words True (Some w) (replace_char_str (CHR 0x27) [CHR 0x27, CHR 0x5C, CHR 0x27, CHR 0x27] v @ CHR 0x27 # s) =
     sh_words False (Some (w @ v)) s"
  by (induction v arbitrary: w) simp_all

lemma sh_shell: "sh_words False None (shell v @ s) = sh_words False (Some v) s"
  using sh_quoted [of "[]" v s] by (simp add: shell_def)

lemma sh_plain:
  "set v \<subseteq> set shell_plain \<Longrightarrow> v \<noteq> [] \<Longrightarrow>
     sh_words False w (v @ s) = sh_words False (Some (nullish w [] @ v)) s"
proof (induction v arbitrary: w)
  case (Cons c v)
  have "CHR 0x27 \<notin> set shell_plain \<and> CHR '' '' \<notin> set shell_plain \<and> CHR 9 \<notin> set shell_plain \<and> CHR 0x5C \<notin> set shell_plain"
    by code_simp
  with Cons.prems(1) have "sh_words False w ((c # v) @ s) = sh_words False (Some (nullish w [] @ [c])) (v @ s)" by auto
  then show ?case using Cons.IH [of "Some (nullish w [] @ [c])"] Cons.prems by (cases "v = []") simp_all
qed simp

lemma sh_word:
  assumes "set v \<subseteq> set shell_plain" "v \<noteq> []"
  shows "sh_words False None (v @ '' '' @ s) = map_option ((#) v) (sh_words False None s)"
  by (simp only: sh_plain [OF assms]) (simp add: flush_word_def [abs_def])

lemma sh_blanks: "sh_words False None (''  '' @ s) = sh_words False None s"
  by (simp add: flush_word_def [abs_def] option.map_ident)

lemma sh_quoted_word: "sh_words False None (shell v @ '' '' @ s) = map_option ((#) v) (sh_words False None s)"
  by (simp only: sh_shell) (simp add: flush_word_def [abs_def])

lemma sh_quoted_end: "sh_words False None (shell v) = Some [v]"
  using sh_shell [of v "[]"] by (simp add: flush_word_def)

lemma sh_continued: "sh_words False w (CHR 0x5C # CHR 10 # s) = sh_words False w s"
  by simp

text \<open>A line of the sample is the words it means.\<close>

definition line_means :: "string \<Rightarrow> string list \<Rightarrow> bool" where
  "line_means l ws \<longleftrightarrow> (\<forall>s. sh_words False None (l @ '' '' @ s) = map_option ((@) ws) (sh_words False None s)) \<and>
     sh_words False None l = Some ws"

lemma words_ahead:
  "map_option ((@) (a # ws)) x = map_option ((#) a) (map_option ((@) ws) x)" "map_option ((@) []) x = x"
  by (cases x; simp)+

lemma words_ahead_snoc: "map_option ((@) (ws @ [v])) x = map_option ((@) ws) (map_option ((#) v) x)"
  by (cases x) simp_all

lemma line_meansI:
  assumes "\<And>s. sh_words False None (l @ s) = map_option ((@) ws) (sh_words False None (shell v @ s))"
  shows "line_means l (ws @ [v])"
  using assms [of "[]"] assms [of "'' '' @ s" for s]
  by (simp only: line_means_def sh_quoted_end sh_quoted_word words_ahead_snoc append_Nil2) simp

lemma option_words:
  assumes "set opt \<subseteq> set shell_plain" "opt \<noteq> []"
  shows "line_means (''  '' @ opt @ '' '' @ shell v) [opt, v]"
proof -
  have "sh_words False None ((''  '' @ opt @ '' '' @ shell v) @ s) = map_option ((@) [opt]) (sh_words False None (shell v @ s))" for s
    using sh_blanks [of "opt @ '' '' @ shell v @ s"] sh_word [OF assms, of "shell v @ s"]
    by (simp only: append_assoc words_ahead)
  from line_meansI [OF this] show ?thesis by simp
qed

lemma lines_mean:
  assumes "list_all2 line_means ls wss" "ls \<noteq> []"
  shows "sh_words False None (join ('' '' @ [CHR 0x5C, CHR 10]) ls) = Some (concat wss)"
  using assms
proof (induction ls wss rule: list_all2_induct)
  case (Cons l ls ws wss)
  show ?case
  proof (cases "ls = []")
    case True
    with Cons show ?thesis by (simp add: line_means_def)
  next
    case False
    with Cons have "sh_words False None (CHR 0x5C # CHR 10 # join ('' '' @ [CHR 0x5C, CHR 10]) ls) = Some (concat wss)"
      by simp
    moreover have "sh_words False None (l @ '' '' @ (CHR 0x5C # CHR 10 # join ('' '' @ [CHR 0x5C, CHR 10]) ls)) =
        map_option ((@) ws) (sh_words False None (CHR 0x5C # CHR 10 # join ('' '' @ [CHR 0x5C, CHR 10]) ls))"
      using Cons(1) by (simp only: line_means_def)
    ultimately show ?thesis using False by (simp add: join_Cons)
  qed
qed simp

lemma command_line_means:
  assumes "set m \<subseteq> set shell_plain" "m \<noteq> []"
  shows "line_means (''curl --request '' @ m @ '' '' @ shell v) [''curl'', ''--request'', m, v]"
proof -
  have plain: "set ''curl'' \<subseteq> set shell_plain" "set ''--request'' \<subseteq> set shell_plain" by code_simp+
  have "sh_words False None ((''curl --request '' @ m @ '' '' @ shell v) @ s) =
      map_option ((@) [''curl'', ''--request'', m]) (sh_words False None (shell v @ s))" for s
  proof -
    have "sh_words False None ((''curl --request '' @ m @ '' '' @ shell v) @ s) =
        sh_words False None (''curl'' @ '' '' @ ''--request'' @ '' '' @ m @ '' '' @ shell v @ s)" by simp
    also have "\<dots> = map_option ((#) ''curl'') (sh_words False None (''--request'' @ '' '' @ m @ '' '' @ shell v @ s))"
      by (rule sh_word [OF plain(1)]) simp
    also have "sh_words False None (''--request'' @ '' '' @ m @ '' '' @ shell v @ s) =
        map_option ((#) ''--request'') (sh_words False None (m @ '' '' @ shell v @ s))"
      by (rule sh_word [OF plain(2)]) simp
    also have "sh_words False None (m @ '' '' @ shell v @ s) = map_option ((#) m) (sh_words False None (shell v @ s))"
      by (rule sh_word [OF assms])
    finally show ?thesis by (simp only: words_ahead)
  qed
  from line_meansI [OF this] show ?thesis by simp
qed

text \<open>
  The words of a sample: whatever the values, the key or the body hold, each is one word. The
  method is the only part that is not quoted.
\<close>

definition curl_words :: "request_operation \<Rightarrow> docs_request \<Rightarrow> string list" where
  "curl_words op r =
     [''curl'', ''--request'', ro_method op, dr_url r] @
     concat (map (\<lambda>(k, v). [''--header'', k @ '': '' @ v]) (dr_headers r)) @
     (case dr_body r of None \<Rightarrow> [] | Some b \<Rightarrow> if b = [] then [] else [''--data'', b])"

lemma curl_sample_words:
  assumes "set (ro_method op) \<subseteq> set shell_plain" "ro_method op \<noteq> []"
  shows "sh_words False None (curl_sample op r) = Some (curl_words op r)"
proof -
  have opts: "set ''--header'' \<subseteq> set shell_plain" "set ''--data'' \<subseteq> set shell_plain" by code_simp+
  have h: "line_means (header_option kv) [''--header'', fst kv @ '': '' @ snd kv]" for kv
    using option_words [OF opts(1), of "fst kv @ '': '' @ snd kv"] by (simp add: header_option_def)
  have d: "line_means (''  --data '' @ shell b) [''--data'', b]" for b
    using option_words [OF opts(2), of b] by simp
  let ?hs = "map (\<lambda>kv. [''--header'', fst kv @ '': '' @ snd kv]) (dr_headers r)"
  let ?ds = "case dr_body r of None \<Rightarrow> [] | Some b \<Rightarrow> if b = [] then [] else [[''--data'', b]]"
  have head: "list_all2 line_means [''curl --request '' @ ro_method op @ '' '' @ shell (dr_url r)]
      [[''curl'', ''--request'', ro_method op, dr_url r]]"
    using command_line_means [OF assms] by (simp only: list_all2_Cons list_all2_Nil simp_thms)
  have headers: "list_all2 line_means (map header_option (dr_headers r)) ?hs"
    using h by (simp add: list_all2_conv_all_nth)
  have data: "list_all2 line_means
      (case dr_body r of None \<Rightarrow> [] | Some b \<Rightarrow> if b = [] then [] else [''  --data '' @ shell b]) ?ds"
    using d by (simp split: option.split)
  from lines_mean [OF list_all2_appendI [OF head list_all2_appendI [OF headers data]]] show ?thesis
    by (simp add: curl_sample_def curl_lines_def curl_words_def case_prod_unfold comp_def split: option.split)
qed

end
