(* ===== verification/Docs_Workbench.thy ===== *)
theory Docs_Workbench
  imports Docs_Request
begin

text \<open>
  The documentation site's request console (\<^verbatim>\<open>docs-web/src/main.tsx\<close>): the workbench of an
  operation with the credential and the environment of the page, as a function that takes one
  action of the reader to the next state. The requests sent so far are kept in a log. Fresh keys
  are \<open>ids 0\<close>, \<open>ids 1\<close>, \<dots>; \<open>parse\<close> is \<open>JSON.parse\<close>, \<^const>\<open>None\<close> when it throws.
\<close>

section \<open>Environments, search and routes\<close>

record environment_option =
  eo_id :: string
  eo_label :: string
  eo_display :: string
  eo_executable :: bool

definition environmentOptions :: "string option \<Rightarrow> string option \<Rightarrow> string option \<Rightarrow> environment_option list" where
  "environmentOptions local_url sandbox_url production_url =
     [\<lparr>eo_id = ''local'', eo_label = ''Local'', eo_display = or_else (nullish local_url []) ''http://localhost:58480'',
       eo_executable = True\<rparr>] @
     (if truthy_str sandbox_url
      then [\<lparr>eo_id = ''sandbox'', eo_label = ''Sandbox'', eo_display = nullish sandbox_url [], eo_executable = False\<rparr>] else []) @
     (if truthy_str production_url
      then [\<lparr>eo_id = ''production'', eo_label = ''Production'', eo_display = nullish production_url [], eo_executable = False\<rparr>]
      else [])"

definition selectedEnvironment :: "environment_option list \<Rightarrow> string \<Rightarrow> environment_option" where
  "selectedEnvironment opts environment = nullish (find (\<lambda>e. eo_id e = environment) opts) (hd opts)"

record docs_operation =
  do_route :: string
  do_group :: string
  do_title :: string
  do_destructive :: bool
  do_request :: request_operation

record docs_guide =
  dg_route :: string
  dg_title :: string
  dg_summary :: string

record search_record =
  sr_route :: string
  sr_title :: string
  sr_detail :: string

definition search_records :: "docs_guide list \<Rightarrow> docs_operation list \<Rightarrow> search_record list" where
  "search_records guides operations =
     map (\<lambda>g. \<lparr>sr_route = dg_route g, sr_title = dg_title g, sr_detail = dg_summary g\<rparr>) guides @
     map (\<lambda>p. \<lparr>sr_route = do_route p, sr_title = do_title p,
              sr_detail = ro_method (do_request p) @ '' '' @ ro_path (do_request p)\<rparr>) operations"

definition search_results :: "string \<Rightarrow> search_record list \<Rightarrow> search_record list" where
  "search_results query records =
     take 12 (filter (\<lambda>r. js_includes (to_lower query) (to_lower (sr_title r @ '' '' @ sr_detail r))) records)"

datatype docs_content = Operation_Content docs_operation | Guide_Content string | Not_Found

definition docs_page :: "docs_guide list \<Rightarrow> docs_operation list \<Rightarrow> string \<Rightarrow> docs_content" where
  "docs_page guides operations path =
     (case find (\<lambda>p. do_route p = path) operations of
        Some p \<Rightarrow> Operation_Content p
      | None \<Rightarrow> if list_ex (\<lambda>g. dg_route g = path) guides then Guide_Content path else Not_Found)"

fun firsts :: "string list \<Rightarrow> string list \<Rightarrow> string list" where
  "firsts seen [] = []"
| "firsts seen (x # xs) = (if x \<in> set seen then firsts seen xs else x # firsts (x # seen) xs)"

definition endpointGroups :: "docs_operation list \<Rightarrow> string list" where
  "endpointGroups operations = firsts [] (map do_group operations)"

section \<open>The workbench\<close>

record docs_result =
  dt_status :: int
  dt_statusText :: string
  dt_headers :: "(string \<times> string) list"
  dt_body :: string

record sent_request =
  sq_operation :: docs_operation
  sq_state :: request_state
  sq_credential :: string
  sq_request :: docs_request

record workbench =
  wb_operation :: docs_operation
  wb_request :: request_state
  wb_result :: "docs_result option"
  wb_busy :: bool
  wb_confirming :: bool
  wb_credential :: string
  wb_credentialOpen :: bool
  wb_environment :: string
  wb_next :: nat                  \<comment> \<open>fresh keys drawn so far\<close>
  wb_sent :: "sent_request list"  \<comment> \<open>latest first\<close>

text \<open>The parameters that have a field of their own.\<close>

definition requestFields :: "docs_operation \<Rightarrow> request_parameter list" where
  "requestFields p =
     filter (\<lambda>q. rp_in q \<noteq> ''header'' \<or> rp_name q \<notin> {''Idempotency-Key'', ''Authorization''})
       (ro_parameters (do_request p))"

text \<open>What the field of a value reports when its text changes: \<open>None\<close> keeps the last value.\<close>

definition is_complex :: "json \<Rightarrow> bool" where
  "is_complex v = (case v of JArr _ \<Rightarrow> True | JObj _ \<Rightarrow> True | _ \<Rightarrow> False)"

definition input_change :: "(string \<Rightarrow> json option) \<Rightarrow> json \<Rightarrow> string \<Rightarrow> json option" where
  "input_change parse v typed = (if is_complex v then parse typed else Some (JStr typed))"

definition body_fields :: "docs_operation \<Rightarrow> request_state \<Rightarrow> (string \<times> json) list" where
  "body_fields p st =
     (case (if rs_body st = None \<or> rs_body st = Some JNull then ro_body (do_request p) else rs_body st) of
        Some (JObj kvs) \<Rightarrow> kvs | _ \<Rightarrow> [])"

datatype docs_action =
    Edit_Value string string
  | Edit_Field string string        \<comment> \<open>a field of the body and the typed text\<close>
  | Edit_Key string
  | New_Key
  | Press_Send
  | Press_Confirm
  | Cancel_Confirm
  | Open_Operation docs_operation
  | Use_Credential string
  | Choose_Environment string
  | Got_Result docs_result

definition material_edit :: "(nat \<Rightarrow> string) \<Rightarrow> workbench \<Rightarrow> material \<Rightarrow> workbench" where
  "material_edit ids wb e =
     wb\<lparr>wb_request := materialEdit (ids (wb_next wb)) (wb_request wb) e, wb_next := wb_next wb + 1\<rparr>"

definition edit_value :: "(nat \<Rightarrow> string) \<Rightarrow> workbench \<Rightarrow> string \<Rightarrow> string \<Rightarrow> workbench" where
  "edit_value ids wb name typed = material_edit ids wb (Edit_Values (rec_set name typed (rs_values (wb_request wb))))"

definition edit_field :: "(nat \<Rightarrow> string) \<Rightarrow> (string \<Rightarrow> json option) \<Rightarrow> workbench \<Rightarrow> string \<Rightarrow> string \<Rightarrow> workbench" where
  "edit_field ids parse wb name typed =
     (let kvs = body_fields (wb_operation wb) (wb_request wb)
      in case Option.bind (map_of kvs name) (\<lambda>v. input_change parse v typed) of
           None \<Rightarrow> wb
         | Some v \<Rightarrow> material_edit ids wb (Edit_Body (JObj (rec_set name v kvs))))"

definition edit_key :: "workbench \<Rightarrow> string \<Rightarrow> workbench" where
  "edit_key wb typed =
     wb\<lparr>wb_request := (wb_request wb)\<lparr>rs_idempotencyKey := typed, rs_idempotencyEdited := True,
                                        rs_idempotencyIntentChanged := False\<rparr>\<rparr>"

definition new_key :: "(nat \<Rightarrow> string) \<Rightarrow> workbench \<Rightarrow> workbench" where
  "new_key ids wb =
     wb\<lparr>wb_request := (wb_request wb)\<lparr>rs_idempotencyKey := ids (wb_next wb), rs_idempotencyEdited := False,
                                        rs_idempotencyIntentChanged := False\<rparr>,
        wb_next := wb_next wb + 1\<rparr>"

text \<open>The effect on a new operation. The answer of an earlier request is still awaited.\<close>

definition open_operation :: "(rat \<Rightarrow> string) \<Rightarrow> (nat \<Rightarrow> string) \<Rightarrow> workbench \<Rightarrow> docs_operation \<Rightarrow> workbench" where
  "open_operation num ids wb p =
     wb\<lparr>wb_operation := p, wb_request := initialRequest num (ids (wb_next wb)) (do_request p),
        wb_result := None, wb_confirming := False, wb_next := wb_next wb + 1\<rparr>"

definition docs_execute :: "(rat \<Rightarrow> string) \<Rightarrow> workbench \<Rightarrow> workbench" where
  "docs_execute num wb =
     (if wb_credential wb = [] then wb\<lparr>wb_credentialOpen := True\<rparr>
      else if do_destructive (wb_operation wb) \<and> \<not> wb_confirming wb then wb\<lparr>wb_confirming := True\<rparr>
      else wb\<lparr>wb_busy := True, wb_confirming := False,
              wb_sent := \<lparr>sq_operation = wb_operation wb, sq_state = wb_request wb, sq_credential = wb_credential wb,
                          sq_request = buildRequest num (do_request (wb_operation wb)) (wb_request wb) (wb_credential wb)
                                         ''/__docs-exec''\<rparr> # wb_sent wb\<rparr>)"

definition press_send :: "(rat \<Rightarrow> string) \<Rightarrow> environment_option list \<Rightarrow> workbench \<Rightarrow> workbench" where
  "press_send num opts wb =
     (if wb_busy wb \<or> \<not> eo_executable (selectedEnvironment opts (wb_environment wb)) then wb else docs_execute num wb)"

definition press_confirm :: "(rat \<Rightarrow> string) \<Rightarrow> workbench \<Rightarrow> workbench" where
  "press_confirm num wb = (if wb_confirming wb then docs_execute num wb else wb)"

definition visible_headers :: "(string \<times> string) list \<Rightarrow> (string \<times> string) list" where
  "visible_headers hs = filter (\<lambda>(name, _). \<not> js_includes ''set-cookie'' (to_lower name)) hs"

definition answered_result :: "int \<Rightarrow> string \<Rightarrow> (string \<times> string) list \<Rightarrow> string \<Rightarrow> docs_result" where
  "answered_result status statusText hs body =
     \<lparr>dt_status = status, dt_statusText = statusText, dt_headers = visible_headers hs, dt_body = body\<rparr>"

definition failed_result :: "string option \<Rightarrow> docs_result" where
  "failed_result msg =
     \<lparr>dt_status = 0, dt_statusText = ''Network error'', dt_headers = [], dt_body = nullish msg ''Request failed''\<rparr>"

definition got_result :: "workbench \<Rightarrow> docs_result \<Rightarrow> workbench" where
  "got_result wb r = wb\<lparr>wb_result := Some r, wb_busy := False\<rparr>"

definition result_success :: "docs_result \<Rightarrow> bool" where
  "result_success r \<longleftrightarrow> 200 \<le> dt_status r \<and> dt_status r < 300"

definition use_credential :: "workbench \<Rightarrow> string \<Rightarrow> workbench" where
  "use_credential wb draft = wb\<lparr>wb_credential := trim draft, wb_credentialOpen := False\<rparr>"

fun docs_step ::
    "(rat \<Rightarrow> string) \<Rightarrow> (nat \<Rightarrow> string) \<Rightarrow> (string \<Rightarrow> json option) \<Rightarrow> environment_option list \<Rightarrow> workbench \<Rightarrow> docs_action \<Rightarrow> workbench" where
  "docs_step num ids parse opts wb (Edit_Value name typed) = edit_value ids wb name typed"
| "docs_step num ids parse opts wb (Edit_Field name typed) = edit_field ids parse wb name typed"
| "docs_step num ids parse opts wb (Edit_Key typed) = edit_key wb typed"
| "docs_step num ids parse opts wb New_Key = new_key ids wb"
| "docs_step num ids parse opts wb Press_Send = press_send num opts wb"
| "docs_step num ids parse opts wb Press_Confirm = press_confirm num wb"
| "docs_step num ids parse opts wb Cancel_Confirm = wb\<lparr>wb_confirming := False\<rparr>"
| "docs_step num ids parse opts wb (Open_Operation p) = open_operation num ids wb p"
| "docs_step num ids parse opts wb (Use_Credential draft) = use_credential wb draft"
| "docs_step num ids parse opts wb (Choose_Environment e) = wb\<lparr>wb_environment := e\<rparr>"
| "docs_step num ids parse opts wb (Got_Result r) = got_result wb r"

definition initial_workbench :: "(rat \<Rightarrow> string) \<Rightarrow> (nat \<Rightarrow> string) \<Rightarrow> environment_option list \<Rightarrow> docs_operation \<Rightarrow> workbench" where
  "initial_workbench num ids opts p =
     \<lparr>wb_operation = p, wb_request = initialRequest num (ids 0) (do_request p), wb_result = None, wb_busy = False,
      wb_confirming = False, wb_credential = [], wb_credentialOpen = False, wb_environment = eo_id (hd opts),
      wb_next = 1, wb_sent = []\<rparr>"

definition docs_run where
  "docs_run num ids parse opts p actions =
     foldl (docs_step num ids parse opts) (initial_workbench num ids opts p) actions"

lemmas docs_operations = material_edit_def edit_value_def edit_field_def edit_key_def new_key_def open_operation_def
  docs_execute_def press_send_def press_confirm_def got_result_def use_credential_def

section \<open>Keys name requests\<close>

text \<open>What a key stands for: the operation, the values and the body.\<close>

definition asks_for :: "docs_operation \<Rightarrow> request_state \<Rightarrow> docs_operation \<times> (string \<times> string) list \<times> json option" where
  "asks_for p st = (p, rs_values st, rs_body st)"

definition drawn :: "(nat \<Rightarrow> string) \<Rightarrow> nat \<Rightarrow> string \<Rightarrow> bool" where
  "drawn ids n k \<longleftrightarrow> (\<exists>i < n. k = ids i)"

definition automatic :: "sent_request \<Rightarrow> bool" where
  "automatic q \<longleftrightarrow> \<not> rs_idempotencyEdited (sq_state q)"

definition log_ok :: "(nat \<Rightarrow> string) \<Rightarrow> nat \<Rightarrow> sent_request list \<Rightarrow> bool" where
  "log_ok ids n sent \<longleftrightarrow>
     (\<forall>q \<in> set sent. automatic q \<longrightarrow> drawn ids n (rs_idempotencyKey (sq_state q)) \<and>
        (\<forall>q' \<in> set sent. automatic q' \<longrightarrow> rs_idempotencyKey (sq_state q') = rs_idempotencyKey (sq_state q) \<longrightarrow>
           asks_for (sq_operation q') (sq_state q') = asks_for (sq_operation q) (sq_state q)))"

definition current_ok ::
    "(nat \<Rightarrow> string) \<Rightarrow> nat \<Rightarrow> docs_operation \<Rightarrow> request_state \<Rightarrow> sent_request list \<Rightarrow> bool" where
  "current_ok ids n p st sent \<longleftrightarrow> rs_idempotencyEdited st \<or>
     drawn ids n (rs_idempotencyKey st) \<and>
     (\<forall>q \<in> set sent. automatic q \<longrightarrow> rs_idempotencyKey (sq_state q) = rs_idempotencyKey st \<longrightarrow>
        asks_for (sq_operation q) (sq_state q) = asks_for p st)"

definition keys_ok :: "(nat \<Rightarrow> string) \<Rightarrow> workbench \<Rightarrow> bool" where
  "keys_ok ids wb \<longleftrightarrow> log_ok ids (wb_next wb) (wb_sent wb) \<and>
     current_ok ids (wb_next wb) (wb_operation wb) (wb_request wb) (wb_sent wb)"

lemma drawn_Suc: "drawn ids n k \<Longrightarrow> drawn ids (Suc n) k"
  by (auto simp: drawn_def intro: less_SucI)

lemma drawn_last: "drawn ids (Suc n) (ids n)"
  by (auto simp: drawn_def)

lemma not_drawn: "inj ids \<Longrightarrow> \<not> drawn ids n (ids n)"
  by (auto simp: drawn_def dest: injD)

text \<open>The two ways a step changes what the invariant is about: a fresh key, and a request sent.\<close>

lemma log_ok_Suc: "log_ok ids n sent \<Longrightarrow> log_ok ids (Suc n) sent"
  unfolding log_ok_def by (blast intro: drawn_Suc)

lemma current_ok_fresh:
  assumes "inj ids" "log_ok ids n sent" "rs_idempotencyEdited st \<or> rs_idempotencyKey st = ids n"
  shows "current_ok ids (Suc n) p st sent"
proof (cases "rs_idempotencyEdited st")
  case False
  with assms(3) have k: "rs_idempotencyKey st = ids n" by simp
  have "rs_idempotencyKey (sq_state q) \<noteq> ids n" if "q \<in> set sent" "automatic q" for q
    using that assms(2) not_drawn [OF assms(1)] unfolding log_ok_def by metis
  then show ?thesis using k by (simp add: current_ok_def drawn_last)
qed (simp add: current_ok_def)

lemma keys_ok_fresh:
  assumes "inj ids" "keys_ok ids wb" "wb_next wb' = Suc (wb_next wb)" "wb_sent wb' = wb_sent wb"
    and "rs_idempotencyEdited (wb_request wb') \<or> rs_idempotencyKey (wb_request wb') = ids (wb_next wb)"
  shows "keys_ok ids wb'"
  using assms by (simp add: keys_ok_def log_ok_Suc current_ok_fresh)

lemma log_okD:
  assumes "log_ok ids n sent" "q \<in> set sent" "automatic q"
  shows "drawn ids n (rs_idempotencyKey (sq_state q))"
    and "q' \<in> set sent \<Longrightarrow> automatic q' \<Longrightarrow> rs_idempotencyKey (sq_state q') = rs_idempotencyKey (sq_state q) \<Longrightarrow>
      asks_for (sq_operation q') (sq_state q') = asks_for (sq_operation q) (sq_state q)"
  using assms unfolding log_ok_def by blast+

lemma current_okD:
  assumes "current_ok ids n p st sent" "\<not> rs_idempotencyEdited st"
  shows "drawn ids n (rs_idempotencyKey st)"
    and "q \<in> set sent \<Longrightarrow> automatic q \<Longrightarrow> rs_idempotencyKey (sq_state q) = rs_idempotencyKey st \<Longrightarrow>
      asks_for (sq_operation q) (sq_state q) = asks_for p st"
  using assms unfolding current_ok_def by blast+

lemma log_ok_sent:
  assumes log: "log_ok ids n sent" and cur: "current_ok ids n (sq_operation q) (sq_state q) sent"
  shows "log_ok ids n (q # sent)"
  unfolding log_ok_def
proof (intro ballI impI conjI)
  fix x
  assume x: "x \<in> set (q # sent)" "automatic x"
  show "drawn ids n (rs_idempotencyKey (sq_state x))"
    using x log_okD(1) [OF log] current_okD(1) [OF cur] unfolding automatic_def by (cases "x = q") auto
  fix y
  assume y: "y \<in> set (q # sent)" "automatic y" "rs_idempotencyKey (sq_state y) = rs_idempotencyKey (sq_state x)"
  show "asks_for (sq_operation y) (sq_state y) = asks_for (sq_operation x) (sq_state x)"
  proof (cases "x = q"; cases "y = q")
    assume "x = q" "y \<noteq> q"
    with x y show ?thesis by (intro current_okD(2) [OF cur, of y, folded \<open>x = q\<close>]) (auto simp: automatic_def)
  next
    assume "x \<noteq> q" "y = q"
    with x y show ?thesis by (intro current_okD(2) [OF cur, of x, folded \<open>y = q\<close>, symmetric]) (auto simp: automatic_def)
  next
    assume "x \<noteq> q" "y \<noteq> q"
    with x y show ?thesis by (intro log_okD(2) [OF log]) auto
  qed simp
qed

lemma current_ok_sent:
  assumes "current_ok ids n (sq_operation q) (sq_state q) sent"
  shows "current_ok ids n (sq_operation q) (sq_state q) (q # sent)"
  using assms by (simp add: current_ok_def)

lemma keys_ok_sent:
  assumes "keys_ok ids wb" "wb_next wb' = wb_next wb" "wb_request wb' = wb_request wb" "wb_operation wb' = wb_operation wb"
    and "wb_sent wb' = q # wb_sent wb" "sq_operation q = wb_operation wb" "sq_state q = wb_request wb"
  shows "keys_ok ids wb'"
  using assms log_ok_sent [of ids "wb_next wb" "wb_sent wb" q] current_ok_sent [of ids "wb_next wb" q "wb_sent wb"]
  by (simp add: keys_ok_def)

lemma keys_ok_frame:
  assumes "keys_ok ids wb" "wb_next wb' = wb_next wb" "wb_sent wb' = wb_sent wb"
    and "wb_request wb' = wb_request wb \<and> wb_operation wb' = wb_operation wb \<or> rs_idempotencyEdited (wb_request wb')"
  shows "keys_ok ids wb'"
  using assms by (auto simp: keys_ok_def current_ok_def)

lemma material_edit_keys: "inj ids \<Longrightarrow> keys_ok ids wb \<Longrightarrow> keys_ok ids (material_edit ids wb e)"
  by (rule keys_ok_fresh; cases e) (auto simp: material_edit_def materialEdit_def Let_def)

lemma execute_keys:
  assumes "keys_ok ids wb"
  shows "keys_ok ids (docs_execute num wb)"
proof (cases "wb_credential wb = [] \<or> do_destructive (wb_operation wb) \<and> \<not> wb_confirming wb")
  case True
  then show ?thesis by (intro keys_ok_frame [OF assms]) (auto simp: docs_execute_def)
next
  case False
  then show ?thesis by (intro keys_ok_sent [OF assms]) (auto simp: docs_execute_def)
qed

lemma step_keys:
  assumes "inj ids" "keys_ok ids wb"
  shows "keys_ok ids (docs_step num ids parse opts wb a)"
proof (cases a)
  case (Edit_Field name typed)
  then show ?thesis using assms by (simp add: edit_field_def Let_def material_edit_keys split: option.split)
next
  case New_Key
  then show ?thesis by (intro keys_ok_fresh [OF assms]) (simp_all add: new_key_def)
next
  case (Open_Operation p)
  then show ?thesis by (intro keys_ok_fresh [OF assms]) (simp_all add: open_operation_def initialRequest_def)
qed (use assms in \<open>simp_all add: edit_value_def material_edit_keys press_send_def press_confirm_def execute_keys
      edit_key_def use_credential_def got_result_def keys_ok_frame\<close>)

lemma run_keys:
  assumes "inj ids"
  shows "keys_ok ids (docs_run num ids parse opts p actions)"
  unfolding docs_run_def
proof (induction actions rule: rev_induct)
  case Nil
  then show ?case by (simp add: initial_workbench_def keys_ok_def log_ok_def current_ok_def initialRequest_def drawn_def)
next
  case (snoc a actions)
  then show ?case by (simp add: step_keys [OF assms])
qed

section \<open>What is sent\<close>

definition sent_well :: "(rat \<Rightarrow> string) \<Rightarrow> sent_request \<Rightarrow> bool" where
  "sent_well num q \<longleftrightarrow> sq_credential q \<noteq> [] \<and>
     sq_request q = buildRequest num (do_request (sq_operation q)) (sq_state q) (sq_credential q) ''/__docs-exec''"

lemma step_sent:
  "\<forall>q \<in> set (wb_sent wb). sent_well num q \<Longrightarrow> \<forall>q \<in> set (wb_sent (docs_step num ids parse opts wb a)). sent_well num q"
  by (cases a) (simp_all add: docs_operations sent_well_def Let_def split: option.split)

lemma run_sent: "q \<in> set (wb_sent (docs_run num ids parse opts p actions)) \<Longrightarrow> sent_well num q"
proof -
  have "\<forall>q \<in> set (wb_sent (docs_run num ids parse opts p actions)). sent_well num q"
    unfolding docs_run_def
  proof (induction actions rule: rev_induct)
    case Nil
    then show ?case by (simp add: initial_workbench_def)
  next
    case (snoc a actions)
    then show ?case using step_sent by (simp add: foldl_append)
  qed
  then show "q \<in> set (wb_sent (docs_run num ids parse opts p actions)) \<Longrightarrow> sent_well num q" by blast
qed

text \<open>The key matters to a request only through its own header.\<close>

lemma build_request_cong:
  assumes "rs_values st = rs_values st'" "rs_body st = rs_body st'" "rs_idempotencyKey st = rs_idempotencyKey st'"
  shows "buildRequest num op st c b = buildRequest num op st' c b"
proof -
  have "add_parameter st = add_parameter st'"
    using assms by (simp add: fun_eq_iff add_parameter_def cong: if_cong)
  then show ?thesis using assms by (simp add: buildRequest_def)
qed

text \<open>The credential matters to a request only through the header that carries it.\<close>

definition plain_headers :: "(string \<times> string) list \<Rightarrow> (string \<times> string) list" where
  "plain_headers hs = filter (\<lambda>h. fst h \<noteq> ''Authorization'') hs"

lemma plain_headers_rec_set:
  "plain_headers (rec_set k v hs) = (if k = ''Authorization'' then plain_headers hs else rec_set k v (plain_headers hs))"
  by (induction k v hs rule: rec_set.induct) (auto simp: plain_headers_def)

definition same_but_credential :: "built_request \<Rightarrow> built_request \<Rightarrow> bool" where
  "same_but_credential b b' \<longleftrightarrow> br_path b = br_path b' \<and> br_query b = br_query b' \<and>
     plain_headers (br_headers b) = plain_headers (br_headers b')"

lemma add_parameter_same: "same_but_credential b b' \<Longrightarrow> same_but_credential (add_parameter st b p) (add_parameter st b' p)"
  by (auto simp: same_but_credential_def add_parameter_def Let_def plain_headers_rec_set)

lemma add_parameters_same:
  "same_but_credential b b' \<Longrightarrow> same_but_credential (foldl (add_parameter st) b ps) (foldl (add_parameter st) b' ps)"
  by (induction ps arbitrary: b b') (simp_all add: add_parameter_same)

lemma build_request_credential:
  "dr_url (buildRequest num op st c b) = dr_url (buildRequest num op st c' b) \<and>
   dr_body (buildRequest num op st c b) = dr_body (buildRequest num op st c' b) \<and>
   plain_headers (dr_headers (buildRequest num op st c b)) = plain_headers (dr_headers (buildRequest num op st c' b))"
proof -
  let ?start = "\<lambda>c. \<lparr>br_path = ro_path op, br_query = [], br_headers = start_headers op c\<rparr>"
  have "same_but_credential (?start c) (?start c')"
    by (simp add: same_but_credential_def start_headers_def plain_headers_def)
  from add_parameters_same [OF this, of st "ro_parameters op"] show ?thesis
    by (simp add: buildRequest_def Let_def same_but_credential_def plain_headers_rec_set)
qed

end
