(* ===== verification/Docs_Properties.thy ===== *)
theory Docs_Properties
  imports Docs_Workbench
begin

text \<open>Properties of the documentation site: its samples, and the keys of its request console.\<close>

section \<open>Samples\<close>

definition demo_number :: "rat \<Rightarrow> string" where
  "demo_number r = int_str (floor r)"

definition demo_docs_operation :: request_operation where
  "demo_docs_operation =
     \<lparr>ro_method = ''POST'', ro_path = ''/api/v1/partner/reservations/{reservation_id}'', ro_successMediaType = None,
      ro_parameters = [\<lparr>rp_name = ''reservation_id'', rp_in = ''path'', rp_required = True, rp_example = JStr ''res_example''\<rparr>,
        \<lparr>rp_name = ''Idempotency-Key'', rp_in = ''header'', rp_required = True, rp_example = JStr ''ignored''\<rparr>],
      ro_body = Some (JObj [(''quantity'', JNum 1)])\<rparr>"

text \<open>
  C33: the curl sample means the request. A shell reads it as one command of literal words: the
  method, the URL, each header and the body exactly as they are built, whatever
  quotes, blanks, line ends or shell operators the values contain.
\<close>
theorem curl_sample_means_request:
  assumes "set (ro_method op) \<subseteq> set shell_plain" and "ro_method op \<noteq> []"
    and "language \<noteq> ''javascript''" and "language \<noteq> ''go''"
  shows "sh_words False None (codeSample num language op st baseUrl) =
    (let r = buildRequest num op st sample_credential baseUrl in
       Some ([''curl'', ''--request'', ro_method op, dr_url r] @
         concat (map (\<lambda>(k, v). [''--header'', k @ '': '' @ v]) (dr_headers r)) @
         (case dr_body r of None \<Rightarrow> [] | Some b \<Rightarrow> if b = [] then [] else [''--data'', b])))"
  using assms curl_sample_words [of op "buildRequest num op st sample_credential baseUrl"]
  by (simp add: codeSample_def Let_def curl_words_def)

theorem curl_sample_means_request_witness:
  "\<exists>ws. sh_words False None (codeSample demo_number ''curl'' demo_docs_operation
      ((initialRequest demo_number ''key-1'' demo_docs_operation)\<lparr>rs_body := Some (JStr ''it's; rm -rf'')\<rparr>) ''http://h'') = Some ws"
proof -
  have "set (ro_method demo_docs_operation) \<subseteq> set shell_plain" "ro_method demo_docs_operation \<noteq> []" by code_simp+
  then show ?thesis using curl_sample_means_request [of demo_docs_operation "''curl''"] by (simp add: Let_def)
qed

text \<open>The header with the key is sent only if the values have a text for its parameter.\<close>

lemma key_header_needs_value:
  assumes "nullish (map_of (rs_values st) ''Idempotency-Key'') [] = []" "rp_name p = ''Idempotency-Key''"
  shows "add_parameter st b p = b"
  using assms by (simp add: add_parameter_def)

section \<open>The console\<close>

definition demo_open :: docs_operation where
  "demo_open = \<lparr>do_route = ''/api/confirm'', do_group = ''Reservations'', do_title = ''Confirm'', do_destructive = False,
     do_request = demo_docs_operation\<rparr>"

definition demo_ids :: "nat \<Rightarrow> string" where
  "demo_ids n = nat_str n"

lemma demo_ids_inj: "inj demo_ids"
  by (simp add: inj_def demo_ids_def)

text \<open>
  C38: however the console is used (values and body edited, keys regenerated, operations opened,
  credentials and environments changed, requests sent, retried and answered), two requests sent
  under the same generated key ask for the same: the same operation, URL, body and headers, the
  header with the credential apart. Under the same credential they are one request.
\<close>
theorem generated_key_names_one_request:
  assumes "inj ids"
    and "q \<in> set (wb_sent (docs_run num ids parse opts p actions))"
    and "q' \<in> set (wb_sent (docs_run num ids parse opts p actions))"
    and "automatic q" and "automatic q'"
    and "rs_idempotencyKey (sq_state q) = rs_idempotencyKey (sq_state q')"
  shows "sq_operation q = sq_operation q' \<and> dr_url (sq_request q) = dr_url (sq_request q') \<and>
    dr_body (sq_request q) = dr_body (sq_request q') \<and>
    plain_headers (dr_headers (sq_request q)) = plain_headers (dr_headers (sq_request q')) \<and>
    (sq_credential q = sq_credential q' \<longrightarrow> sq_request q = sq_request q')"
proof -
  have "asks_for (sq_operation q) (sq_state q) = asks_for (sq_operation q') (sq_state q')"
    using run_keys [OF assms(1), of num parse opts p actions] assms(2-6) unfolding keys_ok_def log_ok_def by metis
  then have same: "sq_operation q = sq_operation q'" "rs_values (sq_state q) = rs_values (sq_state q')"
    "rs_body (sq_state q) = rs_body (sq_state q')" by (simp_all add: asks_for_def)
  let ?built = "\<lambda>c. buildRequest num (do_request (sq_operation q')) (sq_state q') c ''/__docs-exec''"
  have "sq_request q' = ?built (sq_credential q')" using run_sent [OF assms(3)] by (simp add: sent_well_def)
  moreover have "sq_request q = ?built (sq_credential q)"
    using run_sent [OF assms(2)] same(1) build_request_cong [OF same(2,3) assms(6)] by (simp add: sent_well_def)
  ultimately show ?thesis
    using same(1) build_request_credential [of num "do_request (sq_operation q')" "sq_state q'" "sq_credential q"
        "''/__docs-exec''" "sq_credential q'"] by simp
qed

text \<open>
  A new credential does not change the key: a request sent again under another credential keeps
  the key, and is another request.
\<close>

lemma credential_keeps_key:
  "rs_idempotencyKey (wb_request (docs_step num ids parse opts wb (Use_Credential draft))) = rs_idempotencyKey (wb_request wb)"
  by (simp add: use_credential_def)

definition demo_retried :: workbench where
  "demo_retried = docs_run demo_number demo_ids (\<lambda>_. None) (environmentOptions None None None) demo_open
     [Use_Credential ''secret'', Press_Send, Got_Result (failed_result None), Use_Credential ''other'', Press_Send]"

lemma demo_retried_sent:
  "\<exists>q q'. wb_sent demo_retried = [q, q'] \<and> sq_state q = sq_state q' \<and> sq_credential q \<noteq> sq_credential q' \<and>
     \<not> rs_idempotencyEdited (sq_state q)"
proof -
  have "trim ''secret'' = ''secret''" "trim ''other'' = ''other''" by code_simp+
  then show ?thesis
    by (simp add: demo_retried_def docs_run_def initial_workbench_def docs_operations environmentOptions_def
        selectedEnvironment_def demo_open_def initialRequest_def truthy_str_def)
qed

theorem generated_key_names_one_request_witness:
  "\<exists>q q'. wb_sent demo_retried = [q, q'] \<and> sq_credential q \<noteq> sq_credential q' \<and> sq_operation q = sq_operation q' \<and>
     dr_url (sq_request q) = dr_url (sq_request q') \<and> dr_body (sq_request q) = dr_body (sq_request q')"
proof -
  obtain q q' where sent: "wb_sent demo_retried = [q, q']" "sq_state q = sq_state q'" "sq_credential q \<noteq> sq_credential q'"
    "\<not> rs_idempotencyEdited (sq_state q)" using demo_retried_sent by blast
  then have "q \<in> set (wb_sent demo_retried)" "q' \<in> set (wb_sent demo_retried)" by simp_all
  from generated_key_names_one_request [OF demo_ids_inj this [unfolded demo_retried_def]] sent show ?thesis
    by (simp add: automatic_def)
qed

section \<open>Where the console seems not to do what it means to\<close>

text \<open>
  The button that confirms a request does not look at the environment: opened in an environment
  with live requests and pressed in one where they are disabled, it sends.
\<close>

lemma confirm_ignores_environment:
  assumes "do_destructive (wb_operation wb)" "wb_confirming wb" "wb_credential wb \<noteq> []"
    and "wb' = docs_step num ids parse opts wb (Choose_Environment e)"
    and "\<not> eo_executable (selectedEnvironment opts e)"
  shows "docs_step num ids parse opts wb' Press_Send = wb' \<and>
    length (wb_sent (docs_step num ids parse opts wb' Press_Confirm)) = Suc (length (wb_sent wb))"
  using assms by (simp add: press_send_def press_confirm_def docs_execute_def)

text \<open>A number in the body becomes a text as soon as its field is edited.\<close>

lemma edited_number_becomes_text:
  assumes "map_of (body_fields (wb_operation wb) (wb_request wb)) name = Some (JNum n)"
  shows "\<exists>kvs. rs_body (wb_request (edit_field ids parse wb name typed)) = Some (JObj kvs) \<and>
    map_of kvs name = Some (JStr typed)"
  using assms by (simp add: edit_field_def Let_def input_change_def is_complex_def material_edit_def materialEdit_def
      map_of_rec_set)

text \<open>An answer that arrives after another operation was opened is shown under that operation.\<close>

lemma stale_answer_shown:
  "wb_result (docs_step num ids parse opts (docs_step num ids parse opts wb (Open_Operation p)) (Got_Result r)) = Some r \<and>
   wb_operation (docs_step num ids parse opts (docs_step num ids parse opts wb (Open_Operation p)) (Got_Result r)) = p"
  by (simp add: got_result_def open_operation_def)

end
