(* ===== verification/Storefront_Web.thy ===== *)
theory Storefront_Web
  imports Docs_Request
begin

text \<open>
  What the sample storefront's server (\<^verbatim>\<open>partner-demo-web/server.mjs\<close>) reads from a request and
  writes to a response: cookies, forms, the size of a body, headers, and the file a path names.
  Strings are bytes, so text that is not UTF-8 is kept where the code replaces its bytes.
\<close>

section \<open>Decoding\<close>

definition hex_any :: "char \<Rightarrow> nat option" where
  "hex_any c = hex_val (upper_char c)"

definition continuation :: "char \<Rightarrow> bool" where
  "continuation c \<longleftrightarrow> 128 \<le> (of_char c :: nat) \<and> (of_char c :: nat) < 192"

text \<open>How many continuation bytes follow a first byte, and the bounds of the first of them.\<close>

definition utf8_lead :: "char \<Rightarrow> (nat \<times> nat \<times> nat) option" where
  "utf8_lead c =
     (let n = (of_char c :: nat) in
      if n < 128 then Some (0, 128, 191)
      else if n < 194 then None
      else if n < 224 then Some (1, 128, 191)
      else if n < 240 then Some (2, if n = 224 then 160 else 128, if n = 237 then 159 else 191)
      else if n < 245 then Some (3, if n = 240 then 144 else 128, if n = 244 then 143 else 191)
      else None)"

function utf8_valid :: "string \<Rightarrow> bool" where
  "utf8_valid [] = True"
| "utf8_valid (c # s) =
     (case utf8_lead c of
        None \<Rightarrow> False
      | Some (k, lo, hi) \<Rightarrow>
          length (take k s) = k \<and> list_all continuation (take k s) \<and>
          (0 < k \<longrightarrow> lo \<le> of_char (hd s) \<and> of_char (hd s) \<le> hi) \<and> utf8_valid (drop k s))"
  by pat_completeness auto
termination by (relation "measure length") auto

text \<open>\<open>decodeURIComponent\<close>: \<^const>\<open>None\<close> where it throws.\<close>

fun percent_strict :: "string \<Rightarrow> string option" where
  "percent_strict [] = Some []"
| "percent_strict (c # s) =
     (if c = CHR ''%'' then
        (case s of
           a # b # t \<Rightarrow>
             (case (hex_any a, hex_any b) of
                (Some x, Some y) \<Rightarrow> map_option (\<lambda>r. char_of (16 * x + y) # r) (percent_strict t)
              | _ \<Rightarrow> None)
         | _ \<Rightarrow> None)
      else map_option (\<lambda>r. c # r) (percent_strict s))"

definition decodeURIComponent :: "string \<Rightarrow> string option" where
  "decodeURIComponent s =
     (case percent_strict s of None \<Rightarrow> None | Some t \<Rightarrow> if utf8_valid t then Some t else None)"

text \<open>\<open>new URLSearchParams(text)\<close>: a stray percent sign stands for itself.\<close>

fun form_decode :: "string \<Rightarrow> string" where
  "form_decode [] = []"
| "form_decode (c # s) =
     (if c = CHR ''+'' then CHR '' '' # form_decode s
      else if c = CHR ''%'' then
        (case s of
           a # b # t \<Rightarrow>
             (case (hex_any a, hex_any b) of
                (Some x, Some y) \<Rightarrow> char_of (16 * x + y) # form_decode t
              | _ \<Rightarrow> c # form_decode s)
         | _ \<Rightarrow> c # form_decode s)
      else c # form_decode s)"

definition split_pair :: "string \<Rightarrow> string \<times> string" where
  "split_pair part = (takeWhile (\<lambda>c. c \<noteq> CHR ''='') part, drop 1 (dropWhile (\<lambda>c. c \<noteq> CHR ''='') part))"

definition parse_form :: "string \<Rightarrow> (string \<times> string) list" where
  "parse_form s = map (map_prod form_decode form_decode \<circ> split_pair) (filter (\<lambda>p. p \<noteq> []) (split_on (CHR ''&'') s))"

text \<open>\<open>form.get(name) || ''\<close>\<close>

definition form_get :: "(string \<times> string) list \<Rightarrow> string \<Rightarrow> string" where
  "form_get form n = nullish (map_of form n) []"

text \<open>\<open>body(request)\<close>: the text, or \<open>REQUEST_TOO_LARGE\<close>.\<close>

fun body_size_ok :: "nat \<Rightarrow> nat \<Rightarrow> string list \<Rightarrow> bool" where
  "body_size_ok limit sofar [] = True"
| "body_size_ok limit sofar (chunk # chunks) =
     (sofar + length chunk \<le> limit \<and> body_size_ok limit (sofar + length chunk) chunks)"

definition read_body :: "string list \<Rightarrow> string option" where
  "read_body chunks = (if body_size_ok 16384 0 chunks then Some (concat chunks) else None)"

section \<open>Cookies\<close>

definition cookie_pair :: "string \<Rightarrow> string \<times> string" where
  "cookie_pair part = (let ws = split_on (CHR ''='') (trim part) in (hd ws, join ''='' (tl ws)))"

text \<open>\<open>cookies(request)[name]\<close>: of several cookies of a name the last counts.\<close>

definition request_cookies :: "string option \<Rightarrow> (string \<times> string) list" where
  "request_cookies header = map cookie_pair (filter (\<lambda>p. p \<noteq> []) (split_on (CHR '';'') (nullish header [])))"

definition cookie_value :: "string option \<Rightarrow> string \<Rightarrow> string" where
  "cookie_value header n = nullish (map_of (rev (request_cookies header)) n) []"

section \<open>Headers\<close>

definition base_headers :: "(string \<times> string) list" where
  "base_headers =
     [(''cache-control'', ''no-store''),
      (''content-security-policy'',
       ''default-src 'self'; img-src 'self' data: http: https:; style-src 'self' 'unsafe-inline'; script-src 'self'; connect-src 'self'; frame-ancestors 'none'; base-uri 'self'; form-action 'self' http: https:''),
      (''referrer-policy'', ''no-referrer''),
      (''x-content-type-options'', ''nosniff''),
      (''x-frame-options'', ''DENY'')]"

text \<open>\<open>headers(extra)\<close>\<close>

definition response_headers :: "(string \<times> string) list \<Rightarrow> string \<rightharpoonup> string" where
  "response_headers extra = map_of base_headers ++ map_of extra"

section \<open>Paths of files\<close>

text \<open>
  \<open>normalize\<close> of \<open>node:path\<close> on an absolute path: empty and \<open>.\<close> segments are dropped, \<open>..\<close> takes
  the segment before it away; a final slash is kept.
\<close>

definition resolve_segment :: "string list \<Rightarrow> string \<Rightarrow> string list" where
  "resolve_segment done_segs seg =
     (if seg = [] \<or> seg = ''.'' then done_segs else if seg = ''..'' then butlast done_segs else done_segs @ [seg])"

definition resolve :: "string \<Rightarrow> string list" where
  "resolve path = foldl resolve_segment [] (split_on (CHR ''/'') path)"

definition final_slash :: "string \<Rightarrow> bool" where
  "final_slash path \<longleftrightarrow> path \<noteq> [] \<and> last path = CHR ''/''"

definition path_text :: "string list \<Rightarrow> string" where
  "path_text segs = ''/'' @ join ''/'' segs"

definition normalize_absolute :: "string \<Rightarrow> string" where
  "normalize_absolute path =
     (let segs = resolve path in path_text segs @ (if final_slash path \<and> segs \<noteq> [] then ''/'' else []))"

text \<open>
  \<open>replace(/^(\.\.[/\\])+/, '')\<close>: leading \<open>../\<close> and \<open>..\<close> with a backslash are cut off.
\<close>

function cut_parents :: "string \<Rightarrow> string" where
  "cut_parents s =
     (if prefix ''../'' s \<or> prefix [CHR ''.'', CHR ''.'', CHR 0x5C] s then cut_parents (drop 3 s) else s)"
  by auto
termination by (relation "measure length") (auto simp: prefix_def)

declare cut_parents.simps [simp del]

text \<open>
  \<open>join(dist, clean)\<close> for the absolute path of a directory, and the file that is served:
  \<open>exists_file\<close> is \<open>existsSync\<close> with \<open>stat\<close> finding no directory.
\<close>

definition join_path :: "string \<Rightarrow> string \<Rightarrow> string" where
  "join_path dir p = normalize_absolute (dir @ ''/'' @ p)"

definition served_file :: "string \<Rightarrow> (string \<Rightarrow> bool) \<Rightarrow> string \<Rightarrow> string option" where
  "served_file site exists_file pathname =
     (case decodeURIComponent pathname of
        None \<Rightarrow> None
      | Some decoded \<Rightarrow>
          (let clean = cut_parents (normalize_absolute decoded);
               file = join_path site (if clean = ''/'' then ''index.html'' else clean)
           in Some (if \<not> prefix site file \<or> \<not> exists_file file then join_path site ''index.html'' else file)))"

text \<open>\<open>extname\<close> of a path whose last segment is \<open>name\<close>.\<close>

definition extname :: "string \<Rightarrow> string" where
  "extname file =
     (let segs = filter (\<lambda>w. w \<noteq> []) (split_on (CHR ''/'') file); n = (if segs = [] then [] else last segs); ws = split_on (CHR ''.'') n
      in if length ws < 2 \<or> (length ws = 2 \<and> hd ws = []) \<or> n = ''..'' then [] else CHR ''.'' # last ws)"

definition file_type :: "string \<Rightarrow> string" where
  "file_type ext =
     nullish (map_of
       [(''.html'', ''text/html; charset=utf-8''), (''.js'', ''text/javascript; charset=utf-8''),
        (''.css'', ''text/css; charset=utf-8''), (''.svg'', ''image/svg+xml'')] ext)
       ''application/octet-stream''"

definition file_headers :: "string \<Rightarrow> (string \<times> string) list" where
  "file_headers file =
     [(''content-type'', file_type (extname file)),
      (''cache-control'', if extname file = ''.html'' then ''no-store'' else ''public, max-age=31536000, immutable'')]"

section \<open>What a browser sends back\<close>

text \<open>The header of a browser whose cookies are \<open>jar\<close>.\<close>

definition cookie_header :: "(string \<times> string) list \<Rightarrow> string" where
  "cookie_header jar = join ''; '' (map (\<lambda>(n, v). n @ ''='' @ v) jar)"

text \<open>Names and values as the server sets them: no separator, nothing that trimming takes away.\<close>

definition cookie_chars :: string where
  "cookie_chars = word_chars @ ''-_''"

definition plain_cookie :: "string \<times> string \<Rightarrow> bool" where
  "plain_cookie c \<longleftrightarrow> fst c \<noteq> [] \<and> set (fst c) \<subseteq> set cookie_chars \<and> set (snd c) \<subseteq> set cookie_chars"

text \<open>
  Any cookie that a browser keeps under a name: neither part holds the semicolon that ends it, the name
  holds no \<open>=\<close> and does not begin with white space.
\<close>

definition named_cookie :: "string \<times> string \<Rightarrow> bool" where
  "named_cookie c \<longleftrightarrow> fst c \<noteq> [] \<and> CHR '';'' \<notin> set (fst c) \<and> CHR '';'' \<notin> set (snd c) \<and>
     CHR ''='' \<notin> set (fst c) \<and> trim_start (fst c) = fst c"

lemma ws_not_cookie:
  assumes "t \<in> set ws_tokens"
  shows "hd t \<notin> insert (CHR ''='') (set cookie_chars)" "hd (rev t) \<notin> insert (CHR ''='') (set cookie_chars)" "CHR ''='' \<notin> set t"
proof -
  have "\<forall>t \<in> set ws_tokens. hd t \<notin> insert (CHR ''='') (set cookie_chars) \<and> hd (rev t) \<notin> insert (CHR ''='') (set cookie_chars) \<and>
      CHR ''='' \<notin> set t"
    by code_simp
  with assms show "hd t \<notin> insert (CHR ''='') (set cookie_chars)" "hd (rev t) \<notin> insert (CHR ''='') (set cookie_chars)"
      "CHR ''='' \<notin> set t"
    by blast+
qed

lemma tok_len_other:
  assumes "\<And>t. t \<in> set toks \<Longrightarrow> t \<noteq> [] \<and> hd t \<notin> A" "set s \<subseteq> A"
  shows "tok_len toks s = 0"
proof -
  have "\<not> prefix t s" if "t \<in> set toks" for t
    using assms(1) [OF that] assms(2) by (cases t; cases s) auto
  moreover have "[] \<notin> set toks" using assms(1) by blast
  ultimately show ?thesis by (simp add: tok_len_0_iff)
qed

text \<open>Trimming stops at a character that is in no token.\<close>

lemma prefix_before:
  assumes "prefix t (y @ c # z)" and "c \<notin> set t"
  shows "prefix t y"
proof (cases "length t \<le> length y")
  case True
  then show ?thesis using assms(1) by (auto intro: prefix_length_prefix [of t _ y])
next
  case False
  then have "prefix (y @ [c]) t" using assms(1) prefix_length_prefix [of "y @ [c]" "y @ c # z" t] by simp
  then show ?thesis using assms(2) set_mono_prefix by fastforce
qed

lemma tok_len_before:
  assumes "\<And>t. t \<in> set toks \<Longrightarrow> c \<notin> set t"
  shows "tok_len toks (y @ c # z) = tok_len toks y"
proof -
  have "prefix t (y @ c # z) \<longleftrightarrow> prefix t y" if "t \<in> set toks" for t
    using prefix_before [of t y c z] assms [OF that] by (auto intro: prefix_order.trans)
  then have "find (\<lambda>t. prefix t (y @ c # z)) toks = find (\<lambda>t. prefix t y) toks" by (intro find_cong) auto
  then show ?thesis by (simp add: tok_len_def)
qed

lemma strip_start_before:
  assumes "\<And>t. t \<in> set toks \<Longrightarrow> c \<notin> set t"
  shows "strip_start toks (y @ c # z) = strip_start toks y @ c # z"
  using assms
proof (induction toks y rule: strip_start.induct)
  case (1 toks y)
  show ?case
  proof (cases "tok_len toks y = 0")
    case True
    then show ?thesis using tok_len_before [OF "1.prems", of toks y z] by (simp add: strip_start_id)
  next
    case False
    then show ?thesis using tok_len_before [OF "1.prems", of toks y z] "1.IH" [OF refl False "1.prems"] tok_len_le [of toks y]
      by (simp add: strip_start_unfold)
  qed
qed

lemma strip_end_after:
  assumes "\<And>t. t \<in> set toks \<Longrightarrow> c \<notin> set t"
  shows "strip_end toks (y @ c # z) = y @ c # strip_end toks z"
proof -
  have "c \<notin> set t" if "t \<in> set (map rev toks)" for t using that assms by auto
  then have "strip_start (map rev toks) (rev z @ c # rev y) = strip_start (map rev toks) (rev z) @ c # rev y"
    by (rule strip_start_before)
  then show ?thesis by (simp add: strip_end_def)
qed

lemma trim_cookie:
  assumes "trim_start n = n"
  shows "trim (n @ CHR ''='' # v) = n @ CHR ''='' # trim_end v" "trim (CHR '' '' # n @ CHR ''='' # v) = n @ CHR ''='' # trim_end v"
proof -
  note free = ws_not_cookie(3)
  have start: "trim_start (n @ CHR ''='' # v) = n @ CHR ''='' # v"
    using strip_start_before [of ws_tokens, OF free] assms by (simp add: trim_start_def)
  moreover have "trim_end (n @ CHR ''='' # v) = n @ CHR ''='' # trim_end v"
    using strip_end_after [of ws_tokens, OF free] by (simp add: trim_end_def)
  ultimately show "trim (n @ CHR ''='' # v) = n @ CHR ''='' # trim_end v" by (simp add: trim_def)
  have "tok_len ws_tokens (CHR '' '' # n @ CHR ''='' # v) = 1" by (simp add: tok_len_def ws_tokens_def)
  then have "trim_start (CHR '' '' # n @ CHR ''='' # v) = n @ CHR ''='' # v"
    using start by (simp add: trim_start_def strip_start_unfold)
  then show "trim (CHR '' '' # n @ CHR ''='' # v) = n @ CHR ''='' # trim_end v"
    by (simp add: trim_def \<open>trim_end (n @ CHR ''='' # v) = _\<close>)
qed

lemma plain_chars: "CHR '';'' \<notin> set cookie_chars" "CHR ''='' \<notin> set cookie_chars"
  by code_simp+

lemma trim_plain:
  assumes "set s \<subseteq> set cookie_chars"
  shows "trim_start s = s" "trim_end s = s"
proof -
  show "trim_start s = s"
    using assms ws_not_cookie(1) ws_tokens_nonempty
    by (simp add: trim_start_def) (intro strip_start_id tok_len_other [where A = "set cookie_chars"]; fastforce)
  have "tok_len (map rev ws_tokens) (rev s) = 0"
    using assms ws_not_cookie(2) ws_tokens_nonempty by (intro tok_len_other [where A = "set cookie_chars"]) auto
  then show "trim_end s = s" by (simp add: trim_end_def strip_end_def strip_start_id)
qed

lemma plain_cookie_named: "plain_cookie c \<Longrightarrow> named_cookie c"
  using plain_chars trim_plain(1) by (auto simp: plain_cookie_def named_cookie_def)

lemma split_cookie_header:
  "list_all (\<lambda>p. CHR '';'' \<notin> set p) (p # ps) \<Longrightarrow>
   split_on (CHR '';'') (join ''; '' (p # ps)) = p # map (\<lambda>q. CHR '' '' # q) ps"
proof (induction ps arbitrary: p)
  case (Cons q qs)
  then show ?case
    by (cases "split_on (CHR '';'') (join ''; '' (q # qs))") (simp_all add: split_on_append)
qed (simp add: split_on_plain)

lemma join_split_on: "join [c] (split_on c s) = s"
proof (induction s)
  case (Cons x s)
  show ?case
  proof (cases "split_on c s")
    case Nil
    then show ?thesis by (simp add: split_on_nonempty)
  next
    case (Cons w ws)
    then show ?thesis using Cons.IH by (cases ws) auto
  qed
qed simp

lemma split_at_equals:
  assumes "CHR ''='' \<notin> set n"
  shows "hd (split_on (CHR ''='') (n @ CHR ''='' # v)) = n \<and> join ''='' (tl (split_on (CHR ''='') (n @ CHR ''='' # v))) = v"
  using assms join_split_on [of "CHR ''=''" v] by (simp add: split_on_append split_on_plain)

lemma cookie_pair_back:
  assumes "named_cookie (n, v)"
  shows "cookie_pair (n @ ''='' @ v) = (n, trim_end v)" "cookie_pair (CHR '' '' # n @ ''='' @ v) = (n, trim_end v)"
  using assms trim_cookie [of n v] split_at_equals [of n "trim_end v"] by (simp_all add: cookie_pair_def named_cookie_def Let_def)

lemma request_cookies_back:
  assumes "list_all named_cookie jar"
  shows "request_cookies (Some (cookie_header jar)) = map (\<lambda>(n, v). (n, trim_end v)) jar"
proof (cases jar)
  case (Cons c cs)
  let ?t = "\<lambda>(n, v). n @ ''='' @ v :: string" and ?r = "\<lambda>(n, v). (n, trim_end v)"
  have no_sep: "CHR '';'' \<notin> set (?t d)" if "named_cookie d" for d
    using that by (cases d) (auto simp: named_cookie_def)
  have "split_on (CHR '';'') (cookie_header jar) = ?t c # map (\<lambda>q. CHR '' '' # q) (map ?t cs)"
    unfolding cookie_header_def Cons list.map(2) using assms no_sep
    by (intro split_cookie_header) (auto simp: Cons list_all_iff)
  moreover have "map (cookie_pair \<circ> (\<lambda>q. CHR '' '' # q) \<circ> ?t) cs = map ?r cs"
    using assms cookie_pair_back(2) by (intro map_cong) (auto simp: Cons list_all_iff split: prod.splits)
  moreover have "cookie_pair (?t c) = ?r c" using assms cookie_pair_back(1) by (cases c) (simp add: Cons)
  ultimately show ?thesis using assms
    by (cases c) (simp add: request_cookies_def Cons comp_assoc filter_map comp_def)
qed (simp add: request_cookies_def cookie_header_def)

lemma map_of_only:
  assumes "(n, v) \<in> set xs" and "\<forall>c \<in> set xs. fst c = n \<longrightarrow> snd c = v"
  shows "map_of xs n = Some v"
  using assms by (induction xs) (auto split: if_splits)

text \<open>A cookie of plain characters is read back among any named cookies, as long as its name is its own.\<close>

lemma cookie_value_back:
  assumes "list_all named_cookie jar" and "(n, v) \<in> set jar" and "\<forall>c \<in> set jar. fst c = n \<longrightarrow> snd c = v"
    and "set v \<subseteq> set cookie_chars"
  shows "cookie_value (Some (cookie_header jar)) n = v"
proof -
  have "map_of (rev (map (\<lambda>(n, v). (n, trim_end v)) jar)) n = Some (trim_end v)"
    using assms(2,3) by (intro map_of_only) force+
  then show ?thesis using trim_plain(2) [OF assms(4)] by (simp add: cookie_value_def request_cookies_back [OF assms(1)])
qed

text \<open>A form as a browser sends it is read back field by field.\<close>

lemma hex_any_digit: "n < 16 \<Longrightarrow> hex_any (hex_digits ! n) = Some n"
proof -
  have "\<forall>n \<in> set [0 ..< 16]. hex_any (hex_digits ! n) = Some n" by code_simp
  then show "n < 16 \<Longrightarrow> ?thesis" by auto
qed

lemma form_plain_chars:
  "CHR ''+'' \<notin> set form_plain" "CHR ''%'' \<notin> set form_plain" "CHR ''&'' \<notin> set form_plain" "CHR ''='' \<notin> set form_plain"
  by code_simp+

lemma form_decode_char: "form_decode (form_char c @ s) = c # form_decode s"
proof (cases "c = CHR '' '' \<or> c \<in> set form_plain")
  case True
  then show ?thesis using form_plain_chars by (auto simp: form_char_def)
next
  case False
  have "(of_char c :: nat) < 256" by simp
  then have "(of_char c :: nat) div 16 < 16" by linarith
  with False show ?thesis by (simp add: form_char_def hex_any_digit)
qed

lemma form_decode_back: "form_decode (concat (map form_char s)) = s"
  by (induction s) (simp_all add: form_decode_char)

lemma form_char_chars: "CHR ''&'' \<notin> set (form_char c)" "CHR ''='' \<notin> set (form_char c)"
proof -
  have hexes: "\<forall>n \<in> set [0 ..< 16]. hex_digits ! n \<noteq> CHR ''&'' \<and> hex_digits ! n \<noteq> CHR ''=''" by code_simp
  have "(of_char c :: nat) < 256" by simp
  then have "(of_char c :: nat) div 16 < 16" by linarith
  then show "CHR ''&'' \<notin> set (form_char c)" "CHR ''='' \<notin> set (form_char c)"
    using hexes form_plain_chars by (auto simp: form_char_def)
qed

definition form_part :: "string \<times> string \<Rightarrow> string" where
  "form_part = (\<lambda>(k, v). concat (map form_char k) @ ''='' @ concat (map form_char v))"

lemma form_part_facts:
  "CHR ''&'' \<notin> set (form_part kv)" "form_part kv \<noteq> []" "map_prod form_decode form_decode (split_pair (form_part kv)) = kv"
proof -
  obtain k v where kv: "kv = (k, v)" by (cases kv)
  have k: "CHR ''='' \<notin> set (concat (map form_char k))" using form_char_chars by auto
  then have "split_pair (form_part kv) = (concat (map form_char k), concat (map form_char v))"
    using k by (auto simp: kv form_part_def split_pair_def takeWhile_append dropWhile_append)
  then show "map_prod form_decode form_decode (split_pair (form_part kv)) = kv" by (simp add: kv form_decode_back)
  show "CHR ''&'' \<notin> set (form_part kv)" "form_part kv \<noteq> []"
    using form_char_chars by (auto simp: kv form_part_def)
qed

lemma parse_form_back: "parse_form (form_text q) = q"
proof (cases "q = []")
  case False
  have "form_text q = join [CHR ''&''] (map form_part q)" by (simp add: form_text_def form_part_def)
  then have "split_on (CHR ''&'') (form_text q) = map form_part q"
    using False form_part_facts(1) by (simp add: split_join_plain)
  moreover have "filter (\<lambda>p. p \<noteq> []) (map form_part q) = map form_part q"
    using form_part_facts(2) by (intro filter_True) auto
  moreover have "map (map_prod form_decode form_decode \<circ> split_pair) (map form_part q) = q"
    unfolding list.map_comp comp_assoc using form_part_facts(3) by (intro map_idI) (simp add: comp_def)
  ultimately show ?thesis by (simp only: parse_form_def)
qed (simp add: parse_form_def form_text_def)

section \<open>Files stay in their directory\<close>

definition plain_segment :: "string \<Rightarrow> bool" where
  "plain_segment w \<longleftrightarrow> w \<noteq> [] \<and> w \<noteq> ''.'' \<and> w \<noteq> ''..'' \<and> CHR ''/'' \<notin> set w"

lemma resolve_segments_plain:
  "list_all plain_segment ds \<Longrightarrow> \<forall>w \<in> set ws. CHR ''/'' \<notin> set w \<Longrightarrow> list_all plain_segment (foldl resolve_segment ds ws)"
proof (induction ws arbitrary: ds)
  case (Cons w ws)
  have "list_all plain_segment (resolve_segment ds w)"
    using Cons.prems by (auto simp: resolve_segment_def plain_segment_def list_all_iff dest: in_set_butlastD)
  with Cons show ?case by simp
qed simp

lemma resolve_plain: "list_all plain_segment (resolve p)"
  using split_on_pieces unfolding resolve_def by (intro resolve_segments_plain) auto

lemma resolve_plain_segments:
  "list_all (\<lambda>w. w = [] \<or> plain_segment w) ws \<Longrightarrow> foldl resolve_segment ds ws = ds @ filter (\<lambda>w. w \<noteq> []) ws"
  by (induction ws arbitrary: ds) (auto simp: resolve_segment_def plain_segment_def)

lemma split_path_text:
  assumes "list_all plain_segment segs"
  shows "filter (\<lambda>w. w \<noteq> []) (split_on (CHR ''/'') (path_text segs)) = segs"
    "list_all (\<lambda>w. w = [] \<or> plain_segment w) (split_on (CHR ''/'') (path_text segs))"
proof -
  have "split_on (CHR ''/'') (path_text segs) = [] # (if segs = [] then [[]] else segs)"
    using assms by (auto simp: path_text_def split_join_plain plain_segment_def list_all_iff)
  then show "filter (\<lambda>w. w \<noteq> []) (split_on (CHR ''/'') (path_text segs)) = segs"
    "list_all (\<lambda>w. w = [] \<or> plain_segment w) (split_on (CHR ''/'') (path_text segs))"
    using assms by (auto simp: list_all_iff plain_segment_def intro: filter_True)
qed

lemma resolve_path_text:
  assumes "list_all plain_segment segs"
  shows "resolve (path_text segs) = segs" "resolve (path_text segs @ ''/'') = segs"
  using resolve_plain_segments [OF split_path_text(2) [OF assms], of "[]"] split_path_text(1) [OF assms]
  by (simp_all add: resolve_def split_on_append_any resolve_segment_def)

lemma resolve_below:
  assumes "list_all plain_segment segs" "tail \<in> {[], ''/''}"
  shows "resolve (a @ ''/'' @ path_text segs @ tail) = resolve a @ segs"
  using assms resolve_plain_segments [OF split_path_text(2) [OF assms(1)], of "resolve a"] split_path_text(1) [OF assms(1)]
  by (auto simp: resolve_def split_on_append_any resolve_segment_def)

lemma cut_parents_absolute: "cut_parents (CHR ''/'' # s) = CHR ''/'' # s"
  by (subst cut_parents.simps) simp

end
