(* ===== verification/Partner_Demo.thy ===== *)
theory Partner_Demo
  imports Js_Json
begin

text \<open>
  The sample storefront of a ticketing partner (\<^verbatim>\<open>partner-demo-web/src/App.tsx\<close>, \<^verbatim>\<open>api.ts\<close>,
  \<^verbatim>\<open>types.ts\<close>): which page a path shows, the event page, the checkout and the ticket page. The
  formats of money and dates are parameters.
\<close>

section \<open>Data\<close>

record demo_price =
  dp_amount_minor :: int
  dp_currency :: string

record demo_event =
  de_id :: string
  de_name :: string
  de_state :: string
  de_starts_at :: "string option"
  de_venue_name :: "string option"
  de_address_text :: "string option"
  de_starting_price :: "demo_price option"

datatype demo_kind = RESERVED | GA

record item_display =
  id_section :: string
  id_row :: string
  id_seat :: string
  id_table :: string
  id_label :: string

record demo_item =
  ri_id :: string
  ri_kind :: demo_kind
  ri_quantity :: int
  ri_unit_amount_minor :: int
  ri_currency :: string
  ri_price_tier_label :: "string option"
  ri_display :: item_display    \<comment> \<open>a missing field as the empty text, which the code treats alike\<close>

record demo_order =
  dm_event :: demo_event
  dm_hold_expires_at :: int   \<comment> \<open>in milliseconds\<close>
  dm_server_time :: int
  dm_items :: "demo_item list"
  dm_total :: demo_price

record demo_ticket =
  tk_id :: string
  tk_status :: string

record demo_credential =
  cr_ticket_id :: string
  cr_qr_payload :: string
  cr_qr_url :: string

record ticket_result =
  tr_order :: demo_order
  tr_tickets :: "demo_ticket list"
  tr_credentials :: "demo_credential list"

section \<open>Texts\<close>

definition price_text :: "(string \<Rightarrow> rat \<Rightarrow> string) \<Rightarrow> demo_price option \<Rightarrow> string" where
  "price_text currency_format p =
     (case p of None \<Rightarrow> ''Price shown during selection''
      | Some p \<Rightarrow> currency_format (dp_currency p) (of_int (dp_amount_minor p) / 100))"

definition date_text :: "(string \<Rightarrow> string) \<Rightarrow> string option \<Rightarrow> string" where
  "date_text date_format v = (if truthy_str v then date_format (nullish v []) else ''Date to be announced'')"

definition eventReference :: "string \<Rightarrow> string" where
  "eventReference i =
     (let readable = filter (\<lambda>c. c \<in> set alnum_chars) (if ci_prefix ''evt_'' i then drop 4 i else i)
      in to_upper (or_else (drop (length readable - 8) readable) ''EVENT''))"

definition labelled_part :: "string \<Rightarrow> string \<Rightarrow> string" where
  "labelled_part word v = (if v = [] then [] else word @ '' '' @ v)"

definition itemName :: "demo_item \<Rightarrow> string" where
  "itemName item =
     (let d = ri_display item; tier = nullish (ri_price_tier_label item) []
      in if ri_kind item = GA then or_else (id_label d) (or_else (id_section d) (or_else tier ''General admission''))
         else join [CHR '' '', CHR 0xC2, CHR 0xB7, CHR '' '']
                (filter (\<lambda>s. s \<noteq> [])
                  [or_else (id_section d) (or_else tier ''Reserved seat''),
                   labelled_part ''Table'' (id_table d), labelled_part ''Row'' (id_row d), labelled_part ''Seat'' (id_seat d)]))"

definition list_sale_state :: "string \<Rightarrow> string" where
  "list_sale_state s =
     (if s = ''ON_SALE'' then ''On sale'' else if s = ''PAUSED'' then ''Sales paused'' else ''Not on sale'')"

definition event_sale_state :: "string \<Rightarrow> string" where
  "event_sale_state s =
     (if s = ''ON_SALE'' then ''Tickets available''
      else if s = ''PAUSED'' then ''Sales temporarily paused'' else ''Sales not open'')"

definition choose_text :: "bool \<Rightarrow> string \<Rightarrow> string" where
  "choose_text busy s =
     (if busy then ''Opening secure selection'' @ [CHR 0xE2, CHR 0x80, CHR 0xA6]
      else if s = ''ON_SALE'' then ''Choose tickets''
      else if s = ''PAUSED'' then ''Sales are paused'' else ''Tickets unavailable'')"

text \<open>A line of the order: name, description with quantity, amount.\<close>

definition order_line :: "(string \<Rightarrow> rat \<Rightarrow> string) \<Rightarrow> demo_item \<Rightarrow> string \<times> string \<times> string" where
  "order_line currency_format item =
     (itemName item,
      or_else (nullish (ri_price_tier_label item) [])
        (if ri_kind item = GA then ''General admission'' else ''Reserved ticket'') @
      [CHR '' '', CHR 0xC2, CHR 0xB7] @ '' Qty '' @ int_str (ri_quantity item),
      price_text currency_format
        (Some \<lparr>dp_amount_minor = ri_unit_amount_minor item * ri_quantity item, dp_currency = ri_currency item\<rparr>))"

section \<open>Requests\<close>

definition demo_unavailable :: string where
  "demo_unavailable = ''The ticket service is temporarily unavailable.''"

text \<open>\<open>demoAPI\<close> once the body is read: the data, or the message of the error it throws.\<close>

definition demoAPI :: "(json \<Rightarrow> string) \<Rightarrow> bool \<Rightarrow> json option \<Rightarrow> string + json option" where
  "demoAPI to_text ok data =
     (if ok then Inr data
      else Inl (case js_get ''message'' (js_get ''error'' data) of
                  Some (JStr s) \<Rightarrow> or_else s demo_unavailable
                | Some (JBool True) \<Rightarrow> to_text (JBool True)
                | Some (JNum r) \<Rightarrow> if r = 0 then demo_unavailable else to_text (JNum r)
                | Some (JObj kvs) \<Rightarrow> to_text (JObj kvs)
                | Some (JArr vs) \<Rightarrow> to_text (JArr vs)
                | _ \<Rightarrow> demo_unavailable))"

section \<open>Which page a path shows\<close>

record demo_connection =
  dc_id :: string
  dc_name :: string
  dc_active :: bool

datatype demo_page =
    Connection_Setup | Connections_Page | Connection_Error string | Opening_Storefront
  | Checkout_Page string | Ticket_Page string | Event_Page string string | Events_Page string

text \<open>\<open>path.match(/^\/events\/(evt_[^/]+)$/)?.[1]\<close>\<close>

definition event_of_path :: "string \<Rightarrow> string option" where
  "event_of_path path =
     (let rest = drop (length ''/events/'') path
      in if prefix ''/events/'' path \<and> prefix ''evt_'' rest \<and> length rest > 4 \<and> CHR ''/'' \<notin> set rest
         then Some rest else None)"

definition setup_route :: "string \<Rightarrow> bool" where
  "setup_route path \<longleftrightarrow> path = ''/'' \<or> path = ''/connections''"

record demo_app =
  da_active :: "demo_connection option"
  da_error :: string

text \<open>The connections have arrived: the active one, or back to the set-up page.\<close>

definition connections_loaded :: "demo_app \<Rightarrow> demo_connection list \<Rightarrow> demo_app \<times> string option" where
  "connections_loaded app items =
     (case find dc_active items of None \<Rightarrow> (app, Some ''/'') | Some c \<Rightarrow> (app\<lparr>da_active := Some c\<rparr>, None))"

definition connections_failed :: "demo_app \<Rightarrow> string \<Rightarrow> demo_app" where
  "connections_failed app msg = app\<lparr>da_error := msg\<rparr>"

definition demo_page_of :: "demo_app \<Rightarrow> string \<Rightarrow> demo_page" where
  "demo_page_of app path =
     (if setup_route path then (if path = ''/connections'' then Connections_Page else Connection_Setup)
      else if da_error app \<noteq> [] then Connection_Error (da_error app)
      else case da_active app of None \<Rightarrow> Opening_Storefront
           | Some c \<Rightarrow>
               if path = ''/checkout'' then Checkout_Page (dc_name c)
               else if path = ''/ticket'' then Ticket_Page (dc_name c)
               else (case event_of_path path of Some e \<Rightarrow> Event_Page e (dc_name c) | None \<Rightarrow> Events_Page (dc_name c)))"

text \<open>The forms that a saved connection offers: what they post to.\<close>

definition connection_actions :: "demo_connection \<Rightarrow> string list" where
  "connection_actions c =
     (if dc_active c then [] else [''/demo-api/connections/'' @ dc_id c @ ''/activate'']) @
     (if dc_id c \<noteq> ''deployment'' then [''/demo-api/connections/'' @ dc_id c @ ''/remove''] else [])"

section \<open>The event page\<close>

record event_page_state =
  ep_event :: "demo_event option"
  ep_error :: string
  ep_busy :: bool

definition choose_enabled :: "event_page_state \<Rightarrow> bool" where
  "choose_enabled pg \<longleftrightarrow> (case ep_event pg of None \<Rightarrow> False | Some e \<Rightarrow> de_state e = ''ON_SALE'' \<and> \<not> ep_busy pg)"

text \<open>The request that opens the selection, and where its answer leads.\<close>

definition choose_start :: "event_page_state \<Rightarrow> string \<Rightarrow> event_page_state \<times> string option" where
  "choose_start pg i =
     (if choose_enabled pg then (pg\<lparr>ep_busy := True, ep_error := []\<rparr>, Some (''/events/'' @ i @ ''/selection'')) else (pg, None))"

definition choose_finish :: "event_page_state \<Rightarrow> string + string \<Rightarrow> event_page_state \<times> string option" where
  "choose_finish pg answer =
     (case answer of Inr selection_url \<Rightarrow> (pg, Some selection_url)
      | Inl msg \<Rightarrow> (pg\<lparr>ep_error := msg, ep_busy := False\<rparr>, None))"

section \<open>The countdown\<close>

definition countdown_start :: "int \<Rightarrow> int \<Rightarrow> int" where
  "countdown_start hold_end server = max 0 (hold_end - server)"

definition countdown_tick :: "int \<Rightarrow> int" where
  "countdown_tick v = max 0 (v - 1000)"

definition countdown_text :: "int \<Rightarrow> string" where
  "countdown_text v =
     (let seconds = int_str (v mod 60000 div 1000)
      in int_str (v div 60000) @ '':'' @ replicate (2 - length seconds) (CHR ''0'') @ seconds @ '' remaining'')"

definition countdown_ending :: "int \<Rightarrow> bool" where
  "countdown_ending v \<longleftrightarrow> v < 60000"

lemma countdown_after:
  "(countdown_tick ^^ n) (countdown_start hold_end server) = max 0 (hold_end - server - 1000 * int n)"
  by (induction n) (auto simp: countdown_start_def countdown_tick_def)

section \<open>The checkout\<close>

datatype stage = Review | Payment

datatype checkout_call = Begin_Checkout | Confirm_Checkout | Fail_Checkout

primrec call_path :: "checkout_call \<Rightarrow> string" where
  "call_path Begin_Checkout = ''/checkout/begin''"
| "call_path Confirm_Checkout = ''/checkout/confirm''"
| "call_path Fail_Checkout = ''/checkout/fail''"

datatype log_entry = Sent checkout_call | Accepted checkout_call | Refused checkout_call

record checkout =
  ck_order :: "demo_order option"
  ck_stage :: stage
  ck_error :: string
  ck_busy :: bool
  ck_calls :: "checkout_call list"   \<comment> \<open>in flight\<close>
  ck_left :: bool                    \<comment> \<open>\<open>location.assign('/ticket')\<close>\<close>
  ck_log :: "log_entry list"         \<comment> \<open>latest first\<close>

definition initial_checkout :: checkout where
  "initial_checkout =
     \<lparr>ck_order = None, ck_stage = Review, ck_error = [], ck_busy = False, ck_calls = [], ck_left = False, ck_log = []\<rparr>"

text \<open>The buttons on the page: none before the order is there.\<close>

definition can_press :: "checkout \<Rightarrow> checkout_call \<Rightarrow> bool" where
  "can_press ck c \<longleftrightarrow> ck_order ck \<noteq> None \<and> \<not> ck_busy ck \<and>
     (case c of Begin_Checkout \<Rightarrow> ck_stage ck = Review | _ \<Rightarrow> ck_stage ck = Payment)"

definition press_call :: "checkout \<Rightarrow> checkout_call \<Rightarrow> checkout" where
  "press_call ck c =
     (if can_press ck c
      then ck\<lparr>ck_busy := True, ck_error := [], ck_calls := c # ck_calls ck, ck_log := Sent c # ck_log ck\<rparr>
      else ck)"

definition declined_text :: string where
  "declined_text =
     ''Demo payment declined. No charge was made. Continue to payment to start a new protected attempt.''"

definition accept_call :: "checkout \<Rightarrow> checkout_call \<Rightarrow> checkout" where
  "accept_call ck c =
     (case c of
        Begin_Checkout \<Rightarrow> ck\<lparr>ck_stage := Payment, ck_busy := False\<rparr>
      | Confirm_Checkout \<Rightarrow> ck\<lparr>ck_left := True\<rparr>
      | Fail_Checkout \<Rightarrow> ck\<lparr>ck_stage := Review, ck_error := declined_text, ck_busy := False\<rparr>)"

definition refuse_call :: "checkout \<Rightarrow> string \<Rightarrow> checkout" where
  "refuse_call ck msg = ck\<lparr>ck_error := msg, ck_busy := False\<rparr>"

definition call_answered :: "checkout \<Rightarrow> checkout_call \<Rightarrow> string + json option \<Rightarrow> checkout" where
  "call_answered ck c answer =
     (case answer of
        Inr _ \<Rightarrow> (accept_call ck c)\<lparr>ck_calls := remove1 c (ck_calls ck), ck_log := Accepted c # ck_log ck\<rparr>
      | Inl msg \<Rightarrow> (refuse_call ck msg)\<lparr>ck_calls := remove1 c (ck_calls ck), ck_log := Refused c # ck_log ck\<rparr>)"

inductive checkout_step :: "checkout \<Rightarrow> checkout \<Rightarrow> bool" where
  order_loaded: "checkout_step ck (ck\<lparr>ck_order := Some order\<rparr>)"
| order_failed: "ck_order ck = None \<Longrightarrow> checkout_step ck (ck\<lparr>ck_error := msg\<rparr>)"
| pressed: "can_press ck c \<Longrightarrow> checkout_step ck (press_call ck c)"
| answered: "c \<in> set (ck_calls ck) \<Longrightarrow> checkout_step ck (call_answered ck c answer)"

inductive checkout_reachable :: "checkout \<Rightarrow> bool" where
  at_start: "checkout_reachable initial_checkout"
| one_step: "checkout_reachable ck \<Longrightarrow> checkout_step ck ck' \<Longrightarrow> checkout_reachable ck'"

text \<open>
  What the server was told, read back from the log: the checkout is protected from an accepted
  begin to the next accepted decline.
\<close>

fun protected_by :: "log_entry list \<Rightarrow> bool" where
  "protected_by [] = False"
| "protected_by (Accepted Begin_Checkout # es) = True"
| "protected_by (Accepted Fail_Checkout # es) = False"
| "protected_by (_ # es) = protected_by es"

text \<open>Every confirmation and decline sent was sent for a protected, unconfirmed checkout.\<close>

fun calls_in_order :: "log_entry list \<Rightarrow> bool" where
  "calls_in_order [] = True"
| "calls_in_order (Sent Begin_Checkout # es) = (\<not> protected_by es \<and> Accepted Confirm_Checkout \<notin> set es \<and> calls_in_order es)"
| "calls_in_order (Sent c # es) = (protected_by es \<and> Accepted Confirm_Checkout \<notin> set es \<and> calls_in_order es)"
| "calls_in_order (_ # es) = calls_in_order es"

definition checkout_ok :: "checkout \<Rightarrow> bool" where
  "checkout_ok ck \<longleftrightarrow>
     (ck_stage ck = Payment \<longleftrightarrow> protected_by (ck_log ck)) \<and>
     length (ck_calls ck) \<le> 1 \<and> (ck_calls ck \<noteq> [] \<longrightarrow> ck_busy ck \<and> \<not> ck_left ck) \<and>
     (ck_left ck \<longrightarrow> ck_busy ck) \<and> (Accepted Confirm_Checkout \<in> set (ck_log ck) \<longleftrightarrow> ck_left ck) \<and>
     calls_in_order (ck_log ck)"

lemma checkout_ok_initial: "checkout_ok initial_checkout"
  by (simp add: checkout_ok_def initial_checkout_def)

lemma press_ok: "checkout_ok ck \<Longrightarrow> can_press ck c \<Longrightarrow> checkout_ok (press_call ck c)"
  by (cases c) (auto simp: checkout_ok_def press_call_def can_press_def)

lemma answer_ok:
  assumes ok: "checkout_ok ck" and c: "c \<in> set (ck_calls ck)"
  shows "checkout_ok (call_answered ck c answer)"
proof -
  from ok c have one: "ck_calls ck = [c]" by (cases "ck_calls ck") (auto simp: checkout_ok_def)
  with ok show ?thesis
    by (cases answer; cases c) (auto simp: checkout_ok_def call_answered_def accept_call_def refuse_call_def)
qed

lemma step_ok: "checkout_step ck ck' \<Longrightarrow> checkout_ok ck \<Longrightarrow> checkout_ok ck'"
  by (induction rule: checkout_step.induct) (auto simp: press_ok answer_ok, auto simp: checkout_ok_def)

lemma reachable_ok: "checkout_reachable ck \<Longrightarrow> checkout_ok ck"
  by (induction rule: checkout_reachable.induct) (auto simp: checkout_ok_initial step_ok)

lemma calls_in_order_sent:
  "calls_in_order (newer @ Sent c # older) \<Longrightarrow>
     (protected_by older \<longleftrightarrow> c \<noteq> Begin_Checkout) \<and> Accepted Confirm_Checkout \<notin> set older"
  by (induction newer rule: calls_in_order.induct; cases c) auto

section \<open>The ticket page\<close>

text \<open>For each ticket: the credential and the item shown with it.\<close>

definition ticket_card :: "ticket_result \<Rightarrow> nat \<Rightarrow> demo_ticket \<Rightarrow> demo_ticket \<times> demo_credential option \<times> string" where
  "ticket_card r index ticket =
     (let items = dm_items (tr_order r); creds = tr_credentials r; i = min (int index) (int (length items) - 1)
      in (ticket, if index < length creds then Some (creds ! index) else None,
          if 0 \<le> i then itemName (items ! nat i) else ''Event admission''))"

definition ticket_cards :: "ticket_result \<Rightarrow> (demo_ticket \<times> demo_credential option \<times> string) list" where
  "ticket_cards r = map (\<lambda>(i, t). ticket_card r i t) (enumerate 0 (tr_tickets r))"

section \<open>Properties\<close>

definition demo_one_order :: demo_order where
  "demo_one_order =
     \<lparr>dm_event = \<lparr>de_id = ''evt_1'', de_name = ''Night'', de_state = ''ON_SALE'', de_starts_at = None, de_venue_name = None,
        de_address_text = None, de_starting_price = None\<rparr>,
      dm_hold_expires_at = 600000, dm_server_time = 0, dm_items = [],
      dm_total = \<lparr>dp_amount_minor = 0, dp_currency = ''EUR''\<rparr>\<rparr>"

text \<open>
  C27: the checkout calls the server in order. Whatever is pressed and answered, a confirmation or
  a decline is only ever sent after a begin was accepted that no accepted decline has ended, a
  begin only when there is none, nothing is sent after an accepted confirmation, and at most one
  call is in flight.
\<close>
theorem checkout_calls_server_in_order:
  assumes "checkout_reachable ck" and "ck_log ck = newer @ Sent c # older"
  shows "(protected_by older \<longleftrightarrow> c \<noteq> Begin_Checkout) \<and> Accepted Confirm_Checkout \<notin> set older \<and> length (ck_calls ck) \<le> 1"
  using reachable_ok [OF assms(1)] assms(2) calls_in_order_sent [of newer c older] by (simp add: checkout_ok_def)

definition demo_paying :: checkout where
  "demo_paying = \<lparr>ck_order = Some demo_one_order, ck_stage = Payment, ck_error = [], ck_busy = True,
     ck_calls = [Confirm_Checkout], ck_left = False, ck_log = [Sent Confirm_Checkout, Accepted Begin_Checkout, Sent Begin_Checkout]\<rparr>"

lemma demo_paying_reachable: "checkout_reachable demo_paying"
proof -
  let ?c0 = "initial_checkout\<lparr>ck_order := Some demo_one_order\<rparr>"
  let ?c1 = "press_call ?c0 Begin_Checkout"
  let ?c2 = "call_answered ?c1 Begin_Checkout (Inr None)"
  have "checkout_reachable ?c0" by (rule one_step [OF at_start order_loaded])
  then have "checkout_reachable ?c1" by (rule one_step) (rule pressed, simp add: can_press_def initial_checkout_def)
  then have "checkout_reachable ?c2"
    by (rule one_step) (rule answered, simp add: press_call_def can_press_def initial_checkout_def)
  then have "checkout_reachable (press_call ?c2 Confirm_Checkout)"
    by (rule one_step) (rule pressed, simp add: press_call_def can_press_def call_answered_def accept_call_def initial_checkout_def)
  also have "press_call ?c2 Confirm_Checkout = demo_paying"
    by (simp add: press_call_def can_press_def call_answered_def accept_call_def initial_checkout_def demo_paying_def)
  finally show ?thesis .
qed

theorem checkout_calls_server_in_order_witness:
  "protected_by [Accepted Begin_Checkout, Sent Begin_Checkout]"
  using checkout_calls_server_in_order [OF demo_paying_reachable, of "[]" Confirm_Checkout] by (simp add: demo_paying_def)

text \<open>The page belongs to a connected partner, outside the two set-up pages.\<close>

lemma storefront_needs_connection:
  assumes "demo_page_of app path \<in> {Checkout_Page n, Ticket_Page n, Event_Page e n, Events_Page n}"
  shows "\<exists>c. da_active app = Some c \<and> dc_name c = n \<and> \<not> setup_route path"
  using assms by (auto simp: demo_page_of_def split: if_splits option.splits)

text \<open>
  The ticket page pairs the tickets with the lines of the order by position, so a line for two
  general admission tickets moves every later ticket to the wrong line.
\<close>

lemma second_ticket_mislabelled:
  assumes "tr_tickets r = [t, t', t'']" "dm_items (tr_order r) = [ga, seat]"
  shows "map (\<lambda>(_, _, name). name) (ticket_cards r) = [itemName ga, itemName seat, itemName seat]"
  using assms by (simp add: ticket_cards_def ticket_card_def Let_def)

end
