(* ===== verification/Storefront_Server.thy ===== *)
theory Storefront_Server
  imports Storefront_Web Partner_Demo "HOL-Library.AList"
begin

text \<open>
  The sample storefront's server (\<^verbatim>\<open>partner-demo-web/server.mjs\<close>): the buyer's connections and
  checkout are sealed in two cookies, and every route asks the partner API on the buyer's behalf.

  A handler is an interaction tree: it answers, throws, or sends a batch of concurrent requests
  and goes on with their answers, each stamped with the time of its arrival. The cipher and the
  parser of what it holds are the parameter \<open>sealing\<close>; fresh identifiers, the clock and
  \<open>String(value)\<close> come with the environment.
\<close>

section \<open>Configuration\<close>

record storefront =
  sf_apiBase :: string
  sf_apiConfigured :: bool
  sf_publicURL :: string
  sf_returnURL :: string
  sf_credential :: string
  sf_secret :: string
  sf_scannerURL :: string
  sf_reviewerURL :: string

fun env_first :: "(string \<rightharpoonup> string) \<Rightarrow> string list \<Rightarrow> string \<Rightarrow> string" where
  "env_first env [] d = d"
| "env_first env (n # ns) d = or_else (nullish (env n) []) (env_first env ns d)"

definition cut_slash :: "string \<Rightarrow> string" where
  "cut_slash s = (if final_slash s then butlast s else s)"

text \<open>\<open>number_text\<close> is the text of \<open>Number(value)\<close>.\<close>

definition read_config :: "(string \<Rightarrow> string) \<Rightarrow> (string \<rightharpoonup> string) \<Rightarrow> storefront" where
  "read_config number_text env =
     (let port = number_text (env_first env [''PORT''] ''8080'');
          configured = env_first env [''API_PUBLIC_URL'', ''VITE_API_BASE_URL''] [];
          vercel = env_first env [''VERCEL_PROJECT_PRODUCTION_URL'', ''VERCEL_URL''] [];
          public = cut_slash (env_first env [''PARTNER_DEMO_PUBLIC_URL'']
                     (if vercel \<noteq> [] then ''https://'' @ vercel else ''http://localhost:'' @ port))
      in \<lparr>sf_apiBase = cut_slash (or_else configured ''http://localhost:58480''), sf_apiConfigured = (configured \<noteq> []),
          sf_publicURL = public, sf_returnURL = env_first env [''PARTNER_DEMO_RETURN_URL''] (public @ ''/checkout/return''),
          sf_credential = env_first env [''PARTNER_DEMO_CREDENTIAL''] [],
          sf_secret = env_first env [''PARTNER_DEMO_SESSION_SECRET''] [],
          sf_scannerURL = env_first env [''SCANNER_PUBLIC_URL''] ''http://localhost:54472'',
          sf_reviewerURL = env_first env [''REVIEWER_PUBLIC_URL''] ''http://localhost:54475''\<rparr>)"

section \<open>Errors\<close>

record server_error =
  fe_message :: string
  fe_status :: "nat option"

definition plain_error :: "string \<Rightarrow> server_error" where
  "plain_error msg = \<lparr>fe_message = msg, fe_status = None\<rparr>"

definition not_configured :: server_error where
  "not_configured = plain_error ''DEMO_NOT_CONFIGURED''"

definition type_error :: server_error where
  "type_error = plain_error ''TypeError''"

record friendly =
  fr_status :: nat
  fr_code :: string
  fr_message :: string

definition friendlyError :: "server_error \<Rightarrow> friendly" where
  "friendlyError e =
     (let code = fe_message e in
      if code \<in> set [''HOLD_EXPIRED'', ''RESERVATION_EXPIRED''] then
        \<lparr>fr_status = 409, fr_code = ''expired'', fr_message = ''This ticket hold has expired. Please choose tickets again.''\<rparr>
      else if code \<in> set [''INVENTORY_UNAVAILABLE'', ''INSUFFICIENT_GA_QUANTITY''] then
        \<lparr>fr_status = 409, fr_code = ''unavailable'', fr_message = ''One of these tickets is no longer available. Please choose again.''\<rparr>
      else if code = ''EVENT_NOT_ON_SALE'' then
        \<lparr>fr_status = 409, fr_code = ''sales-closed'', fr_message = ''Ticket sales are not open for this Event.''\<rparr>
      else if code = ''DEMO_NOT_CONFIGURED'' then
        \<lparr>fr_status = 503, fr_code = ''configuration'', fr_message = ''The demonstration connection is not configured yet.''\<rparr>
      else if code = ''ALREADY_CONFIRMED'' then
        \<lparr>fr_status = 409, fr_code = ''completed'', fr_message = ''This checkout has already been completed.''\<rparr>
      else
        \<lparr>fr_status = 503, fr_code = ''temporary'', fr_message = ''The ticket service is temporarily unavailable. Please try again.''\<rparr>)"

definition connectionIssue :: "server_error \<Rightarrow> string" where
  "connectionIssue e =
     (if fe_status e = Some 401 \<or> fe_status e = Some 403 then ''invalid''
      else if fe_message e \<in> set [''DEMO_NOT_CONFIGURED'', ''PARTNER_API_MISCONFIGURED''] then ''configuration''
      else ''unavailable'')"

section \<open>Responses\<close>

datatype response_body = Json_Body json | File_Body string | No_Body

record web_response =
  wr_status :: nat
  wr_headers :: "string \<rightharpoonup> string"
  wr_body :: response_body

definition json_response :: "nat \<Rightarrow> json \<Rightarrow> (string \<times> string) list \<Rightarrow> web_response" where
  "json_response status body extra =
     \<lparr>wr_status = status, wr_headers = response_headers (rev ((''content-type'', ''application/json; charset=utf-8'') # extra)),
      wr_body = Json_Body body\<rparr>"

definition redirect :: "string \<Rightarrow> string option \<Rightarrow> web_response" where
  "redirect target cookie =
     \<lparr>wr_status = 303,
      wr_headers = response_headers ((''location'', target) # (case cookie of None \<Rightarrow> [] | Some c \<Rightarrow> [(''set-cookie'', c)])),
      wr_body = No_Body\<rparr>"

definition error_response :: "nat \<Rightarrow> string \<Rightarrow> string \<Rightarrow> web_response" where
  "error_response status code msg =
     json_response status (JObj [(''error'', JObj [(''code'', JStr code), (''message'', JStr msg)])]) []"

definition sendError :: "server_error \<Rightarrow> web_response" where
  "sendError e =
     (let safe = friendlyError e in
      json_response (fr_status safe)
        (JObj [(''error'', JObj [(''status'', j_int (int (fr_status safe))), (''code'', JStr (fr_code safe)),
                                 (''message'', JStr (fr_message safe))])]) [])"

section \<open>Handlers\<close>

record upstream =
  up_method :: string
  up_url :: string
  up_headers :: "(string \<times> string) list"
  up_body :: "json option"

datatype upstream_answer = Fetch_Failed string | Answered_With nat "json option"

type_synonym arrival = "nat \<times> upstream_answer"

datatype 'a act = Return 'a | Throw server_error | Ask "upstream list" "arrival list \<Rightarrow> 'a act"

primrec bind_act :: "'a act \<Rightarrow> ('a \<Rightarrow> 'b act) \<Rightarrow> 'b act" where
  "bind_act (Return x) f = f x"
| "bind_act (Throw e) f = Throw e"
| "bind_act (Ask rs k) f = Ask rs (\<lambda>xs. bind_act (k xs) f)"

primrec catch_act :: "'a act \<Rightarrow> (server_error \<Rightarrow> 'a act) \<Rightarrow> 'a act" where
  "catch_act (Return x) h = Return x"
| "catch_act (Throw e) h = h e"
| "catch_act (Ask rs k) h = Ask rs (\<lambda>xs. catch_act (k xs) h)"

definition of_result :: "server_error + 'a \<Rightarrow> 'a act" where
  "of_result r = (case r of Inl e \<Rightarrow> Throw e | Inr x \<Rightarrow> Return x)"

definition of_option :: "server_error \<Rightarrow> 'a option \<Rightarrow> 'a act" where
  "of_option e v = (case v of None \<Rightarrow> Throw e | Some x \<Rightarrow> Return x)"

text \<open>\<open>Promise.all\<close>: all values in order, or the rejection that arrived first.\<close>

definition settle_all :: "(nat \<times> (server_error + 'a)) list \<Rightarrow> server_error + 'a list" where
  "settle_all xs =
     (case filter (isl \<circ> snd) (sort_key fst xs) of
        [] \<Rightarrow> Inr (map (projr \<circ> snd) xs)
      | x # _ \<Rightarrow> Inl (projl (snd x)))"

section \<open>Reading JSON\<close>

fun json_truthy :: "json option \<Rightarrow> bool" where
  "json_truthy None = False"
| "json_truthy (Some JNull) = False"
| "json_truthy (Some (JBool b)) = b"
| "json_truthy (Some (JNum r)) = (r \<noteq> 0)"
| "json_truthy (Some (JStr s)) = (s \<noteq> [])"
| "json_truthy (Some v) = True"

text \<open>\<open>v.field\<close>, which throws on \<open>null\<close> and \<open>undefined\<close>: \<^const>\<open>None\<close> is the exception.\<close>

definition js_dot :: "string \<Rightarrow> json option \<Rightarrow> json option option" where
  "js_dot field v = (if v = None \<or> v = Some JNull then None else Some (js_get field v))"

text \<open>\<open>v.map\<close>, and \<open>(v || []).map\<close>: the elements, or the exception where \<open>v\<close> is no array.\<close>

definition js_array :: "json option \<Rightarrow> json list option" where
  "js_array v = (case v of Some (JArr xs) \<Rightarrow> Some xs | _ \<Rightarrow> None)"

definition js_array_or_empty :: "json option \<Rightarrow> json list option" where
  "js_array_or_empty v = (if json_truthy v then js_array v else Some [])"

text \<open>\<open>{...v, field: x}\<close>\<close>

definition spread :: "json option \<Rightarrow> (string \<times> json) list" where
  "spread v = (case v of Some (JObj kvs) \<Rightarrow> kvs | _ \<Rightarrow> [])"

definition spread_with :: "json option \<Rightarrow> (string \<times> json) list \<Rightarrow> json" where
  "spread_with v kvs = JObj (foldl (\<lambda>m (k, x). AList.update k x m) (spread v) kvs)"

definition text_of :: "json option \<Rightarrow> string" where
  "text_of v = (case v of Some (JStr s) \<Rightarrow> s | _ \<Rightarrow> [])"

definition uri_text :: "(json \<Rightarrow> string) \<Rightarrow> json option \<Rightarrow> string" where
  "uri_text to_text v =
     encodeURIComponent (case v of None \<Rightarrow> ''undefined'' | Some (JStr s) \<Rightarrow> s | Some j \<Rightarrow> to_text j)"

text \<open>\<open>s.slice(0, n)\<close> in UTF-16 units; a pair that does not fit is left out.\<close>

fun js_take :: "nat \<Rightarrow> string \<Rightarrow> string" where
  "js_take n [] = []"
| "js_take n (c # s) = (if utf16_units c \<le> n then c # js_take (n - utf16_units c) s else [])"

section \<open>The environment and the partner API\<close>

record sealing =
  bx_digest :: "string \<Rightarrow> string"
  bx_seal :: "string \<Rightarrow> string \<Rightarrow> json \<Rightarrow> string"  \<comment> \<open>key, fresh bytes, value\<close>
  bx_open :: "string \<Rightarrow> string \<Rightarrow> json option"

record server_env =
  sx_cfg :: storefront
  sx_box :: sealing
  sx_text :: "json \<Rightarrow> string"
  sx_now :: int
  sx_uuid :: "nat \<Rightarrow> string"
  sx_iv :: string

record partner_options =
  po_method :: string
  po_idempotency :: string
  po_token :: string
  po_body :: "json option"

definition get_options :: partner_options where
  "get_options = \<lparr>po_method = ''GET'', po_idempotency = [], po_token = [], po_body = None\<rparr>"

definition partner_request :: "storefront \<Rightarrow> string \<Rightarrow> partner_options \<Rightarrow> string \<Rightarrow> upstream option" where
  "partner_request cfg path opts credential =
     (if credential = [] then None
      else Some
        \<lparr>up_method = po_method opts, up_url = sf_apiBase cfg @ path,
         up_headers =
           [(''authorization'', ''Bearer '' @ credential), (''accept'', ''application/json'')] @
           (if po_body opts \<noteq> None then [(''content-type'', ''application/json'')] else []) @
           (if po_idempotency opts \<noteq> [] then [(''idempotency-key'', po_idempotency opts)] else []) @
           (if po_token opts \<noteq> [] then [(''x-tktsync-reservation-token'', po_token opts)] else []),
         up_body = po_body opts\<rparr>)"

definition partner_result :: "(json \<Rightarrow> string) \<Rightarrow> upstream_answer \<Rightarrow> server_error + json" where
  "partner_result to_text answer =
     (case answer of
        Fetch_Failed msg \<Rightarrow> Inl (plain_error msg)
      | Answered_With status content \<Rightarrow>
          (let data = nullish content (JObj []) in
           if 200 \<le> status \<and> status < 300 then Inr data
           else let code = js_get ''code'' (js_get ''error'' (Some data)) in
             Inl \<lparr>fe_message = (if json_truthy code then (case code of Some (JStr s) \<Rightarrow> s | _ \<Rightarrow> to_text (the code))
                                else ''UPSTREAM_UNAVAILABLE''),
                  fe_status = Some status\<rparr>))"

definition the_answer :: "arrival list \<Rightarrow> upstream_answer" where
  "the_answer xs = (case xs of [] \<Rightarrow> Fetch_Failed [] | x # _ \<Rightarrow> snd x)"

definition partner :: "server_env \<Rightarrow> string \<Rightarrow> partner_options \<Rightarrow> string \<Rightarrow> json act" where
  "partner env path opts credential =
     (case partner_request (sx_cfg env) path opts credential of
        None \<Rightarrow> Throw not_configured
      | Some rq \<Rightarrow> Ask [rq] (\<lambda>xs. of_result (partner_result (sx_text env) (the_answer xs))))"

text \<open>Concurrent calls of one credential.\<close>

definition partner_all :: "server_env \<Rightarrow> string list \<Rightarrow> string \<Rightarrow> ((nat \<times> (server_error + json)) list \<Rightarrow> 'a act) \<Rightarrow> 'a act" where
  "partner_all env paths credential k =
     (if credential = [] then k (map (\<lambda>_. (0, Inl not_configured)) paths)
      else Ask (List.map_filter (\<lambda>p. partner_request (sx_cfg env) p get_options credential) paths)
             (\<lambda>xs. k (map (\<lambda>i. if i < length xs then map_prod id (partner_result (sx_text env)) (xs ! i)
                                else (0, Inl (plain_error []))) [0 ..< length paths])))"

section \<open>Sealed cookies\<close>

definition encryptionKey :: "sealing \<Rightarrow> storefront \<Rightarrow> string option" where
  "encryptionKey bx cfg =
     (let secret = or_else (sf_secret cfg) (if prefix ''https:'' (sf_publicURL cfg) then [] else ''northstar-local-review'')
      in if secret = [] then None else Some (bx_digest bx secret))"

definition seal :: "server_env \<Rightarrow> json \<Rightarrow> string option" where
  "seal env v = map_option (\<lambda>key. bx_seal (sx_box env) key (sx_iv env) v) (encryptionKey (sx_box env) (sx_cfg env))"

definition unseal :: "server_env \<Rightarrow> string \<Rightarrow> json option" where
  "unseal env text = Option.bind (encryptionKey (sx_box env) (sx_cfg env)) (\<lambda>key. bx_open (sx_box env) key text)"

record saved_connection =
  sn_id :: string
  sn_name :: string
  sn_credential :: string

record saved_connections =
  sd_active :: string
  sd_items :: "saved_connection list"

definition connection_json :: "saved_connection \<Rightarrow> json" where
  "connection_json c = JObj [(''id'', JStr (sn_id c)), (''name'', JStr (sn_name c)), (''credential'', JStr (sn_credential c))]"

definition saved_json :: "saved_connections \<Rightarrow> json" where
  "saved_json sd = JObj [(''activeId'', JStr (sd_active sd)), (''items'', JArr (map connection_json (sd_items sd)))]"

definition read_connection :: "json \<Rightarrow> saved_connection" where
  "read_connection v =
     \<lparr>sn_id = text_of (js_get ''id'' (Some v)), sn_name = text_of (js_get ''name'' (Some v)),
      sn_credential = text_of (js_get ''credential'' (Some v))\<rparr>"

definition read_saved :: "json option \<Rightarrow> saved_connections" where
  "read_saved v =
     (case js_array (js_get ''items'' v) of
        Some items \<Rightarrow> \<lparr>sd_active = text_of (js_get ''activeId'' v), sd_items = map read_connection items\<rparr>
      | None \<Rightarrow> \<lparr>sd_active = [], sd_items = []\<rparr>)"

definition savedConnections :: "server_env \<Rightarrow> string option \<Rightarrow> saved_connections" where
  "savedConnections env header = read_saved (unseal env (cookie_value header ''northstar_connections''))"

definition connectionCookie :: "server_env \<Rightarrow> saved_connections \<Rightarrow> string option" where
  "connectionCookie env sd =
     map_option (\<lambda>sealed. ''northstar_connections='' @ sealed @ ''; Path=/; HttpOnly; Max-Age=2592000'' @
        (if prefix ''https:'' (sf_publicURL (sx_cfg env)) then ''; Secure; SameSite=None'' else ''; SameSite=Lax''))
       (seal env (saved_json sd))"

definition activeConnection :: "server_env \<Rightarrow> string option \<Rightarrow> saved_connection option" where
  "activeConnection env header =
     (let sd = savedConnections env header in
      case (case find (\<lambda>c. sn_id c = sd_active sd) (sd_items sd) of Some c \<Rightarrow> Some c
            | None \<Rightarrow> (case sd_items sd of [] \<Rightarrow> None | c # _ \<Rightarrow> Some c)) of
        Some c \<Rightarrow> Some c
      | None \<Rightarrow> if sf_credential (sx_cfg env) \<noteq> [] then
                 Some \<lparr>sn_id = ''deployment'', sn_name = ''Demo Partner'', sn_credential = sf_credential (sx_cfg env)\<rparr>
               else None)"

text \<open>The buyer's checkout. The identifiers of the event and of the attempt are what the API answered.\<close>

record buyer_session =
  bs_id :: string
  bs_createdAt :: rat
  bs_event :: "json option"
  bs_reservation :: string
  bs_token :: string
  bs_credential :: string
  bs_beginKey :: string
  bs_failureKey :: string
  bs_confirmKey :: string
  bs_attempt :: "json option"
  bs_confirmed :: bool

definition session_json :: "buyer_session \<Rightarrow> json" where
  "session_json b =
     JObj ([(''id'', JStr (bs_id b)), (''createdAt'', JNum (bs_createdAt b))] @ j_opt ''eventId'' (bs_event b) @
       [(''reservationId'', JStr (bs_reservation b)), (''reservationToken'', JStr (bs_token b)),
        (''credential'', JStr (bs_credential b)), (''beginKey'', JStr (bs_beginKey b)),
        (''failureKey'', JStr (bs_failureKey b)), (''confirmKey'', JStr (bs_confirmKey b))] @
       j_opt ''checkoutAttemptId'' (bs_attempt b) @ (if bs_confirmed b then [(''confirmed'', JBool True)] else []))"

definition session_ttl :: int where
  "session_ttl = 30 * 60 * 1000"

definition read_session :: "int \<Rightarrow> json option \<Rightarrow> buyer_session option" where
  "read_session now v =
     (case js_get ''createdAt'' v of
        Some (JNum r) \<Rightarrow>
          if of_int now - r \<le> of_int session_ttl then
            Some \<lparr>bs_id = text_of (js_get ''id'' v), bs_createdAt = r, bs_event = js_get ''eventId'' v,
                  bs_reservation = text_of (js_get ''reservationId'' v), bs_token = text_of (js_get ''reservationToken'' v),
                  bs_credential = text_of (js_get ''credential'' v), bs_beginKey = text_of (js_get ''beginKey'' v),
                  bs_failureKey = text_of (js_get ''failureKey'' v), bs_confirmKey = text_of (js_get ''confirmKey'' v),
                  bs_attempt = js_get ''checkoutAttemptId'' v, bs_confirmed = json_truthy (js_get ''confirmed'' v)\<rparr>
          else None
      | _ \<Rightarrow> None)"

definition currentSession :: "server_env \<Rightarrow> string option \<Rightarrow> buyer_session option" where
  "currentSession env header = read_session (sx_now env) (unseal env (cookie_value header ''northstar_checkout''))"

definition cookieFor :: "server_env \<Rightarrow> buyer_session \<Rightarrow> string option" where
  "cookieFor env b =
     map_option (\<lambda>sealed. ''northstar_checkout='' @ sealed @ ''; Path=/; HttpOnly; SameSite=Lax; Max-Age=1800'' @
        (if prefix ''https:'' (sf_publicURL (sx_cfg env)) then ''; Secure'' else []))
       (seal env (session_json b))"

end
