(* ===== verification/Storefront_Routes.thy ===== *)
theory Storefront_Routes
  imports Storefront_Server
begin

text \<open>
  The routes of the sample storefront's server: the connections of a visitor, the events, the
  selection, the checkout of the buyer, the ticket, and the hand-off that the selector posts.
  \<open>listener\<close> is the entry point; a handler that throws there ends in a rejected promise.
\<close>

section \<open>Events\<close>

text \<open>The prices of the offers, or the exception.\<close>

definition reserved_price :: "json \<Rightarrow> json option list option" where
  "reserved_price item =
     (case js_dot ''offer'' (Some item) of
        None \<Rightarrow> None
      | Some offer \<Rightarrow> Some (if json_truthy offer then [js_get ''price'' offer] else []))"

definition pool_prices :: "json \<Rightarrow> json option list option" where
  "pool_prices pool =
     Option.bind (js_dot ''offers'' (Some pool)) (\<lambda>offers.
     Option.bind (js_array_or_empty offers) (\<lambda>xs. those (map (\<lambda>offer. js_dot ''price'' (Some offer)) xs)))"

definition offer_prices :: "json \<Rightarrow> json list option" where
  "offer_prices availability =
     Option.bind (js_dot ''reserved_units'' (Some availability)) (\<lambda>units.
     Option.bind (js_array_or_empty units) (\<lambda>us.
     Option.bind (those (map reserved_price us)) (\<lambda>reserved.
     Option.bind (js_array_or_empty (js_get ''ga_pools'' (Some availability))) (\<lambda>pools.
     Option.bind (those (map pool_prices pools)) (\<lambda>ga.
     Some (map the (filter json_truthy (concat reserved @ concat ga))))))))"

definition amount_of :: "json \<Rightarrow> rat" where
  "amount_of price = (case js_get ''amount_minor'' (Some price) of Some (JNum r) \<Rightarrow> r | _ \<Rightarrow> 0)"

definition starting_price :: "server_error + json \<Rightarrow> json" where
  "starting_price availability =
     (case availability of
        Inl _ \<Rightarrow> JNull
      | Inr data \<Rightarrow> (case offer_prices data of
                      None \<Rightarrow> JNull
                    | Some prices \<Rightarrow> (case sort_key amount_of prices of [] \<Rightarrow> JNull | p # _ \<Rightarrow> p)))"

definition with_price :: "json \<Rightarrow> server_error + json \<Rightarrow> json" where
  "with_price event availability = spread_with (Some event) [(''starting_price'', starting_price availability)]"

definition availability_path :: "server_env \<Rightarrow> json \<Rightarrow> string" where
  "availability_path env event = ''/api/v1/partner/events/'' @ uri_text (sx_text env) (js_get ''id'' (Some event)) @ ''/availability''"

text \<open>The answers in the order of the events; on \<open>null\<close> nothing is asked and there is no price.\<close>

fun price_events :: "json list \<Rightarrow> (server_error + json) list \<Rightarrow> json list" where
  "price_events [] xs = []"
| "price_events (e # es) xs =
     (if e = JNull then with_price e (Inl type_error) # price_events es xs
      else case xs of
          [] \<Rightarrow> with_price e (Inl type_error) # price_events es []
        | x # rest \<Rightarrow> with_price e x # price_events es rest)"

text \<open>\<open>Promise.all(events.map((event) => eventWithPrice(event, credential)))\<close>\<close>

definition events_with_prices :: "server_env \<Rightarrow> json list \<Rightarrow> string \<Rightarrow> json list act" where
  "events_with_prices env events credential =
     partner_all env (map (availability_path env) (filter (\<lambda>e. e \<noteq> JNull) events)) credential
       (\<lambda>xs. Return (price_events events (map snd xs)))"

definition route_events :: "server_env \<Rightarrow> saved_connection \<Rightarrow> web_response act" where
  "route_events env c =
     bind_act (partner env ''/api/v1/partner/events'' get_options (sn_credential c)) (\<lambda>result.
     bind_act (of_option type_error (Option.bind (js_dot ''items'' (Some result)) js_array)) (\<lambda>events.
     bind_act (events_with_prices env events (sn_credential c)) (\<lambda>items.
     Return (json_response 200
       (spread_with (Some result)
         [(''items'', JArr items), (''connection'', JObj [(''id'', JStr (sn_id c)), (''name'', JStr (sn_name c))])]) []))))"

definition event_path :: "server_env \<Rightarrow> string \<Rightarrow> string" where
  "event_path env i = ''/api/v1/partner/events/'' @ encodeURIComponent i"

definition route_event :: "server_env \<Rightarrow> saved_connection \<Rightarrow> string \<Rightarrow> web_response act" where
  "route_event env c i =
     bind_act (partner env (event_path env i) get_options (sn_credential c)) (\<lambda>event.
     bind_act (events_with_prices env [event] (sn_credential c)) (\<lambda>items.
     Return (json_response 200 (hd items) [])))"

definition route_selection :: "server_env \<Rightarrow> saved_connection \<Rightarrow> string \<Rightarrow> web_response act" where
  "route_selection env c i =
     bind_act
       (partner env ''/api/v1/partner/selection-sessions''
         \<lparr>po_method = ''POST'', po_idempotency = sx_uuid env 0, po_token = [],
          po_body = Some (JObj [(''event_id'', JStr i), (''buyer_session_ref'', JStr (''northstar-'' @ sx_uuid env 1)),
                                (''return_url'', JStr (sf_returnURL (sx_cfg env)))])\<rparr>
         (sn_credential c))
       (\<lambda>created. Return (json_response 201 created []))"

section \<open>Connections\<close>

definition route_config :: "server_env \<Rightarrow> web_response" where
  "route_config env =
     (let cfg = sx_cfg env in
      json_response 200
        (JObj [(''scanner_url'', JStr (sf_scannerURL cfg)), (''reviewer_url'', JStr (sf_reviewerURL cfg)),
               (''return_url'', JStr (sf_returnURL cfg)), (''api_configured'', JBool (sf_apiConfigured cfg)),
               (''session_configured'', JBool (sf_secret cfg \<noteq> []))]) [])"

definition listed_connection :: "string \<Rightarrow> string \<Rightarrow> bool \<Rightarrow> json" where
  "listed_connection i n active = JObj [(''id'', JStr i), (''name'', JStr n), (''active'', JBool active)]"

definition route_connections :: "server_env \<Rightarrow> string option \<Rightarrow> web_response" where
  "route_connections env header =
     (let sd = savedConnections env header;
          items = map (\<lambda>c. listed_connection (sn_id c) (sn_name c) (sn_id c = sd_active sd)) (sd_items sd)
      in json_response 200
           (JObj [(''items'', JArr (if items = [] \<and> sf_credential (sx_cfg env) \<noteq> []
                                  then [listed_connection ''deployment'' ''Demo Partner'' True] else items))]) [])"

definition validatePartnerCredential :: "server_env \<Rightarrow> string \<Rightarrow> unit act" where
  "validatePartnerCredential env credential =
     bind_act (partner env ''/api/v1/partner/events'' get_options credential) (\<lambda>result.
       if \<not> json_truthy (Some result) \<or> js_array (js_get ''items'' (Some result)) = None
       then Throw \<lparr>fe_message = ''PARTNER_API_MISCONFIGURED'', fe_status = Some 502\<rparr> else Return ())"

definition add_connection :: "string \<Rightarrow> string \<Rightarrow> string \<Rightarrow> saved_connections \<Rightarrow> saved_connections" where
  "add_connection i n credential sd =
     \<lparr>sd_active = i,
      sd_items = drop (length (sd_items sd) - 2) (sd_items sd) @ [\<lparr>sn_id = i, sn_name = n, sn_credential = credential\<rparr>]\<rparr>"

definition redirect_sealed :: "string \<Rightarrow> string option \<Rightarrow> web_response act" where
  "redirect_sealed target cookie = bind_act (of_option not_configured cookie) (\<lambda>c. Return (redirect target (Some c)))"

definition route_add_connection :: "server_env \<Rightarrow> string option \<Rightarrow> string list \<Rightarrow> web_response act" where
  "route_add_connection env header chunks =
     bind_act (of_option (plain_error ''REQUEST_TOO_LARGE'') (read_body chunks)) (\<lambda>content.
       let form = parse_form content; name = js_take 80 (trim (form_get form ''name''));
           credential = trim (form_get form ''credential'')
       in if name = [] \<or> credential = [] then Return (redirect ''/?connection=missing'' None)
          else
            bind_act
              (catch_act
                (bind_act (of_option not_configured (encryptionKey (sx_box env) (sx_cfg env)))
                   (\<lambda>_. bind_act (validatePartnerCredential env credential) (\<lambda>_. Return None)))
                (\<lambda>e. Return (Some (redirect (''/?connection='' @ connectionIssue e) None))))
              (\<lambda>refused. case refused of
                 Some r \<Rightarrow> Return r
               | None \<Rightarrow>
                   redirect_sealed ''/events?connection=added''
                     (connectionCookie env (add_connection (sx_uuid env 0) name credential (savedConnections env header)))))"

datatype connection_change = Activate | Remove

definition change_connection :: "connection_change \<Rightarrow> string \<Rightarrow> saved_connections \<Rightarrow> saved_connections" where
  "change_connection change i sd =
     (let changed = (case change of
            Remove \<Rightarrow> sd\<lparr>sd_items := filter (\<lambda>c. sn_id c \<noteq> i) (sd_items sd)\<rparr>
          | Activate \<Rightarrow> if i \<in> sn_id ` set (sd_items sd) then sd\<lparr>sd_active := i\<rparr> else sd)
      in if sd_active changed \<in> sn_id ` set (sd_items changed) then changed
         else changed\<lparr>sd_active := (case sd_items changed of [] \<Rightarrow> [] | c # _ \<Rightarrow> sn_id c)\<rparr>)"

definition route_change_connection :: "server_env \<Rightarrow> string option \<Rightarrow> string \<Rightarrow> connection_change \<Rightarrow> web_response act" where
  "route_change_connection env header i change =
     redirect_sealed (if change = Remove then ''/connections'' else ''/events'')
       (connectionCookie env (change_connection change i (savedConnections env header)))"

section \<open>The order\<close>

definition layout_entry :: "(string \<times> string) list \<Rightarrow> json \<Rightarrow> (json option \<times> json) option" where
  "layout_entry shown item =
     (if item = JNull then None
      else Some (js_get ''inventory_id'' (Some item),
                 JObj (concat (map (\<lambda>(field, from). j_opt field (js_get from (Some item))) shown))))"

definition seat_fields :: "(string \<times> string) list" where
  "seat_fields = [(''section'', ''section_name''), (''row'', ''row''), (''seat'', ''seat''), (''table'', ''table''), (''label'', ''display_label'')]"

definition pool_fields :: "(string \<times> string) list" where
  "pool_fields = [(''section'', ''section_name''), (''label'', ''name'')]"

text \<open>The displays by inventory, the latest entry first.\<close>

definition inventory_displays :: "json \<Rightarrow> (json option \<times> json) list option" where
  "inventory_displays layout =
     Option.bind (js_dot ''reserved_units'' (Some layout)) (\<lambda>units.
     Option.bind (js_array_or_empty units) (\<lambda>us.
     Option.bind (those (map (layout_entry seat_fields) us)) (\<lambda>seats.
     Option.bind (js_array_or_empty (js_get ''ga_pools'' (Some layout))) (\<lambda>pools.
     Option.bind (those (map (layout_entry pool_fields) pools)) (\<lambda>ga. Some (rev (seats @ ga)))))))"

definition order_item :: "(json option \<times> json) list \<Rightarrow> json \<Rightarrow> json option" where
  "order_item displays item =
     map_option (\<lambda>i. spread_with (Some item) [(''display'', nullish (map_of displays i) (JObj []))])
       (js_dot ''inventory_id'' (Some item))"

definition order_json :: "json \<Rightarrow> json \<Rightarrow> json \<Rightarrow> (string \<times> json) list option" where
  "order_json reservation event layout =
     Option.bind (inventory_displays layout) (\<lambda>displays.
     Option.bind (js_dot ''items'' (Some reservation)) (\<lambda>items.
     Option.bind (js_array items) (\<lambda>xs.
     Option.bind (those (map (order_item displays) xs)) (\<lambda>shown.
     Some [(''reservation'', spread_with (Some reservation) [(''items'', JArr shown)]), (''event'', event)]))))"

definition reservation_path :: "buyer_session \<Rightarrow> string" where
  "reservation_path b = ''/api/v1/partner/reservations/'' @ encodeURIComponent (bs_reservation b)"

definition session_event_path :: "server_env \<Rightarrow> buyer_session \<Rightarrow> string" where
  "session_event_path env b = ''/api/v1/partner/events/'' @ uri_text (sx_text env) (bs_event b)"

definition empty_layout :: json where
  "empty_layout = JObj [(''reserved_units'', JArr []), (''ga_pools'', JArr [])]"

definition caught :: "nat \<times> (server_error + json) \<Rightarrow> json \<Rightarrow> nat \<times> (server_error + json)" where
  "caught x d = (fst x, case snd x of Inl _ \<Rightarrow> Inr d | Inr v \<Rightarrow> Inr v)"

definition orderView :: "server_env \<Rightarrow> buyer_session \<Rightarrow> (string \<times> json) list act" where
  "orderView env b =
     partner_all env [reservation_path b, session_event_path env b, session_event_path env b @ ''/layout''] (bs_credential b)
       (\<lambda>xs. bind_act (of_result (settle_all [xs ! 0, xs ! 1, caught (xs ! 2) empty_layout]))
         (\<lambda>vs. of_option type_error (order_json (vs ! 0) (vs ! 1) (vs ! 2))))"

section \<open>The checkout\<close>

text \<open>Each step of the checkout yields the API's result and the session to seal.\<close>

definition set_checkout :: "server_env \<Rightarrow> json \<times> buyer_session \<Rightarrow> web_response act" where
  "set_checkout env = (\<lambda>(result, b).
     bind_act (of_option not_configured (cookieFor env b)) (\<lambda>c. Return (json_response 200 result [(''set-cookie'', c)])))"

definition route_checkout :: "server_env \<Rightarrow> buyer_session option \<Rightarrow> web_response act" where
  "route_checkout env session =
     (case session of
        None \<Rightarrow> Return (error_response 410 ''missing'' ''This checkout session is no longer available. Please choose tickets again.'')
      | Some b \<Rightarrow> bind_act (orderView env b) (\<lambda>kvs. Return (json_response 200 (JObj kvs) [])))"

definition begin_options :: "buyer_session \<Rightarrow> partner_options" where
  "begin_options b = \<lparr>po_method = ''POST'', po_idempotency = bs_beginKey b, po_token = bs_token b, po_body = Some (JObj [])\<rparr>"

definition begun :: "json \<Rightarrow> buyer_session \<Rightarrow> buyer_session option" where
  "begun result b =
     Option.bind (js_dot ''checkout_attempt'' (Some result)) (\<lambda>attempt.
     map_option (\<lambda>i. b\<lparr>bs_attempt := i\<rparr>) (js_dot ''id'' attempt))"

definition begin_checkout :: "server_env \<Rightarrow> buyer_session \<Rightarrow> (json \<times> buyer_session) act" where
  "begin_checkout env b =
     bind_act (partner env (reservation_path b @ ''/checkout'') (begin_options b) (bs_credential b)) (\<lambda>result.
       of_option type_error (map_option (Pair result) (begun result b)))"

definition route_begin :: "server_env \<Rightarrow> buyer_session option \<Rightarrow> web_response act" where
  "route_begin env session =
     (case session of
        None \<Rightarrow> Return (error_response 410 ''missing'' ''This checkout session has expired.'')
      | Some b \<Rightarrow> bind_act (begin_checkout env b) (set_checkout env))"

definition not_started :: web_response where
  "not_started = error_response 409 ''not-started'' ''Start the payment step first.''"

definition failure_options :: "buyer_session \<Rightarrow> partner_options" where
  "failure_options b =
     \<lparr>po_method = ''POST'', po_idempotency = bs_failureKey b, po_token = bs_token b,
      po_body = Some (JObj (j_opt ''checkout_attempt_id'' (bs_attempt b) @
        [(''partner_payment_ref'', JStr (''demo-failed-'' @ bs_id b)), (''failure_code'', JStr ''DEMO_DECLINED''),
         (''requested_disposition'', JStr ''RETRY'')]))\<rparr>"

definition failed_session :: "string \<Rightarrow> string \<Rightarrow> buyer_session \<Rightarrow> buyer_session" where
  "failed_session begin_key failure_key b =
     b\<lparr>bs_attempt := Some (JStr []), bs_beginKey := begin_key, bs_failureKey := failure_key\<rparr>"

definition fail_checkout :: "server_env \<Rightarrow> buyer_session \<Rightarrow> (json \<times> buyer_session) act" where
  "fail_checkout env b =
     bind_act (partner env (reservation_path b @ ''/payment-failure'') (failure_options b) (bs_credential b)) (\<lambda>result.
       Return (result, failed_session (sx_uuid env 0) (sx_uuid env 1) b))"

definition route_fail :: "server_env \<Rightarrow> buyer_session option \<Rightarrow> web_response act" where
  "route_fail env session =
     (case session of
        None \<Rightarrow> Return not_started
      | Some b \<Rightarrow>
          if \<not> json_truthy (bs_attempt b) then Return not_started
          else bind_act (fail_checkout env b) (set_checkout env))"

definition confirm_options :: "buyer_session \<Rightarrow> partner_options" where
  "confirm_options b =
     \<lparr>po_method = ''POST'', po_idempotency = bs_confirmKey b, po_token = bs_token b,
      po_body = Some (JObj (j_opt ''checkout_attempt_id'' (bs_attempt b) @
        [(''partner_order_ref'', JStr (''NS-'' @ to_upper (take 8 (bs_id b)))),
         (''partner_payment_ref'', JStr (''DEMO-'' @ to_upper (drop (length (bs_id b) - 8) (bs_id b))))]))\<rparr>"

definition confirm_call :: "server_env \<Rightarrow> buyer_session \<Rightarrow> json act" where
  "confirm_call env b = partner env (reservation_path b @ ''/confirm'') (confirm_options b) (bs_credential b)"

definition confirm_checkout :: "server_env \<Rightarrow> buyer_session \<Rightarrow> (json \<times> buyer_session) act" where
  "confirm_checkout env b = bind_act (confirm_call env b) (\<lambda>confirmation. Return (confirmation, b\<lparr>bs_confirmed := True\<rparr>))"

definition route_confirm :: "server_env \<Rightarrow> buyer_session option \<Rightarrow> web_response act" where
  "route_confirm env session =
     (case session of
        None \<Rightarrow> Return not_started
      | Some b \<Rightarrow>
          if \<not> json_truthy (bs_attempt b) then Return not_started
          else bind_act (confirm_checkout env b) (set_checkout env))"

definition credential_path :: "server_env \<Rightarrow> json \<Rightarrow> string option" where
  "credential_path env ticket =
     map_option (\<lambda>i. ''/api/v1/partner/tickets/'' @ uri_text (sx_text env) i @ ''/credential'') (js_dot ''id'' (Some ticket))"

definition route_ticket :: "server_env \<Rightarrow> buyer_session option \<Rightarrow> web_response act" where
  "route_ticket env session =
     (case session of
        Some b \<Rightarrow>
          if bs_confirmed b then
            bind_act (confirm_call env b) (\<lambda>confirmation.
            bind_act (of_option type_error (Option.bind (js_dot ''tickets'' (Some confirmation)) js_array)) (\<lambda>tickets.
            bind_act (of_option type_error (those (map (credential_path env) tickets))) (\<lambda>paths.
            bind_act (partner_all env paths (bs_credential b) (\<lambda>xs. of_result (settle_all xs))) (\<lambda>credentials.
            bind_act (orderView env b) (\<lambda>order.
            Return (json_response 200
              (spread_with (Some (JObj order))
                [(''confirmation'', confirmation), (''credentials'', JArr credentials),
                 (''scanner_url'', JStr (sf_scannerURL (sx_cfg env)))]) []))))))
          else Return (error_response 404 ''not-found'' ''Complete checkout before opening the ticket.'')
      | None \<Rightarrow> Return (error_response 404 ''not-found'' ''Complete checkout before opening the ticket.''))"

section \<open>Routing\<close>

record http_request =
  hq_method :: string
  hq_path :: string            \<comment> \<open>\<open>url.pathname\<close>\<close>
  hq_cookie :: "string option"
  hq_chunks :: "string list"

datatype checkout_route = View | Begin_Route | Fail_Route | Confirm_Route | Ticket_Route

definition checkout_route_of :: "string \<Rightarrow> string \<Rightarrow> checkout_route option" where
  "checkout_route_of verb path =
     (if verb = ''GET'' \<and> path = ''/demo-api/checkout'' then Some View
      else if verb = ''POST'' \<and> path = ''/demo-api/checkout/begin'' then Some Begin_Route
      else if verb = ''POST'' \<and> path = ''/demo-api/checkout/fail'' then Some Fail_Route
      else if verb = ''POST'' \<and> path = ''/demo-api/checkout/confirm'' then Some Confirm_Route
      else if verb = ''GET'' \<and> path = ''/demo-api/ticket'' then Some Ticket_Route
      else None)"

definition checkout_handler :: "server_env \<Rightarrow> buyer_session option \<Rightarrow> checkout_route \<Rightarrow> web_response act" where
  "checkout_handler env session r =
     (case r of View \<Rightarrow> route_checkout env session | Begin_Route \<Rightarrow> route_begin env session
      | Fail_Route \<Rightarrow> route_fail env session | Confirm_Route \<Rightarrow> route_confirm env session
      | Ticket_Route \<Rightarrow> route_ticket env session)"

definition connection_change_of :: "string list \<Rightarrow> (string \<times> connection_change) option" where
  "connection_change_of segs =
     (case segs of
        [a, b, c, i, change] \<Rightarrow>
          if a = [] \<and> b = ''demo-api'' \<and> c = ''connections'' \<and> i \<noteq> [] then
            (if change = ''activate'' then Some (i, Activate) else if change = ''remove'' then Some (i, Remove) else None)
          else None
      | _ \<Rightarrow> None)"

definition event_segment :: "string list \<Rightarrow> string option" where
  "event_segment segs =
     (case segs of [a, b, c, i] \<Rightarrow> if a = [] \<and> b = ''demo-api'' \<and> c = ''events'' \<and> i \<noteq> [] then Some i else None | _ \<Rightarrow> None)"

definition selection_segment :: "string list \<Rightarrow> string option" where
  "selection_segment segs =
     (case segs of
        [a, b, c, i, d] \<Rightarrow> if a = [] \<and> b = ''demo-api'' \<and> c = ''events'' \<and> i \<noteq> [] \<and> d = ''selection'' then Some i else None
      | _ \<Rightarrow> None)"

text \<open>The routes that need a connection.\<close>

definition connected_routes :: "server_env \<Rightarrow> http_request \<Rightarrow> saved_connection \<Rightarrow> web_response act" where
  "connected_routes env rq c =
     (let verb = hq_method rq; path = hq_path rq; segs = split_on (CHR ''/'') path in
      if verb = ''GET'' \<and> path = ''/demo-api/events'' then route_events env c
      else case (if verb = ''GET'' then event_segment segs else None) of
        Some i \<Rightarrow> route_event env c i
      | None \<Rightarrow> (case (if verb = ''POST'' then selection_segment segs else None) of
          Some i \<Rightarrow> route_selection env c i
        | None \<Rightarrow> (case checkout_route_of verb path of
            Some r \<Rightarrow> checkout_handler env (currentSession env (hq_cookie rq)) r
          | None \<Rightarrow> Return (error_response 404 ''not-found'' ''Page not found.''))))"

definition api_routes :: "server_env \<Rightarrow> http_request \<Rightarrow> web_response act" where
  "api_routes env rq =
     (let verb = hq_method rq; path = hq_path rq; header = hq_cookie rq in
      if verb = ''GET'' \<and> path = ''/demo-api/config'' then Return (route_config env)
      else if verb = ''GET'' \<and> path = ''/demo-api/connections'' then Return (route_connections env header)
      else if verb = ''POST'' \<and> path = ''/demo-api/connections'' then route_add_connection env header (hq_chunks rq)
      else case (if verb = ''POST'' then connection_change_of (split_on (CHR ''/'') path) else None) of
        Some (i, change) \<Rightarrow> route_change_connection env header i change
      | None \<Rightarrow> (case activeConnection env header of
          None \<Rightarrow> Throw not_configured
        | Some c \<Rightarrow> connected_routes env rq c))"

definition api :: "server_env \<Rightarrow> http_request \<Rightarrow> web_response act" where
  "api env rq = catch_act (api_routes env rq) (\<lambda>e. Return (sendError e))"

definition new_session :: "server_env \<Rightarrow> saved_connection \<Rightarrow> string \<Rightarrow> string \<Rightarrow> json option \<Rightarrow> buyer_session" where
  "new_session env c reservation token event =
     \<lparr>bs_id = sx_uuid env 0, bs_createdAt = of_int (sx_now env), bs_event = event, bs_reservation = reservation,
      bs_token = token, bs_credential = sn_credential c, bs_beginKey = sx_uuid env 1, bs_failureKey = sx_uuid env 2,
      bs_confirmKey = sx_uuid env 3, bs_attempt = None, bs_confirmed = False\<rparr>"

definition return_routes :: "server_env \<Rightarrow> http_request \<Rightarrow> web_response act" where
  "return_routes env rq =
     bind_act (of_option not_configured (activeConnection env (hq_cookie rq))) (\<lambda>c.
     bind_act (of_option (plain_error ''REQUEST_TOO_LARGE'') (read_body (hq_chunks rq))) (\<lambda>content.
       let form = parse_form content; reservation = form_get form ''reservation_id''; token = form_get form ''reservation_token''
       in if \<not> prefix ''res_'' reservation \<or> token = [] then
            Return (error_response 400 ''invalid-handoff'' ''The ticket handoff was incomplete. Please choose tickets again.'')
          else
            bind_act (partner env (''/api/v1/partner/reservations/'' @ encodeURIComponent reservation) get_options (sn_credential c)) (\<lambda>answer.
            bind_act (of_option type_error (js_dot ''event_id'' (Some answer))) (\<lambda>event.
            redirect_sealed (sf_publicURL (sx_cfg env) @ ''/checkout'')
              (cookieFor env (new_session env c reservation token event))))))"

definition checkoutReturn :: "server_env \<Rightarrow> http_request \<Rightarrow> web_response act" where
  "checkoutReturn env rq = catch_act (return_routes env rq) (\<lambda>e. Return (sendError e))"

definition staticFile :: "string \<Rightarrow> (string \<Rightarrow> bool) \<Rightarrow> string \<Rightarrow> web_response act" where
  "staticFile site exists_file pathname =
     (case served_file site exists_file pathname of
        None \<Rightarrow> Throw (plain_error ''URI malformed'')
      | Some file \<Rightarrow>
          Return \<lparr>wr_status = 200, wr_headers = response_headers (file_headers file), wr_body = File_Body file\<rparr>)"

text \<open>\<open>built\<close> says whether the directory \<open>site\<close> exists.\<close>

definition route_request :: "server_env \<Rightarrow> string \<Rightarrow> bool \<Rightarrow> (string \<Rightarrow> bool) \<Rightarrow> http_request \<Rightarrow> web_response act" where
  "route_request env site built exists_file rq =
     (if hq_method rq = ''POST'' \<and> hq_path rq = ''/checkout/return'' then checkoutReturn env rq
      else if prefix ''/demo-api/'' (hq_path rq) then api env rq
      else if hq_method rq \<notin> {''GET'', ''HEAD''} then Return (error_response 405 ''method'' ''Method not allowed.'')
      else if \<not> built then Return (error_response 503 ''not-built'' ''Build the Partner Demo frontend before serving it.'')
      else staticFile site exists_file (hq_path rq))"

text \<open>
  A request as it comes from the socket. \<open>new_url\<close> is the platform's URL parser, reduced to the path of
  \<open>new URL(target, base)\<close>, and \<^const>\<open>None\<close> where that throws; it is called outside of any handler.
\<close>

record raw_request =
  rr_method :: string
  rr_url :: "string option"
  rr_cookie :: "string option"
  rr_chunks :: "string list"

definition listener ::
    "(string \<Rightarrow> string \<Rightarrow> string option) \<Rightarrow> server_env \<Rightarrow> string \<Rightarrow> bool \<Rightarrow> (string \<Rightarrow> bool) \<Rightarrow> raw_request \<Rightarrow> web_response act" where
  "listener new_url env site built exists_file rr =
     (case new_url (or_else (nullish (rr_url rr) []) ''/'') (sf_publicURL (sx_cfg env)) of
        None \<Rightarrow> Throw (plain_error ''Invalid URL'')
      | Some path \<Rightarrow>
          route_request env site built exists_file
            \<lparr>hq_method = rr_method rr, hq_path = path, hq_cookie = rr_cookie rr, hq_chunks = rr_chunks rr\<rparr>)"

text \<open>The deployment's entry point passes the path on that the platform rewrote (\<^verbatim>\<open>api/index.mjs\<close>).\<close>

definition forwarded_url :: "string \<Rightarrow> string option \<Rightarrow> string" where
  "forwarded_url url forwarded = (if truthy_str forwarded then the forwarded else url)"

end
