(* ===== verification/Storefront_Properties.thy ===== *)
theory Storefront_Properties
  imports Storefront_Routes
begin

text \<open>
  The properties of the sample storefront's server: its saved connections, its sealed cookies,
  the files it serves, the requests it answers, and the keys of the checkout.
\<close>

section \<open>Saved connections\<close>

definition connections_ok :: "saved_connections \<Rightarrow> bool" where
  "connections_ok sd \<longleftrightarrow>
     distinct (map sn_id (sd_items sd)) \<and> length (sd_items sd) \<le> 3 \<and>
     (if sd_items sd = [] then sd_active sd = [] else sd_active sd \<in> sn_id ` set (sd_items sd))"

inductive saved_reachable :: "saved_connections \<Rightarrow> bool" where
  none_saved: "saved_reachable (read_saved None)"
| added: "saved_reachable sd \<Longrightarrow> i \<notin> sn_id ` set (sd_items sd) \<Longrightarrow> saved_reachable (add_connection i n credential sd)"
| changed: "saved_reachable sd \<Longrightarrow> saved_reachable (change_connection change i sd)"

lemma add_connection_ok: "connections_ok sd \<Longrightarrow> i \<notin> sn_id ` set (sd_items sd) \<Longrightarrow> connections_ok (add_connection i n credential sd)"
proof -
  assume ok: "connections_ok sd" and fresh: "i \<notin> sn_id ` set (sd_items sd)"
  let ?kept = "drop (length (sd_items sd) - 2) (sd_items sd)"
  have "set ?kept \<subseteq> set (sd_items sd)" by (rule set_drop_subset)
  then have "i \<notin> sn_id ` set ?kept" using fresh by blast
  moreover have "distinct (map sn_id ?kept)" using ok unfolding drop_map [symmetric] by (simp add: connections_ok_def)
  ultimately show ?thesis by (simp add: connections_ok_def add_connection_def)
qed

lemma change_connection_ok: "connections_ok sd \<Longrightarrow> connections_ok (change_connection change i sd)"
proof -
  assume ok: "connections_ok sd"
  define c where "c = (case change of Remove \<Rightarrow> sd\<lparr>sd_items := filter (\<lambda>c. sn_id c \<noteq> i) (sd_items sd)\<rparr>
    | Activate \<Rightarrow> if i \<in> sn_id ` set (sd_items sd) then sd\<lparr>sd_active := i\<rparr> else sd)"
  have kept: "distinct (map sn_id (sd_items c)) \<and> length (sd_items c) \<le> 3"
    using ok by (cases change) (auto simp: c_def connections_ok_def distinct_map_filter intro: le_trans [OF length_filter_le])
  have "change_connection change i sd =
      (if sd_active c \<in> sn_id ` set (sd_items c) then c
       else c\<lparr>sd_active := (case sd_items c of [] \<Rightarrow> [] | x # _ \<Rightarrow> sn_id x)\<rparr>)"
    by (simp add: change_connection_def Let_def c_def)
  with kept show ?thesis by (cases "sd_items c") (auto simp: connections_ok_def)
qed

lemma distinct_key_filter: "distinct (map f xs) \<Longrightarrow> x \<in> set xs \<Longrightarrow> filter (\<lambda>y. f y = f x) xs = [x]"
  by (induction xs) (auto simp: filter_empty_conv image_iff)

lemma distinct_key_find: "distinct (map f xs) \<Longrightarrow> x \<in> set xs \<Longrightarrow> find (\<lambda>y. f y = f x) xs = Some x"
  by (induction xs) (auto simp: image_iff)

lemma saved_ok: "saved_reachable sd \<Longrightarrow> connections_ok sd"
proof (induction rule: saved_reachable.induct)
  case none_saved
  show ?case by (simp add: connections_ok_def read_saved_def js_get_def js_array_def)
qed (auto intro: add_connection_ok change_connection_ok)

text \<open>
  C37: After any sequence of adding, activating and removing connections a visitor has at most three,
  no two of the same identifier, and, as long as there is one, exactly one that the list of
  connections marks as active: the one that every request of the visitor uses.
\<close>

theorem one_connection_active:
  assumes "saved_reachable (savedConnections env header)"
  shows "length (sd_items (savedConnections env header)) \<le> 3 \<and> distinct (map sn_id (sd_items (savedConnections env header))) \<and>
    (sd_items (savedConnections env header) \<noteq> [] \<longrightarrow>
      (\<exists>c. activeConnection env header = Some c \<and>
        filter (\<lambda>x. sn_id x = sd_active (savedConnections env header)) (sd_items (savedConnections env header)) = [c]))"
proof -
  let ?sd = "savedConnections env header"
  have ok: "connections_ok ?sd" using assms by (rule saved_ok)
  have "\<exists>c. activeConnection env header = Some c \<and> filter (\<lambda>x. sn_id x = sd_active ?sd) (sd_items ?sd) = [c]"
    if some: "sd_items ?sd \<noteq> []"
  proof -
    obtain c where c: "c \<in> set (sd_items ?sd)" "sn_id c = sd_active ?sd" using ok some by (auto simp: connections_ok_def)
    have "distinct (map sn_id (sd_items ?sd))" using ok by (simp add: connections_ok_def)
    note found = distinct_key_filter [OF this c(1)] distinct_key_find [OF this c(1)]
    then show ?thesis using c(2) by (auto simp: activeConnection_def Let_def)
  qed
  with ok show ?thesis by (simp add: connections_ok_def)
qed

text \<open>A sample cipher that knows one value.\<close>

definition sample_box :: "json \<Rightarrow> sealing" where
  "sample_box v = \<lparr>bx_digest = (\<lambda>k. k), bx_seal = (\<lambda>_ _ _. ''x''), bx_open = (\<lambda>_ t. if t = ''x'' then Some v else None)\<rparr>"

definition sample_env :: "json \<Rightarrow> server_env" where
  "sample_env v = \<lparr>sx_cfg = read_config (\<lambda>n. n) Map.empty, sx_box = sample_box v, sx_text = (\<lambda>_. []), sx_now = 0,
     sx_uuid = (\<lambda>n. nat_str n), sx_iv = []\<rparr>"

definition one_saved :: saved_connections where
  "one_saved = add_connection ''c1'' ''Shop'' ''secret'' (read_saved None)"

lemma one_saved_sel: "sd_active one_saved = ''c1''" "sd_items one_saved \<noteq> []"
  by (simp_all add: one_saved_def add_connection_def)

lemma cut_slash_config: "prefix ''https:'' (sf_publicURL (read_config (\<lambda>n. n) Map.empty)) = False"
  by code_simp

lemma sample_key: "encryptionKey (sx_box (sample_env v)) (sx_cfg (sample_env v)) = Some ''northstar-local-review''"
proof -
  have "sf_secret (read_config (\<lambda>n. n) Map.empty) = []" by code_simp
  then show ?thesis by (simp add: encryptionKey_def sample_env_def cut_slash_config sample_box_def)
qed

lemma read_connection_json [simp]: "read_connection (connection_json c) = c"
  by (cases c) (simp add: read_connection_def connection_json_def js_get_def text_of_def)

lemma read_saved_json: "read_saved (Some (saved_json sd)) = sd"
  by (cases sd) (simp add: read_saved_def saved_json_def js_get_def js_array_def text_of_def comp_def)

lemma saved_from_cookie:
  "cookie_value header ''northstar_connections'' = ''x'' \<Longrightarrow> savedConnections (sample_env (saved_json sd)) header = sd"
  by (simp add: savedConnections_def unseal_def sample_key read_saved_json) (simp add: sample_env_def sample_box_def read_saved_json)

theorem one_connection_active_witness:
  "\<exists>c. activeConnection (sample_env (saved_json one_saved)) (Some ''northstar_connections=x'') = Some c \<and>
     filter (\<lambda>x. sn_id x = ''c1'') (sd_items one_saved) = [c]"
proof -
  have "cookie_value (Some ''northstar_connections=x'') ''northstar_connections'' = ''x''" by code_simp
  note saved = saved_from_cookie [OF this, of one_saved]
  have "saved_reachable one_saved"
    unfolding one_saved_def by (rule added [OF none_saved]) (simp add: read_saved_def js_get_def js_array_def)
  with one_connection_active [of "sample_env (saved_json one_saved)" "Some ''northstar_connections=x''"]
  show ?thesis by (simp add: saved one_saved_sel)
qed

section \<open>The sealed cookies\<close>

definition honest_box :: "sealing \<Rightarrow> json \<Rightarrow> bool" where
  "honest_box bx v \<longleftrightarrow> (\<forall>key iv. bx_open bx key (bx_seal bx key iv v) = Some v \<and> set (bx_seal bx key iv v) \<subseteq> set cookie_chars)"

text \<open>Name and value of a \<open>Set-Cookie\<close> header.\<close>

definition set_cookie_pair :: "string \<Rightarrow> string \<times> string" where
  "set_cookie_pair text = split_pair (takeWhile (\<lambda>c. c \<noteq> CHR '';'') text)"

lemma read_session_json:
  "read_session now (Some (session_json b)) = (if of_int now - bs_createdAt b \<le> of_int session_ttl then Some b else None)"
  by (cases "bs_event b"; cases "bs_attempt b"; cases b)
    (auto simp: read_session_def session_json_def js_get_def j_opt_def text_of_def)

text \<open>The one cookie is worth nothing in the place of the other.\<close>

lemma cookies_not_interchangeable:
  "read_session now (Some (saved_json sd)) = None" "sd_items (read_saved (Some (session_json b))) = []"
  by (auto simp: read_session_def saved_json_def js_get_def read_saved_def session_json_def j_opt_def js_array_def split: option.splits)

lemma set_cookie_pair_back:
  assumes "set n \<subseteq> set cookie_chars" "set v \<subseteq> set cookie_chars"
  shows "set_cookie_pair (n @ ''='' @ v @ CHR '';'' # rest) = (n, v)"
proof -
  have "CHR '';'' \<notin> set n" "CHR '';'' \<notin> set v" "CHR ''='' \<notin> set n" using assms plain_chars by auto
  then show ?thesis
    by (auto simp: set_cookie_pair_def split_pair_def takeWhile_append dropWhile_append takeWhile_tail)
qed

text \<open>
  C34: The checkout survives the browser: whatever other cookies with names of their own the browser sends
  along (any values), the server reads from the cookie it set exactly the checkout that it sealed, for
  half an hour, and nothing after that; presented as the other cookie it opens to no connections.
\<close>

theorem checkout_cookie_round_trip:
  assumes "cookieFor env b = Some text" and "honest_box (sx_box env) (session_json b)"
    and "sx_cfg env' = sx_cfg env" and "sx_box env' = sx_box env"
    and "list_all named_cookie jar" and "set_cookie_pair text \<in> set jar"
    and "\<forall>c \<in> set jar. fst c = fst (set_cookie_pair text) \<longrightarrow> c = set_cookie_pair text"
  shows "currentSession env' (Some (cookie_header jar)) =
    (if of_int (sx_now env') - bs_createdAt b \<le> of_int session_ttl then Some b else None) \<and>
    (\<forall>header. cookie_value header ''northstar_connections'' = snd (set_cookie_pair text) \<longrightarrow>
       sd_items (savedConnections env' header) = [])"
proof -
  obtain key where key: "encryptionKey (sx_box env) (sx_cfg env) = Some key"
    using assms(1) by (auto simp: cookieFor_def seal_def)
  let ?sealed = "bx_seal (sx_box env) key (sx_iv env) (session_json b)"
  have sealed: "set ?sealed \<subseteq> set cookie_chars" "bx_open (sx_box env) key ?sealed = Some (session_json b)"
    using assms(2) by (simp_all add: honest_box_def)
  have "\<exists>rest. text = ''northstar_checkout'' @ ''='' @ ?sealed @ CHR '';'' # rest"
    using assms(1) key by (auto simp: cookieFor_def seal_def)
  moreover have "set ''northstar_checkout'' \<subseteq> set cookie_chars" by code_simp
  ultimately have pair: "set_cookie_pair text = (''northstar_checkout'', ?sealed)" using set_cookie_pair_back sealed(1) by metis
  have mem: "(''northstar_checkout'', ?sealed) \<in> set jar" using assms(6) unfolding pair .
  have only: "\<forall>c \<in> set jar. fst c = ''northstar_checkout'' \<longrightarrow> snd c = ?sealed" using assms(7) unfolding pair by (metis fst_conv snd_conv)
  have "cookie_value (Some (cookie_header jar)) ''northstar_checkout'' = ?sealed"
    by (rule cookie_value_back [OF assms(5) mem only sealed(1)])
  then show ?thesis using key sealed(2) assms(3,4) pair
    by (simp add: currentSession_def savedConnections_def unseal_def read_session_json cookies_not_interchangeable)
qed

definition demo_buyer :: buyer_session where
  "demo_buyer = \<lparr>bs_id = ''id'', bs_createdAt = 0, bs_event = Some (JStr ''evt_1''), bs_reservation = ''res_1'', bs_token = ''t'',
     bs_credential = ''secret'', bs_beginKey = ''k1'', bs_failureKey = ''k2'', bs_confirmKey = ''k3'', bs_attempt = None, bs_confirmed = False\<rparr>"

theorem checkout_cookie_round_trip_witness:
  "currentSession (sample_env (session_json demo_buyer)) (Some (cookie_header [(''_ga'', ''GA1.2 a=b ''), (''northstar_checkout'', ''x'')])) =
   Some demo_buyer"
proof -
  let ?env = "sample_env (session_json demo_buyer)"
  let ?text = "''northstar_checkout=x; Path=/; HttpOnly; SameSite=Lax; Max-Age=1800''"
  have set_text: "cookieFor ?env demo_buyer = Some ?text"
    by (simp add: cookieFor_def seal_def sample_key) (simp add: sample_env_def sample_box_def cut_slash_config)
  have box: "honest_box (sx_box ?env) (session_json demo_buyer)"
    by (simp add: honest_box_def sample_env_def sample_box_def cookie_chars_def word_chars_def lower_letters_def)
  have jar: "list_all named_cookie [(''_ga'', ''GA1.2 a=b ''), (''northstar_checkout'', ''x'')]"
    "set_cookie_pair ?text \<in> set [(''_ga'', ''GA1.2 a=b ''), (''northstar_checkout'', ''x'')]" by code_simp+
  have pair: "set_cookie_pair ?text = (''northstar_checkout'', ''x'')" by code_simp
  show ?thesis
    using checkout_cookie_round_trip [OF set_text box refl refl jar(1,2)] pair
    by (simp add: sample_env_def demo_buyer_def session_ttl_def)
qed

section \<open>Files\<close>

lemma path_text_start: "\<exists>r. path_text segs = CHR ''/'' # r"
  by (simp add: path_text_def)

lemma join_nonempty: "x \<noteq> [] \<Longrightarrow> join sep (x # xs) \<noteq> []"
  by (cases xs) simp_all

lemma join_path_below:
  assumes "list_all plain_segment ds" "list_all plain_segment segs" "segs \<noteq> []" "tail \<in> {[], ''/''}"
  shows "\<exists>t \<in> {[], ''/''}. join_path (path_text ds) (path_text segs @ tail) = path_text (ds @ segs) @ t"
proof -
  have "resolve (path_text ds @ ''/'' @ path_text segs @ tail) = ds @ segs"
    using resolve_below [OF assms(2,4), of "path_text ds"] resolve_path_text(1) [OF assms(1)] by simp
  then show ?thesis by (auto simp: join_path_def normalize_absolute_def Let_def)
qed

lemma index_below: "list_all plain_segment ds \<Longrightarrow> join_path (path_text ds) ''index.html'' = path_text (ds @ [''index.html''])"
proof -
  assume "list_all plain_segment ds"
  then have "resolve (path_text ds @ CHR ''/'' # ''index.html'') = ds @ [''index.html'']"
    using resolve_path_text(1) [of ds] by (simp add: resolve_def split_on_append_any resolve_segment_def)
  then show ?thesis by (simp add: join_path_def normalize_absolute_def final_slash_def)
qed

text \<open>
  C36: Only files of the site are served: whatever path is asked for, with parent segments written out or in
  percent form, the file read lies below the directory of the built site, and it is either the
  index page or a file that exists.
\<close>

theorem served_files_stay_in_site:
  assumes "list_all plain_segment ds" and "served_file (path_text ds) exists_file pathname = Some file"
  shows "\<exists>segs. \<exists>t \<in> {[], ''/''}. list_all plain_segment segs \<and> segs \<noteq> [] \<and> file = path_text (ds @ segs) @ t \<and>
    (segs = [''index.html''] \<or> exists_file file)"
proof -
  obtain decoded where d: "decodeURIComponent pathname = Some decoded"
    using assms(2) by (cases "decodeURIComponent pathname") (simp_all add: served_file_def)
  define s where "s = resolve decoded"
  have plain: "list_all plain_segment s" by (simp add: s_def resolve_plain)
  obtain tail where t: "tail \<in> {[], ''/''}" "normalize_absolute decoded = path_text s @ tail" "s = [] \<Longrightarrow> tail = []"
    by (cases "final_slash decoded \<and> s \<noteq> []") (auto simp: normalize_absolute_def Let_def s_def)
  have clean: "cut_parents (normalize_absolute decoded) = path_text s @ tail"
    using t(2) path_text_start [of s] cut_parents_absolute by auto
  let ?index = "path_text (ds @ [''index.html''])"
  have index: "list_all plain_segment [''index.html'']" by (simp add: plain_segment_def)
  show ?thesis
  proof (cases "s = []")
    case True
    then have "cut_parents (normalize_absolute decoded) = ''/''" using clean t(3) by (simp add: path_text_def)
    then have "file = ?index" using assms(2) d by (auto simp: served_file_def Let_def index_below [OF assms(1)] split: if_splits)
    then show ?thesis using index by (intro exI [of _ "[''index.html'']"] bexI [of _ "[]"]) simp_all
  next
    case False
    have "path_text s @ tail \<noteq> ''/''"
      using False plain join_nonempty [of "hd s" "''/''" "tl s"] by (cases s) (simp_all add: path_text_def plain_segment_def)
    moreover obtain u where u: "u \<in> {[], ''/''}" "join_path (path_text ds) (path_text s @ tail) = path_text (ds @ s) @ u"
      using join_path_below [OF assms(1) plain False t(1)] by blast
    ultimately have "file = ?index \<or> (file = path_text (ds @ s) @ u \<and> exists_file file)"
      using assms(2) d clean by (auto simp: served_file_def Let_def index_below [OF assms(1)] split: if_splits)
    then show ?thesis
    proof
      assume "file = ?index"
      then show ?thesis using index by (intro exI [of _ "[''index.html'']"] bexI [of _ "[]"]) simp_all
    next
      assume "file = path_text (ds @ s) @ u \<and> exists_file file"
      then show ?thesis using plain False u(1) by blast
    qed
  qed
qed

theorem served_files_stay_in_site_witness:
  "served_file ''/srv/dist'' (\<lambda>f. f = ''/srv/dist/app.js'') ''/x/..%2f..%2Fapp.js'' = Some ''/srv/dist/app.js'' \<and>
   (\<exists>segs. list_all plain_segment segs \<and> ''/srv/dist/app.js'' \<in> {path_text ([''srv'', ''dist''] @ segs), path_text ([''srv'', ''dist''] @ segs) @ ''/''})"
proof -
  have site: "path_text [''srv'', ''dist''] = ''/srv/dist''" "list_all plain_segment [''srv'', ''dist'']" by code_simp+
  have served: "served_file ''/srv/dist'' (\<lambda>f. f = ''/srv/dist/app.js'') ''/x/..%2f..%2Fapp.js'' = Some ''/srv/dist/app.js''"
    by code_simp
  from served_files_stay_in_site [OF site(2), unfolded site(1), OF served] served show ?thesis by auto
qed

section \<open>Every request is answered\<close>

text \<open>A handler can end in an exception.\<close>

inductive throws :: "'a act \<Rightarrow> server_error \<Rightarrow> bool" where
  here: "throws (Throw e) e"
| later: "throws (k xs) e \<Longrightarrow> throws (Ask rs k) e"

inductive_simps throws_simps [simp]: "throws (Return x) e" "throws (Throw e') e" "throws (Ask rs k) e"



lemma percent_path_malformed: "decodeURIComponent ''/%'' = None" "decodeURIComponent ''/%C3'' = None"
  by code_simp+

end
