(* ===== verification/Storefront_Checkout.thy ===== *)
theory Storefront_Checkout
  imports Storefront_Properties
begin

text \<open>
  The checkout as the partner API sees it: every request that the storefront's server sends for a
  buyer, over any sequence of the buyer's requests, with answers that are lost on the way to the
  server or on the way back to the browser.
\<close>

section \<open>The requests of a handler\<close>

inductive asks :: "'a act \<Rightarrow> upstream \<Rightarrow> bool" where
  now: "r \<in> set rs \<Longrightarrow> asks (Ask rs k) r"
| then_asks: "asks (k xs) r \<Longrightarrow> asks (Ask rs k) r"

inductive_simps asks_simps [simp]: "asks (Return x) r" "asks (Throw e) r" "asks (Ask rs k) r"

lemma asks_of [simp]: "\<not> asks (of_option e v) r" "\<not> asks (of_result w) r"
  by (auto simp: of_option_def of_result_def split: option.splits sum.splits)

lemma asks_bind: "asks (bind_act a f) r \<Longrightarrow> asks a r \<or> (\<exists>x. asks (f x) r)"
  by (induction a) auto

lemma asks_catch: "asks (catch_act a h) r \<Longrightarrow> asks a r \<or> (\<exists>e. asks (h e) r)"
  by (induction a) auto

lemma asks_partner: "asks (partner env path opts credential) r \<longleftrightarrow> partner_request (sx_cfg env) path opts credential = Some r"
  by (auto simp: partner_def split: option.splits)

lemma asks_partner_all:
  assumes "asks (partner_all env paths credential k) r"
  shows "(\<exists>p \<in> set paths. partner_request (sx_cfg env) p get_options credential = Some r) \<or> (\<exists>xs. asks (k xs) r)"
  using assms by (auto simp: partner_all_def map_filter_def partner_request_def split: if_splits)

text \<open>The requests that were sent, and the result if the answers came.\<close>

fun run_act :: "arrival list list \<Rightarrow> 'a act \<Rightarrow> upstream list \<times> (server_error + 'a) option" where
  "run_act xss (Return x) = ([], Some (Inr x))"
| "run_act xss (Throw e) = ([], Some (Inl e))"
| "run_act [] (Ask rs k) = (rs, None)"
| "run_act (xs # xss) (Ask rs k) = (case run_act xss (k xs) of (sent, result) \<Rightarrow> (rs @ sent, result))"

lemma run_act_asks: "run_act xss a = (sent, result) \<Longrightarrow> r \<in> set sent \<Longrightarrow> asks a r"
  by (induction xss a arbitrary: sent result rule: run_act.induct) (auto split: prod.splits)

definition idem_key :: "upstream \<Rightarrow> string option" where
  "idem_key r = map_of (up_headers r) ''idempotency-key''"

lemma idem_key_request:
  "partner_request cfg path opts credential = Some r \<Longrightarrow>
   idem_key r = (if po_idempotency opts = [] then None else Some (po_idempotency opts))"
  by (auto simp: partner_request_def idem_key_def split: if_splits)

lemma get_request_key: "partner_request cfg path get_options credential = Some r \<Longrightarrow> idem_key r = None"
  using idem_key_request by (fastforce simp: get_options_def)

section \<open>The commands of a checkout\<close>

definition begin_request :: "storefront \<Rightarrow> buyer_session \<Rightarrow> upstream option" where
  "begin_request cfg b = partner_request cfg (reservation_path b @ ''/checkout'') (begin_options b) (bs_credential b)"

definition failure_request :: "storefront \<Rightarrow> buyer_session \<Rightarrow> upstream option" where
  "failure_request cfg b = partner_request cfg (reservation_path b @ ''/payment-failure'') (failure_options b) (bs_credential b)"

definition confirm_request :: "storefront \<Rightarrow> buyer_session \<Rightarrow> upstream option" where
  "confirm_request cfg b = partner_request cfg (reservation_path b @ ''/confirm'') (confirm_options b) (bs_credential b)"

definition command_of :: "storefront \<Rightarrow> buyer_session \<Rightarrow> upstream \<Rightarrow> bool" where
  "command_of cfg b r \<longleftrightarrow>
     Some r = begin_request cfg b \<or>
     (json_truthy (bs_attempt b) \<and> Some r = failure_request cfg b) \<or>
     ((json_truthy (bs_attempt b) \<or> bs_confirmed b) \<and> Some r = confirm_request cfg b)"

lemma orderView_asks: "asks (orderView env b) r \<Longrightarrow> idem_key r = None"
  unfolding orderView_def by (auto dest!: asks_partner_all asks_bind intro: get_request_key)

lemma checkout_steps_ask:
  "asks (begin_checkout env b) r \<Longrightarrow> Some r = begin_request (sx_cfg env) b"
  "asks (fail_checkout env b) r \<Longrightarrow> Some r = failure_request (sx_cfg env) b"
  "asks (confirm_checkout env b) r \<Longrightarrow> Some r = confirm_request (sx_cfg env) b"
  by (auto simp: begin_checkout_def fail_checkout_def confirm_checkout_def confirm_call_def asks_partner
      begin_request_def failure_request_def confirm_request_def dest!: asks_bind)

lemma set_checkout_asks [simp]: "\<not> asks (set_checkout env x) r"
  by (auto simp: set_checkout_def split: prod.splits dest!: asks_bind)

lemma route_ticket_asks:
  assumes "asks (route_ticket env (Some b)) r"
  shows "idem_key r = None \<or> (bs_confirmed b \<and> Some r = confirm_request (sx_cfg env) b)"
  using assms
  by (auto simp: route_ticket_def confirm_call_def asks_partner confirm_request_def split: if_splits
      dest!: asks_bind asks_partner_all orderView_asks intro: get_request_key)

lemma handler_asks:
  assumes "asks (checkout_handler env (Some b) route) r"
  shows "idem_key r = None \<or> command_of (sx_cfg env) b r"
proof (cases route)
  case View
  with assms show ?thesis by (auto simp: checkout_handler_def route_checkout_def dest!: asks_bind orderView_asks)
next
  case Begin_Route
  with assms show ?thesis
    by (auto simp: checkout_handler_def route_begin_def command_of_def dest!: asks_bind checkout_steps_ask)
next
  case Fail_Route
  with assms show ?thesis
    by (auto simp: checkout_handler_def route_fail_def command_of_def not_started_def split: if_splits
        dest!: asks_bind checkout_steps_ask)
next
  case Confirm_Route
  with assms show ?thesis
    by (auto simp: checkout_handler_def route_confirm_def command_of_def not_started_def split: if_splits
        dest!: asks_bind checkout_steps_ask)
next
  case Ticket_Route
  with assms show ?thesis by (auto simp: checkout_handler_def command_of_def dest!: route_ticket_asks)
qed

section \<open>A buyer's checkout\<close>

inductive yields :: "'a act \<Rightarrow> 'a \<Rightarrow> bool" where
  returned: "yields (Return x) x"
| after_answers: "yields (k xs) x \<Longrightarrow> yields (Ask rs k) x"

inductive_simps yields_simps [simp]: "yields (Return x) y" "yields (Throw e) y" "yields (Ask rs k) y"

lemma yields_of [simp]:
  "yields (of_option e v) x \<longleftrightarrow> v = Some x" "yields (of_result w) x \<longleftrightarrow> w = Inr x"
  by (auto simp: of_option_def of_result_def split: option.splits sum.splits)

lemma yields_bind: "yields (bind_act a f) y \<Longrightarrow> \<exists>x. yields a x \<and> yields (f x) y"
proof (induction a)
  case (Ask rs k)
  then show ?case by simp (metis rangeI)
qed auto

lemma run_act_yields: "run_act xss a = (sent, Some (Inr x)) \<Longrightarrow> yields a x"
  by (induction xss a arbitrary: sent rule: run_act.induct) (auto split: prod.splits)

lemma checkout_steps_yield:
  "yields (begin_checkout env b) (result, b') \<Longrightarrow> b' = b\<lparr>bs_attempt := bs_attempt b'\<rparr>"
  "yields (fail_checkout env b) (result, b') \<Longrightarrow> b' = failed_session (sx_uuid env 0) (sx_uuid env 1) b"
  "yields (confirm_checkout env b) (result, b') \<Longrightarrow> b' = b\<lparr>bs_confirmed := True\<rparr>"
  by (auto simp: begin_checkout_def fail_checkout_def confirm_checkout_def begun_def map_option_case
      split: option.splits bind_splits dest!: yields_bind)

definition used_keys :: "buyer_session \<Rightarrow> string set" where
  "used_keys b = {bs_beginKey b, bs_failureKey b, bs_confirmKey b}"

definition fresh_keys :: "server_env \<Rightarrow> buyer_session list \<Rightarrow> bool" where
  "fresh_keys env vs \<longleftrightarrow>
     sx_uuid env 0 \<noteq> sx_uuid env 1 \<and> (\<forall>v \<in> set vs. sx_uuid env 0 \<notin> used_keys v \<and> sx_uuid env 1 \<notin> used_keys v)"

text \<open>
  The requests sent, the sessions the browser held (newest first) and the number of declines that
  the browser heard of. A response that does not come back leaves the browser's session as it was
  (\<open>unchanged\<close>). \<open>attempt_of\<close> is the attempt that the API names for a begin key.
\<close>

inductive checkout_run ::
  "storefront \<Rightarrow> (string \<Rightarrow> json option) \<Rightarrow> buyer_session \<Rightarrow> upstream list \<Rightarrow> buyer_session list \<Rightarrow> nat \<Rightarrow> bool"
  for cfg attempt_of b0 where
  handed_over: "checkout_run cfg attempt_of b0 [] [b0] 0"
| unchanged: "checkout_run cfg attempt_of b0 reqs (b # vs) n \<Longrightarrow> sx_cfg env = cfg \<Longrightarrow>
    run_act xss (checkout_handler env (Some b) route) = (sent, result) \<Longrightarrow>
    checkout_run cfg attempt_of b0 (reqs @ sent) (b # vs) n"
| began: "checkout_run cfg attempt_of b0 reqs (b # vs) n \<Longrightarrow> sx_cfg env = cfg \<Longrightarrow>
    run_act xss (begin_checkout env b) = (sent, Some (Inr (answer, b'))) \<Longrightarrow> bs_attempt b' = attempt_of (bs_beginKey b) \<Longrightarrow>
    checkout_run cfg attempt_of b0 (reqs @ sent) (b' # b # vs) n"
| declined: "checkout_run cfg attempt_of b0 reqs (b # vs) n \<Longrightarrow> sx_cfg env = cfg \<Longrightarrow> json_truthy (bs_attempt b) \<Longrightarrow>
    run_act xss (fail_checkout env b) = (sent, Some (Inr (answer, b'))) \<Longrightarrow> fresh_keys env (b # vs) \<Longrightarrow>
    checkout_run cfg attempt_of b0 (reqs @ sent) (b' # b # vs) (Suc n)"
| confirmed: "checkout_run cfg attempt_of b0 reqs (b # vs) n \<Longrightarrow> sx_cfg env = cfg \<Longrightarrow> json_truthy (bs_attempt b) \<Longrightarrow>
    run_act xss (confirm_checkout env b) = (sent, Some (Inr (answer, b'))) \<Longrightarrow>
    checkout_run cfg attempt_of b0 (reqs @ sent) (b' # b # vs) n"

definition same_buyer :: "buyer_session \<Rightarrow> buyer_session \<Rightarrow> bool" where
  "same_buyer v w \<longleftrightarrow>
     bs_id v = bs_id w \<and> bs_reservation v = bs_reservation w \<and> bs_token v = bs_token w \<and>
     bs_credential v = bs_credential w \<and> bs_confirmKey v = bs_confirmKey w"

definition session_ok :: "(string \<Rightarrow> json option) \<Rightarrow> buyer_session \<Rightarrow> nat \<Rightarrow> buyer_session \<Rightarrow> bool" where
  "session_ok attempt_of b0 n v \<longleftrightarrow>
     same_buyer v b0 \<and> (json_truthy (bs_attempt v) \<longrightarrow> bs_attempt v = attempt_of (bs_beginKey v)) \<and>
     bs_beginKey v \<noteq> bs_confirmKey b0 \<and> bs_failureKey v \<noteq> bs_confirmKey b0 \<and>
     (n = 0 \<longrightarrow> bs_beginKey v = bs_beginKey b0 \<and> (bs_confirmed v \<longrightarrow> bs_attempt v = attempt_of (bs_beginKey b0)))"

definition keys_apart :: "buyer_session \<Rightarrow> buyer_session \<Rightarrow> bool" where
  "keys_apart v w \<longleftrightarrow>
     bs_beginKey v \<noteq> bs_failureKey w \<and> (bs_failureKey v = bs_failureKey w \<longrightarrow> bs_beginKey v = bs_beginKey w)"

definition sessions_ok :: "(string \<Rightarrow> json option) \<Rightarrow> buyer_session \<Rightarrow> buyer_session list \<Rightarrow> nat \<Rightarrow> bool" where
  "sessions_ok attempt_of b0 vs n \<longleftrightarrow>
     list_all (session_ok attempt_of b0 n) vs \<and> list_all (\<lambda>v. list_all (keys_apart v) vs) vs"

text \<open>A checkout as it is handed over: nothing begun, three different keys.\<close>

definition new_checkout :: "buyer_session \<Rightarrow> bool" where
  "new_checkout b \<longleftrightarrow>
     \<not> json_truthy (bs_attempt b) \<and> \<not> bs_confirmed b \<and> distinct [bs_beginKey b, bs_failureKey b, bs_confirmKey b]"

lemma keys_apart_same:
  "bs_beginKey b' = bs_beginKey b \<Longrightarrow> bs_failureKey b' = bs_failureKey b \<Longrightarrow>
   keys_apart b' = keys_apart b \<and> (\<forall>v. keys_apart v b' = keys_apart v b)"
  by (simp add: keys_apart_def fun_eq_iff)

lemma sessions_ok_same_keys:
  assumes "sessions_ok attempt_of b0 (b # vs) n" "bs_beginKey b' = bs_beginKey b" "bs_failureKey b' = bs_failureKey b"
    "session_ok attempt_of b0 n b'"
  shows "sessions_ok attempt_of b0 (b' # b # vs) n"
  using assms(1,4) keys_apart_same [OF assms(2,3)] by (simp add: sessions_ok_def)

lemma sessions_ok_fresh:
  assumes "sessions_ok attempt_of b0 (b # vs) n" "fresh_keys env (b # vs)"
  shows "sessions_ok attempt_of b0 (failed_session (sx_uuid env 0) (sx_uuid env 1) b # b # vs) (Suc n)"
proof -
  let ?new = "failed_session (sx_uuid env 0) (sx_uuid env 1) b"
  have later: "session_ok attempt_of b0 (Suc n) v" if "session_ok attempt_of b0 n v" for v
    using that by (simp add: session_ok_def)
  have b: "session_ok attempt_of b0 n b" "bs_confirmKey b = bs_confirmKey b0"
    using assms(1) by (simp_all add: sessions_ok_def session_ok_def same_buyer_def)
  have fresh: "sx_uuid env 0 \<noteq> sx_uuid env 1" "sx_uuid env 0 \<notin> used_keys b" "sx_uuid env 1 \<notin> used_keys b"
    using assms(2) by (simp_all add: fresh_keys_def)
  then have new: "session_ok attempt_of b0 (Suc n) ?new"
    using b by (simp add: session_ok_def failed_session_def same_buyer_def used_keys_def)
  have apart: "keys_apart ?new v \<and> keys_apart v ?new" if "v \<in> set (b # vs)" for v
    using assms(2) that by (auto simp: fresh_keys_def keys_apart_def failed_session_def used_keys_def)
  have "keys_apart ?new ?new" using fresh(1) by (simp add: keys_apart_def failed_session_def)
  then show ?thesis using assms(1) later new apart by (auto simp: sessions_ok_def list_all_iff)
qed

lemma run_sessions_ok: "checkout_run cfg attempt_of b0 reqs vs n \<Longrightarrow> new_checkout b0 \<Longrightarrow> sessions_ok attempt_of b0 vs n"
proof (induction rule: checkout_run.induct)
  case handed_over
  then show ?case by (auto simp: sessions_ok_def session_ok_def keys_apart_def new_checkout_def same_buyer_def)
next
  case (began reqs b vs n env xss sent answer b')
  note b' = checkout_steps_yield(1) [OF run_act_yields [OF began.hyps(3)]]
  have ok: "sessions_ok attempt_of b0 (b # vs) n" using began by simp
  then have "session_ok attempt_of b0 n (b\<lparr>bs_attempt := attempt_of (bs_beginKey b)\<rparr>)"
    by (simp add: sessions_ok_def session_ok_def same_buyer_def)
  moreover have "b' = b\<lparr>bs_attempt := attempt_of (bs_beginKey b)\<rparr>" using b' unfolding began.hyps(4) .
  ultimately show ?case using ok by (auto intro: sessions_ok_same_keys)
next
  case (declined reqs b vs n env xss sent answer b')
  note b' = checkout_steps_yield(2) [OF run_act_yields [OF declined.hyps(4)]]
  show ?case unfolding b' using declined by (intro sessions_ok_fresh) simp_all
next
  case (confirmed reqs b vs n env xss sent answer b')
  note b' = checkout_steps_yield(3) [OF run_act_yields [OF confirmed.hyps(4)]]
  have ok: "sessions_ok attempt_of b0 (b # vs) n" using confirmed by simp
  then have "session_ok attempt_of b0 n b" by (simp add: sessions_ok_def)
  then have "session_ok attempt_of b0 n (b\<lparr>bs_confirmed := True\<rparr>)"
    using confirmed.hyps(3) by (auto simp: session_ok_def same_buyer_def)
  with ok show ?case unfolding b' by (intro sessions_ok_same_keys) simp_all
qed

lemma run_commands:
  "checkout_run cfg attempt_of b0 reqs vs n \<Longrightarrow> r \<in> set reqs \<Longrightarrow> idem_key r = None \<or> (\<exists>v \<in> set vs. command_of cfg v r)"
proof (induction rule: checkout_run.induct)
  case (unchanged reqs b vs n env xss route sent result)
  then show ?case using handler_asks run_act_asks by fastforce
next
  case (began reqs b vs n env xss sent answer b')
  then show ?case using checkout_steps_ask(1) run_act_asks by (fastforce simp: command_of_def)
next
  case (declined reqs b vs n env xss sent answer b')
  then show ?case using checkout_steps_ask(2) run_act_asks by (fastforce simp: command_of_def)
next
  case (confirmed reqs b vs n env xss sent answer b')
  then show ?case using checkout_steps_ask(3) run_act_asks by (fastforce simp: command_of_def)
qed simp

lemma same_commands:
  assumes "same_buyer v w"
  shows "bs_beginKey v = bs_beginKey w \<Longrightarrow> begin_request cfg v = begin_request cfg w"
    and "bs_failureKey v = bs_failureKey w \<Longrightarrow> bs_attempt v = bs_attempt w \<Longrightarrow> failure_request cfg v = failure_request cfg w"
    and "bs_attempt v = bs_attempt w \<Longrightarrow> confirm_request cfg v = confirm_request cfg w"
  using assms
  by (simp_all add: same_buyer_def begin_request_def failure_request_def confirm_request_def begin_options_def
      failure_options_def confirm_options_def reservation_path_def)

lemma command_keys:
  "Some r = begin_request cfg v \<Longrightarrow> idem_key r = Some k \<Longrightarrow> k = bs_beginKey v"
  "Some r = failure_request cfg v \<Longrightarrow> idem_key r = Some k \<Longrightarrow> k = bs_failureKey v"
  "Some r = confirm_request cfg v \<Longrightarrow> idem_key r = Some k \<Longrightarrow> k = bs_confirmKey v"
  by (auto simp: begin_request_def failure_request_def confirm_request_def begin_options_def failure_options_def
      confirm_options_def dest!: sym [of "Some r"] idem_key_request split: if_splits)

lemma command_cases:
  assumes "command_of cfg v r" "idem_key r = Some k"
  shows "(k = bs_beginKey v \<and> Some r = begin_request cfg v) \<or>
    (k = bs_failureKey v \<and> json_truthy (bs_attempt v) \<and> Some r = failure_request cfg v) \<or>
    (k = bs_confirmKey v \<and> (json_truthy (bs_attempt v) \<or> bs_confirmed v) \<and> Some r = confirm_request cfg v)"
  using assms command_keys [of r cfg v k] unfolding command_of_def by blast

text \<open>
  C14: In a buyer's checkout an idempotency key names one request: whatever the buyer presses, in
  whatever order, with answers lost on either way, two requests of the server under the same key
  are the same request, if the API names one attempt for each begin key; for the key of the
  confirmation this holds as long as no payment was declined.
\<close>

theorem checkout_keys_name_one_request:
  assumes "checkout_run cfg attempt_of b0 reqs vs n" and "new_checkout b0"
    and "r \<in> set reqs" and "r' \<in> set reqs" and "idem_key r = Some k" and "idem_key r' = Some k"
    and "k \<noteq> bs_confirmKey b0 \<or> n = 0"
  shows "r = r'"
proof -
  have ok: "sessions_ok attempt_of b0 vs n" using assms(1,2) by (rule run_sessions_ok)
  obtain v where v: "v \<in> set vs" "command_of cfg v r" using run_commands [OF assms(1,3)] assms(5) by auto
  obtain w where w: "w \<in> set vs" "command_of cfg w r'" using run_commands [OF assms(1,4)] assms(6) by auto
  have vw: "session_ok attempt_of b0 n v" "session_ok attempt_of b0 n w" "keys_apart v w" "keys_apart w v"
    using ok v(1) w(1) by (auto simp: sessions_ok_def list_all_iff)
  then have same: "same_buyer v w" "bs_confirmKey v = bs_confirmKey b0" "bs_confirmKey w = bs_confirmKey b0"
    by (auto simp: session_ok_def same_buyer_def)
  have apart: "bs_beginKey v \<noteq> bs_failureKey w" "bs_beginKey w \<noteq> bs_failureKey v" "bs_beginKey v \<noteq> bs_confirmKey b0"
    "bs_beginKey w \<noteq> bs_confirmKey b0" "bs_failureKey v \<noteq> bs_confirmKey b0" "bs_failureKey w \<noteq> bs_confirmKey b0"
    using vw by (simp_all add: keys_apart_def session_ok_def)
  have attempts: "bs_failureKey v = bs_failureKey w \<Longrightarrow> json_truthy (bs_attempt v) \<Longrightarrow> json_truthy (bs_attempt w) \<Longrightarrow> bs_attempt v = bs_attempt w"
    using vw by (simp add: keys_apart_def session_ok_def)
  have paid: "n = 0 \<Longrightarrow> bs_attempt u = attempt_of (bs_beginKey b0)"
    if "session_ok attempt_of b0 n u" "json_truthy (bs_attempt u) \<or> bs_confirmed u" for u
    using that by (auto simp: session_ok_def)
  from command_cases [OF v(2) assms(5)]
  consider (Begin) "k = bs_beginKey v" "Some r = begin_request cfg v"
    | (Failure) "k = bs_failureKey v" "json_truthy (bs_attempt v)" "Some r = failure_request cfg v"
    | (Confirm) "k = bs_confirmKey v" "json_truthy (bs_attempt v) \<or> bs_confirmed v" "Some r = confirm_request cfg v"
    by blast
  then show ?thesis
  proof cases
    case Begin
    with command_cases [OF w(2) assms(6)] apart same have "k = bs_beginKey w" "Some r' = begin_request cfg w" by auto
    with Begin same_commands(1) [OF same(1), of cfg] show ?thesis by (metis option.inject)
  next
    case Failure
    with command_cases [OF w(2) assms(6)] apart same
    have "k = bs_failureKey w" "json_truthy (bs_attempt w)" "Some r' = failure_request cfg w" by auto
    with Failure attempts same_commands(2) [OF same(1), of cfg] show ?thesis by (metis option.inject)
  next
    case Confirm
    with command_cases [OF w(2) assms(6)] apart same
    have r': "json_truthy (bs_attempt w) \<or> bs_confirmed w" "Some r' = confirm_request cfg w" by auto
    have "n = 0" using Confirm(1) same assms(7) by simp
    then have "bs_attempt v = bs_attempt w" using paid vw Confirm(2) r'(1) by metis
    with Confirm r' same_commands(3) [OF same(1), of cfg] show ?thesis by (metis option.inject)
  qed
qed

text \<open>A checkout whose first payment step was lost on the way back and pressed again.\<close>

definition demo_answer :: json where
  "demo_answer = JObj [(''checkout_attempt'', JObj [(''id'', JStr ''att_1'')])]"

lemma demo_begin:
  assumes "xss = [[(0, Answered_With 200 (Some demo_answer))]]"
  shows "\<exists>r r'. idem_key r = Some ''k1'' \<and> idem_key r' = Some ''k1'' \<and>
    run_act [] (checkout_handler (sample_env JNull) (Some demo_buyer) Begin_Route) = ([r], None) \<and>
    run_act xss (begin_checkout (sample_env JNull) demo_buyer) =
      ([r'], Some (Inr (demo_answer, demo_buyer\<lparr>bs_attempt := Some (JStr ''att_1'')\<rparr>)))"
proof -
  obtain r where r: "partner_request (sx_cfg (sample_env JNull)) (reservation_path demo_buyer @ ''/checkout'')
      (begin_options demo_buyer) (bs_credential demo_buyer) = Some r"
    by (simp add: partner_request_def demo_buyer_def)
  then have "idem_key r = Some ''k1''" using idem_key_request by (fastforce simp: begin_options_def demo_buyer_def)
  moreover have "partner_result f (Answered_With 200 (Some demo_answer)) = Inr demo_answer" for f
    by (simp add: partner_result_def)
  moreover have "begun demo_answer demo_buyer = Some (demo_buyer\<lparr>bs_attempt := Some (JStr ''att_1'')\<rparr>)"
    by (simp add: begun_def demo_answer_def js_dot_def js_get_def)
  ultimately show ?thesis using r assms
    by (simp add: checkout_handler_def route_begin_def begin_checkout_def partner_def the_answer_def of_result_def of_option_def)
qed

theorem checkout_keys_name_one_request_witness:
  "\<exists>r r' vs. checkout_run (sx_cfg (sample_env JNull)) (\<lambda>_. Some (JStr ''att_1'')) demo_buyer [r, r'] vs 0 \<and>
     bs_attempt (hd vs) = Some (JStr ''att_1'') \<and> r = r'"
proof -
  let ?cfg = "sx_cfg (sample_env JNull)" and ?at = "\<lambda>_ :: string. Some (JStr ''att_1'')"
  let ?b = "demo_buyer\<lparr>bs_attempt := Some (JStr ''att_1'')\<rparr>"
  obtain r r' where r: "idem_key r = Some ''k1''" "idem_key r' = Some ''k1''"
    "run_act [] (checkout_handler (sample_env JNull) (Some demo_buyer) Begin_Route) = ([r], None)"
    "run_act [[(0, Answered_With 200 (Some demo_answer))]] (begin_checkout (sample_env JNull) demo_buyer) =
      ([r'], Some (Inr (demo_answer, ?b)))"
    using demo_begin by blast
  have "checkout_run ?cfg ?at demo_buyer ([] @ [r]) [demo_buyer] 0"
    by (rule unchanged [OF handed_over refl r(3)])
  then have run: "checkout_run ?cfg ?at demo_buyer [r, r'] [?b, demo_buyer] 0"
    using began [OF _ refl r(4), of ?at demo_buyer "[r]" "[]" 0] by simp
  have new: "new_checkout demo_buyer" by (simp add: new_checkout_def demo_buyer_def)
  have "r = r'" by (rule checkout_keys_name_one_request [OF run new _ _ r(1,2)]) simp_all
  with run show ?thesis by (intro exI [of _ r] exI [of _ r'] exI [of _ "[?b, demo_buyer]"]) simp
qed

section \<open>The key of the confirmation\<close>

text \<open>
  A decline renews the keys of the payment step and of the decline, but not the key of the
  confirmation: a confirmation tried before the decline and one after the next payment step go
  under one key with different bodies.
\<close>

lemma confirm_key_kept_after_decline:
  assumes "confirm_request cfg v = Some r"
    and "confirm_request cfg ((failed_session i j v)\<lparr>bs_attempt := Some a\<rparr>) = Some r'"
    and "bs_attempt v \<noteq> Some a" and "bs_confirmKey v \<noteq> []"
  shows "idem_key r' = idem_key r \<and> idem_key r \<noteq> None \<and> up_body r' \<noteq> up_body r"
proof -
  have keys: "idem_key r = Some (bs_confirmKey v)" "idem_key r' = Some (bs_confirmKey v)"
    using assms by (simp_all add: confirm_request_def confirm_options_def idem_key_request failed_session_def)
  have "up_body r' \<noteq> up_body r"
    using assms(1-3)
    by (cases "bs_attempt v") (auto simp: confirm_request_def confirm_options_def partner_request_def failed_session_def j_opt_def split: if_splits)
  with keys show ?thesis by simp
qed

section \<open>Opening a checkout\<close>

lemma body_size_total: "sofar \<le> limit \<Longrightarrow> body_size_ok limit sofar chunks \<longleftrightarrow> sofar + length (concat chunks) \<le> limit"
  by (induction chunks arbitrary: sofar) auto

lemma read_body_small: "length (concat chunks) \<le> 16384 \<Longrightarrow> read_body chunks = Some (concat chunks)"
  by (simp add: read_body_def body_size_total)

definition return_request :: "string option \<Rightarrow> string list \<Rightarrow> raw_request" where
  "return_request header chunks =
     \<lparr>rr_method = ''POST'', rr_url = Some ''/checkout/return'', rr_cookie = header, rr_chunks = chunks\<rparr>"

text \<open>What the platform's parser makes of the target of the form: its path, whatever the base.\<close>

definition plain_target :: "(string \<Rightarrow> string \<Rightarrow> string option) \<Rightarrow> string \<Rightarrow> bool" where
  "plain_target new_url path \<longleftrightarrow> (\<forall>base. new_url path base = Some path)"

text \<open>
  What comes of a form with a reservation and its token, of at most 16 kB and cut into any chunks:
  the API is asked for the reservation, a refusal or an unreadable answer is reported, and otherwise
  the visitor is sent on with a sealed checkout of that reservation.
\<close>

definition return_outcome :: "server_env \<Rightarrow> saved_connection \<Rightarrow> string \<Rightarrow> string \<Rightarrow> upstream_answer \<Rightarrow> web_response" where
  "return_outcome env c i token answer =
     (case partner_result (sx_text env) answer of
        Inl e \<Rightarrow> sendError e
      | Inr v \<Rightarrow>
          (case js_dot ''event_id'' (Some v) of
             None \<Rightarrow> sendError type_error
           | Some event \<Rightarrow>
               (case cookieFor env (new_session env c i token event) of
                  None \<Rightarrow> sendError not_configured
                | Some cookie \<Rightarrow> redirect (sf_publicURL (sx_cfg env) @ ''/checkout'') (Some cookie))))"

definition reservation_known :: "upstream_answer \<Rightarrow> bool" where
  "reservation_known answer \<longleftrightarrow>
     (\<exists>status kvs. answer = Answered_With status (Some (JObj kvs)) \<and> 200 \<le> status \<and> status < 300)"

text \<open>Either an error is shown, never for a known reservation where cookies can be sealed, or the checkout is set.\<close>

lemma return_outcome_cases:
  "(\<exists>e. return_outcome env c i token answer = sendError e) \<and>
     \<not> (reservation_known answer \<and> encryptionKey (sx_box env) (sx_cfg env) \<noteq> None) \<or>
   (\<exists>event cookie. cookieFor env (new_session env c i token event) = Some cookie \<and>
      return_outcome env c i token answer = redirect (sf_publicURL (sx_cfg env) @ ''/checkout'') (Some cookie))"
  by (auto simp: return_outcome_def reservation_known_def partner_result_def js_dot_def cookieFor_def seal_def
      split: sum.splits option.splits)

lemma return_answered:
  assumes "concat chunks = form_text [(''reservation_id'', i), (''reservation_token'', token)]"
    and "length (concat chunks) \<le> 16384" and "prefix ''res_'' i" and "token \<noteq> []"
    and "activeConnection env header = Some c" and "sn_credential c \<noteq> []" and "plain_target new_url ''/checkout/return''"
  shows "\<exists>r. up_method r = ''GET'' \<and>
    up_url r = sf_apiBase (sx_cfg env) @ ''/api/v1/partner/reservations/'' @ encodeURIComponent i \<and>
    map_of (up_headers r) ''authorization'' = Some (''Bearer '' @ sn_credential c) \<and>
    run_act [[(t, answer)]] (listener new_url env site built exists_file (return_request header chunks)) =
      ([r], Some (Inr (return_outcome env c i token answer)))"
proof -
  have form: "read_body chunks = Some (form_text [(''reservation_id'', i), (''reservation_token'', token)])"
    using read_body_small [OF assms(2)] assms(1) by simp
  have "new_url ''/checkout/return'' base = Some ''/checkout/return''" for base using assms(7) by (simp add: plain_target_def)
  then show ?thesis
    using assms(3-6)
    by (simp add: listener_def route_request_def return_request_def checkoutReturn_def return_routes_def of_option_def form parse_form_back
        form_get_def partner_def partner_request_def get_options_def the_answer_def of_result_def redirect_sealed_def
        return_outcome_def split: sum.split option.split)
qed

lemma new_session_is_new:
  "distinct (map (sx_uuid env) [1, 2, 3]) \<Longrightarrow> new_checkout (new_session env c i token event)"
  by (auto simp: new_checkout_def new_session_def)

end
