(* ===== verification/Api_Types.thy ===== *)
theory Api_Types
  imports Js_Json
begin

text \<open>
  The TypeScript types in which the API's contract is written, and the JSON values of a type. The
  formats that the contract gives in comments (\<^verbatim>\<open>date-time\<close>, \<^verbatim>\<open>uuid\<close>) are no types.
\<close>

section \<open>Types\<close>

datatype ty =
    TUnknown | TNever | TNull | TString | TNumber | TBoolean
  | TConst string                \<comment> \<open>a string literal\<close>
  | TArray ty
  | TMap ty                      \<comment> \<open>\<open>{[key: string]: t}\<close>\<close>
  | TRecord "field list"
  | TUnion "ty list"
  | TBoth ty ty                  \<comment> \<open>an intersection\<close>
and field = Member (field_name: string) (field_required: bool) (field_type: ty)

definition field_names :: "field list \<Rightarrow> string list" where
  "field_names fs = map field_name fs"

text \<open>
  \<open>conforms exact t v\<close>: the value is of the type. An exact value has no field that its type does not
  name, as the compiler checks of a literal and the backend's decoder of a request.
\<close>

fun conforms :: "bool \<Rightarrow> ty \<Rightarrow> json \<Rightarrow> bool" and field_conforms :: "bool \<Rightarrow> json \<Rightarrow> field \<Rightarrow> bool" where
  "conforms exact TUnknown v = True"
| "conforms exact TNever v = False"
| "conforms exact TNull v = (v = JNull)"
| "conforms exact TString v = (case v of JStr _ \<Rightarrow> True | _ \<Rightarrow> False)"
| "conforms exact TNumber v = (case v of JNum _ \<Rightarrow> True | _ \<Rightarrow> False)"
| "conforms exact TBoolean v = (case v of JBool _ \<Rightarrow> True | _ \<Rightarrow> False)"
| "conforms exact (TConst s) v = (v = JStr s)"
| "conforms exact (TArray t) v = (case v of JArr xs \<Rightarrow> list_all (conforms exact t) xs | _ \<Rightarrow> False)"
| "conforms exact (TMap t) v = (case v of JObj kvs \<Rightarrow> list_all (conforms exact t) (map snd kvs) | _ \<Rightarrow> False)"
| "conforms exact (TRecord fs) v =
     (case v of
        JObj kvs \<Rightarrow> list_all (field_conforms exact v) fs \<and> (exact \<longrightarrow> list_all (\<lambda>k. k \<in> set (field_names fs)) (map fst kvs))
      | _ \<Rightarrow> False)"
| "conforms exact (TUnion ts) v = list_ex (\<lambda>t. conforms exact t v) ts"
| "conforms exact (TBoth t u) v = (conforms exact t v \<and> conforms exact u v)"
| "field_conforms exact v (Member n required t) =
     (case js_get n (Some v) of None \<Rightarrow> \<not> required | Some x \<Rightarrow> conforms exact t x)"

section \<open>Operations\<close>

record response =
  rp_headers :: "field list"
  rp_content :: "(string \<times> ty) list"   \<comment> \<open>by media type\<close>

definition json_answer :: "field list \<Rightarrow> ty \<Rightarrow> response" where
  "json_answer hs t = \<lparr>rp_headers = hs, rp_content = [(''application/json'', t)]\<rparr>"

datatype content = No_Content | Content ty | Optional_Content ty

text \<open>No operation takes cookies. A group of parameters that may be missing has no required one.\<close>

record operation =
  op_query :: "field list"
  op_header :: "field list"
  op_path :: "field list"
  op_content :: content
  op_responses :: "(string \<times> response) list"

end
