(* ===== verification/Api_Schemas.thy ===== *)
theory Api_Schemas
  imports Api_Types
begin

text \<open>
  The types that the API's contract names (\<^verbatim>\<open>packages/api-client/src/generated/schema.ts\<close>, the
  interface \<open>components\<close>): parameters, headers, schemas and shared responses, each after the
  types it mentions.
\<close>

definition AdminQuery_parameter :: ty where
  "AdminQuery_parameter = TString"

definition AdminState_parameter :: ty where
  "AdminState_parameter = TString"

definition AdminEventQuery_parameter :: ty where
  "AdminEventQuery_parameter = TString"

definition AdminLimit_parameter :: ty where
  "AdminLimit_parameter = TNumber"

definition AdminOffset_parameter :: ty where
  "AdminOffset_parameter = TNumber"

definition AdminUserID_parameter :: ty where
  "AdminUserID_parameter = TString"

definition XRequestID_parameter :: ty where
  "XRequestID_parameter = TString"

definition IdempotencyKey_parameter :: ty where
  "IdempotencyKey_parameter = TString"

definition ReservationToken_parameter :: ty where
  "ReservationToken_parameter = TString"

definition ReservationID_parameter :: ty where
  "ReservationID_parameter = TString"

definition TicketID_parameter :: ty where
  "TicketID_parameter = TString"

definition AllocationID_parameter :: ty where
  "AllocationID_parameter = TString"

definition AdmissionID_parameter :: ty where
  "AdmissionID_parameter = TString"

definition PartnerID_parameter :: ty where
  "PartnerID_parameter = TString"

definition WebhookEndpointID_parameter :: ty where
  "WebhookEndpointID_parameter = TString"

definition EventID_parameter :: ty where
  "EventID_parameter = TString"

definition XRequestID_header :: ty where
  "XRequestID_header = TString"

definition CacheControlNoStore_header :: ty where
  "CacheControlNoStore_header = TConst ''no-store''"

definition XContentTypeOptionsNoSniff_header :: ty where
  "XContentTypeOptionsNoSniff_header = TConst ''nosniff''"

definition ErrorResponse_schema :: ty where
  "ErrorResponse_schema =
     TRecord [Member ''error'' True (TRecord [Member ''code'' True TString, Member ''message'' True TString,
       Member ''request_id'' True TString, Member ''details'' True (TUnion [TMap TUnknown, TNull])])]"

definition PlatformAdminUser_schema :: ty where
  "PlatformAdminUser_schema =
     TRecord [Member ''id'' True TString, Member ''email'' True (TUnion [TString, TNull]),
       Member ''display_name'' True (TUnion [TString, TNull]), Member ''state'' True (TUnion [TConst ''ACTIVE'',
       TConst ''DISABLED'']), Member ''role'' True (TConst ''PLATFORM_ADMIN''),
       Member ''is_current_user'' True TBoolean, Member ''created_at'' False TString,
       Member ''updated_at'' False TString, Member ''invitation_sent'' False TBoolean]"

definition PlatformAdminUserPage_schema :: ty where
  "PlatformAdminUserPage_schema =
     TRecord [Member ''items'' True (TArray PlatformAdminUser_schema), Member ''total'' True TNumber,
       Member ''limit'' True TNumber, Member ''offset'' True TNumber]"

definition CreatePlatformAdminRequest_schema :: ty where
  "CreatePlatformAdminRequest_schema =
     TRecord [Member ''email'' True TString, Member ''display_name'' True TString]"

definition AdminReasonRequest_schema :: ty where
  "AdminReasonRequest_schema = TRecord [Member ''reason'' True TString]"

definition CreateVenueRequest_schema :: ty where
  "CreateVenueRequest_schema =
     TRecord [Member ''name'' True TString, Member ''address_text'' False TString,
       Member ''metadata'' False (TMap TUnknown)]"

definition SectionRequest_schema :: ty where
  "SectionRequest_schema =
     TRecord [Member ''object_key'' True TString, Member ''name'' True TString, Member ''kind'' True TString,
       Member ''sort_order'' False TNumber, Member ''metadata'' False (TMap TUnknown)]"

definition RowRequest_schema :: ty where
  "RowRequest_schema =
     TRecord [Member ''object_key'' True TString, Member ''section_key'' True TString, Member ''label'' True TString,
       Member ''sort_order'' False TNumber, Member ''metadata'' False (TMap TUnknown)]"

definition TableRequest_schema :: ty where
  "TableRequest_schema =
     TRecord [Member ''object_key'' True TString, Member ''section_key'' True TString, Member ''label'' True TString,
       Member ''metadata'' False (TMap TUnknown)]"

definition SeatRequest_schema :: ty where
  "SeatRequest_schema =
     TRecord [Member ''object_key'' True TString, Member ''section_key'' True TString,
       Member ''row_key'' False TString, Member ''table_key'' False TString, Member ''seat_label'' True TString,
       Member ''sort_order'' False TNumber, Member ''metadata'' False (TMap TUnknown)]"

definition GAZoneRequest_schema :: ty where
  "GAZoneRequest_schema =
     TRecord [Member ''object_key'' True TString, Member ''section_key'' True TString, Member ''name'' True TString,
       Member ''default_capacity'' False TNumber, Member ''metadata'' False (TMap TUnknown)]"

definition ReplaceLayoutRequest_schema :: ty where
  "ReplaceLayoutRequest_schema =
     TRecord [Member ''geometry'' True TUnknown, Member ''sections'' True (TArray SectionRequest_schema),
       Member ''rows'' False (TArray RowRequest_schema), Member ''tables'' False (TArray TableRequest_schema),
       Member ''seats'' False (TArray SeatRequest_schema), Member ''ga_zones'' False (TArray GAZoneRequest_schema)]"

definition CreateEventRequest_schema :: ty where
  "CreateEventRequest_schema =
     TRecord [Member ''venue_id'' True TString, Member ''name'' True TString, Member ''starts_at'' False TString,
       Member ''ends_at'' False TString, Member ''sales_open_at'' False TString,
       Member ''sales_close_at'' False TString, Member ''admission_open_at'' False TString,
       Member ''admission_close_at'' False TString, Member ''timezone_name'' False TString]"

definition UpdateEventRequest_schema :: ty where
  "UpdateEventRequest_schema =
     TRecord [Member ''name'' False TString, Member ''starts_at'' False TString, Member ''ends_at'' False TString,
       Member ''sales_open_at'' False TString, Member ''sales_close_at'' False TString,
       Member ''admission_open_at'' False TString, Member ''admission_close_at'' False TString,
       Member ''timezone_name'' False TString]"

definition MaterializeLayoutRequest_schema :: ty where
  "MaterializeLayoutRequest_schema = TRecord [Member ''layout_id'' True TString]"

definition TransactionPolicyRequest_schema :: ty where
  "TransactionPolicyRequest_schema =
     TRecord [Member ''hold_duration_seconds'' True TNumber, Member ''checkout_protection_seconds'' True TNumber,
       Member ''payment_retry_seconds'' True TNumber, Member ''reconciliation_seconds'' True TNumber,
       Member ''max_reservation_lifetime_seconds'' True TNumber, Member ''max_hold_quantity'' True TNumber,
       Member ''max_active_reservations_per_partner'' True TNumber,
       Member ''max_active_reservations_per_buyer_session'' True TNumber,
       Member ''allow_voided_inventory_rerelease'' True TBoolean]"

definition CreatePriceTierRequest_schema :: ty where
  "CreatePriceTierRequest_schema =
     TRecord [Member ''code'' True TString, Member ''name'' True TString, Member ''amount_minor'' True TNumber,
       Member ''currency'' True TString]"

definition UpdatePriceTierRequest_schema :: ty where
  "UpdatePriceTierRequest_schema =
     TRecord [Member ''name'' False TString, Member ''amount_minor'' False TNumber,
       Member ''state'' False (TUnion [TConst ''ACTIVE'', TConst ''RETIRED''])]"

definition PricingAssignmentRequest_schema :: ty where
  "PricingAssignmentRequest_schema =
     TRecord [Member ''price_tier_id'' True TString, Member ''section_object_keys'' False (TArray TString),
       Member ''reserved_object_keys'' False (TArray TString), Member ''ga_pool_object_keys'' False (TArray TString)]"

definition CreatePartnerRequest_schema :: ty where
  "CreatePartnerRequest_schema = TRecord [Member ''name'' True TString]"

definition GARestrictionTargetRequest_schema :: ty where
  "GARestrictionTargetRequest_schema =
     TRecord [Member ''inventory_id'' True TString, Member ''quantity'' True TNumber]"

definition CreateBlockRequest_schema :: ty where
  "CreateBlockRequest_schema =
     TRecord [Member ''purpose'' True TString, Member ''reason'' False TString,
       Member ''reserved_inventory_ids'' False (TArray TString),
       Member ''ga_targets'' False (TArray GARestrictionTargetRequest_schema)]"

definition ReleaseDestinationRequest_schema :: ty where
  "ReleaseDestinationRequest_schema =
     TRecord [Member ''kind'' True (TUnion [TConst ''SHARED'', TConst ''ALLOCATION'']),
       Member ''allocation_id'' False TString]"

definition CreateAllocationRequest_schema :: ty where
  "CreateAllocationRequest_schema =
     TRecord [Member ''mode'' True (TUnion [TConst ''CHANNEL'', TConst ''NON_PUBLIC'']),
       Member ''partner_id'' False TString, Member ''purpose'' True TString, Member ''reason'' False TString,
       Member ''release_destination'' False ReleaseDestinationRequest_schema,
       Member ''reserved_inventory_ids'' False (TArray TString),
       Member ''ga_targets'' False (TArray GARestrictionTargetRequest_schema)]"

definition ReclassifyAllocationRequest_schema :: ty where
  "ReclassifyAllocationRequest_schema =
     TRecord [Member ''mode'' True (TUnion [TConst ''CHANNEL'', TConst ''NON_PUBLIC'']),
       Member ''partner_id'' False TString]"

definition PartnerEvent_schema :: ty where
  "PartnerEvent_schema =
     TRecord [Member ''id'' True TString, Member ''name'' True TString,
       Member ''state'' True (TUnion [TConst ''DRAFT'', TConst ''ON_SALE'', TConst ''PAUSED'',
       TConst ''SALES_CLOSED'', TConst ''COMPLETED'', TConst ''CANCELLED'']),
       Member ''starts_at'' False (TUnion [TString, TNull]), Member ''ends_at'' False (TUnion [TString, TNull]),
       Member ''sales_open_at'' False (TUnion [TString, TNull]), Member ''sales_close_at'' False (TUnion [TString,
       TNull]), Member ''admission_open_at'' False (TUnion [TString, TNull]),
       Member ''admission_close_at'' False (TUnion [TString, TNull]),
       Member ''timezone_name'' False (TUnion [TString, TNull]), Member ''venue_name'' False (TUnion [TString,
       TNull]), Member ''address_text'' False (TUnion [TString, TNull]), Member ''server_time'' True TString]"

definition PartnerEventList_schema :: ty where
  "PartnerEventList_schema =
     TRecord [Member ''items'' True (TArray PartnerEvent_schema), Member ''total'' True TNumber,
       Member ''server_time'' True TString]"

definition Price_schema :: ty where
  "Price_schema = TRecord [Member ''amount_minor'' True TNumber, Member ''currency'' True TString]"

definition AvailabilityOffer_schema :: ty where
  "AvailabilityOffer_schema =
     TRecord [Member ''offer_id'' True TString, Member ''price'' True Price_schema]"

definition ReservedAvailability_schema :: ty where
  "ReservedAvailability_schema =
     TRecord [Member ''inventory_id'' True TString, Member ''section_id'' True TString,
       Member ''row'' True (TUnion [TString, TNull]), Member ''seat'' True (TUnion [TString, TNull]),
       Member ''sellability'' True TString, Member ''offer'' False AvailabilityOffer_schema]"

definition GAAvailabilityOffer_schema :: ty where
  "GAAvailabilityOffer_schema =
     TRecord [Member ''offer_id'' True TString, Member ''available_quantity'' True TNumber,
       Member ''price'' True Price_schema]"

definition GAAvailability_schema :: ty where
  "GAAvailability_schema =
     TRecord [Member ''inventory_id'' True TString, Member ''name'' True TString,
       Member ''offers'' True (TArray GAAvailabilityOffer_schema)]"

definition PartnerAvailability_schema :: ty where
  "PartnerAvailability_schema =
     TRecord [Member ''event_id'' True TString, Member ''as_of'' True TString, Member ''server_time'' True TString,
       Member ''reserved_units'' True (TArray ReservedAvailability_schema),
       Member ''ga_pools'' True (TArray GAAvailability_schema)]"

definition CancelEventRequest_schema :: ty where
  "CancelEventRequest_schema = TRecord [Member ''reason'' True TString]"

definition EventLifecycleResponse_schema :: ty where
  "EventLifecycleResponse_schema =
     TRecord [Member ''event_id'' True TString, Member ''state'' True (TUnion [TConst ''ON_SALE'', TConst ''PAUSED'',
       TConst ''SALES_CLOSED'', TConst ''COMPLETED'', TConst ''CANCELLED''])]"

definition GenericObject_schema :: ty where
  "GenericObject_schema = TMap TUnknown"

definition CreateReservationItemRequest_schema :: ty where
  "CreateReservationItemRequest_schema =
     TRecord [Member ''offer_id'' True TString, Member ''quantity'' True TNumber]"

definition CreateReservationRequest_schema :: ty where
  "CreateReservationRequest_schema =
     TRecord [Member ''event_id'' True TString, Member ''partner_customer_ref'' False TString,
       Member ''partner_order_ref'' False TString, Member ''buyer_session_ref'' False TString,
       Member ''items'' True (TArray CreateReservationItemRequest_schema)]"

definition AdjustReservationQuantityRequest_schema :: ty where
  "AdjustReservationQuantityRequest_schema =
     TRecord [Member ''reservation_item_id'' True TString, Member ''new_quantity'' True TNumber]"

definition ModifyReservationRequest_schema :: ty where
  "ModifyReservationRequest_schema =
     TUnion [TRecord [Member ''remove_item_ids'' False (TArray TString),
       Member ''adjust_quantities'' False (TArray AdjustReservationQuantityRequest_schema),
       Member ''add_items'' False (TArray CreateReservationItemRequest_schema)], TUnknown, TUnknown, TUnknown]"

definition PaymentFailureRequest_schema :: ty where
  "PaymentFailureRequest_schema =
     TRecord [Member ''checkout_attempt_id'' True TString, Member ''partner_payment_ref'' False TString,
       Member ''failure_code'' True TString, Member ''requested_disposition'' True (TUnion [TConst ''RETRY'',
       TConst ''RELEASE''])]"

definition ReservationItem_schema :: ty where
  "ReservationItem_schema =
     TRecord [Member ''id'' True TString, Member ''inventory_kind'' True (TUnion [TConst ''RESERVED'',
       TConst ''GA'']), Member ''inventory_id'' True TString, Member ''quantity'' True TNumber,
       Member ''unit_amount_minor'' True TNumber, Member ''currency'' True TString,
       Member ''price_tier_label'' True (TUnion [TString, TNull]), Member ''commercial_terms'' True (TMap TUnknown)]"

definition Reservation_schema :: ty where
  "Reservation_schema =
     TRecord [Member ''id'' True TString, Member ''event_id'' True TString,
       Member ''status'' True (TUnion [TConst ''HELD'', TConst ''COMMITTING'', TConst ''PAYMENT_RETRY'',
       TConst ''RECONCILING'', TConst ''CONFIRMED'', TConst ''RELEASED'', TConst ''EXPIRED'']),
       Member ''currency'' True TString, Member ''hold_expires_at'' True TString,
       Member ''payment_retry_expires_at'' False TString, Member ''reconciliation_expires_at'' False TString,
       Member ''max_lifetime_at'' True TString, Member ''server_time'' True TString,
       Member ''partner_customer_ref'' False TString, Member ''partner_order_ref'' False TString,
       Member ''buyer_session_ref'' False TString, Member ''confirmed_at'' False TString,
       Member ''released_at'' False TString, Member ''expired_at'' False TString,
       Member ''items'' True (TArray ReservationItem_schema), Member ''total'' True Price_schema]"

definition CreateReservationResponse_schema :: ty where
  "CreateReservationResponse_schema =
     TRecord [Member ''reservation'' True Reservation_schema, Member ''reservation_token'' True TString]"

definition CheckoutAttempt_schema :: ty where
  "CheckoutAttempt_schema =
     TRecord [Member ''id'' True TString, Member ''status'' True (TConst ''ACTIVE''),
       Member ''checkout_expires_at'' True TString]"

definition BeginCheckoutResponse_schema :: ty where
  "BeginCheckoutResponse_schema =
     TRecord [Member ''reservation_id'' True TString, Member ''status'' True (TConst ''COMMITTING''),
       Member ''checkout_attempt'' True CheckoutAttempt_schema, Member ''server_time'' True TString]"

definition PaymentFailureResponse_schema :: ty where
  "PaymentFailureResponse_schema =
     TRecord [Member ''reservation_id'' True TString, Member ''status'' True (TUnion [TConst ''PAYMENT_RETRY'',
       TConst ''RELEASED'']), Member ''payment_retry_expires_at'' False TString, Member ''server_time'' True TString]"

definition ReleaseReservationResponse_schema :: ty where
  "ReleaseReservationResponse_schema =
     TRecord [Member ''reservation_id'' True TString, Member ''status'' True (TConst ''RELEASED''),
       Member ''server_time'' True TString]"

definition EmptyObject_schema :: ty where
  "EmptyObject_schema = TMap TNever"

definition TicketSummary_schema :: ty where
  "TicketSummary_schema =
     TRecord [Member ''id'' True TString, Member ''status'' True (TUnion [TConst ''ACTIVE'', TConst ''VOIDED'']),
       Member ''credential_id'' True TString]"

definition ConfirmReservationRequest_schema :: ty where
  "ConfirmReservationRequest_schema =
     TRecord [Member ''checkout_attempt_id'' True TString, Member ''partner_order_ref'' False TString,
       Member ''partner_payment_ref'' False TString]"

definition ConfirmReservationResponse_schema :: ty where
  "ConfirmReservationResponse_schema =
     TRecord [Member ''reservation_id'' True TString, Member ''status'' True (TConst ''CONFIRMED''),
       Member ''sale'' True (TRecord [Member ''id'' True TString, Member ''confirmed_at'' True TString,
       Member ''partner_order_ref'' True TString, Member ''partner_payment_ref'' True TString]),
       Member ''tickets'' True (TArray TicketSummary_schema)]"

definition TicketCredentialResponse_schema :: ty where
  "TicketCredentialResponse_schema =
     TRecord [Member ''ticket_id'' True TString, Member ''credential_id'' True TString,
       Member ''status'' True (TConst ''ACTIVE''), Member ''qr_payload'' True TString,
       Member ''qr_url'' True TString]"

definition VoidTicketRequest_schema :: ty where
  "VoidTicketRequest_schema = TRecord [Member ''reason'' False TString]"

definition VoidTicketResponse_schema :: ty where
  "VoidTicketResponse_schema =
     TRecord [Member ''ticket_id'' True TString, Member ''status'' True (TConst ''VOIDED''),
       Member ''voided_at'' True TString, Member ''void_reason'' True TString]"

definition ReissueCredentialResponse_schema :: ty where
  "ReissueCredentialResponse_schema =
     TRecord [Member ''ticket_id'' True TString, Member ''credential_id'' True TString,
       Member ''status'' True (TConst ''ACTIVE''), Member ''issued_at'' True TString]"

definition ReReleaseTicketInventoryRequest_schema :: ty where
  "ReReleaseTicketInventoryRequest_schema =
     TRecord [Member ''destination_kind'' True (TUnion [TConst ''SHARED'', TConst ''ALLOCATION'']),
       Member ''destination_allocation_id'' False TString, Member ''reason'' True TString]"

definition ReReleaseTicketInventoryResponse_schema :: ty where
  "ReReleaseTicketInventoryResponse_schema =
     TRecord [Member ''ticket_id'' True TString, Member ''released_at'' True TString,
       Member ''destination_kind'' True (TUnion [TConst ''SHARED'', TConst ''ALLOCATION'']),
       Member ''destination_allocation_id'' False TString, Member ''reason'' True TString]"

definition IssueNonPublicRequest_schema :: ty where
  "IssueNonPublicRequest_schema =
     TRecord [Member ''recipient_ref'' False TString, Member ''reason'' False TString,
       Member ''reserved_inventory_ids'' False (TArray TString),
       Member ''ga_targets'' False (TArray GARestrictionTargetRequest_schema)]"

definition IssueNonPublicResponse_schema :: ty where
  "IssueNonPublicResponse_schema =
     TRecord [Member ''issuance_id'' True TString, Member ''event_id'' True TString,
       Member ''allocation_id'' True TString, Member ''issued_at'' True TString,
       Member ''tickets'' True (TArray TicketSummary_schema)]"

definition ScannerEvent_schema :: ty where
  "ScannerEvent_schema =
     TRecord [Member ''id'' True TString, Member ''name'' True TString,
       Member ''state'' True (TUnion [TConst ''DRAFT'', TConst ''ON_SALE'', TConst ''PAUSED'',
       TConst ''SALES_CLOSED'', TConst ''COMPLETED'', TConst ''CANCELLED'']),
       Member ''starts_at'' False (TUnion [TString, TNull]), Member ''ends_at'' False (TUnion [TString, TNull]),
       Member ''timezone_name'' False (TUnion [TString, TNull]), Member ''venue_name'' True TString,
       Member ''address_text'' False (TUnion [TString, TNull])]"

definition ScannerEventList_schema :: ty where
  "ScannerEventList_schema = TRecord [Member ''items'' True (TArray ScannerEvent_schema)]"

definition AdmissionScanRequest_schema :: ty where
  "AdmissionScanRequest_schema =
     TRecord [Member ''event_id'' True TString, Member ''credential'' True TString,
       Member ''gate_reference'' False TString]"

definition TicketDisplay_schema :: ty where
  "TicketDisplay_schema =
     TRecord [Member ''section'' False TString, Member ''row'' False TString, Member ''seat'' False TString]"

definition AdmissionScanResponse_schema :: ty where
  "AdmissionScanResponse_schema =
     TRecord [Member ''result'' True (TUnion [TConst ''ADMITTED'', TConst ''TICKET_ALREADY_ADMITTED'',
       TConst ''TICKET_INVALID'', TConst ''TICKET_VOID'', TConst ''CREDENTIAL_REVOKED'',
       TConst ''CREDENTIAL_SUPERSEDED'', TConst ''WRONG_EVENT'', TConst ''EVENT_CANCELLED'',
       TConst ''ADMISSION_NOT_OPEN'', TConst ''MANUAL_OVERRIDE_ADMITTED'']), Member ''scan_attempt_id'' True TString,
       Member ''admission_id'' False TString, Member ''ticket'' False (TRecord [Member ''id'' True TString,
       Member ''display'' True TicketDisplay_schema]), Member ''admitted_at'' False TString,
       Member ''previous_admission'' False (TRecord [Member ''admitted_at'' True TString,
       Member ''gate_reference'' True TString])]"

definition ReverseAdmissionRequest_schema :: ty where
  "ReverseAdmissionRequest_schema = TRecord [Member ''reason'' True TString]"

definition ReverseAdmissionResponse_schema :: ty where
  "ReverseAdmissionResponse_schema =
     TRecord [Member ''admission_id'' True TString, Member ''ticket_id'' True TString,
       Member ''status'' True (TConst ''REVERSED''), Member ''reversed_at'' True TString,
       Member ''reason'' True TString]"

definition ManualAdmissionOverrideRequest_schema :: ty where
  "ManualAdmissionOverrideRequest_schema =
     TRecord [Member ''event_id'' True TString, Member ''ticket_id'' True TString,
       Member ''gate_reference'' False TString, Member ''reason'' True TString]"

definition WebhookEndpoint_schema :: ty where
  "WebhookEndpoint_schema =
     TRecord [Member ''id'' True TString, Member ''partner_id'' True TString, Member ''url'' True TString,
       Member ''state'' True (TUnion [TConst ''ACTIVE'', TConst ''DISABLED'']),
       Member ''subscriptions'' True (TArray TString), Member ''created_at'' True TString]"

definition CreateWebhookEndpointRequest_schema :: ty where
  "CreateWebhookEndpointRequest_schema =
     TRecord [Member ''url'' True TString, Member ''subscriptions'' True (TArray TString)]"

definition CreateWebhookEndpointResponse_schema :: ty where
  "CreateWebhookEndpointResponse_schema =
     TBoth WebhookEndpoint_schema (TRecord [Member ''signing_secret'' True TString])"

definition ListWebhookEndpointsResponse_schema :: ty where
  "ListWebhookEndpointsResponse_schema = TRecord [Member ''items'' True (TArray WebhookEndpoint_schema)]"

definition RotateWebhookSecretResponse_schema :: ty where
  "RotateWebhookSecretResponse_schema =
     TRecord [Member ''endpoint_id'' True TString, Member ''signing_secret'' True TString,
       Member ''activated_at'' True TString]"

definition DisableWebhookEndpointRequest_schema :: ty where
  "DisableWebhookEndpointRequest_schema = TRecord [Member ''reason'' False TString]"

definition DisableWebhookEndpointResponse_schema :: ty where
  "DisableWebhookEndpointResponse_schema =
     TRecord [Member ''endpoint_id'' True TString, Member ''state'' True (TConst ''DISABLED'')]"

definition WebhookSubscriptionsRequest_schema :: ty where
  "WebhookSubscriptionsRequest_schema = TRecord [Member ''subscriptions'' True (TArray TString)]"

definition WebhookSubscriptionsResponse_schema :: ty where
  "WebhookSubscriptionsResponse_schema =
     TRecord [Member ''endpoint_id'' True TString, Member ''subscriptions'' True (TArray TString)]"

definition CreateSelectionSessionRequest_schema :: ty where
  "CreateSelectionSessionRequest_schema =
     TRecord [Member ''event_id'' True TString, Member ''buyer_session_ref'' False TString,
       Member ''return_url'' True TString]"

definition CreateSelectionSessionResponse_schema :: ty where
  "CreateSelectionSessionResponse_schema =
     TRecord [Member ''selection_session_id'' True TString, Member ''selection_url'' True TString,
       Member ''expires_at'' True TString]"

definition SelectionSession_schema :: ty where
  "SelectionSession_schema =
     TRecord [Member ''id'' True TString, Member ''event_id'' True TString,
       Member ''buyer_session_ref'' False TString, Member ''return_url'' True TString,
       Member ''state'' True (TUnion [TConst ''ACTIVE'', TConst ''REVOKED'', TConst ''EXPIRED'']),
       Member ''expires_at'' True TString, Member ''server_time'' False TString]"

definition SelectionReservationRequest_schema :: ty where
  "SelectionReservationRequest_schema =
     TRecord [Member ''items'' True (TArray CreateReservationItemRequest_schema)]"

definition SelectionReservation_schema :: ty where
  "SelectionReservation_schema =
     TBoth Reservation_schema (TRecord [Member ''reservation_token'' False TString,
       Member ''return_url'' False TString])"

definition ReportEventContext_schema :: ty where
  "ReportEventContext_schema =
     TRecord [Member ''id'' True TString, Member ''name'' True TString,
       Member ''state'' True (TUnion [TConst ''DRAFT'', TConst ''ON_SALE'', TConst ''PAUSED'',
       TConst ''SALES_CLOSED'', TConst ''COMPLETED'', TConst ''CANCELLED'']),
       Member ''starts_at'' False (TUnion [TString, TNull])]"

definition InventoryDimensions_schema :: ty where
  "InventoryDimensions_schema =
     TRecord [Member ''capacity'' True TNumber, Member ''available'' True TNumber, Member ''held'' True TNumber,
       Member ''committing'' True TNumber, Member ''payment_retry'' True TNumber,
       Member ''reconciling'' True TNumber, Member ''blocked'' True TNumber, Member ''allocated'' True TNumber,
       Member ''sold_current'' True TNumber, Member ''issued_current'' True TNumber,
       Member ''voided_tickets'' True TNumber, Member ''capacity_consumed'' True TNumber,
       Member ''historical_sold'' True TNumber, Member ''historical_issued'' True TNumber]"

definition InventoryReport_schema :: ty where
  "InventoryReport_schema =
     TRecord [Member ''generated_at'' True TString, Member ''event'' True ReportEventContext_schema,
       Member ''reserved_seating'' True InventoryDimensions_schema,
       Member ''general_admission'' True InventoryDimensions_schema,
       Member ''total'' True InventoryDimensions_schema]"

definition SalesReport_schema :: ty where
  "SalesReport_schema =
     TRecord [Member ''generated_at'' True TString, Member ''event'' True ReportEventContext_schema,
       Member ''sale_count'' True TNumber, Member ''historical_sale_quantity'' True TNumber,
       Member ''historical_amount_minor'' True TNumber, Member ''active_sold_tickets'' True TNumber,
       Member ''voided_sold_tickets'' True TNumber, Member ''current_sold_capacity'' True TNumber,
       Member ''currency'' True (TUnion [TString, TNull])]"

definition AdmissionReport_schema :: ty where
  "AdmissionReport_schema =
     TRecord [Member ''generated_at'' True TString, Member ''event'' True ReportEventContext_schema,
       Member ''active_admissions'' True TNumber, Member ''reversed_admissions'' True TNumber,
       Member ''scan_outcomes'' True (TMap TNumber)]"

definition AuditEvent_schema :: ty where
  "AuditEvent_schema =
     TRecord [Member ''id'' True TString, Member ''actor_kind'' True (TUnion [TConst ''USER'', TConst ''PARTNER'',
       TConst ''BUYER_SESSION'', TConst ''SYSTEM'']), Member ''actor_partner_id'' False TString,
       Member ''operation'' True TString, Member ''entity_type'' True TString, Member ''entity_id'' False TString,
       Member ''reservation_id'' False TString, Member ''sale_id'' False TString, Member ''ticket_id'' False TString,
       Member ''previous_state'' False (TUnion [TMap TNever, TArray TUnknown, TNull]),
       Member ''new_state'' False (TUnion [TMap TNever, TArray TUnknown, TNull]), Member ''reason'' False TString,
       Member ''correlation_id'' False TString, Member ''metadata'' True (TMap TUnknown),
       Member ''occurred_at'' True TString]"

definition AuditPage_schema :: ty where
  "AuditPage_schema =
     TRecord [Member ''items'' True (TArray AuditEvent_schema), Member ''next_cursor'' True (TUnion [TString,
       TNull])]"

definition OperationalAlert_schema :: ty where
  "OperationalAlert_schema =
     TRecord [Member ''code'' True TString, Member ''severity'' True (TUnion [TConst ''WARNING'',
       TConst ''CRITICAL'']), Member ''message'' True TString, Member ''value'' True TNumber]"

definition RequestMetrics_schema :: ty where
  "RequestMetrics_schema =
     TRecord [Member ''request_count'' True TNumber, Member ''error_count'' True TNumber,
       Member ''auth_anomaly_count'' True TNumber, Member ''conflict_response_count'' True TNumber,
       Member ''hold_conflict_count'' True TNumber, Member ''error_rate'' True TNumber,
       Member ''hold_conflict_rate'' True TNumber, Member ''average_latency_ms'' True TNumber,
       Member ''maximum_latency_ms'' True TNumber]"

definition OperationalMetrics_schema :: ty where
  "OperationalMetrics_schema =
     TBoth (TRecord [Member ''generated_at'' True TString, Member ''event'' True ReportEventContext_schema,
       Member ''requests'' True RequestMetrics_schema, Member ''reservation_states'' True (TMap TNumber),
       Member ''confirmed_sales'' True TNumber, Member ''confirmation_rate'' True TNumber,
       Member ''overdue_reconciliations'' True TNumber, Member ''due_reservation_work'' True TNumber,
       Member ''oldest_worker_lag_seconds'' True TNumber, Member ''pending_outbox'' True TNumber,
       Member ''oldest_outbox_lag_seconds'' True TNumber, Member ''webhook_failures'' True TNumber,
       Member ''webhook_dead_letters'' True TNumber, Member ''process_waiting_database_locks'' True TNumber,
       Member ''scan_outcomes'' True (TMap TNumber), Member ''alerts'' True (TArray OperationalAlert_schema),
       Member ''authority'' True (TConst ''ADVISORY_DERIVED_READ'')]) (TMap TUnknown)"

definition AllowedReturnURLsRequest_schema :: ty where
  "AllowedReturnURLsRequest_schema = TRecord [Member ''urls'' True (TArray TString)]"

definition AllowedReturnURLsResponse_schema :: ty where
  "AllowedReturnURLsResponse_schema =
     TRecord [Member ''partner_id'' True TString, Member ''urls'' True (TArray TString)]"

definition AdminReadResponse_response :: response where
  "AdminReadResponse_response =
     json_answer [Member ''X-Request-ID'' True XRequestID_header] GenericObject_schema"

definition EventLifecycleResponse_response :: response where
  "EventLifecycleResponse_response =
     json_answer [Member ''X-Request-ID'' True XRequestID_header] EventLifecycleResponse_schema"

definition ErrorResponse_response :: response where
  "ErrorResponse_response =
     json_answer [Member ''X-Request-ID'' True XRequestID_header] ErrorResponse_schema"

definition VoidTicketResponse_response :: response where
  "VoidTicketResponse_response =
     json_answer [Member ''X-Request-ID'' True XRequestID_header] VoidTicketResponse_schema"

definition ReissueCredentialResponse_response :: response where
  "ReissueCredentialResponse_response =
     json_answer [Member ''X-Request-ID'' True XRequestID_header] ReissueCredentialResponse_schema"

definition ReReleaseTicketInventoryResponse_response :: response where
  "ReReleaseTicketInventoryResponse_response =
     json_answer [Member ''X-Request-ID'' True XRequestID_header] ReReleaseTicketInventoryResponse_schema"

definition IssueNonPublicResponse_response :: response where
  "IssueNonPublicResponse_response =
     json_answer [Member ''X-Request-ID'' True XRequestID_header] IssueNonPublicResponse_schema"

end
