(* ===== verification/Api_Operations.thy ===== *)
theory Api_Operations
  imports Api_Schemas
begin

text \<open>
  The operations of the API's contract (the interface \<open>operations\<close> of \<^verbatim>\<open>schema.ts\<close>).
\<close>

definition adminGetDashboard :: operation where
  "adminGetDashboard =
     \<lparr>op_query = [],
      op_header = [Member ''X-Request-ID'' False XRequestID_parameter],
      op_path = [], op_content = No_Content,
      op_responses = [(''200'', AdminReadResponse_response), (''default'', ErrorResponse_response)]\<rparr>"

definition adminListPlatformAdmins :: operation where
  "adminListPlatformAdmins =
     \<lparr>op_query = [Member ''query'' False AdminQuery_parameter, Member ''state'' False AdminState_parameter,
       Member ''limit'' False AdminLimit_parameter, Member ''offset'' False AdminOffset_parameter],
      op_header = [Member ''X-Request-ID'' False XRequestID_parameter],
      op_path = [], op_content = No_Content,
      op_responses = [(''200'', json_answer [] PlatformAdminUserPage_schema), (''default'',
        ErrorResponse_response)]\<rparr>"

definition adminCreatePlatformAdmin :: operation where
  "adminCreatePlatformAdmin =
     \<lparr>op_query = [],
      op_header = [Member ''Idempotency-Key'' True IdempotencyKey_parameter,
        Member ''X-Request-ID'' False XRequestID_parameter],
      op_path = [], op_content = Content CreatePlatformAdminRequest_schema,
      op_responses = [(''201'', json_answer [] PlatformAdminUser_schema), (''default'',
        ErrorResponse_response)]\<rparr>"

definition adminDisablePlatformAdmin :: operation where
  "adminDisablePlatformAdmin =
     \<lparr>op_query = [],
      op_header = [Member ''Idempotency-Key'' True IdempotencyKey_parameter,
        Member ''X-Request-ID'' False XRequestID_parameter],
      op_path = [Member ''user_id'' True AdminUserID_parameter], op_content = Content AdminReasonRequest_schema,
      op_responses = [(''200'', AdminReadResponse_response), (''default'', ErrorResponse_response)]\<rparr>"

definition adminEnablePlatformAdmin :: operation where
  "adminEnablePlatformAdmin =
     \<lparr>op_query = [],
      op_header = [Member ''Idempotency-Key'' True IdempotencyKey_parameter,
        Member ''X-Request-ID'' False XRequestID_parameter],
      op_path = [Member ''user_id'' True AdminUserID_parameter], op_content = Content AdminReasonRequest_schema,
      op_responses = [(''200'', AdminReadResponse_response), (''default'', ErrorResponse_response)]\<rparr>"

definition adminListTickets :: operation where
  "adminListTickets =
     \<lparr>op_query = [Member ''query'' False AdminQuery_parameter, Member ''state'' False AdminState_parameter,
       Member ''event_id'' False AdminEventQuery_parameter, Member ''limit'' False AdminLimit_parameter,
       Member ''offset'' False AdminOffset_parameter],
      op_header = [Member ''X-Request-ID'' False XRequestID_parameter],
      op_path = [], op_content = No_Content,
      op_responses = [(''200'', AdminReadResponse_response), (''default'', ErrorResponse_response)]\<rparr>"

definition adminGetTicket :: operation where
  "adminGetTicket =
     \<lparr>op_query = [],
      op_header = [Member ''X-Request-ID'' False XRequestID_parameter],
      op_path = [Member ''ticket_id'' True TicketID_parameter], op_content = No_Content,
      op_responses = [(''200'', AdminReadResponse_response), (''default'', ErrorResponse_response)]\<rparr>"

definition adminListAdmissions :: operation where
  "adminListAdmissions =
     \<lparr>op_query = [Member ''event_id'' False AdminEventQuery_parameter,
       Member ''limit'' False AdminLimit_parameter, Member ''offset'' False AdminOffset_parameter],
      op_header = [Member ''X-Request-ID'' False XRequestID_parameter],
      op_path = [], op_content = No_Content,
      op_responses = [(''200'', AdminReadResponse_response), (''default'', ErrorResponse_response)]\<rparr>"

definition adminListAllWebhookEndpoints :: operation where
  "adminListAllWebhookEndpoints =
     \<lparr>op_query = [Member ''limit'' False AdminLimit_parameter, Member ''offset'' False AdminOffset_parameter],
      op_header = [Member ''X-Request-ID'' False XRequestID_parameter],
      op_path = [], op_content = No_Content,
      op_responses = [(''200'', AdminReadResponse_response), (''default'', ErrorResponse_response)]\<rparr>"

definition adminGetPartner :: operation where
  "adminGetPartner =
     \<lparr>op_query = [],
      op_header = [Member ''X-Request-ID'' False XRequestID_parameter],
      op_path = [Member ''partner_id'' True PartnerID_parameter], op_content = No_Content,
      op_responses = [(''200'', AdminReadResponse_response), (''default'', ErrorResponse_response)]\<rparr>"

definition adminGetEventConfiguration :: operation where
  "adminGetEventConfiguration =
     \<lparr>op_query = [],
      op_header = [Member ''X-Request-ID'' False XRequestID_parameter],
      op_path = [Member ''event_id'' True EventID_parameter], op_content = No_Content,
      op_responses = [(''200'', AdminReadResponse_response), (''default'', ErrorResponse_response)]\<rparr>"

definition adminListVenues :: operation where
  "adminListVenues =
     \<lparr>op_query = [],
      op_header = [Member ''X-Request-ID'' False TString],
      op_path = [], op_content = No_Content,
      op_responses = [(''2XX'', json_answer [Member ''X-Request-ID'' True XRequestID_header] GenericObject_schema),
        (''default'', json_answer [Member ''X-Request-ID'' True XRequestID_header] ErrorResponse_schema)]\<rparr>"

definition adminCreateVenue :: operation where
  "adminCreateVenue =
     \<lparr>op_query = [],
      op_header = [Member ''Idempotency-Key'' True TString, Member ''X-Request-ID'' False TString],
      op_path = [], op_content = Content CreateVenueRequest_schema,
      op_responses = [(''2XX'', json_answer [Member ''X-Request-ID'' True XRequestID_header] GenericObject_schema),
        (''default'', json_answer [Member ''X-Request-ID'' True XRequestID_header] ErrorResponse_schema)]\<rparr>"

definition adminGetVenue :: operation where
  "adminGetVenue =
     \<lparr>op_query = [],
      op_header = [Member ''X-Request-ID'' False TString],
      op_path = [Member ''venue_id'' True TString], op_content = No_Content,
      op_responses = [(''2XX'', json_answer [Member ''X-Request-ID'' True XRequestID_header] GenericObject_schema),
        (''default'', json_answer [Member ''X-Request-ID'' True XRequestID_header] ErrorResponse_schema)]\<rparr>"

definition adminListLayoutVersions :: operation where
  "adminListLayoutVersions =
     \<lparr>op_query = [],
      op_header = [Member ''X-Request-ID'' False TString],
      op_path = [Member ''venue_id'' True TString], op_content = No_Content,
      op_responses = [(''2XX'', json_answer [Member ''X-Request-ID'' True XRequestID_header] GenericObject_schema),
        (''default'', json_answer [Member ''X-Request-ID'' True XRequestID_header] ErrorResponse_schema)]\<rparr>"

definition adminCreateLayoutVersion :: operation where
  "adminCreateLayoutVersion =
     \<lparr>op_query = [],
      op_header = [Member ''Idempotency-Key'' True TString, Member ''X-Request-ID'' False TString],
      op_path = [Member ''venue_id'' True TString], op_content = No_Content,
      op_responses = [(''2XX'', json_answer [Member ''X-Request-ID'' True XRequestID_header] GenericObject_schema),
        (''default'', json_answer [Member ''X-Request-ID'' True XRequestID_header] ErrorResponse_schema)]\<rparr>"

definition adminGetVenueLayout :: operation where
  "adminGetVenueLayout =
     \<lparr>op_query = [],
      op_header = [Member ''X-Request-ID'' False TString],
      op_path = [Member ''layout_id'' True TString], op_content = No_Content,
      op_responses = [(''2XX'', json_answer [Member ''X-Request-ID'' True XRequestID_header] GenericObject_schema),
        (''default'', json_answer [Member ''X-Request-ID'' True XRequestID_header] ErrorResponse_schema)]\<rparr>"

definition adminReplaceVenueLayout :: operation where
  "adminReplaceVenueLayout =
     \<lparr>op_query = [],
      op_header = [Member ''Idempotency-Key'' True TString, Member ''X-Request-ID'' False TString],
      op_path = [Member ''layout_id'' True TString], op_content = Content ReplaceLayoutRequest_schema,
      op_responses = [(''2XX'', json_answer [Member ''X-Request-ID'' True XRequestID_header] GenericObject_schema),
        (''default'', json_answer [Member ''X-Request-ID'' True XRequestID_header] ErrorResponse_schema)]\<rparr>"

definition adminPublishVenueLayout :: operation where
  "adminPublishVenueLayout =
     \<lparr>op_query = [],
      op_header = [Member ''Idempotency-Key'' True TString, Member ''X-Request-ID'' False TString],
      op_path = [Member ''layout_id'' True TString], op_content = No_Content,
      op_responses = [(''2XX'', json_answer [Member ''X-Request-ID'' True XRequestID_header] GenericObject_schema),
        (''default'', json_answer [Member ''X-Request-ID'' True XRequestID_header] ErrorResponse_schema)]\<rparr>"

definition adminListEvents :: operation where
  "adminListEvents =
     \<lparr>op_query = [Member ''query'' False AdminQuery_parameter, Member ''state'' False AdminState_parameter,
       Member ''limit'' False AdminLimit_parameter, Member ''offset'' False AdminOffset_parameter],
      op_header = [Member ''X-Request-ID'' False XRequestID_parameter],
      op_path = [], op_content = No_Content,
      op_responses = [(''200'', AdminReadResponse_response), (''default'', ErrorResponse_response)]\<rparr>"

definition adminCreateEvent :: operation where
  "adminCreateEvent =
     \<lparr>op_query = [],
      op_header = [Member ''Idempotency-Key'' True TString, Member ''X-Request-ID'' False TString],
      op_path = [], op_content = Content CreateEventRequest_schema,
      op_responses = [(''2XX'', json_answer [Member ''X-Request-ID'' True XRequestID_header] GenericObject_schema),
        (''default'', json_answer [Member ''X-Request-ID'' True XRequestID_header] ErrorResponse_schema)]\<rparr>"

definition adminGetEvent :: operation where
  "adminGetEvent =
     \<lparr>op_query = [],
      op_header = [Member ''X-Request-ID'' False TString],
      op_path = [Member ''event_id'' True TString], op_content = No_Content,
      op_responses = [(''2XX'', json_answer [Member ''X-Request-ID'' True XRequestID_header] GenericObject_schema),
        (''default'', json_answer [Member ''X-Request-ID'' True XRequestID_header] ErrorResponse_schema)]\<rparr>"

definition adminUpdateEvent :: operation where
  "adminUpdateEvent =
     \<lparr>op_query = [],
      op_header = [Member ''Idempotency-Key'' True TString, Member ''X-Request-ID'' False TString],
      op_path = [Member ''event_id'' True TString], op_content = Content UpdateEventRequest_schema,
      op_responses = [(''2XX'', json_answer [Member ''X-Request-ID'' True XRequestID_header] GenericObject_schema),
        (''default'', json_answer [Member ''X-Request-ID'' True XRequestID_header] ErrorResponse_schema)]\<rparr>"

definition adminMaterializeEventLayout :: operation where
  "adminMaterializeEventLayout =
     \<lparr>op_query = [],
      op_header = [Member ''Idempotency-Key'' True TString, Member ''X-Request-ID'' False TString],
      op_path = [Member ''event_id'' True TString], op_content = Content MaterializeLayoutRequest_schema,
      op_responses = [(''2XX'', json_answer [Member ''X-Request-ID'' True XRequestID_header] GenericObject_schema),
        (''default'', json_answer [Member ''X-Request-ID'' True XRequestID_header] ErrorResponse_schema)]\<rparr>"

definition adminGetEventInventory :: operation where
  "adminGetEventInventory =
     \<lparr>op_query = [],
      op_header = [Member ''X-Request-ID'' False TString],
      op_path = [Member ''event_id'' True TString], op_content = No_Content,
      op_responses = [(''2XX'', json_answer [Member ''X-Request-ID'' True XRequestID_header] GenericObject_schema),
        (''default'', json_answer [Member ''X-Request-ID'' True XRequestID_header] ErrorResponse_schema)]\<rparr>"

definition adminConfigureTransactionPolicy :: operation where
  "adminConfigureTransactionPolicy =
     \<lparr>op_query = [],
      op_header = [Member ''Idempotency-Key'' True TString, Member ''X-Request-ID'' False TString],
      op_path = [Member ''event_id'' True TString], op_content = Content TransactionPolicyRequest_schema,
      op_responses = [(''2XX'', json_answer [Member ''X-Request-ID'' True XRequestID_header] GenericObject_schema),
        (''default'', json_answer [Member ''X-Request-ID'' True XRequestID_header] ErrorResponse_schema)]\<rparr>"

definition adminCreatePriceTier :: operation where
  "adminCreatePriceTier =
     \<lparr>op_query = [],
      op_header = [Member ''Idempotency-Key'' True TString, Member ''X-Request-ID'' False TString],
      op_path = [Member ''event_id'' True TString], op_content = Content CreatePriceTierRequest_schema,
      op_responses = [(''2XX'', json_answer [Member ''X-Request-ID'' True XRequestID_header] GenericObject_schema),
        (''default'', json_answer [Member ''X-Request-ID'' True XRequestID_header] ErrorResponse_schema)]\<rparr>"

definition adminUpdatePriceTier :: operation where
  "adminUpdatePriceTier =
     \<lparr>op_query = [],
      op_header = [Member ''Idempotency-Key'' True TString, Member ''X-Request-ID'' False TString],
      op_path = [Member ''event_id'' True TString, Member ''price_tier_id'' True TString], op_content = Content UpdatePriceTierRequest_schema,
      op_responses = [(''2XX'', json_answer [Member ''X-Request-ID'' True XRequestID_header] GenericObject_schema),
        (''default'', json_answer [Member ''X-Request-ID'' True XRequestID_header] ErrorResponse_schema)]\<rparr>"

definition adminAssignPricing :: operation where
  "adminAssignPricing =
     \<lparr>op_query = [],
      op_header = [Member ''Idempotency-Key'' True TString, Member ''X-Request-ID'' False TString],
      op_path = [Member ''event_id'' True TString], op_content = Content PricingAssignmentRequest_schema,
      op_responses = [(''2XX'', json_answer [Member ''X-Request-ID'' True XRequestID_header] GenericObject_schema),
        (''default'', json_answer [Member ''X-Request-ID'' True XRequestID_header] ErrorResponse_schema)]\<rparr>"

definition adminOpenSales :: operation where
  "adminOpenSales =
     \<lparr>op_query = [],
      op_header = [Member ''Idempotency-Key'' True TString, Member ''X-Request-ID'' False TString],
      op_path = [Member ''event_id'' True TString], op_content = No_Content,
      op_responses = [(''2XX'', json_answer [Member ''X-Request-ID'' True XRequestID_header] GenericObject_schema),
        (''default'', json_answer [Member ''X-Request-ID'' True XRequestID_header] ErrorResponse_schema)]\<rparr>"

definition adminPauseSales :: operation where
  "adminPauseSales =
     \<lparr>op_query = [],
      op_header = [Member ''Idempotency-Key'' True IdempotencyKey_parameter,
        Member ''X-Request-ID'' False XRequestID_parameter],
      op_path = [Member ''event_id'' True EventID_parameter], op_content = No_Content,
      op_responses = [(''2XX'', EventLifecycleResponse_response), (''default'', ErrorResponse_response)]\<rparr>"

definition adminResumeSales :: operation where
  "adminResumeSales =
     \<lparr>op_query = [],
      op_header = [Member ''Idempotency-Key'' True IdempotencyKey_parameter,
        Member ''X-Request-ID'' False XRequestID_parameter],
      op_path = [Member ''event_id'' True EventID_parameter], op_content = No_Content,
      op_responses = [(''2XX'', EventLifecycleResponse_response), (''default'', ErrorResponse_response)]\<rparr>"

definition adminCloseSales :: operation where
  "adminCloseSales =
     \<lparr>op_query = [],
      op_header = [Member ''Idempotency-Key'' True IdempotencyKey_parameter,
        Member ''X-Request-ID'' False XRequestID_parameter],
      op_path = [Member ''event_id'' True EventID_parameter], op_content = No_Content,
      op_responses = [(''2XX'', EventLifecycleResponse_response), (''default'', ErrorResponse_response)]\<rparr>"

definition adminCancelEvent :: operation where
  "adminCancelEvent =
     \<lparr>op_query = [],
      op_header = [Member ''Idempotency-Key'' True IdempotencyKey_parameter,
        Member ''X-Request-ID'' False XRequestID_parameter],
      op_path = [Member ''event_id'' True EventID_parameter], op_content = Content CancelEventRequest_schema,
      op_responses = [(''2XX'', EventLifecycleResponse_response), (''default'', ErrorResponse_response)]\<rparr>"

definition adminCompleteEvent :: operation where
  "adminCompleteEvent =
     \<lparr>op_query = [],
      op_header = [Member ''Idempotency-Key'' True IdempotencyKey_parameter,
        Member ''X-Request-ID'' False XRequestID_parameter],
      op_path = [Member ''event_id'' True EventID_parameter], op_content = No_Content,
      op_responses = [(''2XX'', EventLifecycleResponse_response), (''default'', ErrorResponse_response)]\<rparr>"

definition adminListPartners :: operation where
  "adminListPartners =
     \<lparr>op_query = [Member ''query'' False AdminQuery_parameter, Member ''state'' False AdminState_parameter,
       Member ''limit'' False AdminLimit_parameter, Member ''offset'' False AdminOffset_parameter],
      op_header = [Member ''X-Request-ID'' False XRequestID_parameter],
      op_path = [], op_content = No_Content,
      op_responses = [(''200'', AdminReadResponse_response), (''default'', ErrorResponse_response)]\<rparr>"

definition adminCreatePartner :: operation where
  "adminCreatePartner =
     \<lparr>op_query = [],
      op_header = [Member ''Idempotency-Key'' True TString, Member ''X-Request-ID'' False TString],
      op_path = [], op_content = Content CreatePartnerRequest_schema,
      op_responses = [(''2XX'', json_answer [Member ''X-Request-ID'' True XRequestID_header] GenericObject_schema),
        (''default'', json_answer [Member ''X-Request-ID'' True XRequestID_header] ErrorResponse_schema)]\<rparr>"

definition adminCreatePartnerCredential :: operation where
  "adminCreatePartnerCredential =
     \<lparr>op_query = [],
      op_header = [Member ''Idempotency-Key'' True TString, Member ''X-Request-ID'' False TString],
      op_path = [Member ''partner_id'' True TString], op_content = No_Content,
      op_responses = [(''2XX'', json_answer [Member ''X-Request-ID'' True XRequestID_header] GenericObject_schema),
        (''default'', json_answer [Member ''X-Request-ID'' True XRequestID_header] ErrorResponse_schema)]\<rparr>"

definition adminRevokePartnerCredential :: operation where
  "adminRevokePartnerCredential =
     \<lparr>op_query = [],
      op_header = [Member ''Idempotency-Key'' True TString, Member ''X-Request-ID'' False TString],
      op_path = [Member ''credential_id'' True TString], op_content = No_Content,
      op_responses = [(''2XX'', json_answer [Member ''X-Request-ID'' True XRequestID_header] GenericObject_schema),
        (''default'', json_answer [Member ''X-Request-ID'' True XRequestID_header] ErrorResponse_schema)]\<rparr>"

definition adminDisablePartner :: operation where
  "adminDisablePartner =
     \<lparr>op_query = [],
      op_header = [Member ''Idempotency-Key'' True TString, Member ''X-Request-ID'' False TString],
      op_path = [Member ''partner_id'' True TString], op_content = No_Content,
      op_responses = [(''2XX'', json_answer [Member ''X-Request-ID'' True XRequestID_header] GenericObject_schema),
        (''default'', json_answer [Member ''X-Request-ID'' True XRequestID_header] ErrorResponse_schema)]\<rparr>"

definition adminEnablePartner :: operation where
  "adminEnablePartner =
     \<lparr>op_query = [],
      op_header = [Member ''Idempotency-Key'' True TString, Member ''X-Request-ID'' False TString],
      op_path = [Member ''partner_id'' True TString], op_content = No_Content,
      op_responses = [(''2XX'', json_answer [Member ''X-Request-ID'' True XRequestID_header] GenericObject_schema),
        (''default'', json_answer [Member ''X-Request-ID'' True XRequestID_header] ErrorResponse_schema)]\<rparr>"

definition adminEnablePartnerEventAccess :: operation where
  "adminEnablePartnerEventAccess =
     \<lparr>op_query = [],
      op_header = [Member ''Idempotency-Key'' True TString, Member ''X-Request-ID'' False TString],
      op_path = [Member ''event_id'' True TString, Member ''partner_id'' True TString], op_content = No_Content,
      op_responses = [(''2XX'', json_answer [Member ''X-Request-ID'' True XRequestID_header] GenericObject_schema),
        (''default'', json_answer [Member ''X-Request-ID'' True XRequestID_header] ErrorResponse_schema)]\<rparr>"

definition adminDisablePartnerEventAccess :: operation where
  "adminDisablePartnerEventAccess =
     \<lparr>op_query = [],
      op_header = [Member ''Idempotency-Key'' True TString, Member ''X-Request-ID'' False TString],
      op_path = [Member ''event_id'' True TString, Member ''partner_id'' True TString], op_content = No_Content,
      op_responses = [(''2XX'', json_answer [Member ''X-Request-ID'' True XRequestID_header] GenericObject_schema),
        (''default'', json_answer [Member ''X-Request-ID'' True XRequestID_header] ErrorResponse_schema)]\<rparr>"

definition adminCreateBlock :: operation where
  "adminCreateBlock =
     \<lparr>op_query = [],
      op_header = [Member ''Idempotency-Key'' True TString, Member ''X-Request-ID'' False TString],
      op_path = [Member ''event_id'' True TString], op_content = Content CreateBlockRequest_schema,
      op_responses = [(''2XX'', json_answer [Member ''X-Request-ID'' True XRequestID_header] GenericObject_schema),
        (''default'', json_answer [Member ''X-Request-ID'' True XRequestID_header] ErrorResponse_schema)]\<rparr>"

definition adminReleaseBlock :: operation where
  "adminReleaseBlock =
     \<lparr>op_query = [],
      op_header = [Member ''Idempotency-Key'' True TString, Member ''X-Request-ID'' False TString],
      op_path = [Member ''block_id'' True TString], op_content = No_Content,
      op_responses = [(''2XX'', json_answer [Member ''X-Request-ID'' True XRequestID_header] GenericObject_schema),
        (''default'', json_answer [Member ''X-Request-ID'' True XRequestID_header] ErrorResponse_schema)]\<rparr>"

definition adminListInventoryRestrictions :: operation where
  "adminListInventoryRestrictions =
     \<lparr>op_query = [],
      op_header = [Member ''X-Request-ID'' False TString],
      op_path = [Member ''event_id'' True TString], op_content = No_Content,
      op_responses = [(''2XX'', json_answer [Member ''X-Request-ID'' True XRequestID_header] GenericObject_schema),
        (''default'', ErrorResponse_response)]\<rparr>"

definition adminCreateAllocation :: operation where
  "adminCreateAllocation =
     \<lparr>op_query = [],
      op_header = [Member ''Idempotency-Key'' True TString, Member ''X-Request-ID'' False TString],
      op_path = [Member ''event_id'' True TString], op_content = Content CreateAllocationRequest_schema,
      op_responses = [(''2XX'', json_answer [Member ''X-Request-ID'' True XRequestID_header] GenericObject_schema),
        (''default'', json_answer [Member ''X-Request-ID'' True XRequestID_header] ErrorResponse_schema)]\<rparr>"

definition adminReleaseAllocation :: operation where
  "adminReleaseAllocation =
     \<lparr>op_query = [],
      op_header = [Member ''Idempotency-Key'' True TString, Member ''X-Request-ID'' False TString],
      op_path = [Member ''allocation_id'' True TString], op_content = No_Content,
      op_responses = [(''2XX'', json_answer [Member ''X-Request-ID'' True XRequestID_header] GenericObject_schema),
        (''default'', json_answer [Member ''X-Request-ID'' True XRequestID_header] ErrorResponse_schema)]\<rparr>"

definition adminReclassifyAllocation :: operation where
  "adminReclassifyAllocation =
     \<lparr>op_query = [],
      op_header = [Member ''Idempotency-Key'' True TString, Member ''X-Request-ID'' False TString],
      op_path = [Member ''allocation_id'' True TString], op_content = Content ReclassifyAllocationRequest_schema,
      op_responses = [(''2XX'', json_answer [Member ''X-Request-ID'' True XRequestID_header] GenericObject_schema),
        (''default'', json_answer [Member ''X-Request-ID'' True XRequestID_header] ErrorResponse_schema)]\<rparr>"

definition partnerListEvents :: operation where
  "partnerListEvents =
     \<lparr>op_query = [],
      op_header = [Member ''X-Request-ID'' False XRequestID_parameter],
      op_path = [], op_content = No_Content,
      op_responses = [(''200'',
        json_answer [Member ''X-Request-ID'' True XRequestID_header] PartnerEventList_schema), (''default'',
        ErrorResponse_response)]\<rparr>"

definition partnerGetEvent :: operation where
  "partnerGetEvent =
     \<lparr>op_query = [],
      op_header = [Member ''X-Request-ID'' False TString],
      op_path = [Member ''event_id'' True TString], op_content = No_Content,
      op_responses = [(''2XX'', json_answer [Member ''X-Request-ID'' True XRequestID_header] PartnerEvent_schema),
        (''default'', json_answer [Member ''X-Request-ID'' True XRequestID_header] ErrorResponse_schema)]\<rparr>"

definition partnerGetEventLayout :: operation where
  "partnerGetEventLayout =
     \<lparr>op_query = [],
      op_header = [Member ''X-Request-ID'' False TString],
      op_path = [Member ''event_id'' True TString], op_content = No_Content,
      op_responses = [(''2XX'', json_answer [Member ''X-Request-ID'' True XRequestID_header] GenericObject_schema),
        (''default'', json_answer [Member ''X-Request-ID'' True XRequestID_header] ErrorResponse_schema)]\<rparr>"

definition partnerGetAvailability :: operation where
  "partnerGetAvailability =
     \<lparr>op_query = [],
      op_header = [Member ''X-Request-ID'' False TString],
      op_path = [Member ''event_id'' True TString], op_content = No_Content,
      op_responses = [(''2XX'',
        json_answer [Member ''X-Request-ID'' True XRequestID_header] PartnerAvailability_schema), (''default'',
        json_answer [Member ''X-Request-ID'' True XRequestID_header] ErrorResponse_schema)]\<rparr>"

definition partnerCreateReservation :: operation where
  "partnerCreateReservation =
     \<lparr>op_query = [],
      op_header = [Member ''Idempotency-Key'' True TString, Member ''X-Request-ID'' False TString],
      op_path = [], op_content = Content CreateReservationRequest_schema,
      op_responses = [(''201'', json_answer [Member ''X-Request-ID'' True XRequestID_header,
        Member ''Cache-Control'' True CacheControlNoStore_header] CreateReservationResponse_schema), (''default'',
        json_answer [Member ''X-Request-ID'' True XRequestID_header] ErrorResponse_schema)]\<rparr>"

definition partnerGetReservation :: operation where
  "partnerGetReservation =
     \<lparr>op_query = [],
      op_header = [Member ''X-Request-ID'' False TString],
      op_path = [Member ''reservation_id'' True TString], op_content = No_Content,
      op_responses = [(''200'', json_answer [Member ''X-Request-ID'' True XRequestID_header,
        Member ''Cache-Control'' True CacheControlNoStore_header] Reservation_schema), (''default'',
        json_answer [Member ''X-Request-ID'' True XRequestID_header] ErrorResponse_schema)]\<rparr>"

definition partnerModifyReservation :: operation where
  "partnerModifyReservation =
     \<lparr>op_query = [],
      op_header = [Member ''Idempotency-Key'' True TString, Member ''X-TktSync-Reservation-Token'' True TString,
        Member ''X-Request-ID'' False TString],
      op_path = [Member ''reservation_id'' True TString], op_content = Content ModifyReservationRequest_schema,
      op_responses = [(''200'', json_answer [Member ''X-Request-ID'' True XRequestID_header,
        Member ''Cache-Control'' True CacheControlNoStore_header] Reservation_schema), (''default'',
        json_answer [Member ''X-Request-ID'' True XRequestID_header] ErrorResponse_schema)]\<rparr>"

definition partnerBeginReservationCheckout :: operation where
  "partnerBeginReservationCheckout =
     \<lparr>op_query = [],
      op_header = [Member ''Idempotency-Key'' True TString, Member ''X-TktSync-Reservation-Token'' True TString,
        Member ''X-Request-ID'' False TString],
      op_path = [Member ''reservation_id'' True TString], op_content = No_Content,
      op_responses = [(''200'', json_answer [Member ''X-Request-ID'' True XRequestID_header,
        Member ''Cache-Control'' True CacheControlNoStore_header] BeginCheckoutResponse_schema), (''default'',
        json_answer [Member ''X-Request-ID'' True XRequestID_header] ErrorResponse_schema)]\<rparr>"

definition partnerReportReservationPaymentFailure :: operation where
  "partnerReportReservationPaymentFailure =
     \<lparr>op_query = [],
      op_header = [Member ''Idempotency-Key'' True TString, Member ''X-TktSync-Reservation-Token'' True TString,
        Member ''X-Request-ID'' False TString],
      op_path = [Member ''reservation_id'' True TString], op_content = Content PaymentFailureRequest_schema,
      op_responses = [(''200'', json_answer [Member ''X-Request-ID'' True XRequestID_header,
        Member ''Cache-Control'' True CacheControlNoStore_header] PaymentFailureResponse_schema), (''default'',
        json_answer [Member ''X-Request-ID'' True XRequestID_header] ErrorResponse_schema)]\<rparr>"

definition partnerReleaseReservation :: operation where
  "partnerReleaseReservation =
     \<lparr>op_query = [],
      op_header = [Member ''Idempotency-Key'' True TString, Member ''X-TktSync-Reservation-Token'' True TString,
        Member ''X-Request-ID'' False TString],
      op_path = [Member ''reservation_id'' True TString], op_content = No_Content,
      op_responses = [(''200'', json_answer [Member ''X-Request-ID'' True XRequestID_header,
        Member ''Cache-Control'' True CacheControlNoStore_header] ReleaseReservationResponse_schema), (''default'',
        json_answer [Member ''X-Request-ID'' True XRequestID_header] ErrorResponse_schema)]\<rparr>"

definition partnerConfirmReservation :: operation where
  "partnerConfirmReservation =
     \<lparr>op_query = [],
      op_header = [Member ''Idempotency-Key'' True IdempotencyKey_parameter,
        Member ''X-TktSync-Reservation-Token'' True ReservationToken_parameter,
        Member ''X-Request-ID'' False XRequestID_parameter],
      op_path = [Member ''reservation_id'' True ReservationID_parameter], op_content = Content ConfirmReservationRequest_schema,
      op_responses = [(''200'',
        json_answer [Member ''X-Request-ID'' True XRequestID_header] ConfirmReservationResponse_schema),
        (''default'', ErrorResponse_response)]\<rparr>"

definition partnerGetTicketCredential :: operation where
  "partnerGetTicketCredential =
     \<lparr>op_query = [],
      op_header = [Member ''X-Request-ID'' False XRequestID_parameter],
      op_path = [Member ''ticket_id'' True TicketID_parameter], op_content = No_Content,
      op_responses = [(''200'', json_answer [Member ''X-Request-ID'' True XRequestID_header,
        Member ''Cache-Control'' True CacheControlNoStore_header] TicketCredentialResponse_schema), (''default'',
        ErrorResponse_response)]\<rparr>"

definition partnerGetTicketQR :: operation where
  "partnerGetTicketQR =
     \<lparr>op_query = [],
      op_header = [Member ''X-Request-ID'' False XRequestID_parameter],
      op_path = [Member ''ticket_id'' True TicketID_parameter], op_content = No_Content,
      op_responses = [(''200'', \<lparr>rp_headers = [Member ''X-Request-ID'' True XRequestID_header,
        Member ''Cache-Control'' True CacheControlNoStore_header,
        Member ''X-Content-Type-Options'' True XContentTypeOptionsNoSniff_header], rp_content = [(''image/svg+xml'',
        TString)]\<rparr>), (''default'', ErrorResponse_response)]\<rparr>"

definition getHostedTicketQR :: operation where
  "getHostedTicketQR =
     \<lparr>op_query = [],
      op_header = [Member ''X-Request-ID'' False XRequestID_parameter],
      op_path = [Member ''capability'' True TString], op_content = No_Content,
      op_responses = [(''200'', \<lparr>rp_headers = [Member ''X-Request-ID'' True XRequestID_header,
        Member ''Cache-Control'' True CacheControlNoStore_header,
        Member ''X-Content-Type-Options'' True XContentTypeOptionsNoSniff_header], rp_content = [(''image/svg+xml'',
        TString)]\<rparr>), (''default'', ErrorResponse_response)]\<rparr>"

definition partnerVoidTicket :: operation where
  "partnerVoidTicket =
     \<lparr>op_query = [],
      op_header = [Member ''Idempotency-Key'' True IdempotencyKey_parameter,
        Member ''X-Request-ID'' False XRequestID_parameter],
      op_path = [Member ''ticket_id'' True TicketID_parameter], op_content = Optional_Content VoidTicketRequest_schema,
      op_responses = [(''200'', VoidTicketResponse_response), (''default'', ErrorResponse_response)]\<rparr>"

definition partnerReissueTicketCredential :: operation where
  "partnerReissueTicketCredential =
     \<lparr>op_query = [],
      op_header = [Member ''Idempotency-Key'' True IdempotencyKey_parameter,
        Member ''X-Request-ID'' False XRequestID_parameter],
      op_path = [Member ''ticket_id'' True TicketID_parameter], op_content = Optional_Content EmptyObject_schema,
      op_responses = [(''200'', ReissueCredentialResponse_response), (''default'', ErrorResponse_response)]\<rparr>"

definition partnerReReleaseTicketInventory :: operation where
  "partnerReReleaseTicketInventory =
     \<lparr>op_query = [],
      op_header = [Member ''Idempotency-Key'' True IdempotencyKey_parameter,
        Member ''X-Request-ID'' False XRequestID_parameter],
      op_path = [Member ''ticket_id'' True TicketID_parameter], op_content = Content ReReleaseTicketInventoryRequest_schema,
      op_responses = [(''200'', ReReleaseTicketInventoryResponse_response), (''default'',
        ErrorResponse_response)]\<rparr>"

definition adminIssueNonPublicAllocation :: operation where
  "adminIssueNonPublicAllocation =
     \<lparr>op_query = [],
      op_header = [Member ''Idempotency-Key'' True IdempotencyKey_parameter,
        Member ''X-Request-ID'' False XRequestID_parameter],
      op_path = [Member ''allocation_id'' True AllocationID_parameter], op_content = Content IssueNonPublicRequest_schema,
      op_responses = [(''201'', IssueNonPublicResponse_response), (''default'', ErrorResponse_response)]\<rparr>"

definition adminGetTicketCredential :: operation where
  "adminGetTicketCredential =
     \<lparr>op_query = [],
      op_header = [Member ''X-Request-ID'' False XRequestID_parameter],
      op_path = [Member ''ticket_id'' True TicketID_parameter], op_content = No_Content,
      op_responses = [(''200'', json_answer [Member ''X-Request-ID'' True XRequestID_header,
        Member ''Cache-Control'' True CacheControlNoStore_header] TicketCredentialResponse_schema), (''default'',
        ErrorResponse_response)]\<rparr>"

definition adminVoidTicket :: operation where
  "adminVoidTicket =
     \<lparr>op_query = [],
      op_header = [Member ''Idempotency-Key'' True IdempotencyKey_parameter,
        Member ''X-Request-ID'' False XRequestID_parameter],
      op_path = [Member ''ticket_id'' True TicketID_parameter], op_content = Content VoidTicketRequest_schema,
      op_responses = [(''200'', VoidTicketResponse_response), (''default'', ErrorResponse_response)]\<rparr>"

definition adminReissueTicketCredential :: operation where
  "adminReissueTicketCredential =
     \<lparr>op_query = [],
      op_header = [Member ''Idempotency-Key'' True IdempotencyKey_parameter,
        Member ''X-Request-ID'' False XRequestID_parameter],
      op_path = [Member ''ticket_id'' True TicketID_parameter], op_content = Content EmptyObject_schema,
      op_responses = [(''200'', ReissueCredentialResponse_response), (''default'', ErrorResponse_response)]\<rparr>"

definition adminReReleaseTicketInventory :: operation where
  "adminReReleaseTicketInventory =
     \<lparr>op_query = [],
      op_header = [Member ''Idempotency-Key'' True IdempotencyKey_parameter,
        Member ''X-Request-ID'' False XRequestID_parameter],
      op_path = [Member ''ticket_id'' True TicketID_parameter], op_content = Content ReReleaseTicketInventoryRequest_schema,
      op_responses = [(''200'', ReReleaseTicketInventoryResponse_response), (''default'',
        ErrorResponse_response)]\<rparr>"

definition admissionListAuthorizedEvents :: operation where
  "admissionListAuthorizedEvents =
     \<lparr>op_query = [],
      op_header = [],
      op_path = [], op_content = No_Content,
      op_responses = [(''200'', json_answer [Member ''X-Request-ID'' True XRequestID_header,
        Member ''Cache-Control'' True CacheControlNoStore_header] ScannerEventList_schema), (''default'',
        ErrorResponse_response)]\<rparr>"

definition admissionValidateAndAdmit :: operation where
  "admissionValidateAndAdmit =
     \<lparr>op_query = [],
      op_header = [Member ''Idempotency-Key'' True IdempotencyKey_parameter,
        Member ''X-Request-ID'' False XRequestID_parameter],
      op_path = [], op_content = Content AdmissionScanRequest_schema,
      op_responses = [(''200'', json_answer [Member ''X-Request-ID'' True XRequestID_header,
        Member ''Cache-Control'' True CacheControlNoStore_header] AdmissionScanResponse_schema), (''default'',
        ErrorResponse_response)]\<rparr>"

definition adminReverseAdmission :: operation where
  "adminReverseAdmission =
     \<lparr>op_query = [],
      op_header = [Member ''Idempotency-Key'' True IdempotencyKey_parameter,
        Member ''X-Request-ID'' False XRequestID_parameter],
      op_path = [Member ''admission_id'' True AdmissionID_parameter], op_content = Content ReverseAdmissionRequest_schema,
      op_responses = [(''200'',
        json_answer [Member ''X-Request-ID'' True XRequestID_header] ReverseAdmissionResponse_schema), (''default'',
        ErrorResponse_response)]\<rparr>"

definition adminManualAdmissionOverride :: operation where
  "adminManualAdmissionOverride =
     \<lparr>op_query = [],
      op_header = [Member ''Idempotency-Key'' True IdempotencyKey_parameter,
        Member ''X-Request-ID'' False XRequestID_parameter],
      op_path = [], op_content = Content ManualAdmissionOverrideRequest_schema,
      op_responses = [(''200'',
        json_answer [Member ''X-Request-ID'' True XRequestID_header] AdmissionScanResponse_schema), (''default'',
        ErrorResponse_response)]\<rparr>"

definition realtimeStream :: operation where
  "realtimeStream =
     \<lparr>op_query = [Member ''event_id'' True TString, Member ''audience'' True (TUnion [TConst ''admin'',
       TConst ''scanner'', TConst ''selection''])],
      op_header = [Member ''X-Request-ID'' False XRequestID_parameter],
      op_path = [], op_content = No_Content,
      op_responses = [(''200'', \<lparr>rp_headers = [Member ''X-Request-ID'' True XRequestID_header,
        Member ''Cache-Control'' True CacheControlNoStore_header], rp_content = [(''text/event-stream'',
        TString)]\<rparr>), (''default'', ErrorResponse_response)]\<rparr>"

definition adminListWebhookEndpoints :: operation where
  "adminListWebhookEndpoints =
     \<lparr>op_query = [],
      op_header = [Member ''X-Request-ID'' False XRequestID_parameter],
      op_path = [Member ''partner_id'' True PartnerID_parameter], op_content = No_Content,
      op_responses = [(''200'',
        json_answer [Member ''X-Request-ID'' True XRequestID_header] ListWebhookEndpointsResponse_schema),
        (''default'', ErrorResponse_response)]\<rparr>"

definition adminCreateWebhookEndpoint :: operation where
  "adminCreateWebhookEndpoint =
     \<lparr>op_query = [],
      op_header = [Member ''Idempotency-Key'' True IdempotencyKey_parameter,
        Member ''X-Request-ID'' False XRequestID_parameter],
      op_path = [Member ''partner_id'' True PartnerID_parameter], op_content = Content CreateWebhookEndpointRequest_schema,
      op_responses = [(''201'', json_answer [Member ''X-Request-ID'' True XRequestID_header,
        Member ''Cache-Control'' True CacheControlNoStore_header] CreateWebhookEndpointResponse_schema),
        (''default'', ErrorResponse_response)]\<rparr>"

definition adminRotateWebhookSecret :: operation where
  "adminRotateWebhookSecret =
     \<lparr>op_query = [],
      op_header = [Member ''Idempotency-Key'' True IdempotencyKey_parameter,
        Member ''X-Request-ID'' False XRequestID_parameter],
      op_path = [Member ''endpoint_id'' True WebhookEndpointID_parameter], op_content = Content EmptyObject_schema,
      op_responses = [(''200'', json_answer [Member ''X-Request-ID'' True XRequestID_header,
        Member ''Cache-Control'' True CacheControlNoStore_header] RotateWebhookSecretResponse_schema), (''default'',
        ErrorResponse_response)]\<rparr>"

definition adminDisableWebhookEndpoint :: operation where
  "adminDisableWebhookEndpoint =
     \<lparr>op_query = [],
      op_header = [Member ''Idempotency-Key'' True IdempotencyKey_parameter,
        Member ''X-Request-ID'' False XRequestID_parameter],
      op_path = [Member ''endpoint_id'' True WebhookEndpointID_parameter], op_content = Content DisableWebhookEndpointRequest_schema,
      op_responses = [(''200'',
        json_answer [Member ''X-Request-ID'' True XRequestID_header] DisableWebhookEndpointResponse_schema),
        (''default'', ErrorResponse_response)]\<rparr>"

definition adminReplaceWebhookSubscriptions :: operation where
  "adminReplaceWebhookSubscriptions =
     \<lparr>op_query = [],
      op_header = [Member ''Idempotency-Key'' True IdempotencyKey_parameter,
        Member ''X-Request-ID'' False XRequestID_parameter],
      op_path = [Member ''endpoint_id'' True WebhookEndpointID_parameter], op_content = Content WebhookSubscriptionsRequest_schema,
      op_responses = [(''200'',
        json_answer [Member ''X-Request-ID'' True XRequestID_header] WebhookSubscriptionsResponse_schema),
        (''default'', ErrorResponse_response)]\<rparr>"

definition partnerCreateSelectionSession :: operation where
  "partnerCreateSelectionSession =
     \<lparr>op_query = [],
      op_header = [Member ''Idempotency-Key'' True IdempotencyKey_parameter,
        Member ''X-Request-ID'' False XRequestID_parameter],
      op_path = [], op_content = Content CreateSelectionSessionRequest_schema,
      op_responses = [(''201'',
        json_answer [Member ''Cache-Control'' True CacheControlNoStore_header] CreateSelectionSessionResponse_schema),
        (''default'', ErrorResponse_response)]\<rparr>"

definition selectionGetSession :: operation where
  "selectionGetSession =
     \<lparr>op_query = [],
      op_header = [],
      op_path = [], op_content = No_Content,
      op_responses = [(''200'',
        json_answer [Member ''Cache-Control'' True CacheControlNoStore_header] SelectionSession_schema),
        (''default'', ErrorResponse_response)]\<rparr>"

definition selectionGetEvent :: operation where
  "selectionGetEvent =
     \<lparr>op_query = [],
      op_header = [],
      op_path = [], op_content = No_Content,
      op_responses = [(''200'',
        json_answer [Member ''Cache-Control'' True CacheControlNoStore_header] PartnerEvent_schema), (''default'',
        ErrorResponse_response)]\<rparr>"

definition selectionGetLayout :: operation where
  "selectionGetLayout =
     \<lparr>op_query = [],
      op_header = [],
      op_path = [], op_content = No_Content,
      op_responses = [(''200'',
        json_answer [Member ''Cache-Control'' True CacheControlNoStore_header] GenericObject_schema), (''default'',
        ErrorResponse_response)]\<rparr>"

definition selectionGetAvailability :: operation where
  "selectionGetAvailability =
     \<lparr>op_query = [],
      op_header = [],
      op_path = [], op_content = No_Content,
      op_responses = [(''200'',
        json_answer [Member ''Cache-Control'' True CacheControlNoStore_header] PartnerAvailability_schema),
        (''default'', ErrorResponse_response)]\<rparr>"

definition selectionCreateReservation :: operation where
  "selectionCreateReservation =
     \<lparr>op_query = [],
      op_header = [Member ''Idempotency-Key'' True IdempotencyKey_parameter,
        Member ''X-Request-ID'' False XRequestID_parameter],
      op_path = [], op_content = Content SelectionReservationRequest_schema,
      op_responses = [(''201'',
        json_answer [Member ''Cache-Control'' True CacheControlNoStore_header] SelectionReservation_schema),
        (''default'', ErrorResponse_response)]\<rparr>"

definition selectionGetReservation :: operation where
  "selectionGetReservation =
     \<lparr>op_query = [],
      op_header = [],
      op_path = [Member ''reservation_id'' True ReservationID_parameter], op_content = No_Content,
      op_responses = [(''200'',
        json_answer [Member ''Cache-Control'' True CacheControlNoStore_header] SelectionReservation_schema),
        (''default'', ErrorResponse_response)]\<rparr>"

definition selectionModifyReservation :: operation where
  "selectionModifyReservation =
     \<lparr>op_query = [],
      op_header = [Member ''X-TktSync-Reservation-Token'' True ReservationToken_parameter,
        Member ''Idempotency-Key'' True IdempotencyKey_parameter,
        Member ''X-Request-ID'' False XRequestID_parameter],
      op_path = [Member ''reservation_id'' True ReservationID_parameter], op_content = Content ModifyReservationRequest_schema,
      op_responses = [(''200'',
        json_answer [Member ''Cache-Control'' True CacheControlNoStore_header] SelectionReservation_schema),
        (''default'', ErrorResponse_response)]\<rparr>"

definition selectionReleaseReservation :: operation where
  "selectionReleaseReservation =
     \<lparr>op_query = [],
      op_header = [Member ''X-TktSync-Reservation-Token'' True ReservationToken_parameter,
        Member ''Idempotency-Key'' True IdempotencyKey_parameter,
        Member ''X-Request-ID'' False XRequestID_parameter],
      op_path = [Member ''reservation_id'' True ReservationID_parameter], op_content = Content EmptyObject_schema,
      op_responses = [(''200'',
        json_answer [Member ''Cache-Control'' True CacheControlNoStore_header] ReleaseReservationResponse_schema),
        (''default'', ErrorResponse_response)]\<rparr>"

definition adminGetEventInventoryReport :: operation where
  "adminGetEventInventoryReport =
     \<lparr>op_query = [],
      op_header = [Member ''X-Request-ID'' False XRequestID_parameter],
      op_path = [Member ''event_id'' True EventID_parameter], op_content = No_Content,
      op_responses = [(''200'', json_answer [] InventoryReport_schema), (''default'',
        ErrorResponse_response)]\<rparr>"

definition adminGetEventSalesReport :: operation where
  "adminGetEventSalesReport =
     \<lparr>op_query = [],
      op_header = [Member ''X-Request-ID'' False XRequestID_parameter],
      op_path = [Member ''event_id'' True EventID_parameter], op_content = No_Content,
      op_responses = [(''200'', json_answer [] SalesReport_schema), (''default'', ErrorResponse_response)]\<rparr>"

definition adminGetEventAdmissionReport :: operation where
  "adminGetEventAdmissionReport =
     \<lparr>op_query = [],
      op_header = [Member ''X-Request-ID'' False XRequestID_parameter],
      op_path = [Member ''event_id'' True EventID_parameter], op_content = No_Content,
      op_responses = [(''200'', json_answer [] AdmissionReport_schema), (''default'',
        ErrorResponse_response)]\<rparr>"

definition adminListEventAudit :: operation where
  "adminListEventAudit =
     \<lparr>op_query = [Member ''limit'' False TNumber, Member ''cursor'' False TString,
       Member ''operation'' False TString, Member ''entity_type'' False TString,
       Member ''actor_kind'' False (TUnion [TConst ''USER'', TConst ''PARTNER'', TConst ''BUYER_SESSION'',
       TConst ''SYSTEM'']), Member ''reservation_id'' False TString, Member ''sale_id'' False TString,
       Member ''ticket_id'' False TString, Member ''correlation_id'' False TString, Member ''from'' False TString,
       Member ''to'' False TString, Member ''search'' False TString],
      op_header = [Member ''X-Request-ID'' False XRequestID_parameter],
      op_path = [Member ''event_id'' True EventID_parameter], op_content = No_Content,
      op_responses = [(''200'', json_answer [] AuditPage_schema), (''default'', ErrorResponse_response)]\<rparr>"

definition adminExportEventAccreditation :: operation where
  "adminExportEventAccreditation =
     \<lparr>op_query = [],
      op_header = [Member ''X-Request-ID'' False XRequestID_parameter],
      op_path = [Member ''event_id'' True EventID_parameter], op_content = No_Content,
      op_responses = [(''200'', \<lparr>rp_headers = [Member ''X-TktSync-Generated-At'' False TString],
        rp_content = [(''text/csv'', TString)]\<rparr>), (''default'', ErrorResponse_response)]\<rparr>"

definition adminGetEventOperationalMetrics :: operation where
  "adminGetEventOperationalMetrics =
     \<lparr>op_query = [],
      op_header = [Member ''X-Request-ID'' False XRequestID_parameter],
      op_path = [Member ''event_id'' True EventID_parameter], op_content = No_Content,
      op_responses = [(''200'', json_answer [] OperationalMetrics_schema), (''default'',
        ErrorResponse_response)]\<rparr>"

definition partnerGetEventInventoryReport :: operation where
  "partnerGetEventInventoryReport =
     \<lparr>op_query = [],
      op_header = [Member ''X-Request-ID'' False XRequestID_parameter],
      op_path = [Member ''event_id'' True EventID_parameter], op_content = No_Content,
      op_responses = [(''200'', json_answer [] InventoryReport_schema), (''default'',
        ErrorResponse_response)]\<rparr>"

definition partnerGetEventSalesReport :: operation where
  "partnerGetEventSalesReport =
     \<lparr>op_query = [],
      op_header = [Member ''X-Request-ID'' False XRequestID_parameter],
      op_path = [Member ''event_id'' True EventID_parameter], op_content = No_Content,
      op_responses = [(''200'', json_answer [] SalesReport_schema), (''default'', ErrorResponse_response)]\<rparr>"

definition partnerListEventActivity :: operation where
  "partnerListEventActivity =
     \<lparr>op_query = [Member ''limit'' False TNumber, Member ''cursor'' False TString],
      op_header = [Member ''X-Request-ID'' False XRequestID_parameter],
      op_path = [Member ''event_id'' True EventID_parameter], op_content = No_Content,
      op_responses = [(''200'', json_answer [] AuditPage_schema), (''default'', ErrorResponse_response)]\<rparr>"

definition adminSetPartnerAllowedReturnURLs :: operation where
  "adminSetPartnerAllowedReturnURLs =
     \<lparr>op_query = [],
      op_header = [Member ''Idempotency-Key'' True IdempotencyKey_parameter,
        Member ''X-Request-ID'' False XRequestID_parameter],
      op_path = [Member ''partner_id'' True PartnerID_parameter], op_content = Content AllowedReturnURLsRequest_schema,
      op_responses = [(''200'',
        json_answer [Member ''Cache-Control'' True CacheControlNoStore_header] AllowedReturnURLsResponse_schema),
        (''default'', ErrorResponse_response)]\<rparr>"

end
