(* ===== verification/Api_Paths.thy ===== *)
theory Api_Paths
  imports Api_Operations Admin_Api
begin

text \<open>
  Which operation answers which method of which path (the interface \<open>paths\<close> of \<^verbatim>\<open>schema.ts\<close>).
\<close>

type_synonym route_table = "((http_method \<times> string) \<times> operation) list"

definition user_paths :: route_table where
  "user_paths =
     [((GET, ''/api/v1/admin/dashboard''), adminGetDashboard),
      ((GET, ''/api/v1/admin/users''), adminListPlatformAdmins),
      ((POST, ''/api/v1/admin/users''), adminCreatePlatformAdmin),
      ((POST, ''/api/v1/admin/users/{user_id}/disable''), adminDisablePlatformAdmin),
      ((POST, ''/api/v1/admin/users/{user_id}/enable''), adminEnablePlatformAdmin)]"

definition read_paths :: route_table where
  "read_paths =
     [((GET, ''/api/v1/admin/tickets''), adminListTickets),
      ((GET, ''/api/v1/admin/tickets/{ticket_id}''), adminGetTicket),
      ((GET, ''/api/v1/admin/admissions''), adminListAdmissions),
      ((GET, ''/api/v1/admin/webhook-endpoints''), adminListAllWebhookEndpoints),
      ((GET, ''/api/v1/admin/partners/{partner_id}''), adminGetPartner),
      ((GET, ''/api/v1/admin/events/{event_id}/configuration''), adminGetEventConfiguration)]"

definition venue_paths :: route_table where
  "venue_paths =
     [((GET, ''/api/v1/admin/venues''), adminListVenues),
      ((POST, ''/api/v1/admin/venues''), adminCreateVenue),
      ((GET, ''/api/v1/admin/venues/{venue_id}''), adminGetVenue),
      ((GET, ''/api/v1/admin/venues/{venue_id}/layout-versions''), adminListLayoutVersions),
      ((POST, ''/api/v1/admin/venues/{venue_id}/layout-versions''), adminCreateLayoutVersion),
      ((GET, ''/api/v1/admin/venue-layouts/{layout_id}''), adminGetVenueLayout),
      ((PATCH, ''/api/v1/admin/venue-layouts/{layout_id}''), adminReplaceVenueLayout),
      ((POST, ''/api/v1/admin/venue-layouts/{layout_id}/publish''), adminPublishVenueLayout)]"

definition event_paths :: route_table where
  "event_paths =
     [((GET, ''/api/v1/admin/events''), adminListEvents),
      ((POST, ''/api/v1/admin/events''), adminCreateEvent),
      ((GET, ''/api/v1/admin/events/{event_id}''), adminGetEvent),
      ((PATCH, ''/api/v1/admin/events/{event_id}''), adminUpdateEvent),
      ((POST, ''/api/v1/admin/events/{event_id}/materialize-layout''), adminMaterializeEventLayout),
      ((GET, ''/api/v1/admin/events/{event_id}/inventory''), adminGetEventInventory),
      ((PUT, ''/api/v1/admin/events/{event_id}/transaction-policy''), adminConfigureTransactionPolicy),
      ((POST, ''/api/v1/admin/events/{event_id}/price-tiers''), adminCreatePriceTier),
      ((PATCH, ''/api/v1/admin/events/{event_id}/price-tiers/{price_tier_id}''), adminUpdatePriceTier)]"

definition sales_paths :: route_table where
  "sales_paths =
     [((POST, ''/api/v1/admin/events/{event_id}/pricing/assignments''), adminAssignPricing),
      ((POST, ''/api/v1/admin/events/{event_id}/open-sales''), adminOpenSales),
      ((POST, ''/api/v1/admin/events/{event_id}/pause-sales''), adminPauseSales),
      ((POST, ''/api/v1/admin/events/{event_id}/resume-sales''), adminResumeSales),
      ((POST, ''/api/v1/admin/events/{event_id}/close-sales''), adminCloseSales),
      ((POST, ''/api/v1/admin/events/{event_id}/cancel''), adminCancelEvent),
      ((POST, ''/api/v1/admin/events/{event_id}/complete''), adminCompleteEvent)]"

definition partner_paths :: route_table where
  "partner_paths =
     [((GET, ''/api/v1/admin/partners''), adminListPartners),
      ((POST, ''/api/v1/admin/partners''), adminCreatePartner),
      ((POST, ''/api/v1/admin/partners/{partner_id}/credentials''), adminCreatePartnerCredential),
      ((POST, ''/api/v1/admin/partner-credentials/{credential_id}/revoke''), adminRevokePartnerCredential),
      ((POST, ''/api/v1/admin/partners/{partner_id}/disable''), adminDisablePartner),
      ((POST, ''/api/v1/admin/partners/{partner_id}/enable''), adminEnablePartner),
      ((POST, ''/api/v1/admin/events/{event_id}/partners/{partner_id}/access''), adminEnablePartnerEventAccess),
      ((POST, ''/api/v1/admin/events/{event_id}/partners/{partner_id}/access/disable''), adminDisablePartnerEventAccess)]"

definition restriction_paths :: route_table where
  "restriction_paths =
     [((POST, ''/api/v1/admin/events/{event_id}/blocks''), adminCreateBlock),
      ((POST, ''/api/v1/admin/blocks/{block_id}/release''), adminReleaseBlock),
      ((GET, ''/api/v1/admin/events/{event_id}/restrictions''), adminListInventoryRestrictions),
      ((POST, ''/api/v1/admin/events/{event_id}/allocations''), adminCreateAllocation),
      ((POST, ''/api/v1/admin/allocations/{allocation_id}/release''), adminReleaseAllocation),
      ((POST, ''/api/v1/admin/allocations/{allocation_id}/reclassify''), adminReclassifyAllocation)]"

definition partner_event_paths :: route_table where
  "partner_event_paths =
     [((GET, ''/api/v1/partner/events''), partnerListEvents),
      ((GET, ''/api/v1/partner/events/{event_id}''), partnerGetEvent),
      ((GET, ''/api/v1/partner/events/{event_id}/layout''), partnerGetEventLayout),
      ((GET, ''/api/v1/partner/events/{event_id}/availability''), partnerGetAvailability)]"

definition partner_reservation_paths :: route_table where
  "partner_reservation_paths =
     [((POST, ''/api/v1/partner/reservations''), partnerCreateReservation),
      ((GET, ''/api/v1/partner/reservations/{reservation_id}''), partnerGetReservation),
      ((PATCH, ''/api/v1/partner/reservations/{reservation_id}''), partnerModifyReservation),
      ((POST, ''/api/v1/partner/reservations/{reservation_id}/checkout''), partnerBeginReservationCheckout),
      ((POST, ''/api/v1/partner/reservations/{reservation_id}/payment-failure''), partnerReportReservationPaymentFailure),
      ((POST, ''/api/v1/partner/reservations/{reservation_id}/release''), partnerReleaseReservation),
      ((POST, ''/api/v1/partner/reservations/{reservation_id}/confirm''), partnerConfirmReservation)]"

definition partner_ticket_paths :: route_table where
  "partner_ticket_paths =
     [((GET, ''/api/v1/partner/tickets/{ticket_id}/credential''), partnerGetTicketCredential),
      ((GET, ''/api/v1/partner/tickets/{ticket_id}/qr''), partnerGetTicketQR),
      ((GET, ''/api/v1/ticket-qr/{capability}''), getHostedTicketQR),
      ((POST, ''/api/v1/partner/tickets/{ticket_id}/void''), partnerVoidTicket),
      ((POST, ''/api/v1/partner/tickets/{ticket_id}/credentials/reissue''), partnerReissueTicketCredential),
      ((POST, ''/api/v1/partner/tickets/{ticket_id}/inventory/re-release''), partnerReReleaseTicketInventory)]"

definition admin_ticket_paths :: route_table where
  "admin_ticket_paths =
     [((POST, ''/api/v1/admin/allocations/{allocation_id}/issuances''), adminIssueNonPublicAllocation),
      ((GET, ''/api/v1/admin/tickets/{ticket_id}/credential''), adminGetTicketCredential),
      ((POST, ''/api/v1/admin/tickets/{ticket_id}/void''), adminVoidTicket),
      ((POST, ''/api/v1/admin/tickets/{ticket_id}/credentials/reissue''), adminReissueTicketCredential),
      ((POST, ''/api/v1/admin/tickets/{ticket_id}/inventory/re-release''), adminReReleaseTicketInventory)]"

definition admission_paths :: route_table where
  "admission_paths =
     [((GET, ''/api/v1/admission/events''), admissionListAuthorizedEvents),
      ((POST, ''/api/v1/admission/scans''), admissionValidateAndAdmit),
      ((POST, ''/api/v1/admin/admissions/{admission_id}/reverse''), adminReverseAdmission),
      ((POST, ''/api/v1/admin/admissions/manual-override''), adminManualAdmissionOverride),
      ((GET, ''/api/v1/realtime/stream''), realtimeStream)]"

definition webhook_paths :: route_table where
  "webhook_paths =
     [((GET, ''/api/v1/admin/partners/{partner_id}/webhook-endpoints''), adminListWebhookEndpoints),
      ((POST, ''/api/v1/admin/partners/{partner_id}/webhook-endpoints''), adminCreateWebhookEndpoint),
      ((POST, ''/api/v1/admin/webhook-endpoints/{endpoint_id}/secret/rotate''), adminRotateWebhookSecret),
      ((POST, ''/api/v1/admin/webhook-endpoints/{endpoint_id}/disable''), adminDisableWebhookEndpoint),
      ((PUT, ''/api/v1/admin/webhook-endpoints/{endpoint_id}/subscriptions''), adminReplaceWebhookSubscriptions)]"

definition selection_paths :: route_table where
  "selection_paths =
     [((POST, ''/api/v1/partner/selection-sessions''), partnerCreateSelectionSession),
      ((GET, ''/api/v1/selection/session''), selectionGetSession),
      ((GET, ''/api/v1/selection/event''), selectionGetEvent),
      ((GET, ''/api/v1/selection/layout''), selectionGetLayout),
      ((GET, ''/api/v1/selection/availability''), selectionGetAvailability),
      ((POST, ''/api/v1/selection/reservations''), selectionCreateReservation),
      ((GET, ''/api/v1/selection/reservations/{reservation_id}''), selectionGetReservation),
      ((PATCH, ''/api/v1/selection/reservations/{reservation_id}''), selectionModifyReservation),
      ((POST, ''/api/v1/selection/reservations/{reservation_id}/release''), selectionReleaseReservation)]"

definition report_paths :: route_table where
  "report_paths =
     [((GET, ''/api/v1/admin/events/{event_id}/reports/inventory''), adminGetEventInventoryReport),
      ((GET, ''/api/v1/admin/events/{event_id}/reports/sales''), adminGetEventSalesReport),
      ((GET, ''/api/v1/admin/events/{event_id}/reports/admission''), adminGetEventAdmissionReport),
      ((GET, ''/api/v1/admin/events/{event_id}/audit''), adminListEventAudit),
      ((GET, ''/api/v1/admin/events/{event_id}/accreditation-export''), adminExportEventAccreditation),
      ((GET, ''/api/v1/admin/events/{event_id}/metrics''), adminGetEventOperationalMetrics),
      ((GET, ''/api/v1/partner/events/{event_id}/reports/inventory''), partnerGetEventInventoryReport),
      ((GET, ''/api/v1/partner/events/{event_id}/reports/sales''), partnerGetEventSalesReport),
      ((GET, ''/api/v1/partner/events/{event_id}/activity''), partnerListEventActivity)]"

definition return_url_paths :: route_table where
  "return_url_paths =
     [((PUT, ''/api/v1/admin/partners/{partner_id}/allowed-return-urls''), adminSetPartnerAllowedReturnURLs)]"

definition api_paths :: route_table where
  "api_paths =
     user_paths @ read_paths @ venue_paths @ event_paths @ sales_paths @ partner_paths @ restriction_paths @
       partner_event_paths @ partner_reservation_paths @ partner_ticket_paths @ admin_ticket_paths @
       admission_paths @ webhook_paths @ selection_paths @ report_paths @ return_url_paths"

end
