(* ===== verification/Api_Contract.thy ===== *)
theory Api_Contract
  imports Api_Paths
begin

text \<open>
  Requests that the API's contract declares: the method and path, the names of the parameters, the
  required ones, and the type of the body.
\<close>

section \<open>Declared requests\<close>

definition names_ok :: "field list \<Rightarrow> string list \<Rightarrow> bool" where
  "names_ok fs ns \<longleftrightarrow>
     list_all (\<lambda>f. field_required f \<longrightarrow> field_name f \<in> set ns) fs \<and> list_all (\<lambda>n. n \<in> set (field_names fs)) ns"

definition content_ok :: "content \<Rightarrow> json option \<Rightarrow> bool" where
  "content_ok c body =
     (case (c, body) of
        (No_Content, b) \<Rightarrow> b = None
      | (Content t, None) \<Rightarrow> False
      | (Optional_Content t, None) \<Rightarrow> True
      | (Content t, Some v) \<Rightarrow> conforms True t v
      | (Optional_Content t, Some v) \<Rightarrow> conforms True t v)"

definition call_ok :: "operation \<Rightarrow> string list \<Rightarrow> string list \<Rightarrow> json option \<Rightarrow> bool" where
  "call_ok op query header body \<longleftrightarrow>
     names_ok (op_query op) query \<and> names_ok (op_header op) header \<and> content_ok (op_content op) body"

text \<open>A finished path: a parameter may be any segment.\<close>

definition placeholder :: "string \<Rightarrow> bool" where
  "placeholder seg = prefix ''{'' seg"

definition path_matches :: "string \<Rightarrow> string \<Rightarrow> bool" where
  "path_matches template path =
     list_all2 (\<lambda>t p. placeholder t \<or> t = p) (split_on (CHR ''/'') template) (split_on (CHR ''/'') path)"

primrec verb_text :: "http_method \<Rightarrow> string" where
  "verb_text GET = ''GET''" | "verb_text POST = ''POST''" | "verb_text PUT = ''PUT''" | "verb_text PATCH = ''PATCH''"

text \<open>
  A request of the organiser application names its operation by the template, or, where it calls
  \<open>fetch\<close> itself, by a finished path.
\<close>

definition query_names :: "api_request \<Rightarrow> string list" where
  "query_names rq = map fst (filter (\<lambda>(n, v). v \<noteq> None) (req_query rq))"

definition template_ok :: "api_request \<Rightarrow> bool" where
  "template_ok rq \<longleftrightarrow>
     list_ex (\<lambda>((m, template), op). m = req_method rq \<and> template = req_path rq \<and>
       names_ok (op_path op) (map fst (req_path_params rq)) \<and>
       call_ok op (query_names rq) (map fst (req_header_params rq)) (req_body rq)) api_paths"

definition fetch_ok :: "api_request \<Rightarrow> bool" where
  "fetch_ok rq \<longleftrightarrow> req_path_params rq = [] \<and>
     list_ex (\<lambda>((m, template), op). m = req_method rq \<and> path_matches template (req_path rq) \<and>
       call_ok op (query_names rq) (map fst (req_header_params rq)) (req_body rq)) api_paths"

definition conforming :: "api_request \<Rightarrow> bool" where
  "conforming rq \<longleftrightarrow> template_ok rq \<or> fetch_ok rq"

lemma in_user_paths: "list_ex P user_paths \<Longrightarrow> list_ex P api_paths"
  and in_read_paths: "list_ex P read_paths \<Longrightarrow> list_ex P api_paths"
  and in_venue_paths: "list_ex P venue_paths \<Longrightarrow> list_ex P api_paths"
  and in_event_paths: "list_ex P event_paths \<Longrightarrow> list_ex P api_paths"
  and in_sales_paths: "list_ex P sales_paths \<Longrightarrow> list_ex P api_paths"
  and in_partner_paths: "list_ex P partner_paths \<Longrightarrow> list_ex P api_paths"
  and in_restriction_paths: "list_ex P restriction_paths \<Longrightarrow> list_ex P api_paths"
  and in_partner_event_paths: "list_ex P partner_event_paths \<Longrightarrow> list_ex P api_paths"
  and in_partner_reservation_paths: "list_ex P partner_reservation_paths \<Longrightarrow> list_ex P api_paths"
  and in_partner_ticket_paths: "list_ex P partner_ticket_paths \<Longrightarrow> list_ex P api_paths"
  and in_admin_ticket_paths: "list_ex P admin_ticket_paths \<Longrightarrow> list_ex P api_paths"
  and in_admission_paths: "list_ex P admission_paths \<Longrightarrow> list_ex P api_paths"
  and in_webhook_paths: "list_ex P webhook_paths \<Longrightarrow> list_ex P api_paths"
  and in_selection_paths: "list_ex P selection_paths \<Longrightarrow> list_ex P api_paths"
  and in_report_paths: "list_ex P report_paths \<Longrightarrow> list_ex P api_paths"
  and in_return_url_paths: "list_ex P return_url_paths \<Longrightarrow> list_ex P api_paths"
  by (simp_all add: api_paths_def)

section \<open>Types of what the clients write\<close>

lemma js_get_cons: "js_get k (Some (JObj ((n, v) # kvs))) = (if k = n then Some v else js_get k (Some (JObj kvs)))"
  by (simp add: js_get_def)

lemma js_get_nil: "js_get k (Some (JObj [])) = None"
  by (simp add: js_get_def)

definition first_some :: "'a option \<Rightarrow> 'a option \<Rightarrow> 'a option" where
  "first_some v w = (case v of None \<Rightarrow> w | Some x \<Rightarrow> Some x)"

lemma first_some_none: "first_some v None = v"
  by (cases v) (simp_all add: first_some_def)

lemma js_get_j_opt:
  "js_get k (Some (JObj (j_opt n v @ kvs))) =
     (if k = n then first_some v (js_get k (Some (JObj kvs))) else js_get k (Some (JObj kvs)))"
  "js_get k (Some (JObj (j_opt n v))) = (if k = n then v else None)"
  by (auto simp: j_opt_def js_get_def first_some_def split: option.splits)

lemma j_opt_names: "list_all P (map fst (j_opt n v)) \<longleftrightarrow> v = None \<or> P n"
  by (auto simp: j_opt_def split: option.splits)

lemma strings_typed: "list_all (conforms exact TString) (map JStr xs)"
  by (simp add: list_all_iff)

lemma optional_string:
  "(case map_option JStr v of None \<Rightarrow> \<not> required | Some x \<Rightarrow> conforms exact TString x) \<longleftrightarrow> (required \<longrightarrow> v \<noteq> None)"
  "(case v of None \<Rightarrow> \<not> required | Some x \<Rightarrow> (conforms exact TString \<circ> JStr) x) \<longleftrightarrow> (required \<longrightarrow> v \<noteq> None)"
  by (cases v; simp)+

lemmas json_fields = js_get_cons js_get_nil js_get_j_opt first_some_none j_opt_names field_names_def optional_string j_int_def

lemmas request_ok = call_ok_def names_ok_def query_names_def content_ok_def json_fields

section \<open>The organiser application\<close>

definition typed_metadata :: "json option \<Rightarrow> bool" where
  "typed_metadata v \<longleftrightarrow> (case v of None \<Rightarrow> True | Some x \<Rightarrow> conforms True (TMap TUnknown) x)"

definition typed_layout :: "layout_body \<Rightarrow> bool" where
  "typed_layout b \<longleftrightarrow>
     list_all (typed_metadata \<circ> sec_metadata) (lb_sections b) \<and> list_all (typed_metadata \<circ> row_metadata) (st_rows b) \<and>
     list_all (typed_metadata \<circ> table_metadata) (st_tables b) \<and> list_all (typed_metadata \<circ> seat_metadata) (st_seats b) \<and>
     list_all (typed_metadata \<circ> zone_metadata) (st_ga_zones b)"

definition typed_command :: "admin_command \<Rightarrow> bool" where
  "typed_command c \<longleftrightarrow> (case c of C_replaceLayout i b \<Rightarrow> typed_layout b | _ \<Rightarrow> True)"

lemma typed_metadata_member: "typed_metadata v \<Longrightarrow> v = Some x \<Longrightarrow> conforms True (TMap TUnknown) x"
  by (simp add: typed_metadata_def)

lemma layout_parts_typed:
  "typed_metadata (sec_metadata s) \<Longrightarrow> conforms True SectionRequest_schema (section_json s)"
  "typed_metadata (row_metadata r) \<Longrightarrow> conforms True RowRequest_schema (row_json r)"
  "typed_metadata (table_metadata t) \<Longrightarrow> conforms True TableRequest_schema (table_json t)"
  "typed_metadata (seat_metadata st) \<Longrightarrow> conforms True SeatRequest_schema (seat_json st)"
  "typed_metadata (zone_metadata z) \<Longrightarrow> conforms True GAZoneRequest_schema (zone_json z)"
  by (auto simp: SectionRequest_schema_def RowRequest_schema_def TableRequest_schema_def SeatRequest_schema_def
      GAZoneRequest_schema_def section_json_def row_json_def table_json_def seat_json_def zone_json_def json_fields
      typed_metadata_def split: option.splits)

lemma layout_body_typed: "typed_layout b \<Longrightarrow> conforms True ReplaceLayoutRequest_schema (layout_body_json b)"
  by (simp add: ReplaceLayoutRequest_schema_def layout_body_json_def json_fields list_all_iff typed_layout_def layout_parts_typed)

lemma event_body_typed: "conforms True CreateEventRequest_schema (create_event_json b)"
  by (simp add: CreateEventRequest_schema_def create_event_json_def json_fields)


lemmas schemas_used = CreatePlatformAdminRequest_schema_def AdminReasonRequest_schema_def CreateVenueRequest_schema_def
  MaterializeLayoutRequest_schema_def TransactionPolicyRequest_schema_def CreatePriceTierRequest_schema_def
  PricingAssignmentRequest_schema_def CreatePartnerRequest_schema_def CreateBlockRequest_schema_def ReleaseDestinationRequest_schema_def CreateAllocationRequest_schema_def
  ReclassifyAllocationRequest_schema_def CancelEventRequest_schema_def EmptyObject_schema_def VoidTicketRequest_schema_def
  ReReleaseTicketInventoryRequest_schema_def ReverseAdmissionRequest_schema_def ManualAdmissionOverrideRequest_schema_def
  CreateWebhookEndpointRequest_schema_def DisableWebhookEndpointRequest_schema_def AllowedReturnURLsRequest_schema_def

lemmas command_operations =
  adminCreateVenue_def adminCreateEvent_def adminCancelEvent_def adminConfigureTransactionPolicy_def
  adminCreatePriceTier_def adminAssignPricing_def adminMaterializeEventLayout_def adminCreateLayoutVersion_def
  adminReplaceVenueLayout_def adminPublishVenueLayout_def adminCreatePartner_def adminCreatePlatformAdmin_def
  adminEnablePlatformAdmin_def adminDisablePlatformAdmin_def adminEnablePartner_def adminDisablePartner_def
  adminSetPartnerAllowedReturnURLs_def adminCreatePartnerCredential_def adminRevokePartnerCredential_def
  adminEnablePartnerEventAccess_def adminDisablePartnerEventAccess_def adminVoidTicket_def
  adminReissueTicketCredential_def adminReReleaseTicketInventory_def adminReverseAdmission_def
  adminManualAdmissionOverride_def adminCreateBlock_def adminReleaseBlock_def adminCreateAllocation_def
  adminReleaseAllocation_def adminReclassifyAllocation_def adminCreateWebhookEndpoint_def
  adminDisableWebhookEndpoint_def adminRotateWebhookSecret_def adminOpenSales_def adminPauseSales_def
  adminResumeSales_def adminCloseSales_def adminCompleteEvent_def

lemma ga_targets_typed: "list_all (conforms True GARestrictionTargetRequest_schema) (map ga_target_json ga)"
  by (auto simp: list_all_iff ga_target_json_def GARestrictionTargetRequest_schema_def json_fields)

lemma mode_names: "mode_name mode = ''CHANNEL'' \<or> mode_name mode = ''NON_PUBLIC''"
  by (cases mode) simp_all

lemmas command_ok = request_ok schemas_used command_operations strings_typed ga_targets_typed mode_names layout_body_typed
  event_body_typed default_policy_json_def

lemma user_commands:
  "template_ok (api_createPlatformAdmin token key email name)"
  "template_ok (api_setPlatformAdminState token key i enabled reason)"
  unfolding template_ok_def
  by (rule in_user_paths; simp add: user_paths_def key_request_def api_createPlatformAdmin_def api_setPlatformAdminState_def; simp add: command_ok)+

lemma venue_commands:
  "template_ok (api_createVenue token key name address)"
  "template_ok (api_createLayout token key i)"
  unfolding template_ok_def
  by (rule in_venue_paths; simp add: venue_paths_def key_request_def api_createVenue_def api_createLayout_def; simp add: command_ok)+

lemma event_commands:
  "template_ok (api_createEvent token key b)"
  "template_ok (api_materializeLayout token key i l)"
  "template_ok (api_configurePolicy token key i)"
  "template_ok (api_createPriceTier token key i code name amount cur)"
  unfolding template_ok_def
  by (rule in_event_paths; simp add: event_paths_def key_request_def api_createEvent_def api_materializeLayout_def api_configurePolicy_def api_createPriceTier_def; simp add: command_ok)+

lemma sales_commands:
  "template_ok (api_assignPricing token key i t xs ys zs)"
  "template_ok (api_cancelEvent token key i reason)"
  unfolding template_ok_def
  by (rule in_sales_paths; simp add: sales_paths_def key_request_def api_assignPricing_def api_cancelEvent_def; simp add: command_ok)+

lemma partner_commands:
  "template_ok (api_createPartner token key name)"
  "template_ok (api_issuePartnerCredential token key i)"
  "template_ok (api_revokePartnerCredential token key i)"
  "template_ok (api_setPartnerState token key i enabled)"
  "template_ok (api_setEventAccess token key i p enabled)"
  unfolding template_ok_def
  by (rule in_partner_paths; simp add: partner_paths_def key_request_def api_createPartner_def api_issuePartnerCredential_def api_revokePartnerCredential_def api_setPartnerState_def api_setEventAccess_def; simp add: command_ok)+

lemma restriction_commands:
  "template_ok (api_createBlock token key i purpose reason ids ga)"
  "template_ok (api_releaseBlock token key i)"
  "template_ok (api_createAllocation token key i mode partner purpose reason ids ga)"
  "template_ok (api_releaseAllocation token key i)"
  "template_ok (api_reclassifyAllocation token key i mode partner)"
  unfolding template_ok_def
  by (rule in_restriction_paths; simp add: restriction_paths_def key_request_def api_createBlock_def api_releaseBlock_def api_createAllocation_def api_releaseAllocation_def api_reclassifyAllocation_def; simp add: command_ok)+

lemma admin_ticket_commands:
  "template_ok (api_voidTicket token key i reason)"
  "template_ok (api_reissueTicket token key i)"
  "template_ok (api_rereleaseTicket token key i reason)"
  unfolding template_ok_def
  by (rule in_admin_ticket_paths; simp add: admin_ticket_paths_def key_request_def api_voidTicket_def api_reissueTicket_def api_rereleaseTicket_def; simp add: command_ok)+

lemma admission_commands:
  "template_ok (api_reverseAdmission token key i reason)"
  "template_ok (api_manualAdmission token key i t gate reason)"
  unfolding template_ok_def
  by (rule in_admission_paths; simp add: admission_paths_def key_request_def api_reverseAdmission_def api_manualAdmission_def; simp add: command_ok)+

lemma webhook_commands:
  "template_ok (api_createWebhook token key i url subscriptions)"
  "template_ok (api_disableWebhook token key i reason)"
  "template_ok (api_rotateWebhook token key i)"
  unfolding template_ok_def
  by (rule in_webhook_paths; simp add: webhook_paths_def key_request_def api_createWebhook_def api_disableWebhook_def api_rotateWebhook_def; simp add: command_ok)+

lemma return_url_commands:
  "template_ok (api_setPartnerAllowedReturnURLs token key i urls)"
  unfolding template_ok_def
  by (rule in_return_url_paths; simp add: return_url_paths_def key_request_def api_setPartnerAllowedReturnURLs_def; simp add: command_ok)+

lemma lifecycle_conforms: "template_ok (api_lifecycle token key i action)"
  unfolding template_ok_def
  by (cases action; rule in_sales_paths; simp add: sales_paths_def key_request_def api_lifecycle_def; simp add: command_ok)

lemma layout_commands:
  "typed_layout b \<Longrightarrow> template_ok (api_replaceLayout token key i b)" "template_ok (api_publishLayout token key i)"
  unfolding template_ok_def
  by (rule in_venue_paths; simp add: venue_paths_def key_request_def api_replaceLayout_def api_publishLayout_def; simp add: command_ok)+

lemma commands_conform: "typed_command c \<Longrightarrow> template_ok (command_request token key c)"
  by (cases c)
    (simp_all add: typed_command_def lifecycle_conforms layout_commands user_commands venue_commands event_commands sales_commands
      partner_commands restriction_commands admin_ticket_commands admission_commands webhook_commands return_url_commands)

lemmas query_operations =
  adminGetDashboard_def adminListPlatformAdmins_def adminListTickets_def adminGetTicket_def
  adminListAdmissions_def adminListAllWebhookEndpoints_def adminGetPartner_def adminGetEventConfiguration_def
  adminListVenues_def adminGetVenue_def adminListLayoutVersions_def adminGetVenueLayout_def
  adminListEvents_def adminGetEvent_def adminGetEventInventory_def adminListPartners_def
  adminListInventoryRestrictions_def adminGetEventInventoryReport_def adminGetEventSalesReport_def
  adminGetEventAdmissionReport_def adminListEventAudit_def adminExportEventAccreditation_def

lemmas query_ok = request_ok query_operations or_undefined_def

lemma user_queries:
  "template_ok (api_dashboard token)"
  "template_ok (api_users token q st)"
  unfolding template_ok_def
  by (rule in_user_paths; simp add: user_paths_def get_request_def api_dashboard_def api_users_def; simp add: query_ok)+

lemma read_queries:
  "template_ok (api_tickets token q i st)"
  "template_ok (api_ticket token i)"
  "template_ok (api_admissions token i)"
  "template_ok (api_webhooks token)"
  "template_ok (api_partner token i)"
  "template_ok (api_eventConfiguration token i)"
  unfolding template_ok_def
  by (rule in_read_paths; simp add: read_paths_def get_request_def api_tickets_def api_ticket_def api_admissions_def api_webhooks_def api_partner_def api_eventConfiguration_def; simp add: query_ok)+

lemma venue_queries:
  "template_ok (api_venues token)"
  "template_ok (api_venue token i)"
  "template_ok (api_layouts token i)"
  "template_ok (api_layout token i)"
  unfolding template_ok_def
  by (rule in_venue_paths; simp add: venue_paths_def get_request_def api_venues_def api_venue_def api_layouts_def api_layout_def; simp add: query_ok)+

lemma event_queries:
  "template_ok (api_events token q st)"
  "template_ok (api_event token i)"
  "template_ok (api_eventInventory token i)"
  unfolding template_ok_def
  by (rule in_event_paths; simp add: event_paths_def get_request_def api_events_def api_event_def api_eventInventory_def; simp add: query_ok)+

lemma partner_queries:
  "template_ok (api_partners token q st)"
  unfolding template_ok_def
  by (rule in_partner_paths; simp add: partner_paths_def get_request_def api_partners_def; simp add: query_ok)+

lemma report_queries:
  "template_ok (api_inventoryReport token i)"
  "template_ok (api_salesReport token i)"
  "template_ok (api_admissionReport token i)"
  "template_ok (api_audit token i)"
  unfolding template_ok_def
  by (rule in_report_paths; simp add: report_paths_def get_request_def api_inventoryReport_def api_salesReport_def api_admissionReport_def api_audit_def; simp add: query_ok)+

lemma encoded_segment: "CHR ''/'' \<notin> set (encodeURIComponent v)"
proof -
  have "CHR ''/'' \<notin> insert (CHR ''%'') (set uri_unreserved)" by code_simp
  then show ?thesis using encodeURIComponent_chars by blast
qed

lemmas segments = path_matches_def placeholder_def split_on_append split_on_plain encoded_segment

lemma finished_event_path:
  assumes "CHR ''/'' \<notin> set resource"
  shows "path_matches (''/api/v1/admin/events/{event_id}/'' @ resource) (req_path (raw_get token i resource))"
proof -
  have split: "split_on (CHR ''/'') (req_path (raw_get token i resource)) =
      [[], ''api'', ''v1'', ''admin'', ''events'', encodeURIComponent i, resource]"
    using assms by (simp add: raw_get_def get_request_def split_on_append encoded_segment split_on_plain)
  have "split_on (CHR ''/'') (''/api/v1/admin/events/{event_id}/'' @ resource) =
      [[], ''api'', ''v1'', ''admin'', ''events'', ''{event_id}'', resource]"
    using assms by (simp add: split_on_plain)
  then show ?thesis unfolding path_matches_def split by (simp add: placeholder_def)
qed

lemma raw_queries: "fetch_ok (api_restrictions token i)" "fetch_ok (api_accreditationCSV token i)"
proof -
  note m = finished_event_path [of "''restrictions''" token i] finished_event_path [of "''accreditation-export''" token i]
  show "fetch_ok (api_restrictions token i)" unfolding fetch_ok_def
    using m(1) by (intro conjI in_restriction_paths)
      (simp_all add: restriction_paths_def api_restrictions_def raw_get_def get_request_def query_ok)
  show "fetch_ok (api_accreditationCSV token i)" unfolding fetch_ok_def
    using m(2) by (intro conjI in_report_paths)
      (simp_all add: report_paths_def api_accreditationCSV_def raw_get_def get_request_def query_ok)
qed

text \<open>
  C13: Every request of the organiser application is one that the API's contract declares: its
  method and path, with exactly the path parameters of the template, only declared query
  parameters, the idempotency key wherever it is required, and a body of the declared type without
  any further field, if the metadata stored in a floor plan are objects.
\<close>

theorem organiser_requests_conform:
  assumes "typed_command c"
  shows "conforming (command_request token key c) \<and> conforming (query_request token q)"
proof -
  have "conforming (query_request token q)"
    by (cases q) (simp_all add: conforming_def user_queries read_queries venue_queries event_queries partner_queries
        report_queries raw_queries)
  then show ?thesis using commands_conform [OF assms] by (simp add: conforming_def)
qed

definition sample_body :: layout_body where
  "sample_body =
     \<lparr>st_rows = [], st_tables = [],
      st_seats = [\<lparr>seat_object_key = ''s1'', seat_section_key = ''a'', seat_row_key = None, seat_table_key = None,
        seat_label = ''1'', seat_sort_order = 0, seat_metadata = None\<rparr>],
      st_ga_zones = [], lb_canvas = None, lb_objects = None,
      lb_sections = [\<lparr>sec_object_key = ''a'', sec_name = ''Stalls'', sec_kind = RESERVED, sec_sort_order = 0,
        sec_metadata = Some (JObj [(''colour'', JStr ''red'')])\<rparr>]\<rparr>"

theorem organiser_requests_conform_witness:
  "conforming (command_request ''t'' ''k'' (C_replaceLayout ''l1'' sample_body)) \<and> conforming (query_request ''t'' (Q_audit ''e1''))"
proof -
  have "typed_command (C_replaceLayout ''l1'' sample_body)"
    by (simp add: typed_command_def typed_layout_def typed_metadata_def sample_body_def)
  then show ?thesis by (rule organiser_requests_conform)
qed

end
