(* ===== verification/Storefront_Types.thy ===== *)
theory Storefront_Types
  imports Storefront_Routes Api_Contract
begin

text \<open>
  The storefront's server is plain JavaScript: no compiler checks what it reads of an answer and
  what its pages read of it. Here its handlers get types: under answers of the types that the API's
  contract declares, they send declared requests, never fail on a missing field, and answer with
  the types that the pages declare (\<^verbatim>\<open>partner-demo-web/src/types.ts\<close>).
\<close>

section \<open>The types of the pages\<close>

definition optional_text :: ty where
  "optional_text = TUnion [TString, TNull]"

definition page_price :: ty where
  "page_price = TRecord [Member ''amount_minor'' True TNumber, Member ''currency'' True TString]"

definition page_event :: ty where
  "page_event =
     TRecord [Member ''id'' True TString, Member ''name'' True TString, Member ''state'' True TString,
       Member ''starts_at'' False optional_text, Member ''venue_name'' False optional_text,
       Member ''address_text'' False optional_text, Member ''starting_price'' False (TUnion [page_price, TNull])]"

definition page_item :: ty where
  "page_item =
     TRecord [Member ''id'' True TString, Member ''inventory_kind'' True (TUnion [TConst ''RESERVED'', TConst ''GA'']),
       Member ''inventory_id'' True TString, Member ''quantity'' True TNumber, Member ''unit_amount_minor'' True TNumber,
       Member ''currency'' True TString, Member ''price_tier_label'' False optional_text,
       Member ''display'' True (TRecord [Member ''section'' False TString, Member ''row'' False TString,
         Member ''seat'' False TString, Member ''table'' False TString, Member ''label'' False TString])]"

definition page_reservation :: ty where
  "page_reservation =
     TRecord [Member ''id'' True TString, Member ''status'' True TString, Member ''hold_expires_at'' True TString,
       Member ''server_time'' True TString, Member ''items'' True (TArray page_item), Member ''total'' True page_price]"

definition page_order :: ty where
  "page_order = TRecord [Member ''event'' True page_event, Member ''reservation'' True page_reservation]"

definition page_ticket :: ty where
  "page_ticket =
     TBoth page_order (TRecord
       [Member ''confirmation'' True (TRecord
          [Member ''sale'' True (TRecord [Member ''id'' True TString, Member ''confirmed_at'' True TString,
             Member ''partner_order_ref'' True TString]),
           Member ''tickets'' True (TArray (TRecord [Member ''id'' True TString, Member ''status'' True TString]))]),
        Member ''credentials'' True (TArray (TRecord [Member ''ticket_id'' True TString, Member ''status'' True TString,
          Member ''qr_payload'' True TString, Member ''qr_url'' True TString])),
        Member ''scanner_url'' True TString])"

definition page_connections :: ty where
  "page_connections =
     TRecord [Member ''items'' True (TArray (TRecord [Member ''id'' True TString, Member ''name'' True TString,
       Member ''active'' True TBoolean]))]"

definition page_events :: ty where
  "page_events =
     TRecord [Member ''items'' True (TArray page_event),
       Member ''connection'' True (TRecord [Member ''id'' True TString, Member ''name'' True TString])]"

section \<open>Typed handlers\<close>

definition api_path :: "storefront \<Rightarrow> upstream \<Rightarrow> string" where
  "api_path cfg r = drop (length (sf_apiBase cfg)) (up_url r)"

definition served_by :: "storefront \<Rightarrow> upstream \<Rightarrow> operation list" where
  "served_by cfg r =
     map snd (filter (\<lambda>((m, template), op). verb_text m = up_method r \<and> path_matches template (api_path cfg r)) api_paths)"

text \<open>
  The names of headers do not depend on their case. The body is what the operation declares, with one
  exception: to begin a checkout, for which no body is declared, the server sends an empty object.
\<close>

definition header_sent :: "upstream \<Rightarrow> field \<Rightarrow> bool" where
  "header_sent r f \<longleftrightarrow> (field_required f \<longrightarrow> to_lower (field_name f) \<in> set (map fst (up_headers r)))"

definition sent_body_ok :: "operation \<Rightarrow> json option \<Rightarrow> bool" where
  "sent_body_ok op body \<longleftrightarrow>
     content_ok (op_content op) body \<or> (op = partnerBeginReservationCheckout \<and> body = Some (JObj []))"

definition upstream_ok :: "storefront \<Rightarrow> upstream \<Rightarrow> bool" where
  "upstream_ok cfg r \<longleftrightarrow>
     list_ex (\<lambda>op. list_all (\<lambda>f. \<not> field_required f) (op_query op) \<and> list_all (header_sent r) (op_header op) \<and>
       sent_body_ok op (up_body r)) (served_by cfg r)"

text \<open>
  What the contract says of an answer. The layout of an event is declared as any object; the server
  relies on the fields that the backend's handler writes (\<^verbatim>\<open>partnerapi/handler.go\<close>, \<open>getLayout\<close>).
  A failed fetch reports its own message.
\<close>

definition response_for :: "operation \<Rightarrow> nat \<Rightarrow> response option" where
  "response_for op status =
     (case map_of (op_responses op) (nat_str status) of Some rp \<Rightarrow> Some rp | None \<Rightarrow> map_of (op_responses op) ''2XX'')"

definition success :: "nat \<Rightarrow> bool" where
  "success status \<longleftrightarrow> 200 \<le> status \<and> status < 300"

definition answer_ok :: "operation \<Rightarrow> upstream_answer \<Rightarrow> bool" where
  "answer_ok op answer =
     (case answer of
        Fetch_Failed msg \<Rightarrow> msg \<noteq> ''TypeError''
      | Answered_With status data \<Rightarrow>
          success status \<longrightarrow>
          (case (Option.bind (response_for op status) (\<lambda>rp. map_of (rp_content rp) ''application/json''), data) of
             (Some t, Some v) \<Rightarrow> conforms True t v
           | _ \<Rightarrow> False))"

definition layout_section_type :: "field list" where
  "layout_section_type =
     [Member ''id'' True TString, Member ''object_key'' True TString, Member ''name'' True TString, Member ''sort_order'' True TNumber]"

definition layout_seat_type :: "field list" where
  "layout_seat_type =
     [Member ''inventory_id'' True TString, Member ''section_id'' True TString, Member ''section_name'' True TString,
      Member ''object_key'' True TString, Member ''row'' True TString, Member ''seat'' True TString, Member ''table'' True TString,
      Member ''display_label'' True TString,
      Member ''price'' True (TRecord [Member ''amount_minor'' True TNumber, Member ''currency'' True TString])]"

definition layout_pool_type :: "field list" where
  "layout_pool_type =
     [Member ''inventory_id'' True TString, Member ''section_id'' True TString, Member ''section_name'' True TString,
      Member ''object_key'' True TString, Member ''name'' True TString, Member ''capacity'' True TNumber,
      Member ''price'' True (TRecord [Member ''amount_minor'' True TNumber, Member ''currency'' True TString])]"

definition partner_layout :: ty where
  "partner_layout =
     TRecord [Member ''event_id'' True TString, Member ''geometry'' True TUnknown,
       Member ''sections'' True (TArray (TRecord layout_section_type)),
       Member ''reserved_units'' True (TArray (TRecord layout_seat_type)),
       Member ''ga_pools'' True (TArray (TRecord layout_pool_type))]"

definition layout_ok :: "upstream_answer \<Rightarrow> bool" where
  "layout_ok answer =
     (case answer of
        Fetch_Failed msg \<Rightarrow> True
      | Answered_With status data \<Rightarrow>
          success status \<longrightarrow> (case data of None \<Rightarrow> False | Some v \<Rightarrow> conforms True partner_layout v))"

definition answered_ok :: "storefront \<Rightarrow> upstream \<Rightarrow> upstream_answer \<Rightarrow> bool" where
  "answered_ok cfg r answer \<longleftrightarrow>
     list_all (\<lambda>op. answer_ok op answer) (served_by cfg r) \<and>
     (path_matches ''/api/v1/partner/events/{event_id}/layout'' (api_path cfg r) \<longrightarrow> layout_ok answer)"

text \<open>\<open>typed_act cfg P a\<close>: under such answers \<open>a\<close> sends declared requests, never throws a type error, and ends in \<open>P\<close>.\<close>

primrec typed_act :: "storefront \<Rightarrow> ('a \<Rightarrow> bool) \<Rightarrow> 'a act \<Rightarrow> bool" where
  "typed_act cfg P (Return x) = P x"
| "typed_act cfg P (Throw e) = (e \<noteq> type_error)"
| "typed_act cfg P (Ask rs k) =
     (list_all (upstream_ok cfg) rs \<and>
      (\<forall>xs. list_all2 (\<lambda>r x. answered_ok cfg r (snd x)) rs xs \<longrightarrow> typed_act cfg P (k xs)))"

lemma typed_bind: "typed_act cfg Q a \<Longrightarrow> (\<And>x. Q x \<Longrightarrow> typed_act cfg P (f x)) \<Longrightarrow> typed_act cfg P (bind_act a f)"
  by (induction a) auto

lemma typed_weaken: "typed_act cfg Q a \<Longrightarrow> (\<And>x. Q x \<Longrightarrow> P x) \<Longrightarrow> typed_act cfg P a"
  by (induction a) auto

lemma typed_of_option:
  "(v = None \<Longrightarrow> e \<noteq> type_error) \<Longrightarrow> (\<And>x. v = Some x \<Longrightarrow> P x) \<Longrightarrow> typed_act cfg P (of_option e v)"
  by (cases v) (simp_all add: of_option_def)

text \<open>A value or an error that is no type error.\<close>

definition result_ok :: "('a \<Rightarrow> bool) \<Rightarrow> server_error + 'a \<Rightarrow> bool" where
  "result_ok P r = (case r of Inl e \<Rightarrow> e \<noteq> type_error | Inr x \<Rightarrow> P x)"

lemma result_ok_simps [simp]: "result_ok P (Inl e) = (e \<noteq> type_error)" "result_ok P (Inr x) = P x"
  by (simp_all add: result_ok_def)

lemma typed_of_result: "result_ok P r \<Longrightarrow> typed_act cfg P (of_result r)"
  by (cases r) (simp_all add: of_result_def)

section \<open>Calls of the partner API\<close>

definition answers_type :: "operation \<Rightarrow> ty \<Rightarrow> bool" where
  "answers_type op t \<longleftrightarrow>
     list_all (\<lambda>(status, rp). status = ''default'' \<or> map_of (rp_content rp) ''application/json'' = Some t) (op_responses op)"

lemma response_declared: "response_for op status = Some rp \<Longrightarrow> \<exists>k. (k, rp) \<in> set (op_responses op) \<and> k \<noteq> ''default''"
proof -
  assume found: "response_for op status = Some rp"
  have digits: "nat_str status \<noteq> ''default''"
  proof
    assume d: "nat_str status = ''default''"
    have "CHR ''d'' \<notin> set digit_chars" by code_simp
    moreover have "CHR ''d'' \<in> set (nat_str status)" unfolding d by simp
    ultimately show False using nat_str_digits by blast
  qed
  have entry: "\<exists>k. (k, rp) \<in> set (op_responses op) \<and> k \<noteq> ''default''"
    if "map_of (op_responses op) k = Some rp" "k \<noteq> ''default''" for k
    using that by (blast dest: map_of_SomeD)
  have "map_of (op_responses op) (nat_str status) = Some rp \<or> map_of (op_responses op) ''2XX'' = Some rp"
    using found by (auto simp: response_for_def split: option.splits)
  then show ?thesis using entry digits by auto
qed

lemma answered_type:
  assumes "answers_type op t" and "answer_ok op answer"
  shows "result_ok (conforms True t) (partner_result to_text answer)"
proof (cases answer)
  case (Fetch_Failed msg)
  then show ?thesis using assms(2) by (auto simp: partner_result_def answer_ok_def type_error_def plain_error_def)
next
  case (Answered_With status data)
  show ?thesis
  proof (cases "success status")
    case True
    obtain u v rp where v: "data = Some v" "conforms True u v" "response_for op status = Some rp"
      "map_of (rp_content rp) ''application/json'' = Some u"
      using assms(2) Answered_With True by (auto simp: answer_ok_def split: option.splits bind_splits)
    then have "u = t" using assms(1) response_declared [OF v(3)] by (fastforce simp: answers_type_def list_all_iff)
    then show ?thesis using v True Answered_With by (simp add: partner_result_def success_def)
  next
    case False
    then show ?thesis using Answered_With by (auto simp: partner_result_def success_def Let_def type_error_def plain_error_def)
  qed
qed

definition served :: "http_method \<Rightarrow> string \<Rightarrow> operation \<Rightarrow> bool" where
  "served m path op \<longleftrightarrow> list_ex (\<lambda>((m', template), op'). m' = m \<and> op' = op \<and> path_matches template path) api_paths"

definition request_declared :: "partner_options \<Rightarrow> operation \<Rightarrow> bool" where
  "request_declared opts op \<longleftrightarrow>
     list_all (\<lambda>f. \<not> field_required f) (op_query op) \<and>
     list_all (\<lambda>f. field_required f \<longrightarrow>
       (field_name f = ''Idempotency-Key'' \<and> po_idempotency opts \<noteq> []) \<or>
       (field_name f = ''X-TktSync-Reservation-Token'' \<and> po_token opts \<noteq> [])) (op_header op) \<and>
     sent_body_ok op (po_body opts)"

lemma served_upstream:
  assumes "served m path op" and "verb_text m = po_method opts" and "partner_request cfg path opts credential = Some r"
  shows "op \<in> set (served_by cfg r)" "request_declared opts op \<Longrightarrow> upstream_ok cfg r"
proof -
  have r: "api_path cfg r = path" "up_method r = po_method opts" "up_body r = po_body opts"
    using assms(3) by (auto simp: partner_request_def api_path_def split: if_splits)
  show in_served: "op \<in> set (served_by cfg r)"
    using assms(1,2) r by (force simp: served_def served_by_def list_ex_iff)
  have names: "to_lower ''Idempotency-Key'' = ''idempotency-key''" "to_lower ''X-TktSync-Reservation-Token'' = ''x-tktsync-reservation-token''"
    by code_simp+
  show "upstream_ok cfg r" if "request_declared opts op"
  proof -
    have "header_sent r f" if "f \<in> set (op_header op)" for f
      using \<open>request_declared opts op\<close> that assms(3)
      by (auto simp: request_declared_def list_all_iff header_sent_def partner_request_def names split: if_splits)
    then show ?thesis using that in_served r by (auto simp: upstream_ok_def list_ex_iff request_declared_def list_all_iff)
  qed
qed

lemma typed_partner:
  assumes "served m path op" and "verb_text m = po_method opts" and "request_declared opts op" and "answers_type op t"
  shows "typed_act (sx_cfg env) (conforms True t) (partner env path opts credential)"
proof (cases "partner_request (sx_cfg env) path opts credential")
  case None
  then show ?thesis by (simp add: partner_def not_configured_def type_error_def plain_error_def)
next
  case (Some r)
  note r = served_upstream [OF assms(1,2) Some]
  have "typed_act (sx_cfg env) (conforms True t) (of_result (partner_result (sx_text env) (the_answer [x])))"
    if "answered_ok (sx_cfg env) r (snd x)" for x
    using that r(1) answered_type [OF assms(4)]
    by (intro typed_of_result) (auto simp: answered_ok_def list_all_iff the_answer_def)
  then show ?thesis using Some r(2) assms(3) by (auto simp: partner_def list_all2_Cons1)
qed

definition call_typed :: "server_env \<Rightarrow> string \<Rightarrow> string \<Rightarrow> (json \<Rightarrow> bool) \<Rightarrow> bool" where
  "call_typed env credential path Q \<longleftrightarrow>
     (\<forall>r. partner_request (sx_cfg env) path get_options credential = Some r \<longrightarrow> upstream_ok (sx_cfg env) r \<and>
        (\<forall>answer. answered_ok (sx_cfg env) r answer \<longrightarrow> result_ok Q (partner_result (sx_text env) answer)))"

lemma call_typedI:
  assumes "served GET path op" and "request_declared get_options op" and "answers_type op t"
  shows "call_typed env credential path (conforms True t)"
proof -
  have "result_ok (conforms True t) (partner_result (sx_text env) answer)"
    if "partner_request (sx_cfg env) path get_options credential = Some r" "answered_ok (sx_cfg env) r answer" for r answer
    using served_upstream(1) [OF assms(1) _ that(1)] that(2) answered_type [OF assms(3)]
    by (auto simp: answered_ok_def list_all_iff get_options_def)
  moreover have "verb_text GET = po_method get_options" by (simp add: get_options_def)
  ultimately show ?thesis using served_upstream(2) [OF assms(1)] assms(2) by (simp add: call_typed_def)
qed

lemma typed_partner_all:
  assumes "list_all2 (call_typed env credential) paths Qs"
    and "\<And>ys. list_all2 (\<lambda>Q y. result_ok Q (snd y)) Qs ys \<Longrightarrow> typed_act (sx_cfg env) P (k ys)"
  shows "typed_act (sx_cfg env) P (partner_all env paths credential k)"
proof (cases "credential = []")
  case True
  have "not_configured \<noteq> type_error" by (simp add: not_configured_def type_error_def plain_error_def)
  then have "list_all2 (\<lambda>Q y. result_ok Q (snd y)) Qs (map (\<lambda>_. (0 :: nat, Inl not_configured)) paths)"
    using list_all2_lengthD [OF assms(1)] by (simp add: list_all2_conv_all_nth)
  then show ?thesis using assms(2) True by (simp add: partner_all_def)
next
  case False
  define rq where "rq p = the (partner_request (sx_cfg env) p get_options credential)" for p
  have rq: "partner_request (sx_cfg env) p get_options credential = Some (rq p)" for p
    using False by (simp add: rq_def partner_request_def)
  then have requests: "List.map_filter (\<lambda>p. partner_request (sx_cfg env) p get_options credential) paths = map rq paths"
    by (simp add: map_filter_def comp_def)
  have typed: "upstream_ok (sx_cfg env) (rq (paths ! i)) \<and>
      (\<forall>answer. answered_ok (sx_cfg env) (rq (paths ! i)) answer \<longrightarrow> result_ok (Qs ! i) (partner_result (sx_text env) answer))"
    if "i < length paths" for i
    using assms(1) that rq by (simp add: list_all2_conv_all_nth call_typed_def)
  have "typed_act (sx_cfg env) P (k (map (\<lambda>i. if i < length xs then map_prod id (partner_result (sx_text env)) (xs ! i)
      else (0, Inl (plain_error []))) [0 ..< length paths]))"
    if "list_all2 (\<lambda>r x. answered_ok (sx_cfg env) r (snd x)) (map rq paths) xs" for xs
    using that typed list_all2_lengthD [OF assms(1)] by (intro assms(2)) (simp add: list_all2_conv_all_nth)
  moreover have "list_all (upstream_ok (sx_cfg env)) (map rq paths)" using typed by (simp add: list_all_length)
  ultimately show ?thesis using False requests by (simp add: partner_all_def)
qed

section \<open>The endpoints\<close>

lemma served_events:
  "served GET ''/api/v1/partner/events'' partnerListEvents"
  "served GET (''/api/v1/partner/events/'' @ encodeURIComponent i) partnerGetEvent"
  "served GET (''/api/v1/partner/events/'' @ encodeURIComponent i @ ''/layout'') partnerGetEventLayout"
  "served GET (''/api/v1/partner/events/'' @ encodeURIComponent i @ ''/availability'') partnerGetAvailability"
  unfolding served_def by (rule in_partner_event_paths; simp add: partner_event_paths_def segments)+

lemma served_reservations:
  "served GET (''/api/v1/partner/reservations/'' @ encodeURIComponent i) partnerGetReservation"
  "served POST (''/api/v1/partner/reservations/'' @ encodeURIComponent i @ ''/checkout'') partnerBeginReservationCheckout"
  "served POST (''/api/v1/partner/reservations/'' @ encodeURIComponent i @ ''/payment-failure'') partnerReportReservationPaymentFailure"
  "served POST (''/api/v1/partner/reservations/'' @ encodeURIComponent i @ ''/confirm'') partnerConfirmReservation"
  unfolding served_def by (rule in_partner_reservation_paths; simp add: partner_reservation_paths_def segments)+

lemma served_others:
  "served GET (''/api/v1/partner/tickets/'' @ encodeURIComponent i @ ''/credential'') partnerGetTicketCredential"
  "served POST ''/api/v1/partner/selection-sessions'' partnerCreateSelectionSession"
  unfolding served_def
  by (rule in_partner_ticket_paths, simp add: partner_ticket_paths_def segments)
    (rule in_selection_paths, simp add: selection_paths_def segments)

lemmas partner_operations = partnerListEvents_def partnerGetEvent_def partnerGetEventLayout_def partnerGetAvailability_def
  partnerGetReservation_def partnerBeginReservationCheckout_def partnerReportReservationPaymentFailure_def
  partnerConfirmReservation_def partnerGetTicketCredential_def partnerCreateSelectionSession_def

lemma partner_answers:
  "answers_type partnerListEvents PartnerEventList_schema" "answers_type partnerGetEvent PartnerEvent_schema"
  "answers_type partnerGetEventLayout GenericObject_schema" "answers_type partnerGetAvailability PartnerAvailability_schema"
  "answers_type partnerGetReservation Reservation_schema" "answers_type partnerBeginReservationCheckout BeginCheckoutResponse_schema"
  "answers_type partnerReportReservationPaymentFailure PaymentFailureResponse_schema"
  "answers_type partnerConfirmReservation ConfirmReservationResponse_schema"
  "answers_type partnerGetTicketCredential TicketCredentialResponse_schema"
  "answers_type partnerCreateSelectionSession CreateSelectionSessionResponse_schema"
  by (simp_all add: answers_type_def partner_operations json_answer_def ErrorResponse_response_def)

lemma gets_declared:
  "request_declared get_options partnerListEvents" "request_declared get_options partnerGetEvent"
  "request_declared get_options partnerGetEventLayout" "request_declared get_options partnerGetAvailability"
  "request_declared get_options partnerGetReservation" "request_declared get_options partnerGetTicketCredential"
  by (simp_all add: request_declared_def get_options_def partner_operations sent_body_ok_def content_ok_def)

lemma layout_call_typed:
  "call_typed env credential (''/api/v1/partner/events/'' @ encodeURIComponent i @ ''/layout'') (conforms True partner_layout)"
  (is "call_typed env credential ?path _")
proof -
  have "path_matches ''/api/v1/partner/events/{event_id}/layout'' ?path" by (simp add: segments)
  then have "result_ok (conforms True partner_layout) (partner_result (sx_text env) answer)"
    if "partner_request (sx_cfg env) ?path get_options credential = Some r" "answered_ok (sx_cfg env) r answer" for r answer
  proof -
    have "api_path (sx_cfg env) r = ?path" using that(1) by (auto simp: partner_request_def api_path_def split: if_splits)
    then have layout: "layout_ok answer" using that(2) \<open>path_matches _ _\<close> by (simp add: answered_ok_def)
    have typed: "result_ok (conforms True GenericObject_schema) (partner_result (sx_text env) answer)"
      using call_typedI [OF served_events(3) gets_declared(3) partner_answers(3), of env credential i] that
      by (auto simp: call_typed_def)
    show ?thesis using typed layout
      by (cases answer) (auto simp: result_ok_def partner_result_def layout_ok_def success_def Let_def type_error_def plain_error_def
          split: option.splits if_splits)
  qed
  then show ?thesis
    using call_typedI [OF served_events(3) gets_declared(3) partner_answers(3), of env credential i]
    by (auto simp: call_typed_def)
qed

end
