(* ===== verification/Storefront_Pages.thy ===== *)
theory Storefront_Pages
  imports Storefront_Types
begin

text \<open>
  What the storefront's server makes of typed answers: events with prices, the order, the steps of
  the checkout and the ticket, and the property that every page gets the type it declares.
\<close>

section \<open>Records\<close>

lemma conforms_object: "conforms exact (TRecord fs) v \<Longrightarrow> \<exists>kvs. v = JObj kvs"
  by (cases v) simp_all

lemma not_null: "conforms exact (TRecord fs) v \<Longrightarrow> v \<noteq> JNull"
  by auto

lemma record_member:
  assumes "conforms exact (TRecord fs) v" and "Member n required t \<in> set fs"
  shows "case js_get n (Some v) of None \<Rightarrow> \<not> required | Some x \<Rightarrow> conforms exact t x"
proof -
  have "list_all (field_conforms exact v) fs" using assms(1) by (cases v) simp_all
  with assms(2) show ?thesis by (auto simp: list_all_iff)
qed

lemma required_member:
  assumes "conforms exact (TRecord fs) v" and "Member n True t \<in> set fs"
  shows "\<exists>x. js_get n (Some v) = Some x \<and> conforms exact t x"
  using record_member [OF assms] by (cases "js_get n (Some v)") simp_all

lemma string_conforms: "conforms exact TString x \<longleftrightarrow> (\<exists>s. x = JStr s)"
  by (cases x) simp_all

lemma string_member:
  "conforms exact (TRecord fs) v \<Longrightarrow> Member n True TString \<in> set fs \<Longrightarrow> \<exists>s. js_get n (Some v) = Some (JStr s)"
  using required_member [of exact fs v n TString] unfolding string_conforms by blast

lemma array_conforms: "conforms exact (TArray t) x \<longleftrightarrow> (\<exists>xs. x = JArr xs \<and> list_all (conforms exact t) xs)"
  by (cases x) simp_all

lemma array_member:
  "conforms exact (TRecord fs) v \<Longrightarrow> Member n True (TArray t) \<in> set fs \<Longrightarrow>
   \<exists>xs. js_get n (Some v) = Some (JArr xs) \<and> list_all (conforms exact t) xs"
  using required_member [of exact fs v n "TArray t"] unfolding array_conforms by blast

lemma absent_member:
  assumes "conforms True (TRecord fs) v" and "n \<notin> set (field_names fs)"
  shows "js_get n (Some v) = None"
proof -
  obtain kvs where v: "v = JObj kvs" using assms(1) conforms_object by blast
  then have "\<forall>k \<in> set (map fst kvs). k \<in> set (field_names fs)" using assms(1) by (simp add: list_all_iff)
  then show ?thesis using assms(2) v by (auto simp: js_get_def map_of_eq_None_iff)
qed

lemma js_dot_record: "conforms exact (TRecord fs) v \<Longrightarrow> js_dot n (Some v) = Some (js_get n (Some v))"
  using not_null by (auto simp: js_dot_def)

text \<open>A value of exactly one record type is of another that it covers.\<close>

definition covers :: "field list \<Rightarrow> field \<Rightarrow> bool" where
  "covers fs g \<longleftrightarrow>
     (case find (\<lambda>f. field_name f = field_name g) fs of
        None \<Rightarrow> \<not> field_required g
      | Some f \<Rightarrow> (field_required g \<longrightarrow> field_required f) \<and>
          (\<forall>x. conforms True (field_type f) x \<longrightarrow> conforms False (field_type g) x))"

lemma record_sub:
  assumes "conforms True (TRecord fs) v" and "list_all (covers fs) gs"
  shows "conforms False (TRecord gs) v"
proof -
  have "field_conforms False v g" if "g \<in> set gs" for g
  proof -
    have c: "covers fs g" using assms(2) that by (simp add: list_all_iff)
    show ?thesis
    proof (cases "find (\<lambda>f. field_name f = field_name g) fs")
      case None
      then have "field_name g \<notin> set (field_names fs)" by (auto simp: find_None_iff field_names_def)
      then show ?thesis using absent_member [OF assms(1)] c None by (cases g) (simp add: covers_def)
    next
      case (Some f)
      then have f: "f \<in> set fs" "field_name f = field_name g" by (auto simp: find_Some_iff)
      then have "case js_get (field_name f) (Some v) of None \<Rightarrow> \<not> field_required f | Some x \<Rightarrow> conforms True (field_type f) x"
        using f(1) by (intro record_member [OF assms(1)]) (cases f; simp)
      then show ?thesis using f(2) c Some by (cases g) (simp add: covers_def split: option.splits)
    qed
  qed
  then show ?thesis using conforms_object [OF assms(1)] by (auto simp: list_all_iff)
qed

lemma map_of_updates: "map_of (foldl (\<lambda>m (k, x). AList.update k x m) kvs ps) k =
    (case map_of (rev ps) k of None \<Rightarrow> map_of kvs k | Some x \<Rightarrow> Some x)"
  by (induction ps arbitrary: kvs) (auto simp: update_conv' map_add_def split: option.splits)

lemma js_get_spread_with:
  "js_get k (Some (spread_with v ps)) = (case map_of (rev ps) k of None \<Rightarrow> js_get k v | Some x \<Rightarrow> Some x)"
  by (auto simp: spread_with_def js_get_def map_of_updates spread_def split: option.splits json.splits)

lemma spread_record:
  assumes "conforms False (TRecord hs) v"
    and "list_all (\<lambda>g. case map_of (rev ps) (field_name g) of None \<Rightarrow> g \<in> set hs | Some x \<Rightarrow> conforms False (field_type g) x) gs"
  shows "conforms False (TRecord gs) (spread_with (Some v) ps)"
proof -
  have "field_conforms False (spread_with (Some v) ps) g" if "g \<in> set gs" for g
    using assms(2) that record_member [OF assms(1)]
    by (cases g) (force simp: list_all_iff js_get_spread_with split: option.splits)
  then show ?thesis by (simp add: list_all_iff spread_with_def)
qed

lemma those_map: "\<forall>x \<in> set xs. f x = Some (g x) \<Longrightarrow> those (map f xs) = Some (map g xs)"
  by (induction xs) simp_all

lemma those_map_elements: "those (map f xs) = Some ys \<Longrightarrow> y \<in> set ys \<Longrightarrow> \<exists>x \<in> set xs. f x = Some y"
  by (induction xs arbitrary: ys) (auto split: option.splits)

section \<open>Several answers\<close>

lemma settle_typed:
  assumes "list_all2 (\<lambda>Q y. result_ok Q (snd y)) Qs ys"
  shows "result_ok (\<lambda>vs. list_all2 (\<lambda>Q v. Q v) Qs vs) (settle_all ys)"
proof (cases "filter (isl \<circ> snd) (sort_key fst ys)")
  case Nil
  then have right: "\<not> isl (snd y)" if "y \<in> set ys" for y
    using that by (auto simp: filter_empty_conv)
  have "list_all2 (\<lambda>Q y. Q (projr (snd y))) Qs ys"
    using assms right by (auto simp: list_all2_conv_all_nth result_ok_def dest!: nth_mem split: sum.splits)
  then show ?thesis using Nil by (simp add: settle_all_def list_all2_conv_all_nth)
next
  case (Cons y ys')
  then have "y \<in> set (filter (isl \<circ> snd) (sort_key fst ys))" by simp
  then obtain i e where i: "i < length ys" "ys ! i = y" "snd y = Inl e"
    by (cases "snd y") (auto simp: in_set_conv_nth)
  then have "e \<noteq> type_error" using assms by (metis list_all2_nthD2 result_ok_simps(1))
  then show ?thesis using Cons i(3) by (simp add: settle_all_def)
qed

section \<open>Prices\<close>

lemma price_sub: "conforms True Price_schema p \<Longrightarrow> conforms False page_price p"
  unfolding Price_schema_def page_price_def by (erule record_sub) (simp add: covers_def)

lemma offer_price:
  assumes "conforms True (TRecord fs) offer" and "Member ''price'' True Price_schema \<in> set fs"
  shows "\<exists>p. js_get ''price'' (Some offer) = Some p \<and> conforms False page_price p"
  using required_member [OF assms] price_sub by blast

lemma unit_prices_typed:
  assumes "conforms True ReservedAvailability_schema u" and "reserved_price u = Some ps" and "Some p \<in> set ps"
  shows "conforms False page_price p"
proof -
  obtain offer where offer: "js_get ''offer'' (Some u) = Some offer" "js_get ''price'' (Some offer) = Some p"
    using assms(2,3) by (cases "js_get ''offer'' (Some u)") (auto simp: reserved_price_def js_dot_def split: if_splits)
  have "conforms True AvailabilityOffer_schema offer"
    using record_member [OF assms(1) [unfolded ReservedAvailability_schema_def], of "''offer''" False AvailabilityOffer_schema] offer(1)
    by simp
  then show ?thesis using offer_price offer(2) unfolding AvailabilityOffer_schema_def by (fastforce simp del: conforms.simps)
qed

lemma pool_prices_typed:
  assumes "conforms True GAAvailability_schema pool" and "pool_prices pool = Some ps" and "Some p \<in> set ps"
  shows "conforms False page_price p"
proof -
  obtain offers where offers: "js_get ''offers'' (Some pool) = Some (JArr offers)" "list_all (conforms True GAAvailabilityOffer_schema) offers"
    using array_member [OF assms(1) [unfolded GAAvailability_schema_def], of "''offers''" GAAvailabilityOffer_schema] by auto
  have "js_dot ''offers'' (Some pool) = Some (Some (JArr offers))"
    using js_dot_record [OF assms(1) [unfolded GAAvailability_schema_def], of "''offers''"] offers(1) by simp
  then have "those (map (\<lambda>offer. js_dot ''price'' (Some offer)) offers) = Some ps"
    using assms(2) by (simp add: pool_prices_def js_array_or_empty_def js_array_def)
  then obtain offer where offer: "offer \<in> set offers" "js_dot ''price'' (Some offer) = Some (Some p)"
    using assms(3) by (blast dest: those_map_elements)
  then have "js_get ''price'' (Some offer) = Some p" by (auto simp: js_dot_def split: if_splits)
  moreover have "conforms True GAAvailabilityOffer_schema offer" using offers(2) offer(1) by (simp add: list_all_iff)
  ultimately show ?thesis using offer_price unfolding GAAvailabilityOffer_schema_def by (fastforce simp del: conforms.simps)
qed

lemma offer_prices_typed:
  assumes "conforms True PartnerAvailability_schema a" and "offer_prices a = Some ps" and "p \<in> set ps"
  shows "conforms False page_price p"
proof -
  note a = assms(1) [unfolded PartnerAvailability_schema_def]
  obtain us where us: "js_get ''reserved_units'' (Some a) = Some (JArr us)" "list_all (conforms True ReservedAvailability_schema) us"
    using array_member [OF a, of "''reserved_units''" ReservedAvailability_schema] by auto
  obtain pools where pools: "js_get ''ga_pools'' (Some a) = Some (JArr pools)" "list_all (conforms True GAAvailability_schema) pools"
    using array_member [OF a, of "''ga_pools''" GAAvailability_schema] by auto
  obtain reserved ga where parts: "those (map reserved_price us) = Some reserved" "those (map pool_prices pools) = Some ga"
    "ps = map the (filter json_truthy (concat reserved @ concat ga))"
    using assms(2) js_dot_record [OF a, of "''reserved_units''"] us(1) pools(1)
    by (auto simp: offer_prices_def js_array_or_empty_def js_array_def split: bind_splits)
  then obtain v where v: "json_truthy v" "p = the v" "v \<in> set (concat reserved) \<or> v \<in> set (concat ga)"
    using assms(3) by auto
  have "v = Some p" using v(1,2) by (cases v) simp_all
  then consider (seat) qs where "qs \<in> set reserved" "Some p \<in> set qs" | (pool) qs where "qs \<in> set ga" "Some p \<in> set qs"
    using v(3) by auto
  then show ?thesis
  proof cases
    case seat
    then obtain u where "u \<in> set us" "reserved_price u = Some qs" using parts(1) by (blast dest: those_map_elements)
    then show ?thesis using unit_prices_typed us(2) seat(2) by (auto simp: list_all_iff)
  next
    case pool
    then obtain w where "w \<in> set pools" "pool_prices w = Some qs" using parts(2) by (blast dest: those_map_elements)
    then show ?thesis using pool_prices_typed pools(2) pool(2) by (auto simp: list_all_iff)
  qed
qed

lemma starting_price_typed:
  assumes "result_ok (conforms True PartnerAvailability_schema) r"
  shows "conforms False (TUnion [page_price, TNull]) (starting_price r)"
proof (cases r)
  case (Inr a)
  then have a: "conforms True PartnerAvailability_schema a" using assms by simp
  have "sort_key amount_of ps = p # rest \<Longrightarrow> p \<in> set ps" for ps p rest
    by (metis list.set_intros(1) set_sort)
  then show ?thesis using Inr offer_prices_typed [OF a] by (simp add: starting_price_def split: option.splits list.splits)
qed (simp add: starting_price_def)

section \<open>Events\<close>

definition priceless_event :: "field list" where
  "priceless_event =
     [Member ''id'' True TString, Member ''name'' True TString, Member ''state'' True TString,
      Member ''starts_at'' False optional_text, Member ''venue_name'' False optional_text, Member ''address_text'' False optional_text]"

lemma texts: "conforms False TString x \<longleftrightarrow> conforms True TString x"
  by (cases x) simp_all

lemma event_sub:
  "conforms True PartnerEvent_schema e \<Longrightarrow> conforms False (TRecord priceless_event) e"
  "conforms True PartnerEvent_schema e \<Longrightarrow> conforms False page_event e"
  unfolding PartnerEvent_schema_def priceless_event_def page_event_def
  by (erule record_sub; auto simp: covers_def optional_text_def)+

lemma with_price_typed:
  assumes "conforms True PartnerEvent_schema e" and "result_ok (conforms True PartnerAvailability_schema) r"
  shows "conforms False page_event (with_price e r)"
  unfolding with_price_def page_event_def
  by (rule spread_record [OF event_sub(1) [OF assms(1)]])
    (use starting_price_typed [OF assms(2)] in \<open>simp add: priceless_event_def\<close>)

lemma availability_call:
  assumes "conforms True PartnerEvent_schema e"
  shows "call_typed env credential (availability_path env e) (conforms True PartnerAvailability_schema)"
proof -
  obtain i where "js_get ''id'' (Some e) = Some (JStr i)"
    using string_member [OF assms [unfolded PartnerEvent_schema_def], of "''id''"] by auto
  then have "availability_path env e = ''/api/v1/partner/events/'' @ encodeURIComponent i @ ''/availability''"
    by (simp add: availability_path_def uri_text_def)
  then show ?thesis using call_typedI [OF served_events(4) gets_declared(4) partner_answers(4)] by simp
qed

lemma price_events_typed:
  "list_all (conforms True PartnerEvent_schema) es \<Longrightarrow> list_all (result_ok (conforms True PartnerAvailability_schema)) rs \<Longrightarrow>
   length rs = length es \<Longrightarrow>
   list_all (conforms False page_event) (price_events es rs) \<and> length (price_events es rs) = length es"
proof (induction es arbitrary: rs)
  case (Cons e es)
  obtain r rest where rs: "rs = r # rest" using Cons.prems(3) by (cases rs) simp_all
  have e: "conforms True PartnerEvent_schema e" using Cons.prems(1) by simp
  then have "e \<noteq> JNull" using not_null [of True _ e] unfolding PartnerEvent_schema_def by blast
  then have "price_events (e # es) rs = with_price e r # price_events es rest" by (simp add: rs)
  moreover have "list_all (conforms False page_event) (price_events es rest) \<and> length (price_events es rest) = length es"
    using Cons.prems by (intro Cons.IH) (simp_all add: rs)
  moreover have "conforms False page_event (with_price e r)" using e Cons.prems(2) by (intro with_price_typed) (simp_all add: rs)
  ultimately show ?case by simp
qed simp

lemma events_typed:
  assumes "list_all (conforms True PartnerEvent_schema) es"
  shows "typed_act (sx_cfg env) (\<lambda>items. list_all (conforms False page_event) items \<and> length items = length es)
    (events_with_prices env es credential)"
proof -
  have "filter (\<lambda>e. e \<noteq> JNull) es = es"
    using assms not_null by (intro filter_True) (auto simp: list_all_iff PartnerEvent_schema_def)
  moreover have "list_all2 (call_typed env credential) (map (availability_path env) es)
      (replicate (length es) (conforms True PartnerAvailability_schema))"
    using assms availability_call by (simp add: list_all2_conv_all_nth list_all_length)
  moreover have "typed_act (sx_cfg env) (\<lambda>items. list_all (conforms False page_event) items \<and> length items = length es)
      (Return (price_events es (map snd ys)))"
    if "list_all2 (\<lambda>Q y. result_ok Q (snd y)) (replicate (length es) (conforms True PartnerAvailability_schema)) ys" for ys
  proof -
    have "list_all (result_ok (conforms True PartnerAvailability_schema)) (map snd ys)" "length (map snd ys) = length es"
      using that by (simp_all add: list_all2_conv_all_nth list_all_length)
    from price_events_typed [OF assms this] show ?thesis by simp
  qed
  ultimately show ?thesis unfolding events_with_prices_def by (simp only:) (rule typed_partner_all)
qed

section \<open>The order\<close>

definition display_type :: ty where
  "display_type = TRecord [Member ''section'' False TString, Member ''row'' False TString,
     Member ''seat'' False TString, Member ''table'' False TString, Member ''label'' False TString]"

definition displays_ok :: "(json option \<times> json) list \<Rightarrow> bool" where
  "displays_ok ds \<longleftrightarrow> list_all (\<lambda>d. conforms False display_type (snd d)) ds"

lemma shown_field: "j_opt k (Some x) = [(k, x)]"
  by (simp add: j_opt_def)

lemma seat_entry_typed:
  assumes "conforms True (TRecord layout_seat_type) u"
  shows "\<exists>d. layout_entry seat_fields u = Some d \<and> conforms False display_type (snd d)"
proof -
  obtain a b c d e where "js_get ''section_name'' (Some u) = Some (JStr a)" "js_get ''row'' (Some u) = Some (JStr b)"
    "js_get ''seat'' (Some u) = Some (JStr c)" "js_get ''table'' (Some u) = Some (JStr d)" "js_get ''display_label'' (Some u) = Some (JStr e)"
    using string_member [OF assms] unfolding layout_seat_type_def by (meson list.set_intros)
  then show ?thesis using not_null [OF assms]
    by (simp add: layout_entry_def seat_fields_def shown_field display_type_def js_get_cons js_get_nil)
qed

lemma pool_entry_typed:
  assumes "conforms True (TRecord layout_pool_type) u"
  shows "\<exists>d. layout_entry pool_fields u = Some d \<and> conforms False display_type (snd d)"
proof -
  obtain a b where "js_get ''section_name'' (Some u) = Some (JStr a)" "js_get ''name'' (Some u) = Some (JStr b)"
    using string_member [OF assms] unfolding layout_pool_type_def by (meson list.set_intros)
  then show ?thesis using not_null [OF assms]
    by (simp add: layout_entry_def pool_fields_def shown_field display_type_def js_get_cons js_get_nil)
qed

lemma entries_typed:
  assumes "\<And>u. conforms True t u \<Longrightarrow> \<exists>d. layout_entry fs u = Some d \<and> conforms False display_type (snd d)"
    and "list_all (conforms True t) us"
  shows "\<exists>ds. those (map (layout_entry fs) us) = Some ds \<and> displays_ok ds"
  using assms(2)
proof (induction us)
  case (Cons u us)
  then show ?case using assms(1) [of u] by (auto simp: displays_ok_def)
qed (simp add: displays_ok_def)

lemma displays_typed:
  assumes "conforms True partner_layout l \<or> l = empty_layout"
  shows "\<exists>ds. inventory_displays l = Some ds \<and> displays_ok ds"
proof (cases "l = empty_layout")
  case True
  then show ?thesis
    by (simp add: inventory_displays_def empty_layout_def js_dot_def js_get_def js_array_or_empty_def js_array_def displays_ok_def)
next
  case False
  then have "conforms True partner_layout l" using assms by blast
  note l = this [unfolded partner_layout_def]
  obtain us where us: "js_get ''reserved_units'' (Some l) = Some (JArr us)" "list_all (conforms True (TRecord layout_seat_type)) us"
    using array_member [OF l, of "''reserved_units''" "TRecord layout_seat_type"] by auto
  obtain pools where pools: "js_get ''ga_pools'' (Some l) = Some (JArr pools)" "list_all (conforms True (TRecord layout_pool_type)) pools"
    using array_member [OF l, of "''ga_pools''" "TRecord layout_pool_type"] by auto
  obtain seats ga where "those (map (layout_entry seat_fields) us) = Some seats" "displays_ok seats"
    "those (map (layout_entry pool_fields) pools) = Some ga" "displays_ok ga"
    using entries_typed [OF seat_entry_typed us(2)] entries_typed [OF pool_entry_typed pools(2)] by blast
  then show ?thesis using us(1) pools(1) js_dot_record [OF l, of "''reserved_units''"]
    by (auto simp: inventory_displays_def js_array_or_empty_def js_array_def displays_ok_def list_all_iff)
qed

definition bare_item :: "field list" where
  "bare_item =
     [Member ''id'' True TString, Member ''inventory_kind'' True (TUnion [TConst ''RESERVED'', TConst ''GA'']),
      Member ''inventory_id'' True TString, Member ''quantity'' True TNumber, Member ''unit_amount_minor'' True TNumber,
      Member ''currency'' True TString, Member ''price_tier_label'' False optional_text]"

lemma numbers: "conforms False TNumber x \<longleftrightarrow> conforms True TNumber x"
  by (cases x) simp_all

lemma item_sub: "conforms True ReservationItem_schema i \<Longrightarrow> conforms False (TRecord bare_item) i"
  unfolding ReservationItem_schema_def bare_item_def
  by (erule record_sub) (auto simp: covers_def optional_text_def)

lemma order_item_typed:
  assumes "conforms True ReservationItem_schema i" and "displays_ok ds"
  shows "\<exists>j. order_item ds i = Some j \<and> conforms False page_item j"
proof -
  let ?shown = "nullish (map_of ds (js_get ''inventory_id'' (Some i))) (JObj [])"
  have "conforms False display_type ?shown"
  proof (cases "map_of ds (js_get ''inventory_id'' (Some i))")
    case None
    then show ?thesis by (simp add: nullish_def display_type_def js_get_def)
  next
    case (Some d)
    then have "conforms False display_type d" using assms(2) by (auto simp: displays_ok_def list_all_iff dest!: map_of_SomeD)
    then show ?thesis using Some by (simp add: nullish_def)
  qed
  then have "conforms False page_item (spread_with (Some i) [(''display'', ?shown)])"
    unfolding page_item_def by (intro spread_record [OF item_sub [OF assms(1)]]) (simp add: bare_item_def display_type_def)
  moreover have "order_item ds i = Some (spread_with (Some i) [(''display'', ?shown)])"
    using js_dot_record [OF assms(1) [unfolded ReservationItem_schema_def], of "''inventory_id''"] by (simp add: order_item_def)
  ultimately show ?thesis by blast
qed

lemma order_items_typed:
  "list_all (conforms True ReservationItem_schema) is \<Longrightarrow> displays_ok ds \<Longrightarrow>
   \<exists>js. those (map (order_item ds) is) = Some js \<and> list_all (conforms False page_item) js"
proof (induction "is")
  case (Cons i "is")
  then show ?case using order_item_typed [of i ds] by auto
qed simp

definition bare_reservation :: "field list" where
  "bare_reservation =
     [Member ''id'' True TString, Member ''status'' True TString, Member ''hold_expires_at'' True TString,
      Member ''server_time'' True TString, Member ''total'' True page_price]"

lemma reservation_sub: "conforms True Reservation_schema r \<Longrightarrow> conforms False (TRecord bare_reservation) r"
  unfolding Reservation_schema_def bare_reservation_def
  by (erule record_sub) (use price_sub in \<open>auto simp: covers_def\<close>)

lemma order_typed:
  assumes "conforms True Reservation_schema r" and "conforms True PartnerEvent_schema e"
    and "conforms True partner_layout l \<or> l = empty_layout"
  shows "\<exists>kvs. order_json r e l = Some kvs \<and> conforms False page_order (JObj kvs)"
proof -
  note r = assms(1) [unfolded Reservation_schema_def]
  obtain xs where xs: "js_get ''items'' (Some r) = Some (JArr xs)" "list_all (conforms True ReservationItem_schema) xs"
    using array_member [OF r, of "''items''" ReservationItem_schema] by auto
  obtain ds where ds: "inventory_displays l = Some ds" "displays_ok ds" using displays_typed [OF assms(3)] by blast
  obtain js where js: "those (map (order_item ds) xs) = Some js" "list_all (conforms False page_item) js"
    using order_items_typed [OF xs(2) ds(2)] by blast
  let ?shown = "spread_with (Some r) [(''items'', JArr js)]"
  have "conforms False page_reservation ?shown"
    unfolding page_reservation_def
    by (rule spread_record [OF reservation_sub [OF assms(1)]]) (use js(2) in \<open>simp add: bare_reservation_def\<close>)
  then have "conforms False page_order (JObj [(''reservation'', ?shown), (''event'', e)])"
    using event_sub(2) [OF assms(2)] by (simp add: page_order_def js_get_cons js_get_nil)
  moreover have "order_json r e l = Some [(''reservation'', ?shown), (''event'', e)]"
    using ds(1) xs(1) js(1) js_dot_record [OF r, of "''items''"] by (simp add: order_json_def js_array_def)
  ultimately show ?thesis by blast
qed

end
