(* ===== verification/Storefront_Typed.thy ===== *)
theory Storefront_Typed
  imports Storefront_Pages Storefront_Properties
begin

text \<open>
  Every handler of the storefront's API is typed: the order and the ticket, the steps of the checkout,
  the connections and the events, and with them the routes as a whole.
\<close>

section \<open>The buyer's session\<close>

definition typed_session :: "buyer_session \<Rightarrow> bool" where
  "typed_session b \<longleftrightarrow>
     (\<exists>e. bs_event b = Some (JStr e)) \<and> (\<forall>a. bs_attempt b = Some a \<longrightarrow> (\<exists>s. a = JStr s)) \<and>
     (bs_confirmed b \<longrightarrow> bs_attempt b \<noteq> None) \<and>
     bs_beginKey b \<noteq> [] \<and> bs_failureKey b \<noteq> [] \<and> bs_confirmKey b \<noteq> [] \<and> bs_token b \<noteq> []"

lemma orderView_typed:
  assumes "typed_session b"
  shows "typed_act (sx_cfg env) (\<lambda>kvs. conforms False page_order (JObj kvs)) (orderView env b)"
proof -
  obtain e where e: "bs_event b = Some (JStr e)" using assms by (auto simp: typed_session_def)
  have path: "session_event_path env b = ''/api/v1/partner/events/'' @ encodeURIComponent e"
    by (simp add: session_event_path_def uri_text_def e)
  have calls: "list_all2 (call_typed env (bs_credential b))
      [reservation_path b, session_event_path env b, session_event_path env b @ ''/layout'']
      [conforms True Reservation_schema, conforms True PartnerEvent_schema, conforms True partner_layout]"
    using call_typedI [OF served_reservations(1) gets_declared(5) partner_answers(5)]
      call_typedI [OF served_events(2) gets_declared(2) partner_answers(2)] layout_call_typed
    by (simp add: reservation_path_def path)
  have "typed_act (sx_cfg env) (\<lambda>kvs. conforms False page_order (JObj kvs))
      (bind_act (of_result (settle_all [ys ! 0, ys ! 1, caught (ys ! 2) empty_layout]))
        (\<lambda>vs. of_option type_error (order_json (vs ! 0) (vs ! 1) (vs ! 2))))"
    if ys: "list_all2 (\<lambda>Q y. result_ok Q (snd y))
      [conforms True Reservation_schema, conforms True PartnerEvent_schema, conforms True partner_layout] ys" for ys
  proof -
    obtain x y z where xyz: "ys = [x, y, z]" "result_ok (conforms True Reservation_schema) (snd x)"
      "result_ok (conforms True PartnerEvent_schema) (snd y)" "result_ok (conforms True partner_layout) (snd z)"
      using ys by (auto simp: list_all2_Cons1)
    let ?layout = "\<lambda>l. conforms True partner_layout l \<or> l = empty_layout"
    have "result_ok ?layout (snd (caught z empty_layout))"
      using xyz(4) by (auto simp: caught_def result_ok_def split: sum.splits)
    then have settled: "result_ok (\<lambda>vs. list_all2 (\<lambda>Q v. Q v) [conforms True Reservation_schema, conforms True PartnerEvent_schema, ?layout] vs)
        (settle_all [x, y, caught z empty_layout])"
      using xyz by (intro settle_typed) simp
    show ?thesis unfolding xyz(1)
    proof (rule typed_bind)
      show "typed_act (sx_cfg env) (\<lambda>vs. list_all2 (\<lambda>Q v. Q v) [conforms True Reservation_schema, conforms True PartnerEvent_schema, ?layout] vs)
          (of_result (settle_all [[x, y, z] ! 0, [x, y, z] ! 1, caught ([x, y, z] ! 2) empty_layout]))"
        using settled by (intro typed_of_result) (simp add: numeral_2_eq_2)
    next
      fix vs assume "list_all2 (\<lambda>Q v. Q v) [conforms True Reservation_schema, conforms True PartnerEvent_schema, ?layout] vs"
      then obtain r ev l where "vs = [r, ev, l]" "conforms True Reservation_schema r" "conforms True PartnerEvent_schema ev" "?layout l"
        by (auto simp: list_all2_Cons1)
      then show "typed_act (sx_cfg env) (\<lambda>kvs. conforms False page_order (JObj kvs)) (of_option type_error (order_json (vs ! 0) (vs ! 1) (vs ! 2)))"
        using order_typed [of r ev l] by (intro typed_of_option) (auto simp: numeral_2_eq_2)
    qed
  qed
  then show ?thesis unfolding orderView_def by (rule typed_partner_all [OF calls])
qed

section \<open>The steps of the checkout\<close>

lemmas step_operations = partnerBeginReservationCheckout_def partnerReportReservationPaymentFailure_def
  partnerConfirmReservation_def PaymentFailureRequest_schema_def ConfirmReservationRequest_schema_def EmptyObject_schema_def
  sent_body_ok_def content_ok_def

lemma steps_declared:
  assumes "typed_session b"
  shows "request_declared (begin_options b) partnerBeginReservationCheckout"
    and "bs_attempt b = Some a \<Longrightarrow> request_declared (failure_options b) partnerReportReservationPaymentFailure"
    and "bs_attempt b = Some a \<Longrightarrow> request_declared (confirm_options b) partnerConfirmReservation"
  using assms
  by (auto simp: request_declared_def step_operations begin_options_def failure_options_def confirm_options_def typed_session_def
      shown_field js_get_cons js_get_nil field_names_def)

text \<open>The contract declares no body for the begin of a checkout, but the server sends one.\<close>

lemma begin_body_undeclared: "\<not> content_ok (op_content partnerBeginReservationCheckout) (po_body (begin_options b))"
  by (simp add: content_ok_def partnerBeginReservationCheckout_def begin_options_def)

definition kept :: "ty \<Rightarrow> json \<times> buyer_session \<Rightarrow> bool" where
  "kept t = (\<lambda>(result, b). conforms True t result \<and> typed_session b)"

lemma begin_typed:
  assumes "typed_session b"
  shows "typed_act (sx_cfg env) (kept BeginCheckoutResponse_schema) (begin_checkout env b)"
  unfolding begin_checkout_def
proof (rule typed_bind)
  show "typed_act (sx_cfg env) (conforms True BeginCheckoutResponse_schema)
      (partner env (reservation_path b @ ''/checkout'') (begin_options b) (bs_credential b))"
    unfolding reservation_path_def append_assoc
    by (rule typed_partner [OF served_reservations(2) _ steps_declared(1) [OF assms] partner_answers(6)]) (simp add: begin_options_def)
next
  fix result assume result: "conforms True BeginCheckoutResponse_schema result"
  note r = result [unfolded BeginCheckoutResponse_schema_def]
  obtain attempt where attempt: "js_get ''checkout_attempt'' (Some result) = Some attempt" "conforms True CheckoutAttempt_schema attempt"
    using required_member [OF r, of "''checkout_attempt''" CheckoutAttempt_schema] by auto
  note a = attempt(2) [unfolded CheckoutAttempt_schema_def]
  obtain i where "js_get ''id'' (Some attempt) = Some (JStr i)" using string_member [OF a, of "''id''"] by auto
  then have "begun result b = Some (b\<lparr>bs_attempt := Some (JStr i)\<rparr>)"
    using js_dot_record [OF r, of "''checkout_attempt''"] js_dot_record [OF a, of "''id''"] attempt(1) by (simp add: begun_def)
  then show "typed_act (sx_cfg env) (kept BeginCheckoutResponse_schema) (of_option type_error (map_option (Pair result) (begun result b)))"
    using assms result by (intro typed_of_option) (auto simp: kept_def typed_session_def)
qed

definition fresh_uuids :: "server_env \<Rightarrow> bool" where
  "fresh_uuids env \<longleftrightarrow> (\<forall>n. sx_uuid env n \<noteq> [])"

lemma fail_typed:
  assumes "typed_session b" and "bs_attempt b = Some a" and "fresh_uuids env"
  shows "typed_act (sx_cfg env) (kept PaymentFailureResponse_schema) (fail_checkout env b)"
  unfolding fail_checkout_def
proof (rule typed_bind)
  show "typed_act (sx_cfg env) (conforms True PaymentFailureResponse_schema)
      (partner env (reservation_path b @ ''/payment-failure'') (failure_options b) (bs_credential b))"
    unfolding reservation_path_def append_assoc
    by (rule typed_partner [OF served_reservations(3) _ steps_declared(2) [OF assms(1,2)] partner_answers(7)]) (simp add: failure_options_def)
qed (use assms(1,3) in \<open>auto simp: kept_def typed_session_def failed_session_def fresh_uuids_def\<close>)

lemma confirm_call_typed:
  assumes "typed_session b" and "bs_attempt b = Some a"
  shows "typed_act (sx_cfg env) (conforms True ConfirmReservationResponse_schema) (confirm_call env b)"
  unfolding confirm_call_def reservation_path_def append_assoc
  by (rule typed_partner [OF served_reservations(4) _ steps_declared(3) [OF assms] partner_answers(8)]) (simp add: confirm_options_def)

lemma confirm_typed:
  assumes "typed_session b" and "bs_attempt b = Some a"
  shows "typed_act (sx_cfg env) (kept ConfirmReservationResponse_schema) (confirm_checkout env b)"
  unfolding confirm_checkout_def
  by (rule typed_bind [OF confirm_call_typed [OF assms]]) (use assms in \<open>auto simp: kept_def typed_session_def\<close>)

section \<open>The ticket\<close>

lemma credential_paths:
  assumes "list_all (conforms True TicketSummary_schema) tickets"
  shows "\<exists>paths. those (map (credential_path env) tickets) = Some paths \<and> length paths = length tickets \<and>
    list_all (\<lambda>p. call_typed env credential p (conforms True TicketCredentialResponse_schema)) paths"
  using assms
proof (induction tickets)
  case (Cons t ts)
  then have t: "conforms True TicketSummary_schema t" by simp
  note t = this [unfolded TicketSummary_schema_def]
  obtain i where "js_get ''id'' (Some t) = Some (JStr i)" using string_member [OF t, of "''id''"] by auto
  then have "credential_path env t = Some (''/api/v1/partner/tickets/'' @ encodeURIComponent i @ ''/credential'')"
    using js_dot_record [OF t, of "''id''"] by (simp add: credential_path_def uri_text_def)
  moreover have "call_typed env credential (''/api/v1/partner/tickets/'' @ encodeURIComponent i @ ''/credential'')
      (conforms True TicketCredentialResponse_schema)"
    by (rule call_typedI [OF served_others(1) gets_declared(6) partner_answers(9)])
  ultimately show ?case using Cons by auto
qed simp

lemma confirmation_sub:
  "conforms True ConfirmReservationResponse_schema c \<Longrightarrow>
   conforms False (TRecord
     [Member ''sale'' True (TRecord [Member ''id'' True TString, Member ''confirmed_at'' True TString, Member ''partner_order_ref'' True TString]),
      Member ''tickets'' True (TArray (TRecord [Member ''id'' True TString, Member ''status'' True TString]))]) c"
proof -
  have sale: "conforms False (TRecord [Member ''id'' True TString, Member ''confirmed_at'' True TString, Member ''partner_order_ref'' True TString]) x"
    if "conforms True (TRecord [Member ''id'' True TString, Member ''confirmed_at'' True TString, Member ''partner_order_ref'' True TString,
      Member ''partner_payment_ref'' True TString]) x" for x
    using that by (rule record_sub) (simp add: covers_def texts)
  have ticket: "conforms False (TRecord [Member ''id'' True TString, Member ''status'' True TString]) x"
    if "conforms True TicketSummary_schema x" for x
    using that unfolding TicketSummary_schema_def by (rule record_sub) (auto simp: covers_def)
  then have "conforms False (TArray (TRecord [Member ''id'' True TString, Member ''status'' True TString])) x"
    if "conforms True (TArray TicketSummary_schema) x" for x
    using that unfolding array_conforms by (blast intro: list.pred_mono_strong)
  then show "conforms True ConfirmReservationResponse_schema c \<Longrightarrow> ?thesis"
    unfolding ConfirmReservationResponse_schema_def
    by (elim record_sub) (use sale in \<open>simp add: covers_def del: conforms.simps(10) conforms.simps(8)\<close>)
qed

lemma credential_sub:
  "conforms True TicketCredentialResponse_schema c \<Longrightarrow>
   conforms False (TRecord [Member ''ticket_id'' True TString, Member ''status'' True TString,
     Member ''qr_payload'' True TString, Member ''qr_url'' True TString]) c"
  unfolding TicketCredentialResponse_schema_def by (erule record_sub) (auto simp: covers_def)

section \<open>Pages\<close>

text \<open>The type that the page behind a route reads from a successful answer.\<close>

definition page_type :: "string \<Rightarrow> string \<Rightarrow> ty option" where
  "page_type verb path =
     (let segs = split_on (CHR ''/'') path in
      if verb = ''GET'' \<and> path = ''/demo-api/connections'' then Some page_connections
      else if verb = ''GET'' \<and> path = ''/demo-api/events'' then Some page_events
      else if verb = ''GET'' \<and> event_segment segs \<noteq> None then Some page_event
      else if verb = ''POST'' \<and> selection_segment segs \<noteq> None then Some (TRecord [Member ''selection_url'' True TString])
      else if verb = ''GET'' \<and> path = ''/demo-api/checkout'' then Some page_order
      else if verb = ''GET'' \<and> path = ''/demo-api/ticket'' then Some page_ticket
      else None)"

definition typed_body :: "ty \<Rightarrow> web_response \<Rightarrow> bool" where
  "typed_body t resp \<longleftrightarrow>
     wr_status resp \<in> {200, 201} \<longrightarrow> (case wr_body resp of Json_Body v \<Rightarrow> conforms False t v | _ \<Rightarrow> False)"

definition page_ok :: "http_request \<Rightarrow> web_response \<Rightarrow> bool" where
  "page_ok rq resp \<longleftrightarrow> (\<forall>t. page_type (hq_method rq) (hq_path rq) = Some t \<longrightarrow> typed_body t resp)"

lemma typed_json [simp]: "typed_body t (json_response status v extra) \<longleftrightarrow> (status \<in> {200, 201} \<longrightarrow> conforms False t v)"
  by (simp add: typed_body_def json_response_def)

lemma typed_error [simp]: "status \<notin> {200, 201} \<Longrightarrow> typed_body t (error_response status code msg)"
  by (simp add: typed_body_def error_response_def json_response_def)

lemma typed_redirect [simp]: "typed_body t (redirect target cookie)"
  by (simp add: typed_body_def redirect_def)

text \<open>A cookie that is set holds connections or a session that is typed again.\<close>

definition session_kept :: "server_env \<Rightarrow> web_response \<Rightarrow> bool" where
  "session_kept env resp \<longleftrightarrow>
     (\<forall>c. wr_headers resp ''set-cookie'' = Some c \<longrightarrow>
        (\<exists>sd. connectionCookie env sd = Some c) \<or> (\<exists>b. typed_session b \<and> cookieFor env b = Some c))"

lemma no_cookie [simp]:
  "session_kept env (json_response status v [])" "session_kept env (error_response status code msg)" "session_kept env (redirect target None)"
  by (simp_all add: session_kept_def json_response_def error_response_def redirect_def response_headers_def base_headers_def map_add_def)

lemma json_cookie [simp]:
  "session_kept env (json_response status v [(''set-cookie'', c)]) \<longleftrightarrow>
     (\<exists>sd. connectionCookie env sd = Some c) \<or> (\<exists>b. typed_session b \<and> cookieFor env b = Some c)"
  by (simp add: session_kept_def json_response_def response_headers_def map_add_def)

lemma redirect_cookie [simp]:
  "session_kept env (redirect target (Some c)) \<longleftrightarrow>
     (\<exists>sd. connectionCookie env sd = Some c) \<or> (\<exists>b. typed_session b \<and> cookieFor env b = Some c)"
  by (simp add: session_kept_def redirect_def response_headers_def map_add_def)

definition page_answer :: "server_env \<Rightarrow> ty \<Rightarrow> web_response \<Rightarrow> bool" where
  "page_answer env t resp \<longleftrightarrow> typed_body t resp \<and> session_kept env resp"

lemma checkout_page_typed:
  assumes "typed_session b"
  shows "typed_act (sx_cfg env) (page_answer env page_order) (route_checkout env (Some b))"
  unfolding route_checkout_def option.case
  by (rule typed_bind [OF orderView_typed [OF assms]]) (simp add: page_answer_def)

lemma attempt_of_confirmed: "typed_session b \<Longrightarrow> bs_confirmed b \<Longrightarrow> \<exists>a. bs_attempt b = Some a"
  by (auto simp: typed_session_def)

lemma order_record: "page_order = TRecord [Member ''event'' True page_event, Member ''reservation'' True page_reservation]"
  by (simp add: page_order_def)

lemma ticket_body_typed:
  assumes "conforms False page_order (JObj order)" and "conforms True ConfirmReservationResponse_schema confirmation"
    and "list_all (conforms True TicketCredentialResponse_schema) credentials"
  shows "conforms False page_ticket (spread_with (Some (JObj order))
    [(''confirmation'', confirmation), (''credentials'', JArr credentials), (''scanner_url'', JStr url)])"
    (is "conforms False page_ticket ?body")
proof -
  note order = assms(1) [unfolded order_record]
  have "conforms False page_order ?body"
    unfolding order_record by (rule spread_record [OF order]) simp
  moreover have "conforms False (TArray (TRecord [Member ''ticket_id'' True TString, Member ''status'' True TString,
      Member ''qr_payload'' True TString, Member ''qr_url'' True TString])) (JArr credentials)"
    unfolding array_conforms using assms(3) credential_sub by (blast intro: list.pred_mono_strong)
  then have "conforms False (TRecord
      [Member ''confirmation'' True (TRecord
         [Member ''sale'' True (TRecord [Member ''id'' True TString, Member ''confirmed_at'' True TString, Member ''partner_order_ref'' True TString]),
          Member ''tickets'' True (TArray (TRecord [Member ''id'' True TString, Member ''status'' True TString]))]),
       Member ''credentials'' True (TArray (TRecord [Member ''ticket_id'' True TString, Member ''status'' True TString,
         Member ''qr_payload'' True TString, Member ''qr_url'' True TString])),
       Member ''scanner_url'' True TString]) ?body"
    using confirmation_sub [OF assms(2)]
    by (intro spread_record [OF order]) (simp del: conforms.simps(8) conforms.simps(10))
  ultimately show ?thesis unfolding page_ticket_def conforms.simps by blast
qed

lemma ticket_typed:
  assumes "typed_session b" and "bs_confirmed b"
  shows "typed_act (sx_cfg env) (page_answer env page_ticket) (route_ticket env (Some b))"
proof -
  obtain a where a: "bs_attempt b = Some a" using attempt_of_confirmed [OF assms] by blast
  have last: "typed_act (sx_cfg env) (page_answer env page_ticket)
      (bind_act (orderView env b) (\<lambda>order. Return (json_response 200 (spread_with (Some (JObj order))
        [(''confirmation'', c), (''credentials'', JArr credentials), (''scanner_url'', JStr url)]) [])))"
    if "conforms True ConfirmReservationResponse_schema c" "list_all (conforms True TicketCredentialResponse_schema) credentials"
    for c credentials url
    by (rule typed_bind [OF orderView_typed [OF assms(1)]]) (simp only: typed_act.simps page_answer_def no_cookie typed_json ticket_body_typed [OF _ that] simp_thms)
  show ?thesis
    unfolding route_ticket_def option.case if_P [OF assms(2)]
  proof (rule typed_bind [OF confirm_call_typed [OF assms(1) a]])
    fix c assume c: "conforms True ConfirmReservationResponse_schema c"
    note cs = c [unfolded ConfirmReservationResponse_schema_def]
    obtain tickets where tickets: "js_get ''tickets'' (Some c) = Some (JArr tickets)" "list_all (conforms True TicketSummary_schema) tickets"
      using array_member [OF cs, of "''tickets''" TicketSummary_schema] by auto
    have found: "Option.bind (js_dot ''tickets'' (Some c)) js_array = Some tickets"
      using js_dot_record [OF cs, of "''tickets''"] tickets(1) by (simp add: js_array_def)
    obtain paths where paths: "those (map (credential_path env) tickets) = Some paths"
      "list_all (\<lambda>p. call_typed env (bs_credential b) p (conforms True TicketCredentialResponse_schema)) paths"
      using credential_paths [OF tickets(2)] by blast
    have "list_all2 (call_typed env (bs_credential b)) paths (replicate (length paths) (conforms True TicketCredentialResponse_schema))"
      using paths(2) by (simp add: list_all2_conv_all_nth list_all_length)
    then have credentials: "typed_act (sx_cfg env) (list_all (conforms True TicketCredentialResponse_schema))
        (partner_all env paths (bs_credential b) (\<lambda>xs. of_result (settle_all xs)))"
    proof (rule typed_partner_all)
      fix ys :: "(nat \<times> (server_error + json)) list"
      assume "list_all2 (\<lambda>Q y. result_ok Q (snd y)) (replicate (length paths) (conforms True TicketCredentialResponse_schema)) ys"
      from settle_typed [OF this]
      show "typed_act (sx_cfg env) (list_all (conforms True TicketCredentialResponse_schema)) (of_result (settle_all ys))"
        by (intro typed_of_result) (auto simp: result_ok_def list_all2_conv_all_nth list_all_length split: sum.splits)
    qed
    show "typed_act (sx_cfg env) (page_answer env page_ticket)
      (bind_act (of_option type_error (Option.bind (js_dot ''tickets'' (Some c)) js_array)) (\<lambda>tickets.
       bind_act (of_option type_error (those (map (credential_path env) tickets))) (\<lambda>paths.
       bind_act (partner_all env paths (bs_credential b) (\<lambda>xs. of_result (settle_all xs))) (\<lambda>credentials.
       bind_act (orderView env b) (\<lambda>order.
       Return (json_response 200 (spread_with (Some (JObj order))
         [(''confirmation'', c), (''credentials'', JArr credentials), (''scanner_url'', JStr (sf_scannerURL (sx_cfg env)))]) []))))))"
      unfolding found paths(1) of_option_def option.case bind_act.simps paths(1)
      by (rule typed_bind [OF credentials]) (rule last [OF c])
  qed
qed

section \<open>The routes\<close>

definition answer_typed :: "server_env \<Rightarrow> http_request \<Rightarrow> web_response \<Rightarrow> bool" where
  "answer_typed env rq resp \<longleftrightarrow> page_ok rq resp \<and> session_kept env resp"

lemma plain_errors [simp]: "not_configured \<noteq> type_error" "plain_error ''REQUEST_TOO_LARGE'' \<noteq> type_error"
  "\<lparr>fe_message = m, fe_status = Some n\<rparr> \<noteq> type_error"
  by (simp_all add: not_configured_def type_error_def plain_error_def)

lemma typed_catch: "typed_act cfg P a \<Longrightarrow> (\<And>e. typed_act cfg P (h e)) \<Longrightarrow> typed_act cfg P (catch_act a h)"
  by (induction a) auto

lemma typed_and: "typed_act cfg P a \<Longrightarrow> typed_act cfg Q a \<Longrightarrow> typed_act cfg (\<lambda>x. P x \<and> Q x) a"
  by (induction a) auto

lemma set_checkout_typed: "kept t rb \<Longrightarrow> typed_act (sx_cfg env) (session_kept env) (set_checkout env rb)"
  unfolding set_checkout_def
  by (cases rb) (auto simp: kept_def intro!: typed_bind [where Q = "\<lambda>c. cookieFor env (snd rb) = Some c"] typed_of_option)

lemma checkout_routes_keep:
  assumes "\<And>b. session = Some b \<Longrightarrow> typed_session b" and "fresh_uuids env"
  shows "typed_act (sx_cfg env) (session_kept env) (route_begin env session)"
    and "typed_act (sx_cfg env) (session_kept env) (route_fail env session)"
    and "typed_act (sx_cfg env) (session_kept env) (route_confirm env session)"
proof -
  show "typed_act (sx_cfg env) (session_kept env) (route_begin env session)"
    using assms(1) by (cases session) (auto simp: route_begin_def intro: typed_bind [OF begin_typed set_checkout_typed])
  have started: "\<exists>a. bs_attempt b = Some a" if "json_truthy (bs_attempt b)" for b using that by (cases "bs_attempt b") simp_all
  show "typed_act (sx_cfg env) (session_kept env) (route_fail env session)"
  proof (cases session)
    case (Some b)
    then show ?thesis using assms started [of b]
      by (auto simp: route_fail_def not_started_def intro: typed_bind [OF fail_typed set_checkout_typed])
  qed (simp add: route_fail_def not_started_def)
  show "typed_act (sx_cfg env) (session_kept env) (route_confirm env session)"
  proof (cases session)
    case (Some b)
    then show ?thesis using assms(1) started [of b]
      by (auto simp: route_confirm_def not_started_def intro: typed_bind [OF confirm_typed set_checkout_typed])
  qed (simp add: route_confirm_def not_started_def)
qed

lemma views_typed:
  assumes "\<And>b. session = Some b \<Longrightarrow> typed_session b"
  shows "typed_act (sx_cfg env) (page_answer env page_order) (route_checkout env session)"
    and "typed_act (sx_cfg env) (page_answer env page_ticket) (route_ticket env session)"
proof -
  show "typed_act (sx_cfg env) (page_answer env page_order) (route_checkout env session)"
    using assms checkout_page_typed by (cases session) (auto simp: route_checkout_def page_answer_def)
  show "typed_act (sx_cfg env) (page_answer env page_ticket) (route_ticket env session)"
  proof (cases session)
    case (Some b)
    then show ?thesis using assms ticket_typed [of b env]
      by (cases "bs_confirmed b") (auto simp: route_ticket_def page_answer_def)
  qed (simp add: route_ticket_def page_answer_def)
qed

lemma event_routes_typed:
  "typed_act (sx_cfg env) (page_answer env page_events) (route_events env c)"
  "typed_act (sx_cfg env) (page_answer env page_event) (route_event env c i)"
proof -
  show "typed_act (sx_cfg env) (page_answer env page_events) (route_events env c)"
    unfolding route_events_def
  proof (rule typed_bind)
    show "typed_act (sx_cfg env) (conforms True PartnerEventList_schema)
        (partner env ''/api/v1/partner/events'' get_options (sn_credential c))"
      by (rule typed_partner [OF served_events(1) _ gets_declared(1) partner_answers(1)]) (simp add: get_options_def)
  next
    fix result assume result: "conforms True PartnerEventList_schema result"
    note r = result [unfolded PartnerEventList_schema_def]
    obtain es where es: "js_get ''items'' (Some result) = Some (JArr es)" "list_all (conforms True PartnerEvent_schema) es"
      using array_member [OF r, of "''items''" PartnerEvent_schema] by auto
    have found: "Option.bind (js_dot ''items'' (Some result)) js_array = Some es"
      using js_dot_record [OF r, of "''items''"] es(1) by (simp add: js_array_def)
    have "conforms False (TRecord []) result" using conforms_object [OF r] by auto
    then have "conforms False page_events (spread_with (Some result)
        [(''items'', JArr items), (''connection'', JObj [(''id'', JStr (sn_id c)), (''name'', JStr (sn_name c))])])"
      if "list_all (conforms False page_event) items" for items
      unfolding page_events_def using that by (intro spread_record [where hs = "[]"]) (simp_all add: js_get_cons js_get_nil)
    then show "typed_act (sx_cfg env) (page_answer env page_events)
        (bind_act (of_option type_error (Option.bind (js_dot ''items'' (Some result)) js_array)) (\<lambda>events.
         bind_act (events_with_prices env events (sn_credential c)) (\<lambda>items.
         Return (json_response 200 (spread_with (Some result)
           [(''items'', JArr items), (''connection'', JObj [(''id'', JStr (sn_id c)), (''name'', JStr (sn_name c))])]) []))))"
      unfolding found of_option_def option.case bind_act.simps
      by (intro typed_bind [OF events_typed [OF es(2)]]) (simp add: page_answer_def)
  qed
  show "typed_act (sx_cfg env) (page_answer env page_event) (route_event env c i)"
    unfolding route_event_def event_path_def
  proof (rule typed_bind)
    show "typed_act (sx_cfg env) (conforms True PartnerEvent_schema)
        (partner env (''/api/v1/partner/events/'' @ encodeURIComponent i) get_options (sn_credential c))"
      by (rule typed_partner [OF served_events(2) _ gets_declared(2) partner_answers(2)]) (simp add: get_options_def)
  next
    fix e assume "conforms True PartnerEvent_schema e"
    then have "list_all (conforms True PartnerEvent_schema) [e]" by simp
    from events_typed [OF this]
    show "typed_act (sx_cfg env) (page_answer env page_event)
        (bind_act (events_with_prices env [e] (sn_credential c)) (\<lambda>items. Return (json_response 200 (hd items) [])))"
    proof (rule typed_bind)
      fix items assume "list_all (conforms False page_event) items \<and> length items = length [e]"
      then show "typed_act (sx_cfg env) (page_answer env page_event) (Return (json_response 200 (hd items) []))"
        by (cases items) (simp_all add: page_answer_def)
    qed
  qed
qed

lemma selection_typed:
  assumes "fresh_uuids env"
  shows "typed_act (sx_cfg env) (page_answer env (TRecord [Member ''selection_url'' True TString])) (route_selection env c i)"
  unfolding route_selection_def
proof (rule typed_bind)
  show "typed_act (sx_cfg env) (conforms True CreateSelectionSessionResponse_schema)
    (partner env ''/api/v1/partner/selection-sessions''
       \<lparr>po_method = ''POST'', po_idempotency = sx_uuid env 0, po_token = [],
        po_body = Some (JObj [(''event_id'', JStr i), (''buyer_session_ref'', JStr (''northstar-'' @ sx_uuid env 1)),
                              (''return_url'', JStr (sf_returnURL (sx_cfg env)))])\<rparr> (sn_credential c))"
    using assms
    by (intro typed_partner [OF served_others(2) _ _ partner_answers(10)])
      (simp_all add: request_declared_def partnerCreateSelectionSession_def CreateSelectionSessionRequest_schema_def fresh_uuids_def
        sent_body_ok_def content_ok_def js_get_cons js_get_nil field_names_def)
next
  fix created assume "conforms True CreateSelectionSessionResponse_schema created"
  then have "conforms False (TRecord [Member ''selection_url'' True TString]) created"
    unfolding CreateSelectionSessionResponse_schema_def by (rule record_sub) (simp add: covers_def)
  then show "typed_act (sx_cfg env) (page_answer env (TRecord [Member ''selection_url'' True TString])) (Return (json_response 201 created []))"
    by (simp add: page_answer_def del: conforms.simps)
qed

lemma connections_typed: "page_answer env page_connections (route_connections env header)"
  by (simp add: route_connections_def page_answer_def page_connections_def listed_connection_def js_get_cons js_get_nil
      list.pred_map list.pred_True comp_def Let_def)

lemma sealed_typed: "typed_act cfg (session_kept env) (redirect_sealed target (connectionCookie env sd))"
  unfolding redirect_sealed_def by (auto intro!: typed_bind [where Q = "\<lambda>c. connectionCookie env sd = Some c"] typed_of_option)

lemma validate_typed: "typed_act (sx_cfg env) (\<lambda>_. True) (validatePartnerCredential env credential)"
  unfolding validatePartnerCredential_def
proof (rule typed_bind)
  show "typed_act (sx_cfg env) (conforms True PartnerEventList_schema)
      (partner env ''/api/v1/partner/events'' get_options credential)"
    by (rule typed_partner [OF served_events(1) _ gets_declared(1) partner_answers(1)]) (simp add: get_options_def)
qed simp

lemma add_connection_typed: "typed_act (sx_cfg env) (session_kept env) (route_add_connection env header chunks)"
proof -
  have refused: "typed_act (sx_cfg env) (\<lambda>r. \<forall>x. r = Some x \<longrightarrow> session_kept env x)
      (catch_act
        (bind_act (of_option not_configured (encryptionKey (sx_box env) (sx_cfg env)))
          (\<lambda>_. bind_act (validatePartnerCredential env credential) (\<lambda>_. Return None)))
        (\<lambda>e. Return (Some (redirect (''/?connection='' @ connectionIssue e) None))))" for credential
  proof (rule typed_catch)
    show "typed_act (sx_cfg env) (\<lambda>r. \<forall>x. r = Some x \<longrightarrow> session_kept env x)
        (bind_act (of_option not_configured (encryptionKey (sx_box env) (sx_cfg env)))
          (\<lambda>_. bind_act (validatePartnerCredential env credential) (\<lambda>_. Return None)))"
      by (rule typed_bind [where Q = "\<lambda>_. True"], rule typed_of_option, simp_all) (rule typed_bind [OF validate_typed], simp)
  qed simp
  show ?thesis
    unfolding route_add_connection_def
    by (rule typed_bind [where Q = "\<lambda>_. True"], rule typed_of_option)
      (auto simp: Let_def intro!: typed_bind [OF refused [simplified]] sealed_typed split: option.split)
qed

text \<open>The form of the selector: a new checkout is typed.\<close>

lemma return_typed:
  assumes "fresh_uuids env"
  shows "typed_act (sx_cfg env) (session_kept env) (return_routes env rq)"
proof -
  have step: "typed_act (sx_cfg env) (session_kept env)
      (bind_act (partner env (''/api/v1/partner/reservations/'' @ encodeURIComponent i) get_options (sn_credential c)) (\<lambda>answer.
       bind_act (of_option type_error (js_dot ''event_id'' (Some answer))) (\<lambda>event.
       redirect_sealed target (cookieFor env (new_session env c i token event)))))" if "token \<noteq> []" for c i token target
  proof (rule typed_bind)
    show "typed_act (sx_cfg env) (conforms True Reservation_schema)
        (partner env (''/api/v1/partner/reservations/'' @ encodeURIComponent i) get_options (sn_credential c))"
      by (rule typed_partner [OF served_reservations(1) _ gets_declared(5) partner_answers(5)]) (simp add: get_options_def)
  next
    fix answer assume "conforms True Reservation_schema answer"
    note r = this [unfolded Reservation_schema_def]
    obtain e where e: "js_get ''event_id'' (Some answer) = Some (JStr e)" using string_member [OF r, of "''event_id''"] by auto
    then have "typed_session (new_session env c i token (Some (JStr e)))"
      using assms that by (simp add: typed_session_def new_session_def fresh_uuids_def)
    then have "typed_act (sx_cfg env) (session_kept env) (redirect_sealed target (cookieFor env (new_session env c i token (Some (JStr e)))))"
      unfolding redirect_sealed_def
      by (auto intro!: typed_bind [where Q = "\<lambda>x. cookieFor env (new_session env c i token (Some (JStr e))) = Some x"] typed_of_option)
    then show "typed_act (sx_cfg env) (session_kept env)
        (bind_act (of_option type_error (js_dot ''event_id'' (Some answer))) (\<lambda>event.
         redirect_sealed target (cookieFor env (new_session env c i token event))))"
      using js_dot_record [OF r, of "''event_id''"] e by (simp add: of_option_def)
  qed
  show ?thesis
    unfolding return_routes_def
    by (rule typed_bind [where Q = "\<lambda>_. True"], rule typed_of_option, simp_all)
      (rule typed_bind [where Q = "\<lambda>_. True"], rule typed_of_option, auto simp: Let_def intro!: step [simplified])
qed

lemma page_typed:
  assumes "typed_act cfg (page_answer env t) a" and "page_type (hq_method rq) (hq_path rq) = Some t"
  shows "typed_act cfg (answer_typed env rq) a"
  using assms(1) by (rule typed_weaken) (use assms(2) in \<open>simp add: answer_typed_def page_answer_def page_ok_def\<close>)

lemma other_typed:
  assumes "typed_act cfg (session_kept env) a" and "page_type (hq_method rq) (hq_path rq) = None"
  shows "typed_act cfg (answer_typed env rq) a"
  using assms(1) by (rule typed_weaken) (use assms(2) in \<open>simp add: answer_typed_def page_ok_def\<close>)

lemma checkout_typed:
  assumes session: "\<And>b. currentSession env (hq_cookie rq) = Some b \<Longrightarrow> typed_session b" and "fresh_uuids env"
    and kind: "page_type (hq_method rq) (hq_path rq) =
      (if hq_method rq = ''GET'' \<and> hq_path rq = ''/demo-api/checkout'' then Some page_order
       else if hq_method rq = ''GET'' \<and> hq_path rq = ''/demo-api/ticket'' then Some page_ticket else None)"
  shows "typed_act (sx_cfg env) (answer_typed env rq)
    (case checkout_route_of (hq_method rq) (hq_path rq) of
       Some r \<Rightarrow> checkout_handler env (currentSession env (hq_cookie rq)) r
     | None \<Rightarrow> Return (error_response 404 ''not-found'' ''Page not found.''))"
proof -
  let ?session = "currentSession env (hq_cookie rq)"
  have view: "typed_act (sx_cfg env) (answer_typed env rq) (route_checkout env ?session)"
    if "hq_method rq = ''GET''" "hq_path rq = ''/demo-api/checkout''"
    by (rule page_typed [OF views_typed(1)]) (use session that in \<open>simp_all add: page_type_def event_segment_def Let_def\<close>)
  have ticket: "typed_act (sx_cfg env) (answer_typed env rq) (route_ticket env ?session)"
    if "hq_method rq = ''GET''" "hq_path rq = ''/demo-api/ticket''"
    by (rule page_typed [OF views_typed(2)]) (use session that in \<open>simp_all add: page_type_def event_segment_def Let_def\<close>)
  have change: "typed_act (sx_cfg env) (answer_typed env rq) a"
    if "hq_method rq = ''POST''" "a \<in> {route_begin env ?session, route_fail env ?session, route_confirm env ?session}" for a
  proof (rule other_typed)
    show "typed_act (sx_cfg env) (session_kept env) a"
      using that(2) checkout_routes_keep [of ?session env] session assms(2) by auto
    show "page_type (hq_method rq) (hq_path rq) = None" unfolding kind using that(1) by simp
  qed
  show ?thesis
  proof (cases "checkout_route_of (hq_method rq) (hq_path rq)")
    case None
    then show ?thesis by (auto simp: answer_typed_def page_ok_def kind checkout_route_of_def split: if_splits)
  next
    case (Some r)
    then show ?thesis
      using view ticket change by (cases r) (auto simp: checkout_route_of_def checkout_handler_def split: if_splits)
  qed
qed

lemma connected_typed:
  assumes session: "\<And>b. currentSession env (hq_cookie rq) = Some b \<Longrightarrow> typed_session b" and "fresh_uuids env"
    and new: "\<not> (hq_method rq = ''GET'' \<and> hq_path rq = ''/demo-api/connections'')"
  shows "typed_act (sx_cfg env) (answer_typed env rq) (connected_routes env rq c)"
proof -
  define verb path segs where defs: "verb = hq_method rq" "path = hq_path rq" "segs = split_on (CHR ''/'') path"
  note routes = connected_routes_def Let_def defs(1,2) [symmetric] defs(3) [symmetric]
  note kind = page_type_def Let_def defs(3) [symmetric]
  have new': "\<not> (verb = ''GET'' \<and> path = ''/demo-api/connections'')" using new by (simp add: defs)
  consider (events) "verb = ''GET''" "path = ''/demo-api/events''"
    | (event) i where "verb = ''GET''" "path \<noteq> ''/demo-api/events''" "event_segment segs = Some i"
    | (selection) i where "verb = ''POST''" "selection_segment segs = Some i"
    | (other) "\<not> (verb = ''GET'' \<and> path = ''/demo-api/events'')" "(if verb = ''GET'' then event_segment segs else None) = None"
        "(if verb = ''POST'' then selection_segment segs else None) = None"
    by (cases "(if verb = ''GET'' then event_segment segs else None)"; cases "(if verb = ''POST'' then selection_segment segs else None)")
      (auto split: if_splits)
  then show ?thesis
  proof cases
    case events
    then show ?thesis unfolding routes by (simp) (rule page_typed [OF event_routes_typed(1)], simp add: kind defs(1,2) [symmetric])
  next
    case event
    then show ?thesis using new' unfolding routes by (simp) (rule page_typed [OF event_routes_typed(2)], simp add: kind defs(1,2) [symmetric])
  next
    case selection
    then show ?thesis unfolding routes by (simp) (rule page_typed [OF selection_typed [OF assms(2)]], simp add: kind defs(1,2) [symmetric])
  next
    case other
    have none: "verb = ''GET'' \<Longrightarrow> event_segment segs = None" "verb = ''POST'' \<Longrightarrow> selection_segment segs = None"
      using other(2,3) by auto
    have route: "connected_routes env rq c = (case checkout_route_of verb path of
        Some r \<Rightarrow> checkout_handler env (currentSession env (hq_cookie rq)) r
      | None \<Rightarrow> Return (error_response 404 ''not-found'' ''Page not found.''))"
      unfolding routes if_not_P [OF other(1)] other(2,3) by simp
    have kind: "page_type verb path = (if verb = ''GET'' \<and> path = ''/demo-api/checkout'' then Some page_order
        else if verb = ''GET'' \<and> path = ''/demo-api/ticket'' then Some page_ticket else None)"
      using other(1) new' none unfolding kind by auto
    show ?thesis unfolding route unfolding defs
      by (rule checkout_typed [OF assms(1,2)]) (use kind in \<open>simp_all add: defs\<close>)
  qed
qed

lemma change_typed: "typed_act (sx_cfg env) (session_kept env) (route_change_connection env header i change)"
  by (simp add: route_change_connection_def sealed_typed)

lemma connection_pages:
  "page_type verb ''/demo-api/config'' = None"
  "page_type ''GET'' ''/demo-api/connections'' = Some page_connections"
  "page_type ''POST'' ''/demo-api/connections'' = None"
  by (simp_all add: page_type_def Let_def event_segment_def selection_segment_def)

lemma change_page:
  assumes "connection_change_of (split_on (CHR ''/'') path) = Some ic"
  shows "page_type ''POST'' path = None"
  using assms
  by (auto simp: page_type_def connection_change_of_def selection_segment_def Let_def split: list.splits if_splits)

lemma api_typed:
  assumes "\<And>b. currentSession env (hq_cookie rq) = Some b \<Longrightarrow> typed_session b" and "fresh_uuids env"
  shows "typed_act (sx_cfg env) (answer_typed env rq) (api_routes env rq)"
proof (cases "hq_method rq = ''GET'' \<and> hq_path rq = ''/demo-api/connections''")
  case True
  then show ?thesis using connections_typed [of env "hq_cookie rq"]
    by (simp add: api_routes_def Let_def answer_typed_def page_ok_def page_answer_def connection_pages)
next
  case False
  note routes = api_routes_def Let_def if_not_P [OF False]
  let ?change = "if hq_method rq = ''POST'' then connection_change_of (split_on (CHR ''/'') (hq_path rq)) else None"
  consider (config) "hq_method rq = ''GET''" "hq_path rq = ''/demo-api/config''"
    | (add) "hq_method rq = ''POST''" "hq_path rq = ''/demo-api/connections''"
    | (other) "\<not> (hq_method rq = ''GET'' \<and> hq_path rq = ''/demo-api/config'')"
        "\<not> (hq_method rq = ''POST'' \<and> hq_path rq = ''/demo-api/connections'')"
    by blast
  then show ?thesis
  proof cases
    case config
    have "session_kept env (route_config env)" unfolding route_config_def Let_def by (rule no_cookie)
    then show ?thesis using config connection_pages(1) by (simp add: routes answer_typed_def page_ok_def)
  next
    case add
    then have "api_routes env rq = route_add_connection env (hq_cookie rq) (hq_chunks rq)" by (simp add: routes)
    then show ?thesis using add connection_pages(3) by (simp add: other_typed add_connection_typed)
  next
    case other
    show ?thesis
    proof (cases ?change)
      case None
      then show ?thesis unfolding routes if_not_P [OF other(1)] if_not_P [OF other(2)] None option.case
        using connected_typed [OF assms False] by (cases "activeConnection env (hq_cookie rq)") simp_all
    next
      case (Some ic)
      then have "typed_act (sx_cfg env) (answer_typed env rq) (route_change_connection env (hq_cookie rq) i change)" for i change
        by (intro other_typed change_typed) (use Some change_page in \<open>auto split: if_splits\<close>)
      then show ?thesis unfolding routes if_not_P [OF other(1)] if_not_P [OF other(2)] Some
        by (cases ic) simp
    qed
  qed
qed

text \<open>
  C11: Take a server whose random identifiers are not empty and a request whose cookie, if it holds a
  checkout, holds a typed one. Whatever is asked for, as long as the partner API answers with the types of
  its contract and, for the layout of an event (which the contract leaves open), with the fields that the
  backend's handler writes: each request that the server sends is one that the contract declares (path,
  method, headers and body), except that the begin of a checkout carries an empty object where no
  body is declared (lemma begin_body_undeclared); no handler fails on a missing field, a successful answer has
  the type that the page behind the route reads, and a cookie that is set holds connections or a
  typed checkout again.
\<close>

theorem storefront_pages_typed:
  assumes "\<And>b. currentSession env (hq_cookie rq) = Some b \<Longrightarrow> typed_session b" and "fresh_uuids env"
  shows "typed_act (sx_cfg env) (answer_typed env rq) (api_routes env rq) \<and>
    typed_act (sx_cfg env) (session_kept env) (return_routes env rq)"
  using api_typed [OF assms] return_typed [OF assms(2)] by blast

theorem storefront_pages_typed_witness:
  "let env = sample_env (session_json demo_buyer);
       rq = \<lparr>hq_method = ''GET'', hq_path = ''/demo-api/checkout'', hq_cookie = Some ''northstar_checkout=x'', hq_chunks = []\<rparr> in
   currentSession env (hq_cookie rq) = Some demo_buyer \<and> typed_act (sx_cfg env) (answer_typed env rq) (api_routes env rq)"
proof -
  let ?env = "sample_env (session_json demo_buyer)" and ?header = "Some ''northstar_checkout=x''"
  have "cookie_value ?header ''northstar_checkout'' = ''x''" by code_simp
  then have session: "currentSession ?env ?header = Some demo_buyer"
    by (simp add: currentSession_def unseal_def sample_key)
      (simp add: sample_env_def sample_box_def read_session_json demo_buyer_def session_ttl_def)
  moreover have "typed_session demo_buyer" by (simp add: typed_session_def demo_buyer_def)
  moreover have "fresh_uuids ?env" by (simp add: fresh_uuids_def sample_env_def)
  ultimately show ?thesis
    using storefront_pages_typed
      [of ?env "\<lparr>hq_method = ''GET'', hq_path = ''/demo-api/checkout'', hq_cookie = ?header, hq_chunks = []\<rparr>"]
    by (simp add: Let_def)
qed

end
