(* ===== verification/Client_Requests.thy ===== *)
theory Client_Requests
  imports Api_Contract Scanner_Session Selector_Session Selector_Realtime
begin

text \<open>
  The requests that the scanner and the selector hand to the API's client, from the commands that
  their hooks build, and that they are requests of the API's contract.
\<close>

section \<open>The scanner\<close>

definition bearer :: "string \<Rightarrow> (string \<times> string) list" where
  "bearer token = [(''Authorization'', ''Bearer '' @ token)]"

definition authorized_events_request :: "string \<Rightarrow> api_request" where
  "authorized_events_request token =
     \<lparr>req_method = GET, req_path = ''/api/v1/admission/events'', req_path_params = [], req_query = [],
      req_header_params = [], req_headers = bearer token, req_body = None\<rparr>"

definition scan_http_request :: "string \<Rightarrow> string \<Rightarrow> scan_request \<Rightarrow> api_request" where
  "scan_http_request token uuid sq =
     \<lparr>req_method = POST, req_path = ''/api/v1/admission/scans'', req_path_params = [], req_query = [],
      req_header_params = [(''Idempotency-Key'', sq_key sq), (''X-Request-ID'', uuid)], req_headers = bearer token,
      req_body = Some (JObj [(''event_id'', JStr (sq_event_id sq)), (''credential'', JStr (sq_credential sq)),
        (''gate_reference'', JStr (sq_gate_reference sq))])\<rparr>"

section \<open>The selector\<close>

definition bootstrap_requests :: "string \<Rightarrow> api_request list" where
  "bootstrap_requests capability =
     map (\<lambda>path. \<lparr>req_method = GET, req_path = path, req_path_params = [], req_query = [],
            req_header_params = [], req_headers = bearer capability, req_body = None\<rparr>)
       [''/api/v1/selection/session'', ''/api/v1/selection/event'', ''/api/v1/selection/layout'', ''/api/v1/selection/availability'']"

definition reservation_item_json :: "reservation_item \<Rightarrow> json" where
  "reservation_item_json i = JObj [(''offer_id'', JStr (ri_offer_id i)), (''quantity'', j_int (ri_quantity i))]"

definition reserve_http_request :: "string \<Rightarrow> string \<Rightarrow> reserve_request \<Rightarrow> api_request" where
  "reserve_http_request capability uuid rq =
     \<lparr>req_method = POST, req_path = ''/api/v1/selection/reservations'', req_path_params = [], req_query = [],
      req_header_params = [(''Idempotency-Key'', rq_key rq), (''X-Request-ID'', uuid)], req_headers = bearer capability,
      req_body = Some (JObj [(''items'', JArr (map reservation_item_json (rq_items rq)))])\<rparr>"

definition release_http_request :: "string \<Rightarrow> release_request \<Rightarrow> api_request" where
  "release_http_request capability rl =
     \<lparr>req_method = POST, req_path = ''/api/v1/selection/reservations/{reservation_id}/release'',
      req_path_params = [(''reservation_id'', rl_reservation_id rl)], req_query = [],
      req_header_params = [(''X-TktSync-Reservation-Token'', rl_token rl), (''Idempotency-Key'', rl_key rl)],
      req_headers = bearer capability, req_body = Some (JObj [])\<rparr>"

text \<open>The stream's own \<open>fetch\<close>, as a request of the client.\<close>

definition stream_fetch :: "stream_request \<Rightarrow> api_request" where
  "stream_fetch sr =
     \<lparr>req_method = GET, req_path = sr_path sr, req_path_params = [], req_query = map (apsnd Some) (sr_search sr),
      req_header_params = [], req_headers = sr_headers sr, req_body = None\<rparr>"

section \<open>Requests of the contract\<close>

lemmas client_operations = admissionListAuthorizedEvents_def admissionValidateAndAdmit_def selectionGetSession_def
  selectionGetEvent_def selectionGetLayout_def selectionGetAvailability_def selectionCreateReservation_def
  selectionReleaseReservation_def realtimeStream_def AdmissionScanRequest_schema_def SelectionReservationRequest_schema_def
  EmptyObject_schema_def

lemma items_typed: "list_all (conforms True CreateReservationItemRequest_schema) (map reservation_item_json xs)"
  by (auto simp: list_all_iff reservation_item_json_def CreateReservationItemRequest_schema_def json_fields)

lemma scanner_requests:
  "template_ok (authorized_events_request token)" "template_ok (scan_http_request token uuid sq)"
  "template_ok (stream_fetch (realtime_request origin base i token uuid))"
  unfolding template_ok_def
  by (rule in_admission_paths; simp add: admission_paths_def authorized_events_request_def scan_http_request_def realtime_request_def stream_fetch_def;
      simp add: request_ok client_operations)+

lemma selector_requests:
  "template_ok (reserve_http_request capability uuid rq)" "template_ok (release_http_request capability rl)"
  unfolding template_ok_def
  by (rule in_selection_paths; simp add: selection_paths_def reserve_http_request_def release_http_request_def;
      simp add: request_ok client_operations items_typed)+

lemma bootstrap_conforms: "r \<in> set (bootstrap_requests capability) \<Longrightarrow> template_ok r"
  unfolding template_ok_def
  by (rule in_selection_paths)
    (simp add: bootstrap_requests_def; elim disjE; simp add: selection_paths_def; simp add: request_ok client_operations)

text \<open>
  C12: Every request of the scanner and of the selector is one that the API's contract declares, with
  the idempotency key and the reservation token where they are required and a body of exactly the
  declared type.
\<close>

theorem client_requests_conform:
  "list_all conforming
     (authorized_events_request token # scan_http_request token uuid sq # stream_fetch (realtime_request origin base i capability uuid) #
      reserve_http_request capability uuid rq # release_http_request capability rl # bootstrap_requests capability)"
  by (auto simp: conforming_def list_all_iff scanner_requests selector_requests bootstrap_conforms)

end
