(* ===== verification/Docs_Model.thy ===== *)
theory Docs_Model
  imports Docs_Workbench
begin

text \<open>
  The operations that the documentation site shows (\<^verbatim>\<open>docs-web/src/generated/docs-model.ts\<close>) and how the
  site's console reads them. Lists of fields that the file repeats are named once.
\<close>

section \<open>Operations as documented\<close>

datatype doc_field =
  Doc_Field (df_name: string) (df_required: bool) (df_type: string) (df_description: string)
    (df_enum: "string list option") (df_children: "doc_field list")

record doc_parameter =
  dp_name :: string
  dp_in :: string
  dp_required :: bool
  dp_type :: string
  dp_description :: string
  dp_example :: json

record doc_body =
  db_required :: bool
  db_fields :: "doc_field list"
  db_example :: json

record doc_answer =
  da_status :: string
  da_description :: string
  da_mediaType :: "string option"
  da_fields :: "doc_field list"
  da_example :: "json option"

record doc_operation =
  od_operationId :: string
  od_group :: string
  od_route :: string
  od_method :: string
  od_path :: string
  od_title :: string
  od_description :: string
  od_destructive :: bool
  od_security :: "string list"
  od_parameters :: "doc_parameter list"
  od_body :: "doc_body option"
  od_successMediaType :: "string option"
  od_responses :: "doc_answer list"

text \<open>The operation as the console of the site takes it.\<close>

definition console_parameter :: "doc_parameter \<Rightarrow> request_parameter" where
  "console_parameter p = \<lparr>rp_name = dp_name p, rp_in = dp_in p, rp_required = dp_required p, rp_example = dp_example p\<rparr>"

definition console_operation :: "doc_operation \<Rightarrow> request_operation" where
  "console_operation d =
     \<lparr>ro_method = od_method d, ro_path = od_path d, ro_successMediaType = od_successMediaType d,
      ro_parameters = map console_parameter (od_parameters d), ro_body = map_option db_example (od_body d)\<rparr>"

definition console_entry :: "doc_operation \<Rightarrow> docs_operation" where
  "console_entry d =
     \<lparr>do_route = od_route d, do_group = od_group d, do_title = od_title d, do_destructive = od_destructive d,
      do_request = console_operation d\<rparr>"

section \<open>The model\<close>

text \<open>A type with its format, between them a dot in the middle of the line.\<close>

definition formatted :: "string \<Rightarrow> string \<Rightarrow> string" where
  "formatted base format = base @ [CHR '' '', CHR 0xC2, CHR 0xB7, CHR '' ''] @ format"

definition doc_error_fields :: "doc_field list" where
  "doc_error_fields =
     [Doc_Field ''code'' True ''string'' [] None [], Doc_Field ''message'' True ''string'' [] None [],
       Doc_Field ''request_id'' True (formatted ''string'' ''uuid'') [] None [],
       Doc_Field ''details'' True ''object'' [] None []]"

definition doc_error_answer_fields :: "doc_field list" where
  "doc_error_answer_fields =
     [Doc_Field ''error'' True ''object'' [] None doc_error_fields]"

definition doc_error_response :: "string \<Rightarrow> doc_answer" where
  "doc_error_response description =
     \<lparr>da_status = ''default'', da_description = description, da_mediaType = Some ''application/json'',
       da_fields = doc_error_answer_fields, da_example = Some (JObj [(''error'', JObj [(''code'',
       JStr ''code_example''), (''message'', JStr ''message_example''), (''request_id'', JStr ''request_id_example''),
       (''details'', JStr ''details_example'')])])\<rparr>"

definition request_id_doc_parameter :: doc_parameter where
  "request_id_doc_parameter =
     \<lparr>dp_name = ''X-Request-ID'', dp_in = ''header'', dp_required = False,
       dp_type = (formatted ''string'' ''uuid''), dp_description = ''Optional client request/correlation UUID.'',
       dp_example = JStr ''X-Request-ID_example''\<rparr>"

definition event_id_doc_parameter :: doc_parameter where
  "event_id_doc_parameter =
     \<lparr>dp_name = ''event_id'', dp_in = ''path'', dp_required = True, dp_type = ''string'', dp_description = [],
       dp_example = JStr ''evt_AAAAAAAAAAAAAAAAAAAAAA''\<rparr>"

definition idempotency_key_doc_parameter :: doc_parameter where
  "idempotency_key_doc_parameter =
     \<lparr>dp_name = ''Idempotency-Key'', dp_in = ''header'', dp_required = True, dp_type = ''string'',
       dp_description = ''Durable idempotency key scoped to the authenticated Partner and operation.'',
       dp_example = JStr ''Idempotency-Key_example''\<rparr>"

definition reservation_id_doc_parameter :: doc_parameter where
  "reservation_id_doc_parameter =
     \<lparr>dp_name = ''reservation_id'', dp_in = ''path'', dp_required = True, dp_type = ''string'',
       dp_description = [], dp_example = JStr ''res_AAAAAAAAAAAAAAAAAAAAAA''\<rparr>"

definition reservation_token_doc_parameter :: doc_parameter where
  "reservation_token_doc_parameter =
     \<lparr>dp_name = ''X-TktSync-Reservation-Token'', dp_in = ''header'', dp_required = True, dp_type = ''string'',
       dp_description = ''Opaque Reservation continuation capability. Never place this value in a URL.'',
       dp_example = JStr ''X-TktSync-Reservation-Token_example''\<rparr>"

definition idempotency_key_plain_doc_parameter :: doc_parameter where
  "idempotency_key_plain_doc_parameter =
     \<lparr>dp_name = ''Idempotency-Key'', dp_in = ''header'', dp_required = True, dp_type = ''string'',
       dp_description = ''Durable idempotency key scoped to the authenticated actor and operation.'',
       dp_example = JStr ''Idempotency-Key_example''\<rparr>"

definition ticket_id_doc_parameter :: doc_parameter where
  "ticket_id_doc_parameter =
     \<lparr>dp_name = ''ticket_id'', dp_in = ''path'', dp_required = True, dp_type = ''string'', dp_description = [],
       dp_example = JStr ''tkt_AAAAAAAAAAAAAAAAAAAAAA''\<rparr>"

definition doc_event_fields :: "doc_field list" where
  "doc_event_fields =
     [Doc_Field ''id'' True ''string'' [] None [], Doc_Field ''name'' True ''string'' [] None [],
       Doc_Field ''state'' True ''DRAFT | ON_SALE | PAUSED | SALES_CLOSED | COMPLETED | CANCELLED'' [] (Some [''DRAFT'',
       ''ON_SALE'', ''PAUSED'', ''SALES_CLOSED'', ''COMPLETED'', ''CANCELLED'']) [],
       Doc_Field ''starts_at'' False (formatted ''string | null'' ''date-time'') [] None [],
       Doc_Field ''ends_at'' False (formatted ''string | null'' ''date-time'') [] None [],
       Doc_Field ''sales_open_at'' False (formatted ''string | null'' ''date-time'') [] None [],
       Doc_Field ''sales_close_at'' False (formatted ''string | null'' ''date-time'') [] None [],
       Doc_Field ''admission_open_at'' False (formatted ''string | null'' ''date-time'') [] None [],
       Doc_Field ''admission_close_at'' False (formatted ''string | null'' ''date-time'') [] None [],
       Doc_Field ''timezone_name'' False ''string | null'' [] None [],
       Doc_Field ''venue_name'' False ''string | null'' [] None [],
       Doc_Field ''address_text'' False ''string | null'' [] None [],
       Doc_Field ''server_time'' True (formatted ''string'' ''date-time'') [] None []]"

definition partnerListEvents_answer_fields :: "doc_field list" where
  "partnerListEvents_answer_fields =
     [Doc_Field ''items'' True ''array<object>'' [] None doc_event_fields,
       Doc_Field ''total'' True ''integer'' [] None [],
       Doc_Field ''server_time'' True (formatted ''string'' ''date-time'') [] None []]"

definition doc_partnerListEvents :: doc_operation where
  "doc_partnerListEvents =
     \<lparr>od_operationId = ''partnerListEvents'', od_group = ''Events'', od_route = ''/api/events'',
      od_method = ''GET'', od_path = ''/api/v1/partner/events'',
      od_title = ''List accessible events'',
      od_description =
        ''Lists every event for which the authenticated Partner currently has active access. Use this operation to discover event IDs before retrieving layout, availability, or creating a selection session.'',
      od_destructive = False, od_security = [''PartnerBearer''],
      od_parameters = [request_id_doc_parameter],
      od_body = None,
      od_successMediaType = Some ''application/json'',
      od_responses = [\<lparr>da_status = ''200'', da_description = ''Accessible Partner events.'',
        da_mediaType = Some ''application/json'', da_fields = partnerListEvents_answer_fields,
        da_example = Some (JObj [(''items'', JArr [JObj [(''id'', JStr ''id_example''), (''name'',
        JStr ''name_example''), (''state'', JStr ''DRAFT''), (''server_time'', JStr ''2026-08-23T12:00:00Z'')]]),
        (''total'', JNum 1000), (''server_time'', JStr ''2026-08-23T12:00:00Z'')])\<rparr>,
        doc_error_response ''Machine-readable error response.'']\<rparr>"

definition doc_partnerGetEvent :: doc_operation where
  "doc_partnerGetEvent =
     \<lparr>od_operationId = ''partnerGetEvent'', od_group = ''Events'', od_route = ''/api/events/retrieve'',
      od_method = ''GET'', od_path = ''/api/v1/partner/events/{event_id}'',
      od_title = ''Retrieve an event'',
      od_description =
        [],
      od_destructive = False, od_security = [''PartnerBearer''],
      od_parameters = [event_id_doc_parameter, request_id_doc_parameter],
      od_body = None,
      od_successMediaType = None,
      od_responses = [\<lparr>da_status = ''2XX'', da_description = ''Successful response'',
        da_mediaType = Some ''application/json'', da_fields = doc_event_fields, da_example = Some (JObj [(''id'',
        JStr ''id_example''), (''name'', JStr ''name_example''), (''state'', JStr ''DRAFT''), (''server_time'',
        JStr ''2026-08-23T12:00:00Z'')])\<rparr>, doc_error_response ''Error response'']\<rparr>"

definition doc_partnerGetEventLayout :: doc_operation where
  "doc_partnerGetEventLayout =
     \<lparr>od_operationId = ''partnerGetEventLayout'', od_group = ''Events'', od_route = ''/api/events/layout'',
      od_method = ''GET'', od_path = ''/api/v1/partner/events/{event_id}/layout'',
      od_title = ''Retrieve event layout'',
      od_description =
        [],
      od_destructive = False, od_security = [''PartnerBearer''],
      od_parameters = [event_id_doc_parameter, request_id_doc_parameter],
      od_body = None,
      od_successMediaType = None,
      od_responses = [\<lparr>da_status = ''2XX'', da_description = ''Successful response'',
        da_mediaType = Some ''application/json'', da_fields = [], da_example = Some (JObj [])\<rparr>,
        doc_error_response ''Error response'']\<rparr>"

definition partnerGetAvailability_answer_reserved_units_fields :: "doc_field list" where
  "partnerGetAvailability_answer_reserved_units_fields =
     [Doc_Field ''inventory_id'' True ''string'' [] None [], Doc_Field ''section_id'' True ''string'' [] None [],
       Doc_Field ''row'' True ''object'' [] None [], Doc_Field ''seat'' True ''object'' [] None [],
       Doc_Field ''sellability'' True ''string'' [] None [],
       Doc_Field ''offer'' False ''object'' [] None [Doc_Field ''offer_id'' True ''string'' [] None [],
       Doc_Field ''price'' True ''object'' [] None []]]"

definition partnerGetAvailability_answer_ga_pools_offers_fields :: "doc_field list" where
  "partnerGetAvailability_answer_ga_pools_offers_fields =
     [Doc_Field ''offer_id'' True ''string'' [] None [], Doc_Field ''available_quantity'' True ''integer'' [] None [],
       Doc_Field ''price'' True ''object'' [] None []]"

definition partnerGetAvailability_answer_ga_pools_fields :: "doc_field list" where
  "partnerGetAvailability_answer_ga_pools_fields =
     [Doc_Field ''inventory_id'' True ''string'' [] None [], Doc_Field ''name'' True ''string'' [] None [],
       Doc_Field ''offers'' True ''array<object>'' [] None partnerGetAvailability_answer_ga_pools_offers_fields]"

definition partnerGetAvailability_answer_fields :: "doc_field list" where
  "partnerGetAvailability_answer_fields =
     [Doc_Field ''event_id'' True ''string'' [] None [],
       Doc_Field ''as_of'' True (formatted ''string'' ''date-time'') [] None [],
       Doc_Field ''server_time'' True (formatted ''string'' ''date-time'') [] None [],
       Doc_Field ''reserved_units'' True ''array<object>'' [] None partnerGetAvailability_answer_reserved_units_fields,
       Doc_Field ''ga_pools'' True ''array<object>'' [] None partnerGetAvailability_answer_ga_pools_fields]"

definition doc_partnerGetAvailability :: doc_operation where
  "doc_partnerGetAvailability =
     \<lparr>od_operationId = ''partnerGetAvailability'', od_group = ''Events'',
       od_route = ''/api/events/availability'',
      od_method = ''GET'', od_path = ''/api/v1/partner/events/{event_id}/availability'',
      od_title = ''Retrieve availability'',
      od_description =
        [],
      od_destructive = False, od_security = [''PartnerBearer''],
      od_parameters = [event_id_doc_parameter, request_id_doc_parameter],
      od_body = None,
      od_successMediaType = None,
      od_responses = [\<lparr>da_status = ''2XX'', da_description = ''Successful response'',
        da_mediaType = Some ''application/json'', da_fields = partnerGetAvailability_answer_fields,
        da_example = Some (JObj [(''event_id'', JStr ''evt_AAAAAAAAAAAAAAAAAAAAAA''), (''as_of'',
        JStr ''2026-08-23T12:00:00Z''), (''server_time'', JStr ''2026-08-23T12:00:00Z''), (''reserved_units'',
        JArr [JObj [(''inventory_id'', JStr ''inventory_id_example''), (''section_id'', JStr ''section_id_example''),
        (''row'', JStr ''row_example''), (''seat'', JStr ''seat_example''), (''sellability'',
        JStr ''sellability_example'')]]), (''ga_pools'', JArr [JObj [(''inventory_id'', JStr ''inventory_id_example''),
        (''name'', JStr ''name_example''), (''offers'', JArr [])]])])\<rparr>,
        doc_error_response ''Error response'']\<rparr>"

definition doc_requested_item_fields :: "doc_field list" where
  "doc_requested_item_fields =
     [Doc_Field ''offer_id'' True ''string'' [] None [], Doc_Field ''quantity'' True ''integer'' [] None []]"

definition partnerCreateReservation_body_fields :: "doc_field list" where
  "partnerCreateReservation_body_fields =
     [Doc_Field ''event_id'' True ''string'' [] None [],
       Doc_Field ''partner_customer_ref'' False ''string'' [] None [],
       Doc_Field ''partner_order_ref'' False ''string'' [] None [],
       Doc_Field ''buyer_session_ref'' False ''string'' [] None [],
       Doc_Field ''items'' True ''array<object>'' [] None doc_requested_item_fields]"

definition doc_reservation_item_fields :: "doc_field list" where
  "doc_reservation_item_fields =
     [Doc_Field ''id'' True ''string'' [] None [],
       Doc_Field ''inventory_kind'' True ''RESERVED | GA'' [] (Some [''RESERVED'', ''GA'']) [],
       Doc_Field ''inventory_id'' True ''string'' [] None [], Doc_Field ''quantity'' True ''integer'' [] None [],
       Doc_Field ''unit_amount_minor'' True (formatted ''integer'' ''int64'') [] None [],
       Doc_Field ''currency'' True ''string'' [] None [], Doc_Field ''price_tier_label'' True ''object'' [] None [],
       Doc_Field ''commercial_terms'' True ''object'' [] None []]"

definition doc_total_fields :: "doc_field list" where
  "doc_total_fields =
     [Doc_Field ''amount_minor'' True (formatted ''integer'' ''int64'') [] None [],
       Doc_Field ''currency'' True ''string'' [] None []]"

definition doc_reservation_fields :: "doc_field list" where
  "doc_reservation_fields =
     [Doc_Field ''id'' True ''string'' [] None [], Doc_Field ''event_id'' True ''string'' [] None [],
       Doc_Field ''status'' True ''HELD | COMMITTING | PAYMENT_RETRY | RECONCILING | CONFIRMED | RELEASED | EXPIRED'' [] (Some [''HELD'',
       ''COMMITTING'', ''PAYMENT_RETRY'', ''RECONCILING'', ''CONFIRMED'', ''RELEASED'', ''EXPIRED'']) [],
       Doc_Field ''currency'' True ''string'' [] None [],
       Doc_Field ''hold_expires_at'' True (formatted ''string'' ''date-time'') [] None [],
       Doc_Field ''payment_retry_expires_at'' False (formatted ''string'' ''date-time'') [] None [],
       Doc_Field ''reconciliation_expires_at'' False (formatted ''string'' ''date-time'') [] None [],
       Doc_Field ''max_lifetime_at'' True (formatted ''string'' ''date-time'') [] None [],
       Doc_Field ''server_time'' True (formatted ''string'' ''date-time'') [] None [],
       Doc_Field ''partner_customer_ref'' False ''string'' [] None [],
       Doc_Field ''partner_order_ref'' False ''string'' [] None [],
       Doc_Field ''buyer_session_ref'' False ''string'' [] None [],
       Doc_Field ''confirmed_at'' False (formatted ''string'' ''date-time'') [] None [],
       Doc_Field ''released_at'' False (formatted ''string'' ''date-time'') [] None [],
       Doc_Field ''expired_at'' False (formatted ''string'' ''date-time'') [] None [],
       Doc_Field ''items'' True ''array<object>'' [] None doc_reservation_item_fields,
       Doc_Field ''total'' True ''object'' [] None doc_total_fields]"

definition partnerCreateReservation_answer_fields :: "doc_field list" where
  "partnerCreateReservation_answer_fields =
     [Doc_Field ''reservation'' True ''object'' [] None doc_reservation_fields,
       Doc_Field ''reservation_token'' True ''string'' [] None []]"

definition doc_partnerCreateReservation :: doc_operation where
  "doc_partnerCreateReservation =
     \<lparr>od_operationId = ''partnerCreateReservation'', od_group = ''Reservations'',
       od_route = ''/api/reservations/create'',
      od_method = ''POST'', od_path = ''/api/v1/partner/reservations'',
      od_title = ''Create a reservation'',
      od_description =
        [],
      od_destructive = False, od_security = [''PartnerBearer''],
      od_parameters = [idempotency_key_doc_parameter, request_id_doc_parameter],
      od_body = Some \<lparr>db_required = True, db_fields = partnerCreateReservation_body_fields,
        db_example = JObj [(''event_id'', JStr ''evt_AAAAAAAAAAAAAAAAAAAAAA''), (''partner_customer_ref'',
        JStr ''partner_customer_ref_example''), (''partner_order_ref'', JStr ''partner_order_ref_example''),
        (''items'', JArr [JObj [(''offer_id'', JStr ''off_AAAAAAAAAAAAAAAAAAAAAA''), (''quantity'',
        JNum 1)]])]\<rparr>,
      od_successMediaType = Some ''application/json'',
      od_responses = [\<lparr>da_status = ''201'', da_description = ''Reservation created atomically.'',
        da_mediaType = Some ''application/json'', da_fields = partnerCreateReservation_answer_fields,
        da_example = Some (JObj [(''reservation'', JObj [(''id'', JStr ''id_example''), (''event_id'',
        JStr ''evt_AAAAAAAAAAAAAAAAAAAAAA''), (''status'', JStr ''HELD''), (''currency'', JStr ''currency_example''),
        (''hold_expires_at'', JStr ''2026-08-23T12:00:00Z''), (''max_lifetime_at'', JStr ''2026-08-23T12:00:00Z''),
        (''server_time'', JStr ''2026-08-23T12:00:00Z''), (''items'', JArr [JObj [(''id'', JStr ''id_example''),
        (''inventory_kind'', JStr ''RESERVED''), (''inventory_id'', JStr ''inventory_id_example''), (''quantity'',
        JNum 1), (''unit_amount_minor'', JNum 1000), (''currency'', JStr ''currency_example''), (''price_tier_label'',
        JStr ''price_tier_label_example''), (''commercial_terms'', JObj [])]]), (''total'', JObj [(''amount_minor'',
        JNum 1000), (''currency'', JStr ''currency_example'')])]), (''reservation_token'',
        JStr ''reservation_token_example'')])\<rparr>, doc_error_response ''Error response'']\<rparr>"

definition doc_partnerGetReservation :: doc_operation where
  "doc_partnerGetReservation =
     \<lparr>od_operationId = ''partnerGetReservation'', od_group = ''Reservations'',
       od_route = ''/api/reservations/retrieve'',
      od_method = ''GET'', od_path = ''/api/v1/partner/reservations/{reservation_id}'',
      od_title = ''Retrieve a reservation'',
      od_description =
        [],
      od_destructive = False, od_security = [''PartnerBearer''],
      od_parameters = [reservation_id_doc_parameter, request_id_doc_parameter],
      od_body = None,
      od_successMediaType = Some ''application/json'',
      od_responses = [\<lparr>da_status = ''200'',
        da_description = ''Authoritative Reservation state for the owning Partner.'',
        da_mediaType = Some ''application/json'', da_fields = doc_reservation_fields, da_example = Some (JObj [(''id'',
        JStr ''id_example''), (''event_id'', JStr ''evt_AAAAAAAAAAAAAAAAAAAAAA''), (''status'', JStr ''HELD''),
        (''currency'', JStr ''currency_example''), (''hold_expires_at'', JStr ''2026-08-23T12:00:00Z''),
        (''max_lifetime_at'', JStr ''2026-08-23T12:00:00Z''), (''server_time'', JStr ''2026-08-23T12:00:00Z''),
        (''items'', JArr [JObj [(''id'', JStr ''id_example''), (''inventory_kind'', JStr ''RESERVED''),
        (''inventory_id'', JStr ''inventory_id_example''), (''quantity'', JNum 1), (''unit_amount_minor'', JNum 1000),
        (''currency'', JStr ''currency_example''), (''price_tier_label'', JStr ''price_tier_label_example''),
        (''commercial_terms'', JObj [])]]), (''total'', JObj [(''amount_minor'', JNum 1000), (''currency'',
        JStr ''currency_example'')])])\<rparr>, doc_error_response ''Error response'']\<rparr>"

definition partnerModifyReservation_body_fields :: "doc_field list" where
  "partnerModifyReservation_body_fields =
     [Doc_Field ''remove_item_ids'' False ''array<string>'' [] None [],
       Doc_Field ''adjust_quantities'' False ''array<object>'' [] None [Doc_Field ''reservation_item_id'' True ''string'' [] None [],
       Doc_Field ''new_quantity'' True ''integer'' [] None []],
       Doc_Field ''add_items'' False ''array<object>'' [] None doc_requested_item_fields]"

definition doc_partnerModifyReservation :: doc_operation where
  "doc_partnerModifyReservation =
     \<lparr>od_operationId = ''partnerModifyReservation'', od_group = ''Reservations'',
       od_route = ''/api/reservations/update'',
      od_method = ''PATCH'', od_path = ''/api/v1/partner/reservations/{reservation_id}'',
      od_title = ''Modify a reservation'',
      od_description =
        [],
      od_destructive = False, od_security = [''PartnerBearer''],
      od_parameters = [reservation_id_doc_parameter, idempotency_key_doc_parameter, reservation_token_doc_parameter,
        request_id_doc_parameter],
      od_body = Some \<lparr>db_required = True, db_fields = partnerModifyReservation_body_fields,
        db_example = JObj [(''remove_item_ids'', JArr [JStr ''remove_item_ids_example'']), (''adjust_quantities'',
        JArr [JObj [(''reservation_item_id'', JStr ''reservation_item_id_example''), (''new_quantity'', JNum 1000)]]),
        (''add_items'', JArr [JObj [(''offer_id'', JStr ''off_AAAAAAAAAAAAAAAAAAAAAA''), (''quantity'',
        JNum 1)]])]\<rparr>,
      od_successMediaType = Some ''application/json'',
      od_responses = [\<lparr>da_status = ''200'', da_description = ''Reservation modified atomically.'',
        da_mediaType = Some ''application/json'', da_fields = doc_reservation_fields, da_example = Some (JObj [(''id'',
        JStr ''id_example''), (''event_id'', JStr ''evt_AAAAAAAAAAAAAAAAAAAAAA''), (''status'', JStr ''HELD''),
        (''currency'', JStr ''currency_example''), (''hold_expires_at'', JStr ''2026-08-23T12:00:00Z''),
        (''max_lifetime_at'', JStr ''2026-08-23T12:00:00Z''), (''server_time'', JStr ''2026-08-23T12:00:00Z''),
        (''items'', JArr [JObj [(''id'', JStr ''id_example''), (''inventory_kind'', JStr ''RESERVED''),
        (''inventory_id'', JStr ''inventory_id_example''), (''quantity'', JNum 1), (''unit_amount_minor'', JNum 1000),
        (''currency'', JStr ''currency_example''), (''price_tier_label'', JStr ''price_tier_label_example''),
        (''commercial_terms'', JObj [])]]), (''total'', JObj [(''amount_minor'', JNum 1000), (''currency'',
        JStr ''currency_example'')])])\<rparr>, doc_error_response ''Error response'']\<rparr>"

definition partnerBeginReservationCheckout_answer_checkout_attempt_fields :: "doc_field list" where
  "partnerBeginReservationCheckout_answer_checkout_attempt_fields =
     [Doc_Field ''id'' True ''string'' [] None [], Doc_Field ''status'' True ''string'' [] None [],
       Doc_Field ''checkout_expires_at'' True (formatted ''string'' ''date-time'') [] None []]"

definition partnerBeginReservationCheckout_answer_fields :: "doc_field list" where
  "partnerBeginReservationCheckout_answer_fields =
     [Doc_Field ''reservation_id'' True ''string'' [] None [], Doc_Field ''status'' True ''string'' [] None [],
       Doc_Field ''checkout_attempt'' True ''object'' [] None partnerBeginReservationCheckout_answer_checkout_attempt_fields,
       Doc_Field ''server_time'' True (formatted ''string'' ''date-time'') [] None []]"

definition doc_partnerBeginReservationCheckout :: doc_operation where
  "doc_partnerBeginReservationCheckout =
     \<lparr>od_operationId = ''partnerBeginReservationCheckout'', od_group = ''Reservations'',
       od_route = ''/api/reservations/begin-checkout'',
      od_method = ''POST'', od_path = ''/api/v1/partner/reservations/{reservation_id}/checkout'',
      od_title = ''Begin checkout'',
      od_description =
        [],
      od_destructive = False, od_security = [''PartnerBearer''],
      od_parameters = [reservation_id_doc_parameter, idempotency_key_doc_parameter, reservation_token_doc_parameter,
        request_id_doc_parameter],
      od_body = None,
      od_successMediaType = Some ''application/json'',
      od_responses = [\<lparr>da_status = ''200'',
        da_description = ''Protected checkout window established before Partner payment.'',
        da_mediaType = Some ''application/json'', da_fields = partnerBeginReservationCheckout_answer_fields,
        da_example = Some (JObj [(''reservation_id'', JStr ''res_AAAAAAAAAAAAAAAAAAAAAA''), (''status'',
        JStr ''status_example''), (''checkout_attempt'', JObj [(''id'', JStr ''id_example''), (''status'',
        JStr ''status_example''), (''checkout_expires_at'', JStr ''2026-08-23T12:00:00Z'')]), (''server_time'',
        JStr ''2026-08-23T12:00:00Z'')])\<rparr>, doc_error_response ''Error response'']\<rparr>"

definition partnerReportReservationPaymentFailure_body_fields :: "doc_field list" where
  "partnerReportReservationPaymentFailure_body_fields =
     [Doc_Field ''checkout_attempt_id'' True ''string'' [] None [],
       Doc_Field ''partner_payment_ref'' False ''string'' [] None [],
       Doc_Field ''failure_code'' True ''string'' [] None [],
       Doc_Field ''requested_disposition'' True ''RETRY | RELEASE'' [] (Some [''RETRY'', ''RELEASE'']) []]"

definition partnerReportReservationPaymentFailure_answer_fields :: "doc_field list" where
  "partnerReportReservationPaymentFailure_answer_fields =
     [Doc_Field ''reservation_id'' True ''string'' [] None [],
       Doc_Field ''status'' True ''PAYMENT_RETRY | RELEASED'' [] (Some [''PAYMENT_RETRY'', ''RELEASED'']) [],
       Doc_Field ''payment_retry_expires_at'' False (formatted ''string'' ''date-time'') [] None [],
       Doc_Field ''server_time'' True (formatted ''string'' ''date-time'') [] None []]"

definition doc_partnerReportReservationPaymentFailure :: doc_operation where
  "doc_partnerReportReservationPaymentFailure =
     \<lparr>od_operationId = ''partnerReportReservationPaymentFailure'', od_group = ''Reservations'',
       od_route = ''/api/reservations/payment-failure'',
      od_method = ''POST'', od_path = ''/api/v1/partner/reservations/{reservation_id}/payment-failure'',
      od_title = ''Report payment failure'',
      od_description =
        [],
      od_destructive = True, od_security = [''PartnerBearer''],
      od_parameters = [reservation_id_doc_parameter, idempotency_key_doc_parameter, reservation_token_doc_parameter,
        request_id_doc_parameter],
      od_body = Some \<lparr>db_required = True, db_fields = partnerReportReservationPaymentFailure_body_fields,
        db_example = JObj [(''checkout_attempt_id'', JStr ''chk_AAAAAAAAAAAAAAAAAAAAAA''), (''partner_payment_ref'',
        JStr ''partner_payment_ref_example''), (''failure_code'', JStr ''failure_code_example''),
        (''requested_disposition'', JStr ''RETRY'')]\<rparr>,
      od_successMediaType = Some ''application/json'',
      od_responses = [\<lparr>da_status = ''200'',
        da_description = ''Definitive non-charge recorded and Reservation moved to retry or released.'',
        da_mediaType = Some ''application/json'', da_fields = partnerReportReservationPaymentFailure_answer_fields,
        da_example = Some (JObj [(''reservation_id'', JStr ''res_AAAAAAAAAAAAAAAAAAAAAA''), (''status'',
        JStr ''PAYMENT_RETRY''), (''payment_retry_expires_at'', JStr ''2026-08-23T12:00:00Z''), (''server_time'',
        JStr ''2026-08-23T12:00:00Z'')])\<rparr>, doc_error_response ''Error response'']\<rparr>"

definition partnerReleaseReservation_answer_fields :: "doc_field list" where
  "partnerReleaseReservation_answer_fields =
     [Doc_Field ''reservation_id'' True ''string'' [] None [], Doc_Field ''status'' True ''string'' [] None [],
       Doc_Field ''server_time'' True (formatted ''string'' ''date-time'') [] None []]"

definition doc_partnerReleaseReservation :: doc_operation where
  "doc_partnerReleaseReservation =
     \<lparr>od_operationId = ''partnerReleaseReservation'', od_group = ''Reservations'',
       od_route = ''/api/reservations/release'',
      od_method = ''POST'', od_path = ''/api/v1/partner/reservations/{reservation_id}/release'',
      od_title = ''Release a reservation'',
      od_description =
        [],
      od_destructive = True, od_security = [''PartnerBearer''],
      od_parameters = [reservation_id_doc_parameter, idempotency_key_doc_parameter, reservation_token_doc_parameter,
        request_id_doc_parameter],
      od_body = None,
      od_successMediaType = Some ''application/json'',
      od_responses = [\<lparr>da_status = ''200'',
        da_description = ''Payment-safe Reservation released with source-aware inventory restoration.'',
        da_mediaType = Some ''application/json'', da_fields = partnerReleaseReservation_answer_fields,
        da_example = Some (JObj [(''reservation_id'', JStr ''res_AAAAAAAAAAAAAAAAAAAAAA''), (''status'',
        JStr ''status_example''), (''server_time'', JStr ''2026-08-23T12:00:00Z'')])\<rparr>,
        doc_error_response ''Error response'']\<rparr>"

definition partnerConfirmReservation_body_fields :: "doc_field list" where
  "partnerConfirmReservation_body_fields =
     [Doc_Field ''checkout_attempt_id'' True ''string'' [] None [],
       Doc_Field ''partner_order_ref'' False ''string'' [] None [],
       Doc_Field ''partner_payment_ref'' False ''string'' [] None []]"

definition partnerConfirmReservation_answer_sale_fields :: "doc_field list" where
  "partnerConfirmReservation_answer_sale_fields =
     [Doc_Field ''id'' True ''string'' [] None [],
       Doc_Field ''confirmed_at'' True (formatted ''string'' ''date-time'') [] None [],
       Doc_Field ''partner_order_ref'' True ''string'' [] None [],
       Doc_Field ''partner_payment_ref'' True ''string'' [] None []]"

definition partnerConfirmReservation_answer_tickets_fields :: "doc_field list" where
  "partnerConfirmReservation_answer_tickets_fields =
     [Doc_Field ''id'' True ''string'' [] None [], Doc_Field ''status'' True ''ACTIVE | VOIDED'' [] (Some [''ACTIVE'',
       ''VOIDED'']) [], Doc_Field ''credential_id'' True ''string'' [] None []]"

definition partnerConfirmReservation_answer_fields :: "doc_field list" where
  "partnerConfirmReservation_answer_fields =
     [Doc_Field ''reservation_id'' True ''string'' [] None [], Doc_Field ''status'' True ''string'' [] None [],
       Doc_Field ''sale'' True ''object'' [] None partnerConfirmReservation_answer_sale_fields,
       Doc_Field ''tickets'' True ''array<object>'' [] None partnerConfirmReservation_answer_tickets_fields]"

definition doc_partnerConfirmReservation :: doc_operation where
  "doc_partnerConfirmReservation =
     \<lparr>od_operationId = ''partnerConfirmReservation'', od_group = ''Reservations'',
       od_route = ''/api/reservations/confirm'',
      od_method = ''POST'', od_path = ''/api/v1/partner/reservations/{reservation_id}/confirm'',
      od_title = ''Confirm a reservation'',
      od_description =
        [],
      od_destructive = False, od_security = [''PartnerBearer''],
      od_parameters = [reservation_id_doc_parameter, idempotency_key_plain_doc_parameter,
        reservation_token_doc_parameter, request_id_doc_parameter],
      od_body = Some \<lparr>db_required = True, db_fields = partnerConfirmReservation_body_fields,
        db_example = JObj [(''checkout_attempt_id'', JStr ''chk_AAAAAAAAAAAAAAAAAAAAAA''), (''partner_order_ref'',
        JStr ''partner_order_ref_example''), (''partner_payment_ref'', JStr ''partner_payment_ref_example'')]\<rparr>,
      od_successMediaType = Some ''application/json'',
      od_responses = [\<lparr>da_status = ''200'',
        da_description = ''Reservation confirmed atomically into one Sale and its Tickets.'',
        da_mediaType = Some ''application/json'', da_fields = partnerConfirmReservation_answer_fields,
        da_example = Some (JObj [(''reservation_id'', JStr ''res_AAAAAAAAAAAAAAAAAAAAAA''), (''status'',
        JStr ''status_example''), (''sale'', JObj [(''id'', JStr ''id_example''), (''confirmed_at'',
        JStr ''2026-08-23T12:00:00Z''), (''partner_order_ref'', JStr ''partner_order_ref_example''),
        (''partner_payment_ref'', JStr ''partner_payment_ref_example'')]), (''tickets'', JArr [JObj [(''id'',
        JStr ''id_example''), (''status'', JStr ''ACTIVE''), (''credential_id'',
        JStr ''credential_id_example'')]])])\<rparr>, doc_error_response ''Machine-readable error response.'']\<rparr>"

definition partnerGetTicketCredential_answer_fields :: "doc_field list" where
  "partnerGetTicketCredential_answer_fields =
     [Doc_Field ''ticket_id'' True ''string'' [] None [], Doc_Field ''credential_id'' True ''string'' [] None [],
       Doc_Field ''status'' True ''string'' [] None [], Doc_Field ''qr_payload'' True ''string'' [] None [],
       Doc_Field ''qr_url'' True (formatted ''string'' ''uri'') ''Opaque credential-bound TktSync-hosted QR presentation URL. Credential reissue invalidates this URL and authenticated retrieval returns a replacement. It is suitable for embedding in Partner-owned HTML, email, PDF, image, or app presentation.'' None []]"

definition doc_partnerGetTicketCredential :: doc_operation where
  "doc_partnerGetTicketCredential =
     \<lparr>od_operationId = ''partnerGetTicketCredential'', od_group = ''Tickets'',
       od_route = ''/api/tickets/retrieve'',
      od_method = ''GET'', od_path = ''/api/v1/partner/tickets/{ticket_id}/credential'',
      od_title = ''Retrieve a ticket'',
      od_description =
        ''Recovers the current active qr1 credential for a Ticket owned by the authenticated Partner. The qr_url is an opaque credential-bound hosted presentation capability that Partners can embed in their own ticket experience.'',
      od_destructive = False, od_security = [''PartnerBearer''],
      od_parameters = [ticket_id_doc_parameter, request_id_doc_parameter],
      od_body = None,
      od_successMediaType = Some ''application/json'',
      od_responses = [\<lparr>da_status = ''200'',
        da_description = ''Deterministically recovered current active credential.'',
        da_mediaType = Some ''application/json'', da_fields = partnerGetTicketCredential_answer_fields,
        da_example = Some (JObj [(''ticket_id'', JStr ''tkt_AAAAAAAAAAAAAAAAAAAAAA''), (''credential_id'',
        JStr ''credential_id_example''), (''status'', JStr ''status_example''), (''qr_payload'',
        JStr ''qr_payload_example''), (''qr_url'',
        JStr ''https://api.example.test/api/v1/ticket-qr/tqp1_opaque-capability'')])\<rparr>,
        doc_error_response ''Machine-readable error response.'']\<rparr>"

definition doc_partnerGetTicketQR :: doc_operation where
  "doc_partnerGetTicketQR =
     \<lparr>od_operationId = ''partnerGetTicketQR'', od_group = ''Tickets'', od_route = ''/api/tickets/retrieve-qr'',
      od_method = ''GET'', od_path = ''/api/v1/partner/tickets/{ticket_id}/qr'',
      od_title = ''Retrieve a ticket QR image'',
      od_description =
        ''Returns a TktSync-generated QR image containing the complete current active qr1 credential for a Ticket owned by the authenticated Partner.'',
      od_destructive = False, od_security = [''PartnerBearer''],
      od_parameters = [ticket_id_doc_parameter, request_id_doc_parameter],
      od_body = None,
      od_successMediaType = Some ''image/svg+xml'',
      od_responses = [\<lparr>da_status = ''200'',
        da_description = ''Generated QR image for the current active credential.'',
        da_mediaType = Some ''image/svg+xml'', da_fields = [], da_example = Some (JStr ''response_example'')\<rparr>,
        doc_error_response ''Machine-readable error response.'']\<rparr>"

definition partnerVoidTicket_answer_fields :: "doc_field list" where
  "partnerVoidTicket_answer_fields =
     [Doc_Field ''ticket_id'' True ''string'' [] None [], Doc_Field ''status'' True ''string'' [] None [],
       Doc_Field ''voided_at'' True (formatted ''string'' ''date-time'') [] None [],
       Doc_Field ''void_reason'' True ''string'' [] None []]"

definition doc_partnerVoidTicket :: doc_operation where
  "doc_partnerVoidTicket =
     \<lparr>od_operationId = ''partnerVoidTicket'', od_group = ''Tickets'', od_route = ''/api/tickets/void'',
      od_method = ''POST'', od_path = ''/api/v1/partner/tickets/{ticket_id}/void'',
      od_title = ''Void a ticket'',
      od_description =
        [],
      od_destructive = True, od_security = [''PartnerBearer''],
      od_parameters = [ticket_id_doc_parameter, idempotency_key_plain_doc_parameter, request_id_doc_parameter],
      od_body = Some \<lparr>db_required = False, db_fields = [Doc_Field ''reason'' False ''string'' [] None []],
        db_example = JObj [(''reason'', JStr ''reason_example'')]\<rparr>,
      od_successMediaType = Some ''application/json'',
      od_responses = [\<lparr>da_status = ''200'',
        da_description = ''Ticket voided; credential revoked and inventory remains consumed.'',
        da_mediaType = Some ''application/json'', da_fields = partnerVoidTicket_answer_fields,
        da_example = Some (JObj [(''ticket_id'', JStr ''tkt_AAAAAAAAAAAAAAAAAAAAAA''), (''status'',
        JStr ''status_example''), (''voided_at'', JStr ''2026-08-23T12:00:00Z''), (''void_reason'',
        JStr ''void_reason_example'')])\<rparr>, doc_error_response ''Machine-readable error response.'']\<rparr>"

definition partnerReissueTicketCredential_answer_fields :: "doc_field list" where
  "partnerReissueTicketCredential_answer_fields =
     [Doc_Field ''ticket_id'' True ''string'' [] None [], Doc_Field ''credential_id'' True ''string'' [] None [],
       Doc_Field ''status'' True ''string'' [] None [],
       Doc_Field ''issued_at'' True (formatted ''string'' ''date-time'') [] None []]"

definition doc_partnerReissueTicketCredential :: doc_operation where
  "doc_partnerReissueTicketCredential =
     \<lparr>od_operationId = ''partnerReissueTicketCredential'', od_group = ''Tickets'',
       od_route = ''/api/tickets/reissue-credential'',
      od_method = ''POST'', od_path = ''/api/v1/partner/tickets/{ticket_id}/credentials/reissue'',
      od_title = ''Reissue a ticket credential'',
      od_description =
        [],
      od_destructive = False, od_security = [''PartnerBearer''],
      od_parameters = [ticket_id_doc_parameter, idempotency_key_plain_doc_parameter, request_id_doc_parameter],
      od_body = Some \<lparr>db_required = False, db_fields = [], db_example = JObj []\<rparr>,
      od_successMediaType = Some ''application/json'',
      od_responses = [\<lparr>da_status = ''200'',
        da_description = ''Credential rotated without changing Ticket identity; raw payload is not returned.'',
        da_mediaType = Some ''application/json'', da_fields = partnerReissueTicketCredential_answer_fields,
        da_example = Some (JObj [(''ticket_id'', JStr ''tkt_AAAAAAAAAAAAAAAAAAAAAA''), (''credential_id'',
        JStr ''credential_id_example''), (''status'', JStr ''status_example''), (''issued_at'',
        JStr ''2026-08-23T12:00:00Z'')])\<rparr>, doc_error_response ''Machine-readable error response.'']\<rparr>"

definition partnerReReleaseTicketInventory_body_fields :: "doc_field list" where
  "partnerReReleaseTicketInventory_body_fields =
     [Doc_Field ''destination_kind'' True ''SHARED | ALLOCATION'' [] (Some [''SHARED'', ''ALLOCATION'']) [],
       Doc_Field ''destination_allocation_id'' False ''string'' [] None [],
       Doc_Field ''reason'' True ''string'' [] None []]"

definition partnerReReleaseTicketInventory_answer_fields :: "doc_field list" where
  "partnerReReleaseTicketInventory_answer_fields =
     [Doc_Field ''ticket_id'' True ''string'' [] None [],
       Doc_Field ''released_at'' True (formatted ''string'' ''date-time'') [] None [],
       Doc_Field ''destination_kind'' True ''SHARED | ALLOCATION'' [] (Some [''SHARED'', ''ALLOCATION'']) [],
       Doc_Field ''destination_allocation_id'' False ''string'' [] None [],
       Doc_Field ''reason'' True ''string'' [] None []]"

definition doc_partnerReReleaseTicketInventory :: doc_operation where
  "doc_partnerReReleaseTicketInventory =
     \<lparr>od_operationId = ''partnerReReleaseTicketInventory'', od_group = ''Tickets'',
       od_route = ''/api/tickets/re-release-inventory'',
      od_method = ''POST'', od_path = ''/api/v1/partner/tickets/{ticket_id}/inventory/re-release'',
      od_title = ''Re-release ticket inventory'',
      od_description =
        [],
      od_destructive = True, od_security = [''PartnerBearer''],
      od_parameters = [ticket_id_doc_parameter, idempotency_key_plain_doc_parameter, request_id_doc_parameter],
      od_body = Some \<lparr>db_required = True, db_fields = partnerReReleaseTicketInventory_body_fields,
        db_example = JObj [(''destination_kind'', JStr ''SHARED''), (''destination_allocation_id'',
        JStr ''destination_allocation_id_example''), (''reason'', JStr ''reason_example'')]\<rparr>,
      od_successMediaType = Some ''application/json'',
      od_responses = [\<lparr>da_status = ''200'',
        da_description = ''Voided Ticket capacity explicitly released to the requested safe destination.'',
        da_mediaType = Some ''application/json'', da_fields = partnerReReleaseTicketInventory_answer_fields,
        da_example = Some (JObj [(''ticket_id'', JStr ''tkt_AAAAAAAAAAAAAAAAAAAAAA''), (''released_at'',
        JStr ''2026-08-23T12:00:00Z''), (''destination_kind'', JStr ''SHARED''), (''reason'',
        JStr ''reason_example'')])\<rparr>, doc_error_response ''Machine-readable error response.'']\<rparr>"

definition partnerCreateSelectionSession_body_fields :: "doc_field list" where
  "partnerCreateSelectionSession_body_fields =
     [Doc_Field ''event_id'' True ''string'' [] None [], Doc_Field ''buyer_session_ref'' False ''string'' [] None [],
       Doc_Field ''return_url'' True (formatted ''string'' ''uri'') ''Absolute HTTPS checkout destination registered during Partner integration onboarding. Paths, ports, query strings, and trailing slashes must match exactly.'' None []]"

definition partnerCreateSelectionSession_answer_fields :: "doc_field list" where
  "partnerCreateSelectionSession_answer_fields =
     [Doc_Field ''selection_session_id'' True ''string'' [] None [],
       Doc_Field ''selection_url'' True (formatted ''string'' ''uri'') [] None [],
       Doc_Field ''expires_at'' True (formatted ''string'' ''date-time'') [] None []]"

definition doc_partnerCreateSelectionSession :: doc_operation where
  "doc_partnerCreateSelectionSession =
     \<lparr>od_operationId = ''partnerCreateSelectionSession'', od_group = ''Selection sessions'',
       od_route = ''/api/selection-sessions/create'',
      od_method = ''POST'', od_path = ''/api/v1/partner/selection-sessions'',
      od_title = ''Create a selection session'',
      od_description =
        ''Creates an opaque Selector session for an accessible Event. The return_url must exactly match an HTTPS checkout destination registered during Partner integration onboarding.'',
      od_destructive = False, od_security = [''PartnerBearer''],
      od_parameters = [idempotency_key_plain_doc_parameter, request_id_doc_parameter],
      od_body = Some \<lparr>db_required = True, db_fields = partnerCreateSelectionSession_body_fields,
        db_example = JObj [(''event_id'', JStr ''evt_AAAAAAAAAAAAAAAAAAAAAA''), (''buyer_session_ref'',
        JStr ''buyer_session_ref_example''), (''return_url'',
        JStr ''https://partner.example/checkout/return'')]\<rparr>,
      od_successMediaType = Some ''application/json'',
      od_responses = [\<lparr>da_status = ''201'',
        da_description = ''Selection session and opaque bootstrap URL created.'',
        da_mediaType = Some ''application/json'', da_fields = partnerCreateSelectionSession_answer_fields,
        da_example = Some (JObj [(''selection_session_id'', JStr ''selection_session_id_example''), (''selection_url'',
        JStr ''selection_url_example''), (''expires_at'', JStr ''2026-08-23T12:00:00Z'')])\<rparr>,
        doc_error_response ''Machine-readable error response.'']\<rparr>"

definition doc_report_event_fields :: "doc_field list" where
  "doc_report_event_fields =
     [Doc_Field ''id'' True ''string'' [] None [], Doc_Field ''name'' True ''string'' [] None [],
       Doc_Field ''state'' True ''DRAFT | ON_SALE | PAUSED | SALES_CLOSED | COMPLETED | CANCELLED'' [] (Some [''DRAFT'',
       ''ON_SALE'', ''PAUSED'', ''SALES_CLOSED'', ''COMPLETED'', ''CANCELLED'']) [],
       Doc_Field ''starts_at'' False (formatted ''string | null'' ''date-time'') [] None []]"

definition doc_inventory_counts_fields :: "doc_field list" where
  "doc_inventory_counts_fields =
     [Doc_Field ''capacity'' True ''integer'' [] None [], Doc_Field ''available'' True ''integer'' [] None [],
       Doc_Field ''held'' True ''integer'' [] None [], Doc_Field ''committing'' True ''integer'' [] None [],
       Doc_Field ''payment_retry'' True ''integer'' [] None [], Doc_Field ''reconciling'' True ''integer'' [] None [],
       Doc_Field ''blocked'' True ''integer'' [] None [], Doc_Field ''allocated'' True ''integer'' [] None [],
       Doc_Field ''sold_current'' True ''integer'' ''Current capacity still consumed by commercial Tickets; not historical Sale quantity.'' None [],
       Doc_Field ''issued_current'' True ''integer'' ''Current non-public issuance consumption; never SOLD.'' None [],
       Doc_Field ''voided_tickets'' True ''integer'' [] None [],
       Doc_Field ''capacity_consumed'' True ''integer'' [] None [],
       Doc_Field ''historical_sold'' True ''integer'' ''Immutable confirmed Sale quantity.'' None [],
       Doc_Field ''historical_issued'' True ''integer'' ''Non-public issuance quantity, distinct from commercial Sales.'' None []]"

definition partnerGetEventInventoryReport_answer_fields :: "doc_field list" where
  "partnerGetEventInventoryReport_answer_fields =
     [Doc_Field ''generated_at'' True (formatted ''string'' ''date-time'') [] None [],
       Doc_Field ''event'' True ''object'' [] None doc_report_event_fields,
       Doc_Field ''reserved_seating'' True ''object'' [] None doc_inventory_counts_fields,
       Doc_Field ''general_admission'' True ''object'' [] None doc_inventory_counts_fields,
       Doc_Field ''total'' True ''object'' [] None doc_inventory_counts_fields]"

definition doc_partnerGetEventInventoryReport :: doc_operation where
  "doc_partnerGetEventInventoryReport =
     \<lparr>od_operationId = ''partnerGetEventInventoryReport'', od_group = ''Reporting'',
       od_route = ''/api/reporting/inventory'',
      od_method = ''GET'', od_path = ''/api/v1/partner/events/{event_id}/reports/inventory'',
      od_title = ''Retrieve inventory report'',
      od_description =
        [],
      od_destructive = False, od_security = [''PartnerBearer''],
      od_parameters = [event_id_doc_parameter, request_id_doc_parameter],
      od_body = None,
      od_successMediaType = Some ''application/json'',
      od_responses = [\<lparr>da_status = ''200'',
        da_description = ''Caller-contextual inventory and the Partner's own obligations only.'',
        da_mediaType = Some ''application/json'', da_fields = partnerGetEventInventoryReport_answer_fields,
        da_example = Some (JObj [(''generated_at'', JStr ''2026-08-23T12:00:00Z''), (''event'', JObj [(''id'',
        JStr ''id_example''), (''name'', JStr ''name_example''), (''state'', JStr ''DRAFT'')]), (''reserved_seating'',
        JObj [(''capacity'', JNum 1000), (''available'', JNum 1000), (''held'', JNum 1000), (''committing'',
        JNum 1000), (''payment_retry'', JNum 1000), (''reconciling'', JNum 1000), (''blocked'', JNum 1000),
        (''allocated'', JNum 1000), (''sold_current'', JNum 1000), (''issued_current'', JNum 1000),
        (''voided_tickets'', JNum 1000), (''capacity_consumed'', JNum 1000), (''historical_sold'', JNum 1000),
        (''historical_issued'', JNum 1000)]), (''general_admission'', JObj [(''capacity'', JNum 1000), (''available'',
        JNum 1000), (''held'', JNum 1000), (''committing'', JNum 1000), (''payment_retry'', JNum 1000),
        (''reconciling'', JNum 1000), (''blocked'', JNum 1000), (''allocated'', JNum 1000), (''sold_current'',
        JNum 1000), (''issued_current'', JNum 1000), (''voided_tickets'', JNum 1000), (''capacity_consumed'',
        JNum 1000), (''historical_sold'', JNum 1000), (''historical_issued'', JNum 1000)]), (''total'',
        JObj [(''capacity'', JNum 1000), (''available'', JNum 1000), (''held'', JNum 1000), (''committing'',
        JNum 1000), (''payment_retry'', JNum 1000), (''reconciling'', JNum 1000), (''blocked'', JNum 1000),
        (''allocated'', JNum 1000), (''sold_current'', JNum 1000), (''issued_current'', JNum 1000),
        (''voided_tickets'', JNum 1000), (''capacity_consumed'', JNum 1000), (''historical_sold'', JNum 1000),
        (''historical_issued'', JNum 1000)])])\<rparr>,
        doc_error_response ''Machine-readable error response.'']\<rparr>"

definition partnerGetEventSalesReport_answer_fields :: "doc_field list" where
  "partnerGetEventSalesReport_answer_fields =
     [Doc_Field ''generated_at'' True (formatted ''string'' ''date-time'') [] None [],
       Doc_Field ''event'' True ''object'' [] None doc_report_event_fields,
       Doc_Field ''sale_count'' True ''integer'' [] None [],
       Doc_Field ''historical_sale_quantity'' True ''integer'' [] None [],
       Doc_Field ''historical_amount_minor'' True ''integer'' [] None [],
       Doc_Field ''active_sold_tickets'' True ''integer'' [] None [],
       Doc_Field ''voided_sold_tickets'' True ''integer'' [] None [],
       Doc_Field ''current_sold_capacity'' True ''integer'' [] None [],
       Doc_Field ''currency'' True ''string | null'' [] None []]"

definition doc_partnerGetEventSalesReport :: doc_operation where
  "doc_partnerGetEventSalesReport =
     \<lparr>od_operationId = ''partnerGetEventSalesReport'', od_group = ''Reporting'',
       od_route = ''/api/reporting/sales'',
      od_method = ''GET'', od_path = ''/api/v1/partner/events/{event_id}/reports/sales'',
      od_title = ''Retrieve sales report'',
      od_description =
        [],
      od_destructive = False, od_security = [''PartnerBearer''],
      od_parameters = [event_id_doc_parameter, request_id_doc_parameter],
      od_body = None,
      od_successMediaType = Some ''application/json'',
      od_responses = [\<lparr>da_status = ''200'',
        da_description = ''Only authoritative Sales owned by the authenticated Partner.'',
        da_mediaType = Some ''application/json'', da_fields = partnerGetEventSalesReport_answer_fields,
        da_example = Some (JObj [(''generated_at'', JStr ''2026-08-23T12:00:00Z''), (''event'', JObj [(''id'',
        JStr ''id_example''), (''name'', JStr ''name_example''), (''state'', JStr ''DRAFT'')]), (''sale_count'',
        JNum 1000), (''historical_sale_quantity'', JNum 1000), (''historical_amount_minor'', JNum 1000),
        (''active_sold_tickets'', JNum 1000), (''voided_sold_tickets'', JNum 1000), (''current_sold_capacity'',
        JNum 1000), (''currency'', JStr ''currency_example'')])\<rparr>,
        doc_error_response ''Machine-readable error response.'']\<rparr>"

definition partnerListEventActivity_answer_items_fields :: "doc_field list" where
  "partnerListEventActivity_answer_items_fields =
     [Doc_Field ''id'' True ''string'' [] None [],
       Doc_Field ''actor_kind'' True ''USER | PARTNER | BUYER_SESSION | SYSTEM'' [] (Some [''USER'', ''PARTNER'',
       ''BUYER_SESSION'', ''SYSTEM'']) [], Doc_Field ''actor_partner_id'' False ''string'' [] None [],
       Doc_Field ''operation'' True ''string'' [] None [], Doc_Field ''entity_type'' True ''string'' [] None [],
       Doc_Field ''entity_id'' False ''string'' [] None [], Doc_Field ''reservation_id'' False ''string'' [] None [],
       Doc_Field ''sale_id'' False ''string'' [] None [], Doc_Field ''ticket_id'' False ''string'' [] None [],
       Doc_Field ''previous_state'' False ''object | array | null'' [] None [],
       Doc_Field ''new_state'' False ''object | array | null'' [] None [],
       Doc_Field ''reason'' False ''string'' [] None [],
       Doc_Field ''correlation_id'' False (formatted ''string'' ''uuid'') [] None [],
       Doc_Field ''metadata'' True ''object'' [] None [],
       Doc_Field ''occurred_at'' True (formatted ''string'' ''date-time'') [] None []]"

definition partnerListEventActivity_answer_fields :: "doc_field list" where
  "partnerListEventActivity_answer_fields =
     [Doc_Field ''items'' True ''array<object>'' [] None partnerListEventActivity_answer_items_fields,
       Doc_Field ''next_cursor'' True ''string | null'' [] None []]"

definition doc_partnerListEventActivity :: doc_operation where
  "doc_partnerListEventActivity =
     \<lparr>od_operationId = ''partnerListEventActivity'', od_group = ''Reporting'',
       od_route = ''/api/reporting/activity'',
      od_method = ''GET'', od_path = ''/api/v1/partner/events/{event_id}/activity'',
      od_title = ''List event activity'',
      od_description =
        [],
      od_destructive = False, od_security = [''PartnerBearer''],
      od_parameters = [event_id_doc_parameter, request_id_doc_parameter, \<lparr>dp_name = ''limit'',
        dp_in = ''query'', dp_required = False, dp_type = ''integer'', dp_description = [],
        dp_example = JNum 50\<rparr>, \<lparr>dp_name = ''cursor'', dp_in = ''query'', dp_required = False,
        dp_type = ''string'', dp_description = [], dp_example = JStr ''cursor_example''\<rparr>],
      od_body = None,
      od_successMediaType = Some ''application/json'',
      od_responses = [\<lparr>da_status = ''200'',
        da_description = ''Partner-owned operational activity with stable pagination.'',
        da_mediaType = Some ''application/json'', da_fields = partnerListEventActivity_answer_fields,
        da_example = Some (JObj [(''items'', JArr [JObj [(''id'', JStr ''id_example''), (''actor_kind'',
        JStr ''USER''), (''actor_partner_id'', JStr ''actor_partner_id_example''), (''operation'',
        JStr ''operation_example''), (''entity_type'', JStr ''entity_type_example''), (''metadata'', JObj []),
        (''occurred_at'', JStr ''2026-08-23T12:00:00Z'')]]), (''next_cursor'', JStr ''next_cursor_example'')])\<rparr>,
        doc_error_response ''Machine-readable error response.'']\<rparr>"

definition partnerOperations :: "doc_operation list" where
  "partnerOperations =
     [doc_partnerListEvents, doc_partnerGetEvent, doc_partnerGetEventLayout, doc_partnerGetAvailability,
       doc_partnerCreateReservation, doc_partnerGetReservation, doc_partnerModifyReservation,
       doc_partnerBeginReservationCheckout, doc_partnerReportReservationPaymentFailure, doc_partnerReleaseReservation,
       doc_partnerConfirmReservation, doc_partnerGetTicketCredential, doc_partnerGetTicketQR, doc_partnerVoidTicket,
       doc_partnerReissueTicketCredential, doc_partnerReReleaseTicketInventory, doc_partnerCreateSelectionSession,
       doc_partnerGetEventInventoryReport, doc_partnerGetEventSalesReport, doc_partnerListEventActivity]"

lemmas documented_operations = doc_partnerListEvents_def doc_partnerGetEvent_def doc_partnerGetEventLayout_def
  doc_partnerGetAvailability_def doc_partnerCreateReservation_def doc_partnerGetReservation_def
  doc_partnerModifyReservation_def doc_partnerBeginReservationCheckout_def
  doc_partnerReportReservationPaymentFailure_def doc_partnerReleaseReservation_def doc_partnerConfirmReservation_def
  doc_partnerGetTicketCredential_def doc_partnerGetTicketQR_def doc_partnerVoidTicket_def
  doc_partnerReissueTicketCredential_def doc_partnerReReleaseTicketInventory_def doc_partnerCreateSelectionSession_def
  doc_partnerGetEventInventoryReport_def doc_partnerGetEventSalesReport_def doc_partnerListEventActivity_def

end
