(* ===== verification/Docs_Contract.thy ===== *)
theory Docs_Contract
  imports Docs_Model Api_Contract Storefront_Web
begin

text \<open>
  The documentation of the partner API against the API's contract: its fields are those of the
  contract's types, its examples are values of them, and the console sends declared requests.
\<close>

section \<open>Fields\<close>

datatype field_shape = Shape string bool "string list option" "field_shape list"

primrec shape_of_doc :: "doc_field \<Rightarrow> field_shape" where
  "shape_of_doc (Doc_Field n required t d e cs) = Shape n required e (map shape_of_doc cs)"

text \<open>
  What the documentation shows of a type: the fields of an object or of the objects of an array, three
  levels deep. A union with \<open>unknown\<close> constrains nothing; its first member says what is meant.
\<close>

fun shown_fields :: "ty \<Rightarrow> field list" where
  "shown_fields (TRecord fs) = fs"
| "shown_fields (TArray (TRecord fs)) = fs"
| "shown_fields (TUnion (TRecord fs # TUnknown # ts)) = fs"
| "shown_fields t = []"

fun const_text :: "ty \<Rightarrow> string option" where
  "const_text (TConst s) = Some s"
| "const_text t = None"

fun shown_enum :: "ty \<Rightarrow> string list option" where
  "shown_enum (TUnion ts) = those (map const_text ts)"
| "shown_enum t = None"

primrec documented :: "nat \<Rightarrow> ty \<Rightarrow> field_shape list" where
  "documented 0 t = []"
| "documented (Suc d) t =
     map (\<lambda>f. Shape (field_name f) (field_required f) (shown_enum (field_type f)) (documented d (field_type f))) (shown_fields t)"

section \<open>Operations\<close>

definition parameters_follow :: "doc_operation \<Rightarrow> string \<Rightarrow> field list \<Rightarrow> bool" where
  "parameters_follow d place fs \<longleftrightarrow>
     map (\<lambda>p. (dp_name p, dp_required p)) (filter (\<lambda>p. dp_in p = place) (od_parameters d)) =
     map (\<lambda>f. (field_name f, field_required f)) fs"

text \<open>The example of a body is a value of its type, with nothing that the type does not name.\<close>

definition documents :: "doc_body \<Rightarrow> ty \<Rightarrow> bool" where
  "documents b t \<longleftrightarrow> map shape_of_doc (db_fields b) = documented 3 t \<and> conforms True t (db_example b)"

definition body_follows :: "doc_body option \<Rightarrow> content \<Rightarrow> bool" where
  "body_follows body c =
     (case (body, c) of
        (None, No_Content) \<Rightarrow> True
      | (Some b, Content t) \<Rightarrow> db_required b \<and> documents b t
      | (Some b, Optional_Content t) \<Rightarrow> \<not> db_required b \<and> documents b t
      | _ \<Rightarrow> False)"

definition answer_follows :: "doc_answer \<Rightarrow> string \<times> response \<Rightarrow> bool" where
  "answer_follows a = (\<lambda>(status, rp).
     da_status a = status \<and>
     (case rp_content rp of
        [(media, t)] \<Rightarrow> da_mediaType a = Some media \<and> map shape_of_doc (da_fields a) = documented 3 t
      | _ \<Rightarrow> False))"

definition operation_follows :: "doc_operation \<Rightarrow> operation \<Rightarrow> bool" where
  "operation_follows d op \<longleftrightarrow>
     list_all (\<lambda>p. dp_in p \<in> {''path'', ''query'', ''header''}) (od_parameters d) \<and>
     parameters_follow d ''path'' (op_path op) \<and> parameters_follow d ''query'' (op_query op) \<and>
     parameters_follow d ''header'' (op_header op) \<and> body_follows (od_body d) (op_content op) \<and>
     list_all2 answer_follows (od_responses d) (op_responses op)"

text \<open>What the contract has at the documented method and path.\<close>

definition contract_operations :: "doc_operation \<Rightarrow> operation list" where
  "contract_operations d = map snd (filter (\<lambda>((m, path), op). verb_text m = od_method d \<and> path = od_path d) api_paths)"

definition follows_contract :: "doc_operation \<Rightarrow> bool" where
  "follows_contract d \<longleftrightarrow> list_ex (operation_follows d) (contract_operations d)"

lemma follows_entry:
  "list_ex (\<lambda>((m, path), op). verb_text m = od_method d \<and> path = od_path d \<and> operation_follows d op) api_paths \<Longrightarrow>
   follows_contract d"
  by (auto simp: follows_contract_def contract_operations_def list_ex_iff split: prod.splits) blast

lemmas documented_parts = doc_error_fields_def doc_error_answer_fields_def doc_error_response_def
  request_id_doc_parameter_def event_id_doc_parameter_def idempotency_key_doc_parameter_def
  reservation_id_doc_parameter_def reservation_token_doc_parameter_def idempotency_key_plain_doc_parameter_def
  ticket_id_doc_parameter_def doc_event_fields_def partnerListEvents_answer_fields_def
  partnerGetAvailability_answer_reserved_units_fields_def partnerGetAvailability_answer_ga_pools_offers_fields_def
  partnerGetAvailability_answer_ga_pools_fields_def partnerGetAvailability_answer_fields_def
  doc_requested_item_fields_def partnerCreateReservation_body_fields_def doc_reservation_item_fields_def
  doc_total_fields_def doc_reservation_fields_def partnerCreateReservation_answer_fields_def
  partnerModifyReservation_body_fields_def partnerBeginReservationCheckout_answer_checkout_attempt_fields_def
  partnerBeginReservationCheckout_answer_fields_def partnerReportReservationPaymentFailure_body_fields_def
  partnerReportReservationPaymentFailure_answer_fields_def partnerReleaseReservation_answer_fields_def
  partnerConfirmReservation_body_fields_def partnerConfirmReservation_answer_sale_fields_def
  partnerConfirmReservation_answer_tickets_fields_def partnerConfirmReservation_answer_fields_def
  partnerGetTicketCredential_answer_fields_def partnerVoidTicket_answer_fields_def
  partnerReissueTicketCredential_answer_fields_def partnerReReleaseTicketInventory_body_fields_def
  partnerReReleaseTicketInventory_answer_fields_def partnerCreateSelectionSession_body_fields_def
  partnerCreateSelectionSession_answer_fields_def doc_report_event_fields_def doc_inventory_counts_fields_def
  partnerGetEventInventoryReport_answer_fields_def partnerGetEventSalesReport_answer_fields_def
  partnerListEventActivity_answer_items_fields_def partnerListEventActivity_answer_fields_def

lemmas partner_contract = partnerListEvents_def partnerGetEvent_def partnerGetEventLayout_def
  partnerGetAvailability_def partnerCreateReservation_def partnerGetReservation_def partnerModifyReservation_def
  partnerBeginReservationCheckout_def partnerReportReservationPaymentFailure_def partnerReleaseReservation_def
  partnerConfirmReservation_def partnerGetTicketCredential_def partnerGetTicketQR_def partnerVoidTicket_def
  partnerReissueTicketCredential_def partnerReReleaseTicketInventory_def partnerCreateSelectionSession_def
  partnerGetEventInventoryReport_def partnerGetEventSalesReport_def partnerListEventActivity_def

lemmas partner_schemas = XRequestID_header_def PartnerEventList_schema_def PartnerEvent_schema_def
  ErrorResponse_response_def ErrorResponse_schema_def GenericObject_schema_def PartnerAvailability_schema_def
  ReservedAvailability_schema_def AvailabilityOffer_schema_def Price_schema_def GAAvailability_schema_def
  GAAvailabilityOffer_schema_def CreateReservationRequest_schema_def CreateReservationItemRequest_schema_def
  CacheControlNoStore_header_def CreateReservationResponse_schema_def Reservation_schema_def
  ReservationItem_schema_def ModifyReservationRequest_schema_def AdjustReservationQuantityRequest_schema_def
  BeginCheckoutResponse_schema_def CheckoutAttempt_schema_def PaymentFailureRequest_schema_def
  PaymentFailureResponse_schema_def ReleaseReservationResponse_schema_def ConfirmReservationRequest_schema_def
  ConfirmReservationResponse_schema_def TicketSummary_schema_def TicketCredentialResponse_schema_def
  XContentTypeOptionsNoSniff_header_def VoidTicketRequest_schema_def VoidTicketResponse_response_def
  VoidTicketResponse_schema_def EmptyObject_schema_def ReissueCredentialResponse_response_def
  ReissueCredentialResponse_schema_def ReReleaseTicketInventoryRequest_schema_def
  ReReleaseTicketInventoryResponse_response_def ReReleaseTicketInventoryResponse_schema_def
  CreateSelectionSessionRequest_schema_def CreateSelectionSessionResponse_schema_def InventoryReport_schema_def
  ReportEventContext_schema_def InventoryDimensions_schema_def SalesReport_schema_def AuditPage_schema_def
  AuditEvent_schema_def

lemmas follows = operation_follows_def parameters_follow_def body_follows_def documents_def answer_follows_def
  numeral_3_eq_3 json_answer_def js_get_cons js_get_nil field_names_def

lemma events_follow: "list_all follows_contract [doc_partnerListEvents, doc_partnerGetEvent, doc_partnerGetEventLayout, doc_partnerGetAvailability]"
  by (simp only: list.pred_inject; intro conjI TrueI; rule follows_entry; rule in_partner_event_paths;
      simp add: partner_event_paths_def documented_operations; simp add: partner_contract documented_parts follows; simp add: partner_schemas follows)

lemma reservations_follow:
  "list_all follows_contract [doc_partnerCreateReservation, doc_partnerGetReservation, doc_partnerModifyReservation,
     doc_partnerBeginReservationCheckout, doc_partnerReportReservationPaymentFailure, doc_partnerReleaseReservation,
     doc_partnerConfirmReservation]"
  by (simp only: list.pred_inject; intro conjI TrueI; rule follows_entry; rule in_partner_reservation_paths;
      simp add: partner_reservation_paths_def documented_operations; simp add: partner_contract documented_parts follows; simp add: partner_schemas follows)

lemma tickets_follow:
  "list_all follows_contract [doc_partnerGetTicketCredential, doc_partnerGetTicketQR, doc_partnerVoidTicket,
     doc_partnerReissueTicketCredential, doc_partnerReReleaseTicketInventory]"
  by (simp only: list.pred_inject; intro conjI TrueI; rule follows_entry; rule in_partner_ticket_paths;
      simp add: partner_ticket_paths_def documented_operations; simp add: partner_contract documented_parts follows; simp add: partner_schemas follows)

lemma selection_follows: "follows_contract doc_partnerCreateSelectionSession"
  by (rule follows_entry; rule in_selection_paths; simp add: selection_paths_def documented_operations; simp add: partner_contract documented_parts follows;
      simp add: partner_schemas follows)

lemma reports_follow:
  "list_all follows_contract [doc_partnerGetEventInventoryReport, doc_partnerGetEventSalesReport, doc_partnerListEventActivity]"
  by (simp only: list.pred_inject; intro conjI TrueI; rule follows_entry; rule in_report_paths;
      simp add: report_paths_def documented_operations; simp add: partner_contract documented_parts follows; simp add: partner_schemas follows)

lemma documented_in_order:
  "map (\<lambda>d. (od_method d, od_path d)) partnerOperations =
   map (\<lambda>((m, path), op). (verb_text m, path)) (filter (\<lambda>((m, path), op). prefix ''/api/v1/partner/'' path) api_paths)"
  by (simp add: partnerOperations_def documented_operations api_paths_def user_paths_def read_paths_def venue_paths_def
      event_paths_def sales_paths_def partner_paths_def restriction_paths_def partner_event_paths_def
      partner_reservation_paths_def partner_ticket_paths_def admin_ticket_paths_def admission_paths_def webhook_paths_def
      selection_paths_def report_paths_def return_url_paths_def)

lemma documented_operations_follow: "list_all follows_contract partnerOperations"
  using events_follow reservations_follow tickets_follow selection_follows reports_follow by (simp add: partnerOperations_def)

text \<open>
  C31: The documentation of the partner API is its contract: the operations are those of the contract
  below the partner path, in its order, each with the parameters, the kind of body, the statuses and
  media types of the contract and with the fields of its types, three levels deep; the example of a
  body is a value of its type, and each operation has a page of its own.
\<close>

theorem documentation_is_the_contract:
  "list_all follows_contract partnerOperations \<and>
   map (\<lambda>d. (od_method d, od_path d)) partnerOperations =
     map (\<lambda>((m, path), op). (verb_text m, path)) (filter (\<lambda>((m, path), op). prefix ''/api/v1/partner/'' path) api_paths) \<and>
   distinct (map od_route partnerOperations)"
proof (intro conjI documented_in_order documented_operations_follow)
  show "distinct (map od_route partnerOperations)" by (simp add: partnerOperations_def documented_operations)
qed

end
