(* ===== verification/Docs_Console.thy ===== *)
theory Docs_Console
  imports Docs_Contract
begin

text \<open>
  The requests of the documentation's console: whatever is typed into the form of a documented
  operation, what is sent is a request that the contract declares, once the required values are there.
\<close>

section \<open>Building a request, parameter by parameter\<close>

definition given :: "request_state \<Rightarrow> request_parameter \<Rightarrow> string" where
  "given st p = nullish (map_of (rs_values st) (rp_name p)) []"

definition placed :: "request_state \<Rightarrow> string \<Rightarrow> request_parameter list \<Rightarrow> string set" where
  "placed st place ps = rp_name ` {p \<in> set ps. rp_in p = place \<and> given st p \<noteq> []}"

lemma placed_cons:
  "placed st place (p # ps) =
     (if rp_in p = place \<and> given st p \<noteq> [] then insert (rp_name p) (placed st place ps) else placed st place ps)"
  by (auto simp: placed_def)

lemma built_query: "fst ` set (br_query (foldl (add_parameter st) b ps)) = fst ` set (br_query b) \<union> placed st ''query'' ps"
proof (induction ps arbitrary: b)
  case (Cons p ps)
  then show ?case by (auto simp: placed_cons add_parameter_def given_def keys_rec_set Let_def)
qed (simp add: placed_def)

lemma built_headers: "fst ` set (br_headers (foldl (add_parameter st) b ps)) = fst ` set (br_headers b) \<union> placed st ''header'' ps"
proof (induction ps arbitrary: b)
  case (Cons p ps)
  then show ?case by (auto simp: placed_cons add_parameter_def given_def keys_rec_set Let_def)
qed (simp add: placed_def)

definition no_blank :: "(string \<times> string) list \<Rightarrow> bool" where
  "no_blank kvs \<longleftrightarrow> list_all (\<lambda>kv. snd kv \<noteq> []) kvs"

lemma no_blank_rec_set: "no_blank kvs \<Longrightarrow> v \<noteq> [] \<Longrightarrow> no_blank (rec_set k v kvs)"
  by (induction k v kvs rule: rec_set.induct) (auto simp: no_blank_def)

lemma built_no_blank:
  assumes "no_blank (br_headers b)" and "rs_idempotencyKey st \<noteq> []"
  shows "no_blank (br_headers (foldl (add_parameter st) b ps))"
  using assms(1)
proof (induction ps arbitrary: b)
  case (Cons p ps)
  have "no_blank (br_headers (add_parameter st b p))"
    using Cons.prems assms(2) by (simp add: add_parameter_def Let_def no_blank_rec_set)
  then show ?case using Cons.IH by simp
qed simp

lemma built_path:
  "br_path (foldl (add_parameter st) b ps) =
     foldl (\<lambda>path p. if given st p = [] then path else replace_first (''{'' @ rp_name p @ ''}'') (encodeURIComponent (given st p)) path)
       (br_path b) (filter (\<lambda>p. rp_in p = ''path'') ps)"
  by (induction ps arbitrary: b) (simp_all add: add_parameter_def given_def Let_def)

section \<open>Paths\<close>

definition path_names :: "doc_operation \<Rightarrow> string list" where
  "path_names d = map dp_name (filter (\<lambda>p. dp_in p = ''path'') (od_parameters d))"

text \<open>With its parameter filled in, the path is one of the documented ones.\<close>

definition path_finishes :: "doc_operation \<Rightarrow> bool" where
  "path_finishes d \<longleftrightarrow>
     (case path_names d of
        [] \<Rightarrow> path_matches (od_path d) (od_path d) \<and> CHR ''?'' \<notin> set (od_path d)
      | [n] \<Rightarrow> (\<forall>v. let path = replace_first (''{'' @ n @ ''}'') (encodeURIComponent v) (od_path d)
                    in path_matches (od_path d) path \<and> CHR ''?'' \<notin> set path)
      | _ \<Rightarrow> False)"

lemma encoded_no_mark: "CHR ''?'' \<notin> set (encodeURIComponent v)"
proof -
  have "CHR ''?'' \<notin> insert (CHR ''%'') (set uri_unreserved)" by code_simp
  then show ?thesis using encodeURIComponent_chars by blast
qed

lemma paths_finish: "list_all path_finishes partnerOperations"
  by (simp add: partnerOperations_def path_finishes_def path_names_def documented_operations documented_parts segments
      encoded_no_mark Let_def)

lemma required_paths: "list_all (\<lambda>d. list_all (\<lambda>p. dp_in p = ''path'' \<longrightarrow> dp_required p) (od_parameters d)) partnerOperations"
  by (simp add: partnerOperations_def documented_operations documented_parts)

section \<open>Declared requests\<close>

definition url_path :: "string \<Rightarrow> string" where
  "url_path url = takeWhile (\<lambda>c. c \<noteq> CHR ''?'') url"

definition url_query :: "string \<Rightarrow> (string \<times> string) list" where
  "url_query url = parse_form (drop 1 (dropWhile (\<lambda>c. c \<noteq> CHR ''?'') url))"

text \<open>The required headers have a value; the others are declared or those of every request.\<close>

definition headers_declared :: "field list \<Rightarrow> (string \<times> string) list \<Rightarrow> bool" where
  "headers_declared fs hs \<longleftrightarrow>
     list_all (\<lambda>f. field_required f \<longrightarrow> nullish (map_of hs (field_name f)) [] \<noteq> []) fs \<and>
     list_all (\<lambda>n. n \<in> {''Accept'', ''Authorization'', ''Content-Type''} \<union> set (field_names fs)) (map fst hs)"

definition sent_declared :: "doc_operation \<Rightarrow> (json \<Rightarrow> string) \<Rightarrow> json option \<Rightarrow> docs_request \<Rightarrow> bool" where
  "sent_declared d text_of body rq \<longleftrightarrow>
     dr_body rq = map_option text_of body \<and>
     list_ex (\<lambda>op. path_matches (od_path d) (url_path (dr_displayUrl rq)) \<and>
       names_ok (op_query op) (map fst (url_query (dr_displayUrl rq))) \<and>
       headers_declared (op_header op) (dr_headers rq) \<and> content_ok (op_content op) body) (contract_operations d)"

text \<open>The form is filled in: the required values are there, and the body is of the contract's type.\<close>

definition sent_body :: "doc_operation \<Rightarrow> request_state \<Rightarrow> json option" where
  "sent_body d st = (if od_body d = None then None else rs_body st)"

definition filled :: "doc_operation \<Rightarrow> request_state \<Rightarrow> bool" where
  "filled d st \<longleftrightarrow>
     list_all (\<lambda>p. dp_required p \<longrightarrow> given st (console_parameter p) \<noteq> []) (od_parameters d) \<and>
     rs_idempotencyKey st \<noteq> [] \<and> list_ex (\<lambda>op. content_ok (op_content op) (sent_body d st)) (contract_operations d)"

lemma contract_operation_unique:
  assumes "d \<in> set partnerOperations" and "op \<in> set (contract_operations d)" and "op' \<in> set (contract_operations d)"
  shows "op = op'"
proof -
  let ?name = "\<lambda>((m, path), op :: operation). (verb_text m, path :: string)"
  let ?partner = "filter (\<lambda>((m, path), op). prefix ''/api/v1/partner/'' path) api_paths"
  have "distinct (map (\<lambda>d. (od_method d, od_path d)) partnerOperations)"
    by (simp add: partnerOperations_def documented_operations)
  then have inj: "inj_on ?name (set ?partner)" unfolding documented_in_order by (simp add: distinct_map)
  have "(od_method d, od_path d) \<in> ?name ` set ?partner"
    using assms(1) documented_in_order by (metis (no_types, lifting) image_eqI list.set_map)
  then have below: "prefix ''/api/v1/partner/'' (od_path d)" by auto
  have entry: "\<exists>m. ((m, od_path d), x) \<in> set ?partner \<and> verb_text m = od_method d" if "x \<in> set (contract_operations d)" for x
    using that below by (auto simp: contract_operations_def)
  from entry [OF assms(2)] entry [OF assms(3)] inj show ?thesis unfolding inj_on_def by fastforce
qed

lemma parameters_of:
  assumes "parameters_follow d place fs"
  shows "{(dp_name p, dp_required p) |p. p \<in> set (od_parameters d) \<and> dp_in p = place} = (\<lambda>f. (field_name f, field_required f)) ` set fs"
  using arg_cong [OF assms [unfolded parameters_follow_def], of set] by auto

lemma placed_ok:
  assumes "parameters_follow d place fs" and "filled d st"
  shows "f \<in> set fs \<Longrightarrow> field_required f \<Longrightarrow> field_name f \<in> placed st place (map console_parameter (od_parameters d))"
    and "placed st place (map console_parameter (od_parameters d)) \<subseteq> set (field_names fs)"
proof -
  note ps = parameters_of [OF assms(1)]
  show "field_name f \<in> placed st place (map console_parameter (od_parameters d))" if "f \<in> set fs" "field_required f"
  proof -
    have "(field_name f, True) \<in> (\<lambda>f. (field_name f, field_required f)) ` set fs" using that by force
    then obtain p where p: "p \<in> set (od_parameters d)" "dp_in p = place" "dp_name p = field_name f" "dp_required p"
      unfolding ps [symmetric] by auto
    then have "given st (console_parameter p) \<noteq> []" using assms(2) by (auto simp: filled_def list_all_iff)
    then show ?thesis using p by (force simp: placed_def console_parameter_def)
  qed
  show "placed st place (map console_parameter (od_parameters d)) \<subseteq> set (field_names fs)"
  proof
    fix n assume "n \<in> placed st place (map console_parameter (od_parameters d))"
    then obtain p where "p \<in> set (od_parameters d)" "dp_in p = place" "n = dp_name p"
      by (auto simp: placed_def console_parameter_def)
    then have "(n, dp_required p) \<in> (\<lambda>f. (field_name f, field_required f)) ` set fs" unfolding ps [symmetric] by blast
    then show "n \<in> set (field_names fs)" by (auto simp: field_names_def)
  qed
qed

lemma finished_path:
  assumes "d \<in> set partnerOperations" and "filled d st" and "br_path b = od_path d"
  shows "path_matches (od_path d) (br_path (foldl (add_parameter st) b (map console_parameter (od_parameters d))))"
      (is "path_matches _ ?path")
    and "CHR ''?'' \<notin> set (br_path (foldl (add_parameter st) b (map console_parameter (od_parameters d))))"
proof -
  let ?ps = "filter (\<lambda>p. dp_in p = ''path'') (od_parameters d)"
  have fin: "path_finishes d" using paths_finish assms(1) by (simp add: list_all_iff)
  have ps: "filter (\<lambda>p. rp_in p = ''path'') (map console_parameter (od_parameters d)) = map console_parameter ?ps"
    by (simp add: filter_map comp_def console_parameter_def)
  have path: "?path = foldl (\<lambda>path p. if given st p = [] then path
      else replace_first (''{'' @ rp_name p @ ''}'') (encodeURIComponent (given st p)) path) (od_path d) (map console_parameter ?ps)"
    unfolding built_path ps assms(3) ..
  have "path_matches (od_path d) ?path \<and> CHR ''?'' \<notin> set ?path"
  proof (cases ?ps)
    case Nil
    then show ?thesis using fin unfolding path by (simp add: path_finishes_def path_names_def)
  next
    case (Cons p rest)
    then have one: "?ps = [p]" using fin by (cases rest) (simp_all add: path_finishes_def path_names_def)
    have "given st (console_parameter p) \<noteq> []"
    proof -
      have p: "p \<in> set (od_parameters d)" "dp_in p = ''path''"
        using Cons by (auto dest: filter_eq_ConsD)
      have "dp_required p" using required_paths assms(1) p by (auto simp: list_all_iff)
      then show ?thesis using assms(2) p by (auto simp: filled_def list_all_iff)
    qed
    then show ?thesis using fin one unfolding path by (simp add: path_finishes_def path_names_def Let_def console_parameter_def)
  qed
  then show "path_matches (od_path d) ?path" "CHR ''?'' \<notin> set ?path" by simp_all
qed

lemma built_url:
  assumes "CHR ''?'' \<notin> set path"
  shows "url_path (path @ (if q \<noteq> [] then ''?'' @ form_text q else [])) = path"
    and "url_query (path @ (if q \<noteq> [] then ''?'' @ form_text q else [])) = q"
proof -
  have "parse_form [] = []" by (simp add: parse_form_def split_on_plain)
  moreover have "takeWhile (\<lambda>c. c \<noteq> CHR ''?'') path = path" "dropWhile (\<lambda>c. c \<noteq> CHR ''?'') path = []"
    using assms by auto
  ultimately show "url_path (path @ (if q \<noteq> [] then ''?'' @ form_text q else [])) = path"
    "url_query (path @ (if q \<noteq> [] then ''?'' @ form_text q else [])) = q"
    using assms by (auto simp: url_path_def url_query_def parse_form_back takeWhile_append dropWhile_append takeWhile_tail)
qed

lemma no_blank_value: "no_blank kvs \<Longrightarrow> n \<in> fst ` set kvs \<Longrightarrow> nullish (map_of kvs n) [] \<noteq> []"
  by (induction kvs) (auto simp: no_blank_def nullish_def)

lemma sent_headers:
  assumes "parameters_follow d ''header'' fs" and "filled d st"
    and "b = foldl (add_parameter st) \<lparr>br_path = path, br_query = [], br_headers = start_headers op credential\<rparr>
      (map console_parameter (od_parameters d))"
  shows "headers_declared fs (if body then rec_set ''Content-Type'' ''application/json'' (br_headers b) else br_headers b)"
    (is "headers_declared fs ?hs")
proof -
  have start: "no_blank (start_headers op credential)" "fst ` set (start_headers op credential) \<subseteq> {''Accept'', ''Authorization''}"
    by (auto simp: start_headers_def no_blank_def or_else_def)
  have "rs_idempotencyKey st \<noteq> []" using assms(2) by (simp add: filled_def)
  then have "no_blank (br_headers b)" unfolding assms(3) using start(1) by (intro built_no_blank) simp_all
  then have blank: "no_blank ?hs" by (simp add: no_blank_rec_set)
  have keys: "fst ` set (br_headers b) = fst ` set (start_headers op credential) \<union> placed st ''header'' (map console_parameter (od_parameters d))"
    unfolding assms(3) by (simp add: built_headers)
  then have "n \<in> fst ` set ?hs" if "n \<in> placed st ''header'' (map console_parameter (od_parameters d))" for n
    using that by (simp add: keys_rec_set)
  then have "nullish (map_of ?hs (field_name f)) [] \<noteq> []" if "f \<in> set fs" "field_required f" for f
    using placed_ok(1) [OF assms(1,2) that] no_blank_value [OF blank] by blast
  moreover have "fst ` set ?hs \<subseteq> {''Accept'', ''Authorization'', ''Content-Type''} \<union> set (field_names fs)"
    using placed_ok(2) [OF assms(1,2)] keys start(2) by (auto simp: keys_rec_set)
  ultimately show ?thesis unfolding headers_declared_def list_all_iff set_map by blast
qed

lemma example_typed: "operation_follows d op \<Longrightarrow> content_ok (op_content op) (map_option db_example (od_body d))"
  by (auto simp: operation_follows_def body_follows_def documents_def content_ok_def split: option.splits content.splits)

lemma initial_values:
  "list_all (\<lambda>d. list_all (\<lambda>p. dp_required p \<longrightarrow>
     given (initialRequest num key (console_operation d)) (console_parameter p) \<noteq> []) (od_parameters d)) partnerOperations"
  by (simp add: partnerOperations_def documented_operations documented_parts given_def initialRequest_def console_operation_def
      console_parameter_def scalar_def nullish_def)

text \<open>
  C30: Whatever was typed into the form of a documented operation, if its required values are there and
  its body is of the contract's type, then the request that the console sends is one that the contract
  declares: the path is the template with the encoded value, only declared parameters stand in the
  query, every required header has a value, and the body is the text of the typed value. The form
  as the page opens it, with the documented examples, is such a form.
\<close>

theorem console_requests_declared:
  assumes "d \<in> set partnerOperations"
  shows "(key \<noteq> [] \<longrightarrow> filled d (initialRequest num key (console_operation d))) \<and>
    (filled d st \<longrightarrow>
       sent_declared d (stringify num) (sent_body d st) (buildRequest num (console_operation d) st credential base))"
proof (intro conjI impI)
  obtain op where op: "op \<in> set (contract_operations d)" "operation_follows d op"
    using documented_operations_follow assms by (auto simp: list_all_iff follows_contract_def list_ex_iff)
  then have follow: "parameters_follow d ''path'' (op_path op)" "parameters_follow d ''query'' (op_query op)"
    "parameters_follow d ''header'' (op_header op)" by (simp_all add: operation_follows_def)
  show "filled d (initialRequest num key (console_operation d))" if "key \<noteq> []"
  proof -
    have "content_ok (op_content op) (map_option db_example (od_body d))" using op(2) by (rule example_typed)
    moreover have "sent_body d (initialRequest num key (console_operation d)) = map_option db_example (od_body d)"
      by (simp add: sent_body_def initialRequest_def console_operation_def)
    moreover have "list_all (\<lambda>p. dp_required p \<longrightarrow>
        given (initialRequest num key (console_operation d)) (console_parameter p) \<noteq> []) (od_parameters d)"
      using initial_values assms by (auto simp: list_all_iff)
    ultimately show ?thesis using that op(1) by (auto simp: filled_def list_ex_iff initialRequest_def)
  qed
  show "sent_declared d (stringify num) (sent_body d st) (buildRequest num (console_operation d) st credential base)"
    if filled: "filled d st"
  proof -
    define b where "b = foldl (add_parameter st) \<lparr>br_path = od_path d, br_query = [],
      br_headers = start_headers (console_operation d) credential\<rparr> (map console_parameter (od_parameters d))"
    have path: "path_matches (od_path d) (br_path b)" "CHR ''?'' \<notin> set (br_path b)"
      unfolding b_def using finished_path [OF assms filled] by simp_all
    have "dr_displayUrl (buildRequest num (console_operation d) st credential base) =
        br_path b @ (if br_query b \<noteq> [] then ''?'' @ form_text (br_query b) else [])"
      by (simp add: buildRequest_def b_def console_operation_def Let_def)
    note url = this built_url [OF path(2), of "br_query b"]
    have query: "fst ` set (br_query b) = placed st ''query'' (map console_parameter (od_parameters d))"
      by (simp add: b_def built_query)
    have names: "names_ok (op_query op) (map fst (br_query b))"
      using placed_ok [OF follow(2) filled] query by (auto simp: names_ok_def list_all_iff)
    have built: "dr_headers (buildRequest num (console_operation d) st credential base) =
          (if od_body d \<noteq> None then rec_set ''Content-Type'' ''application/json'' (br_headers b) else br_headers b)"
        "dr_body (buildRequest num (console_operation d) st credential base) = map_option (stringify num) (sent_body d st)"
      by (simp_all add: buildRequest_def b_def console_operation_def sent_body_def Let_def)
    have "content_ok (op_content op) (sent_body d st)"
      using filled contract_operation_unique [OF assms op(1)] by (auto simp: filled_def list_ex_iff)
    moreover have "headers_declared (op_header op) (dr_headers (buildRequest num (console_operation d) st credential base))"
      unfolding built(1) b_def using sent_headers [OF follow(3) filled] by simp
    ultimately show ?thesis
      using op(1) path(1) url names built(2) by (auto simp: sent_declared_def list_ex_iff)
  qed
qed

theorem console_requests_declared_witness:
  "sent_declared doc_partnerCreateReservation (stringify (\<lambda>_. ''1''))
     (sent_body doc_partnerCreateReservation (initialRequest (\<lambda>_. ''1'') ''k'' (console_operation doc_partnerCreateReservation)))
     (buildRequest (\<lambda>_. ''1'') (console_operation doc_partnerCreateReservation)
       (initialRequest (\<lambda>_. ''1'') ''k'' (console_operation doc_partnerCreateReservation)) ''secret'' ''/__docs-exec'')"
proof -
  have "doc_partnerCreateReservation \<in> set partnerOperations" by (simp add: partnerOperations_def)
  note declared = console_requests_declared [OF this]
  then have "filled doc_partnerCreateReservation (initialRequest (\<lambda>_. ''1'') ''k'' (console_operation doc_partnerCreateReservation))"
    by blast
  then show ?thesis using declared by blast
qed

section \<open>Where the documentation seems not to say what the contract says\<close>

text \<open>
  The generator knows neither \<open>const\<close> nor \<open>anyOf\<close>: a status that can only be one word is documented
  with an example that is not that word, a text that may be missing as an object, and the details of
  an error, an object or \<open>null\<close>, with a text.
\<close>

lemma documented_answers_not_typed:
  "\<not> list_all (\<lambda>rp. conforms False VoidTicketResponse_schema (the (da_example rp))) (take 1 (od_responses doc_partnerVoidTicket))"
  "\<not> conforms False ErrorResponse_schema (the (da_example (doc_error_response description)))"
  by (simp_all add: doc_partnerVoidTicket_def VoidTicketResponse_schema_def doc_error_response_def ErrorResponse_schema_def
      js_get_cons js_get_nil)

lemma nullable_text_documented_as_object:
  "Member ''price_tier_label'' True (TUnion [TString, TNull]) \<in> set (shown_fields ReservationItem_schema)"
  "Doc_Field ''price_tier_label'' True ''object'' [] None [] \<in> set doc_reservation_item_fields"
  by (simp_all add: ReservationItem_schema_def doc_reservation_item_fields_def)

end
