(* ===== verification/Docs_Guides.thy ===== *)
theory Docs_Guides
  imports Docs_Model
begin

text \<open>
  The guides of the documentation site (\<^verbatim>\<open>docs-web/src/content.ts\<close>), with their texts, flows and links.
  Sections of long guides are named one by one.
\<close>

section \<open>Guides\<close>

record guide_step =
  gp_label :: string
  gp_title :: string
  gp_body :: string
  gp_route :: "string option"

record guide_section =
  gs_title :: string
  gs_body :: string
  gs_callout :: "string option"
  gs_steps :: "string list option"
  gs_flow :: "guide_step list option"
  gs_code :: "(string \<times> string) option"
  gs_links :: "(string \<times> string) list option"

record guide =
  gd_route :: string
  gd_title :: string
  gd_eyebrow :: string
  gd_summary :: string
  gd_sections :: "guide_section list"

text \<open>Characters of the texts that are not ASCII, in UTF-8.\<close>

definition right_single_quote :: string where
  "right_single_quote = [CHR 0xE2, CHR 0x80, CHR 0x99]"

definition left_double_quote :: string where
  "left_double_quote = [CHR 0xE2, CHR 0x80, CHR 0x9C]"

definition right_double_quote :: string where
  "right_double_quote = [CHR 0xE2, CHR 0x80, CHR 0x9D]"

definition long_dash :: string where
  "long_dash = [CHR 0xE2, CHR 0x80, CHR 0x94]"

definition middle_dot :: string where
  "middle_dot = [CHR 0xC2, CHR 0xB7]"

section \<open>The texts\<close>

definition guide_overview :: guide where
  "guide_overview =
     \<lparr>gd_route = ''/'', gd_title = ''Partner API'', gd_eyebrow = ''TktSync developers'',
      gd_summary = ''Reserve inventory, protect checkout, confirm commercial sales, and manage the tickets your integration created.'',
      gd_sections =
      [\<lparr>gs_title = ''A small, authoritative API'',
      gs_body = ''TktSync keeps inventory ownership and ticket state in PostgreSQL. Availability is a snapshot; a successful Reservation is the only way to acquire inventory. Partner credentials are event-scoped and never grant access merely because an identifier is known.'',
      gs_callout = None,
      gs_steps = None,
      gs_flow = None,
      gs_code = None,
      gs_links = None\<rparr>,
      \<lparr>gs_title = ''Integration lifecycle'',
      gs_body = ''Build your integration around explicit state transitions. Payment remains Partner-owned while TktSync protects inventory and records authoritative commercial confirmation.'',
      gs_callout = None,
      gs_steps = Some [''Read event layout and availability.'',
       ''Create one atomic Reservation.'',
       ''Begin checkout before attempting payment.'',
       ''Confirm a known success, or report a definitive failure.'',
       ''Retrieve each ticket credential and hosted QR URL.'',
       ''Embed the TktSync-hosted QR in your own branded ticket and deliver it.''],
      gs_flow = None,
      gs_code = None,
      gs_links = None\<rparr>,
      \<lparr>gs_title = ''Hosted QR responsibility boundary'',
      gs_body = ''TktSync generates and hosts the QR image for the current active qr1 credential. Your integration owns the surrounding ticket visual design, branding, email/SMS/app delivery, and whether the image is embedded in HTML, a PDF, or an app screen.'',
      gs_callout = Some ''The hosted QR URL is an opaque presentation capability, not a hosted ticket page. Treat it as bearer material and do not place it in analytics or routine logs.'',
      gs_steps = None,
      gs_flow = None,
      gs_code = None,
      gs_links = None\<rparr>,
      \<lparr>gs_title = ''Start safely'',
      gs_body = ''Use the local environment first. Every mutation requires a durable idempotency key; Reservation owner mutations also require the continuation token returned at creation.'',
      gs_callout = Some ''Never infer ownership from availability, and never report payment failure while the payment outcome is unknown.'',
      gs_steps = None,
      gs_flow = None,
      gs_code = None,
      gs_links = None\<rparr>]\<rparr>"

definition guide_quickstart :: guide where
  "guide_quickstart =
     \<lparr>gd_route = ''/quickstart'', gd_title = ''Quickstart'', gd_eyebrow = ''Get a response'',
      gd_summary = ''Make an authenticated event request, then create your first atomic Reservation.'',
      gd_sections =
      [\<lparr>gs_title = ''1. Obtain Partner credentials'',
      gs_body = ''Use the Partner credential and Event access supplied during your integration onboarding. Store the credential only in your server-side secret manager. The interactive console below keeps a credential in page memory only and clears it on refresh.'',
      gs_callout = None,
      gs_steps = None,
      gs_flow = None,
      gs_code = None,
      gs_links = None\<rparr>,
      \<lparr>gs_title = ''2. Read availability'',
      gs_body = ''Request caller-contextual availability for an authorized Event. Treat the response as informational and revalidate customer intent through Reservation creation.'',
      gs_callout = None,
      gs_steps = None,
      gs_flow = None,
      gs_code = None,
      gs_links = None\<rparr>,
      \<lparr>gs_title = ''3. Create a Reservation'',
      gs_body = ''Submit all requested offers together with a fresh Idempotency-Key. The transaction is all-or-nothing and returns an opaque Reservation continuation token.'',
      gs_callout = Some ''Persist the continuation token securely. Do not place it in URLs, analytics, browser storage, or routine logs.'',
      gs_steps = None,
      gs_flow = None,
      gs_code = None,
      gs_links = None\<rparr>]\<rparr>"

definition guide_workflows_section_1 :: guide_section where
  "guide_workflows_section_1 =
     \<lparr>gs_title = ''The simple idea'',
      gs_body = ''Your website or app sells tickets for Events available through the TktSync Partner API. Your customer opens your product, browses Events, chooses an Event, selects tickets, pays through your checkout, and receives a ticket from you. TktSync works underneath your product to supply Event information, protect inventory, and issue valid tickets.'',
      gs_callout = None,
      gs_steps = None,
      gs_flow = None,
      gs_code = None,
      gs_links = None\<rparr>"

definition guide_workflows_section_2 :: guide_section where
  "guide_workflows_section_2 =
     \<lparr>gs_title = ''Who is this documentation for?'',
      gs_body = left_double_quote @ ''Partner'' @ right_double_quote @ '' means your company and the server-side application you are building. '' @ left_double_quote @ ''Customer'' @ right_double_quote @ '' or '' @ left_double_quote @ ''buyer'' @ right_double_quote @ '' means the person purchasing tickets through your website or app. Those are the only roles your integration needs to model in this guide.'',
      gs_callout = Some ''Your customer never receives your Partner API credential. All Partner API calls are made by your server. Your browser talks to your server, and your server talks securely to TktSync.'',
      gs_steps = None,
      gs_flow = None,
      gs_code = None,
      gs_links = None\<rparr>"

definition guide_workflows_section_3 :: guide_section where
  "guide_workflows_section_3 =
     \<lparr>gs_title = ''What your company needs to build'',
      gs_body = ''TktSync is not your complete public ticket shop. Your company supplies the customer-facing experience and payment system. A normal integration needs the following pieces:'',
      gs_callout = None,
      gs_steps = Some [''An Events page that lists Events your company is allowed to sell.'',
       ''An Event page with information and a clear '' @ left_double_quote @ ''Choose tickets'' @ right_double_quote @ '' or '' @ left_double_quote @ ''Buy tickets'' @ right_double_quote @ '' button.'',
       ''A server route that asks TktSync to start ticket selection for that Event.'',
       ''A secure checkout-return route that receives the customer'' @ right_single_quote @ ''s held tickets from TktSync.'',
       ''Your checkout page and payment-provider integration.'',
       ''Server logic that tells TktSync whether payment succeeded or definitively failed.'',
       ''A ticket page, email, PDF, or app screen that shows the issued QR code to the customer.'',
       ''Order history and customer-support tools appropriate for your product.''],
      gs_flow = None,
      gs_code = None,
      gs_links = None\<rparr>"

definition guide_workflows_section_4 :: guide_section where
  "guide_workflows_section_4 =
     \<lparr>gs_title = ''What TktSync supplies underneath your product'',
      gs_body = ''TktSync supplies the authoritative Event catalogue available to your Partner, venue layouts, current prices and availability, an optional customer-facing seat Selector, temporary ticket holds, the Reservation lifecycle, ticket issuance, and QR credentials. Your product should use those capabilities rather than creating its own competing inventory state.'',
      gs_callout = None,
      gs_steps = None,
      gs_flow = None,
      gs_code = None,
      gs_links = None\<rparr>"

definition guide_workflows_section_5 :: guide_section where
  "guide_workflows_section_5 =
     \<lparr>gs_title = ''What the customer experiences'',
      gs_body = ''This is the complete customer journey. The technical API names are included only after explaining what the customer is doing.'',
      gs_callout = None,
      gs_steps = None,
      gs_flow = Some [\<lparr>gp_label = ''1 '' @ middle_dot @ '' Customer visits your product'', gp_title = ''Show Events for sale'',
       gp_body = ''Your Events page calls your server. Your server uses List accessible events and returns customer-friendly Event cards with names, dates, venues, and sale status.'',
       gp_route = Some ''/api/events''\<rparr>,
       \<lparr>gp_label = ''2 '' @ middle_dot @ '' Customer chooses an Event'', gp_title = ''Show Event details'',
       gp_body = ''Use the Event ID returned by the list API to retrieve details. The ID is passed by your application; the customer should not need to find or type it.'',
       gp_route = Some ''/api/events/retrieve''\<rparr>,
       \<lparr>gp_label = ''3 '' @ middle_dot @ '' Customer presses '' @ left_double_quote @ ''Choose tickets'' @ right_double_quote, gp_title = ''Start the TktSync seat Selector'',
       gp_body = ''Your server creates a Selection session for the chosen Event and redirects the customer to the returned selection_url.'',
       gp_route = Some ''/api/selection-sessions/create''\<rparr>,
       \<lparr>gp_label = ''4 '' @ middle_dot @ '' Customer chooses tickets'', gp_title = ''TktSync displays the venue'',
       gp_body = ''The customer chooses available seats, tables, or general-admission quantities. TktSync creates a temporary hold so another buyer cannot take the same inventory.'',
       gp_route = None\<rparr>,
       \<lparr>gp_label = ''5 '' @ middle_dot @ '' Customer presses '' @ left_double_quote @ ''Continue to checkout'' @ right_double_quote, gp_title = ''Return the held tickets to your product'',
       gp_body = ''The browser securely POSTs a Reservation ID and secret Reservation token to the checkout-return route you registered. Your server saves both and opens your checkout page.'',
       gp_route = Some ''/workflows/selector''\<rparr>,
       \<lparr>gp_label = ''6 '' @ middle_dot @ '' Customer pays your company'', gp_title = ''Run your payment checkout'',
       gp_body = ''Before charging, your server begins checkout with TktSync. Your payment provider then handles card, bank, wallet, or other payment methods. TktSync does not charge the customer.'',
       gp_route = Some ''/api/reservations/begin-checkout''\<rparr>,
       \<lparr>gp_label = ''7 '' @ middle_dot @ '' Payment succeeds'', gp_title = ''Confirm the sale with TktSync'',
       gp_body = ''Your server confirms the Reservation. TktSync creates the Sale and returns the Ticket IDs. This is when the temporary hold becomes a completed ticket purchase.'',
       gp_route = Some ''/api/reservations/confirm''\<rparr>,
       \<lparr>gp_label = ''8 '' @ middle_dot @ '' Customer receives tickets'', gp_title = ''Display or send the issued QR tickets'',
       gp_body = ''For each Ticket ID, your server retrieves the current QR. Put it inside your branded ticket page, email, PDF, or app screen and send it to the customer.'',
       gp_route = Some ''/workflows/tickets''\<rparr>],
      gs_code = None,
      gs_links = None\<rparr>"

definition guide_workflows_section_6 :: guide_section where
  "guide_workflows_section_6 =
     \<lparr>gs_title = ''The small dictionary you need'',
      gs_body = ''These names describe the records passed between stages. An Event is what the customer wants to attend. A Selection session is a temporary permission to open the TktSync Selector for one Event. A Reservation is the customer'' @ right_single_quote @ ''s temporary ticket hold. A Reservation token is the secret that proves your checkout owns that hold. A Checkout attempt protects the Reservation while payment is being decided. A Ticket is issued only after confirmation. A QR credential is the machine-readable proof attached to an active Ticket.'',
      gs_callout = None,
      gs_steps = None,
      gs_flow = None,
      gs_code = None,
      gs_links = None\<rparr>"

definition guide_workflows_section_7 :: guide_section where
  "guide_workflows_section_7 =
     \<lparr>gs_title = ''The two ways to collect ticket choices'',
      gs_body = ''Most Partners should begin with the TktSync Selector because it already understands venue geometry, reserved seats, tables, availability, and general admission. Advanced Partners may build their own selection interface by reading layout and availability and creating Reservations directly.'',
      gs_callout = None,
      gs_steps = None,
      gs_flow = None,
      gs_code = None,
      gs_links = Some [(''Recommended: use the TktSync Selector'', ''/workflows/selector''),
       (''Advanced: build your own selection UI'', ''/workflows/direct'')]\<rparr>"

definition guide_workflows_section_8 :: guide_section where
  "guide_workflows_section_8 =
     \<lparr>gs_title = ''Continue when the basic journey is clear'',
      gs_body = ''The next guides zoom into the stages that require careful server implementation. Start with Selector to checkout, then Ticket delivery. Read retries and recovery before accepting real payments.'',
      gs_callout = None,
      gs_steps = None,
      gs_flow = None,
      gs_code = None,
      gs_links = Some [(''1. Selector to checkout'', ''/workflows/selector''),
       (''2. Deliver a visible ticket'', ''/workflows/tickets''),
       (''3. Retries and recovery'', ''/workflows/recovery'')]\<rparr>"

definition guide_workflows :: guide where
  "guide_workflows =
     \<lparr>gd_route = ''/workflows'', gd_title = ''Build ticket sales with TktSync'', gd_eyebrow = ''Start here '' @ middle_dot @ '' The complete product journey'',
      gd_summary = ''You are building an event storefront for your customers. This guide explains every screen and server connection you need, in the order a customer will use them.'',
      gd_sections =
      [guide_workflows_section_1,
      guide_workflows_section_2,
      guide_workflows_section_3,
      guide_workflows_section_4,
      guide_workflows_section_5,
      guide_workflows_section_6,
      guide_workflows_section_7,
      guide_workflows_section_8]\<rparr>"

definition guide_workflows_selector_section_1 :: guide_section where
  "guide_workflows_selector_section_1 =
     \<lparr>gs_title = ''Where this workflow begins'',
      gs_body = ''Your product has already called List accessible events and displayed those Events to the customer. The customer clicked one Event, and your application kept the Event ID returned by TktSync. When the customer presses your '' @ left_double_quote @ ''Choose tickets'' @ right_double_quote @ '' button, send that Event ID to your server. Your server'' @ long_dash @ ''not the browser'' @ long_dash @ ''uses it to create the Selection session described below.'',
      gs_callout = None,
      gs_steps = None,
      gs_flow = None,
      gs_code = None,
      gs_links = Some [(''First build your Events list'', ''/api/events''),
       (''See the complete customer journey'', ''/workflows'')]\<rparr>"

definition guide_workflows_selector_section_2 :: guide_section where
  "guide_workflows_selector_section_2 =
     \<lparr>gs_title = ''What '' @ left_double_quote @ ''Selector'' @ right_double_quote @ '' means'',
      gs_body = ''Selector is the TktSync page where your customer sees the configured venue and chooses available tickets. It can display reserved seats, table seats, and general-admission areas. You do not need to recreate that venue interface in your own application. Your application only starts the Selector and receives the customer back when ticket selection is complete.'',
      gs_callout = None,
      gs_steps = None,
      gs_flow = None,
      gs_code = None,
      gs_links = None\<rparr>"

definition guide_workflows_selector_section_3 :: guide_section where
  "guide_workflows_selector_section_3 =
     \<lparr>gs_title = ''What you build'',
      gs_body = ''You build a server-side checkout return endpoint and your own payment page. TktSync supplies the venue Selector. The return endpoint is essential: it is where the browser delivers the Reservation ID and Reservation token after the buyer presses '' @ left_double_quote @ ''Continue to checkout.'' @ right_double_quote @ '' It must be a real HTTPS endpoint in your application, not a success page on another website.'',
      gs_callout = Some ''The return endpoint receives a form POST. The Reservation token is intentionally absent from the browser URL, query string, and fragment. Looking at the address bar will never reveal it.'',
      gs_steps = None,
      gs_flow = None,
      gs_code = None,
      gs_links = None\<rparr>"

definition guide_workflows_selector_section_4 :: guide_section where
  "guide_workflows_selector_section_4 =
     \<lparr>gs_title = ''Before the first buyer arrives'',
      gs_body = ''Complete Partner onboarding before sending customer traffic. You should receive a server credential, access to the Events your application may sell, and confirmation that every checkout return URL you supplied has been registered. Keep the Partner credential on your server. Browser code must never contain it.'',
      gs_callout = None,
      gs_steps = Some [''Create an HTTPS route such as https://checkout.partner.example/tktsync/return.'',
       ''Supply that exact return URL through your Partner integration onboarding channel and confirm it is registered.'',
       ''Store the Partner credential in your server-side secret manager.'',
       ''Use List accessible events to discover Events your Partner can actually sell.''],
      gs_flow = None,
      gs_code = None,
      gs_links = Some [(''List accessible events'', ''/api/events''),
       (''Authentication guide'', ''/authentication'')]\<rparr>"

definition guide_workflows_selector_section_5 :: guide_section where
  "guide_workflows_selector_section_5 =
     \<lparr>gs_title = ''The complete journey'',
      gs_body = ''Read this diagram from top to bottom. Values shown in bold concepts'' @ long_dash @ ''Selection URL, Reservation ID, Reservation token, and Checkout attempt ID'' @ long_dash @ ''must be passed to the next stage exactly as returned.'',
      gs_callout = None,
      gs_steps = None,
      gs_flow = Some [\<lparr>gp_label = ''1 '' @ middle_dot @ '' Your server'', gp_title = ''Create a Selection session'',
       gp_body = ''Send event_id, your buyer_session_ref, and the registered return_url. Save the selection_session_id for support and correlation.'',
       gp_route = Some ''/api/selection-sessions/create''\<rparr>,
       \<lparr>gp_label = ''2 '' @ middle_dot @ '' Your browser'', gp_title = ''Open the Selection URL'',
       gp_body = ''Redirect or link the buyer to selection_url. Do not copy, parse, log, or persist its fragment capability.'',
       gp_route = None\<rparr>,
       \<lparr>gp_label = ''3 '' @ middle_dot @ '' TktSync Selector'', gp_title = ''Buyer chooses and holds tickets'',
       gp_body = ''TktSync creates an authoritative Reservation. A successful hold is the first point at which inventory is actually owned.'',
       gp_route = None\<rparr>,
       \<lparr>gp_label = ''4 '' @ middle_dot @ '' Browser handoff'', gp_title = ''Receive the secure form POST'',
       gp_body = ''Continue to checkout submits reservation_id and reservation_token to your return_url as application/x-www-form-urlencoded fields.'',
       gp_route = None\<rparr>,
       \<lparr>gp_label = ''5 '' @ middle_dot @ '' Your server'', gp_title = ''Begin checkout'',
       gp_body = ''Put the token in X-TktSync-Reservation-Token. The response contains checkout_attempt.id; save it before contacting your payment provider.'',
       gp_route = Some ''/api/reservations/begin-checkout''\<rparr>,
       \<lparr>gp_label = ''6 '' @ middle_dot @ '' Your payment system'', gp_title = ''Collect payment'',
       gp_body = ''TktSync does not charge the buyer. Your application owns payment and decides whether the outcome is successful, definitively failed, or still unknown.'',
       gp_route = None\<rparr>,
       \<lparr>gp_label = ''7 '' @ middle_dot @ '' Your server'', gp_title = ''Confirm the Reservation'',
       gp_body = ''On known payment success, send checkout_attempt_id plus your order and payment references. Save every returned Ticket ID.'',
       gp_route = Some ''/api/reservations/confirm''\<rparr>,
       \<lparr>gp_label = ''8 '' @ middle_dot @ '' Your ticket experience'', gp_title = ''Retrieve and deliver each ticket'',
       gp_body = ''Retrieve the current credential and hosted QR for every Ticket ID, then place that QR inside your own branded ticket.'',
       gp_route = Some ''/workflows/tickets''\<rparr>],
      gs_code = None,
      gs_links = None\<rparr>"

definition guide_workflows_selector_section_6 :: guide_section where
  "guide_workflows_selector_section_6 =
     \<lparr>gs_title = ''Exactly what your return endpoint receives'',
      gs_body = ''Your endpoint must parse a normal HTML form body. These names are fixed. Respond with your checkout HTML or redirect only after your server has securely associated both values with the buyer'' @ right_single_quote @ ''s checkout session.'',
      gs_callout = Some ''Do not send the token to analytics, error trackers, browser storage, URLs, or routine logs. If you discard it, TktSync cannot recover the original plaintext token from the database. The buyer must create a new hold.'',
      gs_steps = None,
      gs_flow = None,
      gs_code = Some (''application/x-www-form-urlencoded POST body'', ''reservation_id=res_...&reservation_token=<opaque-secret>''),
      gs_links = None\<rparr>"

definition guide_workflows_selector_section_7 :: guide_section where
  "guide_workflows_selector_section_7 =
     \<lparr>gs_title = ''A minimal return-handler shape'',
      gs_body = ''The exact framework does not matter. Validate both fields, bind them to the authenticated or signed buyer checkout session, keep the token server-side, and show the buyer a payment page. The example is deliberately pseudocode so it does not imply one required web framework.'',
      gs_callout = None,
      gs_steps = None,
      gs_flow = None,
      gs_code = Some (''Server-side pseudocode'', ''POST /tktsync/return'' @ [CHR 0x0A] @ ''  reservationId = form['' @ [CHR 0x22] @ ''reservation_id'' @ [CHR 0x22] @ '']'' @ [CHR 0x0A] @ ''  reservationToken = form['' @ [CHR 0x22] @ ''reservation_token'' @ [CHR 0x22] @ '']'' @ [CHR 0x0A] @ ''  require reservationId and reservationToken'' @ [CHR 0x0A] @ ''  checkoutStore.saveSecurely(buyerSession, reservationId, reservationToken)'' @ [CHR 0x0A] @ ''  renderPaymentPage(reservationId)''),
      gs_links = None\<rparr>"

definition guide_workflows_selector_section_8 :: guide_section where
  "guide_workflows_selector_section_8 =
     \<lparr>gs_title = ''Known failure versus unknown payment'',
      gs_body = ''If payment is definitively declined, report payment failure with the Checkout attempt ID. If the payment provider timed out or the result is uncertain, do not claim failure and do not start a different checkout blindly. Retrieve the Reservation and reconcile the provider outcome first.'',
      gs_callout = None,
      gs_steps = None,
      gs_flow = None,
      gs_code = None,
      gs_links = Some [(''Report definitive payment failure'', ''/api/reservations/payment-failure''),
       (''Retrieve authoritative Reservation state'', ''/api/reservations/retrieve''),
       (''Recovery workflow'', ''/workflows/recovery'')]\<rparr>"

definition guide_workflows_selector :: guide where
  "guide_workflows_selector =
     \<lparr>gd_route = ''/workflows/selector'', gd_title = ''Add ticket selection and checkout'', gd_eyebrow = ''Step by step '' @ middle_dot @ '' After the customer chooses an Event'',
      gd_summary = ''Your customer has chosen an Event in your website or app. Now let them choose tickets, return them to your checkout, take payment, and complete the order.'',
      gd_sections =
      [guide_workflows_selector_section_1,
      guide_workflows_selector_section_2,
      guide_workflows_selector_section_3,
      guide_workflows_selector_section_4,
      guide_workflows_selector_section_5,
      guide_workflows_selector_section_6,
      guide_workflows_selector_section_7,
      guide_workflows_selector_section_8]\<rparr>"

definition guide_workflows_direct_section_1 :: guide_section where
  "guide_workflows_direct_section_1 =
     \<lparr>gs_title = ''When to use this workflow'',
      gs_body = ''Choose this path only when your product wants to own the seat-selection interface. You may render sections, rows, tables, seats, and general-admission quantity controls, but you may not treat an availability response as ownership. Availability can change between display and submission.'',
      gs_callout = None,
      gs_steps = None,
      gs_flow = None,
      gs_code = None,
      gs_links = None\<rparr>"

definition guide_workflows_direct_section_2 :: guide_section where
  "guide_workflows_direct_section_2 =
     \<lparr>gs_title = ''The complete journey'',
      gs_body = ''Your server reads the Event model and availability, your browser renders it, and your server submits the buyer'' @ right_single_quote @ ''s final offers as one atomic Reservation.'',
      gs_callout = None,
      gs_steps = None,
      gs_flow = Some [\<lparr>gp_label = ''1 '' @ middle_dot @ '' Your server'', gp_title = ''Discover accessible Events'',
       gp_body = ''List Events dynamically instead of requiring anyone to paste opaque Event IDs into your application.'',
       gp_route = Some ''/api/events''\<rparr>,
       \<lparr>gp_label = ''2 '' @ middle_dot @ '' Your server'', gp_title = ''Read layout and availability'',
       gp_body = ''Use layout for structure and labels; use availability for current offers, prices, states, and GA bounds.'',
       gp_route = Some ''/api/events/layout''\<rparr>,
       \<lparr>gp_label = ''3 '' @ middle_dot @ '' Your UI'', gp_title = ''Collect customer intent'',
       gp_body = ''Present available options. Keep offer identifiers opaque and never invent seat or GA ownership locally.'',
       gp_route = None\<rparr>,
       \<lparr>gp_label = ''4 '' @ middle_dot @ '' Your server'', gp_title = ''Create one atomic Reservation'',
       gp_body = ''Submit every selected offer together. Either the complete request succeeds or none of it is acquired.'',
       gp_route = Some ''/api/reservations/create''\<rparr>,
       \<lparr>gp_label = ''5 '' @ middle_dot @ '' Your server'', gp_title = ''Save both returned values'',
       gp_body = ''Persist reservation.id and reservation_token securely. The token authorizes owner mutations and is returned only at creation.'',
       gp_route = None\<rparr>,
       \<lparr>gp_label = ''6 '' @ middle_dot @ '' Checkout and ticketing'', gp_title = ''Use the same commercial flow'',
       gp_body = ''Begin checkout, take payment, confirm, and deliver tickets exactly as in the Selector workflow.'',
       gp_route = Some ''/api/reservations/begin-checkout''\<rparr>],
      gs_code = None,
      gs_links = None\<rparr>"

definition guide_workflows_direct_section_3 :: guide_section where
  "guide_workflows_direct_section_3 =
     \<lparr>gs_title = ''Reserved seats and general admission differ'',
      gs_body = ''A reserved offer identifies one concrete inventory unit and always has quantity 1. A GA offer identifies a pool and accepts a bounded quantity. Use the identifiers and limits returned by TktSync; do not infer inventory identity from display labels.'',
      gs_callout = Some ''If Reservation creation returns a conflict, refresh availability and ask the buyer to choose again. Never silently substitute a different seat.'',
      gs_steps = None,
      gs_flow = None,
      gs_code = None,
      gs_links = Some [(''Retrieve availability'', ''/api/events/availability''),
       (''Create a Reservation'', ''/api/reservations/create''),
       (''Modify a Reservation'', ''/api/reservations/update'')]\<rparr>"

definition guide_workflows_direct :: guide where
  "guide_workflows_direct =
     \<lparr>gd_route = ''/workflows/direct'', gd_title = ''Build your own selection UI'', gd_eyebrow = ''Workflow B '' @ middle_dot @ '' Direct Reservations'',
      gd_summary = ''Render the Event and inventory in your product, then ask TktSync to atomically reserve the buyer'' @ right_single_quote @ ''s final choices.'',
      gd_sections =
      [guide_workflows_direct_section_1,
      guide_workflows_direct_section_2,
      guide_workflows_direct_section_3]\<rparr>"

definition guide_workflows_tickets_section_1 :: guide_section where
  "guide_workflows_tickets_section_1 =
     \<lparr>gs_title = ''What confirmation gives you'',
      gs_body = ''A successful confirmation response contains one Sale and a tickets array. Save each public Ticket ID (tkt_...), status, and credential ID. Confirmation intentionally does not include the raw QR payload in the general response.'',
      gs_callout = None,
      gs_steps = None,
      gs_flow = None,
      gs_code = None,
      gs_links = Some [(''Confirm a Reservation'', ''/api/reservations/confirm'')]\<rparr>"

definition guide_workflows_tickets_section_2 :: guide_section where
  "guide_workflows_tickets_section_2 =
     \<lparr>gs_title = ''Build one buyer ticket per Ticket ID'',
      gs_body = ''For every Ticket ID, retrieve its current credential. The response contains qr_payload for systems that render QR codes themselves and qr_url for systems that prefer a TktSync-hosted SVG image.'',
      gs_callout = None,
      gs_steps = None,
      gs_flow = Some [\<lparr>gp_label = ''1 '' @ middle_dot @ '' Partner server'', gp_title = ''Retrieve the ticket credential'',
       gp_body = ''Authenticate with your Partner credential and request /tickets/{ticket_id}/credential.'',
       gp_route = Some ''/api/tickets/retrieve''\<rparr>,
       \<lparr>gp_label = ''2 '' @ middle_dot @ '' Choose presentation'', gp_title = ''Use qr_url or render qr_payload'',
       gp_body = ''Embed qr_url as the QR image, or encode the complete qr1 payload without changing a single character.'',
       gp_route = None\<rparr>,
       \<lparr>gp_label = ''3 '' @ middle_dot @ '' Partner-owned design'', gp_title = ''Add buyer-facing details'',
       gp_body = ''Show event name, date, venue, section or area, row/table/seat when applicable, buyer details, and your support information.'',
       gp_route = None\<rparr>,
       \<lparr>gp_label = ''4 '' @ middle_dot @ '' Deliver securely'', gp_title = ''Email, app, wallet, or PDF'',
       gp_body = ''Deliver the finished ticket through your product. Avoid analytics and caching that expose the QR capability.'',
       gp_route = None\<rparr>],
      gs_code = None,
      gs_links = None\<rparr>"

definition guide_workflows_tickets_section_3 :: guide_section where
  "guide_workflows_tickets_section_3 =
     \<lparr>gs_title = ''The hosted QR is not a complete ticket page'',
      gs_body = ''Opening qr_url returns only the QR image. TktSync does not add your logo, buyer name, terms, or support experience. This boundary lets the credential remain authoritative while your product controls visual design and delivery.'',
      gs_callout = Some ''Do not create a QR code whose contents are the qr_url itself. Display the image returned by qr_url, or create a QR whose contents are the qr_payload value. TktSync ticket validation expects the embedded qr1 credential.'',
      gs_steps = None,
      gs_flow = None,
      gs_code = None,
      gs_links = Some [(''Retrieve credential and hosted URL'', ''/api/tickets/retrieve''),
       (''Retrieve authenticated QR image'', ''/api/tickets/retrieve-qr'')]\<rparr>"

definition guide_workflows_tickets_section_4 :: guide_section where
  "guide_workflows_tickets_section_4 =
     \<lparr>gs_title = ''Reissue and void are different'',
      gs_body = ''Reissue when the credential or hosted QR URL may have been exposed but the Ticket should remain valid. The old credential and old hosted presentation URL become invalid; retrieve the replacement pair for customer delivery. Void when the Ticket itself must no longer admit anyone. Voiding does not automatically make the sold inventory available again.'',
      gs_callout = None,
      gs_steps = None,
      gs_flow = None,
      gs_code = None,
      gs_links = Some [(''Reissue a credential'', ''/api/tickets/reissue-credential''),
       (''Void a Ticket'', ''/api/tickets/void''),
       (''Re-release eligible inventory'', ''/api/tickets/re-release-inventory'')]\<rparr>"

definition guide_workflows_tickets :: guide where
  "guide_workflows_tickets =
     \<lparr>gd_route = ''/workflows/tickets'', gd_title = ''Deliver a visible ticket'', gd_eyebrow = ''Workflow C '' @ middle_dot @ '' Ticket presentation'',
      gd_summary = ''Turn the Ticket IDs returned by confirmation into a branded buyer experience with a valid TktSync QR.'',
      gd_sections =
      [guide_workflows_tickets_section_1,
      guide_workflows_tickets_section_2,
      guide_workflows_tickets_section_3,
      guide_workflows_tickets_section_4]\<rparr>"

definition guide_workflows_recovery :: guide where
  "guide_workflows_recovery =
     \<lparr>gd_route = ''/workflows/recovery'', gd_title = ''Retries and recovery'', gd_eyebrow = ''Workflow D '' @ middle_dot @ '' Safe failure handling'',
      gd_summary = ''Recover from timeouts without charging twice, losing inventory, or claiming a payment result you do not actually know.'',
      gd_sections =
      [\<lparr>gs_title = ''The central rule'',
      gs_body = ''A timeout tells you that your application did not receive a response. It does not tell you whether the server completed the operation. For the same customer intent, retry the same operation with the same Idempotency-Key and unchanged request. Do not generate a fresh key merely because the network failed.'',
      gs_callout = None,
      gs_steps = None,
      gs_flow = None,
      gs_code = None,
      gs_links = None\<rparr>,
      \<lparr>gs_title = ''Recovery decision guide'',
      gs_body = ''Follow the branch that matches what you know, not what you hope happened.'',
      gs_callout = None,
      gs_steps = None,
      gs_flow = Some [\<lparr>gp_label = ''Request timed out'', gp_title = ''Retry identical intent'',
       gp_body = ''Use the same idempotency key and body. TktSync returns the original logical result or safely continues it.'',
       gp_route = None\<rparr>,
       \<lparr>gp_label = ''Reservation state unclear'', gp_title = ''Read authoritative state'',
       gp_body = ''GET the Reservation. Its state and deadlines determine the next valid action.'',
       gp_route = Some ''/api/reservations/retrieve''\<rparr>,
       \<lparr>gp_label = ''Payment definitely succeeded'', gp_title = ''Confirm'',
       gp_body = ''Use the exact Checkout attempt ID returned by Begin checkout and include your provider references.'',
       gp_route = Some ''/api/reservations/confirm''\<rparr>,
       \<lparr>gp_label = ''Payment definitely failed'', gp_title = ''Report failure'',
       gp_body = ''Report failure only when the provider gives a definitive decline or failure outcome.'',
       gp_route = Some ''/api/reservations/payment-failure''\<rparr>,
       \<lparr>gp_label = ''Payment outcome unknown'', gp_title = ''Reconcile first'',
       gp_body = ''Do not report failure. Query the payment provider and Reservation state until the outcome is known or follow your formal reconciliation process.'',
       gp_route = None\<rparr>],
      gs_code = None,
      gs_links = None\<rparr>,
      \<lparr>gs_title = ''Useful state meanings'',
      gs_body = ''HELD means inventory is reserved but checkout has not started. COMMITTING means an active Checkout attempt protects the transaction. PAYMENT_RETRY means a definitive failure was reported and another permitted attempt may be made before its deadline. RECONCILING means the outcome needs resolution. CONFIRMED, RELEASED, and EXPIRED are terminal for the Reservation.'',
      gs_callout = None,
      gs_steps = None,
      gs_flow = None,
      gs_code = None,
      gs_links = None\<rparr>,
      \<lparr>gs_title = ''Values to keep for support and reconciliation'',
      gs_body = ''Store your buyer session reference, Reservation ID, Checkout attempt ID, idempotency keys, partner order reference, partner payment reference, and TktSync request IDs. Store Reservation tokens only in an appropriately protected secret field. Never store Partner credentials or Reservation tokens in client-visible logs.'',
      gs_callout = None,
      gs_steps = None,
      gs_flow = None,
      gs_code = None,
      gs_links = Some [(''Idempotency guide'', ''/idempotency''),
       (''Error guide'', ''/errors'')]\<rparr>]\<rparr>"

definition guide_authentication :: guide where
  "guide_authentication =
     \<lparr>gd_route = ''/authentication'', gd_title = ''Authentication'', gd_eyebrow = ''Security'',
      gd_summary = ''Partner requests use bearer credentials and are independently authorized for Partner and Event scope.'',
      gd_sections =
      [\<lparr>gs_title = ''Bearer credentials'',
      gs_body = ''Send Authorization: Bearer <partner-credential> over HTTPS. Credentials identify the Partner, not an end user. Request rotation or revocation through your Partner integration support channel.'',
      gs_callout = None,
      gs_steps = None,
      gs_flow = None,
      gs_code = None,
      gs_links = None\<rparr>,
      \<lparr>gs_title = ''Event scope'',
      gs_body = ''A credential can access only Events covered by an active PartnerEventAccess grant. Knowing an Event, Reservation, Sale, or Ticket ID does not grant authority.'',
      gs_callout = None,
      gs_steps = None,
      gs_flow = None,
      gs_code = None,
      gs_links = None\<rparr>,
      \<lparr>gs_title = ''Interactive docs privacy'',
      gs_body = ''Credentials entered here remain in React memory. They are never written to localStorage, sessionStorage, cookies, URLs, logs, or telemetry. Reloading the page clears them.'',
      gs_callout = None,
      gs_steps = None,
      gs_flow = None,
      gs_code = None,
      gs_links = None\<rparr>]\<rparr>"

definition guide_errors :: guide where
  "guide_errors =
     \<lparr>gd_route = ''/errors'', gd_title = ''Errors'', gd_eyebrow = ''Reliability'',
      gd_summary = ''Use HTTP status, the machine-readable error code, and request ID to decide whether to retry or revise intent.'',
      gd_sections =
      [\<lparr>gs_title = ''Structured failures'',
      gs_body = ''Errors use a JSON envelope with a stable code, human-readable message, and request correlation information. Business conflicts are distinct from authentication, authorization, validation, and transient server failures.'',
      gs_callout = None,
      gs_steps = None,
      gs_flow = None,
      gs_code = None,
      gs_links = None\<rparr>,
      \<lparr>gs_title = ''Retry discipline'',
      gs_body = ''Retry ambiguous mutation outcomes with the same idempotency key and the same normalized request. Change the key when customer intent changes. Recover Reservation state with GET rather than guessing.'',
      gs_callout = None,
      gs_steps = None,
      gs_flow = None,
      gs_code = None,
      gs_links = None\<rparr>,
      \<lparr>gs_title = ''Payment ambiguity'',
      gs_body = ''A network timeout is not a definitive payment failure. Observe Reservation state and reconcile the provider outcome before reporting failure or attempting confirmation.'',
      gs_callout = Some ''False definitive-failure signals can release protected inventory and cause customer harm.'',
      gs_steps = None,
      gs_flow = None,
      gs_code = None,
      gs_links = None\<rparr>]\<rparr>"

definition guide_idempotency :: guide where
  "guide_idempotency =
     \<lparr>gd_route = ''/idempotency'', gd_title = ''Idempotency'', gd_eyebrow = ''Reliable mutations'',
      gd_summary = ''Every retriable state change requires a caller-generated Idempotency-Key.'',
      gd_sections =
      [\<lparr>gs_title = ''Same key, same intent'',
      gs_body = ''Keys are scoped to the authenticated Partner and operation. Repeating the same normalized request with the same key returns the same logical result. Reusing a key with different intent is rejected.'',
      gs_callout = None,
      gs_steps = None,
      gs_flow = None,
      gs_code = None,
      gs_links = None\<rparr>,
      \<lparr>gs_title = ''Browser console behavior'',
      gs_body = ''This console creates a key for each mutation and preserves it across identical retries. Editing material path, query, or body input rotates the key unless you explicitly edit the key yourself.'',
      gs_callout = None,
      gs_steps = None,
      gs_flow = None,
      gs_code = None,
      gs_links = None\<rparr>]\<rparr>"

definition guide_pagination :: guide where
  "guide_pagination =
     \<lparr>gd_route = ''/pagination'', gd_title = ''Pagination'', gd_eyebrow = ''Collections'',
      gd_summary = ''Activity uses stable cursor pagination; cursors are opaque and must be replayed unchanged.'',
      gd_sections =
      [\<lparr>gs_title = ''Cursor flow'',
      gs_body = ''Pass the returned next_cursor as the next request cursor. Do not parse, synthesize, or persist assumptions about its format. Set a bounded limit appropriate to your workload.'',
      gs_callout = None,
      gs_steps = None,
      gs_flow = None,
      gs_code = None,
      gs_links = None\<rparr>,
      \<lparr>gs_title = ''Stable traversal'',
      gs_body = ''A cursor identifies a stable position in the ordered result. New activity can appear before your current position without changing the meaning of a cursor already issued.'',
      gs_callout = None,
      gs_steps = None,
      gs_flow = None,
      gs_code = None,
      gs_links = None\<rparr>]\<rparr>"

definition guide_webhooks :: guide where
  "guide_webhooks =
     \<lparr>gd_route = ''/webhooks'', gd_title = ''Webhooks'', gd_eyebrow = ''Asynchronous delivery'',
      gd_summary = ''Partner webhooks are delivery hints from the authoritative outbox, not a second source of inventory truth.'',
      gd_sections =
      [\<lparr>gs_title = ''Delivery model'',
      gs_body = ''TktSync delivers subscribed outbox events at least once to the Partner HTTPS endpoints registered during integration setup. Deduplicate by the stable event id. Any 2xx response acknowledges delivery; redirects and every non-2xx response do not.'',
      gs_callout = None,
      gs_steps = None,
      gs_flow = None,
      gs_code = None,
      gs_links = None\<rparr>,
      \<lparr>gs_title = ''Verify every signature'',
      gs_body = ''Read TktSync-Signature as t=<unix timestamp>,v1=<hex digest>. Compute HMAC-SHA-256 with the endpoint secret over the exact bytes '' @ left_double_quote @ ''<timestamp>.<raw request body>'' @ right_double_quote @ '', compare digests in constant time, and reject stale timestamps. During secret rotation the header can contain two v1 values. Deliveries also include stable TktSync-Event-Id and TktSync-Delivery-Id headers.'',
      gs_callout = None,
      gs_steps = None,
      gs_flow = None,
      gs_code = None,
      gs_links = None\<rparr>,
      \<lparr>gs_title = ''Retries and recovery'',
      gs_body = ''The current worker attempts delivery up to 8 times. Failures use jittered exponential delays beginning at one second and capped at five minutes; the HTTP timeout is deployment-configurable and defaults to five seconds. Exhausted deliveries become dead letters. A missing webhook is never proof that an operation did not occur'' @ long_dash @ ''retry the idempotent command or query authoritative state.'',
      gs_callout = None,
      gs_steps = None,
      gs_flow = None,
      gs_code = None,
      gs_links = None\<rparr>,
      \<lparr>gs_title = ''Authority and ordering'',
      gs_body = ''Use synchronous Partner reads to recover current authoritative state. Webhook or realtime messages cannot create ownership, override PostgreSQL state, or replace a successful Reservation command.'',
      gs_callout = None,
      gs_steps = None,
      gs_flow = None,
      gs_code = None,
      gs_links = None\<rparr>,
      \<lparr>gs_title = ''Configuration'',
      gs_body = ''Webhook endpoint registration, subscribed event types, secret rotation, and endpoint disablement are agreed through Partner integration setup. They are not runtime calls made by your customer-facing application.'',
      gs_callout = None,
      gs_steps = None,
      gs_flow = None,
      gs_code = None,
      gs_links = None\<rparr>]\<rparr>"

definition guides :: "guide list" where
  "guides =
     [guide_overview,
      guide_quickstart,
      guide_workflows,
      guide_workflows_selector,
      guide_workflows_direct,
      guide_workflows_tickets,
      guide_workflows_recovery,
      guide_authentication,
      guide_errors,
      guide_idempotency,
      guide_pagination,
      guide_webhooks]"

lemmas guide_defs = guide_overview_def guide_quickstart_def guide_workflows_def guide_workflows_selector_def
  guide_workflows_direct_def guide_workflows_tickets_def guide_workflows_recovery_def guide_authentication_def
  guide_errors_def guide_idempotency_def guide_pagination_def guide_webhooks_def

lemmas guide_section_defs = guide_workflows_section_1_def guide_workflows_section_2_def guide_workflows_section_3_def
  guide_workflows_section_4_def guide_workflows_section_5_def guide_workflows_section_6_def
  guide_workflows_section_7_def guide_workflows_section_8_def guide_workflows_selector_section_1_def
  guide_workflows_selector_section_2_def guide_workflows_selector_section_3_def guide_workflows_selector_section_4_def
  guide_workflows_selector_section_5_def guide_workflows_selector_section_6_def guide_workflows_selector_section_7_def
  guide_workflows_selector_section_8_def guide_workflows_direct_section_1_def guide_workflows_direct_section_2_def
  guide_workflows_direct_section_3_def guide_workflows_tickets_section_1_def guide_workflows_tickets_section_2_def
  guide_workflows_tickets_section_3_def guide_workflows_tickets_section_4_def

end
