(* ===== verification/Docs_Site.thy ===== *)
theory Docs_Site
  imports Docs_Guides
begin

text \<open>
  The documentation site around its articles (\<^verbatim>\<open>docs-web/src/main.tsx\<close>): navigation, the links of a
  guide, search, the dialog of the credential and the browser's history.
\<close>

section \<open>Pages and links\<close>

definition operationList :: "docs_operation list" where
  "operationList = map console_entry partnerOperations"

definition guide_entry :: "guide \<Rightarrow> docs_guide" where
  "guide_entry g = \<lparr>dg_route = gd_route g, dg_title = gd_title g, dg_summary = gd_summary g\<rparr>"

definition guide_list :: "docs_guide list" where
  "guide_list = map guide_entry guides"

definition guideGroups :: "(string \<times> string list) list" where
  "guideGroups =
     [(''Start'', [''/'', ''/quickstart'']),
      (''Build your ticketing experience'',
       [''/workflows'', ''/workflows/selector'', ''/workflows/direct'', ''/workflows/tickets'', ''/workflows/recovery'']),
      (''Core concepts'', [''/authentication'', ''/errors'', ''/idempotency'', ''/pagination'', ''/webhooks''])]"

text \<open>The routes of the navigation, in its order; a group's route without a guide shows nothing.\<close>

definition nav_guides :: "string list" where
  "nav_guides = concat (map (\<lambda>g. filter (\<lambda>r. r \<in> set (map dg_route guide_list)) (snd g)) guideGroups)"

definition nav_operations :: "string list" where
  "nav_operations =
     concat (map (\<lambda>g. map do_route (filter (\<lambda>p. do_group p = g) operationList)) (endpointGroups operationList))"

definition nav_routes :: "string list" where
  "nav_routes = nav_guides @ nav_operations"

text \<open>The buttons of a guide's page: steps of a flow with a route, links, and on the first page operations.\<close>

definition step_route :: "guide_step \<Rightarrow> string list" where
  "step_route p = (if truthy_str (gp_route p) then [nullish (gp_route p) []] else [])"

definition section_routes :: "guide_section \<Rightarrow> string list" where
  "section_routes s = concat (map step_route (nullish (gs_flow s) [])) @ map snd (nullish (gs_links s) [])"

definition shown_guide :: "string \<Rightarrow> guide" where
  "shown_guide route = nullish (find (\<lambda>g. gd_route g = route) guides) (hd guides)"

definition endpoint_cards :: "string \<Rightarrow> string list" where
  "endpoint_cards route = (if route = ''/'' then map do_route (take 6 operationList) else [])"

definition guide_routes :: "string \<Rightarrow> string list" where
  "guide_routes route = concat (map section_routes (gd_sections (shown_guide route))) @ endpoint_cards route"

definition page_routes :: "string \<Rightarrow> string list" where
  "page_routes path =
     (case docs_page guide_list operationList path of
        Operation_Content p \<Rightarrow> []
      | Guide_Content route \<Rightarrow> guide_routes route
      | Not_Found \<Rightarrow> [''/''])"

definition found_routes :: "string \<Rightarrow> string list" where
  "found_routes query = map sr_route (search_results query (search_records guide_list operationList))"

section \<open>The site\<close>

text \<open>The browser's entries of this site, the latest before and the next after the current first.\<close>

record site_history =
  sh_back :: "string list"
  sh_here :: string
  sh_forward :: "string list"

definition pushState :: "string \<Rightarrow> site_history \<Rightarrow> site_history" where
  "pushState next h = \<lparr>sh_back = sh_here h # sh_back h, sh_here = next, sh_forward = []\<rparr>"

definition history_back :: "site_history \<Rightarrow> site_history" where
  "history_back h =
     (case sh_back h of [] \<Rightarrow> h | b # bs \<Rightarrow> \<lparr>sh_back = bs, sh_here = b, sh_forward = sh_here h # sh_forward h\<rparr>)"

definition history_forward :: "site_history \<Rightarrow> site_history" where
  "history_forward h =
     (case sh_forward h of [] \<Rightarrow> h | f # fs \<Rightarrow> \<lparr>sh_back = sh_here h # sh_back h, sh_here = f, sh_forward = fs\<rparr>)"

record docs_site =
  si_history :: site_history
  si_path :: string
  si_navOpen :: bool
  si_searchOpen :: bool
  si_query :: string
  si_credentialOpen :: bool
  si_draft :: string
  si_credential :: string

definition opened_site :: "string \<Rightarrow> docs_site" where
  "opened_site start =
     \<lparr>si_history = \<lparr>sh_back = [], sh_here = start, sh_forward = []\<rparr>, si_path = start, si_navOpen = False,
      si_searchOpen = False, si_query = [], si_credentialOpen = False, si_draft = [], si_credential = []\<rparr>"

definition navigate :: "string \<Rightarrow> docs_site \<Rightarrow> docs_site" where
  "navigate next s =
     s\<lparr>si_history := if next \<noteq> si_path s then pushState next (si_history s) else si_history s, si_path := next\<rparr>"

text \<open>The listener of \<open>popstate\<close>: the path is read from the location.\<close>

definition popped :: "site_history \<Rightarrow> docs_site \<Rightarrow> docs_site" where
  "popped h s = s\<lparr>si_history := h, si_path := sh_here h\<rparr>"

text \<open>The brand pushes an entry and then tells the listener itself.\<close>

definition press_brand :: "docs_site \<Rightarrow> docs_site" where
  "press_brand s = popped (pushState ''/'' (si_history s)) s"

text \<open>The effects of the dialogs: a closed search forgets its query, an opened credential dialog shows the credential.\<close>

definition close_search :: "docs_site \<Rightarrow> docs_site" where
  "close_search s = s\<lparr>si_searchOpen := False, si_query := []\<rparr>"

definition show_credential :: "docs_site \<Rightarrow> docs_site" where
  "show_credential s = s\<lparr>si_credentialOpen := True, si_draft := if si_credentialOpen s then si_draft s else si_credential s\<rparr>"

definition submit_credential :: "docs_site \<Rightarrow> docs_site" where
  "submit_credential s = s\<lparr>si_credential := trim (si_draft s), si_credentialOpen := False\<rparr>"

definition clear_credential :: "docs_site \<Rightarrow> docs_site" where
  "clear_credential s = s\<lparr>si_credential := [], si_draft := [], si_credentialOpen := False\<rparr>"

definition shortcut :: "bool \<Rightarrow> string \<Rightarrow> docs_site \<Rightarrow> docs_site" where
  "shortcut modifier key s =
     (let s' = (if modifier \<and> to_lower key = ''k'' then s\<lparr>si_searchOpen := True\<rparr> else s)
      in if key = ''Escape'' then (close_search s')\<lparr>si_credentialOpen := False, si_navOpen := False\<rparr> else s')"

datatype site_action =
    Open_Nav
  | Close_Nav
  | Press_Nav string
  | Press_Brand
  | Open_Search
  | Close_Search
  | Type_Query string
  | Press_Found string
  | Press_Link string
  | Open_Credential
  | Close_Credential
  | Type_Draft string
  | Submit_Credential
  | Clear_Credential
  | Press_Key bool string
  | Go_Back
  | Go_Forward

text \<open>What is not on the screen cannot be pressed.\<close>

fun site_step :: "docs_site \<Rightarrow> site_action \<Rightarrow> docs_site" where
  "site_step s Open_Nav = s\<lparr>si_navOpen := True\<rparr>"
| "site_step s Close_Nav = s\<lparr>si_navOpen := False\<rparr>"
| "site_step s (Press_Nav r) = (if r \<in> set nav_routes then (navigate r s)\<lparr>si_navOpen := False\<rparr> else s)"
| "site_step s Press_Brand = press_brand s"
| "site_step s Open_Search = s\<lparr>si_searchOpen := True\<rparr>"
| "site_step s Close_Search = close_search s"
| "site_step s (Type_Query q) = (if si_searchOpen s then s\<lparr>si_query := q\<rparr> else s)"
| "site_step s (Press_Found r) =
     (if si_searchOpen s \<and> r \<in> set (found_routes (si_query s)) then close_search (navigate r s) else s)"
| "site_step s (Press_Link r) = (if r \<in> set (page_routes (si_path s)) then navigate r s else s)"
| "site_step s Open_Credential = show_credential s"
| "site_step s Close_Credential = s\<lparr>si_credentialOpen := False\<rparr>"
| "site_step s (Type_Draft t) = (if si_credentialOpen s then s\<lparr>si_draft := t\<rparr> else s)"
| "site_step s Submit_Credential = (if si_credentialOpen s then submit_credential s else s)"
| "site_step s Clear_Credential = (if si_credentialOpen s \<and> si_credential s \<noteq> [] then clear_credential s else s)"
| "site_step s (Press_Key modifier key) = shortcut modifier key s"
| "site_step s Go_Back = popped (history_back (si_history s)) s"
| "site_step s Go_Forward = popped (history_forward (si_history s)) s"

lemmas site_moves = navigate_def popped_def press_brand_def close_search_def show_credential_def submit_credential_def
  clear_credential_def shortcut_def

section \<open>Every link leads to a page\<close>

definition documented_page :: "string \<Rightarrow> bool" where
  "documented_page path \<longleftrightarrow> docs_page guide_list operationList path \<noteq> Not_Found"

definition site_guides :: "string list" where
  "site_guides =
     [''/'', ''/quickstart'', ''/workflows'', ''/workflows/selector'', ''/workflows/direct'', ''/workflows/tickets'',
      ''/workflows/recovery'', ''/authentication'', ''/errors'', ''/idempotency'', ''/pagination'', ''/webhooks'']"

lemma guide_routes_listed: "map dg_route guide_list = site_guides"
  by (simp add: guide_list_def guide_entry_def guides_def guide_defs site_guides_def)

definition site_operations :: "(string \<times> string) list" where
  "site_operations =
     [(''Events'', ''/api/events''), (''Events'', ''/api/events/retrieve''), (''Events'', ''/api/events/layout''),
      (''Events'', ''/api/events/availability''), (''Reservations'', ''/api/reservations/create''),
      (''Reservations'', ''/api/reservations/retrieve''), (''Reservations'', ''/api/reservations/update''),
      (''Reservations'', ''/api/reservations/begin-checkout''), (''Reservations'', ''/api/reservations/payment-failure''),
      (''Reservations'', ''/api/reservations/release''), (''Reservations'', ''/api/reservations/confirm''),
      (''Tickets'', ''/api/tickets/retrieve''), (''Tickets'', ''/api/tickets/retrieve-qr''), (''Tickets'', ''/api/tickets/void''),
      (''Tickets'', ''/api/tickets/reissue-credential''), (''Tickets'', ''/api/tickets/re-release-inventory''),
      (''Selection sessions'', ''/api/selection-sessions/create''), (''Reporting'', ''/api/reporting/inventory''),
      (''Reporting'', ''/api/reporting/sales''), (''Reporting'', ''/api/reporting/activity'')]"

definition site_routes :: "string list" where
  "site_routes = site_guides @ map snd site_operations"

lemma operations_listed: "map (\<lambda>p. (do_group p, do_route p)) operationList = site_operations"
  by (simp add: operationList_def console_entry_def partnerOperations_def documented_operations site_operations_def)

lemma operation_columns: "map do_group operationList = map fst site_operations" "map do_route operationList = map snd site_operations"
  unfolding operations_listed [symmetric] by (simp_all add: comp_def)

lemma group_routes:
  "map do_route (filter (\<lambda>p. do_group p = g) operationList) = map snd (filter (\<lambda>p. fst p = g) site_operations)"
  unfolding operations_listed [symmetric] by (simp add: filter_map comp_def)

lemma nav_routes_listed: "nav_routes = site_routes"
proof -
  have "nav_guides = site_guides" unfolding nav_guides_def guide_routes_listed by (simp add: guideGroups_def site_guides_def)
  moreover have "nav_operations = map snd site_operations"
    by (simp add: nav_operations_def group_routes endpointGroups_def operation_columns) (simp add: site_operations_def)
  ultimately show ?thesis by (simp add: nav_routes_def site_routes_def)
qed

lemma documented_page_iff:
  "documented_page path \<longleftrightarrow> path \<in> set (map do_route operationList) \<or> path \<in> set (map dg_route guide_list)"
proof -
  have "documented_page path \<longleftrightarrow>
      find (\<lambda>p. do_route p = path) operationList \<noteq> None \<or> list_ex (\<lambda>g. dg_route g = path) guide_list"
    by (cases "find (\<lambda>p. do_route p = path) operationList") (simp_all add: documented_page_def docs_page_def)
  then show ?thesis by (auto simp: find_None_iff list_ex_iff)
qed

lemma documented_page_routes: "documented_page path \<longleftrightarrow> path \<in> set site_routes"
  unfolding documented_page_iff operation_columns guide_routes_listed by (auto simp: site_routes_def)

definition section_links_ok :: "guide_section \<Rightarrow> bool" where
  "section_links_ok s \<longleftrightarrow> list_all (\<lambda>r. r \<in> set site_routes) (section_routes s)"

lemma guide_links_within:
  assumes "list_all (\<lambda>r. r \<in> S) site_routes"
  shows "list_all (\<lambda>g. list_all (\<lambda>s. list_all (\<lambda>r. r \<in> S) (section_routes s)) (gd_sections g)) guides"
  using assms unfolding site_routes_def site_guides_def site_operations_def
  by (simp add: guides_def guide_defs guide_section_defs section_routes_def step_route_def nullish_def del: append.simps)

lemma guide_links: "list_all (\<lambda>g. list_all section_links_ok (gd_sections g)) guides"
  using guide_links_within [of "set site_routes"] by (simp add: section_links_ok_def list_all_iff)

lemma shown_guide_listed: "shown_guide route \<in> set guides"
proof (cases "find (\<lambda>g. gd_route g = route) guides")
  case None
  have "guides \<noteq> []" by (simp add: guides_def)
  then show ?thesis by (simp add: shown_guide_def None nullish_def)
next
  case (Some g)
  then show ?thesis using find_SomeD [OF Some] by (simp add: shown_guide_def nullish_def)
qed

lemma guide_route_documented: "r \<in> set (guide_routes route) \<Longrightarrow> documented_page r"
proof -
  assume r: "r \<in> set (guide_routes route)"
  have "list_all section_links_ok (gd_sections (shown_guide route))"
    using guide_links shown_guide_listed [of route] by (auto simp: list_all_iff)
  then have "x \<in> set (gd_sections (shown_guide route)) \<Longrightarrow> r \<in> set (section_routes x) \<Longrightarrow> documented_page r" for x
    by (auto simp: list_all_iff section_links_ok_def documented_page_routes)
  moreover have "r \<in> set (endpoint_cards route) \<Longrightarrow> documented_page r"
    by (auto simp: endpoint_cards_def documented_page_iff dest!: in_set_takeD split: if_splits)
  ultimately show ?thesis using r by (auto simp: guide_routes_def)
qed

lemma root_documented: "documented_page ''/''"
  by (simp add: documented_page_routes site_routes_def site_guides_def)

lemma page_route_documented: "r \<in> set (page_routes path) \<Longrightarrow> documented_page r"
  using guide_route_documented root_documented by (auto simp: page_routes_def split: docs_content.splits)

lemma found_route_documented: "r \<in> set (found_routes query) \<Longrightarrow> documented_page r"
  by (auto simp: found_routes_def search_results_def search_records_def documented_page_iff dest!: in_set_takeD)

lemma nav_route_documented: "r \<in> set nav_routes \<longleftrightarrow> documented_page r"
  by (simp add: nav_routes_listed documented_page_routes)

section \<open>The site stays on its pages\<close>

lemma trim_nil: "trim [] = []"
  using strip_start_suffix [of ws_tokens "[]"] strip_end_prefix [of ws_tokens "[]"]
  by (simp add: trim_def trim_start_def trim_end_def)

definition site_held :: "string \<Rightarrow> docs_site \<Rightarrow> bool" where
  "site_held start s \<longleftrightarrow>
     sh_here (si_history s) = si_path s \<and>
     list_all (\<lambda>p. p = start \<or> documented_page p) (sh_back (si_history s) @ si_path s # sh_forward (si_history s)) \<and>
     trim (si_credential s) = si_credential s"

lemma navigate_held: "site_held start s \<Longrightarrow> documented_page r \<Longrightarrow> site_held start (navigate r s)"
  by (auto simp: site_held_def navigate_def pushState_def)

lemma held_frame:
  "si_history s' = si_history s \<Longrightarrow> si_path s' = si_path s \<Longrightarrow> si_credential s' = si_credential s \<or> trim (si_credential s') = si_credential s' \<Longrightarrow>
   site_held start s \<Longrightarrow> site_held start s'"
  by (auto simp: site_held_def)

lemma step_held: "site_held start s \<Longrightarrow> site_held start (site_step s a)"
proof (cases a)
  case (Press_Nav r)
  assume "site_held start s"
  then have "r \<in> set nav_routes \<Longrightarrow> site_held start (navigate r s)" using navigate_held nav_route_documented by blast
  then show ?thesis using Press_Nav \<open>site_held start s\<close> by (auto intro: held_frame [rotated 3])
next
  case Press_Brand
  assume "site_held start s"
  then show ?thesis using Press_Brand root_documented by (auto simp: press_brand_def pushState_def site_held_def popped_def)
next
  case (Press_Found r)
  assume "site_held start s"
  then have "r \<in> set (found_routes (si_query s)) \<Longrightarrow> site_held start (navigate r s)"
    using navigate_held found_route_documented by blast
  then show ?thesis using Press_Found \<open>site_held start s\<close> by (auto simp: close_search_def intro: held_frame [rotated 3])
next
  case (Press_Link r)
  assume "site_held start s"
  then show ?thesis using Press_Link navigate_held page_route_documented by auto
next
  case Go_Back
  assume "site_held start s"
  then show ?thesis using Go_Back by (auto simp: history_back_def site_held_def popped_def split: list.splits)
next
  case Go_Forward
  assume "site_held start s"
  then show ?thesis using Go_Forward by (auto simp: history_forward_def site_held_def popped_def split: list.splits)
qed (auto simp: site_moves trim_idem trim_nil Let_def intro: held_frame [rotated 3])

lemma site_run_held: "site_held start s \<Longrightarrow> site_held start (foldl site_step s actions)"
  by (induction actions arbitrary: s) (auto intro: step_held)

text \<open>
  C32: The navigation lists every guide and every documented operation exactly once, and from every
  state one press leads there. However the site is used, from whatever path it was opened at, each
  link, search result and step back or forward leads to a page that exists or back to where the
  visitor came in; the shown page is the one in the address bar, and the credential kept has no
  surrounding blanks.
\<close>

theorem docs_links_lead_to_pages:
  assumes "documented_page p" and run: "s = foldl site_step (opened_site start) actions"
  shows "distinct nav_routes \<and> p \<in> set nav_routes \<and> si_path (site_step s (Press_Nav p)) = p \<and>
    sh_here (si_history s) = si_path s \<and> (si_path s = start \<or> documented_page (si_path s)) \<and>
    trim (si_credential s) = si_credential s"
proof -
  have "site_held start (opened_site start)" by (simp add: site_held_def opened_site_def trim_nil)
  then have "site_held start s" unfolding run by (rule site_run_held)
  moreover have "distinct nav_routes" by (simp add: nav_routes_listed site_routes_def site_guides_def site_operations_def)
  moreover have "p \<in> set nav_routes" using assms(1) by (simp add: nav_route_documented)
  ultimately show ?thesis by (auto simp: site_held_def navigate_def)
qed

theorem docs_links_lead_to_pages_witness:
  "distinct nav_routes \<and> ''/webhooks'' \<in> set nav_routes \<and>
   si_path (site_step (site_step (opened_site ''/nowhere'') Press_Brand) (Press_Nav ''/webhooks'')) = ''/webhooks''"
proof -
  have p: "documented_page ''/webhooks''" by (simp add: documented_page_routes site_routes_def site_guides_def)
  have s: "site_step (opened_site ''/nowhere'') Press_Brand = foldl site_step (opened_site ''/nowhere'') [Press_Brand]" by simp
  show ?thesis using docs_links_lead_to_pages [OF p s] by blast
qed

end
