(* ===== verification/Event_Page.thy ===== *)
theory Event_Page
  imports Event_Detail
begin

text \<open>
  The event page as a whole (\<^verbatim>\<open>events/EventDetailPage.tsx\<close>): its cells, what each control of a tab or
  dialog does while the event is loaded, what each awaited command does when it succeeds, and which
  commands the page can send.
\<close>

section \<open>The page\<close>

text \<open>
  The event as loaded with its configuration and inventory; a partner's access is its id, whether the
  partner is active, and whether it has access.
\<close>

record event_data =
  ed_state :: event_state
  ed_sales_open_at :: "string option"
  ed_configuration :: "event_configuration option"
  ed_inventory :: "nat option"
  ed_access :: "(string \<times> bool \<times> bool) list"
  ed_active_tiers :: "string list"
  ed_published :: "string list"

datatype event_tab =
  Ev_Overview | Ev_Layout | Ev_Pricing | Ev_Inventory | Ev_Partners | Ev_Sales | Ev_Admissions | Ev_Reports

record event_cells =
  ev_data :: "event_data option"
  ev_tab :: event_tab
  ev_page :: event_page
  ev_priceOpen :: bool
  ev_price :: price_values
  ev_layoutId :: string
  ev_tierId :: string
  ev_targets :: inventory_targets
  ev_assignConfirm :: bool
  ev_exporting :: bool

definition initial_event_cells :: event_cells where
  "initial_event_cells =
     \<lparr>ev_data = None, ev_tab = Ev_Overview, ev_page = initial_event_page, ev_priceOpen = False,
      ev_price = \<lparr>pv_name = [], pv_code = [], pv_amount = [], pv_currency = ''NGN''\<rparr>, ev_layoutId = [], ev_tierId = [],
      ev_targets = \<lparr>it_reservedIds = [], it_reservedKeys = [], it_ga = [], it_sectionKeys = []\<rparr>,
      ev_assignConfirm = False, ev_exporting = False\<rparr>"

definition event_setup_of :: "event_data \<Rightarrow> event_setup" where
  "event_setup_of d = setup_of (ed_configuration d) (ed_inventory d)"

text \<open>A line of the setup list leads to its tab.\<close>

definition setup_tab :: "string \<Rightarrow> event_tab" where
  "setup_tab key = (if key = ''layout'' then Ev_Layout else if key = ''pricing'' then Ev_Pricing else Ev_Inventory)"

definition layout_chosen_shown :: "event_data \<Rightarrow> bool" where
  "layout_chosen_shown d \<longleftrightarrow> \<not> es_layout (event_setup_of d) \<and> ed_published d \<noteq> []"

definition assignment_shown :: "event_data \<Rightarrow> bool" where
  "assignment_shown d \<longleftrightarrow> ed_active_tiers d \<noteq> [] \<and> 0 < nullish (ed_inventory d) 0"

datatype event_control =
    Tab event_tab
  | Setup_Line string
  | Primary
  | More page_action
  | Type_Reason string
  | Submit_Confirm "string option"
  | Keep_Event
  | Close_Confirm
  | Close_Setup
  | Open_Price
  | Close_Price
  | Type_Price price_values
  | Submit_Price "price_values option"
  | Choose_Layout string
  | Materialize
  | Choose_Tier string
  | Choose_Targets inventory_targets
  | Review_Pricing
  | Cancel_Pricing
  | Apply_Pricing
  | Toggle_Access string
  | Export_Accreditation

text \<open>A control that is not on the page does nothing; that a button is busy is left out, so it may be
  pressed again. The next cells, and the commands sent.\<close>

definition sent_lifecycle :: "string \<Rightarrow> (string \<times> page_action \<times> string option) option \<Rightarrow> admin_command list" where
  "sent_lifecycle here v = (case v of None \<Rightarrow> [] | Some x \<Rightarrow> [im_call (event_lifecycle here) x])"

definition press_lifecycle ::
    "(string \<Rightarrow> int option) \<Rightarrow> int \<Rightarrow> string \<Rightarrow> event_data \<Rightarrow> event_control \<Rightarrow> event_cells \<Rightarrow> event_cells \<times> admin_command list" where
  "press_lifecycle to_millis now here d a v =
     (case a of
        Primary \<Rightarrow>
          (let (p, sent) = runPrimary here (primaryAction to_millis now (ed_state d) (ed_sales_open_at d))
                             (missingSetup (event_setup_of d)) (ev_page v)
           in (v\<lparr>ev_page := p\<rparr>, sent_lifecycle here sent))
      | More x \<Rightarrow> (if x \<in> set (moreActions (ed_state d)) then v\<lparr>ev_page := chooseAction x (ev_page v)\<rparr> else v, [])
      | Type_Reason r \<Rightarrow> (v\<lparr>ev_page := (ev_page v)\<lparr>ep_reason := r\<rparr>\<rparr>, [])
      | Submit_Confirm form \<Rightarrow> (v, sent_lifecycle here (runConfirmed here form (ev_page v)))
      | Keep_Event \<Rightarrow> (v\<lparr>ev_page := (ev_page v)\<lparr>ep_confirm := None\<rparr>\<rparr>, [])
      | Close_Confirm \<Rightarrow> (v\<lparr>ev_page := close_confirm (ev_page v)\<rparr>, [])
      | Close_Setup \<Rightarrow> (v\<lparr>ev_page := (ev_page v)\<lparr>ep_setupPrompt := False\<rparr>\<rparr>, [])
      | _ \<Rightarrow> (v, []))"

text \<open>The setup list and the tabs.\<close>

definition press_tab :: "event_control \<Rightarrow> event_cells \<Rightarrow> event_cells" where
  "press_tab a v =
     (case a of
        Tab t \<Rightarrow> v\<lparr>ev_tab := t\<rparr>
      | Setup_Line key \<Rightarrow> (if ev_tab v = Ev_Overview \<and> key \<noteq> ''policy'' then v\<lparr>ev_tab := setup_tab key\<rparr> else v)
      | _ \<Rightarrow> v)"

text \<open>The dialog of a new price.\<close>

definition submit_price ::
    "(string \<Rightarrow> rat option) \<Rightarrow> string \<Rightarrow> price_values option \<Rightarrow> event_cells \<Rightarrow> event_cells \<times> admin_command list" where
  "submit_price to_number here form v =
     (if \<not> ev_priceOpen v then (v, [])
      else case submitPrice to_number here form (ev_price v) of
        None \<Rightarrow> (v, [])
      | Some (i, x) \<Rightarrow> (v\<lparr>ev_price := x\<rparr>, [im_call (event_price to_number here) (i, x)]))"

text \<open>The layout.\<close>

definition choose_layout :: "event_data \<Rightarrow> string \<Rightarrow> event_cells \<Rightarrow> event_cells" where
  "choose_layout d l v =
     (if ev_tab v = Ev_Layout \<and> layout_chosen_shown d \<and> (l = [] \<or> l \<in> set (ed_published d)) then v\<lparr>ev_layoutId := l\<rparr> else v)"

definition press_materialize :: "string \<Rightarrow> event_data \<Rightarrow> event_cells \<Rightarrow> admin_command list" where
  "press_materialize here d v =
     (if ev_tab v = Ev_Layout \<and> layout_chosen_shown d \<and> ev_layoutId v \<noteq> []
      then [im_call (event_materialize here) (here, ev_layoutId v)] else [])"

text \<open>The assignment of prices.\<close>

definition choose_tier :: "event_data \<Rightarrow> string \<Rightarrow> event_cells \<Rightarrow> event_cells" where
  "choose_tier d t v =
     (if ev_tab v = Ev_Pricing \<and> assignment_shown d \<and> (t = [] \<or> t \<in> set (ed_active_tiers d)) then v\<lparr>ev_tierId := t\<rparr> else v)"

definition choose_targets :: "event_data \<Rightarrow> inventory_targets \<Rightarrow> event_cells \<Rightarrow> event_cells" where
  "choose_targets d ts v = (if ev_tab v = Ev_Pricing \<and> assignment_shown d then v\<lparr>ev_targets := ts\<rparr> else v)"

definition review_pricing :: "event_data \<Rightarrow> event_cells \<Rightarrow> event_cells" where
  "review_pricing d v =
     (if ev_tab v = Ev_Pricing \<and> assignment_shown d \<and> can_review_pricing (ev_tierId v) (ev_targets v)
      then v\<lparr>ev_assignConfirm := True\<rparr> else v)"

definition apply_pricing :: "(rat \<Rightarrow> string) \<Rightarrow> string \<Rightarrow> event_cells \<Rightarrow> admin_command list" where
  "apply_pricing f here v =
     (if ev_assignConfirm v then [im_call (event_assign f here) (here, ev_tierId v, ev_targets v)] else [])"

text \<open>The access of a partner, and the export.\<close>

definition toggle_access :: "string \<Rightarrow> event_data \<Rightarrow> string \<Rightarrow> event_cells \<Rightarrow> admin_command list" where
  "toggle_access here d i v =
     (if ev_tab v \<noteq> Ev_Partners then []
      else case map_of (ed_access d) i of
             Some (True, enabled) \<Rightarrow> [im_call (event_access here) (here, i, \<not> enabled)]
           | _ \<Rightarrow> [])"

definition start_export :: "event_cells \<Rightarrow> event_cells" where
  "start_export v = (if ev_tab v = Ev_Admissions then v\<lparr>ev_exporting := True\<rparr> else v)"

definition press_setup ::
    "(string \<Rightarrow> rat option) \<Rightarrow> (rat \<Rightarrow> string) \<Rightarrow> string \<Rightarrow> event_data \<Rightarrow> event_control \<Rightarrow> event_cells \<Rightarrow>
     event_cells \<times> admin_command list" where
  "press_setup to_number f here d a v =
     (case a of
        Tab t \<Rightarrow> (press_tab a v, [])
      | Setup_Line key \<Rightarrow> (press_tab a v, [])
      | Open_Price \<Rightarrow> (if ev_tab v = Ev_Pricing then v\<lparr>ev_priceOpen := True\<rparr> else v, [])
      | Close_Price \<Rightarrow> (v\<lparr>ev_priceOpen := False\<rparr>, [])
      | Type_Price x \<Rightarrow> (if ev_priceOpen v then v\<lparr>ev_price := x\<rparr> else v, [])
      | Submit_Price form \<Rightarrow> submit_price to_number here form v
      | Choose_Layout l \<Rightarrow> (choose_layout d l v, [])
      | Materialize \<Rightarrow> (v, press_materialize here d v)
      | Choose_Tier t \<Rightarrow> (choose_tier d t v, [])
      | Choose_Targets ts \<Rightarrow> (choose_targets d ts v, [])
      | Review_Pricing \<Rightarrow> (review_pricing d v, [])
      | Cancel_Pricing \<Rightarrow> (v\<lparr>ev_assignConfirm := False\<rparr>, [])
      | Apply_Pricing \<Rightarrow> (v, apply_pricing f here v)
      | Toggle_Access i \<Rightarrow> (v, toggle_access here d i v)
      | Export_Accreditation \<Rightarrow> (start_export v, [])
      | _ \<Rightarrow> (v, []))"

lemmas setup_controls = press_setup_def press_tab_def submit_price_def choose_layout_def press_materialize_def choose_tier_def
  choose_targets_def review_pricing_def apply_pricing_def toggle_access_def start_export_def

definition event_press ::
    "(string \<Rightarrow> int option) \<Rightarrow> int \<Rightarrow> (string \<Rightarrow> rat option) \<Rightarrow> (rat \<Rightarrow> string) \<Rightarrow> string \<Rightarrow> event_data \<Rightarrow> event_control \<Rightarrow>
     event_cells \<Rightarrow> event_cells \<times> admin_command list" where
  "event_press to_millis now to_number f here d a v =
     (let (v', cs) = press_lifecycle to_millis now here d a v; (v'', cs') = press_setup to_number f here d a v'
      in (v'', cs @ cs'))"

text \<open>After an awaited command; the export ends whether it succeeded or not.\<close>

datatype event_answer = Lifecycle_Confirmed | Price_Added | Pricing_Applied | Export_Ended

definition event_answered :: "event_answer \<Rightarrow> event_cells \<Rightarrow> event_cells" where
  "event_answered a v =
     (case a of
        Lifecycle_Confirmed \<Rightarrow> v\<lparr>ev_page := close_confirm (ev_page v)\<rparr>
      | Price_Added \<Rightarrow>
          v\<lparr>ev_priceOpen := False, ev_price := (ev_price v)\<lparr>pv_name := [], pv_code := [], pv_amount := []\<rparr>\<rparr>
      | Pricing_Applied \<Rightarrow> v\<lparr>ev_assignConfirm := False\<rparr>
      | Export_Ended \<Rightarrow> v\<lparr>ev_exporting := False\<rparr>)"

section \<open>Runs\<close>

inductive event_run ::
    "(string \<Rightarrow> int option) \<Rightarrow> (string \<Rightarrow> rat option) \<Rightarrow> (rat \<Rightarrow> string) \<Rightarrow> string \<Rightarrow>
     event_cells \<Rightarrow> event_data set \<Rightarrow> (event_data \<times> admin_command) set \<Rightarrow> bool"
  for to_millis to_number f here where
  opened: "event_run to_millis to_number f here initial_event_cells {} {}"
| loaded: "event_run to_millis to_number f here v seen sent \<Longrightarrow>
    event_run to_millis to_number f here (v\<lparr>ev_data := Some d\<rparr>) (insert d seen) sent"
| pressed: "event_run to_millis to_number f here v seen sent \<Longrightarrow> ev_data v = Some d \<Longrightarrow>
    event_press to_millis now to_number f here d a v = (v', cs) \<Longrightarrow>
    event_run to_millis to_number f here v' seen (sent \<union> Pair d ` set cs)"
| answered: "event_run to_millis to_number f here v seen sent \<Longrightarrow>
    event_run to_millis to_number f here (event_answered a v) seen sent"

text \<open>An action that a dialog asks to confirm, and that the backend allows in the loaded state.\<close>

definition may_confirm :: "event_state \<Rightarrow> page_action \<Rightarrow> bool" where
  "may_confirm st a \<longleftrightarrow> a \<in> {Act Close_Sales, Act Complete, Cancel_Event} \<and> server_transition a st \<noteq> None"

definition confirming :: "event_page \<Rightarrow> page_action option" where
  "confirming p = map_option fst (ep_confirm p)"

definition view_held :: "event_data set \<Rightarrow> event_cells \<Rightarrow> bool" where
  "view_held seen v \<longleftrightarrow>
     (\<forall>d. ev_data v = Some d \<longrightarrow> d \<in> seen) \<and>
     (\<forall>a. confirming (ev_page v) = Some a \<longrightarrow> (\<exists>d \<in> seen. may_confirm (ed_state d) a)) \<and>
     (ev_layoutId v \<noteq> [] \<longrightarrow> (\<exists>d \<in> seen. ev_layoutId v \<in> set (ed_published d))) \<and>
     (ev_tierId v \<noteq> [] \<longrightarrow> (\<exists>d \<in> seen. ev_tierId v \<in> set (ed_active_tiers d)))"

lemma primary_confirms:
  assumes "runPrimary here (primaryAction to_millis now st opens) missing p = (p', sent)"
  shows "confirming p' = confirming p \<or> (\<exists>a. confirming p' = Some a \<and> may_confirm st a)"
  using assms
  by (cases st) (auto simp: runPrimary_def primaryAction_def confirming_def may_confirm_def Let_def split: if_splits)

lemma chosen_confirms:
  "x \<in> set (moreActions st) \<Longrightarrow> confirming (chooseAction x p) = Some x \<and> may_confirm st x"
  by (cases st) (auto simp: moreActions_def chooseAction_def confirming_def may_confirm_def split: if_splits)

lemma lifecycle_cells:
  assumes "press_lifecycle to_millis now here d a v = (v', cs)"
  shows "ev_data v' = ev_data v" "ev_layoutId v' = ev_layoutId v" "ev_tierId v' = ev_tierId v"
    and "confirming (ev_page v') \<in> {confirming (ev_page v), None} \<or>
      (\<exists>b. confirming (ev_page v') = Some b \<and> may_confirm (ed_state d) b)"
proof -
  show "ev_data v' = ev_data v" "ev_layoutId v' = ev_layoutId v" "ev_tierId v' = ev_tierId v"
    using assms by (cases a; force simp: press_lifecycle_def Let_def split: if_splits prod.splits)+
  show "confirming (ev_page v') \<in> {confirming (ev_page v), None} \<or>
      (\<exists>b. confirming (ev_page v') = Some b \<and> may_confirm (ed_state d) b)"
  proof (cases a)
    case Primary
    obtain q sent where q: "runPrimary here (primaryAction to_millis now (ed_state d) (ed_sales_open_at d))
        (missingSetup (event_setup_of d)) (ev_page v) = (q, sent)" by fastforce
    then have "v' = v\<lparr>ev_page := q\<rparr>" using assms Primary by (simp add: press_lifecycle_def)
    then show ?thesis using primary_confirms [OF q] by simp blast
  next
    case (More x)
    then show ?thesis using assms chosen_confirms [of x "ed_state d" "ev_page v"] by (auto simp: press_lifecycle_def split: if_splits)
  qed (use assms in \<open>auto simp: press_lifecycle_def close_confirm_def confirming_def\<close>)
qed

lemma setup_cells:
  assumes "press_setup to_number f here d a v = (v', cs)"
  shows "ev_data v' = ev_data v" "ev_page v' = ev_page v"
    and "ev_layoutId v' \<in> {ev_layoutId v, []} \<or> ev_layoutId v' \<in> set (ed_published d)"
    and "ev_tierId v' \<in> {ev_tierId v, []} \<or> ev_tierId v' \<in> set (ed_active_tiers d)"
  using assms by (cases a; force simp: setup_controls split: if_splits option.splits)+

lemma view_held_step:
  assumes "view_held seen v" and "d \<in> seen" and "ev_data v' = ev_data v"
    and confirms: "confirming (ev_page v') \<in> {confirming (ev_page v), None} \<or>
      (\<exists>b. confirming (ev_page v') = Some b \<and> may_confirm (ed_state d) b)"
    and "ev_layoutId v' \<in> {ev_layoutId v, []} \<or> ev_layoutId v' \<in> set (ed_published d)"
    and "ev_tierId v' \<in> {ev_tierId v, []} \<or> ev_tierId v' \<in> set (ed_active_tiers d)"
  shows "view_held seen v'"
  unfolding view_held_def
proof (intro conjI allI impI)
  fix a assume "confirming (ev_page v') = Some a"
  then consider "confirming (ev_page v) = Some a" | "may_confirm (ed_state d) a" using confirms by auto
  then show "\<exists>d \<in> seen. may_confirm (ed_state d) a" using assms(1,2) by cases (auto simp: view_held_def)
next
  fix e assume "ev_data v' = Some e"
  then show "e \<in> seen" using assms(1,3) by (simp add: view_held_def)
next
  assume "ev_layoutId v' \<noteq> []"
  then show "\<exists>d \<in> seen. ev_layoutId v' \<in> set (ed_published d)" using assms(1,2,5) unfolding view_held_def by auto
next
  assume "ev_tierId v' \<noteq> []"
  then show "\<exists>d \<in> seen. ev_tierId v' \<in> set (ed_active_tiers d)" using assms(1,2,6) unfolding view_held_def by auto
qed

lemma press_held:
  assumes "view_held seen v" and "d \<in> seen" and "event_press to_millis now to_number f here d a v = (v', cs)"
  shows "view_held seen v'"
proof -
  obtain u us where u: "press_lifecycle to_millis now here d a v = (u, us)" by fastforce
  then obtain ws where w: "press_setup to_number f here d a u = (v', ws)"
    using assms(3) by (auto simp: event_press_def Let_def split: prod.splits)
  have "view_held seen u" using lifecycle_cells [OF u] by (intro view_held_step [OF assms(1,2)]) auto
  then show ?thesis using setup_cells [OF w] by (intro view_held_step [OF _ assms(2), of u v']) auto
qed

lemma view_held_mono: "view_held seen v \<Longrightarrow> seen \<subseteq> seen' \<Longrightarrow> view_held seen' v"
  unfolding view_held_def by blast

lemma event_run_held: "event_run to_millis to_number f here v seen sent \<Longrightarrow> view_held seen v"
proof (induction rule: event_run.induct)
  case opened
  then show ?case by (simp add: view_held_def initial_event_cells_def initial_event_page_def confirming_def)
next
  case (loaded v seen sent d)
  then have "view_held (insert d seen) v" by (blast intro: view_held_mono)
  then show ?case by (simp add: view_held_def)
next
  case (pressed v seen sent d now a v' cs)
  then have "d \<in> seen" by (simp add: view_held_def)
  then show ?case using press_held pressed.IH pressed.hyps(3) by blast
next
  case (answered v seen sent a)
  then show ?case by (cases a) (auto simp: view_held_def event_answered_def close_confirm_def confirming_def)
qed

section \<open>Commands\<close>

text \<open>What a command of the page may be, with \<open>d\<close> loaded when it is sent.\<close>

definition setup_complete :: "event_data \<Rightarrow> bool" where
  "setup_complete d \<longleftrightarrow> missingSetup (event_setup_of d) = []"

definition event_command_ok :: "string \<Rightarrow> event_data set \<Rightarrow> event_data \<Rightarrow> admin_command \<Rightarrow> bool" where
  "event_command_ok here seen d c \<longleftrightarrow>
     (case c of
        C_lifecycle i a \<Rightarrow> i = here \<and>
          (server_transition (Act a) (ed_state d) \<noteq> None \<and> (a = Open_Sales \<longrightarrow> setup_complete d) \<or>
           (\<exists>e \<in> seen. may_confirm (ed_state e) (Act a)))
      | C_cancelEvent i r \<Rightarrow> i = here \<and> r \<noteq> [] \<and> trim r = r \<and> (\<exists>e \<in> seen. may_confirm (ed_state e) Cancel_Event)
      | C_createPriceTier i code name amount cur \<Rightarrow> i = here \<and> code \<noteq> [] \<and> name \<noteq> [] \<and> 0 \<le> amount
      | C_materializeLayout i l \<Rightarrow> i = here \<and> \<not> es_layout (event_setup_of d) \<and> (\<exists>e \<in> seen. l \<in> set (ed_published e))
      | C_assignPricing i t ss rs gs \<Rightarrow> i = here \<and> (t = [] \<or> (\<exists>e \<in> seen. t \<in> set (ed_active_tiers e)))
      | C_setEventAccess i p enabled \<Rightarrow> i = here \<and> (p, True, \<not> enabled) \<in> set (ed_access d)
      | _ \<Rightarrow> False)"

lemma event_command_mono: "event_command_ok here seen d c \<Longrightarrow> seen \<subseteq> seen' \<Longrightarrow> event_command_ok here seen' d c"
  by (cases c; simp add: event_command_ok_def; blast)

lemma lifecycle_commands:
  assumes "view_held seen v" and "press_lifecycle to_millis now here d a v = (v', cs)" and "c \<in> set cs"
  shows "event_command_ok here seen d c"
proof (cases a)
  case Primary
  obtain q sent where q: "runPrimary here (primaryAction to_millis now (ed_state d) (ed_sales_open_at d))
      (missingSetup (event_setup_of d)) (ev_page v) = (q, sent)" by fastforce
  then obtain i x r where sent: "sent = Some (i, x, r)" "c = im_call (event_lifecycle here) (i, x, r)"
    using assms(2,3) Primary by (auto simp: press_lifecycle_def sent_lifecycle_def split: option.splits)
  then have "i = here \<and> r = None \<and> server_transition x (ed_state d) \<noteq> None \<and>
      (x = Act Open_Sales \<longrightarrow> setup_complete d)"
    using runPrimary_sends [of here to_millis now "ed_state d" "ed_sales_open_at d" "event_setup_of d" "ev_page v" i x r] q
    by (simp add: setup_complete_def missingSetup_Nil)
  moreover have "x \<noteq> Cancel_Event" using q sent(1) by (auto simp: runPrimary_def split: option.splits if_splits)
  ultimately show ?thesis using sent(2) by (cases x) (auto simp: event_lifecycle_def event_command_ok_def)
next
  case (Submit_Confirm form)
  then obtain i x r where sent: "runConfirmed here form (ev_page v) = Some (i, x, r)" "c = im_call (event_lifecycle here) (i, x, r)"
    using assms(2,3) by (auto simp: press_lifecycle_def sent_lifecycle_def split: option.splits)
  from runConfirmed_sends [OF sent(1)] have "i = here" "confirming (ev_page v) = Some x"
    "x = Cancel_Event \<Longrightarrow> \<exists>y. r = Some y \<and> y \<noteq> [] \<and> trim y = y" by (auto simp: confirming_def)
  moreover then have "\<exists>e \<in> seen. may_confirm (ed_state e) x" using assms(1) by (simp add: view_held_def)
  ultimately show ?thesis using sent(2) by (cases x) (auto simp: event_lifecycle_def event_command_ok_def nullish_def)
qed (use assms(2,3) in \<open>auto simp: press_lifecycle_def\<close>)

lemma setup_commands:
  assumes "view_held seen v" and "press_setup to_number f here d a v = (v', cs)" and "c \<in> set cs"
  shows "event_command_ok here seen d c"
proof (cases a)
  case (Submit_Price form)
  then obtain i x where v: "submitPrice to_number here form (ev_price v) = Some (i, x)" "c = im_call (event_price to_number here) (i, x)"
    using assms(2,3) by (auto simp: setup_controls split: if_splits option.splits)
  have "i = here" using v(1) by (auto simp: submitPrice_def Let_def split: if_splits)
  then show ?thesis using submitPrice_sends [OF v(1)] v(2) by (auto simp: event_command_ok_def)
next
  case Materialize
  then have "c = im_call (event_materialize here) (here, ev_layoutId v)" "ev_layoutId v \<noteq> []" "layout_chosen_shown d"
    using assms(2,3) by (auto simp: setup_controls split: if_splits)
  then show ?thesis using assms(1) by (simp add: event_command_ok_def event_materialize_def layout_chosen_shown_def view_held_def)
next
  case Apply_Pricing
  then have "c = im_call (event_assign f here) (here, ev_tierId v, ev_targets v)"
    using assms(2,3) by (auto simp: setup_controls split: if_splits)
  then show ?thesis using assms(1) by (auto simp: event_command_ok_def event_assign_def view_held_def)
next
  case (Toggle_Access i)
  then obtain enabled where "map_of (ed_access d) i = Some (True, enabled)" "c = im_call (event_access here) (here, i, \<not> enabled)"
    using assms(2,3) by (auto simp: setup_controls split: if_splits option.splits bool.splits prod.splits)
  then show ?thesis by (auto simp: event_command_ok_def event_access_def dest: map_of_SomeD)
qed (use assms(2,3) in \<open>auto simp: setup_controls split: if_splits\<close>)

lemma event_press_commands:
  assumes "view_held seen v" and "d \<in> seen" and "event_press to_millis now to_number f here d a v = (v', cs)" and "c \<in> set cs"
  shows "event_command_ok here seen d c"
proof -
  obtain u us where u: "press_lifecycle to_millis now here d a v = (u, us)" by fastforce
  obtain w ws where w: "press_setup to_number f here d a u = (w, ws)" by fastforce
  have "c \<in> set us \<or> c \<in> set ws" using assms(3,4) u w by (auto simp: event_press_def)
  moreover have "view_held seen u" using lifecycle_cells [OF u] by (intro view_held_step [OF assms(1,2)]) auto
  ultimately show ?thesis using lifecycle_commands [OF assms(1) u] setup_commands [OF _ w] by blast
qed

text \<open>
  C16: Whatever is loaded, pressed and answered in whatever order, the event page sends no other
  commands than these, and only so: the primary button sends what the backend allows in the loaded
  state, and opens sales only after complete setup; what a dialog confirms was allowed in a state that
  was loaded, a cancellation with a reason; a layout is materialized only if it was loaded as
  published and none is in place; a price has a name, a code and an amount; a tier that is assigned
  was loaded as active; and the access of an active partner is turned to what it is not.
\<close>

theorem event_commands_guarded:
  assumes "event_run to_millis to_number f here v seen sent" and "(d, c) \<in> sent"
  shows "d \<in> seen \<and> event_command_ok here seen d c"
  using assms
proof (induction arbitrary: d c rule: event_run.induct)
  case (loaded v seen sent e)
  then show ?case using event_command_mono by (metis insertI2 subset_insertI)
next
  case (pressed v seen sent e now a v' cs)
  note held = event_run_held [OF pressed.hyps(1)]
  then have e: "e \<in> seen" using pressed.hyps(2) by (simp add: view_held_def)
  show ?case
  proof (cases "(d, c) \<in> sent")
    case True
    then show ?thesis by (rule pressed.IH)
  next
    case False
    then have "d = e" "c \<in> set cs" using pressed.prems by auto
    then show ?thesis using event_press_commands [OF held e pressed.hyps(3)] e by simp
  qed
qed auto

definition demo_event_data :: event_data where
  "demo_event_data =
     \<lparr>ed_state = Ev_Draft, ed_sales_open_at = None,
      ed_configuration = Some \<lparr>ec_policy = Some (JObj []), ec_layout_finalized_at = Some ''2026-01-01'', ec_tiers_active = [True]\<rparr>,
      ed_inventory = Some 3, ed_access = [], ed_active_tiers = [''t1''], ed_published = []\<rparr>"

theorem event_commands_guarded_witness:
  "demo_event_data \<in> {demo_event_data} \<and> event_command_ok ''e1'' {demo_event_data} demo_event_data (C_lifecycle ''e1'' Open_Sales)"
proof -
  let ?v = "initial_event_cells\<lparr>ev_data := Some demo_event_data\<rparr>"
  have press: "event_press (\<lambda>_. None) 0 (\<lambda>_. None) (\<lambda>_. []) ''e1'' demo_event_data Primary ?v = (?v, [C_lifecycle ''e1'' Open_Sales])"
    by (simp add: event_press_def press_lifecycle_def setup_controls demo_event_data_def primaryAction_def runPrimary_def
        event_setup_of_def setup_of_def missingSetup_def sent_lifecycle_def event_lifecycle_def nullish_def initial_event_cells_def)
  have "event_run (\<lambda>_. None) (\<lambda>_. None) (\<lambda>_. []) ''e1'' ?v {demo_event_data} ({} \<union> Pair demo_event_data ` set [C_lifecycle ''e1'' Open_Sales])"
    by (rule event_run.pressed [OF event_run.loaded [OF event_run.opened] _ press]) simp
  from event_commands_guarded [OF this] show ?thesis by simp
qed

section \<open>Where the page seems not to do what it means to\<close>

text \<open>
  The button "Keep event" closes the dialog without forgetting the reason: the next dialog, of
  another action and without a field for it, is confirmed with the reason typed for the cancellation
  (which its intent names, though not its request).
\<close>

lemma kept_reason_sent_again:
  assumes "ep_reason (ev_page v) = r" and "trim r = r" and "r \<noteq> []" and "Act Close_Sales \<in> set (moreActions (ed_state d))"
    and "kept = fst (press_lifecycle to_millis now here d Keep_Event v)"
    and "chosen = fst (press_lifecycle to_millis now here d (More (Act Close_Sales)) kept)"
  shows "runConfirmed here None (ev_page chosen) = Some (here, Act Close_Sales, Some r)"
  using assms by (simp add: press_lifecycle_def chooseAction_def runConfirmed_def form_or_def nullish_def or_else_def)

text \<open>
  An answer to a confirmed action closes whatever dialog is open: one that was opened while the
  first action was under way disappears.
\<close>

lemma answer_closes_other_dialog:
  "confirming (ev_page (event_answered Lifecycle_Confirmed (fst (press_lifecycle to_millis now here d (More x) v)))) = None"
  by (simp add: event_answered_def close_confirm_def confirming_def)

end
