(* ===== verification/Partner_Page.thy ===== *)
theory Partner_Page
  imports Partner_Detail
begin

text \<open>
  The partner page as a whole (\<^verbatim>\<open>partners/PartnerDetailPage.tsx\<close>): its cells, what each control does
  while the partner is loaded, what each awaited command does when it succeeds, and which commands
  the page can send.
\<close>

section \<open>The page\<close>

text \<open>The partner as loaded: credentials and events with whether they are active.\<close>

record partner_data =
  pd_active :: bool
  pd_urls :: "string list"
  pd_credentials :: "(string \<times> bool) list"
  pd_access :: "(string \<times> bool) list"

datatype partner_tab = Overview_Tab | Access_Tab | Credentials_Tab | Webhooks_Tab | Activity_Tab

record partner_page =
  pp_data :: "partner_data option"
  pp_tab :: partner_tab
  pp_secret :: string
  pp_grantEventId :: string
  pp_revokeId :: string
  pp_stateConfirm :: bool
  pp_returnURLs :: string
  pp_returnURLsSaved :: bool

definition initial_partner_page :: partner_page where
  "initial_partner_page =
     \<lparr>pp_data = None, pp_tab = Overview_Tab, pp_secret = [], pp_grantEventId = [], pp_revokeId = [], pp_stateConfirm = False,
      pp_returnURLs = [], pp_returnURLsSaved = False\<rparr>"

text \<open>
  New data. The list of URLs keeps its identity when it is the same again, so the effect that fills
  the text runs only when it changed.
\<close>

definition partner_loaded :: "partner_data \<Rightarrow> partner_page \<Rightarrow> partner_page" where
  "partner_loaded d p =
     (let p' = p\<lparr>pp_data := Some d\<rparr>
      in if map_option pd_urls (pp_data p) = Some (pd_urls d) then p' else p'\<lparr>pp_returnURLs := join [CHR 0x0A] (pd_urls d)\<rparr>)"

datatype partner_action =
    Press_Tab partner_tab
  | Press_Issue
  | Close_Secret
  | Press_Revoke string
  | Keep_Credential
  | Confirm_Revoke
  | Press_State
  | Cancel_State
  | Confirm_State
  | Select_Event string
  | Press_Grant
  | Press_Row string bool        \<comment> \<open>a row's button: the event, and whether it enables\<close>
  | Type_URLs string
  | Submit_URLs "string option"

text \<open>The handlers of the loaded page; \<open>events\<close> are the events that are loaded. That a control is on one
  of the tabs, or busy, is left out: a control may be pressed at any time its data allow.\<close>

definition ask_revoke :: "partner_data \<Rightarrow> string \<Rightarrow> partner_page \<Rightarrow> partner_page" where
  "ask_revoke d i p = (if (i, True) \<in> set (pd_credentials d) then p\<lparr>pp_revokeId := i\<rparr> else p)"

definition revokeCredential :: "string \<Rightarrow> partner_page \<Rightarrow> admin_command list" where
  "revokeCredential here p = (if pp_revokeId p = [] then [] else [im_call (partner_revoke here) (here, pp_revokeId p)])"

definition changeState :: "string \<Rightarrow> partner_data \<Rightarrow> partner_page \<Rightarrow> admin_command list" where
  "changeState here d p =
     (if pp_stateConfirm p then [im_call (partner_state here) (partner_changeState here (pd_active d))] else [])"

definition select_event :: "partner_data \<Rightarrow> string list \<Rightarrow> string \<Rightarrow> partner_page \<Rightarrow> partner_page" where
  "select_event d events e p =
     (if e = [] \<or> e \<in> set (availableEvents (pd_access d) events) then p\<lparr>pp_grantEventId := e\<rparr> else p)"

definition press_grant :: "string \<Rightarrow> partner_data \<Rightarrow> partner_page \<Rightarrow> admin_command list" where
  "press_grant here d p =
     (if \<not> pd_active d then []
      else case partner_grant here (pp_grantEventId p) of None \<Rightarrow> [] | Some v \<Rightarrow> [im_call (partner_access here) v])"

definition press_row :: "string \<Rightarrow> partner_data \<Rightarrow> string \<Rightarrow> bool \<Rightarrow> admin_command list" where
  "press_row here d e enable =
     (if (e, \<not> enable) \<in> set (pd_access d) \<and> (enable \<longrightarrow> pd_active d)
      then [im_call (partner_access here) (here, e, enable)] else [])"

definition submit_urls ::
    "(string \<Rightarrow> parsed_url option) \<Rightarrow> string \<Rightarrow> string option \<Rightarrow> partner_page \<Rightarrow> partner_page \<times> admin_command list" where
  "submit_urls new_url here form p =
     (p\<lparr>pp_returnURLs := form_or form (pp_returnURLs p)\<rparr>,
      case saveReturnURLs new_url here form (pp_returnURLs p) of
        None \<Rightarrow> [] | Some v \<Rightarrow> [im_call (partner_checkoutURLs here) v])"

definition partner_press ::
    "(string \<Rightarrow> parsed_url option) \<Rightarrow> string \<Rightarrow> string list \<Rightarrow> partner_data \<Rightarrow> partner_action \<Rightarrow> partner_page \<Rightarrow>
     partner_page \<times> admin_command list" where
  "partner_press new_url here events d a p =
     (case a of
        Press_Tab t \<Rightarrow> (p\<lparr>pp_tab := t\<rparr>, [])
      | Press_Issue \<Rightarrow> (p, [im_call (partner_issue here) here])
      | Close_Secret \<Rightarrow> (p\<lparr>pp_secret := []\<rparr>, [])
      | Press_Revoke i \<Rightarrow> (ask_revoke d i p, [])
      | Keep_Credential \<Rightarrow> (p\<lparr>pp_revokeId := []\<rparr>, [])
      | Confirm_Revoke \<Rightarrow> (p, revokeCredential here p)
      | Press_State \<Rightarrow> (p\<lparr>pp_stateConfirm := True\<rparr>, [])
      | Cancel_State \<Rightarrow> (p\<lparr>pp_stateConfirm := False\<rparr>, [])
      | Confirm_State \<Rightarrow> (p, changeState here d p)
      | Select_Event e \<Rightarrow> (select_event d events e p, [])
      | Press_Grant \<Rightarrow> (p, press_grant here d p)
      | Press_Row e enable \<Rightarrow> (p, press_row here d e enable)
      | Type_URLs t \<Rightarrow> (p\<lparr>pp_returnURLs := t, pp_returnURLsSaved := False\<rparr>, [])
      | Submit_URLs form \<Rightarrow> submit_urls new_url here form p)"

lemmas partner_controls = partner_press_def ask_revoke_def revokeCredential_def changeState_def select_event_def press_grant_def
  press_row_def submit_urls_def

text \<open>After an awaited command succeeded.\<close>

datatype partner_answer = Issued string | Revoked | State_Changed | Granted | URLs_Saved

definition partner_answered :: "partner_answer \<Rightarrow> partner_page \<Rightarrow> partner_page" where
  "partner_answered a p =
     (case a of
        Issued credential \<Rightarrow> p\<lparr>pp_secret := credential, pp_tab := Credentials_Tab\<rparr>
      | Revoked \<Rightarrow> p\<lparr>pp_revokeId := []\<rparr>
      | State_Changed \<Rightarrow> p\<lparr>pp_stateConfirm := False\<rparr>
      | Granted \<Rightarrow> p\<lparr>pp_grantEventId := []\<rparr>
      | URLs_Saved \<Rightarrow> p\<lparr>pp_returnURLsSaved := True\<rparr>)"

section \<open>Runs\<close>

text \<open>
  Any order of loads, presses and answers. \<open>seen\<close> are the loads, \<open>sent\<close> the commands, each with
  what was loaded when it was sent.
\<close>

inductive partner_run ::
    "(string \<Rightarrow> parsed_url option) \<Rightarrow> string \<Rightarrow> partner_page \<Rightarrow> partner_data set \<Rightarrow> (partner_data \<times> admin_command) set \<Rightarrow> bool"
  for new_url here where
  opened: "partner_run new_url here initial_partner_page {} {}"
| loaded: "partner_run new_url here p seen sent \<Longrightarrow> partner_run new_url here (partner_loaded d p) (insert d seen) sent"
| pressed: "partner_run new_url here p seen sent \<Longrightarrow> pp_data p = Some d \<Longrightarrow> partner_press new_url here events d a p = (p', cs) \<Longrightarrow>
    partner_run new_url here p' seen (sent \<union> Pair d ` set cs)"
| answered: "partner_run new_url here p seen sent \<Longrightarrow> partner_run new_url here (partner_answered a p) seen sent"

definition page_held :: "partner_data set \<Rightarrow> partner_page \<Rightarrow> bool" where
  "page_held seen p \<longleftrightarrow>
     (\<forall>d. pp_data p = Some d \<longrightarrow> d \<in> seen) \<and>
     (pp_revokeId p \<noteq> [] \<longrightarrow> (\<exists>d \<in> seen. (pp_revokeId p, True) \<in> set (pd_credentials d))) \<and>
     (pp_grantEventId p \<noteq> [] \<longrightarrow> (\<exists>d \<in> seen. (pp_grantEventId p, True) \<notin> set (pd_access d)))"

lemma page_held_mono: "page_held seen p \<Longrightarrow> seen \<subseteq> seen' \<Longrightarrow> page_held seen' p"
  unfolding page_held_def by blast

lemma press_cells:
  assumes "partner_press new_url here events d a p = (p', cs)"
  shows "pp_data p' = pp_data p"
    and "pp_revokeId p' \<in> {pp_revokeId p, []} \<or> (pp_revokeId p', True) \<in> set (pd_credentials d)"
    and "pp_grantEventId p' \<in> {pp_grantEventId p, []} \<or> (pp_grantEventId p', True) \<notin> set (pd_access d)"
  using assms by (cases a; force simp: partner_controls availableEvents_def list_ex_iff split: if_splits)+

lemma run_held: "partner_run new_url here p seen sent \<Longrightarrow> page_held seen p"
proof (induction rule: partner_run.induct)
  case opened
  then show ?case by (simp add: page_held_def initial_partner_page_def)
next
  case (loaded p seen sent d)
  then show ?case by (auto simp: page_held_def partner_loaded_def Let_def)
next
  case (pressed p seen sent d events a p' cs)
  have "d \<in> seen" using pressed.IH pressed.hyps(2) by (simp add: page_held_def)
  then show ?case using pressed.IH press_cells [OF pressed.hyps(3)] unfolding page_held_def by (metis insertE singletonD)
next
  case (answered p seen sent a)
  then show ?case by (cases a) (auto simp: page_held_def partner_answered_def)
qed

text \<open>What a command of the page may be, with \<open>d\<close> loaded when it is sent.\<close>

definition partner_command_ok ::
    "(string \<Rightarrow> parsed_url option) \<Rightarrow> string \<Rightarrow> partner_data set \<Rightarrow> partner_data \<Rightarrow> admin_command \<Rightarrow> bool" where
  "partner_command_ok new_url here seen d c \<longleftrightarrow>
     (case c of
        C_issuePartnerCredential i \<Rightarrow> i = here
      | C_revokePartnerCredential i \<Rightarrow> i \<noteq> [] \<and> (\<exists>e \<in> seen. (i, True) \<in> set (pd_credentials e))
      | C_setPartnerState i enabled \<Rightarrow> i = here \<and> enabled = (\<not> pd_active d)
      | C_setEventAccess e i enabled \<Rightarrow>
          i = here \<and> (if enabled then pd_active d \<and> ((e, False) \<in> set (pd_access d) \<or> (\<exists>f \<in> seen. (e, True) \<notin> set (pd_access f)))
                      else (e, True) \<in> set (pd_access d))
      | C_setPartnerAllowedReturnURLs i urls \<Rightarrow> i = here \<and> list_all (\<lambda>u. u \<noteq> [] \<and> trim u = u \<and> \<not> bad_return_url new_url u) urls
      | _ \<Rightarrow> False)"

lemma partner_command_mono: "partner_command_ok new_url here seen d c \<Longrightarrow> seen \<subseteq> seen' \<Longrightarrow> partner_command_ok new_url here seen' d c"
  by (cases c) (auto simp: partner_command_ok_def, blast)

lemma press_commands:
  assumes "page_held seen p" and "partner_press new_url here events d a p = (p', cs)" and "c \<in> set cs"
  shows "partner_command_ok new_url here seen d c"
proof (cases a)
  case (Submit_URLs form)
  then obtain i urls where v: "saveReturnURLs new_url here form (pp_returnURLs p) = Some (i, urls)"
    "c = C_setPartnerAllowedReturnURLs i urls"
    using assms(2,3) by (auto simp: partner_controls partner_checkoutURLs_def split: option.splits)
  then have "i = here" by (auto simp: saveReturnURLs_def Let_def split: if_splits)
  moreover have "list_all (\<lambda>u. u \<noteq> [] \<and> trim u = u \<and> \<not> bad_return_url new_url u) urls"
    using saved_urls_ok [OF v(1)] by (auto simp: list_all_iff)
  ultimately show ?thesis by (simp add: partner_command_ok_def v(2))
qed (use assms in \<open>auto simp: partner_controls partner_command_ok_def page_held_def partner_issue_def partner_revoke_def
  partner_state_def partner_changeState_def partner_grant_def partner_access_def split: if_splits\<close>)

text \<open>
  C17: Whatever is loaded, pressed and answered in whatever order, the partner page sends no other
  commands than these, and only so: it issues credentials of its partner, revokes only a credential
  that was loaded as active, turns the partner's state to the other one than is loaded, enables an
  event only for an active partner and one that was loaded as not enabled, disables only enabled ones,
  and saves only complete HTTPS URLs without credentials or fragment.
\<close>

theorem partner_commands_guarded:
  assumes "partner_run new_url here p seen sent" and "(d, c) \<in> sent"
  shows "d \<in> seen \<and> partner_command_ok new_url here seen d c"
  using assms
proof (induction arbitrary: d c rule: partner_run.induct)
  case (loaded p seen sent e)
  then show ?case using partner_command_mono by (metis insertI2 subset_insertI)
next
  case (pressed p seen sent e events a p' cs)
  note held = run_held [OF pressed.hyps(1)]
  show ?case
  proof (cases "(d, c) \<in> sent")
    case True
    then show ?thesis by (rule pressed.IH)
  next
    case False
    then have new: "d = e" "c \<in> set cs" using pressed.prems by auto
    then have "d \<in> seen" using held pressed.hyps(2) by (simp add: page_held_def)
    then show ?thesis using press_commands [OF held pressed.hyps(3) new(2)] new(1) by simp
  qed
qed auto

definition demo_partner_data :: partner_data where
  "demo_partner_data =
     \<lparr>pd_active = True, pd_urls = [], pd_credentials = [(''c1'', True), (''c2'', False)], pd_access = [(''e1'', False)]\<rparr>"

theorem partner_commands_guarded_witness:
  "demo_partner_data \<in> {demo_partner_data} \<and>
   partner_command_ok (\<lambda>_. None) ''p1'' {demo_partner_data} demo_partner_data (C_revokePartnerCredential ''c1'')"
proof -
  let ?d = demo_partner_data
  let ?p = "partner_loaded ?d initial_partner_page" and ?run = "partner_run (\<lambda>_. None) ''p1''"
  have asked: "partner_press (\<lambda>_. None) ''p1'' [] ?d (Press_Revoke ''c1'') ?p = (?p\<lparr>pp_revokeId := ''c1''\<rparr>, [])"
    by (simp add: partner_controls demo_partner_data_def)
  have confirmed: "partner_press (\<lambda>_. None) ''p1'' [] ?d Confirm_Revoke (?p\<lparr>pp_revokeId := ''c1''\<rparr>) =
      (?p\<lparr>pp_revokeId := ''c1''\<rparr>, [C_revokePartnerCredential ''c1''])"
    by (simp add: partner_controls partner_revoke_def)
  have data: "pp_data ?p = Some ?d" "pp_data (?p\<lparr>pp_revokeId := ''c1''\<rparr>) = Some ?d" by (simp_all add: partner_loaded_def Let_def)
  have "?run ?p {?d} {}" using partner_run.loaded [OF partner_run.opened] by simp
  from partner_run.pressed [OF partner_run.pressed [OF this data(1) asked] data(2) confirmed]
  show ?thesis using partner_commands_guarded by fastforce
qed

section \<open>Where the page seems not to do what it means to\<close>

text \<open>
  What is typed while the URLs are being saved is lost when the saved ones are loaded, and until
  then the page calls it saved.
\<close>

lemma edits_while_saving_lost:
  assumes "pp_data p = Some d" and "pd_urls d' \<noteq> pd_urls d"
    and "typed = fst (partner_press new_url here events d (Type_URLs later) p)" and "saved = partner_answered URLs_Saved typed"
  shows "pp_returnURLs saved = later \<and> pp_returnURLsSaved saved \<and>
    pp_returnURLs (partner_loaded d' saved) = join [CHR 0x0A] (pd_urls d')"
  using assms by (simp add: partner_controls partner_answered_def partner_loaded_def)

end
