(* ===== verification/Review_Player.thy ===== *)
theory Review_Player
  imports Complex_Main Js_Text
begin

text \<open>
  The guided review (\<^verbatim>\<open>reviewer-web/src/ReviewPlayer.tsx\<close>, \<^verbatim>\<open>config.ts\<close>): its configuration, the
  slides built from the phases, and moving between them. The phases themselves are content; a
  phase is its id, its name and its actions. The URL parser of \<open>appPath\<close> is a parameter.
\<close>

section \<open>Configuration\<close>

definition config_url :: "string option \<Rightarrow> string \<Rightarrow> string" where
  "config_url v fallback = or_else (case v of None \<Rightarrow> [] | Some s \<Rightarrow> trim s) fallback"

definition developmentURL :: "bool \<Rightarrow> nat \<Rightarrow> string" where
  "developmentURL dev port = (if dev then ''http://localhost:'' @ nat_str port else [])"

record review_config =
  rc_admin :: string
  rc_partner :: string
  rc_selector :: string
  rc_scanner :: string
  rc_docs :: string
  rc_source :: string
  rc_architecture :: string
  rc_security :: string
  rc_runtime :: string
  rc_accessLabel :: string
  rc_accessEmail :: string
  rc_accessPassword :: string
  rc_accessInstructions :: string

definition repository_url :: string where
  "repository_url = ''https://github.com/Kahmyl/tktsync''"

definition getReviewConfig :: "(string \<Rightarrow> string option) \<Rightarrow> bool \<Rightarrow> review_config" where
  "getReviewConfig env dev =
     \<lparr>rc_admin = config_url (env ''VITE_ADMIN_PUBLIC_URL'') (developmentURL dev 54470),
      rc_partner = config_url (env ''VITE_PARTNER_DEMO_PUBLIC_URL'') (developmentURL dev 54474),
      rc_selector = config_url (env ''VITE_SELECTOR_PUBLIC_URL'') (developmentURL dev 54471),
      rc_scanner = config_url (env ''VITE_SCANNER_PUBLIC_URL'') (developmentURL dev 54472),
      rc_docs = config_url (env ''VITE_DOCS_PUBLIC_URL'') (developmentURL dev 54473),
      rc_source = config_url (env ''VITE_SOURCE_URL'') repository_url,
      rc_architecture = config_url (env ''VITE_ARCHITECTURE_URL'') (repository_url @ ''/tree/main/docs/architecture''),
      rc_security = config_url (env ''VITE_SECURITY_URL'') (repository_url @ ''/blob/main/docs/architecture/security.md''),
      rc_runtime = config_url (env ''VITE_RUNTIME_URL'') (repository_url @ ''/blob/main/docs/operations/runtime-model.md''),
      rc_accessLabel = config_url (env ''VITE_REVIEW_ACCESS_LABEL'') [],
      rc_accessEmail = config_url (env ''VITE_REVIEW_ACCESS_EMAIL'') [],
      rc_accessPassword = config_url (env ''VITE_REVIEW_ACCESS_PASSWORD'') [],
      rc_accessInstructions = config_url (env ''VITE_REVIEW_ACCESS_INSTRUCTIONS'') []\<rparr>"

definition shows_access :: "review_config \<Rightarrow> bool" where
  "shows_access c \<longleftrightarrow> rc_accessEmail c \<noteq> [] \<or> rc_accessPassword c \<noteq> [] \<or> rc_accessInstructions c \<noteq> []"

text \<open>\<open>parse_url path base\<close> is the text of the resolved URL, \<^const>\<open>None\<close> when the parser throws.\<close>

definition appPath :: "(string \<Rightarrow> string \<Rightarrow> string option) \<Rightarrow> string \<Rightarrow> string \<Rightarrow> string" where
  "appPath parse_url base path =
     (if base = [] then []
      else nullish (parse_url path ((if last base = CHR ''/'' then butlast base else base) @ ''/'')) base)"

section \<open>Slides\<close>

record review_phase =
  ph_id :: string
  ph_name :: string
  ph_titles :: "string list"   \<comment> \<open>of the actions\<close>

datatype slide =
    Welcome | Boundary | Technical | Finish
  | Action_Slide review_phase nat string nat   \<comment> \<open>phase, its index, the action's title and index\<close>

primrec slide_id :: "slide \<Rightarrow> string" where
  "slide_id Welcome = ''welcome''"
| "slide_id Boundary = ''boundary''"
| "slide_id Technical = ''technical''"
| "slide_id Finish = ''finish''"
| "slide_id (Action_Slide phase phaseIndex title actionIndex) = ph_id phase @ ''-'' @ nat_str (actionIndex + 1)"

definition phase_slides :: "nat \<Rightarrow> review_phase \<Rightarrow> slide list" where
  "phase_slides phaseIndex phase =
     map (\<lambda>(actionIndex, title). Action_Slide phase phaseIndex title actionIndex) (enumerate 0 (ph_titles phase))"

definition buildSlides :: "review_phase list \<Rightarrow> slide list" where
  "buildSlides phases =
     [Welcome, Boundary] @ concat (map (\<lambda>(i, p). phase_slides i p) (enumerate 0 phases)) @ [Technical, Finish]"

section \<open>The player\<close>

datatype direction = Forward | Back

record review_player =
  pl_index :: nat
  pl_direction :: direction
  pl_hash :: string

text \<open>\<open>xs.findIndex(P)\<close>, -1 when nothing matches.\<close>

fun find_index :: "('a \<Rightarrow> bool) \<Rightarrow> 'a list \<Rightarrow> int" where
  "find_index P [] = - 1"
| "find_index P (x # xs) = (if P x then 0 else (let i = find_index P xs in if i < 0 then - 1 else i + 1))"

definition open_player :: "slide list \<Rightarrow> string \<Rightarrow> review_player" where
  "open_player slides hash =
     \<lparr>pl_index = nat (max 0 (find_index (\<lambda>s. slide_id s = drop 1 hash) slides)), pl_direction = Forward, pl_hash = hash\<rparr>"

definition player_move :: "slide list \<Rightarrow> review_player \<Rightarrow> int \<Rightarrow> review_player" where
  "player_move slides pl requested =
     (let target = nat (max 0 (min (int (length slides) - 1) requested))
      in \<lparr>pl_index = target, pl_direction = (if target < pl_index pl then Back else Forward),
          pl_hash = ''#'' @ slide_id (slides ! target)\<rparr>)"

datatype player_input = Arrow_Right bool | Arrow_Left bool | Next_Button | Previous_Button
  | Rail_Phase string | Rail_Docs | Brand_Button | Start_Button

definition phase_first :: "slide list \<Rightarrow> string \<Rightarrow> int" where
  "phase_first slides i = find_index (\<lambda>s. case s of Action_Slide p _ _ _ \<Rightarrow> ph_id p = i | _ \<Rightarrow> False) slides"

text \<open>An arrow key typed into a control of the page is its own; a disabled button does nothing.\<close>

definition player_input_step :: "slide list \<Rightarrow> review_player \<Rightarrow> player_input \<Rightarrow> review_player" where
  "player_input_step slides pl a =
     (case a of
        Arrow_Right in_control \<Rightarrow> if in_control then pl else player_move slides pl (int (pl_index pl) + 1)
      | Arrow_Left in_control \<Rightarrow> if in_control then pl else player_move slides pl (int (pl_index pl) - 1)
      | Next_Button \<Rightarrow> if int (pl_index pl) = int (length slides) - 1 then pl else player_move slides pl (int (pl_index pl) + 1)
      | Previous_Button \<Rightarrow> if pl_index pl = 0 then pl else player_move slides pl (int (pl_index pl) - 1)
      | Rail_Phase i \<Rightarrow> player_move slides pl (phase_first slides i)
      | Rail_Docs \<Rightarrow> player_move slides pl (find_index (\<lambda>s. s = Technical) slides)
      | Brand_Button \<Rightarrow> player_move slides pl 0
      | Start_Button \<Rightarrow> player_move slides pl 1)"

definition progress_percent :: "slide list \<Rightarrow> review_player \<Rightarrow> int" where
  "progress_percent slides pl = \<lfloor>(of_nat (pl_index pl + 1) / of_nat (length slides) :: rat) * 100 + 1 / 2\<rfloor>"

definition step_text :: "slide list \<Rightarrow> review_player \<Rightarrow> string" where
  "step_text slides pl =
     (case slides ! pl_index pl of
        Action_Slide phase phaseIndex _ actionIndex \<Rightarrow>
          ''Phase '' @ nat_str (phaseIndex + 1) @ [CHR '' '', CHR 0xC2, CHR 0xB7] @ '' Action '' @ nat_str (actionIndex + 1) @
          '' of '' @ nat_str (length (ph_titles phase))
      | Welcome \<Rightarrow> ''Start here''
      | Finish \<Rightarrow> ''Complete''
      | _ \<Rightarrow> ''Step '' @ nat_str (pl_index pl + 1))"

definition player_run :: "review_phase list \<Rightarrow> string \<Rightarrow> player_input list \<Rightarrow> review_player" where
  "player_run phases hash inputs =
     foldl (player_input_step (buildSlides phases)) (open_player (buildSlides phases) hash) inputs"

section \<open>Slides have different ids\<close>

lemma phase_slides_ids:
  "slide_id ` set (phase_slides i p) = (\<lambda>k. ph_id p @ ''-'' @ nat_str (k + 1)) ` {..< length (ph_titles p)}"
proof -
  have "set (phase_slides i p) = (\<lambda>k. Action_Slide p i (ph_titles p ! k) k) ` {..< length (ph_titles p)}"
    by (auto simp: phase_slides_def in_set_enumerate_eq image_iff)
  then show ?thesis by (simp add: image_image)
qed

lemma last_dash_unique:
  assumes "a @ ''-'' @ nat_str m = b @ ''-'' @ nat_str n"
  shows "a = b \<and> m = n"
proof -
  have "CHR ''-'' \<notin> set (rev (nat_str m))" "CHR ''-'' \<notin> set (rev (nat_str n))"
    using nat_str_no_char [OF minus_not_digit] by simp_all
  moreover have "rev (nat_str m) @ CHR ''-'' # rev a = rev (nat_str n) @ CHR ''-'' # rev b"
    using arg_cong [OF assms, of rev] by simp
  ultimately have "rev (nat_str m) = rev (nat_str n) \<and> rev a = rev b" by (metis append_sep_eq)
  then show ?thesis by simp
qed

lemma distinct_phase_slides: "distinct (map slide_id (phase_slides i p))"
proof -
  have "map slide_id (phase_slides i p) = map (\<lambda>k. ph_id p @ ''-'' @ nat_str (k + 1)) [0 ..< length (ph_titles p)]"
    by (rule nth_equalityI) (simp_all add: phase_slides_def nth_enumerate_eq)
  then show ?thesis by (simp add: distinct_map inj_on_def)
qed

definition ids_of :: "review_phase list \<Rightarrow> string set" where
  "ids_of ps = {a @ ''-'' @ nat_str k |a k. a \<in> ph_id ` set ps}"

definition all_phase_slides :: "nat \<Rightarrow> review_phase list \<Rightarrow> slide list" where
  "all_phase_slides n ps = concat (map (\<lambda>(i, p). phase_slides i p) (enumerate n ps))"

lemma all_phase_slides_simps [simp]:
  "all_phase_slides n [] = []"
  "all_phase_slides n (p # ps) = phase_slides n p @ all_phase_slides (Suc n) ps"
  by (simp_all add: all_phase_slides_def)

lemma phase_ids_subset: "slide_id ` set (phase_slides n p) \<subseteq> ids_of [p]"
  by (auto simp: phase_slides_ids ids_of_def)

lemma ids_of_disjoint: "ph_id p \<notin> ph_id ` set ps \<Longrightarrow> ids_of [p] \<inter> ids_of ps = {}"
proof -
  assume fresh: "ph_id p \<notin> ph_id ` set ps"
  have "x \<notin> ids_of ps" if "x \<in> ids_of [p]" for x
  proof
    assume "x \<in> ids_of ps"
    then obtain b k where b: "x = b @ ''-'' @ nat_str k" "b \<in> ph_id ` set ps" by (auto simp: ids_of_def)
    moreover from that obtain j where "x = ph_id p @ ''-'' @ nat_str j" by (auto simp: ids_of_def)
    ultimately have "b = ph_id p" using last_dash_unique by metis
    with b(2) fresh show False by simp
  qed
  then show ?thesis by blast
qed

lemma all_ids_subset: "slide_id ` set (all_phase_slides n ps) \<subseteq> ids_of ps"
proof (induction ps arbitrary: n)
  case (Cons p ps)
  have "ids_of (p # ps) = ids_of [p] \<union> ids_of ps" by (auto simp: ids_of_def)
  then show ?case using Cons.IH [of "Suc n"] phase_ids_subset [of n p] by (simp add: image_Un) blast
qed simp

lemma distinct_all_phases:
  "distinct (map ph_id ps) \<Longrightarrow> distinct (map slide_id (all_phase_slides n ps))"
proof (induction ps arbitrary: n)
  case (Cons p ps)
  then have "ph_id p \<notin> ph_id ` set ps" by simp
  from ids_of_disjoint [OF this] have "slide_id ` set (phase_slides n p) \<inter> slide_id ` set (all_phase_slides (Suc n) ps) = {}"
    using phase_ids_subset [of n p] all_ids_subset [of "Suc n" ps] by blast
  then show ?case using Cons distinct_phase_slides [of n p] by simp
qed simp

lemma distinct_slides:
  assumes "distinct (map ph_id phases)"
  shows "distinct (map slide_id (buildSlides phases))"
proof -
  have dash: "CHR ''-'' \<in> set x" if "x \<in> slide_id ` set (all_phase_slides 0 phases)" for x
    using that all_ids_subset [of 0 phases] by (auto simp: ids_of_def)
  have "w \<notin> slide_id ` set (all_phase_slides 0 phases)" if "CHR ''-'' \<notin> set w" for w
    using that dash by blast
  from this [of "''welcome''"] this [of "''boundary''"] this [of "''technical''"] this [of "''finish''"]
    distinct_all_phases [OF assms, of 0]
  show ?thesis by (simp add: buildSlides_def flip: all_phase_slides_def)
qed

lemma find_index_nth:
  assumes "distinct (map f xs)" "n < length xs"
  shows "find_index (\<lambda>x. f x = f (xs ! n)) xs = int n"
  using assms
proof (induction xs arbitrary: n)
  case (Cons x xs)
  then show ?case by (cases n) (auto simp: Let_def)
qed simp

lemma find_index_bounds: "- 1 \<le> find_index P xs \<and> find_index P xs < int (length xs)"
  by (induction P xs rule: find_index.induct) (auto simp: Let_def)

text \<open>The index is a slide; after the first move the location names it.\<close>

lemma step_in_range:
  assumes "slides \<noteq> []" "pl_index pl < length slides"
  shows "pl_index (player_input_step slides pl a) < length slides \<and>
    (player_input_step slides pl a = pl \<or>
     pl_hash (player_input_step slides pl a) = ''#'' @ slide_id (slides ! pl_index (player_input_step slides pl a)))"
proof -
  have "pl_index (player_move slides pl r) < length slides \<and>
      pl_hash (player_move slides pl r) = ''#'' @ slide_id (slides ! pl_index (player_move slides pl r))" for r
    using assms(1) by (cases "slides") (auto simp: player_move_def Let_def)
  then show ?thesis using assms(2) by (auto simp: player_input_step_def split: player_input.split)
qed

lemma open_in_range: "slides \<noteq> [] \<Longrightarrow> pl_index (open_player slides hash) < length slides"
  using find_index_bounds [of "\<lambda>s. slide_id s = drop 1 hash" slides] by (cases slides) (auto simp: open_player_def)

lemma slides_nonempty [simp]: "buildSlides phases \<noteq> []"
  by (simp add: buildSlides_def)

lemma run_in_range:
  "pl_index (player_run phases hash inputs) < length (buildSlides phases) \<and>
   (player_run phases hash inputs = open_player (buildSlides phases) hash \<or>
    pl_hash (player_run phases hash inputs) = ''#'' @ slide_id (buildSlides phases ! pl_index (player_run phases hash inputs)))"
  unfolding player_run_def
proof (induction inputs rule: rev_induct)
  case (snoc a inputs)
  then show ?case
    using step_in_range [of "buildSlides phases" "foldl (player_input_step (buildSlides phases)) (open_player (buildSlides phases) hash) inputs" a]
    by simp metis
qed (simp add: open_in_range)

text \<open>
  The player never leaves its slides, and the location it writes brings the reader back:
  opened again with the location it shows, it is at the same slide, for phases with distinct ids.
\<close>
theorem reopened_at_same_slide:
  assumes "distinct (map ph_id phases)"
  shows "pl_index (player_run phases hash inputs) < length (buildSlides phases) \<and>
    pl_index (open_player (buildSlides phases) (pl_hash (player_run phases hash inputs))) =
      pl_index (player_run phases hash inputs)"
proof (cases "player_run phases hash inputs = open_player (buildSlides phases) hash")
  case True
  then show ?thesis using run_in_range [of phases hash inputs] by (simp add: open_player_def)
next
  case False
  let ?s = "buildSlides phases" and ?n = "pl_index (player_run phases hash inputs)"
  from False run_in_range [of phases hash inputs]
  have n: "?n < length ?s" "pl_hash (player_run phases hash inputs) = ''#'' @ slide_id (?s ! ?n)" by blast+
  then show ?thesis
    using find_index_nth [OF distinct_slides [OF assms] n(1)] by (simp add: open_player_def)
qed

definition demo_phases :: "review_phase list" where
  "demo_phases =
     [\<lparr>ph_id = ''admin-setup'', ph_name = ''Configure an Event in Admin'', ph_titles = [''Review the Dashboard'', ''Create the venue'']\<rparr>,
      \<lparr>ph_id = ''partner'', ph_name = ''Storefront'', ph_titles = [''Choose the Partner storefront'']\<rparr>]"

theorem reopened_at_same_slide_witness:
  "pl_index (open_player (buildSlides demo_phases) (pl_hash (player_run demo_phases ''#partner-1'' [Next_Button, Arrow_Left False]))) =
     pl_index (player_run demo_phases ''#partner-1'' [Next_Button, Arrow_Left False])"
  using reopened_at_same_slide [of demo_phases "''#partner-1''" "[Next_Button, Arrow_Left False]"]
  by (simp add: demo_phases_def)

end
