(* ===== verification/Spec2Isabelle.thy ===== *)
theory Spec2Isabelle
  imports Selector_Properties Selection_Page_Properties Scanner_Gate_Properties Layout_Properties Admin_Properties Admin_Display
    Operator_Properties Browser_Telemetry Docs_Properties Storefront_Checkout Storefront_Typed Client_Requests Docs_Console Docs_Site Event_Page Partner_Page Review_Player
    "HOL-Library.Sublist"
begin

text \<open>
  TktSync: the logic of the browser applications.

  TktSync sells event tickets. A Go backend owns the state; the TypeScript applications under
  \<^verbatim>\<open>src/apps\<close> are its clients: the selector (a buyer chooses offers, reserves them for a limited time
  and hands the reservation to the seller), the scanner (a gate operator checks tickets) and the
  organiser application \<^verbatim>\<open>admin-web\<close> (events, venues, partners, restrictions, admissions). They share
  one problem: a command may have been executed although no answer arrived. Each keeps an
  idempotency key per intent and reuses it while the outcome is in doubt.

  Conventions. A React hook or page is a record of its state cells and refs; a handler that awaits
  the server is split into a start (the request and the state while waiting) and a finish (the
  state after the answer). Concurrency is a step relation whose states hold the requests in
  flight. Strings are UTF-8 byte lists; \<open>js_length\<close> counts UTF-16 units. Numbers are integers where
  the code counts, rationals where it measures. Fresh identifiers, the clock, the parsers of dates,
  numbers, URLs and JSON, the collation of strings and the formatting of numbers are arguments.

  Theories.
  \<^item> \<open>TS_Prelude\<close>, \<open>Js_Text\<close>, \<open>Js_Json\<close>, \<open>Json_Laws\<close>: \<open>??\<close> and \<open>||\<close>, decimal text, joining, the
    stable sort of \<open>Array.sort\<close> (locale \<open>preorder_compare\<close>); trimming, splitting, the regular
    expressions the code uses with \<open>replace\<close> (its fuel is the length of the text, and every step
    takes at least one byte), URI encoding; JSON values and \<open>JSON.stringify\<close>, which is injective.
  \<^item> The API's contract (\<^verbatim>\<open>packages/api-client/src/generated/schema.ts\<close>, the types that the clients
    are compiled against): \<open>Api_Types\<close> (types and the JSON values of a type), \<open>Api_Schemas\<close>,
    \<open>Api_Operations\<close>, \<open>Api_Paths\<close> (its schemas, operations and paths as values), \<open>Api_Contract\<close> (which
    requests it declares, and that those of the organiser application are), \<open>Client_Requests\<close> (those
    of the scanner and the selector).
  \<^item> \<open>Labels\<close>: \<open>humanLabel\<close> and \<open>humanName\<close> of the three applications.
  \<^item> \<open>Intent_Keys\<close>: the locale \<open>intent_store\<close> (same key while in doubt, a new one after a definite
    outcome, other intents untouched), interpreted on the selector's functions and on the code
    that the scanner and the organiser application write inline.
  \<^item> Selector (\<^verbatim>\<open>selector-web/src/features/selection\<close>): \<open>Selector_Types\<close> (\<^verbatim>\<open>types.ts\<close>),
    \<open>Selector_Presentation\<close> (\<^verbatim>\<open>presentation.ts\<close>), \<open>Selector_Session\<close> (\<^verbatim>\<open>useSelectionSession.ts\<close>),
    \<open>Selector_Realtime\<close> (\<^verbatim>\<open>realtime.ts\<close> and the frames of the backend's stream),
    \<open>Selector_Invariants\<close> (step relation and invariants), \<open>Selector_Properties\<close>; \<open>Selection_Page\<close> and
    \<open>Selection_Page_Properties\<close> (\<^verbatim>\<open>SelectionPage.tsx\<close>: summary, seat map, floor plan, screens).
  \<^item> Scanner (\<^verbatim>\<open>scanner-web/src/features/scanning\<close>): \<open>Scanner_Outcome\<close> (\<^verbatim>\<open>outcome.ts\<close>,
    \<^verbatim>\<open>device.ts\<close>), \<open>Scanner_Session\<close> (\<^verbatim>\<open>useScanner.ts\<close>), \<open>Scanner_Page\<close> (\<^verbatim>\<open>ScannerPage.tsx\<close>),
    \<open>Scanner_Invariants\<close> and \<open>Scanner_Properties\<close> (the scanner hook), \<open>Scanner_Gate\<close> (session hook, page
    and scanner hook as one system), \<open>Scanner_Refinement\<close> (the gate automaton it implements),
    \<open>Scanner_Gate_Properties\<close>.
  \<^item> Floor plan (\<^verbatim>\<open>admin-web/src/features/venues/layout-builder\<close>): \<open>Layout_Model\<close> (\<^verbatim>\<open>model.ts\<close>),
    \<open>Layout_Laws\<close>, \<open>Layout_Builder\<close> (\<^verbatim>\<open>LayoutBuilder.tsx\<close>, \<^verbatim>\<open>LayoutCanvas.tsx\<close>), \<open>Layout_Properties\<close>.
  \<^item> Organiser application (\<^verbatim>\<open>admin-web/src/features\<close>): \<open>Admin_Api\<close> (\<^verbatim>\<open>admin/api.ts\<close>: every request,
    its body and the mapping of answers), \<open>Admin_Queries\<close> (\<^verbatim>\<open>admin/queries.ts\<close>: cache keys, hooks,
    \<open>useIntentMutation\<close>), \<open>Admin_Forms\<close> (users, partners, venues, integrations, tickets, admissions),
    \<open>Event_Create\<close>, \<open>Event_Detail\<close>, \<open>Partner_Detail\<close>, \<open>Inventory_Targets\<close> and \<open>Restrictions\<close>
    (the pages of those names), \<open>Event_Page\<close> and \<open>Partner_Page\<close> (the event page and the partner page
    as wholes, over any order of loads, presses and answers), \<open>Admin_Intents\<close> (which intents determine their command),
    \<open>Admin_Properties\<close>, \<open>Admin_Display\<close> (\<^verbatim>\<open>lib/format.ts\<close>, searches, the dialogs of
    \<^verbatim>\<open>components/ui.tsx\<close>).
  \<^item> Operators: \<open>Operator_Session\<close> (\<^verbatim>\<open>auth/useOperatorSession.ts\<close> of the organiser application and
    of the scanner, two instances of the locale \<open>session_hook\<close>), \<open>Operator_Pages\<close> (sign-in pages,
    routes of \<^verbatim>\<open>app/App.tsx\<close>, top bar), \<open>Operator_Properties\<close>.
  \<^item> Documentation site (\<^verbatim>\<open>docs-web/src\<close>): \<open>Docs_Request\<close> (\<^verbatim>\<open>request.ts\<close>, and a reading of shell
    commands), \<open>Docs_Workbench\<close> (the console of \<^verbatim>\<open>main.tsx\<close>), \<open>Docs_Properties\<close>; \<open>Docs_Model\<close>
    (\<^verbatim>\<open>generated/docs-model.ts\<close>, the documented operations), \<open>Docs_Contract\<close> (they are the partner
    operations of the contract), \<open>Docs_Console\<close> (what the console sends for them);
    \<open>Docs_Guides\<close> (\<^verbatim>\<open>content.ts\<close>), \<open>Docs_Site\<close> (navigation, links, search and history of the site).
  \<^item> Sample storefront (\<^verbatim>\<open>partner-demo-web\<close>): \<open>Partner_Demo\<close> (the pages of \<^verbatim>\<open>src\<close>); the server
    \<^verbatim>\<open>server.mjs\<close>: \<open>Storefront_Web\<close> (percent and form encoding, request bodies, cookies, file paths),
    \<open>Storefront_Server\<close> (configuration, errors, handlers as interaction trees, the partner API
    client, sealed cookies), \<open>Storefront_Routes\<close> (every route and the listener),
    \<open>Storefront_Properties\<close>, \<open>Storefront_Checkout\<close> (the requests of a buyer's checkout);
    \<open>Storefront_Types\<close>, \<open>Storefront_Pages\<close>, \<open>Storefront_Typed\<close> (types of the handlers, which the code does
    not have: from the contract to the types that the pages of \<^verbatim>\<open>src/types.ts\<close> read).
  \<^item> \<open>Review_Player\<close> (\<^verbatim>\<open>reviewer-web/src\<close>, the guided review), with its properties.
  \<^item> \<open>Browser_Telemetry\<close> (\<^verbatim>\<open>packages/api-client/src/client.ts\<close>, \<^verbatim>\<open>browserTelemetry.ts\<close>).

  What the lemmas show. Each component has an invariant that every step keeps (\<open>selection_ok\<close>,
  \<open>check_ok\<close>, \<open>camera_ok\<close>, \<open>distinct_keys\<close>, \<open>picker_ok\<close>, \<open>panel_ok\<close>, \<open>wizard_ok\<close>, \<open>keys_ok\<close>,
  \<open>checkout_ok\<close>), the behaviour of its operations on every branch, and round trips where it writes
  what it reads (the event stream, the stored floor plan, generated seating, the countdown, the
  shell command of a sample, the address of a slide). The scanner refines a gate automaton and
  shows the verdict of every check under a weakly fair network; every idempotency key of a buyer's checkout names one
  request; every request of the clients, the documentation's console included, is declared by the
  contract, and under answers of its types the storefront's handlers never fail on a missing field
  (\<open>typed_act\<close>, a weakest precondition over their interaction trees); the session hooks refine what
  the authentication client tells them (\<open>told\<close>), and redirects, a partial function, always end. This
  theory holds the properties that span components: retrying a command has one effect, the
  applications keep keys alike, the organiser reads a decision as the gate was told it, and the
  reservation handed off by the selector is the one the storefront pays for.

  Where the code seems not to do what it means to, a lemma in the last section of a properties
  theory records it, and so does a lemma beside a property that has to leave a case out: a refusal
  that the API wants retried under the same key (\<open>retry_codes_drop_key\<close>), an object of the floor plan that
  is two things (\<open>stage_with_seats_overflows\<close>), the empty body of a begun checkout
  (\<open>begin_body_undeclared\<close>), a new credential in the documentation's console (\<open>credential_keeps_key\<close>).

  Simplifications. The handler \<open>submit_start\<close> takes the event of the render in which the check was
  started, which differs from the code only in runs that change the event meanwhile; quantities of
  general admission and the counts of the layout builder are integers, where the inputs of the page
  can report other numbers.

  Not modelled: the markup of the pages and the shared UI package, the query library's timers and
  its cache (a hook is its key, its call and whether it is enabled), the texts of the
  review's phases, and the Go backend, of which only the lifecycle table, the format of
  the realtime frames and the fields of a layout are used. The authentication client, the router, the URL parser of the storefront's listener, the formats of
  numbers and dates, and the sine and cosine of rotations are parameters. Response bodies are
  opaque JSON except for the fields the modelled handlers read.
\<close>

section \<open>Retries across the applications\<close>

lemma subseq_replicate: "subseq xs (replicate n r) \<Longrightarrow> xs = replicate (length xs) r"
  by (metis in_set_replicate notin_set_nthsI nths_all replicate_length_same subseq_conv_nths)

lemma idempotent_repeat:
  "(\<And>s. server (server s r) r = server s r) \<Longrightarrow> foldl server s (replicate (Suc n) r) = server s r"
  by (induction n arbitrary: s) simp_all

text \<open>
  C1: A command that is tried again until an answer arrives has the effect of one: whatever of its
  requests the network delivers, at least one of them, a server that treats a repeated
  idempotency key as the documentation says ends in the state of a single delivery.
\<close>

theorem retries_have_one_effect:
  assumes idempotent: "\<And>s r. keyed token created r \<Longrightarrow> server (server s r) r = server s r"
    and "store (im_intent m v) = None" and "created \<noteq> []" and "\<forall>e \<in> set (butlast ((created, awaited) # es)). snd e = None"
    and "subseq delivered (mutate_all to_text m token v ((created, awaited) # es) store)" and "delivered \<noteq> []"
  shows "foldl server s delivered = server s (command_request token created (im_call m v))"
proof -
  let ?r = "command_request token created (im_call m v)"
  have "delivered = replicate (length delivered) ?r"
    using assms(5) unfolding unanswered_same_request [of store, OF assms(2-4)] by (rule subseq_replicate)
  moreover obtain n where "length delivered = Suc n" using assms(6) by (cases delivered) auto
  ultimately have "delivered = replicate (Suc n) ?r" by simp
  then show ?thesis using idempotent_repeat [of server ?r] idempotent [OF command_request_keyed] by simp
qed

theorem retries_have_one_effect_witness:
  "foldl (\<lambda>log r. List.insert r log) []
     (mutate_all (\<lambda>_. []) (event_lifecycle ''e'') ''token'' (''e'', Act Pause_Sales, None) [(''k'', None), (''k2'', None)] Map.empty) =
   [command_request ''token'' ''k'' (C_lifecycle ''e'' Pause_Sales)]"
proof -
  let ?m = "event_lifecycle ''e''" and ?v = "(''e'', Act Pause_Sales, None :: string option)"
  let ?rs = "mutate_all (\<lambda>_. []) ?m ''token'' ?v [(''k'', None), (''k2'', None)] Map.empty"
  have "?rs \<noteq> []" by (simp add: split_beta)
  then have "foldl (\<lambda>log r. List.insert r log) [] ?rs = List.insert (command_request ''token'' ''k'' (im_call ?m ?v)) []"
    by (intro retries_have_one_effect [where store = Map.empty and awaited = None and es = "[(''k2'', None)]" and to_text = "\<lambda>_. []"])
      simp_all
  then show ?thesis by (simp add: event_lifecycle_def)
qed

lemma getIntentKey_inline: "store intent \<noteq> Some [] \<Longrightarrow> getIntentKey store intent created = take_or_create store intent created"
  by (cases "store intent") (auto simp: getIntentKey_def take_or_create_def truthy_str_def fun_upd_idem)

lemma attempts_agree:
  "store intent \<noteq> Some [] \<Longrightarrow> \<forall>fc \<in> set fcs. fst fc \<noteq> [] \<Longrightarrow>
   attempts getIntentKey clearIntentKey intent fcs store = attempts take_or_create clearIntentKey intent fcs store"
proof (induction fcs arbitrary: store)
  case Nil
  then show ?case by simp
next
  case (Cons fc fcs)
  let ?a = "attempt take_or_create clearIntentKey intent fc store"
  have same: "attempt getIntentKey clearIntentKey intent fc store = ?a"
    using getIntentKey_inline [of store intent] Cons.prems(1) by (simp add: attempt_def)
  have "snd ?a intent \<noteq> Some []"
    using Cons.prems by (cases "store intent"; cases "snd fc") (auto simp: attempt_def take_or_create_def clearIntentKey_def Let_def)
  with Cons same show ?case by (simp add: split_beta)
qed

text \<open>
  The three applications keep their keys in the same way: for any sequence of attempts of an
  intent, with any outcomes, the selector's functions and the code written inline in the scanner
  and in the organiser application produce the same keys and end in the same store, as long as no
  key is empty.
\<close>

theorem key_stores_agree:
  assumes "store intent \<noteq> Some []" and "\<forall>fc \<in> set fcs. fst fc \<noteq> []"
  shows "attempts getIntentKey clearIntentKey intent fcs store = attempts take_or_create clearIntentKey intent fcs store"
  using assms by (rule attempts_agree)

theorem key_stores_agree_witness:
  "fst (attempts getIntentKey clearIntentKey ''i'' [(''a'', Ambiguous), (''b'', Definite), (''c'', Definite)] Map.empty) =
   [''a'', ''a'', ''c'']"
proof -
  have "attempts getIntentKey clearIntentKey ''i'' [(''a'', Ambiguous), (''b'', Definite), (''c'', Definite)] Map.empty =
      attempts take_or_create clearIntentKey ''i'' [(''a'', Ambiguous), (''b'', Definite), (''c'', Definite)] Map.empty"
    by (rule key_stores_agree) simp_all
  then show ?thesis by (simp only:) (simp add: attempt_def take_or_create_def clearIntentKey_def Let_def)
qed

section \<open>The organiser application and the scanner on a decision\<close>

definition label_for :: "presentation_tone \<Rightarrow> string \<Rightarrow> bool" where
  "label_for tone label =
     (case tone of PSuccess \<Rightarrow> label = ''Admitted'' | PWarning \<Rightarrow> label = ''Already admitted''
      | PDanger \<Rightarrow> label = ''Invalid'' \<or> label = ''Rejected'' | PReady \<Rightarrow> label \<noteq> ''Admitted'')"

text \<open>
  What the gate is told and what the organiser reads agree: for any result the admissions
  page says "Admitted" exactly when the scanner says to admit the guest, "Already admitted" when
  it warns, and "Invalid" or "Rejected" when it refuses.
\<close>

theorem decisions_labelled_alike:
  "let tone = op_tone (outcomePresentation local_time (Some r) False n) in
     label_for tone (admissionLabel (sr_result r)) \<and> (tone = PSuccess \<longleftrightarrow> admissionLabel (sr_result r) = ''Admitted'')"
  by (simp add: outcomePresentation_def presentation_def admitted_codes_def invalid_codes_def admissionLabel_def
      admission_labels_def label_for_def)

section \<open>From the selector to the seller\<close>

text \<open>
  C10: The reservation that a buyer hands off is the reservation that is paid for. Let the selector's
  form arrive at the sample storefront, whole (at most 16384 characters, in any chunks), for a reservation
  with an identifier of the backend's form, with the cookie of a visitor's connection. Then the API is asked
  for that reservation with the connection's credential, and the visitor either gets an error, never
  when the API knows the reservation and the storefront can seal cookies, or is sent on with a
  sealed checkout whose first payment call names the reservation held in the selector and carries
  its token and the connection's credential.
\<close>

theorem handed_off_reservation_is_paid_for:
  assumes "selection_step le date_parse offset session s eff s'" and "SubmitForm url form_fields \<in> set eff"
    and "held_hold (sy_state s) = Some h" and "prefix ''res_'' (hold_id h)" and "reservation_token h \<noteq> []"
    and "concat chunks = form_text form_fields" and "length (concat chunks) \<le> 16384"
    and "activeConnection env header = Some c" and "sn_credential c \<noteq> []" and "plain_target new_url ''/checkout/return''"
  shows "\<exists>r resp.
    run_act [[(t, answer)]] (listener new_url env site built exists_file (return_request header chunks)) = ([r], Some (Inr resp)) \<and>
    up_url r = sf_apiBase (sx_cfg env) @ ''/api/v1/partner/reservations/'' @ encodeURIComponent (hold_id h) \<and>
    map_of (up_headers r) ''authorization'' = Some (''Bearer '' @ sn_credential c) \<and>
    ((\<exists>e. resp = sendError e) \<and> \<not> (reservation_known answer \<and> encryptionKey (sx_box env) (sx_cfg env) \<noteq> None) \<or>
     (\<exists>b cookie q. resp = redirect (sf_publicURL (sx_cfg env) @ ''/checkout'') (Some cookie) \<and> cookieFor env b = Some cookie \<and>
        begin_request (sx_cfg env) b = Some q \<and> up_url q = up_url r @ ''/checkout'' \<and>
        map_of (up_headers q) ''x-tktsync-reservation-token'' = Some (reservation_token h) \<and>
        map_of (up_headers q) ''authorization'' = Some (''Bearer '' @ sn_credential c)))"
proof -
  have "form_fields = [(''reservation_id'', hold_id h), (''reservation_token'', reservation_token h)]"
    using handed_off_fields [OF assms(1,2)] assms(3) by auto
  then have form: "concat chunks = form_text [(''reservation_id'', hold_id h), (''reservation_token'', reservation_token h)]"
    using assms(6) by simp
  let ?out = "return_outcome env c (hold_id h) (reservation_token h) answer"
  obtain r where r: "up_url r = sf_apiBase (sx_cfg env) @ ''/api/v1/partner/reservations/'' @ encodeURIComponent (hold_id h)"
    "map_of (up_headers r) ''authorization'' = Some (''Bearer '' @ sn_credential c)"
    "run_act [[(t, answer)]] (listener new_url env site built exists_file (return_request header chunks)) = ([r], Some (Inr ?out))"
    using return_answered [OF form assms(7,4,5,8,9,10)] by blast
  have q: "\<exists>q. begin_request (sx_cfg env) (new_session env c (hold_id h) (reservation_token h) event) = Some q \<and>
      up_url q = up_url r @ ''/checkout'' \<and>
      map_of (up_headers q) ''x-tktsync-reservation-token'' = Some (reservation_token h) \<and>
      map_of (up_headers q) ''authorization'' = Some (''Bearer '' @ sn_credential c)" for event
  proof -
    obtain q where "begin_request (sx_cfg env) (new_session env c (hold_id h) (reservation_token h) event) = Some q"
      "up_url q = sf_apiBase (sx_cfg env) @ ''/api/v1/partner/reservations/'' @ encodeURIComponent (hold_id h) @ ''/checkout''"
      "map_of (up_headers q) ''x-tktsync-reservation-token'' = Some (reservation_token h)"
      "map_of (up_headers q) ''authorization'' = Some (''Bearer '' @ sn_credential c)"
      using assms(5,9)
      by (simp add: begin_request_def partner_request_def begin_options_def new_session_def reservation_path_def)
    moreover from this(2) have "up_url q = up_url r @ ''/checkout''" by (simp add: r(1))
    ultimately show ?thesis by blast
  qed
  from return_outcome_cases [of env c "hold_id h" "reservation_token h" answer] show ?thesis
  proof (elim disjE exE conjE)
    fix e assume "?out = sendError e" "\<not> (reservation_known answer \<and> encryptionKey (sx_box env) (sx_cfg env) \<noteq> None)"
    then show ?thesis using r by blast
  next
    fix event cookie
    assume "cookieFor env (new_session env c (hold_id h) (reservation_token h) event) = Some cookie"
      "?out = redirect (sf_publicURL (sx_cfg env) @ ''/checkout'') (Some cookie)"
    then show ?thesis using r q [of event] by blast
  qed
qed

definition handed_hold :: hold where
  "handed_hold = sample_hold\<lparr>hold_id := ''res_1''\<rparr>"

theorem handed_off_reservation_is_paid_for_witness:
  "\<exists>b q. begin_request (sx_cfg (sample_env (saved_json one_saved))) b = Some q \<and>
     map_of (up_headers q) ''x-tktsync-reservation-token'' = Some ''t1'' \<and>
     map_of (up_headers q) ''authorization'' = Some ''Bearer secret''"
proof -
  let ?s = "\<lparr>sy_state = (initial_selection 1000)\<lparr>held_hold := Some handed_hold\<rparr>, sy_offers = [], sy_inflight = []\<rparr>"
  let ?fields = "[(''reservation_id'', ''res_1''), (''reservation_token'', ''t1'')]"
  let ?env = "sample_env (saved_json one_saved)" and ?header = "Some ''northstar_connections=x''"
  let ?shop = "\<lparr>sn_id = ''c1'', sn_name = ''Shop'', sn_credential = ''secret''\<rparr>"
  have "handoff (\<lambda>_. Some 5000) 0 (Some sample_session) (sy_state ?s) =
      ((sy_state ?s)\<lparr>handoffPending := True\<rparr>, [SubmitForm ''https://seller/back'' ?fields])"
    by (simp add: handoff_def sample_session_def handed_hold_def sample_hold_def initial_selection_def holdExpired_def hold_deadline_def)
  note left = selection_step.hand_off [where le = any_order, OF this]
  have form: "concat [form_text ?fields] = form_text ?fields" "length (concat [form_text ?fields]) \<le> 16384"
    by (simp, code_simp)
  have "cookie_value ?header ''northstar_connections'' = ''x''" by code_simp
  then have shop: "activeConnection ?env ?header = Some ?shop"
    using saved_from_cookie by (simp add: activeConnection_def one_saved_def add_connection_def read_saved_def js_get_def js_array_def)
  have "prefix ''res_'' (hold_id handed_hold)" "held_hold (sy_state ?s) = Some handed_hold" "reservation_token handed_hold = ''t1''"
    by (simp_all add: handed_hold_def sample_hold_def)
  note hold = this
  have "SubmitForm ''https://seller/back'' ?fields \<in> set [SubmitForm ''https://seller/back'' ?fields]" by simp
  note submitted = this
  have target: "plain_target (\<lambda>target base. Some target) ''/checkout/return''" by (simp add: plain_target_def)
  have "reservation_known (Answered_With 200 (Some (JObj [])))" by (simp add: reservation_known_def)
  with handed_off_reservation_is_paid_for
    [OF left submitted hold(2,1) _ form shop _ target, of 0 "Answered_With 200 (Some (JObj []))" "[]" False "\<lambda>_. False"]
  show ?thesis by (simp add: hold(3) sample_key) blast
qed

end
